(* ===== verification/Prelude.thy ===== *)
theory Prelude
  imports Main "HOL-Library.AList" "HOL-Library.Char_ord" "HOL-Library.List_Lexorder"
    "HOL-Library.Product_Lexorder"
begin

text \<open>
  Shared vocabulary of the development: the error sum and its two combinators, tables keyed by
  a primary key (association lists, as SQLite keeps one row per key), Go's 64-bit integers with
  their wrap-around, byte strings, and the generic lemmas the components use. The collections
  \<open>result_simps\<close> and \<open>table_simps\<close> carry most component proofs.
\<close>

named_theorems result_simps
named_theorems table_simps

section \<open>Definitions\<close>

subsection \<open>Fallible computations\<close>

text \<open>
  A Go function that returns a value and an error is a function into \<open>'e + 'a\<close>, \<open>Inl\<close> being the
  error. \<open>rbind\<close> is the sequence ``call, return the error if there is one, go on'', \<open>ensure\<close> the
  guard ``return this error unless the condition holds''.
\<close>

definition rbind :: "'e + 'a \<Rightarrow> ('a \<Rightarrow> 'e + 'b) \<Rightarrow> 'e + 'b" where
  "rbind m f = (case m of Inl e \<Rightarrow> Inl e | Inr x \<Rightarrow> f x)"

definition ensure :: "bool \<Rightarrow> 'e \<Rightarrow> 'e + unit" where
  "ensure b e = (if b then Inr () else Inl e)"

definition map_error :: "('e \<Rightarrow> 'f) \<Rightarrow> 'e + 'a \<Rightarrow> 'f + 'a" where
  "map_error f m = (case m of Inl e \<Rightarrow> Inl (f e) | Inr x \<Rightarrow> Inr x)"

text \<open>A loop that stops at the first error.\<close>

fun rfold :: "('a \<Rightarrow> 's \<Rightarrow> 'e + 's) \<Rightarrow> 'a list \<Rightarrow> 's \<Rightarrow> 'e + 's" where
  "rfold f [] s = Inr s"
| "rfold f (x # xs) s = rbind (f x s) (rfold f xs)"

subsection \<open>Tables\<close>

text \<open>
  A table is an association list whose keys are distinct (\<open>pk\<close>): the primary key of the SQL
  schema. A write keeps the row's place, a new row goes to the end.
\<close>

type_synonym ('k, 'r) table = "('k \<times> 'r) list"

definition pk :: "('k, 'r) table \<Rightarrow> bool" where
  "pk t = distinct (map fst t)"

definition row_at :: "('k, 'r) table \<Rightarrow> 'k \<Rightarrow> 'r option" where
  "row_at t k = map_of t k"

definition put_row :: "'k \<Rightarrow> 'r \<Rightarrow> ('k, 'r) table \<Rightarrow> ('k, 'r) table" where
  "put_row k r t = AList.update k r t"

definition del_row :: "'k \<Rightarrow> ('k, 'r) table \<Rightarrow> ('k, 'r) table" where
  "del_row k t = filter (\<lambda>e. fst e \<noteq> k) t"

definition map_rows :: "('r \<Rightarrow> 'r) \<Rightarrow> ('k, 'r) table \<Rightarrow> ('k, 'r) table" where
  "map_rows f t = map (\<lambda>e. (fst e, f (snd e))) t"

subsection \<open>Machine integers, times and strings\<close>

text \<open>Go's \<open>int64\<close>: the two's-complement value of an integer.\<close>

definition i64 :: "int \<Rightarrow> int" where
  "i64 x = (x + 2 ^ 63) mod 2 ^ 64 - 2 ^ 63"

definition max_int64 :: int where
  "max_int64 = 2 ^ 63 - 1"

definition in_int64 :: "int \<Rightarrow> bool" where
  "in_int64 x \<longleftrightarrow> - (2 ^ 63) \<le> x \<and> x < 2 ^ 63"

text \<open>
  Durations and instants are nanosecond counts; \<open>UnixMilli\<close> rounds an instant down to a
  millisecond, as \<open>time.Time.UnixMilli\<close> does. Go divides durations towards zero.
\<close>

definition Millisecond :: int where
  "Millisecond = 1000000"

definition Second :: int where
  "Second = 1000 * Millisecond"

definition Hour :: int where
  "Hour = 3600 * Second"

definition UnixMilli :: "int \<Rightarrow> int" where
  "UnixMilli t = t div Millisecond"

definition go_div :: "int \<Rightarrow> int \<Rightarrow> int" where
  "go_div a b = sgn a * sgn b * (\<bar>a\<bar> div \<bar>b\<bar>)"

text \<open>Decimal rendering (\<open>strconv.FormatInt\<close> with base 10).\<close>

fun dec_digits :: "nat \<Rightarrow> string" where
  "dec_digits n =
     (if n < 10 then [char_of (48 + n)] else dec_digits (n div 10) @ [char_of (48 + n mod 10)])"

definition format_int :: "int \<Rightarrow> string" where
  "format_int i = (if i < 0 then CHR ''-'' # dec_digits (nat (- i)) else dec_digits (nat i))"

declare dec_digits.simps [simp del]

text \<open>\<open>strings.Join\<close> and \<open>strings.Split\<close> at one separator byte.\<close>

fun join :: "'a list \<Rightarrow> 'a list list \<Rightarrow> 'a list" where
  "join sep [] = []"
| "join sep [x] = x"
| "join sep (x # y # ys) = x @ sep @ join sep (y # ys)"

fun split_at :: "'a \<Rightarrow> 'a list \<Rightarrow> 'a list list" where
  "split_at c [] = [[]]"
| "split_at c (x # xs) =
     (if x = c then [] # split_at c xs
      else case split_at c xs of [] \<Rightarrow> [[x]] | w # ws \<Rightarrow> (x # w) # ws)"

text \<open>\<open>strings.Contains\<close> and ASCII lower case.\<close>

fun contains :: "'a list \<Rightarrow> 'a list \<Rightarrow> bool" where
  "contains p [] = (p = [])"
| "contains p (x # xs) = (take (length p) (x # xs) = p \<or> contains p xs)"

definition ascii_lower :: "string \<Rightarrow> string" where
  "ascii_lower s = map (\<lambda>c. let b = (of_char c :: nat) in
     if 65 \<le> b \<and> b \<le> 90 then char_of (b + 32) else c) s"

section \<open>Lemmas\<close>

subsection \<open>Fallible computations\<close>

lemma rbind_simps [simp, result_simps]:
  "rbind (Inl e) f = Inl e"
  "rbind (Inr x) f = f x"
  by (simp_all add: rbind_def)

lemma rbind_eq_Inr [result_simps]: "rbind m f = Inr y \<longleftrightarrow> (\<exists>x. m = Inr x \<and> f x = Inr y)"
  by (simp add: rbind_def split: sum.splits)

lemma rbind_eq_Inl [result_simps]:
  "rbind m f = Inl e \<longleftrightarrow> m = Inl e \<or> (\<exists>x. m = Inr x \<and> f x = Inl e)"
  by (auto simp: rbind_def split: sum.splits)

lemma ensure_eq [simp, result_simps]:
  "ensure b e = Inr u \<longleftrightarrow> b"
  "ensure b e = Inl e' \<longleftrightarrow> \<not> b \<and> e' = e"
  by (auto simp: ensure_def)

lemma ensure_true [simp]: "ensure True e = Inr ()"
  by simp

lemma ensure_false [simp]: "ensure False e = Inl e"
  by simp

lemma map_error_eq [simp, result_simps]:
  "map_error f m = Inr x \<longleftrightarrow> m = Inr x"
  "map_error f m = Inl e \<longleftrightarrow> (\<exists>e'. m = Inl e' \<and> e = f e')"
  by (auto simp: map_error_def split: sum.splits)

lemma map_error_simps [simp]:
  "map_error f (Inr x) = Inr x"
  "map_error f (Inl e) = Inl (f e)"
  by (simp_all add: map_error_def)

text \<open>An invariant of a loop body is an invariant of the loop.\<close>

lemma rfold_invariant:
  assumes "rfold f xs s = Inr s'" and "P s"
    and "\<And>x s s'. x \<in> set xs \<Longrightarrow> P s \<Longrightarrow> f x s = Inr s' \<Longrightarrow> P s'"
  shows "P s'"
  using assms by (induction xs arbitrary: s) (auto simp: rbind_eq_Inr)

subsection \<open>Tables\<close>

lemma row_at_put [simp, table_simps]:
  "row_at (put_row k r t) k' = (if k' = k then Some r else row_at t k')"
  by (simp add: row_at_def put_row_def update_conv')

lemma row_at_del [simp, table_simps]:
  "row_at (del_row k t) k' = (if k' = k then None else row_at t k')"
  by (induction t) (auto simp: row_at_def del_row_def)

lemma row_at_map [simp, table_simps]: "row_at (map_rows f t) k = map_option f (row_at t k)"
  by (induction t) (auto simp: row_at_def map_rows_def)

lemma row_at_Nil [simp]: "row_at [] k = None"
  by (simp add: row_at_def)

lemma row_at_append [simp, table_simps]:
  "row_at t k = None \<Longrightarrow> row_at (t @ [(k, r)]) k' = (if k' = k then Some r else row_at t k')"
  by (auto simp: row_at_def map_add_def split: option.splits)

lemma pk_Nil [simp]: "pk []"
  by (simp add: pk_def)

lemma pk_put [simp, table_simps]: "pk t \<Longrightarrow> pk (put_row k r t)"
  by (simp add: pk_def put_row_def distinct_update)

lemma pk_del [simp, table_simps]: "pk t \<Longrightarrow> pk (del_row k t)"
  by (induction t) (auto simp: pk_def del_row_def)

lemma pk_map [simp, table_simps]: "pk (map_rows f t) = pk t"
  by (simp add: pk_def map_rows_def comp_def)

lemma row_at_in_set: "row_at t k = Some r \<Longrightarrow> (k, r) \<in> set t"
  by (simp add: row_at_def map_of_SomeD)

lemma row_at_eq_iff: "pk t \<Longrightarrow> (k, r) \<in> set t \<longleftrightarrow> row_at t k = Some r"
  by (simp add: pk_def row_at_def)

lemma row_at_eqD: "pk t \<Longrightarrow> (k, r) \<in> set t \<Longrightarrow> row_at t k = Some r"
  by (simp add: row_at_eq_iff)

text \<open>The tables promise the usual laws of a finite map; components rely only on these.\<close>

locale keyed_table =
  fixes get :: "'t \<Rightarrow> 'k \<Rightarrow> 'r option"
    and put :: "'k \<Rightarrow> 'r \<Rightarrow> 't \<Rightarrow> 't"
    and del :: "'k \<Rightarrow> 't \<Rightarrow> 't"
    and wf :: "'t \<Rightarrow> bool"
  assumes get_put: "get (put k r t) k' = (if k' = k then Some r else get t k')"
    and get_del: "get (del k t) k' = (if k' = k then None else get t k')"
    and wf_put: "wf t \<Longrightarrow> wf (put k r t)"
    and wf_del: "wf t \<Longrightarrow> wf (del k t)"
begin

lemma put_put_commute:
  "k \<noteq> k' \<Longrightarrow> get (put k r (put k' r' t)) = get (put k' r' (put k r t))"
  by (rule ext) (simp add: get_put)

lemma del_many: "get (fold del ks t) k = (if k \<in> set ks then None else get t k)"
  by (induction ks arbitrary: t) (auto simp: get_del)

lemma wf_del_many: "wf t \<Longrightarrow> wf (fold del ks t)"
  by (induction ks arbitrary: t) (auto simp: wf_del)

end

interpretation tbl: keyed_table row_at put_row del_row pk
  by unfold_locales simp_all

subsection \<open>Integers\<close>

lemma i64_id [simp]: "in_int64 x \<Longrightarrow> i64 x = x"
  by (simp add: i64_def in_int64_def)

lemma i64_range: "in_int64 (i64 x)"
proof -
  have "0 \<le> (x + 2 ^ 63) mod 2 ^ 64" and "(x + 2 ^ 63) mod 2 ^ 64 < 2 ^ 64"
    by simp_all
  then show ?thesis unfolding i64_def in_int64_def by simp
qed

lemma go_div_nonneg: "0 \<le> a \<Longrightarrow> 0 < b \<Longrightarrow> go_div a b = a div b"
  by (cases "a = 0") (simp_all add: go_div_def)

lemma dec_digits_digit: "c \<in> set (dec_digits n) \<Longrightarrow> 48 \<le> (of_char c :: nat) \<and> (of_char c :: nat) \<le> 57"
proof (induction n rule: dec_digits.induct)
  case (1 n)
  show ?case
  proof (cases "n < 10")
    case True
    with 1(2) show ?thesis by (simp add: dec_digits.simps [of n] of_char_of)
  next
    case False
    have "48 + n mod 10 < 256" by simp
    with False 1 show ?thesis
      by (auto simp: dec_digits.simps [of n] of_char_of)
  qed
qed

lemma split_at_not_Nil [simp]: "split_at c xs \<noteq> []"
  by (cases xs) (auto split: list.splits)

lemma contains_append: "contains p (xs @ p @ ys)"
proof (induction xs)
  case Nil
  show ?case
  proof (cases "p @ ys")
    case (Cons x zs)
    then have "take (length p) (x # zs) = p" by (metis append_eq_conv_conj)
    with Cons show ?thesis by simp
  qed simp
qed simp

lemma contains_iff: "contains p s \<longleftrightarrow> (\<exists>xs ys. s = xs @ p @ ys)"
proof
  show "contains p s \<Longrightarrow> \<exists>xs ys. s = xs @ p @ ys"
  proof (induction s)
    case (Cons x s)
    then consider "take (length p) (x # s) = p" | "contains p s" by auto
    then show ?case
    proof cases
      case 1
      then have "x # s = [] @ p @ drop (length p) (x # s)"
        using append_take_drop_id [of "length p" "x # s"] by simp
      then show ?thesis by blast
    next
      case 2
      with Cons.IH obtain xs ys where "s = xs @ p @ ys" by blast
      then have "x # s = (x # xs) @ p @ ys" by simp
      then show ?thesis by blast
    qed
  qed simp
qed (auto simp: contains_append)

lemma dec_digits_not_Nil [simp]: "dec_digits n \<noteq> []"
  by (simp add: dec_digits.simps [of n])

end
