(* ===== verification/Contract.thy ===== *)
theory Contract
  imports Prelude
begin

text \<open>
  The client-facing vocabulary (\<open>internal/contract\<close>): submission statuses, the stable error
  taxonomy with its validation and default retryability, progress events and terminal results;
  and Go's error values, with the sentinels of the packages and \<open>errors.Is\<close>.
\<close>

section \<open>Definitions\<close>

subsection \<open>Statuses\<close>

text \<open>
  \<open>contract.Status\<close> is a Go string type; the nine named statuses are constructors and any other
  text is \<open>StatusUnknown\<close>. \<open>status_text\<close> and \<open>status_of_text\<close> are the conversions the store
  makes when it writes and reads the \<open>status\<close> column.
\<close>

datatype status =
    StatusAccepted | StatusQueued | StatusRunning | StatusInputRequired | StatusCompleted
  | StatusFailed | StatusCancelled | StatusExpired | StatusOutcomeUnknown
  | StatusUnknown string

fun status_text :: "status \<Rightarrow> string" where
  "status_text StatusAccepted = ''accepted''"
| "status_text StatusQueued = ''queued''"
| "status_text StatusRunning = ''running''"
| "status_text StatusInputRequired = ''input_required''"
| "status_text StatusCompleted = ''completed''"
| "status_text StatusFailed = ''failed''"
| "status_text StatusCancelled = ''cancelled''"
| "status_text StatusExpired = ''expired''"
| "status_text StatusOutcomeUnknown = ''outcome_unknown''"
| "status_text (StatusUnknown s) = s"

definition named_statuses :: "status list" where
  "named_statuses = [StatusAccepted, StatusQueued, StatusRunning, StatusInputRequired,
     StatusCompleted, StatusFailed, StatusCancelled, StatusExpired, StatusOutcomeUnknown]"

definition status_of_text :: "string \<Rightarrow> status" where
  "status_of_text s =
     (case find (\<lambda>st. status_text st = s) named_statuses of
        Some st \<Rightarrow> st | None \<Rightarrow> StatusUnknown s)"

subsection \<open>Error taxonomy\<close>

datatype code =
    CodeInvalidRequest | CodeOperationNotAllowed | CodeOperationContractMismatch
  | CodeIdempotencyConflict | CodeSubmissionNotFound | CodeSubmissionExpired
  | CodeAuthenticationRequired | CodeAuthorizationFailed | CodeProtocolMismatch
  | CodeUpstreamUnavailable | CodeUpstreamExecutionFailed | CodeOutcomeUnknown
  | CodeResultTooLarge | CodeStateUnavailable | CodeInternal | CodeNotImplemented
  | CodeUnknown string

fun Code_Valid :: "code \<Rightarrow> bool" where
  "Code_Valid (CodeUnknown _) = False"
| "Code_Valid _ = True"

record contract_error =
  ce_Code :: code
  ce_Message :: string
  ce_Retryable :: bool

fun defaultRetryable :: "code \<Rightarrow> bool" where
  "defaultRetryable CodeUpstreamUnavailable = True"
| "defaultRetryable _ = False"

definition NewError :: "code \<Rightarrow> string \<Rightarrow> contract_error" where
  "NewError c m = \<lparr>ce_Code = c, ce_Message = m, ce_Retryable = defaultRetryable c\<rparr>"

subsection \<open>Go errors\<close>

text \<open>
  The sentinel errors the packages compare with \<open>errors.Is\<close>, the two structured errors of
  package \<open>submission\<close>, and \<open>fmt.Errorf\<close> with the errors it wraps with \<open>%w\<close> (a text after
  \<open>%v\<close> or \<open>%s\<close> is part of the message and not wrapped). \<open>ContractErr\<close> is
  \<open>application.BoundaryError\<close>, the carrier of a stable error, and \<open>ExitErr\<close> is \<open>bootstrap.ExitError\<close>, which
  adds a command exit status. The last sentinels are error numbers of the operating system.
\<close>

datatype sentinel =
    ErrNotFound | ErrStateUnavailable | ErrIdempotencyConflict | ErrConcurrentUpdate
  | ErrLeaseNotOwned | ErrBusy | ErrResultTooLarge | ErrUnsupportedSchema
  | ErrInputResponseConflict | ErrTaskIDConflict
  | ErrLeaseHeld | ErrNotRunnable | ErrLeaseLost | ErrExecutionDeferred
  | ErrAuthenticationRequired | ErrProtocolMismatch | ErrCatalogMismatch
  | ErrUnexpectedTaskResult | ErrTaskUnavailable | ErrOperationNotAllowed
  | ErrSecureStateUnavailable | ErrSubscriptionUnavailable | ErrTaskNotSubscribed
  | ErrTokenContended | ErrCanceled | ErrDeadlineExceeded | ErrSQLNoRows
  | ErrNoCredentials | ErrGrantInvalid | ErrBackendUnavailable | ErrMetadata | ErrLeaseContention
  | ErrScopeMismatch | ErrProfileNotFound | ErrProfileExists | ErrCancelled | ErrIncomplete | ErrBootstrapBusy
  | ErrLoginBusy | ErrProfileOutdated | ErrCallbackTimeout | ErrCallbackCancelled
  | ErrCredentialUnavailable | ErrKeyNotFound | ErrMetadataNotSupported | ErrDefaultCollectionMissing
  | ErrCollectionLocked | ErrLegacyConflict | ErrLegacyMissing | ErrDuplicateItem
  | ENOENT | EEXIST | ENOTDIR | ELOOP

text \<open>The failure classes of \<open>upstream.Error\<close>, which wraps its cause.\<close>

datatype kind = KindTransport | KindHTTP | KindAuth | KindProtocol | KindTooLarge

datatype go_error =
    Sentinel sentinel
  | IllegalTransition status status
  | SequenceError int string
  | ContractErr contract_error
  | UpstreamErr kind int go_error
  | ExitErr int go_error
  | Errorf string "go_error list"

fun errors_Is :: "go_error \<Rightarrow> sentinel \<Rightarrow> bool" where
  "errors_Is (Sentinel s) t = (s = t)"
| "errors_Is (Errorf _ ws) t = (\<exists>w \<in> set ws. errors_Is w t)"
| "errors_Is (UpstreamErr _ _ cause) t = errors_Is cause t"
| "errors_Is (ExitErr _ e) t = errors_Is e t"
| "errors_Is _ t = False"

definition errors_New :: "string \<Rightarrow> go_error" where
  "errors_New m = Errorf m []"

text \<open>\<open>contract.Error.Validate\<close>.\<close>

definition Error_Validate :: "contract_error \<Rightarrow> go_error + unit" where
  "Error_Validate e =
     (if \<not> Code_Valid (ce_Code e) then Inl (errors_New ''unknown error code'')
      else if ce_Message e = '''' then Inl (errors_New ''error message is required'')
      else if length (ce_Message e) > 1024
        then Inl (errors_New ''error message exceeds 1024 bytes'')
      else Inr ())"

subsection \<open>Progress events\<close>

text \<open>
  A timestamp is kept as the text \<open>time.Time\<close> marshals to: events are only stored, compared by
  sequence and rendered.
\<close>

record step =
  step_Current :: int
  step_Total :: int
  step_Label :: string

record event =
  ev_SubmissionID :: string
  ev_Sequence :: int
  ev_Timestamp :: string
  ev_State :: status
  ev_Step :: "step option"
  ev_Message :: string

section \<open>Lemmas\<close>

lemma status_of_text_text: "st \<in> set named_statuses \<Longrightarrow> status_of_text (status_text st) = st"
proof -
  have "list_all (\<lambda>st. status_of_text (status_text st) = st) named_statuses"
    by code_simp
  then show "st \<in> set named_statuses \<Longrightarrow> ?thesis"
    by (simp add: list_all_iff)
qed

lemma status_text_of_text: "status_text (status_of_text s) = s"
  by (auto simp: status_of_text_def find_Some_iff split: option.splits)

lemma errors_Is_Errorf1 [simp]: "errors_Is (Errorf m [e]) t = errors_Is e t"
  by simp

lemma errors_Is_New [simp]: "\<not> errors_Is (errors_New m) t"
  by (simp add: errors_New_def)

lemma NewError_sel [simp]:
  "ce_Code (NewError c m) = c"
  "ce_Message (NewError c m) = m"
  "ce_Retryable (NewError c m) = defaultRetryable c"
  by (simp_all add: NewError_def)

lemma Error_Validate_iff:
  "Error_Validate e = Inr u \<longleftrightarrow>
     Code_Valid (ce_Code e) \<and> ce_Message e \<noteq> '''' \<and> length (ce_Message e) \<le> 1024"
  by (auto simp: Error_Validate_def)

lemma defaultRetryable_iff: "defaultRetryable c \<longleftrightarrow> c = CodeUpstreamUnavailable"
  by (cases c) simp_all

end
