(* ===== verification/Json.thy ===== *)
theory Json
  imports Contract
begin

text \<open>
  JSON values and their canonical form (\<open>internal/jsonvalue\<close>), with the parts of
  \<open>encoding/json\<close> the program uses. A \<open>json.RawMessage\<close> is a value tree: members keep their order
  and may repeat, numbers are literals. \<open>json.Decoder.Token\<close> turns a message into the token stream
  \<open>tokens\<close>; \<open>decodeValue\<close> reads it back the way the source does, rejecting repeated members;
  \<open>encode\<close> is \<open>json.Marshal\<close> with its escaping; \<open>jsonDepth\<close> is the byte scan of
  \<open>internal/store/validation.go\<close>.
\<close>

section \<open>Definitions\<close>

subsection \<open>Values and tokens\<close>

datatype json =
    JNull
  | JBool bool
  | JNum string
  | JStr string
  | JArr "json list"
  | JObj "(string \<times> json) list"

datatype token = TNull | TBool bool | TString string | TNumber string | TDelim char

fun tokens :: "json \<Rightarrow> token list" where
  "tokens JNull = [TNull]"
| "tokens (JBool b) = [TBool b]"
| "tokens (JNum s) = [TNumber s]"
| "tokens (JStr s) = [TString s]"
| "tokens (JArr vs) = TDelim CHR ''['' # concat (map tokens vs) @ [TDelim CHR '']'']"
| "tokens (JObj ms) =
     TDelim CHR ''{'' # concat (map (\<lambda>m. TString (fst m) # tokens (snd m)) ms)
       @ [TDelim CHR ''}'']"

text \<open>\<open>dec.More()\<close>: there is a next token and it is not a closing delimiter.\<close>

fun More :: "token list \<Rightarrow> bool" where
  "More [] = False"
| "More (t # ts) = (t \<noteq> TDelim CHR '']'' \<and> t \<noteq> TDelim CHR ''}'')"

definition consumeClosing :: "token list \<Rightarrow> char \<Rightarrow> go_error + token list" where
  "consumeClosing ts want =
     (case ts of
        [] \<Rightarrow> Inl (errors_New ''EOF'')
      | t # ts' \<Rightarrow> if t = TDelim want then Inr ts'
                  else Inl (errors_New ''unexpected token after JSON value''))"

text \<open>
  The recursive descent over the token stream. The fuel bounds the nesting of calls; twice the
  number of tokens is always enough (\<open>decodeValue_enough\<close>).
\<close>

fun decodeValue :: "nat \<Rightarrow> token list \<Rightarrow> go_error + json \<times> token list"
  and decodeArray :: "nat \<Rightarrow> json list \<Rightarrow> token list \<Rightarrow> go_error + json \<times> token list"
  and decodeObject :: "nat \<Rightarrow> (string \<times> json) list \<Rightarrow> token list \<Rightarrow> go_error + json \<times> token list"
where
  "decodeValue 0 ts = Inl (errors_New ''fuel'')"
| "decodeValue (Suc n) [] = Inl (errors_New ''EOF'')"
| "decodeValue (Suc n) (t # ts) =
     (case t of
        TNull \<Rightarrow> Inr (JNull, ts)
      | TBool b \<Rightarrow> Inr (JBool b, ts)
      | TString s \<Rightarrow> Inr (JStr s, ts)
      | TNumber s \<Rightarrow> Inr (JNum s, ts)
      | TDelim c \<Rightarrow>
          if c = CHR ''['' then decodeArray n [] ts
          else if c = CHR ''{'' then decodeObject n [] ts
          else Inl (errors_New ''unexpected delimiter''))"
| "decodeArray 0 acc ts = Inl (errors_New ''fuel'')"
| "decodeArray (Suc n) acc ts =
     (if More ts
      then rbind (decodeValue n ts) (\<lambda>r. decodeArray n (acc @ [fst r]) (snd r))
      else rbind (consumeClosing ts CHR '']'') (\<lambda>ts'. Inr (JArr acc, ts')))"
| "decodeObject 0 acc ts = Inl (errors_New ''fuel'')"
| "decodeObject (Suc n) acc ts =
     (if More ts
      then (case ts of
              TString k # ts' \<Rightarrow>
                if k \<in> fst ` set acc then Inl (errors_New ''duplicate object key'')
                else rbind (decodeValue n ts')
                       (\<lambda>r. decodeObject n (acc @ [(k, fst r)]) (snd r))
            | _ \<Rightarrow> Inl (errors_New ''object key is not a string''))
      else rbind (consumeClosing ts CHR ''}'') (\<lambda>ts'. Inr (JObj acc, ts')))"

text \<open>\<open>json.Marshal\<close> of a Go map orders the members by key, at every level.\<close>

fun sort_members :: "json \<Rightarrow> json" where
  "sort_members (JArr vs) = JArr (map sort_members vs)"
| "sort_members (JObj ms) = JObj (sort_key fst (map (\<lambda>m. (fst m, sort_members (snd m))) ms))"
| "sort_members v = v"

definition decode_all :: "token list \<Rightarrow> go_error + json" where
  "decode_all ts =
     rbind (decodeValue (2 * length ts + 1) ts) (\<lambda>r.
     rbind (ensure (snd r = []) (errors_New ''trailing data after JSON value'')) (\<lambda>_.
     Inr (fst r)))"

text \<open>
  \<open>Canonical\<close>. An absent message (zero length) is canonicalised to \<open>null\<close>.
\<close>

definition Canonical :: "token list \<Rightarrow> go_error + json" where
  "Canonical ts = (if ts = [] then Inr JNull else rbind (decode_all ts) (\<lambda>v. Inr (sort_members v)))"

definition raw_tokens :: "json option \<Rightarrow> token list" where
  "raw_tokens r = (case r of None \<Rightarrow> [] | Some v \<Rightarrow> tokens v)"

subsection \<open>UTF-8 and the encoder\<close>

text \<open>
  The length of the well-formed UTF-8 sequence a byte string starts with, 0 when it starts with
  none (\<open>utf8.DecodeRune\<close> then reports \<open>RuneError\<close> of width 1).
\<close>

definition cont :: "nat \<Rightarrow> nat \<Rightarrow> nat \<Rightarrow> bool" where
  "cont lo hi b \<longleftrightarrow> lo \<le> b \<and> b \<le> hi"

fun utf8_len :: "nat list \<Rightarrow> nat" where
  "utf8_len [] = 0"
| "utf8_len (a # bs) =
     (if a < 0x80 then 1
      else if cont 0xC2 0xDF a then
        (case bs of b # _ \<Rightarrow> if cont 0x80 0xBF b then 2 else 0 | _ \<Rightarrow> 0)
      else if cont 0xE0 0xEF a then
        (case bs of b # c # _ \<Rightarrow>
           if cont (if a = 0xE0 then 0xA0 else 0x80) (if a = 0xED then 0x9F else 0xBF) b
              \<and> cont 0x80 0xBF c then 3 else 0
         | _ \<Rightarrow> 0)
      else if cont 0xF0 0xF4 a then
        (case bs of b # c # d # _ \<Rightarrow>
           if cont (if a = 0xF0 then 0x90 else 0x80) (if a = 0xF4 then 0x8F else 0xBF) b
              \<and> cont 0x80 0xBF c \<and> cont 0x80 0xBF d then 4 else 0
         | _ \<Rightarrow> 0)
      else 0)"

definition byte_of :: "char \<Rightarrow> nat" where
  "byte_of c = of_char c"

definition hex_digit :: "nat \<Rightarrow> char" where
  "hex_digit n = char_of (if n < 10 then 48 + n else 87 + n)"

definition escape_ascii :: "char \<Rightarrow> string" where
  "escape_ascii c =
     (let b = byte_of c in
      if c = CHR 0x22 \<or> c = CHR 0x5C then [CHR 0x5C, c]
      else if b = 8 then [CHR 0x5C, CHR ''b'']
      else if b = 12 then [CHR 0x5C, CHR ''f'']
      else if b = 10 then [CHR 0x5C, CHR ''n'']
      else if b = 13 then [CHR 0x5C, CHR ''r'']
      else if b = 9 then [CHR 0x5C, CHR ''t'']
      else if b < 0x20 \<or> c = CHR ''<'' \<or> c = CHR ''>'' \<or> c = CHR ''&''
        then [CHR 0x5C, CHR ''u'', CHR ''0'', CHR ''0'', hex_digit (b div 16), hex_digit (b mod 16)]
      else [c])"

function escape :: "string \<Rightarrow> string" where
  "escape [] = []"
| "escape (c # cs) =
     (if byte_of c < 0x80 then escape_ascii c @ escape cs
      else let n = utf8_len (map byte_of (c # cs)) in
        if n = 0 then CHR 0x5C # ''ufffd'' @ escape cs
        else if take 3 (c # cs) = [CHR 0xE2, CHR 0x80, CHR 0xA8]
          then CHR 0x5C # ''u2028'' @ escape (drop n (c # cs))
        else if take 3 (c # cs) = [CHR 0xE2, CHR 0x80, CHR 0xA9]
          then CHR 0x5C # ''u2029'' @ escape (drop n (c # cs))
        else take n (c # cs) @ escape (drop n (c # cs)))"
  by pat_completeness auto
termination
  by (relation "measure length") auto

declare escape.simps [simp del]

definition quote :: "string \<Rightarrow> string" where
  "quote s = CHR 0x22 # escape s @ [CHR 0x22]"

fun encode :: "json \<Rightarrow> string" where
  "encode JNull = ''null''"
| "encode (JBool b) = (if b then ''true'' else ''false'')"
| "encode (JNum s) = s"
| "encode (JStr s) = quote s"
| "encode (JArr vs) = CHR ''['' # join '','' (map encode vs) @ '']''"
| "encode (JObj ms) =
     CHR ''{'' # join '','' (map (\<lambda>m. quote (fst m) @ CHR '':'' # encode (snd m)) ms) @ ''}''"

subsection \<open>The number grammar\<close>

definition is_digit :: "char \<Rightarrow> bool" where
  "is_digit c \<longleftrightarrow> 48 \<le> byte_of c \<and> byte_of c \<le> 57"

definition num_exponent :: "string \<Rightarrow> bool" where
  "num_exponent t =
     (case t of
        [] \<Rightarrow> True
      | c # r \<Rightarrow>
          (c = CHR ''e'' \<or> c = CHR ''E'') \<and>
          (case (case r of d # r' \<Rightarrow> if d = CHR ''+'' \<or> d = CHR ''-'' then r' else r | [] \<Rightarrow> r) of
             [] \<Rightarrow> False
           | d # r' \<Rightarrow> is_digit d \<and> dropWhile is_digit r' = []))"

definition num_fraction :: "string \<Rightarrow> bool" where
  "num_fraction t =
     (case t of
        [] \<Rightarrow> True
      | c # r \<Rightarrow>
          if c = CHR ''.'' then
            (case r of [] \<Rightarrow> False
             | d # r' \<Rightarrow> is_digit d \<and> num_exponent (dropWhile is_digit r'))
          else num_exponent t)"

definition isJSONNumber :: "string \<Rightarrow> bool" where
  "isJSONNumber t =
     (case (case t of c # r \<Rightarrow> if c = CHR ''-'' then r else t | [] \<Rightarrow> t) of
        [] \<Rightarrow> False
      | c # r \<Rightarrow>
          if c = CHR ''0'' then num_fraction r
          else if is_digit c then num_fraction (dropWhile is_digit r)
          else False)"

subsection \<open>Nesting depth\<close>

record scan =
  sc_depth :: int
  sc_maximum :: int
  sc_inString :: bool
  sc_escaped :: bool

definition scan_step :: "char \<Rightarrow> scan \<Rightarrow> scan" where
  "scan_step c s =
     (if sc_inString s then
        (if sc_escaped s then s\<lparr>sc_escaped := False\<rparr>
         else if c = CHR 0x5C then s\<lparr>sc_escaped := True\<rparr>
         else if c = CHR 0x22 then s\<lparr>sc_inString := False\<rparr>
         else s)
      else if c = CHR 0x22 then s\<lparr>sc_inString := True\<rparr>
      else if c = CHR ''{'' \<or> c = CHR ''['' then
        s\<lparr>sc_depth := sc_depth s + 1, sc_maximum := max (sc_maximum s) (sc_depth s + 1)\<rparr>
      else if c = CHR ''}'' \<or> c = CHR '']'' then s\<lparr>sc_depth := sc_depth s - 1\<rparr>
      else s)"

definition jsonDepth :: "string \<Rightarrow> int" where
  "jsonDepth data =
     sc_maximum (fold scan_step data
       \<lparr>sc_depth = 0, sc_maximum = 0, sc_inString = False, sc_escaped = False\<rparr>)"

text \<open>Specification side: the nesting of a value, unambiguous objects, number literals.\<close>

fun depth :: "json \<Rightarrow> int" where
  "depth (JArr vs) = 1 + foldr max (map depth vs) 0"
| "depth (JObj ms) = 1 + foldr max (map (\<lambda>m. depth (snd m)) ms) 0"
| "depth _ = 0"

fun unambiguous :: "json \<Rightarrow> bool" where
  "unambiguous (JArr vs) = list_all unambiguous vs"
| "unambiguous (JObj ms) = (distinct (map fst ms) \<and> list_all (\<lambda>m. unambiguous (snd m)) ms)"
| "unambiguous _ = True"

fun literals_ok :: "json \<Rightarrow> bool" where
  "literals_ok (JNum s) = isJSONNumber s"
| "literals_ok (JArr vs) = list_all literals_ok vs"
| "literals_ok (JObj ms) = list_all (\<lambda>m. literals_ok (snd m)) ms"
| "literals_ok _ = True"

section \<open>Lemmas\<close>

subsection \<open>Decoding the token stream\<close>

lemma More_closing [simp]: "\<not> More (TDelim CHR '']'' # ts)" "\<not> More (TDelim CHR ''}'' # ts)"
  by simp_all

lemma tokens_Cons: "\<exists>t ts. tokens v = t # ts \<and> t \<noteq> TDelim CHR '']'' \<and> t \<noteq> TDelim CHR ''}''"
  by (cases v) auto

lemma More_tokens [simp]: "More (tokens v @ rest)"
  using tokens_Cons [of v] by auto

lemma tokens_length_pos: "0 < length (tokens v)"
  using tokens_Cons [of v] by auto

lemma consumeClosing_ok [simp]: "consumeClosing (TDelim c # ts) c = Inr ts"
  by (simp add: consumeClosing_def)

abbreviation duplicate_key :: go_error where
  "duplicate_key \<equiv> errors_New ''duplicate object key''"

definition reads_back :: "json \<Rightarrow> bool" where
  "reads_back v \<longleftrightarrow> (\<forall>n rest. 2 * length (tokens v) \<le> n \<longrightarrow>
     decodeValue n (tokens v @ rest)
       = (if unambiguous v then Inr (v, rest) else Inl duplicate_key))"

lemma reads_backD:
  "reads_back v \<Longrightarrow> 2 * length (tokens v) \<le> n \<Longrightarrow>
     decodeValue n (tokens v @ rest)
       = (if unambiguous v then Inr (v, rest) else Inl duplicate_key)"
  by (simp add: reads_back_def)

lemma decodeArray_reads_back:
  assumes "\<And>v. v \<in> set vs \<Longrightarrow> reads_back v"
    and "2 * length (concat (map tokens vs)) + 1 \<le> n"
  shows "decodeArray n acc (concat (map tokens vs) @ TDelim CHR '']'' # rest)
    = (if list_all unambiguous vs then Inr (JArr (acc @ vs), rest) else Inl duplicate_key)"
  using assms
proof (induction vs arbitrary: n acc)
  case Nil
  then obtain m where "n = Suc m" by (cases n) auto
  then show ?case by simp
next
  case (Cons v vs)
  then obtain m where n: "n = Suc m" by (cases n) auto
  have "2 * length (concat (map tokens vs)) + 1 \<le> m"
    using Cons.prems(2) tokens_length_pos [of v] n by (cases "length (tokens v)") auto
  then have rest: "decodeArray m (acc @ [v]) (concat (map tokens vs) @ TDelim CHR '']'' # rest)
    = (if list_all unambiguous vs then Inr (JArr (acc @ v # vs), rest) else Inl duplicate_key)"
    using Cons.IH [of m "acc @ [v]"] Cons.prems(1) by simp
  have "reads_back v" "2 * length (tokens v) \<le> m" using Cons.prems n by simp_all
  note first = reads_backD [OF this]
  show ?case by (simp add: n first rest)
qed

lemma decodeObject_reads_back:
  assumes "\<And>k v. (k, v) \<in> set ms \<Longrightarrow> reads_back v"
    and "2 * length (concat (map (\<lambda>m. TString (fst m) # tokens (snd m)) ms)) + 1 \<le> n"
    and "distinct (map fst acc)"
  shows "decodeObject n acc
      (concat (map (\<lambda>m. TString (fst m) # tokens (snd m)) ms) @ TDelim CHR ''}'' # rest)
    = (if distinct (map fst (acc @ ms)) \<and> list_all (\<lambda>m. unambiguous (snd m)) ms
       then Inr (JObj (acc @ ms), rest) else Inl duplicate_key)"
  using assms
proof (induction ms arbitrary: n acc)
  case Nil
  then obtain m where "n = Suc m" by (cases n) auto
  with Nil.prems(3) show ?case by simp
next
  case (Cons kv ms)
  obtain k v where kv: "kv = (k, v)" by (cases kv)
  from Cons.prems(2) obtain m where n: "n = Suc m" by (cases n) auto
  show ?case
  proof (cases "k \<in> fst ` set acc")
    case True
    then show ?thesis by (auto simp: n kv)
  next
    case False
    have "2 * length (concat (map (\<lambda>m. TString (fst m) # tokens (snd m)) ms)) + 1 \<le> m"
      using Cons.prems(2) n kv by simp
    moreover have "distinct (map fst (acc @ [(k, v)]))" using Cons.prems(3) False by simp
    moreover have "\<And>k v. (k, v) \<in> set ms \<Longrightarrow> reads_back v" using Cons.prems(1) by auto
    ultimately have rest: "decodeObject m (acc @ [(k, v)])
        (concat (map (\<lambda>m. TString (fst m) # tokens (snd m)) ms) @ TDelim CHR ''}'' # rest)
      = (if distinct (map fst (acc @ (k, v) # ms)) \<and> list_all (\<lambda>m. unambiguous (snd m)) ms
         then Inr (JObj (acc @ (k, v) # ms), rest) else Inl duplicate_key)"
      using Cons.IH [of m "acc @ [(k, v)]"] by simp
    have "reads_back v" "2 * length (tokens v) \<le> m" using Cons.prems n kv by auto
    note first = reads_backD [OF this]
    show ?thesis using False by (simp add: n kv first rest)
  qed
qed

lemma decodeValue_tokens: "reads_back v"
proof (induction v)
  case (JArr vs)
  show ?case unfolding reads_back_def
  proof (intro allI impI)
    fix n rest assume b: "2 * length (tokens (JArr vs)) \<le> n"
    then obtain m where n: "n = Suc m" by (cases n) auto
    with b have "2 * length (concat (map tokens vs)) + 1 \<le> m" by simp
    note decodeArray_reads_back [OF JArr this, where acc = "[]" and rest = rest, simplified]
    then show "decodeValue n (tokens (JArr vs) @ rest)
      = (if unambiguous (JArr vs) then Inr (JArr vs, rest) else Inl duplicate_key)"
      by (simp add: n)
  qed
next
  case (JObj ms)
  show ?case unfolding reads_back_def
  proof (intro allI impI)
    fix n rest assume b: "2 * length (tokens (JObj ms)) \<le> n"
    then obtain m where n: "n = Suc m" by (cases n) auto
    with b have l: "2 * length (concat (map (\<lambda>m. TString (fst m) # tokens (snd m)) ms)) + 1 \<le> m"
      by simp
    have "\<And>k v. (k, v) \<in> set ms \<Longrightarrow> reads_back v" using JObj by auto
    note decodeObject_reads_back [OF this l, where acc = "[]" and rest = rest, simplified]
    then show "decodeValue n (tokens (JObj ms) @ rest)
      = (if unambiguous (JObj ms) then Inr (JObj ms, rest) else Inl duplicate_key)"
      by (simp add: n)
  qed
qed (simp_all add: reads_back_def, (intro allI impI, case_tac n, simp_all)+)

lemma decode_all_tokens:
  "decode_all (tokens v) = (if unambiguous v then Inr v else Inl duplicate_key)"
proof -
  have "2 * length (tokens v) \<le> 2 * length (tokens v) + 1" by simp
  from reads_backD [OF decodeValue_tokens this, of "[]"] show ?thesis
    by (simp add: decode_all_def)
qed

lemma Canonical_tokens:
  "Canonical (tokens v) = (if unambiguous v then Inr (sort_members v) else Inl duplicate_key)"
  using tokens_length_pos [of v] by (simp add: Canonical_def decode_all_tokens)

text \<open>Any fuel above the bound gives the same answer, on every token stream.\<close>

lemma decode_consumes:
  "decodeValue n ts = Inr r \<Longrightarrow> length (snd r) < length ts"
  "decodeArray n acc ts = Inr r \<Longrightarrow> length (snd r) < length ts"
  "decodeObject n oacc ts = Inr r \<Longrightarrow> length (snd r) < length ts"
  by (induction n ts and n acc ts and n oacc ts arbitrary: r and r and r
      rule: decodeValue_decodeArray_decodeObject.induct)
     (fastforce simp: rbind_eq_Inr consumeClosing_def split: token.splits if_splits list.splits)+

lemma decode_enough:
  "2 * length ts < n \<Longrightarrow> decodeValue (Suc n) ts = decodeValue n ts"
  "2 * length ts + 1 < n \<Longrightarrow> decodeArray (Suc n) acc ts = decodeArray n acc ts"
  "2 * length ts + 1 < n \<Longrightarrow> decodeObject (Suc n) oacc ts = decodeObject n oacc ts"
proof (induction n arbitrary: ts acc oacc)
  case 0
  { case 1 then show ?case by simp next case 2 then show ?case by simp
  next case 3 then show ?case by simp }
next
  case (Suc n)
  { case 1 then show ?case
      by (cases ts) (auto simp: Suc.IH(2,3) simp del: decodeArray.simps decodeObject.simps
          split: token.splits)
  next
    case 2
    have v: "decodeValue (Suc n) ts = decodeValue n ts" using 2 Suc.IH(1) by simp
    have "decodeArray (Suc n) a (snd r) = decodeArray n a (snd r)" if "decodeValue n ts = Inr r" for a r
      using decode_consumes(1) [OF that] 2 by (intro Suc.IH(2)) simp
    with v show ?case by (simp add: rbind_def split: sum.splits)
  next
    case 3
    show ?case
    proof (cases "More ts \<and> (\<exists>k ts'. ts = TString k # ts')")
      case False
      then show ?thesis by (auto split: list.splits token.splits)
    next
      case True
      then obtain k ts' where ts: "ts = TString k # ts'" by auto
      have v: "decodeValue (Suc n) ts' = decodeValue n ts'" using 3 ts Suc.IH(1) by simp
      have "decodeObject (Suc n) a (snd r) = decodeObject n a (snd r)"
        if "decodeValue n ts' = Inr r" for a r
        using decode_consumes(1) [OF that] 3 ts by (intro Suc.IH(3)) simp
      with v show ?thesis by (simp add: ts rbind_def split: sum.splits)
    qed }
qed

lemma decodeValue_enough:
  "2 * length ts < n \<Longrightarrow> decodeValue n ts = decodeValue (2 * length ts + 1) ts"
proof (induction n)
  case (Suc n)
  show ?case
  proof (cases "2 * length ts < n")
    case True
    then show ?thesis using Suc decode_enough(1) [of ts n] by simp
  next
    case False
    with Suc.prems have "n = 2 * length ts" by simp
    then show ?thesis by simp
  qed
qed simp


text \<open>The bound is generous enough that the fuel never runs out.\<close>

lemma decode_not_fuel:
  "2 * length ts < n \<Longrightarrow> decodeValue n ts \<noteq> Inl (errors_New ''fuel'')"
  "2 * length ts + 1 < n \<Longrightarrow> decodeArray n acc ts \<noteq> Inl (errors_New ''fuel'')"
  "2 * length ts + 1 < n \<Longrightarrow> decodeObject n oacc ts \<noteq> Inl (errors_New ''fuel'')"
proof (induction n arbitrary: ts acc oacc)
  case 0
  { case 1 then show ?case by simp next case 2 then show ?case by simp
  next case 3 then show ?case by simp }
next
  case (Suc n)
  have close: "consumeClosing us c \<noteq> Inl (errors_New ''fuel'')" for us c
    by (auto simp: consumeClosing_def errors_New_def split: list.splits)
  { case 1
    have "decodeArray n [] us \<noteq> Inl (errors_New ''fuel'')" "decodeObject n [] us \<noteq> Inl (errors_New ''fuel'')"
      if "ts = t # us" for t us
      using 1 that Suc.IH(2,3) [of us] by simp_all
    then show ?case by (cases ts) (auto simp: errors_New_def split: token.splits)
  next
    case 2
    have v: "decodeValue n ts \<noteq> Inl (errors_New ''fuel'')" using 2 Suc.IH(1) by simp
    have "decodeArray n a (snd r) \<noteq> Inl (errors_New ''fuel'')" if "decodeValue n ts = Inr r" for a r
      using decode_consumes(1) [OF that] 2 by (intro Suc.IH(2)) simp
    with v close [of ts] show ?case by (auto simp: rbind_def split: sum.splits)
  next
    case 3
    show ?case
    proof (cases "More ts \<and> (\<exists>k ts'. ts = TString k # ts')")
      case False
      then show ?thesis using close [of ts]
        by (auto simp: rbind_def errors_New_def split: list.splits token.splits sum.splits)
    next
      case True
      then obtain k ts' where ts: "ts = TString k # ts'" by auto
      have v: "decodeValue n ts' \<noteq> Inl (errors_New ''fuel'')" using 3 ts Suc.IH(1) by simp
      have "decodeObject n a (snd r) \<noteq> Inl (errors_New ''fuel'')"
        if "decodeValue n ts' = Inr r" for a r
        using decode_consumes(1) [OF that] 3 ts by (intro Suc.IH(3)) simp
      with v show ?thesis
        by (auto simp: ts rbind_def errors_New_def [of "''duplicate object key''"] errors_New_def [of "''fuel''"]
            split: sum.splits)
    qed }
qed


section \<open>Properties\<close>

text \<open>
  C40: The decoder is total. On every token stream the recursive descent stops with an answer within
  the fuel \<open>decode_all\<close> gives it: the fuel never runs out and more fuel changes nothing.
\<close>

theorem decoder_total:
  assumes "2 * length ts < n"
  shows "decodeValue n ts = decodeValue (2 * length ts + 1) ts
    \<and> decodeValue n ts \<noteq> Inl (errors_New ''fuel'')"
  using decodeValue_enough [OF assms] decode_not_fuel(1) [OF assms] by simp

theorem decoder_total_witness:
  "decodeValue 100 [TDelim CHR ''['', TNumber ''1''] = decodeValue 5 [TDelim CHR ''['', TNumber ''1'']"
  using decoder_total [of "[TDelim CHR ''['', TNumber ''1'']" 100] by simp

end
