(* ===== verification/Json_Canonical.thy ===== *)
theory Json_Canonical
  imports Json "HOL-Library.Multiset"
begin

text \<open>
  What canonicalisation promises: the sorted form is a fixed point, it is the same for two values
  exactly when they differ only in the order of object members, and the byte scan \<open>jsonDepth\<close>
  measures the nesting of an encoded value exactly.
\<close>

subsection \<open>Canonical order\<close>

lemma map_sort_key_fst:
  assumes "\<And>x. fst (f x) = fst x"
  shows "map f (sort_key fst xs) = sort_key fst (map f xs)"
proof -
  have ins: "map f (insort_key fst x ys) = insort_key fst (f x) (map f ys)" for x ys
    by (induction ys) (auto simp: assms)
  show ?thesis by (induction xs) (auto simp: ins)
qed

lemma sort_members_idem: "sort_members (sort_members v) = sort_members v"
proof (induction v)
  case (JObj ms)
  let ?f = "\<lambda>m. (fst m, sort_members (snd m))"
  have "map ?f (map ?f ms) = map ?f ms" using JObj by auto
  moreover have "sort_key fst (sort_key fst xs) = sort_key fst xs" for xs :: "(string \<times> json) list"
    by (rule sort_key_id_if_sorted) simp
  ultimately show ?case
    by (simp add: map_sort_key_fst del: map_map)
qed simp_all

lemma unambiguous_sort_members: "unambiguous (sort_members v) = unambiguous v"
proof (induction v)
  case (JObj ms)
  let ?f = "\<lambda>m. (fst m, sort_members (snd m))"
  have "distinct (map fst (sort_key fst (map ?f ms))) = distinct (map fst ms)"
    by (metis (no_types, lifting) mset_eq_imp_distinct_iff mset_map mset_sort list.map_comp
        map_eq_conv o_apply fst_conv)
  moreover have "list_all (\<lambda>m. unambiguous (snd m)) (sort_key fst (map ?f ms))
    = list_all (\<lambda>m. unambiguous (snd m)) ms"
    using JObj by (auto simp: list_all_iff)
  ultimately show ?case by simp
qed (simp_all add: list_all_iff)

text \<open>Two values that differ only in the order of object members.\<close>

inductive same_value :: "json \<Rightarrow> json \<Rightarrow> bool" where
  same_scalar: "v \<notin> range JArr \<union> range JObj \<Longrightarrow> same_value v v"
| same_array: "list_all2 same_value vs ws \<Longrightarrow> same_value (JArr vs) (JArr ws)"
| same_object: "list_all2 (\<lambda>m m'. fst m = fst m' \<and> same_value (snd m) (snd m')) ms' ns' \<Longrightarrow>
     mset ms' = mset ms \<Longrightarrow> mset ns' = mset ns \<Longrightarrow> same_value (JObj ms) (JObj ns)"
  monos list_all2_mono

lemma sort_key_unique:
  assumes "mset xs = mset ys" "distinct (map fst xs)"
  shows "sort_key fst ys = sort_key fst xs"
proof (rule properties_for_sort_key)
  show "mset (sort_key fst xs) = mset ys" using assms by simp
  show "sorted (map fst (sort_key fst xs))" by simp
  have "inj_on fst (set xs)" using assms(2) by (simp add: distinct_map)
  then have "inj_on fst (set ys)" by (metis assms(1) set_mset_mset)
  have d: "distinct ys" using assms by (metis distinct_map mset_eq_imp_distinct_iff)
  fix k assume k: "k \<in> set (sort_key fst xs)"
  then have "k \<in> set ys" by (metis assms(1) set_mset_mset set_sort)
  show "filter (\<lambda>x. fst k = fst x) (sort_key fst xs) = filter (\<lambda>x. fst k = fst x) ys"
  proof -
    have one: "filter (\<lambda>x. fst k = fst x) zs = [k]"
      if "distinct zs" "inj_on fst (set zs)" "k \<in> set zs" for zs :: "('a \<times> 'b) list"
      using that
    proof (induction zs)
      case (Cons z zs)
      show ?case
      proof (cases "z = k")
        case True
        have "filter (\<lambda>x. fst k = fst x) zs = []"
          using Cons.prems True by (force simp: filter_empty_conv inj_on_def)
        with True show ?thesis by simp
      next
        case False
        then have "fst z \<noteq> fst k" using Cons.prems by (auto simp: inj_on_def)
        with False Cons show ?thesis by auto
      qed
    qed simp
    have "distinct (sort_key fst xs)" using assms(2) by (simp add: distinct_map)
    with one [of "sort_key fst xs"] one [OF d \<open>inj_on fst (set ys)\<close> \<open>k \<in> set ys\<close>] k
      \<open>inj_on fst (set xs)\<close> show ?thesis by simp
  qed
qed

lemma same_value_canonical:
  "same_value v w \<Longrightarrow> unambiguous v \<Longrightarrow> sort_members v = sort_members w \<and> unambiguous w"
proof (induction rule: same_value.induct)
  case (same_scalar v)
  then show ?case by simp
next
  case (same_array vs ws)
  have "map sort_members vs = map sort_members ws \<and> list_all unambiguous ws"
    using same_array by (induction rule: list_all2_induct) auto
  then show ?case by simp
next
  case (same_object ms' ns' ms ns)
  let ?f = "\<lambda>m. (fst m, sort_members (snd m))"
  have "distinct (map fst ms')" "list_all (\<lambda>m. unambiguous (snd m)) ms'"
    using same_object(2,4) by (auto simp: list_all_iff dest: mset_eq_setD)
      (metis mset_eq_imp_distinct_iff mset_map)
  with same_object(1) have eq: "map fst ns' = map fst ms'" "map ?f ms' = map ?f ns'"
      "list_all (\<lambda>m. unambiguous (snd m)) ns'"
    by (induction rule: list_all2_induct) auto
  have d: "distinct (map fst ns')" using eq \<open>distinct (map fst ms')\<close> by simp
  have "distinct (map fst (map ?f ns'))" "distinct (map fst (map ?f ms'))"
    using d \<open>distinct (map fst ms')\<close> by (simp_all add: comp_def)
  moreover have "mset (map ?f ns') = mset (map ?f ns)" "mset (map ?f ms') = mset (map ?f ms)"
    using same_object(2,3) by simp_all
  ultimately have "sort_key fst (map ?f ns) = sort_key fst (map ?f ns')"
      "sort_key fst (map ?f ms) = sort_key fst (map ?f ms')"
    by (auto intro!: sort_key_unique)
  moreover have "distinct (map fst ns)" using d same_object(3)
    by (metis mset_eq_imp_distinct_iff mset_map)
  moreover have "list_all (\<lambda>m. unambiguous (snd m)) ns"
    using eq(3) same_object(3) by (metis list_all_iff set_mset_mset)
  ultimately show ?case using eq(2) by simp
qed

lemma canonical_same_value: "sort_members v = sort_members w \<Longrightarrow> same_value v w"
proof (induction v arbitrary: w)
  case (JArr vs)
  from JArr(2) obtain ws where w: "w = JArr ws" by (cases w) auto
  have "list_all2 same_value vs ws"
    using JArr w by (simp add: list_all2_conv_all_nth list_eq_iff_nth_eq)
  then show ?case by (simp add: w same_array)
next
  case (JObj ms)
  let ?f = "\<lambda>m. (fst m, sort_members (snd m))"
  let ?R = "\<lambda>m m'. fst m = fst m' \<and> same_value (snd m) (snd m')"
  from JObj(2) obtain ns where w: "w = JObj ns" by (cases w) auto
  have eq: "map ?f (sort_key fst ms) = map ?f (sort_key fst ns)"
    using JObj(2) w by (simp add: map_sort_key_fst)
  have "list_all2 ?R (sort_key fst ms) (sort_key fst ns)"
  proof (rule list_all2_all_nthI)
    show "length (sort_key fst ms) = length (sort_key fst ns)"
      using arg_cong [OF eq, of length] by simp
    fix i assume i: "i < length (sort_key fst ms)"
    let ?m = "sort_key fst ms ! i" and ?n = "sort_key fst ns ! i"
    have f: "?f ?m = ?f ?n"
      using i arg_cong [OF eq, of "\<lambda>xs. xs ! i"] arg_cong [OF eq, of length] by simp
    have "?m \<in> set ms" using i by (metis nth_mem set_sort)
    then have "same_value (snd ?m) (snd ?n)"
      using JObj(1) [of ?m "snd ?m" "snd ?n"] f snds.intros [of ?m] by simp
    with f show "?R ?m ?n" by simp
  qed
  then show ?case unfolding w by (rule same_object) simp_all
qed (case_tac w; auto intro: same_scalar)+

subsection \<open>The depth scan\<close>

text \<open>Bytes that neither open, close nor quote anything.\<close>

definition plain :: "char \<Rightarrow> bool" where
  "plain c \<longleftrightarrow> c \<notin> {CHR 0x22, CHR ''{'', CHR ''}'', CHR ''['', CHR '']''}"

lemma scan_plain:
  "\<not> sc_inString s \<Longrightarrow> list_all plain cs \<Longrightarrow> fold scan_step cs s = s"
  by (induction cs) (auto simp: scan_step_def plain_def)

definition body_ok :: "string \<Rightarrow> bool" where
  "body_ok cs \<longleftrightarrow> (\<forall>s. sc_inString s \<and> \<not> sc_escaped s \<longrightarrow> fold scan_step cs s = s)"

lemma body_ok_append: "body_ok as \<Longrightarrow> body_ok bs \<Longrightarrow> body_ok (as @ bs)"
  by (auto simp: body_ok_def)

lemma body_ok_safe: "\<forall>c \<in> set cs. c \<noteq> CHR 0x5C \<and> c \<noteq> CHR 0x22 \<Longrightarrow> body_ok cs"
proof (induction cs)
  case (Cons c cs)
  then show ?case by (auto simp: body_ok_def scan_step_def)
qed (simp add: body_ok_def)

lemma body_ok_escaped: "body_ok cs \<Longrightarrow> body_ok (CHR 0x5C # c # cs)"
  unfolding body_ok_def
proof (intro allI impI)
  fix s :: scan
  assume b: "\<forall>s. sc_inString s \<and> \<not> sc_escaped s \<longrightarrow> fold scan_step cs s = s"
    and s: "sc_inString s \<and> \<not> sc_escaped s"
  have "scan_step c (scan_step CHR 0x5C s) = s"
    using s by (cases s) (simp add: scan_step_def)
  with b s show "fold scan_step (CHR 0x5C # c # cs) s = s" by simp
qed

lemma hex_digit_safe: "n < 16 \<Longrightarrow> hex_digit n \<noteq> CHR 0x5C \<and> hex_digit n \<noteq> CHR 0x22"
proof -
  have "list_all (\<lambda>n. hex_digit n \<noteq> CHR 0x5C \<and> hex_digit n \<noteq> CHR 0x22) [0..<16]" by code_simp
  then show "n < 16 \<Longrightarrow> ?thesis" by (simp add: list_all_iff)
qed

lemma byte_of_less [simp]: "byte_of c < 256"
  by (simp add: byte_of_def)

lemma escape_ascii_ok: "body_ok (escape_ascii c)"
proof -
  have nil: "body_ok []" by (simp add: body_ok_def)
  have h: "body_ok [CHR ''0'', CHR ''0'', hex_digit (byte_of c div 16), hex_digit (byte_of c mod 16)]"
    using hex_digit_safe [OF less_mult_imp_div_less, of "byte_of c"]
      hex_digit_safe [of "byte_of c mod 16"] byte_of_less [of c] by (intro body_ok_safe) auto
  have one: "c \<noteq> CHR 0x22 \<and> c \<noteq> CHR 0x5C \<Longrightarrow> body_ok [c]"
    by (rule body_ok_safe) auto
  show ?thesis
    unfolding escape_ascii_def Let_def
    by (simp add: one body_ok_escaped [OF nil] body_ok_escaped [OF h])
qed

lemma utf8_len_cases:
  assumes "0x80 \<le> a"
  obtains "utf8_len (a # bs) = 0"
  | b r where "utf8_len (a # bs) = 2" "bs = b # r" "0x80 \<le> b"
  | b c r where "utf8_len (a # bs) = 3" "bs = b # c # r" "0x80 \<le> b" "0x80 \<le> c"
  | b c d r where "utf8_len (a # bs) = 4" "bs = b # c # d # r" "0x80 \<le> b" "0x80 \<le> c" "0x80 \<le> d"
proof -
  show ?thesis
  proof (cases "cont 0xC2 0xDF a")
    case True
    show ?thesis
    proof (cases "utf8_len (a # bs) = 0")
      case False
      with assms True obtain b r where "bs = b # r" "0x80 \<le> b" "utf8_len (a # bs) = 2"
        by (cases bs) (auto simp: cont_def split: if_splits)
      with that(2) show ?thesis by blast
    qed (rule that(1))
  next
    case no2: False
    show ?thesis
    proof (cases "cont 0xE0 0xEF a")
      case True
      show ?thesis
      proof (cases "\<exists>b c r. bs = b # c # r")
        case ex: True
        then obtain b c r where bs: "bs = b # c # r" by blast
        show ?thesis
        proof (cases "utf8_len (a # bs) = 0")
          case False
          with assms no2 True bs have "0x80 \<le> b \<and> 0x80 \<le> c \<and> utf8_len (a # bs) = 3"
            by (auto simp: cont_def split: if_splits)
          with bs that(3) show ?thesis by blast
        qed (rule that(1))
      next
        case False
        then have "utf8_len (a # bs) = 0" using assms no2 True by (auto split: list.splits)
        then show ?thesis by (rule that(1))
      qed
    next
      case no3: False
      show ?thesis
      proof (cases "\<exists>b c d r. bs = b # c # d # r")
        case True
        then obtain b c d r where bs: "bs = b # c # d # r" by blast
        show ?thesis
        proof (cases "utf8_len (a # bs) = 0")
          case False
          with assms no2 no3 bs have "0x80 \<le> b \<and> 0x80 \<le> c \<and> 0x80 \<le> d \<and> utf8_len (a # bs) = 4"
            by (auto simp: cont_def split: if_splits)
          with bs that(4) show ?thesis by blast
        qed (rule that(1))
      next
        case False
        then have "utf8_len (a # bs) = 0" using assms no2 no3 by (auto split: list.splits)
        then show ?thesis by (rule that(1))
      qed
    qed
  qed
qed

lemma utf8_len_bytes:
  assumes "0x80 \<le> byte_of c" "utf8_len (map byte_of (c # cs)) \<noteq> 0"
  shows "\<forall>d \<in> set (take (utf8_len (map byte_of (c # cs))) (c # cs)). 0x80 \<le> byte_of d"
  using assms(1)
  by (rule utf8_len_cases [of "byte_of c" "map byte_of cs"])
     (use assms in \<open>auto simp: numeral_eq_Suc simp del: utf8_len.simps\<close>)

lemma high_byte_safe: "0x80 \<le> byte_of d \<Longrightarrow> d \<noteq> CHR 0x5C \<and> d \<noteq> CHR 0x22"
  by (auto simp: byte_of_def)

lemma escape_ok: "body_ok (escape s)"
proof (induction s rule: escape.induct)
  case 1
  then show ?case by (simp add: escape.simps body_ok_def)
next
  case (2 c cs)
  let ?n = "utf8_len (map byte_of (c # cs))"
  have fffd: "body_ok (CHR 0x5C # ''ufffd'')" "body_ok (CHR 0x5C # ''u2028'')"
      "body_ok (CHR 0x5C # ''u2029'')"
    by (rule body_ok_escaped, rule body_ok_safe, simp)+
  show ?case
  proof (cases "byte_of c < 0x80")
    case True
    then show ?thesis using 2(1) by (simp add: escape.simps escape_ascii_ok body_ok_append)
  next
    case False
    then have raw: "?n \<noteq> 0 \<Longrightarrow> body_ok (take ?n (c # cs))"
      using utf8_len_bytes [of c cs] high_byte_safe by (intro body_ok_safe) auto
    show ?thesis
      unfolding escape.simps(2) Let_def
      using False 2(2-5) body_ok_append [OF fffd(1)] body_ok_append [OF fffd(2)]
        body_ok_append [OF fffd(3)] body_ok_append [OF raw]
      by (simp del: utf8_len.simps take.simps drop.simps take_Cons drop_Cons)
  qed
qed

lemma scan_quote: "\<not> sc_inString s \<Longrightarrow> \<not> sc_escaped s \<Longrightarrow> fold scan_step (quote t) s = s"
proof -
  assume s: "\<not> sc_inString s" "\<not> sc_escaped s"
  let ?s = "s\<lparr>sc_inString := True\<rparr>"
  have "fold scan_step (escape t) ?s = ?s" using escape_ok [of t] s by (simp add: body_ok_def)
  then show "fold scan_step (quote t) s = s"
    using s by (cases s) (simp add: quote_def scan_step_def)
qed


text \<open>The scan returns to the depth it started at and raises the maximum by the value's nesting.\<close>

definition scans_as :: "string \<Rightarrow> int \<Rightarrow> bool" where
  "scans_as cs d \<longleftrightarrow> (\<forall>s. \<not> sc_inString s \<and> \<not> sc_escaped s \<longrightarrow>
     fold scan_step cs s = s\<lparr>sc_maximum := max (sc_maximum s) (if d = 0 then sc_maximum s else sc_depth s + d)\<rparr>)"

lemma scans_asD:
  "scans_as cs d \<Longrightarrow> \<not> sc_inString s \<Longrightarrow> \<not> sc_escaped s \<Longrightarrow>
     fold scan_step cs s = s\<lparr>sc_maximum := max (sc_maximum s) (if d = 0 then sc_maximum s else sc_depth s + d)\<rparr>"
  by (simp add: scans_as_def)

lemma scans_as_plain: "list_all plain cs \<Longrightarrow> scans_as cs 0"
  by (simp add: scans_as_def scan_plain)

lemma scans_as_quote: "scans_as (quote t) 0"
  by (simp add: scans_as_def scan_quote)

lemma scans_as_append:
  assumes "scans_as as d" "scans_as bs e" "0 \<le> d" "0 \<le> e"
  shows "scans_as (as @ bs) (max d e)"
  unfolding scans_as_def
proof (intro allI impI)
  fix s :: scan assume s: "\<not> sc_inString s \<and> \<not> sc_escaped s"
  show "fold scan_step (as @ bs) s = s\<lparr>sc_maximum := max (sc_maximum s) (if max d e = 0 then sc_maximum s else sc_depth s + max d e)\<rparr>"
    using s assms(3,4) by (cases s) (auto simp: scans_asD [OF assms(1)] scans_asD [OF assms(2)])
qed

lemma scans_as_join:
  assumes "\<And>x. x \<in> set xs \<Longrightarrow> scans_as (f x) (d x) \<and> 0 \<le> d x"
  shows "scans_as (join '','' (map f xs)) (foldr max (map d xs) 0) \<and> 0 \<le> foldr max (map d xs) 0"
  using assms
proof (induction xs rule: induct_list012)
  case 1
  then show ?case by (simp add: scans_as_def)
next
  case (2 x)
  then show ?case by (simp add: max_absorb1)
next
  case (3 x y zs)
  have comma: "scans_as '','' 0" by (rule scans_as_plain) (simp add: plain_def)
  let ?m = "foldr max (map d (y # zs)) 0"
  have m: "scans_as (join '','' (map f (y # zs))) ?m" "0 \<le> ?m" using 3 by simp_all
  have x: "scans_as (f x) (d x)" "0 \<le> d x" using 3 by simp_all
  have "scans_as ('','' @ join '','' (map f (y # zs))) ?m"
    using scans_as_append [OF comma m(1)] m(2) by (simp add: max_absorb2)
  from scans_as_append [OF x(1) this x(2) m(2)] x(2) m(2) show ?case by (simp add: le_max_iff_disj)
qed

lemma scan_open:
  "b \<in> {CHR ''['', CHR ''{''} \<Longrightarrow> \<not> sc_inString s \<Longrightarrow>
     scan_step b s = s\<lparr>sc_depth := sc_depth s + 1, sc_maximum := max (sc_maximum s) (sc_depth s + 1)\<rparr>"
  by (auto simp: scan_step_def)

lemma scan_close:
  "c \<in> {CHR '']'', CHR ''}''} \<Longrightarrow> \<not> sc_inString s \<Longrightarrow>
     scan_step c s = s\<lparr>sc_depth := sc_depth s - 1\<rparr>"
  by (auto simp: scan_step_def)

lemma scans_as_bracket:
  assumes "scans_as cs d" "0 \<le> d" "b \<in> {CHR ''['', CHR ''{''}" "c \<in> {CHR '']'', CHR ''}''}"
  shows "scans_as (b # cs @ [c]) (1 + d)"
  unfolding scans_as_def
proof (intro allI impI)
  fix s :: scan assume s: "\<not> sc_inString s \<and> \<not> sc_escaped s"
  let ?s = "s\<lparr>sc_depth := sc_depth s + 1, sc_maximum := max (sc_maximum s) (sc_depth s + 1)\<rparr>"
  have "fold scan_step cs ?s
    = ?s\<lparr>sc_maximum := max (sc_maximum ?s) (if d = 0 then sc_maximum ?s else sc_depth ?s + d)\<rparr>"
    using s by (intro scans_asD [OF assms(1)]) simp_all
  then show "fold scan_step (b # cs @ [c]) s
    = s\<lparr>sc_maximum := max (sc_maximum s) (if 1 + d = 0 then sc_maximum s else sc_depth s + (1 + d))\<rparr>"
    using s assms(2) by (cases s) (simp add: scan_open [OF assms(3)] scan_close [OF assms(4)] max_def)
qed

lemma digit_plain: "is_digit c \<Longrightarrow> plain c"
  by (auto simp: is_digit_def plain_def byte_of_def)

lemma sign_plain [simp]: "plain CHR ''-''" "plain CHR ''+''" "plain CHR ''.''" "plain CHR ''e''" "plain CHR ''E''"
    "plain CHR ''0''"
  by (simp_all add: plain_def)

lemma dropWhile_plain: "list_all plain (dropWhile is_digit t) \<Longrightarrow> list_all plain t"
  by (induction t) (auto simp: digit_plain split: if_splits)

lemma num_exponent_plain: "num_exponent t \<Longrightarrow> list_all plain t"
  by (auto simp: num_exponent_def digit_plain list_all_iff split: list.splits if_splits)

lemma num_fraction_plain: "num_fraction t \<Longrightarrow> list_all plain t"
  by (auto simp: num_fraction_def digit_plain dropWhile_plain num_exponent_plain
      split: list.splits if_splits dest: num_exponent_plain)

lemma isJSONNumber_plain: "isJSONNumber t \<Longrightarrow> list_all plain t"
  by (auto simp: isJSONNumber_def digit_plain dropWhile_plain num_fraction_plain
      split: list.splits if_splits)

lemma scans_as_encode: "literals_ok v \<Longrightarrow> scans_as (encode v) (depth v) \<and> 0 \<le> depth v"
proof (induction v)
  case (JArr vs)
  have "scans_as (join '','' (map encode vs)) (foldr max (map depth vs) 0)
    \<and> 0 \<le> foldr max (map depth vs) 0"
    using JArr by (intro scans_as_join) (auto simp: list_all_iff)
  then show ?case using scans_as_bracket by simp
next
  case (JObj ms)
  let ?f = "\<lambda>m. quote (fst m) @ CHR '':'' # encode (snd m)"
  have colon: "scans_as '':'' 0" by (rule scans_as_plain) (simp add: plain_def)
  have member: "scans_as (?f m) (depth (snd m)) \<and> 0 \<le> depth (snd m)" if "m \<in> set ms" for m
  proof -
    have v: "scans_as (encode (snd m)) (depth (snd m))" "0 \<le> depth (snd m)"
      using JObj that by (auto simp: list_all_iff snds.simps)
    have "scans_as ('':'' @ encode (snd m)) (depth (snd m))"
      using scans_as_append [OF colon v(1)] v(2) by (simp add: max_absorb2)
    from scans_as_append [OF scans_as_quote this] v(2) show ?thesis by (simp add: max_absorb2)
  qed
  have "scans_as (join '','' (map ?f ms)) (foldr max (map (\<lambda>m. depth (snd m)) ms) 0)
    \<and> 0 \<le> foldr max (map (\<lambda>m. depth (snd m)) ms) 0"
    using member by (intro scans_as_join) auto
  then show ?case using scans_as_bracket by simp
qed (auto simp: scans_as_quote isJSONNumber_plain intro!: scans_as_plain, simp_all add: plain_def)

lemma jsonDepth_encode: "literals_ok v \<Longrightarrow> jsonDepth (encode v) = depth v"
  using scans_as_encode [of v]
  by (auto simp: jsonDepth_def scans_asD)


section \<open>Properties\<close>

text \<open>
  C16: Canonical form decides JSON equality. A message that repeats no member is accepted, its
  canonical form is a fixed point, and two such messages have the same canonical form exactly when
  they are the same value up to the order of members; a message that repeats a member anywhere is
  rejected.
\<close>

theorem canonical_decides_equality:
  "(unambiguous v \<and> unambiguous w \<longrightarrow> (Canonical (tokens v) = Canonical (tokens w) \<longleftrightarrow> same_value v w))
   \<and> (unambiguous v \<longrightarrow> (\<exists>c. Canonical (tokens v) = Inr c \<and> Canonical (tokens c) = Inr c))
   \<and> (\<not> unambiguous v \<longrightarrow> Canonical (tokens v) = Inl (errors_New ''duplicate object key''))"
  using same_value_canonical [of v w] canonical_same_value [of v w]
  by (auto simp: Canonical_tokens unambiguous_sort_members sort_members_idem)

theorem canonical_decides_equality_witness:
  "Canonical (tokens (JObj [(''b'', JNum ''1''), (''a'', JNull)]))
     = Canonical (tokens (JObj [(''a'', JNull), (''b'', JNum ''1'')]))
   \<longleftrightarrow> same_value (JObj [(''b'', JNum ''1''), (''a'', JNull)]) (JObj [(''a'', JNull), (''b'', JNum ''1'')])"
  using canonical_decides_equality [of "JObj [(''b'', JNum ''1''), (''a'', JNull)]"
      "JObj [(''a'', JNull), (''b'', JNum ''1'')]"]
  by (simp del: tokens.simps)

text \<open>
  The depth check sees the real depth: on the encoding of any value with legal number literals,
  the byte scan \<open>jsonDepth\<close> returns its nesting depth, whatever brackets, quotes and backslashes its
  strings contain.
\<close>

theorem depth_scan_exact:
  assumes "literals_ok v"
  shows "jsonDepth (encode v) = depth v"
  using scans_as_encode [OF assms] by (auto simp: jsonDepth_def scans_asD)

theorem depth_scan_exact_witness: "jsonDepth (encode (JArr [JStr ''[{'', JObj []])) = 2"
  using depth_scan_exact [of "JArr [JStr ''[{'', JObj []]"] by simp

end
