(* ===== verification/Submission.thy ===== *)
theory Submission
  imports Contract "HOL-Library.Transitive_Closure_Table"
begin

text \<open>
  The submission state machine (\<open>internal/submission\<close>): which states exist, which are terminal,
  which moves are legal, and the progress-sequence check. The step relation \<open>moves\<close> is the legal
  moves; its closure is what a submission can go through.
\<close>

section \<open>Definitions\<close>

definition FirstSequence :: int where
  "FirstSequence = 1"

fun Valid :: "status \<Rightarrow> bool" where
  "Valid (StatusUnknown _) = False"
| "Valid _ = True"

fun Terminal :: "status \<Rightarrow> bool" where
  "Terminal StatusCompleted = True"
| "Terminal StatusFailed = True"
| "Terminal StatusCancelled = True"
| "Terminal StatusExpired = True"
| "Terminal StatusOutcomeUnknown = True"
| "Terminal _ = False"

definition Allowed :: "status \<Rightarrow> status \<Rightarrow> bool" where
  "Allowed from to =
     (if \<not> Valid from \<or> \<not> Valid to then False
      else case from of
          StatusAccepted \<Rightarrow> to = StatusQueued
        | StatusQueued \<Rightarrow> to = StatusRunning
        | StatusRunning \<Rightarrow> to = StatusInputRequired \<or> Terminal to
        | StatusInputRequired \<Rightarrow> to = StatusRunning \<or> Terminal to
        | _ \<Rightarrow> False)"

definition CheckSequence :: "int \<Rightarrow> int \<Rightarrow> go_error + unit" where
  "CheckSequence sequence previous =
     (if sequence < FirstSequence then Inl (SequenceError sequence ''below first sequence'')
      else if sequence \<le> previous then Inl (SequenceError sequence ''not strictly increasing'')
      else Inr ())"

inductive moves :: "status \<Rightarrow> status \<Rightarrow> bool" where
  accept_queue: "moves StatusAccepted StatusQueued"
| queue_run: "moves StatusQueued StatusRunning"
| run_input: "moves StatusRunning StatusInputRequired"
| input_run: "moves StatusInputRequired StatusRunning"
| finish: "from \<in> {StatusRunning, StatusInputRequired} \<Longrightarrow> Terminal to \<Longrightarrow> moves from to"

text \<open>The position of a state in the lifecycle: it never decreases along a legal move.\<close>

fun stage :: "status \<Rightarrow> nat" where
  "stage StatusAccepted = 0"
| "stage StatusQueued = 1"
| "stage StatusRunning = 2"
| "stage StatusInputRequired = 2"
| "stage (StatusUnknown _) = 0"
| "stage _ = 3"

section \<open>Lemmas\<close>

inductive_cases moves_fromE: "moves from to"
inductive_simps moves_accepted [simp]: "moves StatusAccepted to"
inductive_simps moves_queued [simp]: "moves StatusQueued to"

lemma Terminal_Valid [simp]: "Terminal st \<Longrightarrow> Valid st"
  by (cases st) simp_all

lemma Valid_iff: "Valid st \<longleftrightarrow> st \<in> set named_statuses"
  by (cases st) (simp_all add: named_statuses_def)

lemma not_Terminal_cases:
  assumes "Valid st" "\<not> Terminal st"
  obtains "st = StatusAccepted" | "st = StatusQueued" | "st = StatusRunning"
    | "st = StatusInputRequired"
  using assms by (cases st) auto

lemma Allowed_iff_moves: "Allowed from to \<longleftrightarrow> moves from to"
proof
  assume "Allowed from to"
  then show "moves from to"
    by (cases "from") (auto simp: Allowed_def intro: moves.intros split: if_splits)
next
  assume "moves from to"
  then show "Allowed from to"
    by (induction rule: moves.induct) (auto simp: Allowed_def)
qed

lemma Allowed_terminal: "Terminal from \<Longrightarrow> \<not> Allowed from to"
  by (cases "from") (auto simp: Allowed_def)

lemma Allowed_Valid: "Allowed from to \<Longrightarrow> Valid from \<and> Valid to"
  by (simp add: Allowed_def split: if_splits)

lemma Allowed_not_accepted: "\<not> Allowed from StatusAccepted"
  by (cases "from") (auto simp: Allowed_def)

lemma Allowed_irrefl: "\<not> Allowed st st"
  by (cases st) (auto simp: Allowed_def)

lemma Allowed_to_terminal:
  "Terminal to \<Longrightarrow> Allowed from to \<longleftrightarrow> from = StatusRunning \<or> from = StatusInputRequired"
  by (cases "from"; cases to) (auto simp: Allowed_def)

lemma Allowed_stage: "Allowed from to \<Longrightarrow> stage from \<le> stage to"
  by (cases "from"; cases to) (auto simp: Allowed_def)

lemma moves_terminal: "Terminal from \<Longrightarrow> \<not> moves from to"
  using Allowed_terminal Allowed_iff_moves by blast

lemma moves_star_terminal: "moves\<^sup>*\<^sup>* from to \<Longrightarrow> Terminal from \<Longrightarrow> to = from"
  by (erule converse_rtranclpE) (auto simp: moves_terminal)

lemma moves_star_stage: "moves\<^sup>*\<^sup>* from to \<Longrightarrow> stage from \<le> stage to"
  by (induction rule: rtranclp_induct)
     (auto simp flip: Allowed_iff_moves dest: Allowed_stage order_trans)

lemma CheckSequence_iff:
  "CheckSequence s p = Inr u \<longleftrightarrow> FirstSequence \<le> s \<and> p < s"
  by (auto simp: CheckSequence_def)

text \<open>A run that ends terminal, from acceptance, has passed through \<open>running\<close>.\<close>

lemma moves_star_through_running:
  assumes "moves\<^sup>*\<^sup>* from to" and "Terminal to" and "from \<in> {StatusAccepted, StatusQueued}"
  shows "moves\<^sup>*\<^sup>* from StatusRunning \<and> moves\<^sup>*\<^sup>* StatusRunning to"
  using assms
proof (induction rule: converse_rtranclp_induct)
  case base
  then show ?case by auto
next
  case (step y z)
  from step.prems consider "y = StatusAccepted" | "y = StatusQueued" by blast
  then show ?case
  proof cases
    case 1
    with step.hyps(1) have "z = StatusQueued" by simp
    with step 1 show ?thesis by (auto intro: converse_rtranclp_into_rtranclp)
  next
    case 2
    with step.hyps(1) have "z = StatusRunning" by simp
    with step.hyps 2 show ?thesis by (auto intro: moves.intros)
  qed
qed


section \<open>Properties\<close>

text \<open>
  No outcome without execution. Every sequence of legal transitions from acceptance to a terminal
  status passes through \<open>running\<close>, and no transition leaves a terminal status.
\<close>

theorem outcome_needs_running:
  assumes "moves\<^sup>*\<^sup>* StatusAccepted to" and "Terminal to"
  shows "moves\<^sup>*\<^sup>* StatusAccepted StatusRunning \<and> moves\<^sup>*\<^sup>* StatusRunning to \<and> (\<forall>st. \<not> Allowed to st)"
  using moves_star_through_running [OF assms] Allowed_terminal [OF assms(2)] by simp

theorem outcome_needs_running_witness: "moves\<^sup>*\<^sup>* StatusRunning StatusCompleted"
proof -
  have "moves StatusAccepted StatusQueued" "moves StatusQueued StatusRunning"
    "moves StatusRunning StatusCompleted" by (auto intro: moves.intros)
  then have "moves\<^sup>*\<^sup>* StatusAccepted StatusCompleted" by (blast intro: converse_rtranclp_into_rtranclp)
  from outcome_needs_running [OF this] show ?thesis by simp
qed

end
