(* ===== verification/Profile_Limits.thy ===== *)
theory Profile_Limits
  imports Contract
begin

text \<open>
  Size, timeout and retention bounds (\<open>internal/limits\<close>) and the lifecycle policy captured with
  each accepted submission (\<open>internal/store/accepted_limits.go\<close>). Byte sizes and durations are
  Go \<open>int64\<close> values; every bound the code accepts is far inside that range.
\<close>

section \<open>Definitions\<close>

subsection \<open>Profile limits\<close>

definition KiB :: int where
  "KiB = 1024"

definition MiB :: int where
  "MiB = 1024 * KiB"

record Limits =
  ArgumentsBytes :: int
  ArgumentDepth :: int
  ResponseBytes :: int
  ResultBytes :: int
  EventBytes :: int
  MaxEvents :: int
  EventsBytes :: int
  AwaitDefault :: int
  AwaitMax :: int
  PayloadRetention :: int
  TombstoneRetention :: int

definition Default :: Limits where
  "Default =
     \<lparr>ArgumentsBytes = MiB, ArgumentDepth = 32, ResponseBytes = 16 * MiB, ResultBytes = 8 * MiB,
      EventBytes = 16 * KiB, MaxEvents = 128, EventsBytes = MiB,
      AwaitDefault = 20 * Second, AwaitMax = 30 * Second,
      PayloadRetention = 7 * 24 * Hour, TombstoneRetention = 30 * 24 * Hour\<rparr>"

definition HardCeiling :: Limits where
  "HardCeiling =
     \<lparr>ArgumentsBytes = 4 * MiB, ArgumentDepth = 64, ResponseBytes = 64 * MiB,
      ResultBytes = 32 * MiB, EventBytes = 64 * KiB, MaxEvents = 512, EventsBytes = 4 * MiB,
      AwaitDefault = 30 * Second, AwaitMax = 60 * Second,
      PayloadRetention = 30 * 24 * Hour, TombstoneRetention = 90 * 24 * Hour\<rparr>"

text \<open>\<open>checkBytes\<close>, \<open>checkInt\<close> and \<open>checkDuration\<close> have the same body.\<close>

definition checkBytes :: "string \<Rightarrow> int \<Rightarrow> int \<Rightarrow> go_error + unit" where
  "checkBytes name got ceiling =
     (if got \<le> 0 \<or> got > ceiling then Inl (errors_New name) else Inr ())"

definition checkInt :: "string \<Rightarrow> int \<Rightarrow> int \<Rightarrow> go_error + unit" where
  "checkInt name got ceiling =
     (if got \<le> 0 \<or> got > ceiling then Inl (errors_New name) else Inr ())"

definition checkDuration :: "string \<Rightarrow> int \<Rightarrow> int \<Rightarrow> go_error + unit" where
  "checkDuration name got ceiling =
     (if got \<le> 0 \<or> got > ceiling then Inl (errors_New name) else Inr ())"

definition Validate :: "Limits \<Rightarrow> go_error + unit" where
  "Validate l =
     (let c = HardCeiling in
      rbind (checkBytes ''arguments_bytes'' (ArgumentsBytes l) (ArgumentsBytes c)) (\<lambda>_.
      rbind (checkInt ''argument_depth'' (ArgumentDepth l) (ArgumentDepth c)) (\<lambda>_.
      rbind (checkBytes ''response_bytes'' (ResponseBytes l) (ResponseBytes c)) (\<lambda>_.
      rbind (checkBytes ''result_bytes'' (ResultBytes l) (ResultBytes c)) (\<lambda>_.
      rbind (checkBytes ''event_bytes'' (EventBytes l) (EventBytes c)) (\<lambda>_.
      rbind (checkInt ''max_events'' (MaxEvents l) (MaxEvents c)) (\<lambda>_.
      rbind (checkBytes ''events_bytes'' (EventsBytes l) (EventsBytes c)) (\<lambda>_.
      rbind (checkDuration ''await_default'' (AwaitDefault l) (AwaitDefault c)) (\<lambda>_.
      rbind (checkDuration ''await_max'' (AwaitMax l) (AwaitMax c)) (\<lambda>_.
      rbind (ensure (AwaitDefault l \<le> AwaitMax l)
               (errors_New ''await_default exceeds await_max'')) (\<lambda>_.
      rbind (checkDuration ''payload_retention'' (PayloadRetention l) (PayloadRetention c)) (\<lambda>_.
      rbind (checkDuration ''tombstone_retention'' (TombstoneRetention l)
               (TombstoneRetention c)) (\<lambda>_.
      ensure (PayloadRetention l \<le> TombstoneRetention l)
        (errors_New ''tombstone_retention is below payload_retention''))))))))))))))"

subsection \<open>Accepted lifecycle limits\<close>

record AcceptedLimits =
  al_ResponseBytes :: int
  al_ResultBytes :: int
  al_EventBytes :: int
  al_MaxEvents :: int
  al_EventsBytes :: int
  al_PayloadRetention :: int
  al_TombstoneRetention :: int

definition persistedDuration :: "int \<Rightarrow> int" where
  "persistedDuration d = i64 (go_div (i64 (i64 (d + Millisecond) - 1)) Millisecond * Millisecond)"

definition acceptedLimitsFrom :: "Limits \<Rightarrow> AcceptedLimits" where
  "acceptedLimitsFrom lim =
     \<lparr>al_ResponseBytes = ResponseBytes lim, al_ResultBytes = ResultBytes lim,
      al_EventBytes = EventBytes lim, al_MaxEvents = MaxEvents lim,
      al_EventsBytes = EventsBytes lim,
      al_PayloadRetention = persistedDuration (PayloadRetention lim),
      al_TombstoneRetention = persistedDuration (TombstoneRetention lim)\<rparr>"

definition AcceptedLimits_validate :: "AcceptedLimits \<Rightarrow> go_error + unit" where
  "AcceptedLimits_validate lim =
     map_error (\<lambda>e. Errorf ''accepted lifecycle limits'' [e])
       (Validate (Default\<lparr>ResponseBytes := al_ResponseBytes lim,
          ResultBytes := al_ResultBytes lim, EventBytes := al_EventBytes lim,
          MaxEvents := al_MaxEvents lim, EventsBytes := al_EventsBytes lim,
          PayloadRetention := al_PayloadRetention lim,
          TombstoneRetention := al_TombstoneRetention lim\<rparr>))"

section \<open>Lemmas\<close>

lemmas time_units = Millisecond_def Second_def Hour_def
lemmas byte_units = KiB_def MiB_def

lemma check_iff [simp]:
  "checkBytes n g c = Inr u \<longleftrightarrow> 0 < g \<and> g \<le> c"
  "checkInt n g c = Inr u \<longleftrightarrow> 0 < g \<and> g \<le> c"
  "checkDuration n g c = Inr u \<longleftrightarrow> 0 < g \<and> g \<le> c"
  by (auto simp: checkBytes_def checkInt_def checkDuration_def)

text \<open>The characterisation of \<open>Validate\<close> every later proof uses.\<close>

definition within_ceiling :: "Limits \<Rightarrow> bool" where
  "within_ceiling l \<longleftrightarrow>
     0 < ArgumentsBytes l \<and> ArgumentsBytes l \<le> ArgumentsBytes HardCeiling \<and>
     0 < ArgumentDepth l \<and> ArgumentDepth l \<le> ArgumentDepth HardCeiling \<and>
     0 < ResponseBytes l \<and> ResponseBytes l \<le> ResponseBytes HardCeiling \<and>
     0 < ResultBytes l \<and> ResultBytes l \<le> ResultBytes HardCeiling \<and>
     0 < EventBytes l \<and> EventBytes l \<le> EventBytes HardCeiling \<and>
     0 < MaxEvents l \<and> MaxEvents l \<le> MaxEvents HardCeiling \<and>
     0 < EventsBytes l \<and> EventsBytes l \<le> EventsBytes HardCeiling \<and>
     0 < AwaitDefault l \<and> AwaitDefault l \<le> AwaitDefault HardCeiling \<and>
     0 < AwaitMax l \<and> AwaitMax l \<le> AwaitMax HardCeiling \<and> AwaitDefault l \<le> AwaitMax l \<and>
     0 < PayloadRetention l \<and> PayloadRetention l \<le> PayloadRetention HardCeiling \<and>
     0 < TombstoneRetention l \<and> TombstoneRetention l \<le> TombstoneRetention HardCeiling \<and>
     PayloadRetention l \<le> TombstoneRetention l"

lemma Validate_iff: "Validate l = Inr u \<longleftrightarrow> within_ceiling l"
  unfolding Validate_def within_ceiling_def Let_def
  by (simp only: rbind_eq_Inr check_iff ensure_eq) blast

lemma AcceptedLimits_validate_iff:
  "AcceptedLimits_validate a = Inr u \<longleftrightarrow>
     0 < al_ResponseBytes a \<and> al_ResponseBytes a \<le> ResponseBytes HardCeiling \<and>
     0 < al_ResultBytes a \<and> al_ResultBytes a \<le> ResultBytes HardCeiling \<and>
     0 < al_EventBytes a \<and> al_EventBytes a \<le> EventBytes HardCeiling \<and>
     0 < al_MaxEvents a \<and> al_MaxEvents a \<le> MaxEvents HardCeiling \<and>
     0 < al_EventsBytes a \<and> al_EventsBytes a \<le> EventsBytes HardCeiling \<and>
     0 < al_PayloadRetention a \<and> al_PayloadRetention a \<le> PayloadRetention HardCeiling \<and>
     0 < al_TombstoneRetention a \<and> al_TombstoneRetention a \<le> TombstoneRetention HardCeiling \<and>
     al_PayloadRetention a \<le> al_TombstoneRetention a"
  by (simp add: AcceptedLimits_validate_def Validate_iff within_ceiling_def Default_def
      HardCeiling_def time_units byte_units)

text \<open>Rounding a duration up to whole milliseconds, in the range the limits allow.\<close>

lemma persistedDuration_eq:
  assumes "0 \<le> d" "d \<le> TombstoneRetention HardCeiling"
  shows "persistedDuration d = (d + 999999) div 1000000 * 1000000"
proof -
  have b: "d \<le> 7776000000000000"
    using assms(2) by (simp add: HardCeiling_def time_units)
  have r1: "in_int64 (d + 1000000)" and r2: "in_int64 (d + 999999)"
    using assms(1) b by (simp_all add: in_int64_def)
  have "(d + 999999) div 1000000 * 1000000 \<le> d + 999999" and
    "0 \<le> (d + 999999) div 1000000 * 1000000"
    using assms(1) by simp_all
  then have r3: "in_int64 ((d + 999999) div 1000000 * 1000000)"
    using b by (simp add: in_int64_def)
  have "persistedDuration d = i64 (go_div (d + 999999) 1000000 * 1000000)"
    using r1 r2 by (simp add: persistedDuration_def Millisecond_def add_diff_eq [symmetric])
  also have "\<dots> = i64 ((d + 999999) div 1000000 * 1000000)"
    using assms(1) by (simp add: go_div_nonneg)
  finally show ?thesis using r3 by simp
qed

lemma persistedDuration_bounds:
  assumes "0 < d" "d \<le> TombstoneRetention HardCeiling"
  shows "d \<le> persistedDuration d" "persistedDuration d < d + Millisecond"
    "Millisecond dvd persistedDuration d"
  using assms by (simp_all add: persistedDuration_eq Millisecond_def)

lemma persistedDuration_mono:
  assumes "0 < d" "d \<le> e" "e \<le> TombstoneRetention HardCeiling"
  shows "persistedDuration d \<le> persistedDuration e"
  using assms by (simp add: persistedDuration_eq zdiv_mono1)

lemma persistedDuration_ceiling:
  assumes "0 < d" "d \<le> n * 1000000" "n * 1000000 \<le> TombstoneRetention HardCeiling"
  shows "persistedDuration d \<le> n * 1000000"
proof -
  have "(d + 999999) div 1000000 \<le> n" using assms(2) by simp
  with assms show ?thesis by (simp add: persistedDuration_eq)
qed

end
