(* ===== verification/Store_Base.thy ===== *)
theory Store_Base
  imports Submission Profile_Limits Json
begin

text \<open>
  The profile state database (\<open>internal/store\<close>): its tables, the sealed columns, write
  transactions, and reading one submission back.

  The six SQL tables are the fields of \<open>db\<close>, each keyed by its primary key. An operation takes an
  \<open>env\<close>: the two clock readings it may make (the second no earlier than the first in real runs, but
  no definition assumes it), the store's limits and state key, SHA-256, and for each statement of a
  transaction the driver error it meets, if any. A write transaction (\<open>BEGIN IMMEDIATE\<close> to
  \<open>COMMIT\<close>) applies its body or leaves the database as it was.

  Sealed columns follow the ideal AES-256-GCM: a blob carries its key, its additional data and the
  sealed value, and opens only under both. The value is the one the code marshals before sealing
  and unmarshals after opening. The random nonce only makes two blobs of one value differ and is
  left out. The columns \<open>lease_owner\<close> and \<open>lease_expires_at\<close>, which no statement touches,
  are left out.
\<close>

section \<open>Definitions\<close>

subsection \<open>Terminal results\<close>

record result =
  res_IsError :: bool
  res_Content :: "json list option"
  res_StructuredContent :: "json option"
  res_Meta :: "json option"

text \<open>
  Unmarshalling a block into \<open>struct{Type string}\<close>: Go matches the member name without regard to
  case, a \<open>null\<close> leaves the field alone, another kind of value is an error.
\<close>

fun header_type :: "(string \<times> json) list \<Rightarrow> string \<Rightarrow> string option" where
  "header_type [] t = Some t"
| "header_type ((k, v) # ms) t =
     (if ascii_lower k = ''type'' then
        (case v of JStr s \<Rightarrow> header_type ms s | JNull \<Rightarrow> header_type ms t | _ \<Rightarrow> None)
      else header_type ms t)"

definition block_ok :: "json \<Rightarrow> bool" where
  "block_ok b =
     (case Canonical (tokens b) of
        Inr (JObj ms) \<Rightarrow> (case header_type ms '''' of Some t \<Rightarrow> t \<noteq> '''' | None \<Rightarrow> False)
      | _ \<Rightarrow> False)"

definition Result_Validate :: "result \<Rightarrow> go_error + unit" where
  "Result_Validate r =
     (case res_Content r of
        None \<Rightarrow> Inl (errors_New ''content is required'')
      | Some blocks \<Rightarrow>
          rbind (ensure (list_all block_ok blocks) (errors_New ''content block'')) (\<lambda>_.
          rbind (case res_StructuredContent r of
                   None \<Rightarrow> Inr ()
                 | Some v \<Rightarrow> (case Canonical (tokens v) of
                     Inl e \<Rightarrow> Inl (Errorf ''structured_content is not valid unambiguous JSON'' [e])
                   | Inr _ \<Rightarrow> Inr ())) (\<lambda>_.
          case res_Meta r of
            None \<Rightarrow> Inr ()
          | Some v \<Rightarrow> (case Canonical (tokens v) of
              Inr (JObj _) \<Rightarrow> Inr ()
            | _ \<Rightarrow> Inl (errors_New ''result _meta is not a JSON object'')))))"

text \<open>\<open>json.Marshal\<close> of a result: struct order, empty optional members omitted.\<close>

definition result_json :: "result \<Rightarrow> json" where
  "result_json r = JObj
     ([(''is_error'', JBool (res_IsError r)),
       (''content'', case res_Content r of None \<Rightarrow> JNull | Some bs \<Rightarrow> JArr bs)] @
      (case res_StructuredContent r of None \<Rightarrow> [] | Some v \<Rightarrow> [(''structured_content'', v)]) @
      (case res_Meta r of None \<Rightarrow> [] | Some v \<Rightarrow> [(''_meta'', v)]))"

subsection \<open>Environment\<close>

datatype stage = Begin | QueryStmt | ExecStmt | PlainExec | CommitStmt | ReadBack | NonceRead

record env =
  env_now :: int
  env_later :: int
  env_limits :: Limits
  env_key :: string
  env_sha256 :: "string \<Rightarrow> string"
  env_fault :: "stage \<Rightarrow> string option"

definition wrapBusy :: "string \<Rightarrow> go_error" where
  "wrapBusy m = (if contains ''SQLITE_BUSY'' m then Errorf m [Sentinel ErrBusy] else errors_New m)"

text \<open>
  The statements that go through \<open>beginWriteTx\<close>, \<open>writeTx.ExecContext\<close> and \<open>Store.exec\<close> tag a
  write-lock timeout; queries, \<open>COMMIT\<close> and a direct \<open>db.ExecContext\<close> (\<open>PlainExec\<close>) do not.
\<close>

definition driver_error :: "stage \<Rightarrow> string \<Rightarrow> go_error" where
  "driver_error st m = (if st = Begin \<or> st = ExecStmt then wrapBusy m else errors_New m)"

definition statement :: "env \<Rightarrow> stage \<Rightarrow> string \<Rightarrow> go_error + unit" where
  "statement e st what =
     (case env_fault e st of None \<Rightarrow> Inr () | Some m \<Rightarrow> Inl (Errorf what [driver_error st m]))"

subsection \<open>Sealed columns\<close>

datatype 'a blob = Blob (blob_key: string) (blob_aad: string) (blob_plain: 'a)

definition blobAAD :: "string \<Rightarrow> string \<Rightarrow> string" where
  "blobAAD submissionID kind = ''tama-link/blob/v1/'' @ submissionID @ ''/'' @ kind"

definition seal_blob :: "env \<Rightarrow> 'a \<Rightarrow> string \<Rightarrow> string \<Rightarrow> go_error + 'a blob" where
  "seal_blob e plaintext submissionID kind =
     (case env_fault e NonceRead of
        Some m \<Rightarrow> Inl (Errorf ''state nonce'' [errors_New m])
      | None \<Rightarrow> Inr (Blob (env_key e) (blobAAD submissionID kind) plaintext))"

definition open_blob :: "env \<Rightarrow> 'a blob \<Rightarrow> string \<Rightarrow> string \<Rightarrow> go_error + 'a" where
  "open_blob e b submissionID kind =
     (if blob_key b = env_key e \<and> blob_aad b = blobAAD submissionID kind
      then Inr (blob_plain b) else Inl (errors_New ''state blob''))"

subsection \<open>Tables\<close>

record row =
  r_client_request_id :: string
  r_tool :: string
  r_strategy :: string
  r_descriptor_digest :: string
  r_args_hash :: string
  r_args_enc :: "json blob option"
  r_task_id :: "string option"
  r_status :: status
  r_sequence :: int
  r_events_enc :: "event list blob option"
  r_result_enc :: "result blob option"
  r_error_code :: "code option"
  r_error_message :: "string option"
  r_error_retryable :: bool
  r_protocol_version :: string
  r_adapter_version :: string
  r_response_bytes :: int
  r_result_bytes :: int
  r_event_bytes :: int
  r_max_events :: int
  r_events_bytes :: int
  r_payload_retention_ms :: int
  r_tombstone_retention_ms :: int
  r_created_at :: int
  r_updated_at :: int
  r_completed_at :: "int option"
  r_payload_expires_at :: "int option"
  r_tombstone_expires_at :: "int option"
  r_task_ttl_ms :: int
  r_task_poll_interval_ms :: int
  r_task_capabilities :: string
  r_task_updated_at :: string
  r_input_requests_enc :: "json blob option"
  r_terminal_evidence_enc :: "string blob option"

record response_row =
  ir_response_enc :: "json blob"
  ir_answered_at :: int
  ir_sent_at :: "int option"

record idempotency_row =
  id_args_hash :: string
  id_submission_id :: string
  id_created_at :: int

record lease_row =
  l_owner :: string
  l_expires_at :: int
  l_generation :: int

record fence_row =
  f_generation :: int
  f_slot :: string

record db =
  meta :: "(string, string) table"
  submissions :: "(string, row) table"
  input_responses :: "(string \<times> string, response_row) table"
  idempotency :: "(string, idempotency_row) table"
  leases :: "(string, lease_row) table"
  credential_fence :: "(string, fence_row) table"

definition empty_db :: db where
  "empty_db = \<lparr>meta = [], submissions = [], input_responses = [], idempotency = [],
     leases = [], credential_fence = []\<rparr>"

subsection \<open>Transactions\<close>

text \<open>
  \<open>beginWriteTx\<close>, the body, \<open>Commit\<close>, with \<open>Rollback\<close> deferred: a body that fails, a failed begin
  and a failed commit leave the database unchanged.
\<close>

definition writeTx ::
    "env \<Rightarrow> string \<Rightarrow> (db \<Rightarrow> go_error + 'a \<times> db) \<Rightarrow> db \<Rightarrow> (go_error + 'a) \<times> db" where
  "writeTx e what body d =
     (case statement e Begin what of
        Inl err \<Rightarrow> (Inl err, d)
      | Inr _ \<Rightarrow>
          (case body d of
             Inl err \<Rightarrow> (Inl err, d)
           | Inr (a, d') \<Rightarrow>
               (case statement e CommitStmt what of
                  Inl err \<Rightarrow> (Inl err, d)
                | Inr _ \<Rightarrow> (Inr a, d'))))"

text \<open>An \<open>UPDATE submissions \<dots> WHERE submission_id = ? AND \<dots>\<close>: rows changed and the database.\<close>

definition update_where :: "string \<Rightarrow> (row \<Rightarrow> bool) \<Rightarrow> (row \<Rightarrow> row) \<Rightarrow> db \<Rightarrow> nat \<times> db" where
  "update_where sid cond f d =
     (case row_at (submissions d) sid of
        Some r \<Rightarrow> if cond r then (1, d\<lparr>submissions := put_row sid (f r) (submissions d)\<rparr>) else (0, d)
      | None \<Rightarrow> (0, d))"

definition requireUpdated :: "nat \<times> db \<Rightarrow> go_error + unit \<times> db" where
  "requireUpdated u =
     (if fst u = 1 then Inr ((), snd u) else Inl (Sentinel ErrConcurrentUpdate))"

subsection \<open>Reading a submission\<close>

record Submission =
  sub_ID :: string
  sub_ClientRequestID :: string
  sub_Tool :: string
  sub_Strategy :: string
  sub_DescriptorDigest :: string
  sub_Arguments :: "json option"
  sub_ArgsHash :: string
  sub_TaskID :: string
  sub_TaskTTLMs :: int
  sub_TaskPollIntervalMs :: int
  sub_TaskCapabilities :: string
  sub_TaskUpdatedAt :: string
  sub_InputRequests :: "json option"
  sub_TerminalEvidence :: "string option"
  sub_Status :: status
  sub_Sequence :: int
  sub_Events :: "event list"
  sub_Result :: "result option"
  sub_ErrorCode :: "code option"
  sub_ErrorMessage :: string
  sub_ErrorRetryable :: bool
  sub_ProtocolVersion :: string
  sub_AdapterVersion :: string
  sub_AcceptedLimits :: AcceptedLimits
  sub_CreatedAt :: int
  sub_UpdatedAt :: int
  sub_CompletedAt :: "int option"
  sub_PayloadExpiresAt :: "int option"
  sub_encArgs :: "json blob option"
  sub_encEvents :: "event list blob option"
  sub_encResult :: "result blob option"
  sub_encInputRequests :: "json blob option"
  sub_encTerminalEvidence :: "string blob option"

definition row_limits :: "row \<Rightarrow> AcceptedLimits" where
  "row_limits r =
     \<lparr>al_ResponseBytes = r_response_bytes r, al_ResultBytes = r_result_bytes r,
      al_EventBytes = r_event_bytes r, al_MaxEvents = r_max_events r,
      al_EventsBytes = r_events_bytes r,
      al_PayloadRetention = i64 (r_payload_retention_ms r * Millisecond),
      al_TombstoneRetention = i64 (r_tombstone_retention_ms r * Millisecond)\<rparr>"

definition unavailable :: "string \<Rightarrow> go_error \<Rightarrow> go_error" where
  "unavailable what err = Errorf what [Sentinel ErrStateUnavailable, err]"

definition scanSubmission :: "string \<Rightarrow> row \<Rightarrow> go_error + Submission" where
  "scanSubmission sid r =
     rbind (map_error (unavailable sid) (AcceptedLimits_validate (row_limits r))) (\<lambda>_.
     rbind (ensure (Valid (r_status r)) (errors_New ''unknown status'')) (\<lambda>_.
     Inr \<lparr>sub_ID = sid, sub_ClientRequestID = r_client_request_id r, sub_Tool = r_tool r,
       sub_Strategy = r_strategy r, sub_DescriptorDigest = r_descriptor_digest r,
       sub_Arguments = None, sub_ArgsHash = r_args_hash r,
       sub_TaskID = (case r_task_id r of None \<Rightarrow> '''' | Some t \<Rightarrow> t),
       sub_TaskTTLMs = r_task_ttl_ms r, sub_TaskPollIntervalMs = r_task_poll_interval_ms r,
       sub_TaskCapabilities = r_task_capabilities r, sub_TaskUpdatedAt = r_task_updated_at r,
       sub_InputRequests = None, sub_TerminalEvidence = None,
       sub_Status = r_status r, sub_Sequence = r_sequence r, sub_Events = [],
       sub_Result = None, sub_ErrorCode = r_error_code r,
       sub_ErrorMessage = (case r_error_message r of None \<Rightarrow> '''' | Some m \<Rightarrow> m),
       sub_ErrorRetryable = r_error_retryable r,
       sub_ProtocolVersion = r_protocol_version r, sub_AdapterVersion = r_adapter_version r,
       sub_AcceptedLimits = row_limits r,
       sub_CreatedAt = r_created_at r, sub_UpdatedAt = r_updated_at r,
       sub_CompletedAt = r_completed_at r, sub_PayloadExpiresAt = r_payload_expires_at r,
       sub_encArgs = r_args_enc r, sub_encEvents = r_events_enc r,
       sub_encResult = r_result_enc r, sub_encInputRequests = r_input_requests_enc r,
       sub_encTerminalEvidence = r_terminal_evidence_enc r\<rparr>))"

definition open_column ::
    "env \<Rightarrow> string \<Rightarrow> string \<Rightarrow> 'a blob option \<Rightarrow> go_error + 'a option" where
  "open_column e sid kind c =
     (case c of
        None \<Rightarrow> Inr None
      | Some b \<Rightarrow> map_error (unavailable sid) (rbind (open_blob e b sid kind) (\<lambda>p. Inr (Some p))))"

definition decryptSubmission :: "env \<Rightarrow> Submission \<Rightarrow> go_error + Submission" where
  "decryptSubmission e s =
     (let sid = sub_ID s in
      rbind (open_column e sid ''arguments'' (sub_encArgs s)) (\<lambda>args.
      rbind (open_column e sid ''events'' (sub_encEvents s)) (\<lambda>events.
      rbind (open_column e sid ''input-requests'' (sub_encInputRequests s)) (\<lambda>reqs.
      rbind (open_column e sid ''terminal-evidence'' (sub_encTerminalEvidence s)) (\<lambda>evidence.
      rbind (open_column e sid ''result'' (sub_encResult s)) (\<lambda>result.
      Inr (s\<lparr>sub_Arguments := args,
             sub_Events := (case events of None \<Rightarrow> [] | Some es \<Rightarrow> es),
             sub_InputRequests := reqs, sub_TerminalEvidence := evidence,
             sub_Result := result\<rparr>)))))))"

definition loadEncrypted :: "env \<Rightarrow> db \<Rightarrow> string \<Rightarrow> go_error + Submission" where
  "loadEncrypted e d sid =
     rbind (statement e QueryStmt ''scan submission'') (\<lambda>_.
     case row_at (submissions d) sid of
       None \<Rightarrow> Inl (Errorf sid [Sentinel ErrNotFound])
     | Some r \<Rightarrow> scanSubmission sid r)"

definition GetSubmission :: "env \<Rightarrow> db \<Rightarrow> string \<Rightarrow> go_error + Submission" where
  "GetSubmission e d sid =
     rbind (statement e ReadBack ''scan submission'') (\<lambda>_.
     case row_at (submissions d) sid of
       None \<Rightarrow> Inl (Errorf sid [Sentinel ErrNotFound])
     | Some r \<Rightarrow> rbind (scanSubmission sid r) (decryptSubmission e))"

text \<open>The result of an operation that commits and then reads the submission back.\<close>

definition read_back ::
    "env \<Rightarrow> string \<Rightarrow> (go_error + unit) \<times> db \<Rightarrow> (go_error + Submission) \<times> db" where
  "read_back e sid p =
     (case p of (Inl err, d) \<Rightarrow> (Inl err, d) | (Inr _, d) \<Rightarrow> (GetSubmission e d sid, d))"

section \<open>Lemmas\<close>

subsection \<open>Sealing\<close>

text \<open>
  What the store needs of authenticated encryption: a sealed value opens under its own key and
  additional data, and under nothing else.
\<close>

locale authenticated_encryption =
  fixes seal :: "'k \<Rightarrow> 'ad \<Rightarrow> 'p \<Rightarrow> 'c"
    and unseal :: "'k \<Rightarrow> 'ad \<Rightarrow> 'c \<Rightarrow> 'p option"
  assumes unseal_seal: "unseal k a (seal k a p) = Some p"
    and unseal_authentic: "unseal k a c = Some p \<Longrightarrow> c = seal k a p"
begin

lemma unseal_other:
  assumes inj: "\<And>k a p k' a' p'. seal k a p = seal k' a' p' \<Longrightarrow> k = k' \<and> a = a'"
    and "(k, a) \<noteq> (k', a')"
  shows "unseal k' a' (seal k a p) = None"
proof (rule ccontr)
  assume "unseal k' a' (seal k a p) \<noteq> None"
  then obtain q where "unseal k' a' (seal k a p) = Some q" by blast
  then have "seal k a p = seal k' a' q" by (rule unseal_authentic)
  from inj [OF this] assms(2) show False by simp
qed

end

interpretation gcm: authenticated_encryption Blob
    "\<lambda>k a c. if blob_key c = k \<and> blob_aad c = a then Some (blob_plain c) else None"
proof
  fix k a :: string and c p
  assume "(if blob_key c = k \<and> blob_aad c = a then Some (blob_plain c) else None) = Some p"
  then show "c = Blob k a p" by (cases c) (auto split: if_splits)
qed simp

lemma open_blob_iff:
  "open_blob e b sid kind = Inr p \<longleftrightarrow> b = Blob (env_key e) (blobAAD sid kind) p"
  by (cases b) (auto simp: open_blob_def)

lemma seal_blob_iff:
  "seal_blob e p sid kind = Inr b \<longleftrightarrow>
     env_fault e NonceRead = None \<and> b = Blob (env_key e) (blobAAD sid kind) p"
  by (auto simp: seal_blob_def split: option.splits)

lemma blobAAD_inj:
  assumes "CHR ''/'' \<notin> set a" "CHR ''/'' \<notin> set b" "blobAAD a k = blobAAD b l"
  shows "a = b \<and> k = l"
proof -
  have eq: "a @ CHR ''/'' # k = b @ CHR ''/'' # l"
    using assms(3) by (simp add: blobAAD_def)
  have tw: "takeWhile (\<lambda>c. c \<noteq> CHR ''/'') (x @ CHR ''/'' # y) = x" if "CHR ''/'' \<notin> set x" for x y
    using that by (induction x) auto
  have "a = b" using arg_cong [OF eq, of "takeWhile (\<lambda>c. c \<noteq> CHR ''/'')"] tw assms(1,2) by simp
  with eq show ?thesis by simp
qed

subsection \<open>Statements and transactions\<close>

lemma statement_iff: "statement e st w = Inr u \<longleftrightarrow> env_fault e st = None"
  by (auto simp: statement_def split: option.splits)

lemma statement_ok [simp]: "env_fault e st = None \<Longrightarrow> statement e st w = Inr ()"
  by (simp add: statement_def)

lemma writeTx_Inr:
  "writeTx e w body d = (Inr a, d') \<longleftrightarrow>
     env_fault e Begin = None \<and> env_fault e CommitStmt = None \<and> body d = Inr (a, d')"
  by (auto simp: writeTx_def statement_def split: sum.splits option.splits prod.splits)

lemma writeTx_Inl: "writeTx e w body d = (Inl err, d') \<Longrightarrow> d' = d"
  by (auto simp: writeTx_def split: sum.splits prod.splits)

lemma writeTx_ok:
  "env_fault e Begin = None \<Longrightarrow> env_fault e CommitStmt = None \<Longrightarrow> body d = Inr (a, d') \<Longrightarrow>
     writeTx e w body d = (Inr a, d')"
  by (simp add: writeTx_Inr)

text \<open>The one fact about transactions the invariants use: the database is the old one, or the
  one a successful body returned.\<close>

lemma writeTx_cases:
  obtains (unchanged) err where "writeTx e w body d = (Inl err, d)"
  | (committed) a d' where "writeTx e w body d = (Inr a, d')" "body d = Inr (a, d')"
proof (cases "writeTx e w body d")
  case (Pair r d')
  show ?thesis
  proof (cases r)
    case (Inl err)
    with Pair show ?thesis using writeTx_Inl unchanged by metis
  next
    case (Inr a)
    with Pair show ?thesis using committed writeTx_Inr by metis
  qed
qed

lemma snd_read_back [simp]: "snd (read_back e sid p) = snd p"
  by (auto simp: read_back_def split: prod.splits sum.splits)

lemma update_where_updated:
  "fst (update_where sid c f d) = 1 \<longleftrightarrow> (\<exists>r. row_at (submissions d) sid = Some r \<and> c r)"
  by (auto simp: update_where_def split: option.splits)

lemma requireUpdated_iff:
  "requireUpdated (update_where sid c f d) = Inr (u, d') \<longleftrightarrow>
     (\<exists>r. row_at (submissions d) sid = Some r \<and> c r \<and>
          d' = d\<lparr>submissions := put_row sid (f r) (submissions d)\<rparr>)"
  by (auto simp: requireUpdated_def update_where_def split: option.splits)

subsection \<open>Reading\<close>

lemma scanSubmission_fields:
  assumes "scanSubmission sid r = Inr s"
  shows "sub_ID s = sid" "sub_Status s = r_status r" "sub_AcceptedLimits s = row_limits r"
    "sub_Sequence s = r_sequence r" "sub_encEvents s = r_events_enc r" "Valid (r_status r)"
    "AcceptedLimits_validate (row_limits r) = Inr ()"
  using assms by (auto simp: scanSubmission_def result_simps)

lemma scanSubmission_defined:
  "AcceptedLimits_validate (row_limits r) = Inr () \<Longrightarrow> Valid (r_status r) \<Longrightarrow>
     \<exists>s. scanSubmission sid r = Inr s"
  by (simp add: scanSubmission_def)

lemma loadEncrypted_iff:
  "loadEncrypted e d sid = Inr s \<longleftrightarrow>
     env_fault e QueryStmt = None \<and>
     (\<exists>r. row_at (submissions d) sid = Some r \<and> scanSubmission sid r = Inr s)"
  by (auto simp: loadEncrypted_def result_simps statement_iff split: option.splits)

end
