(* ===== verification/Store_Lease.thy ===== *)
theory Store_Lease
  imports Store_Base
begin

text \<open>
  Cross-process leases (\<open>internal/store/lease.go\<close>, \<open>lease_guard.go\<close>): a named row with an owner,
  an expiry in milliseconds and a generation. \<open>ClaimLease\<close> is one upsert statement; the guard
  \<open>requireLiveLease\<close> runs inside the transaction it protects.
\<close>

section \<open>Definitions\<close>

definition CredentialLeaseName :: string where
  "CredentialLeaseName = ''oauth/refresh''"

definition validateLease :: "string \<Rightarrow> string \<Rightarrow> int \<Rightarrow> go_error + unit" where
  "validateLease name owner ttl =
     (if name = '''' then Inl (errors_New ''lease name is required'')
      else if owner = '''' then Inl (errors_New ''lease owner is required'')
      else if ttl < Millisecond then Inl (errors_New ''lease TTL must be at least 1ms'')
      else Inr ())"

definition leaseDeadlineMilliseconds :: "int \<Rightarrow> int \<Rightarrow> int" where
  "leaseDeadlineMilliseconds now ttl =
     (let deadline = now + ttl; milliseconds = UnixMilli deadline in
      if milliseconds * Millisecond < deadline then milliseconds + 1 else milliseconds)"

definition ClaimLease ::
    "env \<Rightarrow> string \<Rightarrow> string \<Rightarrow> int \<Rightarrow> db \<Rightarrow> (go_error + bool) \<times> db" where
  "ClaimLease e name owner ttl d =
     (case rbind (validateLease name owner ttl) (\<lambda>_. statement e ExecStmt ''claim lease'') of
        Inl err \<Rightarrow> (Inl err, d)
      | Inr _ \<Rightarrow>
          let nowMs = UnixMilli (env_now e);
              expiresAt = leaseDeadlineMilliseconds (env_now e) ttl;
              held = UnixMilli (env_later e) < expiresAt;
              grant = (\<lambda>g. d\<lparr>leases :=
                 put_row name \<lparr>l_owner = owner, l_expires_at = expiresAt, l_generation = g\<rparr> (leases d)\<rparr>)
          in (case row_at (leases d) name of
                None \<Rightarrow> (Inr held, grant 1)
              | Some l \<Rightarrow>
                  if l_expires_at l \<le> nowMs \<or> l_owner l = owner
                  then (Inr held, grant (if l_owner l = owner then l_generation l
                                         else l_generation l + 1))
                  else (Inr False, d)))"

definition RenewLease ::
    "env \<Rightarrow> string \<Rightarrow> string \<Rightarrow> int \<Rightarrow> db \<Rightarrow> (go_error + bool) \<times> db" where
  "RenewLease e name owner ttl d =
     (case rbind (validateLease name owner ttl) (\<lambda>_. statement e ExecStmt ''renew lease'') of
        Inl err \<Rightarrow> (Inl err, d)
      | Inr _ \<Rightarrow>
          let nowMs = UnixMilli (env_now e);
              expiresAt = leaseDeadlineMilliseconds (env_now e) ttl
          in (case row_at (leases d) name of
                None \<Rightarrow> (Inr False, d)
              | Some l \<Rightarrow>
                  if l_owner l = owner \<and> l_expires_at l > nowMs
                  then (Inr (UnixMilli (env_later e) < expiresAt),
                        d\<lparr>leases := put_row name (l\<lparr>l_expires_at := expiresAt\<rparr>) (leases d)\<rparr>)
                  else (Inr False, d)))"

definition LeaseGeneration :: "env \<Rightarrow> string \<Rightarrow> string \<Rightarrow> db \<Rightarrow> go_error + int option" where
  "LeaseGeneration e name owner d =
     rbind (validateLease name owner (60 * Second)) (\<lambda>_.
     rbind (statement e QueryStmt ''read lease generation'') (\<lambda>_.
     case row_at (leases d) name of
       None \<Rightarrow> Inr None
     | Some l \<Rightarrow> Inr (if l_owner l = owner \<and> l_expires_at l > UnixMilli (env_now e)
                    then Some (l_generation l) else None)))"

text \<open>\<open>CommitLease\<close> writes \<open>expires_at = expires_at\<close>: the row is matched and not changed.\<close>

definition CommitLease ::
    "env \<Rightarrow> string \<Rightarrow> string \<Rightarrow> int \<Rightarrow> db \<Rightarrow> (go_error + bool) \<times> db" where
  "CommitLease e name owner generation d =
     (case rbind (validateLease name owner (60 * Second))
             (\<lambda>_. statement e ExecStmt ''commit lease'') of
        Inl err \<Rightarrow> (Inl err, d)
      | Inr _ \<Rightarrow>
          (case row_at (leases d) name of
             None \<Rightarrow> (Inr False, d)
           | Some l \<Rightarrow>
               (Inr (l_owner l = owner \<and> l_generation l = generation
                     \<and> l_expires_at l > UnixMilli (env_now e)), d)))"

definition ReleaseLease :: "env \<Rightarrow> string \<Rightarrow> string \<Rightarrow> db \<Rightarrow> (go_error + unit) \<times> db" where
  "ReleaseLease e name owner d =
     (case statement e ExecStmt ''release lease'' of
        Inl err \<Rightarrow> (Inl err, d)
      | Inr _ \<Rightarrow>
          (case row_at (leases d) name of
             Some l \<Rightarrow> (Inr (), if l_owner l = owner then d\<lparr>leases := del_row name (leases d)\<rparr> else d)
           | None \<Rightarrow> (Inr (), d)))"

definition ListLeases :: "env \<Rightarrow> string \<Rightarrow> db \<Rightarrow> go_error + (string \<times> int) list" where
  "ListLeases e owner d =
     rbind (ensure (owner \<noteq> '''') (errors_New ''lease owner is required'')) (\<lambda>_.
     rbind (statement e QueryStmt ''list leases'') (\<lambda>_.
     Inr (map (\<lambda>p. (fst p, l_expires_at (snd p)))
       (filter (\<lambda>p. l_owner (snd p) = owner \<and> l_expires_at (snd p) > UnixMilli (env_now e))
          (leases d)))))"

type_synonym lease_identity = "string \<times> string"

definition requireLiveLease :: "env \<Rightarrow> db \<Rightarrow> lease_identity \<Rightarrow> go_error + unit" where
  "requireLiveLease e d lease =
     rbind (statement e QueryStmt ''check lease'') (\<lambda>_.
     case row_at (leases d) (fst lease) of
       None \<Rightarrow> Inl (Sentinel ErrLeaseNotOwned)
     | Some l \<Rightarrow> ensure (l_owner l = snd lease \<and> l_expires_at l > UnixMilli (env_now e))
                  (Sentinel ErrLeaseNotOwned))"

definition require_lease :: "env \<Rightarrow> db \<Rightarrow> lease_identity option \<Rightarrow> go_error + unit" where
  "require_lease e d lease = (case lease of None \<Rightarrow> Inr () | Some l \<Rightarrow> requireLiveLease e d l)"

text \<open>Lease calls as values, so that an interleaving of processes is a list of calls.\<close>

datatype lease_call =
    Claim env string string int
  | Renew env string string int
  | Commit env string string int
  | Release env string string

fun call_lease :: "lease_call \<Rightarrow> db \<Rightarrow> db" where
  "call_lease (Claim e n w ttl) d = snd (ClaimLease e n w ttl d)"
| "call_lease (Renew e n w ttl) d = snd (RenewLease e n w ttl d)"
| "call_lease (Commit e n w g) d = snd (CommitLease e n w g d)"
| "call_lease (Release e n w) d = snd (ReleaseLease e n w d)"

fun call_owner :: "lease_call \<Rightarrow> string" where
  "call_owner (Claim e n w ttl) = w"
| "call_owner (Renew e n w ttl) = w"
| "call_owner (Commit e n w g) = w"
| "call_owner (Release e n w) = w"

fun call_time :: "lease_call \<Rightarrow> int" where
  "call_time (Claim e n w ttl) = UnixMilli (env_now e)"
| "call_time (Renew e n w ttl) = UnixMilli (env_now e)"
| "call_time (Commit e n w g) = UnixMilli (env_now e)"
| "call_time (Release e n w) = UnixMilli (env_now e)"

definition holds :: "db \<Rightarrow> string \<Rightarrow> string \<Rightarrow> int \<Rightarrow> bool" where
  "holds d name owner ms =
     (case row_at (leases d) name of
        None \<Rightarrow> False
      | Some l \<Rightarrow> l_owner l = owner \<and> ms < l_expires_at l)"

section \<open>Lemmas\<close>

lemmas lease_defs = ClaimLease_def RenewLease_def CommitLease_def ReleaseLease_def

lemma validateLease_iff:
  "validateLease n w ttl = Inr u \<longleftrightarrow> n \<noteq> '''' \<and> w \<noteq> '''' \<and> Millisecond \<le> ttl"
  by (auto simp: validateLease_def)

text \<open>The deadline is the ceiling of \<open>now + ttl\<close> in milliseconds: never early, under 1 ms late.\<close>

lemma leaseDeadline_bounds:
  "now + ttl \<le> leaseDeadlineMilliseconds now ttl * Millisecond"
  "leaseDeadlineMilliseconds now ttl * Millisecond < now + ttl + Millisecond"
  by (auto simp: leaseDeadlineMilliseconds_def UnixMilli_def Millisecond_def Let_def)

lemma requireLiveLease_iff:
  "requireLiveLease e d l = Inr u \<longleftrightarrow>
     env_fault e QueryStmt = None \<and> holds d (fst l) (snd l) (UnixMilli (env_now e))"
  by (auto simp: requireLiveLease_def holds_def result_simps statement_iff split: option.splits)

lemma requireLiveLease_lost:
  "env_fault e QueryStmt = None \<Longrightarrow> \<not> holds d (fst l) (snd l) (UnixMilli (env_now e)) \<Longrightarrow>
     requireLiveLease e d l = Inl (Sentinel ErrLeaseNotOwned)"
  by (auto simp: requireLiveLease_def holds_def split: option.splits)

text \<open>
  The interface the lease clients rely on: a call by another owner, made before the expiry, leaves
  a held lease alone. A run of such calls then leaves it alone too.
\<close>

locale lease_protocol =
  fixes entry :: "'s \<Rightarrow> string \<Rightarrow> (string \<times> int) option"
    and perform :: "'c \<Rightarrow> 's \<Rightarrow> 's"
    and actor :: "'c \<Rightarrow> string"
    and instant :: "'c \<Rightarrow> int"
  assumes foreign_call:
    "entry s n = Some (w, x) \<Longrightarrow> actor c \<noteq> w \<Longrightarrow> instant c < x \<Longrightarrow> entry (perform c s) n = Some (w, x)"
begin

lemma foreign_run:
  assumes "entry s n = Some (w, x)" and "\<And>c. c \<in> set cs \<Longrightarrow> actor c \<noteq> w \<and> instant c < x"
  shows "entry (fold perform cs s) n = Some (w, x)"
  using assms by (induction cs arbitrary: s) (auto simp: foreign_call)

end

definition lease_entry :: "db \<Rightarrow> string \<Rightarrow> (string \<times> int) option" where
  "lease_entry d n = map_option (\<lambda>l. (l_owner l, l_expires_at l)) (row_at (leases d) n)"

interpretation store_lease: lease_protocol lease_entry call_lease call_owner call_time
proof
  fix d n w x c
  assume "lease_entry d n = Some (w, x)" "call_owner c \<noteq> w" "call_time c < x"
  then show "lease_entry (call_lease c d) n = Some (w, x)"
    by (cases c) (auto simp: lease_entry_def lease_defs Let_def split: sum.splits option.splits)
qed

lemma holds_entry: "holds d n w t \<longleftrightarrow> (\<exists>x. lease_entry d n = Some (w, x) \<and> t < x)"
  by (auto simp: holds_def lease_entry_def split: option.splits)

lemma ClaimLease_grants:
  assumes "ClaimLease e n w ttl d = (Inr True, d')"
  shows "lease_entry d' n = Some (w, leaseDeadlineMilliseconds (env_now e) ttl)"
    "holds d' n w (UnixMilli (env_later e))"
  using assms
  by (auto simp: ClaimLease_def lease_entry_def holds_def Let_def split: sum.splits option.splits if_splits)

lemma lease_calls_frame:
  "submissions (snd (ClaimLease e n w ttl d)) = submissions d"
  "submissions (snd (RenewLease e n w ttl d)) = submissions d"
  "submissions (snd (CommitLease e n w g d)) = submissions d"
  "submissions (snd (ReleaseLease e n w d)) = submissions d"
  "idempotency (snd (ClaimLease e n w ttl d)) = idempotency d"
  "idempotency (snd (RenewLease e n w ttl d)) = idempotency d"
  "idempotency (snd (CommitLease e n w g d)) = idempotency d"
  "idempotency (snd (ReleaseLease e n w d)) = idempotency d"
  by (auto simp: lease_defs Let_def split: sum.splits option.splits)

lemma lease_generation_of:
  "lease_entry d n = Some (w, x) \<Longrightarrow> \<exists>l. row_at (leases d) n = Some l \<and> l_owner l = w \<and> l_expires_at l = x"
  by (auto simp: lease_entry_def)

text \<open>Without a release, the generation never goes down, and it goes up when the owner changes.\<close>

fun is_release :: "lease_call \<Rightarrow> bool" where
  "is_release (Release e n w) = True"
| "is_release _ = False"

lemma generation_call:
  assumes "row_at (leases d) n = Some l" "\<not> is_release c"
  shows "\<exists>l'. row_at (leases (call_lease c d)) n = Some l' \<and> l_generation l \<le> l_generation l'
    \<and> (l_owner l' \<noteq> l_owner l \<longrightarrow> l_generation l < l_generation l')"
  using assms
  by (cases c) (auto simp: lease_defs Let_def split: sum.splits option.splits)

lemma generation_run:
  assumes "row_at (leases d) n = Some l" "list_all (\<lambda>c. \<not> is_release c) cs"
  shows "\<exists>l'. row_at (leases (fold call_lease cs d)) n = Some l' \<and> l_generation l \<le> l_generation l'
    \<and> (l_owner l' \<noteq> l_owner l \<longrightarrow> l_generation l < l_generation l')"
  using assms
proof (induction cs arbitrary: d l)
  case Nil
  then show ?case by auto
next
  case (Cons c cs)
  from generation_call [OF Cons.prems(1), of c] Cons.prems(2) obtain m where
    m: "row_at (leases (call_lease c d)) n = Some m" "l_generation l \<le> l_generation m"
      "l_owner m \<noteq> l_owner l \<longrightarrow> l_generation l < l_generation m" by auto
  from Cons.IH [OF m(1)] Cons.prems(2) obtain l' where
    l': "row_at (leases (fold call_lease cs (call_lease c d))) n = Some l'"
      "l_generation m \<le> l_generation l'"
      "l_owner l' \<noteq> l_owner m \<longrightarrow> l_generation m < l_generation l'" by auto
  show ?case
  proof (intro exI conjI)
    show "row_at (leases (fold call_lease (c # cs) d)) n = Some l'" using l'(1) by simp
    show "l_generation l \<le> l_generation l'" using m l' by linarith
    show "l_owner l' \<noteq> l_owner l \<longrightarrow> l_generation l < l_generation l'"
      using m l' by (metis le_less_trans less_le_trans)
  qed
qed

end
