(* ===== verification/Store_Submission.thy ===== *)
theory Store_Submission
  imports Store_Lease
begin

text \<open>
  The submission lifecycle in the store (\<open>internal/store\<close>): acceptance with its idempotency index
  (\<open>submission.go\<close>, \<open>validation.go\<close>), state moves and terminal capture (\<open>transition.go\<close>,
  \<open>terminal_evidence.go\<close>), and the task correlation columns (\<open>input.go\<close>, \<open>task.go\<close>,
  \<open>task_meta.go\<close>).

  Each operation takes the environment first and the database last and returns its result with the
  database after it. A lease-guarded operation reads the clock once for the guard (\<open>env_now\<close>) and
  once for its time stamps (\<open>env_later\<close>); an unguarded one reads it once.
\<close>

section \<open>Definitions\<close>

subsection \<open>Arguments and the idempotency identity\<close>

definition validateCanonicalArguments :: "json \<Rightarrow> Limits \<Rightarrow> go_error + unit" where
  "validateCanonicalArguments arguments lim =
     rbind (ensure (int (length (encode arguments)) \<le> ArgumentsBytes lim)
              (errors_New ''arguments exceed the byte limit'')) (\<lambda>_.
     ensure (jsonDepth (encode arguments) \<le> ArgumentDepth lim)
       (errors_New ''arguments depth exceeds the limit''))"

definition canonicalArguments :: "json option \<Rightarrow> Limits \<Rightarrow> go_error + json" where
  "canonicalArguments arguments lim =
     (case arguments of
        None \<Rightarrow> Inl (errors_New ''arguments are not valid JSON'')
      | Some v \<Rightarrow>
          rbind (ensure (jsonDepth (encode v) \<le> ArgumentDepth lim)
                   (errors_New ''arguments depth exceeds the limit'')) (\<lambda>_.
          rbind (map_error (\<lambda>err. Errorf ''arguments are not valid JSON'' [err])
                   (Canonical (tokens v))) (\<lambda>canonical.
          rbind (validateCanonicalArguments canonical lim) (\<lambda>_.
          Inr canonical))))"

text \<open>The four bytes \<open>byte(n >> 24)\<close> to \<open>byte(n)\<close>.\<close>

definition be32 :: "int \<Rightarrow> string" where
  "be32 n = [char_of (n div 2 ^ 24 mod 256), char_of (n div 2 ^ 16 mod 256),
             char_of (n div 2 ^ 8 mod 256), char_of (n mod 256)]"

definition identity_bytes :: "string \<Rightarrow> json \<Rightarrow> string" where
  "identity_bytes tool request =
     (let r = encode request in
      ''tama-link/idempotency/v1'' @ [CHR 0x00]
        @ be32 (int (length tool)) @ tool @ be32 (int (length r)) @ r)"

text \<open>\<open>hex.EncodeToString\<close>.\<close>

definition hex_encode :: "string \<Rightarrow> string" where
  "hex_encode s = concat (map (\<lambda>c. let b = (of_char c :: int) in
     [''0123456789abcdef'' ! nat (b div 16), ''0123456789abcdef'' ! nat (b mod 16)]) s)"

definition hashInput :: "env \<Rightarrow> string \<Rightarrow> json \<Rightarrow> string" where
  "hashInput e tool request = hex_encode (env_sha256 e (identity_bytes tool request))"

text \<open>The candidate hashes; a candidate that does not canonicalise is skipped.\<close>

definition candidate_hashes :: "env \<Rightarrow> string \<Rightarrow> json option list \<Rightarrow> string list" where
  "candidate_hashes e tool identities =
     concat (map (\<lambda>raw. case canonicalArguments raw HardCeiling of
        Inl _ \<Rightarrow> [] | Inr v \<Rightarrow> [hashInput e tool v]) identities)"

subsection \<open>Acceptance\<close>

record NewSubmission =
  ns_ID :: string
  ns_ClientRequestID :: string
  ns_Tool :: string
  ns_Strategy :: string
  ns_DescriptorDigest :: string
  ns_Arguments :: "json option"
  ns_RequestArguments :: "json option"
  ns_IdentityCandidates :: "json option list"
  ns_ProtocolVersion :: string
  ns_AdapterVersion :: string

definition idempotency_conflict :: "string \<Rightarrow> go_error" where
  "idempotency_conflict crid = Errorf crid [Sentinel ErrIdempotencyConflict]"

definition reconcileIdempotentSubmission ::
    "env \<Rightarrow> string \<Rightarrow> string list \<Rightarrow> db \<Rightarrow> go_error + Submission \<times> bool" where
  "reconcileIdempotentSubmission e crid hashes d =
     rbind (statement e ReadBack ''read idempotency index'') (\<lambda>_.
     case row_at (idempotency d) crid of
       None \<Rightarrow> Inl (Errorf ''read idempotency index'' [Sentinel ErrSQLNoRows])
     | Some i \<Rightarrow>
         if id_args_hash i \<in> set hashes
         then rbind (GetSubmission e d (id_submission_id i)) (\<lambda>s. Inr (s, False))
         else Inl (idempotency_conflict crid))"

definition ReconcileIdempotentSubmission ::
    "env \<Rightarrow> string \<Rightarrow> string \<Rightarrow> json option list \<Rightarrow> db \<Rightarrow> go_error + Submission option" where
  "ReconcileIdempotentSubmission e crid tool identities d =
     rbind (ensure (crid \<noteq> '''') (errors_New ''client request id is required'')) (\<lambda>_.
     rbind (statement e QueryStmt ''read idempotency index'') (\<lambda>_.
     case row_at (idempotency d) crid of
       None \<Rightarrow> Inr None
     | Some i \<Rightarrow>
         if id_args_hash i \<in> set (candidate_hashes e tool identities)
         then rbind (GetSubmission e d (id_submission_id i)) (\<lambda>s. Inr (Some s))
         else Inl (idempotency_conflict crid)))"

text \<open>The inserted row: \<open>task_id\<close> is the empty text, \<open>sequence\<close> 0, the rest column defaults.\<close>

definition new_row :: "NewSubmission \<Rightarrow> string \<Rightarrow> json blob \<Rightarrow> AcceptedLimits \<Rightarrow> int \<Rightarrow> row" where
  "new_row ns argsHash encryptedArgs lim now =
     \<lparr>r_client_request_id = ns_ClientRequestID ns, r_tool = ns_Tool ns,
      r_strategy = ns_Strategy ns, r_descriptor_digest = ns_DescriptorDigest ns,
      r_args_hash = argsHash, r_args_enc = Some encryptedArgs, r_task_id = Some '''',
      r_status = StatusAccepted, r_sequence = 0, r_events_enc = None, r_result_enc = None,
      r_error_code = None, r_error_message = None, r_error_retryable = False,
      r_protocol_version = ns_ProtocolVersion ns, r_adapter_version = ns_AdapterVersion ns,
      r_response_bytes = al_ResponseBytes lim, r_result_bytes = al_ResultBytes lim,
      r_event_bytes = al_EventBytes lim, r_max_events = al_MaxEvents lim,
      r_events_bytes = al_EventsBytes lim,
      r_payload_retention_ms = go_div (al_PayloadRetention lim) Millisecond,
      r_tombstone_retention_ms = go_div (al_TombstoneRetention lim) Millisecond,
      r_created_at = now, r_updated_at = now, r_completed_at = None,
      r_payload_expires_at = None, r_tombstone_expires_at = None,
      r_task_ttl_ms = 0, r_task_poll_interval_ms = 0, r_task_capabilities = '''',
      r_task_updated_at = '''', r_input_requests_enc = None, r_terminal_evidence_enc = None\<rparr>"

definition created_submission :: "NewSubmission \<Rightarrow> json \<Rightarrow> string \<Rightarrow> AcceptedLimits \<Rightarrow> int \<Rightarrow> Submission" where
  "created_submission ns arguments argsHash lim now =
     \<lparr>sub_ID = ns_ID ns, sub_ClientRequestID = ns_ClientRequestID ns, sub_Tool = ns_Tool ns,
      sub_Strategy = ns_Strategy ns, sub_DescriptorDigest = ns_DescriptorDigest ns,
      sub_Arguments = Some arguments, sub_ArgsHash = argsHash, sub_TaskID = '''',
      sub_TaskTTLMs = 0, sub_TaskPollIntervalMs = 0, sub_TaskCapabilities = '''',
      sub_TaskUpdatedAt = '''', sub_InputRequests = None, sub_TerminalEvidence = None,
      sub_Status = StatusAccepted, sub_Sequence = 0, sub_Events = [], sub_Result = None,
      sub_ErrorCode = None, sub_ErrorMessage = '''', sub_ErrorRetryable = False,
      sub_ProtocolVersion = ns_ProtocolVersion ns, sub_AdapterVersion = ns_AdapterVersion ns,
      sub_AcceptedLimits = lim, sub_CreatedAt = now, sub_UpdatedAt = now,
      sub_CompletedAt = None, sub_PayloadExpiresAt = None, sub_encArgs = None,
      sub_encEvents = None, sub_encResult = None, sub_encInputRequests = None,
      sub_encTerminalEvidence = None\<rparr>"

definition create_prepare :: "env \<Rightarrow> NewSubmission \<Rightarrow> go_error + json \<times> string \<times> string list" where
  "create_prepare e ns =
     rbind (ensure (ns_ID ns \<noteq> '''' \<and> ns_ClientRequestID ns \<noteq> '''' \<and> ns_Tool ns \<noteq> ''''
                    \<and> ns_RequestArguments ns \<noteq> None)
              (errors_New ''submission id, client request id, tool, and request arguments are required'')) (\<lambda>_.
     rbind (canonicalArguments (ns_Arguments ns) HardCeiling) (\<lambda>arguments.
     rbind (canonicalArguments (ns_RequestArguments ns) HardCeiling) (\<lambda>request.
     let argsHash = hashInput e (ns_Tool ns) request in
     Inr (arguments, argsHash,
          candidate_hashes e (ns_Tool ns) (ns_IdentityCandidates ns) @ [argsHash]))))"

text \<open>The part of the transaction after the idempotency key is claimed.\<close>

definition create_body ::
    "env \<Rightarrow> NewSubmission \<Rightarrow> json \<Rightarrow> string \<Rightarrow> db \<Rightarrow> go_error + Submission \<times> db" where
  "create_body e ns arguments argsHash d =
     (let now = UnixMilli (env_now e); lim = acceptedLimitsFrom (env_limits e) in
      rbind (validateCanonicalArguments arguments (env_limits e)) (\<lambda>_.
      rbind (map_error (\<lambda>err. Errorf ''seal arguments'' [err])
               (seal_blob e arguments (ns_ID ns) ''arguments'')) (\<lambda>encryptedArgs.
      rbind (ensure (row_at (submissions d) (ns_ID ns) = None)
               (errors_New ''insert submission: UNIQUE constraint failed'')) (\<lambda>_.
      Inr (created_submission ns arguments argsHash lim now,
           d\<lparr>idempotency := idempotency d @ [(ns_ClientRequestID ns,
               \<lparr>id_args_hash = argsHash, id_submission_id = ns_ID ns, id_created_at = now\<rparr>)],
             submissions := submissions d @ [(ns_ID ns,
               new_row ns argsHash encryptedArgs lim now)]\<rparr>)))))"

definition CreateSubmission ::
    "env \<Rightarrow> NewSubmission \<Rightarrow> db \<Rightarrow> (go_error + Submission \<times> bool) \<times> db" where
  "CreateSubmission e ns d =
     (case rbind (create_prepare e ns) (\<lambda>p.
             rbind (statement e Begin ''begin idempotent insert'') (\<lambda>_.
             rbind (statement e ExecStmt ''insert idempotency index'') (\<lambda>_. Inr p))) of
        Inl err \<Rightarrow> (Inl err, d)
      | Inr (arguments, argsHash, hashes) \<Rightarrow>
          if row_at (idempotency d) (ns_ClientRequestID ns) \<noteq> None
          then (reconcileIdempotentSubmission e (ns_ClientRequestID ns) hashes d, d)
          else (case create_body e ns arguments argsHash d of
                  Inl err \<Rightarrow> (Inl err, d)
                | Inr (s, d') \<Rightarrow>
                    (case statement e CommitStmt ''commit submission'' of
                       Inl err \<Rightarrow> (Inl err, d)
                     | Inr _ \<Rightarrow> (Inr (s, True), d'))))"

subsection \<open>State moves\<close>

record TransitionDetail =
  td_TaskID :: string
  td_Error :: "contract_error option"

text \<open>The clock reading a write stamps: the second one when a lease guard made the first.\<close>

definition stamp :: "env \<Rightarrow> lease_identity option \<Rightarrow> int" where
  "stamp e lease = UnixMilli (if lease = None then env_now e else env_later e)"

definition set_error :: "contract_error \<Rightarrow> row \<Rightarrow> row" where
  "set_error f r = r\<lparr>r_error_code := Some (ce_Code f), r_error_message := Some (ce_Message f),
     r_error_retryable := ce_Retryable f\<rparr>"

text \<open>The three deadlines every terminal write stamps.\<close>

definition stamp_terminal :: "AcceptedLimits \<Rightarrow> int \<Rightarrow> row \<Rightarrow> row" where
  "stamp_terminal lim nowMs r =
     r\<lparr>r_completed_at := Some nowMs,
       r_payload_expires_at := Some (i64 (nowMs + go_div (al_PayloadRetention lim) Millisecond)),
       r_tombstone_expires_at := Some (i64 (nowMs + go_div (al_TombstoneRetention lim) Millisecond)),
       r_updated_at := nowMs\<rparr>"

definition check_transition :: "status \<Rightarrow> TransitionDetail \<Rightarrow> go_error + unit" where
  "check_transition to detail =
     (if \<not> Valid to then Inl (errors_New ''unknown state'')
      else if to = StatusCompleted then Inl (errors_New ''completed transitions require Complete'')
      else if Terminal to \<and> td_Error detail = None
        then Inl (errors_New ''terminal state requires a structured error'')
      else if \<not> Terminal to \<and> td_Error detail \<noteq> None
        then Inl (errors_New ''non-terminal state cannot carry an error'')
      else (case td_Error detail of
              None \<Rightarrow> Inr ()
            | Some f \<Rightarrow> map_error (\<lambda>err. Errorf ''terminal error'' [err]) (Error_Validate f)))"

definition transition_row ::
    "AcceptedLimits \<Rightarrow> int \<Rightarrow> status \<Rightarrow> TransitionDetail \<Rightarrow> row \<Rightarrow> row" where
  "transition_row lim nowMs to detail r =
     (let r1 = r\<lparr>r_status := to, r_updated_at := nowMs\<rparr>;
          r2 = (if td_TaskID detail \<noteq> '''' then r1\<lparr>r_task_id := Some (td_TaskID detail)\<rparr> else r1);
          r3 = (case td_Error detail of None \<Rightarrow> r2 | Some f \<Rightarrow> set_error f r2)
      in if Terminal to then stamp_terminal lim nowMs r3 else r3)"

definition transition_body ::
    "env \<Rightarrow> string \<Rightarrow> status \<Rightarrow> TransitionDetail \<Rightarrow> lease_identity option \<Rightarrow> db \<Rightarrow> go_error + unit \<times> db" where
  "transition_body e sid to detail lease d =
     rbind (require_lease e d lease) (\<lambda>_.
     rbind (loadEncrypted e d sid) (\<lambda>s.
     rbind (ensure (Allowed (sub_Status s) to) (IllegalTransition (sub_Status s) to)) (\<lambda>_.
     rbind (statement e ExecStmt ''update submission'') (\<lambda>_.
     requireUpdated (update_where sid (\<lambda>r. r_status r = sub_Status s)
       (transition_row (sub_AcceptedLimits s) (stamp e lease) to detail) d)))))"

definition transition ::
    "env \<Rightarrow> string \<Rightarrow> status \<Rightarrow> TransitionDetail \<Rightarrow> lease_identity option \<Rightarrow> db
      \<Rightarrow> (go_error + Submission) \<times> db" where
  "transition e sid to detail lease d =
     (case check_transition to detail of
        Inl err \<Rightarrow> (Inl err, d)
      | Inr _ \<Rightarrow>
          read_back e sid (writeTx e ''transition'' (transition_body e sid to detail lease) d))"

definition Transition ::
    "env \<Rightarrow> string \<Rightarrow> status \<Rightarrow> TransitionDetail \<Rightarrow> db \<Rightarrow> (go_error + Submission) \<times> db" where
  "Transition e sid to detail d = transition e sid to detail None d"

definition TransitionLeased ::
    "env \<Rightarrow> string \<Rightarrow> string \<Rightarrow> string \<Rightarrow> status \<Rightarrow> TransitionDetail \<Rightarrow> db
      \<Rightarrow> (go_error + Submission) \<times> db" where
  "TransitionLeased e sid leaseName owner to detail d =
     transition e sid to detail (Some (leaseName, owner)) d"

subsection \<open>Terminal capture\<close>

text \<open>\<open>finish\<close> writes the result and the error columns whole: what is absent becomes NULL.\<close>

definition finish_row ::
    "AcceptedLimits \<Rightarrow> int \<Rightarrow> status \<Rightarrow> result blob option \<Rightarrow> contract_error option \<Rightarrow> row \<Rightarrow> row" where
  "finish_row lim nowMs to sealed failure r =
     stamp_terminal lim nowMs
       (r\<lparr>r_status := to, r_result_enc := sealed,
          r_error_code := map_option ce_Code failure,
          r_error_message := map_option ce_Message failure,
          r_error_retryable := (case failure of None \<Rightarrow> False | Some f \<Rightarrow> ce_Retryable f)\<rparr>)"

definition finish_body ::
    "env \<Rightarrow> string \<Rightarrow> status \<Rightarrow> result option \<Rightarrow> contract_error option \<Rightarrow> lease_identity option \<Rightarrow> db
      \<Rightarrow> go_error + unit \<times> db" where
  "finish_body e sid to encodedResult failure lease d =
     rbind (require_lease e d lease) (\<lambda>_.
     rbind (loadEncrypted e d sid) (\<lambda>s.
     rbind (ensure (Allowed (sub_Status s) to) (IllegalTransition (sub_Status s) to)) (\<lambda>_.
     rbind (case encodedResult of
              None \<Rightarrow> Inr None
            | Some res \<Rightarrow> map_error (\<lambda>err. Errorf ''seal result'' [err])
                (rbind (seal_blob e res sid ''result'') (\<lambda>b. Inr (Some b)))) (\<lambda>sealed.
     rbind (statement e ExecStmt ''store terminal result'') (\<lambda>_.
     requireUpdated (update_where sid (\<lambda>r. r_status r = sub_Status s)
       (finish_row (sub_AcceptedLimits s) (stamp e lease) to sealed failure) d))))))"

definition finish ::
    "env \<Rightarrow> string \<Rightarrow> status \<Rightarrow> result option \<Rightarrow> contract_error option \<Rightarrow> lease_identity option \<Rightarrow> db
      \<Rightarrow> (go_error + Submission) \<times> db" where
  "finish e sid to encodedResult failure lease d =
     read_back e sid
       (writeTx e ''terminal capture'' (finish_body e sid to encodedResult failure lease) d)"

definition loadAcceptedLimits :: "env \<Rightarrow> string \<Rightarrow> db \<Rightarrow> go_error + AcceptedLimits" where
  "loadAcceptedLimits e sid d =
     rbind (statement e QueryStmt ''read accepted lifecycle limits'') (\<lambda>_.
     case row_at (submissions d) sid of
       None \<Rightarrow> Inl (Errorf sid [Sentinel ErrNotFound])
     | Some r \<Rightarrow>
         rbind (map_error (unavailable sid) (AcceptedLimits_validate (row_limits r))) (\<lambda>_.
         Inr (row_limits r)))"

definition result_too_large :: contract_error where
  "result_too_large = NewError CodeResultTooLarge
     ''The upstream operation completed, but its result exceeded the configured storage limit.''"

definition complete ::
    "env \<Rightarrow> string \<Rightarrow> result \<Rightarrow> lease_identity option \<Rightarrow> db \<Rightarrow> (go_error + Submission) \<times> db" where
  "complete e sid res lease d =
     (case rbind (map_error (\<lambda>err. Errorf ''validate result'' [err]) (Result_Validate res))
             (\<lambda>_. loadAcceptedLimits e sid d) of
        Inl err \<Rightarrow> (Inl err, d)
      | Inr lim \<Rightarrow>
          if int (length (encode (result_json res))) > al_ResultBytes lim
          then (case finish e sid StatusFailed None (Some result_too_large) lease d of
                  (Inl err, d') \<Rightarrow> (Inl err, d')
                | (Inr _, d') \<Rightarrow> (Inl (Errorf sid [Sentinel ErrResultTooLarge]), d'))
          else finish e sid StatusCompleted (Some res) None lease d)"

definition Complete :: "env \<Rightarrow> string \<Rightarrow> result \<Rightarrow> db \<Rightarrow> (go_error + Submission) \<times> db" where
  "Complete e sid res d = complete e sid res None d"

definition CompleteLeased ::
    "env \<Rightarrow> string \<Rightarrow> string \<Rightarrow> string \<Rightarrow> result \<Rightarrow> db \<Rightarrow> (go_error + Submission) \<times> db" where
  "CompleteLeased e sid leaseName owner res d = complete e sid res (Some (leaseName, owner)) d"

definition FailLeased ::
    "env \<Rightarrow> string \<Rightarrow> string \<Rightarrow> string \<Rightarrow> contract_error \<Rightarrow> db \<Rightarrow> (go_error + Submission) \<times> db" where
  "FailLeased e sid leaseName owner failure d =
     (case map_error (\<lambda>err. Errorf ''terminal error'' [err]) (Error_Validate failure) of
        Inl err \<Rightarrow> (Inl err, d)
      | Inr _ \<Rightarrow> finish e sid StatusFailed None (Some failure) (Some (leaseName, owner)) d)"

definition evidence_too_large :: contract_error where
  "evidence_too_large = NewError CodeResultTooLarge
     ''The upstream task ended, but its terminal evidence exceeded the configured storage limit.''"

definition capture_row ::
    "AcceptedLimits \<Rightarrow> int \<Rightarrow> status \<Rightarrow> contract_error \<Rightarrow> string blob option \<Rightarrow> row \<Rightarrow> row" where
  "capture_row lim nowMs to failure sealed r =
     stamp_terminal lim nowMs
       (set_error failure (r\<lparr>r_status := to, r_terminal_evidence_enc := sealed,
                            r_input_requests_enc := None\<rparr>))"

definition capture_body ::
    "env \<Rightarrow> string \<Rightarrow> lease_identity \<Rightarrow> status \<Rightarrow> contract_error \<Rightarrow> string \<Rightarrow> db \<Rightarrow> go_error + unit \<times> db" where
  "capture_body e sid lease to failure evidence d =
     rbind (requireLiveLease e d lease) (\<lambda>_.
     rbind (loadEncrypted e d sid) (\<lambda>s.
     if Terminal (sub_Status s) then Inr ((), d)
     else
       rbind (ensure (Allowed (sub_Status s) to) (IllegalTransition (sub_Status s) to)) (\<lambda>_.
       rbind (if evidence = '''' then Inr (to, failure, None)
              else if int (length evidence) > al_ResultBytes (sub_AcceptedLimits s)
              then Inr (StatusFailed, evidence_too_large, None)
              else rbind (map_error (\<lambda>err. Errorf ''seal terminal evidence'' [err])
                       (seal_blob e evidence sid ''terminal-evidence''))
                     (\<lambda>b. Inr (to, failure, Some b))) (\<lambda>(to', failure', sealed).
       rbind (statement e ExecStmt ''store terminal evidence'') (\<lambda>_.
       requireUpdated (update_where sid (\<lambda>r. r_status r = sub_Status s)
         (capture_row (sub_AcceptedLimits s) (stamp e (Some lease)) to' failure' sealed) d))))))"

definition CaptureTerminalLeased ::
    "env \<Rightarrow> string \<Rightarrow> string \<Rightarrow> string \<Rightarrow> status \<Rightarrow> contract_error \<Rightarrow> string \<Rightarrow> db
      \<Rightarrow> (go_error + Submission) \<times> db" where
  "CaptureTerminalLeased e sid leaseName owner to failure evidence d =
     (if \<not> Terminal to \<or> to = StatusCompleted
      then (Inl (errors_New ''terminal evidence requires a non-completed terminal state''), d)
      else case map_error (\<lambda>err. Errorf ''terminal error'' [err]) (Error_Validate failure) of
             Inl err \<Rightarrow> (Inl err, d)
           | Inr _ \<Rightarrow>
               read_back e sid (writeTx e ''terminal evidence''
                 (capture_body e sid (leaseName, owner) to failure evidence) d))"

subsection \<open>Task correlation\<close>

definition AttachTaskID :: "env \<Rightarrow> string \<Rightarrow> string \<Rightarrow> db \<Rightarrow> (go_error + unit) \<times> db" where
  "AttachTaskID e sid taskID d =
     (if sid = '''' \<or> taskID = ''''
      then (Inl (errors_New ''submission id and task id are required''), d)
      else case statement e ExecStmt ''attach task id'' of
          Inl err \<Rightarrow> (Inl err, d)
        | Inr _ \<Rightarrow>
            (case update_where sid
                (\<lambda>r. r_task_id r = None \<or> r_task_id r = Some '''' \<or> r_task_id r = Some taskID)
                (\<lambda>r. r\<lparr>r_task_id := Some taskID, r_updated_at := UnixMilli (env_now e)\<rparr>) d of
               (n, d') \<Rightarrow>
                 if n > 0 then (Inr (), d')
                 else (rbind (statement e QueryStmt ''attach task id'') (\<lambda>_.
                   case row_at (submissions d) sid of
                     None \<Rightarrow> Inl (Errorf sid [Sentinel ErrNotFound])
                   | Some r \<Rightarrow> (case r_task_id r of
                       None \<Rightarrow> Inl (errors_New ''attach task id: converting NULL to string'')
                     | Some existing \<Rightarrow>
                         ensure (existing = taskID) (Errorf sid [Sentinel ErrTaskIDConflict]))), d')))"

definition replace_body :: "env \<Rightarrow> string \<Rightarrow> string \<Rightarrow> string \<Rightarrow> db \<Rightarrow> go_error + unit \<times> db" where
  "replace_body e sid owner taskID d =
     (let lease = (''submission/'' @ sid, owner) in
      rbind (requireLiveLease e d lease) (\<lambda>_.
      rbind (loadEncrypted e d sid) (\<lambda>s.
      rbind (ensure (sub_Status s = StatusRunning) (errors_New ''submission is not running'')) (\<lambda>_.
      rbind (statement e ExecStmt ''replace task id'') (\<lambda>_.
      requireUpdated (update_where sid (\<lambda>r. r_status r = StatusRunning)
        (\<lambda>r. r\<lparr>r_task_id := Some taskID, r_updated_at := stamp e (Some lease)\<rparr>) d))))))"

definition ReplaceTaskIDLeased ::
    "env \<Rightarrow> string \<Rightarrow> string \<Rightarrow> string \<Rightarrow> db \<Rightarrow> (go_error + Submission) \<times> db" where
  "ReplaceTaskIDLeased e sid owner taskID d =
     (if sid = '''' \<or> owner = '''' \<or> taskID = ''''
      then (Inl (errors_New ''submission id, owner, and task id are required''), d)
      else read_back e sid (writeTx e ''task reattachment'' (replace_body e sid owner taskID) d))"

definition maxCapabilitySnapshot :: int where
  "maxCapabilitySnapshot = 64 * 1024"

record TaskRecord =
  tr_TTLMs :: int
  tr_PollIntervalMs :: int
  tr_Capabilities :: string
  tr_UpdatedAt :: string
  tr_InputRequests :: "json option"

definition check_record :: "string \<Rightarrow> string \<Rightarrow> string \<Rightarrow> TaskRecord \<Rightarrow> go_error + unit" where
  "check_record sid leaseName owner record =
     (if sid = '''' \<or> leaseName = '''' \<or> owner = ''''
      then Inl (errors_New ''submission id, lease name, and owner are required'')
      else if int (length (tr_Capabilities record)) > maxCapabilitySnapshot
      then Inl (errors_New ''task capability snapshot exceeds the bound'')
      else if tr_TTLMs record < 0 \<or> tr_PollIntervalMs record < 0
      then Inl (errors_New ''task ttl and poll interval must be non-negative'')
      else Inr ())"

definition record_row :: "TaskRecord \<Rightarrow> json blob option \<Rightarrow> int \<Rightarrow> row \<Rightarrow> row" where
  "record_row record sealed nowMs r =
     r\<lparr>r_task_ttl_ms := tr_TTLMs record, r_task_poll_interval_ms := tr_PollIntervalMs record,
       r_task_capabilities := tr_Capabilities record, r_task_updated_at := tr_UpdatedAt record,
       r_input_requests_enc := sealed, r_updated_at := nowMs\<rparr>"

definition SaveTaskRecordLeased ::
    "env \<Rightarrow> string \<Rightarrow> string \<Rightarrow> string \<Rightarrow> TaskRecord \<Rightarrow> db \<Rightarrow> (go_error + unit) \<times> db" where
  "SaveTaskRecordLeased e sid leaseName owner record d =
     (case rbind (check_record sid leaseName owner record) (\<lambda>_.
             case tr_InputRequests record of
               None \<Rightarrow> Inr None
             | Some v \<Rightarrow> map_error (\<lambda>err. Errorf ''seal input requests'' [err])
                 (rbind (seal_blob e v sid ''input-requests'') (\<lambda>b. Inr (Some b)))) of
        Inl err \<Rightarrow> (Inl err, d)
      | Inr sealed \<Rightarrow>
          writeTx e ''task observation'' (\<lambda>d.
            rbind (requireLiveLease e d (leaseName, owner)) (\<lambda>_.
            rbind (statement e ExecStmt ''save task observation'') (\<lambda>_.
            requireUpdated (update_where sid (\<lambda>r. \<not> Terminal (r_status r))
              (record_row record sealed (stamp e (Some (leaseName, owner)))) d)))) d)"

end
