(* ===== verification/Store_Events.thy ===== *)
theory Store_Events
  imports Store_Submission "HOL-Library.Sublist"
begin

text \<open>
  Progress events (\<open>internal/store/event.go\<close>): appending a batch under the sequence check and the
  count and byte bounds, and trimming the oldest events.
\<close>

section \<open>Definitions\<close>

text \<open>\<open>json.Marshal\<close> of an event: struct order, \<open>omitempty\<close> members left out.\<close>

definition step_json :: "step \<Rightarrow> json" where
  "step_json s = JObj
     ((if step_Current s = 0 then [] else [(''current'', JNum (format_int (step_Current s)))]) @
      (if step_Total s = 0 then [] else [(''total'', JNum (format_int (step_Total s)))]) @
      (if step_Label s = '''' then [] else [(''label'', JStr (step_Label s))]))"

definition event_json :: "event \<Rightarrow> json" where
  "event_json ev = JObj
     ([(''submission_id'', JStr (ev_SubmissionID ev)),
       (''sequence'', JNum (format_int (ev_Sequence ev))),
       (''timestamp'', JStr (ev_Timestamp ev)),
       (''state'', JStr (status_text (ev_State ev)))] @
      (case ev_Step ev of None \<Rightarrow> [] | Some s \<Rightarrow> [(''step'', step_json s)]) @
      (if ev_Message ev = '''' then [] else [(''message'', JStr (ev_Message ev))]))"

definition event_size :: "event \<Rightarrow> int" where
  "event_size ev = int (length (encode (event_json ev)))"

text \<open>The loop of \<open>encodedEventsSize\<close>: its index and total.\<close>

fun events_size_loop :: "nat \<Rightarrow> int \<Rightarrow> event list \<Rightarrow> int" where
  "events_size_loop i acc [] = acc"
| "events_size_loop i acc (ev # evs) =
     events_size_loop (i + 1) ((if i > 0 then acc + 1 else acc) + event_size ev) evs"

definition encodedEventsSize :: "event list \<Rightarrow> int" where
  "encodedEventsSize events = events_size_loop 0 2 events"

fun trim_count :: "int \<Rightarrow> event list \<Rightarrow> event list" where
  "trim_count maxEvents [] = []"
| "trim_count maxEvents (ev # evs) =
     (if int (length (ev # evs)) > maxEvents then trim_count maxEvents evs else ev # evs)"

fun trim_bytes :: "int \<Rightarrow> event list \<Rightarrow> event list" where
  "trim_bytes eventsBytes [] = []"
| "trim_bytes eventsBytes (ev # evs) =
     (if encodedEventsSize (ev # evs) > eventsBytes then trim_bytes eventsBytes evs else ev # evs)"

definition trimEvents :: "event list \<Rightarrow> AcceptedLimits \<Rightarrow> event list" where
  "trimEvents events lim = trim_bytes (al_EventsBytes lim) (trim_count (al_MaxEvents lim) events)"

text \<open>One iteration of the loop of \<open>mergeEvents\<close>, over the merged events and the last sequence.\<close>

definition merge_step ::
    "string \<Rightarrow> AcceptedLimits \<Rightarrow> event \<Rightarrow> event list \<times> int \<Rightarrow> go_error + event list \<times> int" where
  "merge_step sid lim ev st =
     rbind (ensure (ev_SubmissionID ev = sid) (errors_New ''event stored under another submission'')) (\<lambda>_.
     rbind (CheckSequence (ev_Sequence ev) (snd st)) (\<lambda>_.
     rbind (ensure (event_size ev \<le> al_EventBytes lim \<and> event_size ev \<le> al_EventsBytes lim)
              (errors_New ''event exceeds retention bounds'')) (\<lambda>_.
     Inr (trimEvents (fst st @ [ev]) lim, ev_Sequence ev))))"

definition mergeEvents ::
    "Submission \<Rightarrow> event list \<Rightarrow> AcceptedLimits \<Rightarrow> go_error + event list \<times> int" where
  "mergeEvents s events lim =
     rfold (merge_step (sub_ID s) lim) events (sub_Events s, sub_Sequence s)"

definition append_body :: "env \<Rightarrow> string \<Rightarrow> event list \<Rightarrow> db \<Rightarrow> go_error + Submission \<times> db" where
  "append_body e sid events d =
     rbind (loadEncrypted e d sid) (\<lambda>s0.
     rbind (decryptSubmission e s0) (\<lambda>s.
     rbind (ensure (\<not> Terminal (sub_Status s)) (errors_New ''append events in terminal state'')) (\<lambda>_.
     rbind (mergeEvents s events (sub_AcceptedLimits s)) (\<lambda>(merged, last).
     rbind (map_error (\<lambda>err. Errorf ''seal events'' [err]) (seal_blob e merged sid ''events'')) (\<lambda>sealed.
     let nowMs = UnixMilli (env_now e) in
     rbind (statement e ExecStmt ''store events'') (\<lambda>_.
     rbind (requireUpdated (update_where sid
              (\<lambda>r. r_status r = sub_Status s \<and> r_sequence r = sub_Sequence s)
              (\<lambda>r. r\<lparr>r_events_enc := Some sealed, r_sequence := last, r_updated_at := nowMs\<rparr>) d))
       (\<lambda>u. Inr (s\<lparr>sub_Events := merged, sub_Sequence := last, sub_UpdatedAt := nowMs\<rparr>, snd u))))))))"

definition AppendEvents ::
    "env \<Rightarrow> string \<Rightarrow> event list \<Rightarrow> db \<Rightarrow> (go_error + Submission) \<times> db" where
  "AppendEvents e sid events d =
     (if events = [] then (GetSubmission e d sid, d)
      else writeTx e ''event append'' (append_body e sid events) d)"

section \<open>Lemmas\<close>

subsection \<open>The encoded size\<close>

lemma events_size_loop_add:
  "events_size_loop n t evs = t + events_size_loop n 0 evs"
proof (induction evs arbitrary: n t)
  case (Cons ev evs)
  show ?case
    using Cons [of "n + 1" "(if n > 0 then t + 1 else t) + event_size ev"]
      Cons [of "n + 1" "(if n > 0 then 0 + 1 else 0) + event_size ev"] by simp
qed simp

lemma events_size_loop_join:
  "events_size_loop (Suc n) 0 evs
     = int (length (concat (map (\<lambda>ev. '','' @ encode (event_json ev)) evs)))"
proof (induction evs arbitrary: n)
  case (Cons ev evs)
  then show ?case
    using events_size_loop_add [of "Suc (Suc n)" "1 + event_size ev" evs]
    by (simp add: event_size_def)
qed simp

lemma join_concat: "join sep (x # xs) = x @ concat (map (\<lambda>y. sep @ y) xs)"
  by (induction xs arbitrary: x) simp_all

text \<open>The incremental count is the length of the JSON array the store seals.\<close>

lemma encodedEventsSize_encode:
  "encodedEventsSize evs = int (length (encode (JArr (map event_json evs))))"
proof (cases evs)
  case Nil
  then show ?thesis by (simp add: encodedEventsSize_def)
next
  case (Cons ev rest)
  have "encodedEventsSize evs = 2 + event_size ev + events_size_loop (Suc 0) 0 rest"
    using events_size_loop_add [of "Suc 0" "2 + event_size ev" rest]
    by (simp add: Cons encodedEventsSize_def)
  also have "\<dots> = int (length (encode (JArr (map event_json evs))))"
    by (simp add: Cons events_size_loop_join event_size_def join_concat comp_def del: join.simps)
  finally show ?thesis .
qed

subsection \<open>Trimming\<close>

lemma trim_count_suffix: "suffix (trim_count m evs) evs"
  by (induction evs) (auto intro: suffix_ConsI)

lemma trim_bytes_suffix: "suffix (trim_bytes b evs) evs"
  by (induction evs) (auto intro: suffix_ConsI)

lemma trimEvents_suffix: "suffix (trimEvents evs lim) evs"
  unfolding trimEvents_def by (rule suffix_order.trans [OF trim_bytes_suffix trim_count_suffix])

lemma trim_count_bound: "0 \<le> m \<Longrightarrow> int (length (trim_count m evs)) \<le> m"
  by (induction evs) auto

lemma trim_bytes_bound: "trim_bytes b evs = [] \<or> encodedEventsSize (trim_bytes b evs) \<le> b"
  by (induction evs) auto

lemma trimEvents_bounds:
  assumes "0 \<le> al_MaxEvents lim"
  shows "int (length (trimEvents evs lim)) \<le> al_MaxEvents lim"
    "trimEvents evs lim = [] \<or> encodedEventsSize (trimEvents evs lim) \<le> al_EventsBytes lim"
proof -
  have "length (trimEvents evs lim) \<le> length (trim_count (al_MaxEvents lim) evs)"
    unfolding trimEvents_def by (rule suffix_length_le [OF trim_bytes_suffix])
  then show "int (length (trimEvents evs lim)) \<le> al_MaxEvents lim"
    using trim_count_bound [OF assms, of evs] by linarith
  show "trimEvents evs lim = [] \<or> encodedEventsSize (trimEvents evs lim) \<le> al_EventsBytes lim"
    unfolding trimEvents_def by (rule trim_bytes_bound)
qed

text \<open>Trimming never drops more than it must: a longer suffix breaks a bound.\<close>

lemma encodedEventsSize_Cons_le: "encodedEventsSize evs \<le> encodedEventsSize (ev # evs)"
proof (cases evs)
  case (Cons x xs)
  then show ?thesis
    by (simp add: encodedEventsSize_encode)
qed (simp add: encodedEventsSize_encode)

lemma encodedEventsSize_suffix: "suffix ys xs \<Longrightarrow> encodedEventsSize ys \<le> encodedEventsSize xs"
  by (induction xs) (auto simp: suffix_Cons intro: order_trans encodedEventsSize_Cons_le)

lemma trim_count_maximal:
  "suffix ys evs \<Longrightarrow> int (length ys) \<le> m \<Longrightarrow> length ys \<le> length (trim_count m evs)"
proof (induction evs)
  case (Cons ev evs)
  from Cons.prems(1) consider "ys = ev # evs" | "suffix ys evs" by (auto simp: suffix_Cons)
  then show ?case using Cons suffix_length_le [of ys evs] by cases auto
qed simp

lemma trim_bytes_maximal:
  "suffix ys evs \<Longrightarrow> encodedEventsSize ys \<le> b \<Longrightarrow> length ys \<le> length (trim_bytes b evs)"
proof (induction evs)
  case (Cons ev evs)
  from Cons.prems(1) consider "ys = ev # evs" | "suffix ys evs" by (auto simp: suffix_Cons)
  then show ?case using Cons suffix_length_le [of ys evs] by cases auto
qed simp

lemma trimEvents_maximal:
  assumes "suffix ys evs" "int (length ys) \<le> al_MaxEvents lim"
    "encodedEventsSize ys \<le> al_EventsBytes lim"
  shows "suffix ys (trimEvents evs lim)"
proof -
  have len: "length ys \<le> length (trim_count (al_MaxEvents lim) evs)"
    using trim_count_maximal assms(1,2) by blast
  have "suffix ys (trim_count (al_MaxEvents lim) evs)"
    using suffix_length_suffix [OF assms(1) trim_count_suffix len] .
  then have "length ys \<le> length (trimEvents evs lim)"
    using trim_bytes_maximal assms(3) by (simp add: trimEvents_def)
  then show ?thesis using suffix_length_suffix assms(1) trimEvents_suffix by blast
qed

subsection \<open>Merging\<close>

text \<open>
  What the event log of one submission promises: its own events, strictly increasing from the first
  sequence, none beyond the row's sequence, within the accepted bounds.
\<close>

definition log_ok :: "string \<Rightarrow> AcceptedLimits \<Rightarrow> event list \<times> int \<Rightarrow> bool" where
  "log_ok sid lim st \<longleftrightarrow>
     (\<forall>ev \<in> set (fst st). ev_SubmissionID ev = sid \<and> FirstSequence \<le> ev_Sequence ev
        \<and> ev_Sequence ev \<le> snd st \<and> event_size ev \<le> al_EventBytes lim)
     \<and> sorted_wrt (<) (map ev_Sequence (fst st))
     \<and> int (length (fst st)) \<le> al_MaxEvents lim
     \<and> (fst st = [] \<or> encodedEventsSize (fst st) \<le> al_EventsBytes lim)"

lemma suffix_sorted_wrt: "suffix ys xs \<Longrightarrow> sorted_wrt P (map f xs) \<Longrightarrow> sorted_wrt P (map f ys)"
  by (auto simp: suffix_def sorted_wrt_append)

lemma merge_step_Inr:
  "merge_step sid lim ev st = Inr st' \<longleftrightarrow>
     ev_SubmissionID ev = sid \<and> FirstSequence \<le> ev_Sequence ev \<and> snd st < ev_Sequence ev
     \<and> event_size ev \<le> al_EventBytes lim \<and> event_size ev \<le> al_EventsBytes lim
     \<and> st' = (trimEvents (fst st @ [ev]) lim, ev_Sequence ev)"
  by (auto simp: merge_step_def result_simps CheckSequence_iff)

lemma merge_step_ok:
  assumes "log_ok sid lim st" "0 \<le> al_MaxEvents lim" "merge_step sid lim ev st = Inr st'"
  shows "log_ok sid lim st' \<and> snd st < snd st'"
proof -
  note st' = assms(3) [unfolded merge_step_Inr]
  let ?all = "fst st @ [ev]"
  have sub: "set (trimEvents ?all lim) \<subseteq> set ?all" by (rule set_mono_suffix [OF trimEvents_suffix])
  have "sorted_wrt (<) (map ev_Sequence ?all)"
    using assms(1) st' by (auto simp: log_ok_def sorted_wrt_append)
  then have "sorted_wrt (<) (map ev_Sequence (trimEvents ?all lim))"
    by (rule suffix_sorted_wrt [OF trimEvents_suffix])
  moreover have "\<forall>x \<in> set ?all. ev_SubmissionID x = sid \<and> FirstSequence \<le> ev_Sequence x
      \<and> ev_Sequence x \<le> ev_Sequence ev \<and> event_size x \<le> al_EventBytes lim"
    using assms(1) st' by (fastforce simp: log_ok_def)
  ultimately show ?thesis
    using trimEvents_bounds [OF assms(2), of ?all] sub st' by (auto simp: log_ok_def)
qed

lemma merge_ok:
  assumes "rfold (merge_step sid lim) evs st = Inr st'" "log_ok sid lim st" "0 \<le> al_MaxEvents lim"
  shows "log_ok sid lim st' \<and> snd st \<le> snd st' \<and> (evs \<noteq> [] \<longrightarrow> snd st' = ev_Sequence (last evs))"
  using assms
proof (induction evs arbitrary: st)
  case (Cons ev evs)
  from Cons.prems(1) obtain st1 where
    st1: "merge_step sid lim ev st = Inr st1" "rfold (merge_step sid lim) evs st1 = Inr st'"
    by (auto simp: result_simps)
  have "log_ok sid lim st1 \<and> snd st < snd st1" using merge_step_ok Cons.prems st1(1) by blast
  then show ?case
    using Cons.IH [OF st1(2)] Cons.prems(3) st1 by (cases evs) (auto simp: merge_step_Inr)
qed simp

lemma merge_new:
  "rfold (merge_step sid lim) evs st = Inr st' \<Longrightarrow> ev \<in> set (fst st') \<Longrightarrow>
     ev \<in> set (fst st) \<or> snd st < ev_Sequence ev"
proof (induction evs arbitrary: st)
  case (Cons x evs)
  from Cons.prems(1) obtain st1 where
    st1: "merge_step sid lim x st = Inr st1" "rfold (merge_step sid lim) evs st1 = Inr st'"
    by (auto simp: result_simps)
  have "set (fst st1) \<subseteq> insert x (set (fst st))" "snd st < ev_Sequence x" "snd st < snd st1"
    using st1(1) set_mono_suffix [OF trimEvents_suffix [of "fst st @ [x]" lim]] by (auto simp: merge_step_Inr)
  then show ?case using Cons.IH [OF st1(2) Cons.prems(2)] by force
qed simp

text \<open>What a merge keeps is a suffix of the old log and the new events.\<close>

lemma merge_suffix:
  "rfold (merge_step sid lim) evs st = Inr st' \<Longrightarrow> suffix (fst st') (fst st @ evs)"
proof (induction evs arbitrary: st)
  case (Cons ev evs)
  from Cons.prems obtain st1 where
    st1: "merge_step sid lim ev st = Inr st1" "rfold (merge_step sid lim) evs st1 = Inr st'"
    by (auto simp: result_simps)
  have "suffix (fst st1) (fst st @ [ev])"
    using st1(1) trimEvents_suffix [of "fst st @ [ev]" lim] by (metis fst_conv merge_step_Inr)
  then have "suffix (fst st1 @ evs) (fst st @ ev # evs)" by (auto simp: suffix_def)
  with Cons.IH [OF st1(2)] show ?case by (rule suffix_order.trans)
qed simp

text \<open>
  It keeps as much as the bounds allow: trimming after every event loses nothing that trimming once at the
  end would keep.
\<close>

lemma encodedEventsSize_prefix: "encodedEventsSize xs \<le> encodedEventsSize (xs @ ys)"
proof -
  have grows: "t \<le> events_size_loop n t ys" for n t ys
  proof (induction ys arbitrary: n t)
    case (Cons ev ys)
    show ?case using Cons [of "(if n > 0 then t + 1 else t) + event_size ev" "n + 1"]
      by (auto simp: event_size_def split: if_splits)
  qed simp
  have "events_size_loop n t xs \<le> events_size_loop n t (xs @ ys)" for n t
    by (induction xs arbitrary: n t) (simp_all add: grows)
  then show ?thesis by (simp add: encodedEventsSize_def)
qed

lemma merge_maximal:
  assumes "rfold (merge_step sid lim) evs st = Inr st'" "suffix ys (fst st @ evs)"
    and "int (length ys) \<le> al_MaxEvents lim" "encodedEventsSize ys \<le> al_EventsBytes lim"
  shows "suffix ys (fst st')"
  using assms(1,2)
proof (induction evs arbitrary: st)
  case (Cons ev evs)
  from Cons.prems(1) obtain st1 where
    st1: "merge_step sid lim ev st = Inr st1" "rfold (merge_step sid lim) evs st1 = Inr st'"
    by (auto simp: result_simps)
  have log: "fst st1 = trimEvents (fst st @ [ev]) lim" using st1(1) by (auto simp: merge_step_Inr)
  have "suffix ys ((fst st @ [ev]) @ evs)" using Cons.prems(2) by simp
  then consider "suffix ys evs" | zs where "ys = zs @ evs" "suffix zs (fst st @ [ev])"
    unfolding suffix_append [of ys "fst st @ [ev]" evs] by blast
  then have "suffix ys (fst st1 @ evs)"
  proof cases
    case 1
    then show ?thesis by (rule suffix_appendI)
  next
    case (2 zs)
    have "suffix zs (trimEvents (fst st @ [ev]) lim)"
      using 2 assms(3,4) encodedEventsSize_prefix [of zs evs] by (intro trimEvents_maximal) auto
    then show ?thesis using 2 log by (simp add: suffix_def)
  qed
  then show ?case by (rule Cons.IH [OF st1(2)])
qed simp

end
