(* ===== verification/Store_Retention.thy ===== *)
theory Store_Retention
  imports Store_Events
begin

text \<open>
  Retention and recovery (\<open>internal/store/gc.go\<close>, \<open>queue.go\<close>, \<open>verify.go\<close>): the sweep that
  turns terminal submissions past their payload retention into payload-free tombstones and deletes
  tombstones past theirs, the recovery lists, and the check that the key opens what is stored.
\<close>

section \<open>Definitions\<close>

subsection \<open>Retention\<close>

definition has_payload :: "row \<Rightarrow> bool" where
  "has_payload r \<longleftrightarrow>
     r_args_enc r \<noteq> None \<or> r_task_id r \<noteq> None \<or> r_events_enc r \<noteq> None \<or> r_result_enc r \<noteq> None
     \<or> r_error_code r \<noteq> None \<or> r_error_message r \<noteq> None \<or> r_error_retryable r
     \<or> r_terminal_evidence_enc r \<noteq> None \<or> r_input_requests_enc r \<noteq> None"

definition payload_due :: "int \<Rightarrow> row \<Rightarrow> bool" where
  "payload_due nowMs r \<longleftrightarrow>
     r_completed_at r \<noteq> None \<and> (case r_payload_expires_at r of None \<Rightarrow> False | Some x \<Rightarrow> x \<le> nowMs)
     \<and> has_payload r"

definition expire_row :: "int \<Rightarrow> row \<Rightarrow> row" where
  "expire_row nowMs r =
     r\<lparr>r_status := StatusExpired, r_args_enc := None, r_task_id := None, r_events_enc := None,
       r_result_enc := None, r_error_code := None, r_error_message := None,
       r_error_retryable := False, r_terminal_evidence_enc := None, r_input_requests_enc := None,
       r_updated_at := nowMs\<rparr>"

definition expirePayloads :: "int \<Rightarrow> db \<Rightarrow> nat \<times> db" where
  "expirePayloads nowMs d =
     (length (filter (\<lambda>p. payload_due nowMs (snd p)) (submissions d)),
      d\<lparr>submissions :=
         map_rows (\<lambda>r. if payload_due nowMs r then expire_row nowMs r else r) (submissions d)\<rparr>)"

definition tombstone_due :: "int \<Rightarrow> row \<Rightarrow> bool" where
  "tombstone_due nowMs r \<longleftrightarrow> (case r_tombstone_expires_at r of None \<Rightarrow> False | Some x \<Rightarrow> x \<le> nowMs)"

definition delete_tombstone :: "string \<times> string \<Rightarrow> db \<Rightarrow> db" where
  "delete_tombstone t d =
     d\<lparr>submissions := del_row (fst t) (submissions d),
       input_responses := filter (\<lambda>p. fst (fst p) \<noteq> fst t) (input_responses d),
       idempotency := del_row (snd t) (idempotency d)\<rparr>"

definition lapsed_tombstones :: "int \<Rightarrow> db \<Rightarrow> (string \<times> string) list" where
  "lapsed_tombstones nowMs d =
     map (\<lambda>p. (fst p, r_client_request_id (snd p)))
       (filter (\<lambda>p. tombstone_due nowMs (snd p)) (submissions d))"

definition deleteLapsedTombstones :: "int \<Rightarrow> db \<Rightarrow> nat \<times> db" where
  "deleteLapsedTombstones nowMs d =
     (length (lapsed_tombstones nowMs d), fold delete_tombstone (lapsed_tombstones nowMs d) d)"

record GCSummary =
  gc_Expired :: nat
  gc_Deleted :: nat

definition GC :: "env \<Rightarrow> db \<Rightarrow> (go_error + GCSummary) \<times> db" where
  "GC e d =
     (let nowMs = UnixMilli (env_now e) in
      writeTx e ''gc'' (\<lambda>d.
        rbind (statement e ExecStmt ''expire payloads'') (\<lambda>_.
        rbind (statement e QueryStmt ''select lapsed tombstones'') (\<lambda>_.
        let (expired, d1) = expirePayloads nowMs d;
            (deleted, d2) = deleteLapsedTombstones nowMs d1
        in Inr (\<lparr>gc_Expired = expired, gc_Deleted = deleted\<rparr>, d2)))) d)"

subsection \<open>Recovery lists\<close>

definition listed :: "string \<Rightarrow> (status \<Rightarrow> bool) \<Rightarrow> db \<Rightarrow> string list" where
  "listed strategy sel d =
     map fst (sort_key (\<lambda>p. (r_created_at (snd p), fst p))
       (filter (\<lambda>p. r_strategy (snd p) = strategy \<and> sel (r_status (snd p))) (submissions d)))"

definition ListRunnable :: "env \<Rightarrow> string \<Rightarrow> db \<Rightarrow> go_error + string list" where
  "ListRunnable e strategy d =
     rbind (ensure (strategy \<noteq> '''') (errors_New ''execution strategy is required'')) (\<lambda>_.
     rbind (statement e QueryStmt ''list runnable submissions'') (\<lambda>_.
     Inr (listed strategy (\<lambda>st. st \<in> {StatusAccepted, StatusQueued, StatusRunning}) d)))"

definition ListByStatus :: "env \<Rightarrow> string \<Rightarrow> status list \<Rightarrow> db \<Rightarrow> go_error + string list" where
  "ListByStatus e strategy statuses d =
     rbind (ensure (strategy \<noteq> '''' \<and> statuses \<noteq> [])
              (errors_New ''execution strategy and statuses are required'')) (\<lambda>_.
     rbind (ensure (list_all Valid statuses) (errors_New ''unknown status'')) (\<lambda>_.
     rbind (statement e QueryStmt ''list submissions'') (\<lambda>_.
     Inr (listed strategy (\<lambda>st. st \<in> set statuses) d))))"

subsection \<open>Key verification\<close>

text \<open>\<open>LIMIT 1\<close> takes the first row in table order with the column set.\<close>

definition verifySealedColumn ::
    "env \<Rightarrow> (row \<Rightarrow> 'a blob option) \<Rightarrow> string \<Rightarrow> db \<Rightarrow> go_error + unit" where
  "verifySealedColumn e col kind d =
     rbind (map_error (unavailable ''read encrypted state'') (statement e QueryStmt '''')) (\<lambda>_.
     case find (\<lambda>p. col (snd p) \<noteq> None) (submissions d) of
       None \<Rightarrow> Inr ()
     | Some p \<Rightarrow> (case col (snd p) of
         None \<Rightarrow> Inr ()
       | Some b \<Rightarrow> (case open_blob e b (fst p) kind of
           Inl _ \<Rightarrow> Inl (Errorf ''state key cannot decrypt existing data'' [Sentinel ErrStateUnavailable])
         | Inr _ \<Rightarrow> Inr ())))"

definition verifyInputResponse :: "env \<Rightarrow> db \<Rightarrow> go_error + unit" where
  "verifyInputResponse e d =
     rbind (map_error (unavailable ''read encrypted state'') (statement e QueryStmt '''')) (\<lambda>_.
     case input_responses d of
       [] \<Rightarrow> Inr ()
     | ((sid, rid), ir) # _ \<Rightarrow>
         (case open_blob e (ir_response_enc ir) sid (''input-response:'' @ rid) of
            Inl _ \<Rightarrow> Inl (Errorf ''state key cannot decrypt existing data'' [Sentinel ErrStateUnavailable])
          | Inr _ \<Rightarrow> Inr ()))"

definition VerifyStateKey :: "env \<Rightarrow> db \<Rightarrow> go_error + unit" where
  "VerifyStateKey e d =
     rbind (verifySealedColumn e r_args_enc ''arguments'' d) (\<lambda>_.
     rbind (verifySealedColumn e r_events_enc ''events'' d) (\<lambda>_.
     rbind (verifySealedColumn e r_result_enc ''result'' d) (\<lambda>_.
     rbind (verifySealedColumn e r_input_requests_enc ''input-requests'' d) (\<lambda>_.
     rbind (verifySealedColumn e r_terminal_evidence_enc ''terminal-evidence'' d) (\<lambda>_.
     verifyInputResponse e d)))))"

end
