(* ===== verification/Store_Input.thy ===== *)
theory Store_Input
  imports Store_Retention
begin

text \<open>
  Recorded input responses (\<open>internal/store/input.go\<close>): first write wins, an exact replay is a
  no-op, a different value is a conflict, delivery is marked once.
\<close>

section \<open>Definitions\<close>

definition response_kind :: "string \<Rightarrow> string" where
  "response_kind rid = ''input-response:'' @ rid"

definition ids_required :: "string \<Rightarrow> string \<Rightarrow> go_error + unit" where
  "ids_required sid rid =
     ensure (sid \<noteq> '''' \<and> rid \<noteq> '''') (errors_New ''submission id and request id are required'')"

definition GetInputResponse :: "env \<Rightarrow> string \<Rightarrow> string \<Rightarrow> db \<Rightarrow> go_error + json option" where
  "GetInputResponse e sid rid d =
     rbind (ids_required sid rid) (\<lambda>_.
     rbind (statement e ReadBack ''read input response'') (\<lambda>_.
     case row_at (input_responses d) (sid, rid) of
       None \<Rightarrow> Inr None
     | Some ir \<Rightarrow> map_error (unavailable sid)
         (rbind (open_blob e (ir_response_enc ir) sid (response_kind rid)) (\<lambda>v. Inr (Some v)))))"

text \<open>The stored and the offered response are compared as texts.\<close>

definition SetInputResponse ::
    "env \<Rightarrow> string \<Rightarrow> string \<Rightarrow> json option \<Rightarrow> db \<Rightarrow> (go_error + unit) \<times> db" where
  "SetInputResponse e sid rid response d =
     (case rbind (ids_required sid rid) (\<lambda>_.
           rbind (case response of None \<Rightarrow> Inl (errors_New ''input response is required'')
                                 | Some v \<Rightarrow> Inr v) (\<lambda>v.
           rbind (map_error (\<lambda>err. Errorf ''seal input response'' [err])
                    (seal_blob e v sid (response_kind rid))) (\<lambda>b.
           rbind (statement e PlainExec ''record input response'') (\<lambda>_. Inr (v, b))))) of
        Inl err \<Rightarrow> (Inl err, d)
      | Inr (v, b) \<Rightarrow>
          (case row_at (input_responses d) (sid, rid) of
             None \<Rightarrow> (Inr (), d\<lparr>input_responses := input_responses d @ [((sid, rid),
                \<lparr>ir_response_enc = b, ir_answered_at = UnixMilli (env_now e), ir_sent_at = None\<rparr>)]\<rparr>)
           | Some _ \<Rightarrow>
               (rbind (GetInputResponse e sid rid d) (\<lambda>stored.
                  case stored of
                    None \<Rightarrow> Inl (errors_New ''input response vanished between insert and read'')
                  | Some w \<Rightarrow> ensure (encode w = encode v) (Sentinel ErrInputResponseConflict)), d)))"

definition InputResponsePending :: "env \<Rightarrow> string \<Rightarrow> string \<Rightarrow> db \<Rightarrow> go_error + bool" where
  "InputResponsePending e sid rid d =
     rbind (ids_required sid rid) (\<lambda>_.
     rbind (statement e QueryStmt ''read input response delivery'') (\<lambda>_.
     case row_at (input_responses d) (sid, rid) of
       None \<Rightarrow> Inr False
     | Some ir \<Rightarrow> Inr (ir_sent_at ir = None)))"

text \<open>
  The loop commits each mark as it goes: an empty request ID stops it and the marks before it stay.
\<close>

fun mark_sent :: "env \<Rightarrow> int \<Rightarrow> string \<Rightarrow> string list \<Rightarrow> db \<Rightarrow> (go_error + unit) \<times> db" where
  "mark_sent e now sid [] d = (Inr (), d)"
| "mark_sent e now sid (rid # rids) d =
     (if rid = '''' then (Inl (errors_New ''request id is required''), d)
      else case statement e ExecStmt ''mark input response sent'' of
          Inl err \<Rightarrow> (Inl err, d)
        | Inr _ \<Rightarrow> mark_sent e now sid rids
            (case row_at (input_responses d) (sid, rid) of
               None \<Rightarrow> d
             | Some ir \<Rightarrow>
                 if ir_sent_at ir = None
                 then d\<lparr>input_responses :=
                        put_row (sid, rid) (ir\<lparr>ir_sent_at := Some now\<rparr>) (input_responses d)\<rparr>
                 else d))"

definition MarkInputResponsesSent ::
    "env \<Rightarrow> string \<Rightarrow> string list \<Rightarrow> db \<Rightarrow> (go_error + unit) \<times> db" where
  "MarkInputResponsesSent e sid rids d =
     (if sid = '''' \<or> rids = []
      then (Inl (errors_New ''submission id and request ids are required''), d)
      else mark_sent e (UnixMilli (env_now e)) sid rids d)"

end
