(* ===== verification/Store_Fence.thy ===== *)
theory Store_Fence
  imports Store_Lease
begin

text \<open>
  Credential fences (\<open>internal/store/fence.go\<close>, \<open>identity.go\<close>): the pointer to the live
  secure-backend slot of a stream, advanced by compare-and-swap under a lease epoch, the retirement
  backlog beside it, and the plaintext view of both.
\<close>

section \<open>Definitions\<close>

definition RefreshFenceName :: string where
  "RefreshFenceName = ''oauth-refresh''"

definition ClientFenceName :: string where
  "ClientFenceName = ''oauth-client''"

record CredentialFenceCommit =
  cf_FenceName :: string
  cf_FenceGeneration :: int
  cf_Slot :: string
  cf_PreviousSlot :: string
  cf_RetiredLabels :: "string list"
  cf_LeaseName :: string
  cf_LeaseOwner :: string
  cf_LeaseGeneration :: int

definition retiredCredentialSlotName :: "string \<Rightarrow> string \<Rightarrow> string" where
  "retiredCredentialSlotName fenceName slot = fenceName @ ''-retired:'' @ slot"

definition invalidatedCredentialName :: string where
  "invalidatedCredentialName = RefreshFenceName @ ''-invalidated''"

definition ReadCredentialFence :: "env \<Rightarrow> string \<Rightarrow> db \<Rightarrow> go_error + (int \<times> string) option" where
  "ReadCredentialFence e fenceName d =
     rbind (ensure (fenceName \<noteq> '''') (errors_New ''fence name is required'')) (\<lambda>_.
     rbind (map_error (unavailable ''read credential fence'') (statement e QueryStmt '''')) (\<lambda>_.
     Inr (map_option (\<lambda>f. (f_generation f, f_slot f)) (row_at (credential_fence d) fenceName))))"

text \<open>\<open>SELECT 1 FROM leases \<dots>\<close>: the epoch is still owned and unexpired.\<close>

definition epoch_held :: "env \<Rightarrow> string \<Rightarrow> string \<Rightarrow> int \<Rightarrow> db \<Rightarrow> bool" where
  "epoch_held e name owner generation d =
     (case row_at (leases d) name of
        None \<Rightarrow> False
      | Some l \<Rightarrow> l_owner l = owner \<and> l_generation l = generation
                 \<and> l_expires_at l > UnixMilli (env_now e))"

text \<open>The upsert of one retirement record: an existing record keeps its generation.\<close>

definition enqueue :: "string \<Rightarrow> string \<Rightarrow> db \<Rightarrow> db" where
  "enqueue fenceName slot d =
     (let name = retiredCredentialSlotName fenceName slot in
      d\<lparr>credential_fence := put_row name
         (case row_at (credential_fence d) name of
            None \<Rightarrow> \<lparr>f_generation = 0, f_slot = slot\<rparr>
          | Some f \<Rightarrow> f\<lparr>f_slot := slot\<rparr>) (credential_fence d)\<rparr>)"

definition enqueue_commit :: "CredentialFenceCommit \<Rightarrow> db \<Rightarrow> db" where
  "enqueue_commit c d =
     fold (\<lambda>label d. if label = '''' \<or> label = cf_PreviousSlot c \<or> label = cf_Slot c then d
                      else enqueue (cf_FenceName c) label d) (cf_RetiredLabels c)
       (if cf_PreviousSlot c = '''' then d else enqueue (cf_FenceName c) (cf_PreviousSlot c) d)"

definition fence_advances :: "CredentialFenceCommit \<Rightarrow> db \<Rightarrow> bool" where
  "fence_advances c d =
     (case row_at (credential_fence d) (cf_FenceName c) of
        None \<Rightarrow> True
      | Some f \<Rightarrow> f_generation f < cf_FenceGeneration c)"

definition check_commit :: "CredentialFenceCommit \<Rightarrow> go_error + unit" where
  "check_commit c =
     (if cf_FenceName c = '''' then Inl (errors_New ''credential fence name is required'')
      else if cf_FenceGeneration c \<le> 0
        then Inl (errors_New ''credential fence generation must be positive'')
      else if cf_Slot c = '''' then Inl (errors_New ''credential fence slot is required'')
      else validateLease (cf_LeaseName c) (cf_LeaseOwner c) (60 * Second))"

text \<open>
  A rejected writer returns \<open>false\<close> without an error; its transaction is rolled back, so it commits
  nothing.
\<close>

definition CommitCredentialFence :: "env \<Rightarrow> CredentialFenceCommit \<Rightarrow> db \<Rightarrow> (go_error + bool) \<times> db" where
  "CommitCredentialFence e c d =
     (case rbind (check_commit c) (\<lambda>_.
           map_error (unavailable ''commit credential fence'')
             (rbind (statement e Begin '''') (\<lambda>_. statement e QueryStmt ''''))) of
        Inl err \<Rightarrow> (Inl err, d)
      | Inr _ \<Rightarrow>
          if \<not> epoch_held e (cf_LeaseName c) (cf_LeaseOwner c) (cf_LeaseGeneration c) d
          then (Inr False, d)
          else (case map_error (unavailable ''commit credential fence'') (statement e ExecStmt '''') of
              Inl err \<Rightarrow> (Inl err, d)
            | Inr _ \<Rightarrow>
                if \<not> fence_advances c d then (Inr False, d)
                else (case map_error (unavailable ''commit credential fence'')
                             (statement e CommitStmt '''') of
                        Inl err \<Rightarrow> (Inl err, d)
                      | Inr _ \<Rightarrow> (Inr True, enqueue_commit c
                          (d\<lparr>credential_fence := put_row (cf_FenceName c)
                             \<lparr>f_generation = cf_FenceGeneration c, f_slot = cf_Slot c\<rparr>
                             (credential_fence d)\<rparr>)))))"

definition ClearCredentialFence ::
    "env \<Rightarrow> string \<Rightarrow> string \<Rightarrow> string \<Rightarrow> int \<Rightarrow> string \<Rightarrow> db \<Rightarrow> (go_error + bool) \<times> db" where
  "ClearCredentialFence e fenceName leaseName leaseOwner leaseGeneration retiredSlot d =
     (case rbind (ensure (fenceName \<noteq> '''') (errors_New ''fence name is required'')) (\<lambda>_.
           rbind (validateLease leaseName leaseOwner (60 * Second)) (\<lambda>_.
           map_error (unavailable ''clear credential fence'')
             (rbind (statement e Begin '''') (\<lambda>_. statement e QueryStmt '''')))) of
        Inl err \<Rightarrow> (Inl err, d)
      | Inr _ \<Rightarrow>
          if \<not> epoch_held e leaseName leaseOwner leaseGeneration d then (Inr False, d)
          else (case map_error (unavailable ''clear credential fence'')
                       (rbind (statement e ExecStmt '''') (\<lambda>_. statement e CommitStmt '''')) of
                  Inl err \<Rightarrow> (Inl err, d)
                | Inr _ \<Rightarrow>
                    let d1 = d\<lparr>credential_fence := del_row fenceName (credential_fence d)\<rparr>
                    in (Inr True, if retiredSlot = '''' then d1 else enqueue fenceName retiredSlot d1)))"

definition fence_exec :: "env \<Rightarrow> string \<Rightarrow> (db \<Rightarrow> db) \<Rightarrow> db \<Rightarrow> (go_error + unit) \<times> db" where
  "fence_exec e what f d =
     (case map_error (unavailable what) (statement e ExecStmt '''') of
        Inl err \<Rightarrow> (Inl err, d)
      | Inr _ \<Rightarrow> (Inr (), f d))"

definition MarkRefreshCredentialInvalidated :: "env \<Rightarrow> db \<Rightarrow> (go_error + unit) \<times> db" where
  "MarkRefreshCredentialInvalidated e d =
     fence_exec e ''mark refresh credential invalidated'' (\<lambda>d.
       d\<lparr>credential_fence := put_row invalidatedCredentialName
          (case row_at (credential_fence d) invalidatedCredentialName of
             None \<Rightarrow> \<lparr>f_generation = 0, f_slot = ''''\<rparr>
           | Some f \<Rightarrow> f\<lparr>f_slot := ''''\<rparr>) (credential_fence d)\<rparr>) d"

definition ClearRefreshCredentialInvalidation :: "env \<Rightarrow> db \<Rightarrow> (go_error + unit) \<times> db" where
  "ClearRefreshCredentialInvalidation e d =
     fence_exec e ''clear refresh credential invalidation'' (\<lambda>d.
       d\<lparr>credential_fence := del_row invalidatedCredentialName (credential_fence d)\<rparr>) d"

definition RefreshCredentialInvalidated :: "env \<Rightarrow> db \<Rightarrow> go_error + bool" where
  "RefreshCredentialInvalidated e d =
     rbind (map_error (unavailable ''read refresh credential invalidation'')
              (statement e QueryStmt '''')) (\<lambda>_.
     Inr (row_at (credential_fence d) invalidatedCredentialName \<noteq> None))"

definition check_slot :: "string \<Rightarrow> string \<Rightarrow> go_error + unit" where
  "check_slot fenceName slot =
     rbind (ensure (fenceName \<noteq> '''') (errors_New ''fence name is required'')) (\<lambda>_.
     ensure (slot \<noteq> '''') (errors_New ''credential slot is required''))"

definition RecordRetiredCredentialSlot ::
    "env \<Rightarrow> string \<Rightarrow> string \<Rightarrow> db \<Rightarrow> (go_error + unit) \<times> db" where
  "RecordRetiredCredentialSlot e fenceName slot d =
     (case check_slot fenceName slot of
        Inl err \<Rightarrow> (Inl err, d)
      | Inr _ \<Rightarrow> fence_exec e ''record retired credential slot'' (enqueue fenceName slot) d)"

text \<open>SQLite's \<open>LIKE\<close>: \<open>%\<close> any text, \<open>_\<close> any character, letters compared without case.\<close>

function sql_like :: "string \<Rightarrow> string \<Rightarrow> bool" where
  "sql_like [] s = (s = [])"
| "sql_like (p # ps) s =
     (if p = CHR ''%'' then sql_like ps s \<or> (case s of [] \<Rightarrow> False | c # cs \<Rightarrow> sql_like (p # ps) cs)
      else case s of
          [] \<Rightarrow> False
        | c # cs \<Rightarrow> (p = CHR ''_'' \<or> ascii_lower [p] = ascii_lower [c]) \<and> sql_like ps cs)"
  by pat_completeness auto
termination
  by (relation "measure (\<lambda>(p, s). length p + length s)") auto

declare sql_like.simps [simp del]

definition RetiredCredentialSlots :: "env \<Rightarrow> string \<Rightarrow> db \<Rightarrow> go_error + string list" where
  "RetiredCredentialSlots e fenceName d =
     rbind (ensure (fenceName \<noteq> '''') (errors_New ''fence name is required'')) (\<lambda>_.
     rbind (map_error (unavailable ''list retired credential slots'') (statement e QueryStmt '''')) (\<lambda>_.
     Inr (map (\<lambda>p. f_slot (snd p))
       (filter (\<lambda>p. sql_like (fenceName @ ''-retired:%'') (fst p)) (credential_fence d)))))"

definition ClearRetiredCredentialSlot ::
    "env \<Rightarrow> string \<Rightarrow> string \<Rightarrow> db \<Rightarrow> (go_error + unit) \<times> db" where
  "ClearRetiredCredentialSlot e fenceName slot d =
     (case check_slot fenceName slot of
        Inl err \<Rightarrow> (Inl err, d)
      | Inr _ \<Rightarrow> fence_exec e ''clear retired credential slot'' (\<lambda>d.
          d\<lparr>credential_fence :=
             del_row (retiredCredentialSlotName fenceName slot) (credential_fence d)\<rparr>) d)"

definition classifyFence :: "string \<Rightarrow> int \<Rightarrow> string \<Rightarrow> string \<times> string" where
  "classifyFence name generation slot =
     (if slot = '''' then ('''', '''')
      else if (name = RefreshFenceName \<or> name = ClientFenceName) \<and> generation > 0 then (slot, '''')
      else if contains ''-retired:'' name then ('''', slot)
      else ('''', ''''))"

definition readIdentitySlots :: "env \<Rightarrow> db \<Rightarrow> go_error + string list \<times> string list" where
  "readIdentitySlots e d =
     rbind (map_error (unavailable ''read credential fences'') (statement e QueryStmt '''')) (\<lambda>_.
     let classes = map (\<lambda>p. classifyFence (fst p) (f_generation (snd p)) (f_slot (snd p)))
                     (sort_key fst (credential_fence d));
         live = filter (\<lambda>s. s \<noteq> '''') (map fst classes);
         retired = map snd (filter (\<lambda>c. fst c = '''' \<and> snd c \<noteq> '''') classes)
     in Inr (sort live, sort retired))"

end
