(* ===== verification/Store_Invariant.thy ===== *)
theory Store_Invariant
  imports Store_Input Store_Fence
begin

text \<open>
  The contract of the store: an invariant of the database (\<open>db_inv\<close>), what one operation may do
  to it (\<open>db_step\<close>), and the proof that every operation keeps the one and obeys the other. The
  operations are the constructors of \<open>store_op\<close>, so a history of several processes is a list of
  calls; the locale \<open>durable_store\<close> carries the facts from one call to a history.
\<close>

section \<open>Definitions\<close>

subsection \<open>The invariant\<close>

definition sealed_ok :: "string \<Rightarrow> string \<Rightarrow> string \<Rightarrow> 'a blob option \<Rightarrow> bool" where
  "sealed_ok key sid kind c \<longleftrightarrow>
     (case c of None \<Rightarrow> True | Some b \<Rightarrow> blob_key b = key \<and> blob_aad b = blobAAD sid kind)"

text \<open>The columns a sweep clears, and the three deadlines.\<close>

definition no_outcome :: "row \<Rightarrow> bool" where
  "no_outcome r \<longleftrightarrow> r_result_enc r = None \<and> r_error_code r = None \<and> r_error_message r = None
     \<and> \<not> r_error_retryable r \<and> r_terminal_evidence_enc r = None"

definition payload_deadline :: "row \<Rightarrow> int \<Rightarrow> int" where
  "payload_deadline r c = i64 (c + go_div (al_PayloadRetention (row_limits r)) Millisecond)"

definition tombstone_deadline :: "row \<Rightarrow> int \<Rightarrow> int" where
  "tombstone_deadline r c = i64 (c + go_div (al_TombstoneRetention (row_limits r)) Millisecond)"

definition deadlines_ok :: "row \<Rightarrow> bool" where
  "deadlines_ok r \<longleftrightarrow>
     (if Terminal (r_status r)
      then (case r_completed_at r of
              None \<Rightarrow> False
            | Some c \<Rightarrow> r_payload_expires_at r = Some (payload_deadline r c)
                \<and> r_tombstone_expires_at r = Some (tombstone_deadline r c))
      else r_completed_at r = None \<and> r_payload_expires_at r = None \<and> r_tombstone_expires_at r = None)"

text \<open>What the status says about the outcome columns.\<close>

definition outcome_ok :: "row \<Rightarrow> bool" where
  "outcome_ok r \<longleftrightarrow>
     (\<not> Terminal (r_status r) \<longrightarrow> no_outcome r) \<and>
     (r_status r = StatusCompleted \<longrightarrow>
        r_result_enc r \<noteq> None \<and> r_error_code r = None \<and> r_error_message r = None) \<and>
     (r_status r \<in> {StatusFailed, StatusCancelled, StatusOutcomeUnknown} \<longrightarrow>
        r_result_enc r = None \<and> r_error_code r \<noteq> None \<and> r_error_message r \<noteq> None) \<and>
     (r_status r \<noteq> StatusExpired \<longrightarrow> r_args_enc r \<noteq> None)"

definition events_ok :: "string \<Rightarrow> row \<Rightarrow> bool" where
  "events_ok sid r \<longleftrightarrow>
     0 \<le> r_sequence r \<and>
     (case r_events_enc r of
        None \<Rightarrow> r_status r = StatusExpired \<or> r_sequence r = 0
      | Some b \<Rightarrow> log_ok sid (row_limits r) (blob_plain b, r_sequence r))"

definition row_ok :: "string \<Rightarrow> string \<Rightarrow> row \<Rightarrow> bool" where
  "row_ok key sid r \<longleftrightarrow>
     Valid (r_status r) \<and> AcceptedLimits_validate (row_limits r) = Inr ()
     \<and> deadlines_ok r \<and> outcome_ok r \<and> events_ok sid r
     \<and> sealed_ok key sid ''arguments'' (r_args_enc r)
     \<and> sealed_ok key sid ''events'' (r_events_enc r)
     \<and> sealed_ok key sid ''result'' (r_result_enc r)
     \<and> sealed_ok key sid ''input-requests'' (r_input_requests_enc r)
     \<and> sealed_ok key sid ''terminal-evidence'' (r_terminal_evidence_enc r)"

definition index_ok :: "db \<Rightarrow> bool" where
  "index_ok d \<longleftrightarrow>
     (\<forall>sid r. row_at (submissions d) sid = Some r \<longrightarrow>
        (\<exists>i. row_at (idempotency d) (r_client_request_id r) = Some i
           \<and> id_submission_id i = sid \<and> id_args_hash i = r_args_hash r)) \<and>
     (\<forall>crid i. row_at (idempotency d) crid = Some i \<longrightarrow>
        (\<exists>r. row_at (submissions d) (id_submission_id i) = Some r \<and> r_client_request_id r = crid))"

definition db_inv :: "string \<Rightarrow> db \<Rightarrow> bool" where
  "db_inv key d \<longleftrightarrow>
     pk (submissions d) \<and> pk (idempotency d) \<and> pk (input_responses d) \<and> pk (leases d)
     \<and> pk (credential_fence d)
     \<and> (\<forall>sid r. row_at (submissions d) sid = Some r \<longrightarrow> row_ok key sid r)
     \<and> index_ok d
     \<and> (\<forall>sid rid ir. row_at (input_responses d) (sid, rid) = Some ir \<longrightarrow>
          sealed_ok key sid (response_kind rid) (Some (ir_response_enc ir)))"

subsection \<open>What one operation may do\<close>

text \<open>The columns fixed at acceptance: identity and lifecycle policy.\<close>

definition accepted_columns ::
    "row \<Rightarrow> (string \<times> string \<times> string \<times> string \<times> string) \<times> (string \<times> string \<times> int)
      \<times> int list" where
  "accepted_columns r =
     ((r_client_request_id r, r_tool r, r_strategy r, r_descriptor_digest r, r_args_hash r),
      (r_protocol_version r, r_adapter_version r, r_created_at r),
      [r_response_bytes r, r_result_bytes r, r_event_bytes r, r_max_events r, r_events_bytes r,
       r_payload_retention_ms r, r_tombstone_retention_ms r])"

definition outcome_columns ::
    "row \<Rightarrow> result blob option \<times> code option \<times> string option \<times> bool \<times> string blob option
      \<times> event list blob option \<times> json blob option" where
  "outcome_columns r = (r_result_enc r, r_error_code r, r_error_message r, r_error_retryable r,
     r_terminal_evidence_enc r, r_events_enc r, r_args_enc r)"

definition status_step :: "status \<Rightarrow> status \<Rightarrow> bool" where
  "status_step st st' \<longleftrightarrow> st' = st \<or> Allowed st st' \<or> (Terminal st \<and> st' = StatusExpired)"

definition row_events :: "row \<Rightarrow> event list" where
  "row_events r = (case r_events_enc r of None \<Rightarrow> [] | Some b \<Rightarrow> blob_plain b)"

text \<open>The log may lose events, but an event it gains is beyond the old sequence.\<close>

definition log_step :: "row \<Rightarrow> row \<Rightarrow> bool" where
  "log_step r r' \<longleftrightarrow>
     (\<forall>ev \<in> set (row_events r'). ev \<in> set (row_events r) \<or> r_sequence r < ev_Sequence ev)"

definition row_step :: "row \<Rightarrow> row \<Rightarrow> bool" where
  "row_step r r' \<longleftrightarrow>
     accepted_columns r' = accepted_columns r \<and> status_step (r_status r) (r_status r')
     \<and> r_sequence r \<le> r_sequence r' \<and> log_step r r'
     \<and> (Terminal (r_status r) \<longrightarrow>
          r_completed_at r' = r_completed_at r \<and> r_payload_expires_at r' = r_payload_expires_at r
          \<and> r_tombstone_expires_at r' = r_tombstone_expires_at r \<and> r_sequence r' = r_sequence r
          \<and> (r_status r' = r_status r \<and> outcome_columns r' = outcome_columns r
             \<or> r_status r' = StatusExpired
               \<and> outcome_columns r' = (None, None, None, False, None, None, None)))"

definition db_step :: "int \<Rightarrow> db \<Rightarrow> db \<Rightarrow> bool" where
  "db_step nowMs d d' \<longleftrightarrow>
     (\<forall>sid r. row_at (submissions d) sid = Some r \<longrightarrow>
        (case row_at (submissions d') sid of
           Some r' \<Rightarrow> row_step r r'
         | None \<Rightarrow> Terminal (r_status r) \<and> tombstone_due nowMs r)) \<and>
     (\<forall>sid r'. row_at (submissions d) sid = None \<longrightarrow> row_at (submissions d') sid = Some r' \<longrightarrow>
        r_status r' = StatusAccepted)"

subsection \<open>The operations\<close>

datatype store_op =
    OpCreate NewSubmission
  | OpTransition string status TransitionDetail "lease_identity option"
  | OpComplete string result "lease_identity option"
  | OpFail string string string contract_error
  | OpCapture string string string status contract_error string
  | OpAttach string string
  | OpReplace string string string
  | OpSaveTask string string string TaskRecord
  | OpAppend string "event list"
  | OpGC
  | OpSetResponse string string "json option"
  | OpMarkSent string "string list"
  | OpClaim string string int
  | OpRenew string string int
  | OpCommitLease string string int
  | OpRelease string string
  | OpCommitFence CredentialFenceCommit
  | OpClearFence string string string int string
  | OpMarkInvalidated
  | OpClearInvalidation
  | OpRetire string string
  | OpClearRetired string string

fun perform :: "store_op \<Rightarrow> env \<Rightarrow> db \<Rightarrow> db" where
  "perform (OpCreate ns) e d = snd (CreateSubmission e ns d)"
| "perform (OpTransition sid to detail lease) e d = snd (transition e sid to detail lease d)"
| "perform (OpComplete sid res lease) e d = snd (complete e sid res lease d)"
| "perform (OpFail sid n w f) e d = snd (FailLeased e sid n w f d)"
| "perform (OpCapture sid n w to f ev) e d = snd (CaptureTerminalLeased e sid n w to f ev d)"
| "perform (OpAttach sid t) e d = snd (AttachTaskID e sid t d)"
| "perform (OpReplace sid w t) e d = snd (ReplaceTaskIDLeased e sid w t d)"
| "perform (OpSaveTask sid n w r) e d = snd (SaveTaskRecordLeased e sid n w r d)"
| "perform (OpAppend sid evs) e d = snd (AppendEvents e sid evs d)"
| "perform OpGC e d = snd (GC e d)"
| "perform (OpSetResponse sid rid v) e d = snd (SetInputResponse e sid rid v d)"
| "perform (OpMarkSent sid rids) e d = snd (MarkInputResponsesSent e sid rids d)"
| "perform (OpClaim n w ttl) e d = snd (ClaimLease e n w ttl d)"
| "perform (OpRenew n w ttl) e d = snd (RenewLease e n w ttl d)"
| "perform (OpCommitLease n w g) e d = snd (CommitLease e n w g d)"
| "perform (OpRelease n w) e d = snd (ReleaseLease e n w d)"
| "perform (OpCommitFence c) e d = snd (CommitCredentialFence e c d)"
| "perform (OpClearFence f n w g s) e d = snd (ClearCredentialFence e f n w g s d)"
| "perform OpMarkInvalidated e d = snd (MarkRefreshCredentialInvalidated e d)"
| "perform OpClearInvalidation e d = snd (ClearRefreshCredentialInvalidation e d)"
| "perform (OpRetire f s) e d = snd (RecordRetiredCredentialSlot e f s d)"
| "perform (OpClearRetired f s) e d = snd (ClearRetiredCredentialSlot e f s d)"

text \<open>What \<open>Open\<close> establishes of a store: validated limits and the profile's one key.\<close>

definition env_ok :: "string \<Rightarrow> env \<Rightarrow> bool" where
  "env_ok key e \<longleftrightarrow> env_key e = key \<and> Validate (env_limits e) = Inr ()"

section \<open>Lemmas\<close>

subsection \<open>One row\<close>

lemmas row_defs = row_ok_def deadlines_ok_def outcome_ok_def no_outcome_def events_ok_def
  payload_deadline_def tombstone_deadline_def

lemma row_limits_policy:
  "accepted_columns r' = accepted_columns r \<Longrightarrow> row_limits r' = row_limits r"
  by (simp add: accepted_columns_def row_limits_def)

lemma sealed_ok_None [simp]: "sealed_ok key sid kind None"
  by (simp add: sealed_ok_def)

lemma sealed_ok_seal [simp]: "sealed_ok key sid kind (Some (Blob key (blobAAD sid kind) p))"
  by (simp add: sealed_ok_def)

lemma log_step_same: "r_events_enc r' = r_events_enc r \<Longrightarrow> log_step r r'"
  by (simp add: log_step_def row_events_def)

lemma log_step_cleared: "r_events_enc r' = None \<Longrightarrow> log_step r r'"
  by (simp add: log_step_def row_events_def)

lemma row_step_refl [simp]: "row_step r r"
  by (auto simp: row_step_def status_step_def log_step_same)

lemma db_step_refl [simp]: "db_step t d d"
  by (auto simp: db_step_def split: option.splits)

text \<open>An operation that leaves the submissions alone makes no step.\<close>

lemma db_step_frame: "submissions d' = submissions d \<Longrightarrow> db_step t d d'"
  by (auto simp: db_step_def split: option.splits)

definition good_update :: "string \<Rightarrow> string \<Rightarrow> row \<Rightarrow> row \<Rightarrow> bool" where
  "good_update key sid r r' \<longleftrightarrow> (row_ok key sid r \<longrightarrow> row_ok key sid r' \<and> row_step r r')"

lemma index_ok_put:
  assumes idx: "index_ok d" and r: "row_at (submissions d) sid = Some r"
    and same: "r_client_request_id r' = r_client_request_id r" "r_args_hash r' = r_args_hash r"
  shows "index_ok (d\<lparr>submissions := put_row sid r' (submissions d)\<rparr>)"
proof -
  note fwd = idx [unfolded index_ok_def, THEN conjunct1, rule_format]
  note bwd = idx [unfolded index_ok_def, THEN conjunct2, rule_format]
  show ?thesis
    unfolding index_ok_def
  proof (intro conjI allI impI)
    fix s x assume "row_at (submissions (d\<lparr>submissions := put_row sid r' (submissions d)\<rparr>)) s = Some x"
    then show "\<exists>i. row_at (idempotency (d\<lparr>submissions := put_row sid r' (submissions d)\<rparr>)) (r_client_request_id x)
        = Some i \<and> id_submission_id i = s \<and> id_args_hash i = r_args_hash x"
      using fwd [of s x] fwd [OF r] same by (auto split: if_splits)
  next
    fix crid i assume "row_at (idempotency (d\<lparr>submissions := put_row sid r' (submissions d)\<rparr>)) crid = Some i"
    then obtain x where "row_at (submissions d) (id_submission_id i) = Some x"
        "r_client_request_id x = crid" using bwd [of crid i] by auto
    then show "\<exists>x. row_at (submissions (d\<lparr>submissions := put_row sid r' (submissions d)\<rparr>)) (id_submission_id i)
        = Some x \<and> r_client_request_id x = crid"
      using r same by auto
  qed
qed

lemma row_update:
  assumes inv: "db_inv key d" and r: "row_at (submissions d) sid = Some r"
    and good: "good_update key sid r r'"
  shows "db_inv key (d\<lparr>submissions := put_row sid r' (submissions d)\<rparr>)"
    "db_step t d (d\<lparr>submissions := put_row sid r' (submissions d)\<rparr>)"
proof -
  have ok: "row_ok key sid r'" "row_step r r'"
    using inv r good by (auto simp: db_inv_def good_update_def)
  have same: "r_client_request_id r' = r_client_request_id r" "r_args_hash r' = r_args_hash r"
    using ok(2) by (auto simp: row_step_def accepted_columns_def)
  have "index_ok d" using inv by (simp add: db_inv_def)
  then have "index_ok (d\<lparr>submissions := put_row sid r' (submissions d)\<rparr>)"
    using r same by (rule index_ok_put)
  with inv ok(1) show "db_inv key (d\<lparr>submissions := put_row sid r' (submissions d)\<rparr>)"
    by (simp add: db_inv_def)
  show "db_step t d (d\<lparr>submissions := put_row sid r' (submissions d)\<rparr>)"
    using r ok(2) by (auto simp: db_step_def split: option.splits)
qed

text \<open>The shape shared by every single-row operation.\<close>

definition row_write :: "string \<Rightarrow> db \<Rightarrow> db \<Rightarrow> bool" where
  "row_write key d d' \<longleftrightarrow> d' = d \<or> (\<exists>sid r r'. row_at (submissions d) sid = Some r
     \<and> d' = d\<lparr>submissions := put_row sid r' (submissions d)\<rparr> \<and> good_update key sid r r')"

lemma row_write_refl: "row_write key d d"
  by (simp add: row_write_def)

lemma row_write_ok:
  assumes "db_inv key d" "row_write key d d'"
  shows "db_inv key d' \<and> db_step t d d'"
  using assms row_update unfolding row_write_def by auto

lemma row_write_tx:
  assumes "\<And>a d'. body d = Inr (a, d') \<Longrightarrow> row_write key d d'"
  shows "row_write key d (snd (writeTx e w body d))"
  by (rule writeTx_cases [of e w body d]) (auto simp: row_write_def dest: assms [unfolded row_write_def])

lemma row_write_update:
  assumes "requireUpdated (update_where sid c f d) = Inr (u, d')"
    and "\<And>r. row_at (submissions d) sid = Some r \<Longrightarrow> c r \<Longrightarrow> good_update key sid r (f r)"
  shows "row_write key d d'"
  using assms by (auto simp: requireUpdated_iff row_write_def)

end
