(* ===== verification/Store_Contract.thy ===== *)
theory Store_Contract
  imports Store_Invariant
begin

text \<open>
  Every operation of the store keeps \<open>db_inv\<close> and makes a \<open>db_step\<close>: first the row updates, then
  the single-row operations, acceptance, the sweep, and the operations on other tables; at the end
  the interpretation of \<open>durable_store\<close> on \<open>perform\<close> and the facts about histories.
\<close>

subsection \<open>Row updates\<close>

lemma set_error_simps [simp]:
  "r_status (set_error f r) = r_status r"
  "r_sequence (set_error f r) = r_sequence r"
  "r_events_enc (set_error f r) = r_events_enc r"
  "r_args_enc (set_error f r) = r_args_enc r"
  "r_result_enc (set_error f r) = r_result_enc r"
  "r_input_requests_enc (set_error f r) = r_input_requests_enc r"
  "r_terminal_evidence_enc (set_error f r) = r_terminal_evidence_enc r"
  "r_error_code (set_error f r) = Some (ce_Code f)"
  "r_error_message (set_error f r) = Some (ce_Message f)"
  "accepted_columns (set_error f r) = accepted_columns r"
  "row_limits (set_error f r) = row_limits r"
  by (simp_all add: set_error_def accepted_columns_def row_limits_def)

lemma stamp_terminal_simps [simp]:
  "r_status (stamp_terminal lim t r) = r_status r"
  "r_sequence (stamp_terminal lim t r) = r_sequence r"
  "r_events_enc (stamp_terminal lim t r) = r_events_enc r"
  "r_args_enc (stamp_terminal lim t r) = r_args_enc r"
  "r_result_enc (stamp_terminal lim t r) = r_result_enc r"
  "r_input_requests_enc (stamp_terminal lim t r) = r_input_requests_enc r"
  "r_terminal_evidence_enc (stamp_terminal lim t r) = r_terminal_evidence_enc r"
  "r_error_code (stamp_terminal lim t r) = r_error_code r"
  "r_error_message (stamp_terminal lim t r) = r_error_message r"
  "r_completed_at (stamp_terminal lim t r) = Some t"
  "r_payload_expires_at (stamp_terminal lim t r)
     = Some (i64 (t + go_div (al_PayloadRetention lim) Millisecond))"
  "r_tombstone_expires_at (stamp_terminal lim t r)
     = Some (i64 (t + go_div (al_TombstoneRetention lim) Millisecond))"
  "accepted_columns (stamp_terminal lim t r) = accepted_columns r"
  "row_limits (stamp_terminal lim t r) = row_limits r"
  by (simp_all add: stamp_terminal_def accepted_columns_def row_limits_def)

lemma deadlines_stamp:
  "Terminal (r_status r) \<Longrightarrow> row_limits r = lim \<Longrightarrow> deadlines_ok (stamp_terminal lim t r)"
  by (simp add: deadlines_ok_def payload_deadline_def tombstone_deadline_def)

text \<open>A terminal write on a row that is not terminal.\<close>

lemma good_terminal:
  assumes "r' = stamp_terminal (row_limits r) t q" "Allowed (r_status r) (r_status q)"
    and "Terminal (r_status q)" "accepted_columns q = accepted_columns r"
    and "r_sequence q = r_sequence r" "r_events_enc q = r_events_enc r" "r_args_enc q = r_args_enc r"
    and out: "row_ok key sid r \<Longrightarrow> outcome_ok q"
    and sealed: "row_ok key sid r \<Longrightarrow> sealed_ok key sid ''result'' (r_result_enc q)
      \<and> sealed_ok key sid ''input-requests'' (r_input_requests_enc q)
      \<and> sealed_ok key sid ''terminal-evidence'' (r_terminal_evidence_enc q)"
  shows "good_update key sid r r'"
  unfolding good_update_def
proof (intro impI conjI)
  assume ok: "row_ok key sid r"
  have lim: "row_limits q = row_limits r" using assms(4) by (rule row_limits_policy)
  have nt: "\<not> Terminal (r_status r)" using assms(2) Allowed_terminal by blast
  then have ne: "r_status r \<noteq> StatusExpired" by auto
  have "outcome_ok r'" using out [OF ok] by (simp add: assms(1) outcome_ok_def no_outcome_def)
     (simp add: stamp_terminal_def)
  moreover have "events_ok sid r'"
    using ok ne lim assms(1,5,6) by (auto simp: row_ok_def events_ok_def split: option.splits)
  moreover have "deadlines_ok r'" using deadlines_stamp assms(1,3) lim by simp
  ultimately show "row_ok key sid r'"
    using ok sealed [OF ok] assms(1,3,6,7) lim by (simp add: row_ok_def)
  show "row_step r r'"
    using assms nt by (simp add: row_step_def status_step_def log_step_same)
qed

text \<open>An update that leaves status, outcome, deadlines and events alone.\<close>

lemma good_quiet:
  assumes "r_status r' = r_status r" "accepted_columns r' = accepted_columns r"
    "outcome_columns r' = outcome_columns r" "r_sequence r' = r_sequence r"
    "r_completed_at r' = r_completed_at r" "r_payload_expires_at r' = r_payload_expires_at r"
    "r_tombstone_expires_at r' = r_tombstone_expires_at r"
    "sealed_ok key sid ''input-requests'' (r_input_requests_enc r')
       \<or> r_input_requests_enc r' = r_input_requests_enc r"
  shows "good_update key sid r r'"
proof -
  have lim: "row_limits r' = row_limits r" using assms(2) by (rule row_limits_policy)
  have cols: "r_result_enc r' = r_result_enc r" "r_error_code r' = r_error_code r"
    "r_error_message r' = r_error_message r" "r_error_retryable r' = r_error_retryable r"
    "r_terminal_evidence_enc r' = r_terminal_evidence_enc r" "r_events_enc r' = r_events_enc r"
    "r_args_enc r' = r_args_enc r"
    using assms(3) by (simp_all add: outcome_columns_def)
  have "deadlines_ok r' = deadlines_ok r"
    using assms lim
    by (simp add: deadlines_ok_def payload_deadline_def tombstone_deadline_def split: option.split)
  moreover have "outcome_ok r' = outcome_ok r"
    using assms(1) cols by (simp add: outcome_ok_def no_outcome_def)
  moreover have "events_ok sid r' = events_ok sid r"
    using assms(1,4) cols lim by (simp add: events_ok_def split: option.split)
  moreover have "row_step r r'"
    using assms cols(6) by (simp add: row_step_def status_step_def log_step_same)
  ultimately show ?thesis
    using assms(1,8) cols lim by (auto simp: good_update_def row_ok_def)
qed

subsection \<open>Single-row operations\<close>

lemma loadEncrypted_row:
  assumes "loadEncrypted e d sid = Inr s"
  obtains r where "row_at (submissions d) sid = Some r" "sub_Status s = r_status r"
    "sub_AcceptedLimits s = row_limits r" "sub_Sequence s = r_sequence r" "sub_ID s = sid"
    "sub_encEvents s = r_events_enc r"
  using assms scanSubmission_fields unfolding loadEncrypted_iff by metis

lemma transition_row_terminal_good:
  assumes "check_transition to detail = Inr ()" "Allowed (r_status r) to" "Terminal to"
  shows "good_update key sid r (transition_row (row_limits r) t to detail r)"
proof -
  let ?r1 = "r\<lparr>r_status := to, r_updated_at := t\<rparr>"
  let ?r2 = "if td_TaskID detail \<noteq> '''' then ?r1\<lparr>r_task_id := Some (td_TaskID detail)\<rparr> else ?r1"
  from assms(1,3) obtain f where f: "td_Error detail = Some f" "to \<noteq> StatusCompleted"
    by (cases "td_Error detail") (auto simp: check_transition_def split: if_splits)
  have nt: "\<not> Terminal (r_status r)" using assms(2) Allowed_terminal by blast
  have eq: "transition_row (row_limits r) t to detail r
      = stamp_terminal (row_limits r) t (set_error f ?r2)"
    using assms(3) f by (simp add: transition_row_def Let_def)
  have acc: "accepted_columns ?r2 = accepted_columns r"
    by (simp add: accepted_columns_def)
  show ?thesis
    using eq
  proof (rule good_terminal)
    show "outcome_ok (set_error f ?r2)" if "row_ok key sid r"
      using that nt f assms(3) by (auto simp: row_ok_def outcome_ok_def no_outcome_def)
  qed (use acc assms in \<open>auto simp: row_ok_def\<close>)
qed

lemma transition_row_open_good:
  assumes "check_transition to detail = Inr ()" "Allowed (r_status r) to" "\<not> Terminal to"
  shows "good_update key sid r (transition_row (row_limits r) t to detail r)"
proof -
  let ?r' = "transition_row (row_limits r) t to detail r"
  have none: "td_Error detail = None"
    using assms(1,3) by (cases "td_Error detail") (auto simp: check_transition_def split: if_splits)
  have nt: "\<not> Terminal (r_status r)" using assms(2) Allowed_terminal by blast
  have acc: "accepted_columns ?r' = accepted_columns r"
    using assms(3) none by (simp add: transition_row_def Let_def accepted_columns_def)
  have lim: "row_limits ?r' = row_limits r" using acc by (rule row_limits_policy)
  have cols: "r_status ?r' = to" "r_result_enc ?r' = r_result_enc r" "r_error_code ?r' = r_error_code r"
    "r_error_message ?r' = r_error_message r" "r_error_retryable ?r' = r_error_retryable r"
    "r_terminal_evidence_enc ?r' = r_terminal_evidence_enc r" "r_events_enc ?r' = r_events_enc r"
    "r_args_enc ?r' = r_args_enc r" "r_input_requests_enc ?r' = r_input_requests_enc r"
    "r_sequence ?r' = r_sequence r" "r_completed_at ?r' = r_completed_at r"
    "r_payload_expires_at ?r' = r_payload_expires_at r"
    "r_tombstone_expires_at ?r' = r_tombstone_expires_at r"
    using assms(3) none by (simp_all add: transition_row_def Let_def)
  have ne: "r_status r \<noteq> StatusExpired" "to \<noteq> StatusExpired" using nt assms(3) by auto
  have nc: "to \<notin> {StatusCompleted, StatusFailed, StatusCancelled, StatusOutcomeUnknown}"
    using assms(3) by auto
  have v: "Valid to" using assms(2) Allowed_Valid by blast
  have "row_ok key sid r \<Longrightarrow> outcome_ok ?r'"
    using cols nt nc ne assms(3) by (simp add: row_ok_def outcome_ok_def no_outcome_def)
  moreover have "row_ok key sid r \<Longrightarrow> deadlines_ok ?r'"
    using cols nt assms(3) by (simp add: row_ok_def deadlines_ok_def)
  moreover have "row_ok key sid r \<Longrightarrow> events_ok sid ?r'"
    using cols lim ne by (simp add: row_ok_def events_ok_def split: option.splits)
  moreover have "row_step r ?r'"
    using cols acc nt assms(2) by (simp add: row_step_def status_step_def log_step_same)
  ultimately show ?thesis
    using cols lim v by (auto simp: good_update_def row_ok_def)
qed

lemma transition_write: "row_write key d (snd (transition e sid to detail lease d))"
proof (cases "check_transition to detail")
  case (Inr u)
  have "row_write key d d'" if b: "transition_body e sid to detail lease d = Inr (a, d')" for a d'
  proof -
    from b obtain s where s: "loadEncrypted e d sid = Inr s" "Allowed (sub_Status s) to"
      and upd: "requireUpdated (update_where sid (\<lambda>r. r_status r = sub_Status s)
        (transition_row (sub_AcceptedLimits s) (stamp e lease) to detail) d) = Inr (a, d')"
      by (auto simp: transition_body_def result_simps)
    from s(1) obtain r where r: "row_at (submissions d) sid = Some r" "sub_Status s = r_status r"
      "sub_AcceptedLimits s = row_limits r" by (rule loadEncrypted_row)
    have "good_update key sid r (transition_row (row_limits r) (stamp e lease) to detail r)"
      using Inr s(2) r(2) transition_row_terminal_good transition_row_open_good
      by (cases "Terminal to") auto
    then show ?thesis using r by (intro row_write_update [OF upd]) auto
  qed
  then have "row_write key d (snd (writeTx e ''transition'' (transition_body e sid to detail lease) d))"
    by (rule row_write_tx)
  then show ?thesis using Inr by (simp add: transition_def)
qed (simp add: transition_def row_write_def)

lemma finish_row_good:
  assumes "Allowed (r_status r) to" "Terminal to"
    and "to = StatusCompleted \<Longrightarrow> sealed \<noteq> None \<and> failure = None"
    and "to \<noteq> StatusCompleted \<Longrightarrow> sealed = None \<and> failure \<noteq> None"
    and "sealed_ok key sid ''result'' sealed"
  shows "good_update key sid r (finish_row (row_limits r) t to sealed failure r)"
proof -
  let ?q = "r\<lparr>r_status := to, r_result_enc := sealed,
          r_error_code := map_option ce_Code failure,
          r_error_message := map_option ce_Message failure,
          r_error_retryable := (case failure of None \<Rightarrow> False | Some f \<Rightarrow> ce_Retryable f)\<rparr>"
  have nt: "\<not> Terminal (r_status r)" using assms(1) Allowed_terminal by blast
  then have ne: "r_status r \<noteq> StatusExpired" by auto
  show ?thesis
  proof (rule good_terminal [of _ r t ?q])
    show "outcome_ok ?q" if "row_ok key sid r"
      using that assms(2-4) ne by (auto simp: row_ok_def outcome_ok_def)
    show "accepted_columns ?q = accepted_columns r" by (simp add: accepted_columns_def)
  qed (use assms in \<open>auto simp: finish_row_def row_ok_def\<close>)
qed

lemma finish_write:
  assumes "Terminal to" "to = StatusCompleted \<Longrightarrow> res \<noteq> None \<and> failure = None"
    "to \<noteq> StatusCompleted \<Longrightarrow> res = None \<and> failure \<noteq> None" "env_key e = key"
  shows "row_write key d (snd (finish e sid to res failure lease d))"
proof -
  have "row_write key d d'" if b: "finish_body e sid to res failure lease d = Inr (a, d')" for a d'
  proof -
    from b obtain s sealed where s: "loadEncrypted e d sid = Inr s" "Allowed (sub_Status s) to"
      and sealed: "(case res of None \<Rightarrow> Inr None
            | Some res \<Rightarrow> map_error (\<lambda>err. Errorf ''seal result'' [err])
                (rbind (seal_blob e res sid ''result'') (\<lambda>b. Inr (Some b)))) = Inr sealed"
      and upd: "requireUpdated (update_where sid (\<lambda>r. r_status r = sub_Status s)
        (finish_row (sub_AcceptedLimits s) (stamp e lease) to sealed failure) d) = Inr (a, d')"
      by (auto simp: finish_body_def result_simps)
    from s(1) obtain r where r: "row_at (submissions d) sid = Some r" "sub_Status s = r_status r"
      "sub_AcceptedLimits s = row_limits r" by (rule loadEncrypted_row)
    have "sealed_ok key sid ''result'' sealed" "sealed = None \<longleftrightarrow> res = None"
      using sealed assms(4) by (auto simp: result_simps seal_blob_iff split: option.splits)
    then have "good_update key sid r (finish_row (row_limits r) (stamp e lease) to sealed failure r)"
      using r s(2) assms(1-3) by (intro finish_row_good) auto
    then show ?thesis using r by (intro row_write_update [OF upd]) auto
  qed
  then have "row_write key d (snd (writeTx e ''terminal capture'' (finish_body e sid to res failure lease) d))"
    by (rule row_write_tx)
  then show ?thesis by (simp add: finish_def)
qed

lemma complete_write:
  assumes "env_key e = key"
  shows "row_write key d (snd (complete e sid res lease d))"
proof -
  have "row_write key d (snd (finish e sid StatusFailed None (Some result_too_large) lease d))"
    "row_write key d (snd (finish e sid StatusCompleted (Some res) None lease d))"
    using assms by (auto intro: finish_write)
  then show ?thesis
    by (auto simp: complete_def row_write_refl split: sum.splits prod.splits)
qed

lemma FailLeased_write:
  "env_key e = key \<Longrightarrow> row_write key d (snd (FailLeased e sid n w f d))"
  using finish_write [of StatusFailed None "Some f"]
  by (auto simp: FailLeased_def row_write_refl split: sum.splits)

lemma capture_row_good:
  assumes "Allowed (r_status r) to" "Terminal to" "to \<noteq> StatusCompleted"
    and "sealed_ok key sid ''terminal-evidence'' sealed"
  shows "good_update key sid r (capture_row (row_limits r) t to failure sealed r)"
proof -
  let ?q = "r\<lparr>r_status := to, r_terminal_evidence_enc := sealed, r_input_requests_enc := None\<rparr>"
  have nt: "\<not> Terminal (r_status r)" using assms(1) Allowed_terminal by blast
  show ?thesis
  proof (rule good_terminal [of _ r t "set_error failure ?q"])
    show "outcome_ok (set_error failure ?q)" if "row_ok key sid r"
      using that assms(2,3) nt by (auto simp: row_ok_def outcome_ok_def no_outcome_def)
    show "accepted_columns (set_error failure ?q) = accepted_columns r"
      by simp (simp add: accepted_columns_def)
  qed (use assms in \<open>auto simp: capture_row_def row_ok_def\<close>)
qed

lemma capture_body_write:
  assumes b: "capture_body e sid lease to failure evidence d = Inr (a, d')"
    and "Terminal to" "to \<noteq> StatusCompleted" "env_key e = key"
  shows "row_write key d d'"
proof -
  from b obtain s where s: "loadEncrypted e d sid = Inr s"
    by (auto simp: capture_body_def result_simps)
  from s obtain r where r: "row_at (submissions d) sid = Some r" "sub_Status s = r_status r"
    "sub_AcceptedLimits s = row_limits r" by (rule loadEncrypted_row)
  show ?thesis
  proof (cases "Terminal (sub_Status s)")
    case True
    with b s show ?thesis by (auto simp: capture_body_def result_simps row_write_refl)
  next
    case False
    with b s obtain to' failure' sealed where
      all: "Allowed (sub_Status s) to"
      and out: "(if evidence = '''' then Inr (to, failure, None)
              else if int (length evidence) > al_ResultBytes (sub_AcceptedLimits s)
              then Inr (StatusFailed, evidence_too_large, None)
              else rbind (map_error (\<lambda>err. Errorf ''seal terminal evidence'' [err])
                       (seal_blob e evidence sid ''terminal-evidence''))
                     (\<lambda>b. Inr (to, failure, Some b))) = Inr (to', failure', sealed)"
      and upd: "requireUpdated (update_where sid (\<lambda>r. r_status r = sub_Status s)
         (capture_row (sub_AcceptedLimits s) (stamp e (Some lease)) to' failure' sealed) d) = Inr (a, d')"
      by (auto simp: capture_body_def result_simps)
    have to': "to' = to \<or> to' = StatusFailed" "sealed_ok key sid ''terminal-evidence'' sealed"
      using out assms(4) by (auto simp: result_simps seal_blob_iff split: if_splits)
    have "Terminal to'" "to' \<noteq> StatusCompleted" using to'(1) assms(2,3) by auto
    moreover have "Allowed (r_status r) to'"
      using all r(2) assms(2) \<open>Terminal to'\<close> by (simp add: Allowed_to_terminal)
    ultimately have "good_update key sid r (capture_row (row_limits r) (stamp e (Some lease)) to' failure' sealed r)"
      using to'(2) by (intro capture_row_good)
    then show ?thesis using r by (intro row_write_update [OF upd]) auto
  qed
qed

lemma capture_write:
  assumes "env_key e = key"
  shows "row_write key d (snd (CaptureTerminalLeased e sid n w to f ev d))"
proof (cases "Terminal to \<and> to \<noteq> StatusCompleted")
  case True
  then have "row_write key d (snd (writeTx e ''terminal evidence'' (capture_body e sid (n, w) to f ev) d))"
    using assms by (intro row_write_tx) (rule capture_body_write, auto)
  with True show ?thesis
    by (auto simp: CaptureTerminalLeased_def row_write_refl split: sum.splits)
qed (auto simp: CaptureTerminalLeased_def row_write_refl)

lemma task_columns_good:
  "good_update key sid r (r\<lparr>r_task_id := t, r_updated_at := u\<rparr>)"
  by (rule good_quiet) (simp_all add: accepted_columns_def outcome_columns_def)

lemma attach_write: "row_write key d (snd (AttachTaskID e sid t d))"
proof (cases "\<exists>r. row_at (submissions d) sid = Some r
    \<and> (r_task_id r = None \<or> r_task_id r = Some '''' \<or> r_task_id r = Some t)")
  case True
  then obtain r where r: "row_at (submissions d) sid = Some r"
    "r_task_id r = None \<or> r_task_id r = Some '''' \<or> r_task_id r = Some t" by blast
  then have "snd (AttachTaskID e sid t d) = d \<or> snd (AttachTaskID e sid t d) =
      d\<lparr>submissions := put_row sid (r\<lparr>r_task_id := Some t, r_updated_at := UnixMilli (env_now e)\<rparr>) (submissions d)\<rparr>"
    by (simp add: AttachTaskID_def update_where_def split: sum.splits)
  then show ?thesis
    unfolding row_write_def using r(1) task_columns_good by blast
next
  case False
  then have "snd (AttachTaskID e sid t d) = d"
    by (auto simp: AttachTaskID_def update_where_def split: sum.splits option.splits)
  then show ?thesis by (simp add: row_write_refl)
qed

lemma replace_write: "row_write key d (snd (ReplaceTaskIDLeased e sid w t d))"
proof -
  have "row_write key d d'" if b: "replace_body e sid w t d = Inr (a, d')" for a d'
  proof -
    from b have "requireUpdated (update_where sid (\<lambda>r. r_status r = StatusRunning)
        (\<lambda>r. r\<lparr>r_task_id := Some t, r_updated_at := stamp e (Some (''submission/'' @ sid, w))\<rparr>) d) = Inr (a, d')"
      by (auto simp: replace_body_def result_simps Let_def)
    then show ?thesis by (rule row_write_update) (rule task_columns_good)
  qed
  then have "row_write key d (snd (writeTx e ''task reattachment'' (replace_body e sid w t) d))"
    by (rule row_write_tx)
  then show ?thesis by (simp add: ReplaceTaskIDLeased_def row_write_refl)
qed

lemma save_write:
  assumes "env_key e = key"
  shows "row_write key d (snd (SaveTaskRecordLeased e sid n w rec d))"
proof (cases "rbind (check_record sid n w rec) (\<lambda>_.
             case tr_InputRequests rec of
               None \<Rightarrow> Inr None
             | Some v \<Rightarrow> map_error (\<lambda>err. Errorf ''seal input requests'' [err])
                 (rbind (seal_blob e v sid ''input-requests'') (\<lambda>b. Inr (Some b))))")
  case (Inl err)
  then show ?thesis by (simp add: SaveTaskRecordLeased_def row_write_refl)
next
  case (Inr sealed)
  have sealed: "sealed_ok key sid ''input-requests'' sealed"
    using Inr assms by (auto simp: result_simps seal_blob_iff split: option.splits)
  have good: "good_update key sid r (record_row rec sealed t r)" for r t
    using sealed by (intro good_quiet) (simp_all add: accepted_columns_def outcome_columns_def record_row_def)
  show ?thesis
    unfolding SaveTaskRecordLeased_def Inr sum.case
    by (rule row_write_tx) (auto simp: result_simps intro: row_write_update good)
qed

lemma append_row_good:
  assumes "\<not> Terminal (r_status r)"
    and "mergeEvents s evs (row_limits r) = Inr (merged, seq)" "sub_ID s = sid"
    and "sub_Sequence s = r_sequence r" "r_events_enc r = None \<Longrightarrow> sub_Events s = []"
    and "\<And>b. r_events_enc r = Some b \<Longrightarrow> sub_Events s = blob_plain b"
  shows "good_update key sid r (r\<lparr>r_events_enc := Some (Blob key (blobAAD sid ''events'') merged),
    r_sequence := seq, r_updated_at := t\<rparr>)" (is "good_update key sid r ?r'")
  unfolding good_update_def
proof (rule impI)
  assume ok: "row_ok key sid r"
  have lim: "row_limits ?r' = row_limits r" by (simp add: row_limits_def)
  have lims: "0 < al_MaxEvents (row_limits r)" "0 < al_EventsBytes (row_limits r)"
    using ok by (simp_all add: row_ok_def AcceptedLimits_validate_iff)
  have ne: "r_status r \<noteq> StatusExpired" using assms(1) by auto
  have "log_ok sid (row_limits r) (sub_Events s, r_sequence r)"
    using ok lims assms(5,6)
    by (cases "r_events_enc r") (auto simp: row_ok_def events_ok_def log_ok_def)
  then have m: "log_ok sid (row_limits r) (merged, seq)" "r_sequence r \<le> seq"
    using merge_ok [of sid "row_limits r" evs "(sub_Events s, r_sequence r)" "(merged, seq)"]
      assms(2-4) lims by (auto simp: mergeEvents_def)
  have "0 \<le> r_sequence r" using ok by (simp add: row_ok_def events_ok_def)
  with m have "events_ok sid ?r'" using lim by (simp add: events_ok_def)
  moreover have "outcome_ok ?r'" using ok by (simp add: row_ok_def outcome_ok_def no_outcome_def)
  moreover have "deadlines_ok ?r'" using ok assms(1) by (simp add: row_ok_def deadlines_ok_def)
  moreover have "log_step r ?r'"
    using merge_new assms(2,4-6) unfolding mergeEvents_def
    by (fastforce simp: log_step_def row_events_def split: option.splits)
  ultimately have "row_step r ?r'"
    using m(2) assms(1) by (simp add: row_step_def status_step_def accepted_columns_def)
  moreover note \<open>events_ok sid ?r'\<close> \<open>outcome_ok ?r'\<close> \<open>deadlines_ok ?r'\<close>
  ultimately show "row_ok key sid ?r' \<and> row_step r ?r'" using ok lim by (simp add: row_ok_def)
qed

lemma decrypt_events:
  assumes "decryptSubmission e s0 = Inr s"
  shows "sub_ID s = sub_ID s0" "sub_Sequence s = sub_Sequence s0" "sub_Status s = sub_Status s0"
    "sub_AcceptedLimits s = sub_AcceptedLimits s0"
    "sub_Events s = (case sub_encEvents s0 of None \<Rightarrow> [] | Some b \<Rightarrow> blob_plain b)"
proof -
  from assms obtain args events reqs evidence result where
    ev: "open_column e (sub_ID s0) ''events'' (sub_encEvents s0) = Inr events"
    and s: "s = s0\<lparr>sub_Arguments := args,
      sub_Events := (case events of None \<Rightarrow> [] | Some es \<Rightarrow> es),
      sub_InputRequests := reqs, sub_TerminalEvidence := evidence, sub_Result := result\<rparr>"
    unfolding decryptSubmission_def Let_def rbind_eq_Inr sum.inject by metis
  show "sub_ID s = sub_ID s0" "sub_Sequence s = sub_Sequence s0" "sub_Status s = sub_Status s0"
    "sub_AcceptedLimits s = sub_AcceptedLimits s0" by (simp_all add: s)
  show "sub_Events s = (case sub_encEvents s0 of None \<Rightarrow> [] | Some b \<Rightarrow> blob_plain b)"
    using ev by (auto simp: s open_column_def open_blob_iff rbind_eq_Inr split: option.splits)
qed

lemma append_write:
  assumes "env_key e = key"
  shows "row_write key d (snd (AppendEvents e sid evs d))"
proof -
  have "row_write key d d'" if b: "append_body e sid evs d = Inr (a, d')" for a d'
  proof -
    from b obtain s0 s merged seq where s: "loadEncrypted e d sid = Inr s0" "decryptSubmission e s0 = Inr s"
      "\<not> Terminal (sub_Status s)" "mergeEvents s evs (sub_AcceptedLimits s) = Inr (merged, seq)"
      and upd: "requireUpdated (update_where sid (\<lambda>r. r_status r = sub_Status s \<and> r_sequence r = sub_Sequence s)
              (\<lambda>r. r\<lparr>r_events_enc := Some (Blob key (blobAAD sid ''events'') merged), r_sequence := seq,
                 r_updated_at := UnixMilli (env_now e)\<rparr>) d) = Inr ((), d')"
      using assms by (auto simp: append_body_def result_simps seal_blob_iff Let_def split: prod.splits)
    from s(1) obtain r where r: "row_at (submissions d) sid = Some r" "sub_Status s0 = r_status r"
      "sub_AcceptedLimits s0 = row_limits r" "sub_Sequence s0 = r_sequence r" "sub_ID s0 = sid"
      "sub_encEvents s0 = r_events_enc r" by (rule loadEncrypted_row)
    note dec = decrypt_events [OF s(2)]
    have "good_update key sid r (r\<lparr>r_events_enc := Some (Blob key (blobAAD sid ''events'') merged),
      r_sequence := seq, r_updated_at := UnixMilli (env_now e)\<rparr>)"
      using r s dec by (intro append_row_good [where s = s and evs = evs]) simp_all
    then show ?thesis using r by (intro row_write_update [OF upd]) auto
  qed
  then have "row_write key d (snd (writeTx e ''event append'' (append_body e sid evs) d))"
    by (rule row_write_tx)
  then show ?thesis by (simp add: AppendEvents_def row_write_refl)
qed

end
