(* ===== verification/Store_Runs.thy ===== *)
theory Store_Runs
  imports Store_Contract
begin

text \<open>
  The rest of the store's contract: acceptance, the retention sweep and the operations on the other
  tables; then the interpretation of the locale \<open>durable_store\<close> on \<open>perform\<close>, which carries
  the contract from one operation to every history of operations.
\<close>

subsection \<open>Acceptance\<close>

lemma retention_column:
  assumes "0 < p" "p \<le> TombstoneRetention HardCeiling"
  shows "i64 (go_div (persistedDuration p) Millisecond * Millisecond) = persistedDuration p"
proof -
  have b: "p \<le> 7776000000000000" using assms(2) by (simp add: HardCeiling_def time_units)
  note bounds = persistedDuration_bounds [OF assms]
  have "go_div (persistedDuration p) Millisecond * Millisecond = persistedDuration p"
    using bounds assms(1) by (simp add: go_div_nonneg Millisecond_def dvd_div_mult_self)
  moreover have "in_int64 (persistedDuration p)"
    using bounds b assms(1) by (simp add: in_int64_def Millisecond_def)
  ultimately show ?thesis by simp
qed

lemma accepted_limits_valid:
  assumes "Validate lim = Inr ()"
  shows "AcceptedLimits_validate (acceptedLimitsFrom lim) = Inr ()"
proof -
  let ?p = "PayloadRetention lim" and ?t = "TombstoneRetention lim"
  have v: "within_ceiling lim" using assms by (simp add: Validate_iff)
  then have p: "0 < ?p" "?p \<le> 2592000000 * 1000000" "?t \<le> 7776000000 * 1000000" "?p \<le> ?t" "0 < ?t"
    by (simp_all add: within_ceiling_def HardCeiling_def time_units)
  have t: "?p \<le> TombstoneRetention HardCeiling" "?t \<le> TombstoneRetention HardCeiling"
    using p by (simp_all add: HardCeiling_def time_units)
  have "0 < persistedDuration ?p" "0 < persistedDuration ?t"
    using persistedDuration_bounds(1) p t by fastforce+
  moreover have "persistedDuration ?p \<le> 2592000000 * 1000000" "persistedDuration ?t \<le> 7776000000 * 1000000"
    by (rule persistedDuration_ceiling; use p in \<open>simp add: HardCeiling_def time_units\<close>)+
  moreover have "persistedDuration ?p \<le> persistedDuration ?t"
    using p t by (intro persistedDuration_mono)
  ultimately show ?thesis
    using v by (simp add: AcceptedLimits_validate_iff acceptedLimitsFrom_def within_ceiling_def
        HardCeiling_def time_units)
qed

lemma new_row_limits:
  assumes "Validate lim = Inr ()"
  shows "row_limits (new_row ns h b (acceptedLimitsFrom lim) t) = acceptedLimitsFrom lim"
proof -
  have "within_ceiling lim" using assms by (simp add: Validate_iff)
  then have "0 < PayloadRetention lim" "PayloadRetention lim \<le> TombstoneRetention HardCeiling"
    "0 < TombstoneRetention lim" "TombstoneRetention lim \<le> TombstoneRetention HardCeiling"
    by (simp_all add: within_ceiling_def HardCeiling_def time_units)
  then show ?thesis
    by (simp add: row_limits_def new_row_def acceptedLimitsFrom_def retention_column)
qed

lemma new_row_ok:
  assumes "env_ok key e" "seal_blob e v (ns_ID ns) ''arguments'' = Inr b"
  shows "row_ok key (ns_ID ns) (new_row ns h b (acceptedLimitsFrom (env_limits e)) t)"
proof -
  have v: "Validate (env_limits e) = Inr ()" and k: "env_key e = key" using assms by (auto simp: env_ok_def)
  have "b = Blob key (blobAAD (ns_ID ns) ''arguments'') v" using assms(2) k by (simp add: seal_blob_iff)
  then show ?thesis
    using accepted_limits_valid [OF v] new_row_limits [OF v]
    by (simp add: row_ok_def deadlines_ok_def outcome_ok_def no_outcome_def events_ok_def)
       (simp add: new_row_def)
qed

lemma CreateSubmission_created:
  assumes "CreateSubmission e ns d = (Inr (s, True), d')"
  obtains args h hs b where "create_prepare e ns = Inr (args, h, hs)"
      "row_at (idempotency d) (ns_ClientRequestID ns) = None"
      "row_at (submissions d) (ns_ID ns) = None"
      "seal_blob e args (ns_ID ns) ''arguments'' = Inr b"
      "validateCanonicalArguments args (env_limits e) = Inr ()"
      "s = created_submission ns args h (acceptedLimitsFrom (env_limits e)) (UnixMilli (env_now e))"
      "d' = d\<lparr>idempotency := idempotency d @ [(ns_ClientRequestID ns,
           \<lparr>id_args_hash = h, id_submission_id = ns_ID ns, id_created_at = UnixMilli (env_now e)\<rparr>)],
         submissions := submissions d @ [(ns_ID ns,
           new_row ns h b (acceptedLimitsFrom (env_limits e)) (UnixMilli (env_now e)))]\<rparr>"
proof -
  have no: "reconcileIdempotentSubmission e c hs d \<noteq> Inr (s, True)" for c hs
    by (auto simp: reconcileIdempotentSubmission_def result_simps split: option.splits)
  show ?thesis
  proof (cases "create_prepare e ns")
    case (Inl err)
    with assms show ?thesis by (simp add: CreateSubmission_def)
  next
    case (Inr p)
    obtain args h hs where p: "p = (args, h, hs)" by (cases p)
    have idx: "row_at (idempotency d) (ns_ClientRequestID ns) = None"
      using assms Inr p no by (auto simp: CreateSubmission_def split: sum.splits if_splits)
    have body: "create_body e ns args h d = Inr (s, d')"
      using assms Inr p idx
      by (auto simp: CreateSubmission_def result_simps split: sum.splits prod.splits)
    show ?thesis
      using that [OF Inr [unfolded p] idx] body
      by (auto simp: create_body_def result_simps Let_def)
  qed
qed

lemma CreateSubmission_unchanged:
  assumes "CreateSubmission e ns d = (res, d')" "\<And>s. res \<noteq> Inr (s, True)"
  shows "d' = d"
  using assms by (auto simp: CreateSubmission_def split: sum.splits prod.splits if_splits)

lemma pk_append: "pk t \<Longrightarrow> row_at t k = None \<Longrightarrow> pk (t @ [(k, r)])"
  by (auto simp: pk_def row_at_def map_of_eq_None_iff)

lemma create_ok:
  assumes inv: "db_inv key d" and e: "env_ok key e"
  shows "db_inv key (snd (CreateSubmission e ns d)) \<and> db_step t d (snd (CreateSubmission e ns d))"
proof (cases "\<exists>s d'. CreateSubmission e ns d = (Inr (s, True), d')")
  case False
  then have "snd (CreateSubmission e ns d) = d"
    using CreateSubmission_unchanged by (metis prod.collapse)
  then show ?thesis using inv by simp
next
  case True
  then obtain s d' where c: "CreateSubmission e ns d = (Inr (s, True), d')" by blast
  from c obtain args h hs b where created: "row_at (idempotency d) (ns_ClientRequestID ns) = None"
      "row_at (submissions d) (ns_ID ns) = None" "seal_blob e args (ns_ID ns) ''arguments'' = Inr b"
      "d' = d\<lparr>idempotency := idempotency d @ [(ns_ClientRequestID ns,
           \<lparr>id_args_hash = h, id_submission_id = ns_ID ns, id_created_at = UnixMilli (env_now e)\<rparr>)],
         submissions := submissions d @ [(ns_ID ns,
           new_row ns h b (acceptedLimitsFrom (env_limits e)) (UnixMilli (env_now e)))]\<rparr>"
    by (rule CreateSubmission_created)
  have d': "snd (CreateSubmission e ns d) = d'" using c by simp
  let ?r = "new_row ns h b (acceptedLimitsFrom (env_limits e)) (UnixMilli (env_now e))"
  have r: "row_ok key (ns_ID ns) ?r" using e created(3) by (rule new_row_ok)
  have cols: "r_client_request_id ?r = ns_ClientRequestID ns" "r_args_hash ?r = h" "r_status ?r = StatusAccepted"
    by (simp_all add: new_row_def)
  note fwd = inv [unfolded db_inv_def index_ok_def]
  have fresh: "r_client_request_id x \<noteq> ns_ClientRequestID ns" if "row_at (submissions d) y = Some x" for x y
    using fwd that created(1) by (metis option.distinct(1))
  have known: "id_submission_id i \<noteq> ns_ID ns" if "row_at (idempotency d) c = Some i" for c i
    using fwd that created(2) by (metis option.distinct(1))
  have "index_ok d'"
    unfolding index_ok_def created(4)
    using fwd cols created(1,2) fresh known by (auto split: if_splits)
  moreover have "db_step t d d'"
    using created(2,4) cols(3) by (auto simp: db_step_def split: option.splits)
  moreover have "pk (submissions d')" "pk (idempotency d')"
    using inv created by (auto simp: db_inv_def pk_append)
  ultimately show ?thesis
    using inv r created(2) unfolding d' by (simp add: db_inv_def created(4))
qed

subsection \<open>The retention sweep\<close>

definition sweep_row :: "int \<Rightarrow> row \<Rightarrow> row" where
  "sweep_row nowMs r = (if payload_due nowMs r then expire_row nowMs r else r)"

lemma expire_row_cols [simp]:
  "r_status (expire_row t r) = StatusExpired" "r_sequence (expire_row t r) = r_sequence r"
  "r_completed_at (expire_row t r) = r_completed_at r"
  "r_payload_expires_at (expire_row t r) = r_payload_expires_at r"
  "r_tombstone_expires_at (expire_row t r) = r_tombstone_expires_at r"
  "accepted_columns (expire_row t r) = accepted_columns r"
  "outcome_columns (expire_row t r) = (None, None, None, False, None, None, None)"
  "r_input_requests_enc (expire_row t r) = None" "r_task_id (expire_row t r) = None"
  "r_client_request_id (expire_row t r) = r_client_request_id r"
  "row_limits (expire_row t r) = row_limits r" "\<not> has_payload (expire_row t r)"
  by (simp_all add: expire_row_def accepted_columns_def outcome_columns_def row_limits_def has_payload_def)

lemma terminal_stamped:
  assumes "row_ok key sid r"
  shows "r_completed_at r \<noteq> None \<longleftrightarrow> Terminal (r_status r)"
    "r_payload_expires_at r \<noteq> None \<longleftrightarrow> Terminal (r_status r)"
    "r_tombstone_expires_at r \<noteq> None \<longleftrightarrow> Terminal (r_status r)"
  using assms by (auto simp: row_ok_def deadlines_ok_def split: if_splits option.splits)

lemma sweep_row_good: "good_update key sid r (sweep_row t r)"
proof (cases "payload_due t r")
  case True
  have "row_ok key sid (expire_row t r) \<and> row_step r (expire_row t r)" if ok: "row_ok key sid r"
  proof -
    have fin: "Terminal (r_status r)" using True terminal_stamped(1) [OF ok] by (simp add: payload_due_def)
    have cols: "r_result_enc (expire_row t r) = None" "r_events_enc (expire_row t r) = None"
      "r_args_enc (expire_row t r) = None" "r_terminal_evidence_enc (expire_row t r) = None"
      by (simp_all add: expire_row_def)
    have "deadlines_ok (expire_row t r)"
      using ok fin by (simp add: row_ok_def deadlines_ok_def payload_deadline_def tombstone_deadline_def
          split: option.splits)
    moreover have "events_ok sid (expire_row t r)" using ok cols by (simp add: row_ok_def events_ok_def)
    moreover have "outcome_ok (expire_row t r)" by (simp add: outcome_ok_def)
    moreover have "row_step r (expire_row t r)" using fin cols(2) by (simp add: row_step_def status_step_def log_step_cleared)
    ultimately show ?thesis using ok cols by (simp add: row_ok_def)
  qed
  then show ?thesis using True by (simp add: good_update_def sweep_row_def)
qed (simp add: good_update_def sweep_row_def)

lemma expirePayloads_submissions:
  "submissions (snd (expirePayloads t d)) = map_rows (sweep_row t) (submissions d)"
  by (simp add: expirePayloads_def sweep_row_def [abs_def])

lemma expirePayloads_frame [simp]:
  "idempotency (snd (expirePayloads t d)) = idempotency d"
  "input_responses (snd (expirePayloads t d)) = input_responses d"
  "leases (snd (expirePayloads t d)) = leases d"
  "credential_fence (snd (expirePayloads t d)) = credential_fence d"
  by (simp_all add: expirePayloads_def)

lemma sweep_row_cols [simp]:
  "r_client_request_id (sweep_row t r) = r_client_request_id r"
  "r_tombstone_expires_at (sweep_row t r) = r_tombstone_expires_at r"
  "r_args_hash (sweep_row t r) = r_args_hash r"
  by (simp_all add: sweep_row_def) (simp add: expire_row_def)

lemma tombstone_due_sweep [simp]: "tombstone_due t (sweep_row t r) = tombstone_due t r"
  by (simp add: tombstone_due_def)

lemma delete_tombstones_fields:
  "submissions (fold delete_tombstone ts d) = fold del_row (map fst ts) (submissions d)"
  "idempotency (fold delete_tombstone ts d) = fold del_row (map snd ts) (idempotency d)"
  "leases (fold delete_tombstone ts d) = leases d"
  "credential_fence (fold delete_tombstone ts d) = credential_fence d"
  "input_responses (fold delete_tombstone ts d)
     = filter (\<lambda>p. fst (fst p) \<notin> fst ` set ts) (input_responses d)"
  by (induction ts arbitrary: d) (auto simp: delete_tombstone_def intro: filter_cong)

lemma row_at_filter_key:
  "row_at (filter (\<lambda>p. P (fst p)) t) k = (if P k then row_at t k else None)"
  by (induction t) (auto simp: row_at_def)

lemma pk_filter: "pk t \<Longrightarrow> pk (filter P t)"
  by (simp add: pk_def distinct_map_filter)

text \<open>The whole sweep, key by key.\<close>

lemma GC_cases:
  obtains (unchanged) "snd (GC e d) = d"
  | (swept) "snd (GC e d) = snd (deleteLapsedTombstones (UnixMilli (env_now e))
      (snd (expirePayloads (UnixMilli (env_now e)) d)))"
  by (cases rule: writeTx_cases [where e = e and w = "''gc''" and d = d and body = "\<lambda>d.
        rbind (statement e ExecStmt ''expire payloads'') (\<lambda>_.
        rbind (statement e QueryStmt ''select lapsed tombstones'') (\<lambda>_.
        let (expired, d1) = expirePayloads (UnixMilli (env_now e)) d;
            (deleted, d2) = deleteLapsedTombstones (UnixMilli (env_now e)) d1
        in Inr (\<lparr>gc_Expired = expired, gc_Deleted = deleted\<rparr>, d2)))"])
     (auto simp: GC_def Let_def result_simps split: prod.splits)

definition swept :: "int \<Rightarrow> db \<Rightarrow> db" where
  "swept t d = snd (deleteLapsedTombstones t (snd (expirePayloads t d)))"

lemma lapsed_expired:
  "lapsed_tombstones t (snd (expirePayloads t d)) = lapsed_tombstones t d"
  by (simp add: lapsed_tombstones_def expirePayloads_submissions map_rows_def filter_map comp_def)

lemma lapsed_set:
  assumes "pk (submissions d)"
  shows "(sid, c) \<in> set (lapsed_tombstones t d) \<longleftrightarrow>
     (\<exists>r. row_at (submissions d) sid = Some r \<and> tombstone_due t r \<and> c = r_client_request_id r)"
  unfolding lapsed_tombstones_def set_map set_filter image_iff row_at_eq_iff [OF assms, symmetric]
  by auto

lemma lapsed_fst:
  assumes "pk (submissions d)"
  shows "sid \<in> fst ` set (lapsed_tombstones t d) \<longleftrightarrow>
     (\<exists>r. row_at (submissions d) sid = Some r \<and> tombstone_due t r)"
proof -
  have "sid \<in> fst ` set (lapsed_tombstones t d) \<longleftrightarrow> (\<exists>c. (sid, c) \<in> set (lapsed_tombstones t d))"
    by force
  then show ?thesis by (simp add: lapsed_set [OF assms])
qed

lemma lapsed_snd:
  assumes "pk (submissions d)"
  shows "c \<in> snd ` set (lapsed_tombstones t d) \<longleftrightarrow>
     (\<exists>sid r. row_at (submissions d) sid = Some r \<and> tombstone_due t r \<and> r_client_request_id r = c)"
proof -
  have "c \<in> snd ` set (lapsed_tombstones t d) \<longleftrightarrow> (\<exists>sid. (sid, c) \<in> set (lapsed_tombstones t d))"
    by force
  then show ?thesis unfolding lapsed_set [OF assms] by metis
qed

lemma swept_submissions:
  assumes "pk (submissions d)"
  shows "row_at (submissions (swept t d)) sid =
     (case row_at (submissions d) sid of
        None \<Rightarrow> None
      | Some r \<Rightarrow> if tombstone_due t r then None else Some (sweep_row t r))"
  using lapsed_fst [OF assms, of sid t]
  by (simp add: swept_def deleteLapsedTombstones_def delete_tombstones_fields lapsed_expired tbl.del_many
      expirePayloads_submissions split: option.splits)

lemma swept_idempotency:
  "row_at (idempotency (swept t d)) c =
     (if c \<in> snd ` set (lapsed_tombstones t d) then None else row_at (idempotency d) c)"
  by (simp add: swept_def deleteLapsedTombstones_def delete_tombstones_fields lapsed_expired tbl.del_many)

lemma swept_responses:
  "row_at (input_responses (swept t d)) (sid, rid) =
     (if sid \<in> fst ` set (lapsed_tombstones t d) then None else row_at (input_responses d) (sid, rid))"
  using row_at_filter_key [of "\<lambda>k. fst k \<notin> fst ` set (lapsed_tombstones t d)" "input_responses d" "(sid, rid)"]
  by (simp add: swept_def deleteLapsedTombstones_def delete_tombstones_fields lapsed_expired)

lemma swept_pk:
  "db_inv key d \<Longrightarrow> pk (submissions (swept t d)) \<and> pk (idempotency (swept t d))
     \<and> pk (input_responses (swept t d)) \<and> pk (leases (swept t d)) \<and> pk (credential_fence (swept t d))"
  by (simp add: db_inv_def swept_def deleteLapsedTombstones_def delete_tombstones_fields tbl.wf_del_many
      expirePayloads_submissions pk_filter)

lemma swept_ok:
  assumes inv: "db_inv key d"
  shows "db_inv key (swept t d)" "db_step t d (swept t d)"
proof -
  have pks: "pk (submissions d)" and idx: "index_ok d" using inv by (auto simp: db_inv_def)
  note fwd = idx [unfolded index_ok_def, THEN conjunct1, rule_format]
  note bwd = idx [unfolded index_ok_def, THEN conjunct2, rule_format]
  have rows: "row_ok key sid r" if "row_at (submissions d) sid = Some r" for sid r
    using inv that by (simp add: db_inv_def)
  have good: "row_ok key sid (sweep_row t r) \<and> row_step r (sweep_row t r)"
    if "row_at (submissions d) sid = Some r" for sid r
    using rows [OF that] sweep_row_good by (simp add: good_update_def)
  have own: "sid = sid'" if "row_at (submissions d) sid = Some r" "row_at (submissions d) sid' = Some r'"
      "r_client_request_id r = r_client_request_id r'" for sid sid' r r'
    using fwd [OF that(1)] fwd [OF that(2)] that(3) by auto
  have "index_ok (swept t d)"
    unfolding index_ok_def
  proof (intro conjI allI impI)
    fix sid r assume "row_at (submissions (swept t d)) sid = Some r"
    then obtain q where q: "row_at (submissions d) sid = Some q" "\<not> tombstone_due t q" "r = sweep_row t q"
      by (auto simp: swept_submissions [OF pks] split: option.splits if_splits)
    have "r_client_request_id q \<notin> snd ` set (lapsed_tombstones t d)"
      using own [OF q(1)] q(1,2) by (auto simp: lapsed_snd [OF pks])
    then show "\<exists>i. row_at (idempotency (swept t d)) (r_client_request_id r) = Some i
        \<and> id_submission_id i = sid \<and> id_args_hash i = r_args_hash r"
      using fwd [OF q(1)] q(3) by (simp add: swept_idempotency)
  next
    fix c i assume i: "row_at (idempotency (swept t d)) c = Some i"
    then have old: "row_at (idempotency d) c = Some i" "c \<notin> snd ` set (lapsed_tombstones t d)"
      by (auto simp: swept_idempotency split: if_splits)
    obtain r where r: "row_at (submissions d) (id_submission_id i) = Some r" "r_client_request_id r = c"
      using bwd [OF old(1)] by blast
    then have "\<not> tombstone_due t r" using old(2) by (auto simp: lapsed_snd [OF pks])
    then show "\<exists>r. row_at (submissions (swept t d)) (id_submission_id i) = Some r \<and> r_client_request_id r = c"
      using r by (simp add: swept_submissions [OF pks])
  qed
  moreover have "row_ok key sid r" if "row_at (submissions (swept t d)) sid = Some r" for sid r
    using that good by (auto simp: swept_submissions [OF pks] split: option.splits if_splits)
  moreover have "sealed_ok key sid (response_kind rid) (Some (ir_response_enc ir))"
    if "row_at (input_responses (swept t d)) (sid, rid) = Some ir" for sid rid ir
    using that inv by (auto simp: swept_responses db_inv_def split: if_splits)
  ultimately show "db_inv key (swept t d)"
    using swept_pk [OF inv] by (simp add: db_inv_def)
  have "Terminal (r_status r)" if "row_at (submissions d) sid = Some r" "tombstone_due t r" for sid r
    using terminal_stamped(3) [OF rows [OF that(1)]] that(2) by (auto simp: tombstone_due_def split: option.splits)
  then show "db_step t d (swept t d)"
    using good by (auto simp: db_step_def swept_submissions [OF pks] split: option.splits)
qed

lemma GC_ok:
  assumes "db_inv key d"
  shows "db_inv key (snd (GC e d)) \<and> db_step (UnixMilli (env_now e)) d (snd (GC e d))"
  using swept_ok [OF assms]
  by (cases rule: GC_cases [of e d]) (auto simp: assms swept_def)

subsection \<open>Other tables\<close>

lemma db_inv_leases: "db_inv key d \<Longrightarrow> pk l \<Longrightarrow> db_inv key (d\<lparr>leases := l\<rparr>)"
  by (simp add: db_inv_def index_ok_def)

lemma db_inv_fence: "db_inv key d \<Longrightarrow> pk f \<Longrightarrow> db_inv key (d\<lparr>credential_fence := f\<rparr>)"
  by (simp add: db_inv_def index_ok_def)

lemma db_inv_pk: "db_inv key d \<Longrightarrow> pk (leases d) \<and> pk (credential_fence d)"
  by (simp add: db_inv_def)

lemma lease_ops_inv:
  assumes "db_inv key d"
  shows "db_inv key (snd (ClaimLease e n w ttl d))" "db_inv key (snd (RenewLease e n w ttl d))"
    "db_inv key (snd (CommitLease e n w g d))" "db_inv key (snd (ReleaseLease e n w d))"
  using assms db_inv_pk [OF assms]
  by (auto simp: lease_defs Let_def db_inv_leases split: sum.splits option.splits)

lemma enqueue_inv: "db_inv key d \<Longrightarrow> db_inv key (enqueue f s d)"
  by (simp add: enqueue_def Let_def db_inv_fence db_inv_pk)

lemma enqueue_submissions [simp]: "submissions (enqueue f s d) = submissions d"
  by (simp add: enqueue_def Let_def)

lemma enqueue_commit_inv: "db_inv key d \<Longrightarrow> db_inv key (enqueue_commit c d)"
proof -
  have "db_inv key d \<Longrightarrow> db_inv key (fold (\<lambda>l d. if P l then d else enqueue f l d) ls d)" for P f ls d
    by (induction ls arbitrary: d) (auto simp: enqueue_inv)
  then show "db_inv key d \<Longrightarrow> db_inv key (enqueue_commit c d)"
    by (simp add: enqueue_commit_def enqueue_inv)
qed

lemma enqueue_commit_submissions [simp]: "submissions (enqueue_commit c d) = submissions d"
proof -
  have "submissions (fold (\<lambda>l d. if P l then d else enqueue f l d) ls d) = submissions d" for P f ls d
    by (induction ls arbitrary: d) auto
  then show ?thesis by (simp add: enqueue_commit_def)
qed

lemmas fence_defs = CommitCredentialFence_def ClearCredentialFence_def fence_exec_def
  MarkRefreshCredentialInvalidated_def ClearRefreshCredentialInvalidation_def
  RecordRetiredCredentialSlot_def ClearRetiredCredentialSlot_def

lemma fence_ops_inv:
  assumes "db_inv key d"
  shows "db_inv key (snd (CommitCredentialFence e c d))"
    "db_inv key (snd (ClearCredentialFence e f n w g s d))"
    "db_inv key (snd (MarkRefreshCredentialInvalidated e d))"
    "db_inv key (snd (ClearRefreshCredentialInvalidation e d))"
    "db_inv key (snd (RecordRetiredCredentialSlot e f s d))"
    "db_inv key (snd (ClearRetiredCredentialSlot e f s d))"
  using assms db_inv_pk [OF assms]
  by (auto simp: fence_defs Let_def db_inv_fence enqueue_inv enqueue_commit_inv
      split: sum.splits option.splits)

lemma fence_ops_frame:
  "submissions (snd (CommitCredentialFence e c d)) = submissions d"
  "submissions (snd (ClearCredentialFence e f n w g s d)) = submissions d"
  "submissions (snd (MarkRefreshCredentialInvalidated e d)) = submissions d"
  "submissions (snd (ClearRefreshCredentialInvalidation e d)) = submissions d"
  "submissions (snd (RecordRetiredCredentialSlot e f s d)) = submissions d"
  "submissions (snd (ClearRetiredCredentialSlot e f s d)) = submissions d"
  by (auto simp: fence_defs Let_def split: sum.splits)

lemma set_response_ok:
  assumes "db_inv key d" "env_key e = key"
  shows "db_inv key (snd (SetInputResponse e sid rid v d))
    \<and> submissions (snd (SetInputResponse e sid rid v d)) = submissions d"
proof -
  have app: "db_inv key (d\<lparr>input_responses := input_responses d @ [((sid, rid), ir)]\<rparr>)"
    if "row_at (input_responses d) (sid, rid) = None"
      "ir_response_enc ir = Blob key (blobAAD sid (response_kind rid)) x" for ir x
    using assms(1) that by (auto simp: db_inv_def index_ok_def pk_append)
  show ?thesis
    using assms
    by (auto simp: SetInputResponse_def result_simps seal_blob_iff app
        split: sum.splits option.splits)
qed

lemma mark_sent_ok:
  assumes "db_inv key d"
  shows "db_inv key (snd (mark_sent e t sid rids d)) \<and> submissions (snd (mark_sent e t sid rids d)) = submissions d"
  using assms
proof (induction rids arbitrary: d)
  case (Cons rid rids)
  have "db_inv key (d\<lparr>input_responses := put_row (sid, rid) (ir\<lparr>ir_sent_at := Some t\<rparr>) (input_responses d)\<rparr>)"
    if "row_at (input_responses d) (sid, rid) = Some ir" for ir
    using Cons.prems that by (auto simp: db_inv_def index_ok_def)
  then show ?case
    using Cons by (auto split: sum.splits option.splits)
qed simp

subsection \<open>Histories\<close>

text \<open>A history applies its calls in order; \<open>always\<close> says a fact holds before and after each call.\<close>

fun history :: "('op \<Rightarrow> 'e \<Rightarrow> 'd \<Rightarrow> 'd) \<Rightarrow> ('op \<times> 'e) list \<Rightarrow> 'd \<Rightarrow> 'd" where
  "history f [] d = d"
| "history f (c # cs) d = history f cs (f (fst c) (snd c) d)"

fun always :: "('op \<Rightarrow> 'e \<Rightarrow> 'd \<Rightarrow> 'd) \<Rightarrow> ('d \<Rightarrow> bool) \<Rightarrow> ('op \<times> 'e) list \<Rightarrow> 'd \<Rightarrow> bool" where
  "always f P [] d = P d"
| "always f P (c # cs) d = (P d \<and> always f P cs (f (fst c) (snd c) d))"

lemma always_head: "always f P cs d \<Longrightarrow> P d"
  by (cases cs) auto

text \<open>
  The contract of a durable store: each call, made in a fitting environment, keeps the invariant and
  relates the row it finds to the row it leaves. It then holds of every history of calls, however
  the processes that make them interleave.
\<close>

locale durable_store =
  fixes perform_op :: "'op \<Rightarrow> 'e \<Rightarrow> 'd \<Rightarrow> 'd"
    and fits :: "'e \<Rightarrow> bool"
    and inv :: "'d \<Rightarrow> bool"
    and row_of :: "'d \<Rightarrow> 'k \<Rightarrow> 'r option"
    and rel :: "'r \<Rightarrow> 'r \<Rightarrow> bool"
  assumes inv_op: "fits e \<Longrightarrow> inv d \<Longrightarrow> inv (perform_op c e d)"
    and row_op: "fits e \<Longrightarrow> inv d \<Longrightarrow> row_of d k = Some r \<Longrightarrow> row_of (perform_op c e d) k = Some r'
      \<Longrightarrow> rel r r'"
begin

lemma history_inv: "inv d \<Longrightarrow> list_all (\<lambda>c. fits (snd c)) cs \<Longrightarrow> inv (history perform_op cs d)"
  by (induction cs arbitrary: d) (auto simp: inv_op)

lemma history_rows:
  assumes "inv d" "list_all (\<lambda>c. fits (snd c)) cs" "always perform_op (\<lambda>d. row_of d k \<noteq> None) cs d"
    "row_of d k = Some r"
  shows "\<exists>r'. row_of (history perform_op cs d) k = Some r' \<and> rel\<^sup>*\<^sup>* r r'"
  using assms
proof (induction cs arbitrary: d r)
  case (Cons c cs)
  let ?d = "perform_op (fst c) (snd c) d"
  from Cons.prems(3) obtain q where q: "row_of ?d k = Some q" using always_head by fastforce
  have fit: "fits (snd c)" using Cons.prems(2) by simp
  have step: "rel r q" by (rule row_op [OF fit Cons.prems(1,4) q])
  have "inv ?d" using Cons.prems(1) fit inv_op by blast
  with Cons.IH [of ?d q] Cons.prems q obtain r' where
    "row_of (history perform_op cs ?d) k = Some r'" "rel\<^sup>*\<^sup>* q r'" by auto
  with step show ?case by (auto intro: converse_rtranclp_into_rtranclp)
qed auto

end

lemma perform_ok:
  assumes "env_ok key e" "db_inv key d"
  shows "db_inv key (perform c e d) \<and> db_step (UnixMilli (env_now e)) d (perform c e d)"
proof -
  have k: "env_key e = key" using assms(1) by (simp add: env_ok_def)
  note writes = transition_write complete_write [OF k] FailLeased_write [OF k] capture_write [OF k]
    attach_write replace_write save_write [OF k] append_write [OF k]
  show ?thesis
  proof (cases c)
    case (OpMarkSent sid rids)
    then show ?thesis
      using mark_sent_ok [OF assms(2)] assms(2) by (simp add: MarkInputResponsesSent_def db_step_frame)
  next
    case (OpSetResponse sid rid v)
    then show ?thesis using set_response_ok [OF assms(2) k] by (simp add: db_step_frame)
  qed (simp_all add: create_ok [OF assms(2,1)] GC_ok [OF assms(2)] assms row_write_ok [OF assms(2)] writes lease_ops_inv fence_ops_inv
      db_step_frame lease_calls_frame fence_ops_frame)
qed

interpretation store: durable_store perform "env_ok key" "db_inv key" "\<lambda>d. row_at (submissions d)" row_step
  for key
proof
  show "db_inv key (perform c e d)" if "env_ok key e" "db_inv key d" for e d c
    using perform_ok that by blast
  show "row_step r r'" if "env_ok key e" "db_inv key d" "row_at (submissions d) k = Some r"
      "row_at (submissions (perform c e d)) k = Some r'" for e d k r c r'
    using perform_ok [OF that(1,2), of c] that(3,4) by (auto simp: db_step_def split: option.splits)
qed

lemma db_inv_empty: "db_inv key empty_db"
  by (simp add: db_inv_def empty_db_def index_ok_def)

subsection \<open>What a chain of row steps keeps\<close>

lemma status_step_terminal: "Terminal st \<Longrightarrow> status_step st st' \<Longrightarrow> st' = st \<or> st' = StatusExpired"
  using Allowed_terminal by (auto simp: status_step_def)

lemma row_steps_accepted: "row_step\<^sup>*\<^sup>* r r' \<Longrightarrow> accepted_columns r' = accepted_columns r"
  by (induction rule: rtranclp_induct) (auto simp: row_step_def)

lemma row_steps_sequence: "row_step\<^sup>*\<^sup>* r r' \<Longrightarrow> r_sequence r \<le> r_sequence r'"
  by (induction rule: rtranclp_induct) (auto simp: row_step_def)

lemma row_steps_log: "row_step\<^sup>*\<^sup>* r r' \<Longrightarrow> log_step r r'"
proof (induction rule: rtranclp_induct)
  case (step q s)
  have "r_sequence r \<le> r_sequence q" using step.hyps(1) by (rule row_steps_sequence)
  moreover have "log_step q s" using step.hyps(2) by (simp add: row_step_def)
  ultimately show ?case using step.IH unfolding log_step_def by fastforce
qed (simp add: log_step_same)

definition frozen :: "row \<Rightarrow> row \<Rightarrow> bool" where
  "frozen r r' \<longleftrightarrow>
     r_completed_at r' = r_completed_at r \<and> r_payload_expires_at r' = r_payload_expires_at r
     \<and> r_tombstone_expires_at r' = r_tombstone_expires_at r \<and> r_sequence r' = r_sequence r
     \<and> (r_status r' = r_status r \<and> outcome_columns r' = outcome_columns r
        \<or> r_status r' = StatusExpired \<and> outcome_columns r' = (None, None, None, False, None, None, None))"

lemma row_steps_frozen: "row_step\<^sup>*\<^sup>* r r' \<Longrightarrow> Terminal (r_status r) \<Longrightarrow> frozen r r'"
proof (induction rule: rtranclp_induct)
  case (step q s)
  then have "frozen r q" by blast
  moreover have "Terminal (r_status q)" using \<open>frozen r q\<close> step.prems by (auto simp: frozen_def)
  ultimately show ?case using step.hyps(2) by (auto simp: row_step_def frozen_def)
qed (simp add: frozen_def)

lemma row_steps_status:
  assumes "row_step\<^sup>*\<^sup>* r r'"
  shows "moves\<^sup>*\<^sup>* (r_status r) (r_status r') \<or>
    (\<exists>st. moves\<^sup>*\<^sup>* (r_status r) st \<and> Terminal st \<and> r_status r' = StatusExpired)"
  using assms
proof (induction rule: rtranclp_induct)
  case (step q s)
  have "status_step (r_status q) (r_status s)" using step.hyps(2) by (simp add: row_step_def)
  then show ?case
    using step.IH Allowed_terminal
    by (auto simp: status_step_def Allowed_iff_moves moves_terminal intro: rtranclp.rtrancl_into_rtrancl)
qed simp


section \<open>Properties\<close>

text \<open>
  Accepted limits. Whatever profile limits pass validation, the lifecycle limits frozen with a
  submission pass the stricter validation of stored limits, the retentions are whole milliseconds, at
  least what was configured and less than a millisecond more, and reading the row returns them exactly.
\<close>

theorem accepted_limits_sound:
  assumes "Validate lim = Inr ()"
  shows "AcceptedLimits_validate (acceptedLimitsFrom lim) = Inr ()
    \<and> row_limits (new_row ns h b (acceptedLimitsFrom lim) t) = acceptedLimitsFrom lim
    \<and> PayloadRetention lim \<le> al_PayloadRetention (acceptedLimitsFrom lim)
    \<and> al_PayloadRetention (acceptedLimitsFrom lim) < PayloadRetention lim + Millisecond
    \<and> TombstoneRetention lim \<le> al_TombstoneRetention (acceptedLimitsFrom lim)
    \<and> al_TombstoneRetention (acceptedLimitsFrom lim) < TombstoneRetention lim + Millisecond"
proof -
  have "0 < PayloadRetention lim" "PayloadRetention lim \<le> TombstoneRetention HardCeiling"
    "0 < TombstoneRetention lim" "TombstoneRetention lim \<le> TombstoneRetention HardCeiling"
    using assms by (auto simp: Validate_iff within_ceiling_def)
  then show ?thesis
    using accepted_limits_valid [OF assms] new_row_limits [OF assms, of ns h b t]
      persistedDuration_bounds [of "PayloadRetention lim"] persistedDuration_bounds [of "TombstoneRetention lim"]
    by (simp add: acceptedLimitsFrom_def)
qed

theorem accepted_limits_sound_witness:
  "AcceptedLimits_validate (acceptedLimitsFrom Default) = Inr ()"
proof -
  have "Validate Default = Inr ()" by code_simp
  from accepted_limits_sound [OF this] show ?thesis by simp
qed

end
