(* ===== verification/Store_Properties.thy ===== *)
theory Store_Properties
  imports Store_Runs
begin

text \<open>
  The properties of the store that span its operations, with a small scenario (one profile, one
  submission, one lease owner) in which the witnesses evaluate them.
\<close>

section \<open>A concrete scenario\<close>

definition demo_env :: "int \<Rightarrow> env" where
  "demo_env now = \<lparr>env_now = now * Millisecond, env_later = now * Millisecond, env_limits = Default,
     env_key = ''key'', env_sha256 = (\<lambda>s. ''h''), env_fault = (\<lambda>_. None)\<rparr>"

definition demo_args :: json where
  "demo_args = JObj [(''a'', JNum ''1'')]"

definition demo_new :: NewSubmission where
  "demo_new = \<lparr>ns_ID = ''s1'', ns_ClientRequestID = ''c1'', ns_Tool = ''t'', ns_Strategy = ''sync'',
     ns_DescriptorDigest = ''d'', ns_Arguments = Some demo_args, ns_RequestArguments = Some demo_args,
     ns_IdentityCandidates = [], ns_ProtocolVersion = ''p'', ns_AdapterVersion = ''v''\<rparr>"

definition no_detail :: TransitionDetail where
  "no_detail = \<lparr>td_TaskID = '''', td_Error = None\<rparr>"

definition demo_result :: result where
  "demo_result = \<lparr>res_IsError = False,
     res_Content = Some [JObj [(''type'', JStr ''text''), (''text'', JStr ''ok'')]],
     res_StructuredContent = None, res_Meta = None\<rparr>"

definition demo_history :: "(store_op \<times> env) list" where
  "demo_history =
     [(OpCreate demo_new, demo_env 1), (OpClaim ''submission/s1'' ''w'' (60 * Second), demo_env 2),
      (OpTransition ''s1'' StatusQueued no_detail None, demo_env 3),
      (OpTransition ''s1'' StatusRunning no_detail None, demo_env 4),
      (OpComplete ''s1'' demo_result (Some (''submission/s1'', ''w'')), demo_env 5)]"

definition demo_db :: db where
  "demo_db = history perform demo_history empty_db"

lemma demo_env_ok: "env_ok ''key'' (demo_env t)"
  by (simp add: env_ok_def demo_env_def Validate_iff within_ceiling_def Default_def HardCeiling_def
      time_units byte_units)

lemma demo_history_ok: "list_all (\<lambda>c. env_ok ''key'' (snd c)) demo_history"
  by (simp add: demo_history_def demo_env_ok)

lemma demo_inv: "db_inv ''key'' demo_db"
  unfolding demo_db_def by (rule store.history_inv [OF db_inv_empty demo_history_ok])

definition demo_status :: "db \<Rightarrow> status option" where
  "demo_status d = map_option r_status (row_at (submissions d) ''s1'')"

lemma demo_completed: "demo_status demo_db = Some StatusCompleted"
  by code_simp

lemma demo_row:
  obtains r where "row_at (submissions demo_db) ''s1'' = Some r" "r_status r = StatusCompleted"
  using demo_completed by (auto simp: demo_status_def)

section \<open>Histories\<close>

text \<open>
  C1: Starting from an empty database, after any sequence of store operations (by any number of
  processes of the profile, with any clock readings and any driver faults) the database invariant
  holds: primary keys, the two-way agreement of submissions and idempotency index, legal statuses
  and accepted limits, deadlines stamped exactly on terminal rows, outcome columns matching the
  status, the bounded and strictly increasing event log, and every sealed column bound to its key,
  submission and column.
\<close>

theorem reachable_inv:
  assumes "list_all (\<lambda>c. env_ok key (snd c)) h"
  shows "db_inv key (history perform h empty_db)"
  by (rule store.history_inv [OF db_inv_empty assms])

theorem reachable_inv_witness:
  "list_all (\<lambda>c. env_ok ''key'' (snd c)) demo_history
     \<and> db_inv ''key'' (history perform demo_history empty_db)"
  using reachable_inv [OF demo_history_ok] demo_history_ok by simp

text \<open>
  C2: A terminal outcome is final. Whatever operations follow, as long as the row is not deleted,
  its deadlines and sequence stay, and its status, result, error, evidence, events and arguments
  stay together, or the whole payload is gone and the status is \<open>expired\<close>.
\<close>

theorem terminal_frozen:
  assumes "db_inv key d" "list_all (\<lambda>c. env_ok key (snd c)) h"
    and "always perform (\<lambda>d. row_at (submissions d) sid \<noteq> None) h d"
    and "row_at (submissions d) sid = Some r" "Terminal (r_status r)"
  shows "\<exists>r'. row_at (submissions (history perform h d)) sid = Some r' \<and> frozen r r'"
  using store.history_rows [OF assms(1-4)] row_steps_frozen assms(5) by blast

definition later_history :: "(store_op \<times> env) list" where
  "later_history = [(OpTransition ''s1'' StatusRunning no_detail None, demo_env 6), (OpGC, demo_env 7)]"

lemma later_ok: "list_all (\<lambda>c. env_ok ''key'' (snd c)) later_history"
  by (simp add: later_history_def demo_env_ok)

lemma later_present:
  "always perform (\<lambda>d. row_at (submissions d) ''s1'' \<noteq> None) later_history demo_db"
  by code_simp

theorem terminal_frozen_witness:
  "\<exists>r r'. row_at (submissions demo_db) ''s1'' = Some r \<and> r_status r = StatusCompleted
     \<and> row_at (submissions (history perform later_history demo_db)) ''s1'' = Some r' \<and> frozen r r'"
  by (rule demo_row) (use terminal_frozen [OF demo_inv later_ok later_present] in auto)

text \<open>
  C3: The life of a submission. As long as its row exists, what was fixed at acceptance (identity,
  idempotency hash, protocol and lifecycle limits, creation time) never changes, its event sequence
  never goes back, and its status follows legal moves of the state machine, with the sweep's
  terminal-to-expired move the only exception.
\<close>

theorem submission_life:
  assumes "db_inv key d" "list_all (\<lambda>c. env_ok key (snd c)) h"
    and "always perform (\<lambda>d. row_at (submissions d) sid \<noteq> None) h d"
    and "row_at (submissions d) sid = Some r"
  shows "\<exists>r'. row_at (submissions (history perform h d)) sid = Some r'
     \<and> accepted_columns r' = accepted_columns r \<and> r_sequence r \<le> r_sequence r'
     \<and> (moves\<^sup>*\<^sup>* (r_status r) (r_status r')
        \<or> (\<exists>st. moves\<^sup>*\<^sup>* (r_status r) st \<and> Terminal st \<and> r_status r' = StatusExpired))"
  using store.history_rows [OF assms] row_steps_accepted row_steps_sequence row_steps_status by blast

definition accept_db :: db where
  "accept_db = snd (CreateSubmission (demo_env 1) demo_new empty_db)"

lemma accept_inv: "db_inv ''key'' accept_db"
  using store.inv_op [OF demo_env_ok db_inv_empty, of "OpCreate demo_new"] by (simp add: accept_db_def)

lemma accept_status: "demo_status accept_db = Some StatusAccepted"
  by code_simp

lemma tail_ok: "list_all (\<lambda>c. env_ok ''key'' (snd c)) (tl demo_history)"
  by (simp add: demo_history_def demo_env_ok)

lemma tail_present:
  "always perform (\<lambda>d. row_at (submissions d) ''s1'' \<noteq> None) (tl demo_history) accept_db"
  by code_simp

theorem submission_life_witness:
  "\<exists>r r'. row_at (submissions accept_db) ''s1'' = Some r \<and> r_status r = StatusAccepted
     \<and> row_at (submissions (history perform (tl demo_history) accept_db)) ''s1'' = Some r'
     \<and> accepted_columns r' = accepted_columns r"
  using submission_life [OF accept_inv tail_ok tail_present] accept_status
  by (auto simp: demo_status_def)

text \<open>
  C4: Deletion. An operation removes a submission only if it is terminal and its tombstone
  retention, counted in the operation's own clock reading, has lapsed; and a row an operation adds
  starts out \<open>accepted\<close>.
\<close>

theorem deleted_only_lapsed:
  assumes "env_ok key e" "db_inv key d"
  shows "(row_at (submissions d) sid = Some r \<and> row_at (submissions (perform c e d)) sid = None
        \<longrightarrow> Terminal (r_status r) \<and> tombstone_due (UnixMilli (env_now e)) r)
     \<and> (row_at (submissions d) sid = None \<and> row_at (submissions (perform c e d)) sid = Some r
        \<longrightarrow> r_status r = StatusAccepted)"
proof -
  have st: "db_step (UnixMilli (env_now e)) d (perform c e d)" using perform_ok [OF assms] by blast
  show ?thesis
    using st [unfolded db_step_def, THEN conjunct1, rule_format, of sid r]
      st [unfolded db_step_def, THEN conjunct2, rule_format, of sid r] by auto
qed

theorem deleted_only_lapsed_witness:
  "\<exists>r. row_at (submissions demo_db) ''s1'' = Some r
     \<and> row_at (submissions (perform OpGC (demo_env 2592000005) demo_db)) ''s1'' = None
     \<and> tombstone_due 2592000005 r"
proof -
  have gone: "row_at (submissions (perform OpGC (demo_env 2592000005) demo_db)) ''s1'' = None"
    by code_simp
  have "UnixMilli (env_now (demo_env 2592000005)) = 2592000005"
    by (simp add: demo_env_def UnixMilli_def Millisecond_def)
  with gone show ?thesis
    by (rule_tac demo_row) (use deleted_only_lapsed [OF demo_env_ok demo_inv] in metis)
qed

section \<open>Leases\<close>

text \<open>
  C5: The lease guard. When the caller does not hold the named lease, unexpired, at the moment of
  the check, every lease-guarded write leaves the database exactly as it was.
\<close>

theorem guarded_writes_need_lease:
  assumes "\<not> holds d n w (UnixMilli (env_now e))"
  shows "snd (TransitionLeased e sid n w to detail d) = d
    \<and> snd (CompleteLeased e sid n w res d) = d
    \<and> snd (FailLeased e sid n w f d) = d
    \<and> snd (CaptureTerminalLeased e sid n w to f ev d) = d
    \<and> snd (SaveTaskRecordLeased e sid n w rec d) = d
    \<and> (n = ''submission/'' @ sid \<longrightarrow> snd (ReplaceTaskIDLeased e sid w t d) = d)"
proof -
  have no: "requireLiveLease e d (n, w) \<noteq> Inr u" for u
    using assms by (simp add: requireLiveLease_iff)
  have tx: "snd (writeTx e what body d) = d" if "\<And>a d'. body d \<noteq> Inr (a, d')" for what body
    using that by (cases rule: writeTx_cases [of e what body d]) auto
  have fin: "snd (finish e sid st r g (Some (n, w)) d) = d" for st r g
    unfolding finish_def snd_read_back using no
    by (intro tx) (auto simp: finish_body_def require_lease_def result_simps)
  have "snd (TransitionLeased e sid n w to detail d) = d"
    using no by (auto simp: TransitionLeased_def transition_def transition_body_def require_lease_def
        result_simps intro!: tx split: sum.splits)
  moreover have "snd (CompleteLeased e sid n w res d) = d"
    using fin [of StatusFailed None "Some result_too_large"] fin [of StatusCompleted "Some res" None]
    by (auto simp: CompleteLeased_def complete_def split: sum.splits prod.splits)
  moreover have "snd (FailLeased e sid n w f d) = d"
    using fin by (auto simp: FailLeased_def split: sum.splits)
  moreover have "snd (CaptureTerminalLeased e sid n w to f ev d) = d"
    using no by (auto simp: CaptureTerminalLeased_def capture_body_def result_simps intro!: tx split: sum.splits)
  moreover have "snd (SaveTaskRecordLeased e sid n w rec d) = d"
    using no by (auto simp: SaveTaskRecordLeased_def result_simps intro!: tx split: sum.splits)
  moreover have "n = ''submission/'' @ sid \<Longrightarrow> snd (ReplaceTaskIDLeased e sid w t d) = d"
    using no by (auto simp: ReplaceTaskIDLeased_def replace_body_def result_simps Let_def intro!: tx)
  ultimately show ?thesis by blast
qed

theorem guarded_writes_need_lease_witness:
  "\<not> holds demo_db ''submission/s1'' ''other'' (UnixMilli (env_now (demo_env 6)))
     \<and> snd (CompleteLeased (demo_env 6) ''s1'' ''submission/s1'' ''other'' demo_result demo_db) = demo_db"
proof -
  have "\<not> holds demo_db ''submission/s1'' ''other'' (UnixMilli (env_now (demo_env 6)))" by code_simp
  from this guarded_writes_need_lease [OF this] show ?thesis by blast
qed

text \<open>
  C6: Exclusion. From the moment \<open>ClaimLease\<close> reports success until the expiry it wrote, no sequence
  of claims, renewals, commits and releases by other owners takes the lease away or changes its
  expiry, and none of their claims or renewals succeeds.
\<close>

theorem lease_exclusive:
  assumes "ClaimLease e n w ttl d = (Inr True, d')"
    and "\<forall>c \<in> set cs. call_owner c \<noteq> w
      \<and> call_time c < leaseDeadlineMilliseconds (env_now e) ttl"
  shows "lease_entry (fold call_lease cs d') n = Some (w, leaseDeadlineMilliseconds (env_now e) ttl)
    \<and> (\<forall>e' w' ttl'. w' \<noteq> w \<and> UnixMilli (env_now e') < leaseDeadlineMilliseconds (env_now e) ttl \<longrightarrow>
         fst (ClaimLease e' n w' ttl' (fold call_lease cs d')) \<noteq> Inr True
         \<and> fst (RenewLease e' n w' ttl' (fold call_lease cs d')) \<noteq> Inr True)"
proof -
  let ?x = "leaseDeadlineMilliseconds (env_now e) ttl" and ?d = "fold call_lease cs d'"
  have entry: "lease_entry ?d n = Some (w, ?x)"
    using store_lease.foreign_run [OF ClaimLease_grants(1) [OF assms(1)]] assms(2) by blast
  then obtain l where l: "row_at (leases ?d) n = Some l" "l_owner l = w" "l_expires_at l = ?x"
    using lease_generation_of by blast
  then show ?thesis
    using entry by (auto simp: ClaimLease_def RenewLease_def Let_def split: sum.splits)
qed

definition lease_db :: db where
  "lease_db = snd (ClaimLease (demo_env 1) ''n'' ''w'' (60 * Second) empty_db)"

theorem lease_exclusive_witness:
  "ClaimLease (demo_env 1) ''n'' ''w'' (60 * Second) empty_db = (Inr True, lease_db)
   \<and> lease_entry (fold call_lease [Claim (demo_env 2) ''n'' ''v'' Second, Release (demo_env 3) ''n'' ''v''] lease_db) ''n''
       = Some (''w'', leaseDeadlineMilliseconds (env_now (demo_env 1)) (60 * Second))"
proof -
  have c: "ClaimLease (demo_env 1) ''n'' ''w'' (60 * Second) empty_db = (Inr True, lease_db)"
    unfolding lease_db_def by code_simp
  have "\<forall>c \<in> set [Claim (demo_env 2) ''n'' ''v'' Second, Release (demo_env 3) ''n'' ''v''].
      call_owner c \<noteq> ''w'' \<and> call_time c < leaseDeadlineMilliseconds (env_now (demo_env 1)) (60 * Second)"
    by (simp add: demo_env_def UnixMilli_def leaseDeadlineMilliseconds_def time_units)
  from lease_exclusive [OF c this] c show ?thesis by blast
qed

text \<open>
  The written deadline is the requested one rounded up to a millisecond: a lease is never
  shorter than its TTL and less than a millisecond longer.
\<close>

theorem lease_deadline_rounds_up:
  "now + ttl \<le> leaseDeadlineMilliseconds now ttl * Millisecond
   \<and> leaseDeadlineMilliseconds now ttl * Millisecond < now + ttl + Millisecond"
  using leaseDeadline_bounds by blast

text \<open>
  Ownership epochs. Over any sequence of lease calls without a release, the generation of a
  lease row never decreases, and it strictly increases when the owner changes.
\<close>

theorem lease_generation_grows:
  assumes "row_at (leases d) n = Some l" "list_all (\<lambda>c. \<not> is_release c) cs"
  shows "\<exists>l'. row_at (leases (fold call_lease cs d)) n = Some l' \<and> l_generation l \<le> l_generation l'
    \<and> (l_owner l' \<noteq> l_owner l \<longrightarrow> l_generation l < l_generation l')"
  using assms by (rule generation_run)

theorem lease_generation_grows_witness:
  "\<exists>l'. row_at (leases (fold call_lease [Claim (demo_env 70000) ''n'' ''v'' Second] lease_db)) ''n'' = Some l'
     \<and> 1 \<le> l_generation l' \<and> (l_owner l' = ''w'' \<or> 1 < l_generation l')"
proof -
  have "row_at (leases lease_db) ''n''
      = Some \<lparr>l_owner = ''w'', l_expires_at = 60001, l_generation = 1\<rparr>"
    by code_simp
  from lease_generation_grows [OF this, of "[Claim (demo_env 70000) ''n'' ''v'' Second]"]
  show ?thesis by auto
qed

text \<open>
  A release forgets the generation: after a release, another owner's claim and release, and a
  second claim by the first owner, the lease shows the same owner and the same generation as in the
  first epoch, so \<open>CommitLease\<close> accepts the first epoch's generation again.
\<close>

lemma release_resets_generation:
  "let d1 = lease_db;
       d2 = fold call_lease [Release (demo_env 2) ''n'' ''w'', Claim (demo_env 3) ''n'' ''v'' Second,
              Release (demo_env 4) ''n'' ''v'', Claim (demo_env 5) ''n'' ''w'' (60 * Second)] d1
   in LeaseGeneration (demo_env 1) ''n'' ''w'' d1 = Inr (Some 1)
      \<and> LeaseGeneration (demo_env 5) ''n'' ''w'' d2 = Inr (Some 1)
      \<and> fst (CommitLease (demo_env 5) ''n'' ''w'' 1 d2) = Inr True"
  by code_simp

section \<open>Reading back\<close>

lemma open_column_ok:
  "sealed_ok key sid kind c \<Longrightarrow> env_key e = key \<Longrightarrow>
     open_column e sid kind c = Inr (map_option blob_plain c)"
  by (auto simp: open_column_def sealed_ok_def open_blob_def split: option.splits)

lemma GetSubmission_row:
  assumes "row_ok key sid r" "env_key e = key" "env_fault e ReadBack = None"
    and "row_at (submissions d) sid = Some r"
  shows "\<exists>s. GetSubmission e d sid = Inr s \<and> sub_ID s = sid \<and> sub_Status s = r_status r
    \<and> sub_ClientRequestID s = r_client_request_id r \<and> sub_ArgsHash s = r_args_hash r
    \<and> sub_Sequence s = r_sequence r \<and> sub_AcceptedLimits s = row_limits r
    \<and> sub_Strategy s = r_strategy r
    \<and> sub_Arguments s = map_option blob_plain (r_args_enc r)
    \<and> sub_Events s = (case r_events_enc r of None \<Rightarrow> [] | Some b \<Rightarrow> blob_plain b)
    \<and> sub_Result s = map_option blob_plain (r_result_enc r)
    \<and> sub_ErrorCode s = r_error_code r
    \<and> sub_TerminalEvidence s = map_option blob_plain (r_terminal_evidence_enc r)"
proof -
  have v: "AcceptedLimits_validate (row_limits r) = Inr ()" "Valid (r_status r)"
    using assms(1) by (simp_all add: row_ok_def)
  have cols: "open_column e sid ''arguments'' (r_args_enc r) = Inr (map_option blob_plain (r_args_enc r))"
    "open_column e sid ''events'' (r_events_enc r) = Inr (map_option blob_plain (r_events_enc r))"
    "open_column e sid ''input-requests'' (r_input_requests_enc r)
       = Inr (map_option blob_plain (r_input_requests_enc r))"
    "open_column e sid ''terminal-evidence'' (r_terminal_evidence_enc r)
       = Inr (map_option blob_plain (r_terminal_evidence_enc r))"
    "open_column e sid ''result'' (r_result_enc r) = Inr (map_option blob_plain (r_result_enc r))"
    using assms(1,2) by (auto simp: row_ok_def intro: open_column_ok)
  show ?thesis
    using assms(3,4) v
    by (simp add: GetSubmission_def scanSubmission_def decryptSubmission_def cols Let_def)
       (simp split: option.split)
qed

text \<open>
  Every stored submission is readable. In a database that satisfies the invariant, reading any
  existing submission with the profile key succeeds and returns the stored status, identity,
  arguments, events and outcome.
\<close>

theorem stored_is_readable:
  assumes "db_inv key d" "env_key e = key" "env_fault e ReadBack = None"
    and "row_at (submissions d) sid = Some r"
  shows "\<exists>s. GetSubmission e d sid = Inr s \<and> sub_ID s = sid \<and> sub_Status s = r_status r
    \<and> sub_Arguments s = map_option blob_plain (r_args_enc r)
    \<and> sub_Events s = (case r_events_enc r of None \<Rightarrow> [] | Some b \<Rightarrow> blob_plain b)
    \<and> sub_Result s = map_option blob_plain (r_result_enc r)"
  using GetSubmission_row [of key sid r e d] assms by (auto simp: db_inv_def)

theorem stored_is_readable_witness:
  "\<exists>s. GetSubmission (demo_env 9) demo_db ''s1'' = Inr s \<and> sub_Status s = StatusCompleted"
  by (rule demo_row) (use stored_is_readable [OF demo_inv, of "demo_env 9" "''s1''"] in
      \<open>auto simp: demo_env_def\<close>)

text \<open>
  Sealed columns cannot be moved. A blob that opens for one submission and column opens for no
  other submission and column whose submission ID has no slash, and a blob sealed under another key
  does not open at all.
\<close>

theorem blob_not_transferable:
  assumes "open_blob e b sid kind = Inr p" "CHR ''/'' \<notin> set sid" "CHR ''/'' \<notin> set sid'"
    and "open_blob e' b sid' kind' = Inr p'"
  shows "sid' = sid \<and> kind' = kind \<and> env_key e' = env_key e \<and> p' = p"
  using assms blobAAD_inj [of sid sid' kind kind'] by (auto simp: open_blob_iff)

theorem blob_not_transferable_witness:
  "open_blob (demo_env 1) (Blob ''key'' (blobAAD ''s1'' ''result'') (1::int)) ''s1'' ''result'' = Inr 1
   \<and> (\<forall>p. open_blob (demo_env 1) (Blob ''key'' (blobAAD ''s1'' ''result'') (1::int)) ''s2'' ''result'' \<noteq> Inr p)"
proof -
  have own: "open_blob (demo_env 1) (Blob ''key'' (blobAAD ''s1'' ''result'') (1::int)) ''s1'' ''result'' = Inr 1"
    by code_simp
  show ?thesis
    using own blob_not_transferable [OF own, of "''s2''" "demo_env 1" "''result''"] by auto
qed

section \<open>Idempotency\<close>

lemma be32_length [simp]: "length (be32 n) = 4"
  by (simp add: be32_def)

lemma be32_inj:
  assumes "be32 m = be32 n" "0 \<le> m" "m < 2 ^ 32" "0 \<le> n" "n < 2 ^ 32"
  shows "m = n"
proof -
  have c: "a mod 256 = b mod 256" if "char_of (a mod 256) = char_of (b mod 256)" for a b :: int
    using that by simp
  have eqs: "m div 2 ^ 24 mod 256 = n div 2 ^ 24 mod 256" "m div 2 ^ 16 mod 256 = n div 2 ^ 16 mod 256"
    "m div 2 ^ 8 mod 256 = n div 2 ^ 8 mod 256" "m mod 256 = n mod 256"
    using assms(1) by (auto simp: be32_def intro: c)
  have split: "x = ((x div 2 ^ 24 mod 256 * 256 + x div 2 ^ 16 mod 256) * 256 + x div 2 ^ 8 mod 256) * 256
      + x mod 256" if "0 \<le> x" "x < 2 ^ 32" for x :: int
  proof -
    have top: "x div 2 ^ 24 mod 256 = x div 2 ^ 24" using that by simp
    have d2: "x div 2 ^ 16 = x div 2 ^ 8 div 256" and d3: "x div 2 ^ 24 = x div 2 ^ 16 div 256"
      using zdiv_zmult2_eq [of 256 x "2 ^ 8"] zdiv_zmult2_eq [of 256 x "2 ^ 16"] by simp_all
    have "x = x div 256 * 256 + x mod 256" "x div 2 ^ 8 = x div 2 ^ 16 * 256 + x div 2 ^ 8 mod 256"
      "x div 2 ^ 16 = x div 2 ^ 24 * 256 + x div 2 ^ 16 mod 256"
      unfolding d2 d3 by simp_all
    then show ?thesis unfolding top by simp
  qed
  have "m = ((n div 2 ^ 24 mod 256 * 256 + n div 2 ^ 16 mod 256) * 256 + n div 2 ^ 8 mod 256) * 256
      + n mod 256"
    using split [OF assms(2,3)] unfolding eqs .
  also have "\<dots> = n" using split [OF assms(4,5)] by (rule sym)
  finally show ?thesis .
qed

text \<open>
  The hashed identity is unambiguous. Two requests with the same hashed bytes have the same
  tool and the same canonical request, so distinct requests can share an idempotency hash only
  through a SHA-256 collision.
\<close>

theorem identity_bytes_injective:
  assumes "identity_bytes tool v = identity_bytes tool' v'"
    and "length tool < 2 ^ 32" "length tool' < 2 ^ 32"
  shows "tool = tool' \<and> encode v = encode v'"
proof -
  let ?b = "\<lambda>t v. be32 (int (length t)) @ t @ be32 (int (length (encode v))) @ encode v"
  have eq: "?b tool v = ?b tool' v'"
    using assms(1) by (simp add: identity_bytes_def Let_def)
  then have "be32 (int (length tool)) = be32 (int (length tool'))" by simp
  moreover have "int (length tool) < 2 ^ 32" "int (length tool') < 2 ^ 32" using assms(2,3) by simp_all
  ultimately have "length tool = length tool'" using be32_inj by (metis of_nat_0_le_iff of_nat_eq_iff)
  with eq show ?thesis by simp
qed

theorem identity_bytes_injective_witness:
  "identity_bytes ''a'' (JStr ''b'') \<noteq> identity_bytes ''ab'' (JStr '''')"
  using identity_bytes_injective [of "''a''" "JStr ''b''" "''ab''" "JStr ''''"] by auto

definition no_faults :: "env \<Rightarrow> bool" where
  "no_faults e \<longleftrightarrow> (\<forall>st. env_fault e st = None)"

lemma no_faults_simps [simp]:
  "no_faults e \<Longrightarrow> env_fault e st = None" "no_faults e \<Longrightarrow> statement e st w = Inr ()"
  by (simp_all add: no_faults_def)

lemma index_lookup:
  assumes "db_inv key d" "row_at (submissions d) sid = Some r"
  shows "\<exists>i. row_at (idempotency d) (r_client_request_id r) = Some i
    \<and> id_submission_id i = sid \<and> id_args_hash i = r_args_hash r"
  using assms unfolding db_inv_def index_ok_def by blast

lemma create_claimed:
  assumes "no_faults e" "create_prepare e ns = Inr (args, h, hs)"
    and "row_at (idempotency d) (ns_ClientRequestID ns) = Some i"
  shows "CreateSubmission e ns d =
    (if id_args_hash i \<in> set hs
     then rbind (GetSubmission e d (id_submission_id i)) (\<lambda>s. Inr (s, False))
     else Inl (idempotency_conflict (ns_ClientRequestID ns)), d)"
  using assms by (simp add: CreateSubmission_def reconcileIdempotentSubmission_def)

lemma create_prepare_hash:
  assumes "create_prepare e ns = Inr (args, h, hs)"
  obtains v where "canonicalArguments (ns_RequestArguments ns) HardCeiling = Inr v"
    "h = hashInput e (ns_Tool ns) v" "h \<in> set hs"
  using assms by (auto simp: create_prepare_def result_simps Let_def)

lemma accepted_stays_indexed:
  assumes "db_inv key d" "env_ok key e" "CreateSubmission e ns d = (Inr (s, True), d1)"
    and "list_all (\<lambda>c. env_ok key (snd c)) h"
    and "always perform (\<lambda>d. row_at (submissions d) (ns_ID ns) \<noteq> None) h d1"
  shows "\<exists>i v r. row_at (idempotency (history perform h d1)) (ns_ClientRequestID ns) = Some i
    \<and> id_submission_id i = ns_ID ns
    \<and> canonicalArguments (ns_RequestArguments ns) HardCeiling = Inr v
    \<and> id_args_hash i = hashInput e (ns_Tool ns) v
    \<and> row_at (submissions (history perform h d1)) (ns_ID ns) = Some r \<and> row_ok key (ns_ID ns) r
    \<and> r_client_request_id r = ns_ClientRequestID ns"
proof -
  let ?d = "history perform h d1"
  from assms(3) obtain args g hs b where c: "create_prepare e ns = Inr (args, g, hs)"
      "row_at (submissions d) (ns_ID ns) = None"
      "d1 = d\<lparr>idempotency := idempotency d @ [(ns_ClientRequestID ns,
           \<lparr>id_args_hash = g, id_submission_id = ns_ID ns, id_created_at = UnixMilli (env_now e)\<rparr>)],
         submissions := submissions d @ [(ns_ID ns,
           new_row ns g b (acceptedLimitsFrom (env_limits e)) (UnixMilli (env_now e)))]\<rparr>"
    by (rule CreateSubmission_created)
  let ?r = "new_row ns g b (acceptedLimitsFrom (env_limits e)) (UnixMilli (env_now e))"
  have inv1: "db_inv key d1" using create_ok [OF assms(1,2), of ns] assms(3) by simp
  have row1: "row_at (submissions d1) (ns_ID ns) = Some ?r" using c(2,3) by simp
  obtain r where r: "row_at (submissions ?d) (ns_ID ns) = Some r" "row_step\<^sup>*\<^sup>* ?r r"
    using store.history_rows [OF inv1 assms(4,5) row1] by blast
  have acc: "accepted_columns r = accepted_columns ?r" using r(2) by (rule row_steps_accepted)
  then have cols: "r_client_request_id r = ns_ClientRequestID ns" "r_args_hash r = g"
    by (simp_all add: accepted_columns_def new_row_def)
  have inv: "db_inv key ?d" by (rule store.history_inv [OF inv1 assms(4)])
  obtain i where i: "row_at (idempotency ?d) (ns_ClientRequestID ns) = Some i"
      "id_submission_id i = ns_ID ns" "id_args_hash i = g"
    using index_lookup [OF inv r(1)] cols by auto
  obtain v where "canonicalArguments (ns_RequestArguments ns) HardCeiling = Inr v"
    "g = hashInput e (ns_Tool ns) v" using create_prepare_hash [OF c(1)] by blast
  moreover have "row_ok key (ns_ID ns) r" using inv r(1) by (simp add: db_inv_def)
  ultimately show ?thesis using i r(1) cols by auto
qed

text \<open>
  C7: Retries are idempotent. After a submission was accepted, and after any further operations
  that leave it in place, a retry with the same client request ID, tool and canonical request (and
  possibly another submission ID, strategy or upstream arguments) returns that submission with
  \<open>created = false\<close> and changes nothing.
\<close>

theorem create_replay:
  assumes "db_inv key d" "env_ok key e" "CreateSubmission e ns d = (Inr (s, True), d1)"
    and "list_all (\<lambda>c. env_ok key (snd c)) h"
    and "always perform (\<lambda>d. row_at (submissions d) (ns_ID ns) \<noteq> None) h d1"
    and "env_ok key e'" "no_faults e'" "env_sha256 e' = env_sha256 e"
    and "ns_ClientRequestID ns' = ns_ClientRequestID ns" "ns_Tool ns' = ns_Tool ns"
    and "canonicalArguments (ns_RequestArguments ns') HardCeiling
       = canonicalArguments (ns_RequestArguments ns) HardCeiling"
    and "create_prepare e' ns' = Inr p"
  shows "\<exists>s'. CreateSubmission e' ns' (history perform h d1) = (Inr (s', False), history perform h d1)
    \<and> sub_ID s' = ns_ID ns"
proof -
  let ?d = "history perform h d1"
  obtain i v r where i: "row_at (idempotency ?d) (ns_ClientRequestID ns) = Some i"
      "id_submission_id i = ns_ID ns"
    and v: "canonicalArguments (ns_RequestArguments ns) HardCeiling = Inr v"
      "id_args_hash i = hashInput e (ns_Tool ns) v"
    and r: "row_at (submissions ?d) (ns_ID ns) = Some r" "row_ok key (ns_ID ns) r"
    using accepted_stays_indexed [OF assms(1-5)] by blast
  obtain args' g' hs' where p: "p = (args', g', hs')" by (cases p)
  have "id_args_hash i \<in> set hs'"
    using create_prepare_hash [OF assms(12) [unfolded p]] v assms(8,10,11) by (auto simp: hashInput_def)
  moreover obtain s' where "GetSubmission e' ?d (ns_ID ns) = Inr s'" "sub_ID s' = ns_ID ns"
    using GetSubmission_row [OF r(2), of e' ?d] r(1) assms(6,7) by (auto simp: env_ok_def)
  ultimately show ?thesis
    using create_claimed [OF assms(7) assms(12) [unfolded p], of ?d i] i assms(9) by simp
qed

theorem create_replay_witness:
  "\<exists>s'. CreateSubmission (demo_env 6) (demo_new\<lparr>ns_ID := ''s2''\<rparr>) demo_db = (Inr (s', False), demo_db)
     \<and> sub_ID s' = ''s1''"
proof -
  have c: "fst (CreateSubmission (demo_env 1) demo_new empty_db)
      = Inr (created_submission demo_new demo_args ''68''
          (acceptedLimitsFrom Default) 1, True)" by code_simp
  have p: "create_prepare (demo_env 6) (demo_new\<lparr>ns_ID := ''s2''\<rparr>) = Inr (demo_args, ''68'', [''68''])"
    by code_simp
  have d: "demo_db = history perform (tl demo_history) accept_db"
    by (simp add: demo_db_def demo_history_def accept_db_def)
  have e: "CreateSubmission (demo_env 1) demo_new empty_db
      = (Inr (created_submission demo_new demo_args ''68'' (acceptedLimitsFrom Default) 1, True), accept_db)"
    using c by (simp add: accept_db_def prod_eq_iff)
  have id: "ns_ID demo_new = ''s1''" by (simp add: demo_new_def)
  show ?thesis
    using create_replay [OF db_inv_empty demo_env_ok e tail_ok _ demo_env_ok _ _ _ _ _ p] tail_present
    by (simp add: id d) (simp add: no_faults_def demo_env_def demo_new_def)
qed

text \<open>
  C8: A client request ID is claimed once. While the index has an entry for it, no request with
  that ID creates a submission or changes the database; a request none of whose candidate identities
  matches the entry gets the idempotency conflict.
\<close>

theorem claimed_key_conflict:
  assumes "row_at (idempotency d) (ns_ClientRequestID ns) = Some i"
  shows "snd (CreateSubmission e ns d) = d \<and> fst (CreateSubmission e ns d) \<noteq> Inr (s, True)
    \<and> (no_faults e \<and> create_prepare e ns = Inr (args, h, hs) \<and> id_args_hash i \<notin> set hs \<longrightarrow>
        (\<exists>err. fst (CreateSubmission e ns d) = Inl err \<and> errors_Is err ErrIdempotencyConflict))"
proof (intro conjI impI)
  show ne: "fst (CreateSubmission e ns d) \<noteq> Inr (s, True)"
  proof
    assume "fst (CreateSubmission e ns d) = Inr (s, True)"
    then have "CreateSubmission e ns d = (Inr (s, True), snd (CreateSubmission e ns d))"
      by (simp add: prod_eq_iff)
    then show False using assms by (auto elim!: CreateSubmission_created)
  qed
  show "snd (CreateSubmission e ns d) = d"
    using assms by (auto simp: CreateSubmission_def split: sum.splits)
  assume "no_faults e \<and> create_prepare e ns = Inr (args, h, hs) \<and> id_args_hash i \<notin> set hs"
  then show "\<exists>err. fst (CreateSubmission e ns d) = Inl err \<and> errors_Is err ErrIdempotencyConflict"
    using create_claimed [of e ns args h hs d i] assms by (auto simp: idempotency_conflict_def)
qed

definition plain_env :: "int \<Rightarrow> env" where
  "plain_env now = (demo_env now)\<lparr>env_sha256 := (\<lambda>s. s)\<rparr>"

theorem claimed_key_conflict_witness:
  "\<exists>err. fst (CreateSubmission (plain_env 6) (demo_new\<lparr>ns_Tool := ''u''\<rparr>) accept_db) = Inl err
     \<and> errors_Is err ErrIdempotencyConflict"
proof -
  let ?i = "\<lparr>id_args_hash = ''68'', id_submission_id = ''s1'', id_created_at = 1\<rparr>"
  let ?ns = "demo_new\<lparr>ns_Tool := ''u''\<rparr>"
  have i: "row_at (idempotency accept_db) ''c1'' = Some ?i" by code_simp
  have crid: "ns_ClientRequestID ?ns = ''c1''" by (simp add: demo_new_def)
  have "case create_prepare (plain_env 6) ?ns of
      Inl _ \<Rightarrow> False | Inr (args, h, hs) \<Rightarrow> list_all (\<lambda>g. length g \<noteq> 2) hs" by code_simp
  then obtain args h hs where p: "create_prepare (plain_env 6) ?ns = Inr (args, h, hs)"
      "list_all (\<lambda>g. length g \<noteq> 2) hs" by (auto split: sum.splits prod.splits)
  then have "''68'' \<notin> set hs" by (auto simp: list_all_iff)
  then show ?thesis
    using claimed_key_conflict [of accept_db ?ns ?i "plain_env 6" undefined args h hs] i crid p(1)
    by (simp add: no_faults_def plain_env_def demo_env_def)
qed

end
