(* ===== verification/Store_Outcomes.thy ===== *)
theory Store_Outcomes
  imports Store_Properties
begin

text \<open>
  Properties of single store operations: terminal capture, events, the retention sweep, input
  responses and credential fences.
\<close>

section \<open>Terminal capture\<close>

definition result_size :: "result \<Rightarrow> int" where
  "result_size res = int (length (encode (result_json res)))"

lemma loadEncrypted_ok:
  assumes "no_faults e" "row_ok key sid r" "row_at (submissions d) sid = Some r"
  shows "\<exists>s. loadEncrypted e d sid = Inr s \<and> sub_Status s = r_status r \<and> sub_AcceptedLimits s = row_limits r"
proof -
  from assms(2) obtain s where "scanSubmission sid r = Inr s"
    using scanSubmission_defined by (auto simp: row_ok_def)
  then show ?thesis
    using scanSubmission_fields assms(1,3) by (metis loadEncrypted_iff no_faults_simps(1))
qed

text \<open>What \<open>finish\<close> does when nothing stands in its way.\<close>

lemma finish_runs:
  assumes "no_faults e" "db_inv key d" "row_at (submissions d) sid = Some r"
    and "Allowed (r_status r) to" "holds d n w (UnixMilli (env_now e))"
  shows "finish e sid to res failure (Some (n, w)) d =
    (let d' = d\<lparr>submissions := put_row sid (finish_row (row_limits r) (UnixMilli (env_later e)) to
        (map_option (Blob (env_key e) (blobAAD sid ''result'')) res) failure r) (submissions d)\<rparr>
     in (GetSubmission e d' sid, d'))"
proof -
  have ok: "row_ok key sid r" using assms(2,3) by (simp add: db_inv_def)
  obtain s where s: "loadEncrypted e d sid = Inr s" "sub_Status s = r_status r"
    "sub_AcceptedLimits s = row_limits r" using loadEncrypted_ok [OF assms(1) ok assms(3)] by blast
  have lease: "requireLiveLease e d (n, w) = Inr ()"
    using assms(1,5) by (simp add: requireLiveLease_iff)
  have seal: "seal_blob e x sid ''result'' = Inr (Blob (env_key e) (blobAAD sid ''result'') x)" for x :: result
    using assms(1) by (simp add: seal_blob_iff)
  let ?f = "finish_row (row_limits r) (UnixMilli (env_later e)) to
        (map_option (Blob (env_key e) (blobAAD sid ''result'')) res) failure"
  have "finish_body e sid to res failure (Some (n, w)) d
      = requireUpdated (update_where sid (\<lambda>x. r_status x = r_status r) ?f d)"
    using assms(1,4) s lease seal
    by (cases res) (simp_all add: finish_body_def require_lease_def stamp_def)
  also have "\<dots> = Inr ((), d\<lparr>submissions := put_row sid (?f r) (submissions d)\<rparr>)"
    using assms(3) by (simp add: requireUpdated_iff)
  finally show ?thesis
    using assms(1) by (simp add: finish_def writeTx_ok read_back_def Let_def)
qed

lemma row_at_updated:
  "row_at (submissions (d\<lparr>submissions := put_row sid r (submissions d)\<rparr>)) sid = Some r"
  by simp

text \<open>
  C9: Completing a running submission. With a live lease and a valid result, \<open>CompleteLeased\<close>
  stores the whole result and returns it with status \<open>completed\<close> when it fits the accepted limit;
  otherwise it stores no byte of it, the submission becomes \<open>failed\<close> with \<open>result_too_large\<close>, and
  the caller gets \<open>ErrResultTooLarge\<close>. Nothing but that row changes.
\<close>

theorem complete_outcome:
  assumes "db_inv key d" "env_ok key e" "no_faults e" "row_at (submissions d) sid = Some r"
    and "r_status r = StatusRunning \<or> r_status r = StatusInputRequired"
    and "Result_Validate res = Inr ()" "holds d n w (UnixMilli (env_now e))"
  shows "\<exists>d' r'. snd (CompleteLeased e sid n w res d) = d'
    \<and> d' = d\<lparr>submissions := put_row sid r' (submissions d)\<rparr>
    \<and> (if result_size res \<le> r_result_bytes r
       then r_status r' = StatusCompleted \<and> (\<exists>s. fst (CompleteLeased e sid n w res d) = Inr s
              \<and> sub_Status s = StatusCompleted \<and> sub_Result s = Some res)
       else r_status r' = StatusFailed \<and> r_result_enc r' = None
            \<and> r_error_code r' = Some CodeResultTooLarge
            \<and> (\<exists>err. fst (CompleteLeased e sid n w res d) = Inl err \<and> errors_Is err ErrResultTooLarge))"
proof -
  have ok: "row_ok key sid r" using assms(1,4) by (simp add: db_inv_def)
  have lim: "loadAcceptedLimits e sid d = Inr (row_limits r)"
    using assms(3,4) ok by (simp add: loadAcceptedLimits_def row_ok_def)
  have k: "env_key e = key" using assms(2) by (simp add: env_ok_def)
  have allowed: "Terminal to \<Longrightarrow> Allowed (r_status r) to" for to
    using assms(5) by (auto simp: Allowed_to_terminal)
  define row' where "row' to x f = finish_row (row_limits r) (UnixMilli (env_later e)) to
    (map_option (Blob (env_key e) (blobAAD sid ''result'')) x) f r" for to x f
  define db' where "db' to x f = d\<lparr>submissions := put_row sid (row' to x f) (submissions d)\<rparr>" for to x f
  have run: "finish e sid to x f (Some (n, w)) d = (GetSubmission e (db' to x f) sid, db' to x f)"
    if "Terminal to" for to x f
    using finish_runs [OF assms(3,1,4) allowed [OF that] assms(7)] by (simp add: db'_def row'_def Let_def)
  have at: "row_at (submissions (db' to x f)) sid = Some (row' to x f)" for to x f
    by (simp add: db'_def)
  have good: "row_ok key sid (row' to x f)" if "Terminal to"
    "to = StatusCompleted \<Longrightarrow> x \<noteq> None \<and> f = None" "to \<noteq> StatusCompleted \<Longrightarrow> x = None \<and> f \<noteq> None" for to x f
    using finish_row_good [of r to "map_option (Blob (env_key e) (blobAAD sid ''result'')) x" f key sid] that
      ok k allowed by (cases x) (auto simp: row'_def good_update_def)
  have get: "\<exists>s. GetSubmission e (db' to x f) sid = Inr s \<and> sub_Status s = to
      \<and> sub_Result s = map_option blob_plain (r_result_enc (row' to x f))" if "row_ok key sid (row' to x f)" for to x f
    using GetSubmission_row [OF that k _ at] assms(3) by (auto simp: row'_def finish_row_def)
  have cols: "r_status (row' to x f) = to" "r_error_code (row' to x f) = map_option ce_Code f"
    "r_result_enc (row' to x f) = map_option (Blob (env_key e) (blobAAD sid ''result'')) x" for to x f
    by (simp_all add: row'_def finish_row_def)
  show ?thesis
  proof (cases "result_size res \<le> r_result_bytes r")
    case True
    then have eq: "CompleteLeased e sid n w res d = (GetSubmission e (db' StatusCompleted (Some res) None) sid,
        db' StatusCompleted (Some res) None)"
      using lim assms(6) run by (simp add: CompleteLeased_def complete_def result_size_def row_limits_def)
    obtain s where "GetSubmission e (db' StatusCompleted (Some res) None) sid = Inr s"
      "sub_Status s = StatusCompleted" "sub_Result s = Some res"
      using get [OF good, of StatusCompleted "Some res" None] cols(3) by auto
    with True eq show ?thesis using cols by (auto simp: db'_def)
  next
    case False
    obtain s where s: "GetSubmission e (db' StatusFailed None (Some result_too_large)) sid = Inr s"
      using get [OF good, of StatusFailed None "Some result_too_large"] by auto
    have eq: "CompleteLeased e sid n w res d = (Inl (Errorf sid [Sentinel ErrResultTooLarge]),
        db' StatusFailed None (Some result_too_large))"
      using False lim assms(6) run s by (simp add: CompleteLeased_def complete_def result_size_def row_limits_def)
    then show ?thesis using False cols by (auto simp: db'_def result_too_large_def)
  qed
qed

definition running_db :: db where
  "running_db = history perform (take 4 demo_history) empty_db"

lemma running_inv: "db_inv ''key'' running_db"
  unfolding running_db_def
  by (rule store.history_inv [OF db_inv_empty]) (simp add: demo_history_def demo_env_ok)

lemma running_status: "demo_status running_db = Some StatusRunning"
  by code_simp

theorem complete_outcome_witness:
  "\<exists>s. fst (CompleteLeased (demo_env 5) ''s1'' ''submission/s1'' ''w'' demo_result running_db) = Inr s
     \<and> sub_Status s = StatusCompleted \<and> sub_Result s = Some demo_result"
proof -
  obtain r where r: "row_at (submissions running_db) ''s1'' = Some r" "r_status r = StatusRunning"
    using running_status by (auto simp: demo_status_def)
  have "map_option r_result_bytes (row_at (submissions running_db) ''s1'') = Some (8 * MiB)" by code_simp
  then have b: "r_result_bytes r = 8 * MiB" using r by simp
  have size: "result_size demo_result \<le> 8 * MiB" by code_simp
  have v: "Result_Validate demo_result = Inr ()" by code_simp
  have l: "holds running_db ''submission/s1'' ''w'' (UnixMilli (env_now (demo_env 5)))" by code_simp
  have nf: "no_faults (demo_env 5)" by (simp add: no_faults_def demo_env_def)
  show ?thesis
    using complete_outcome [OF running_inv demo_env_ok nf r(1) _ v l] r(2) b size by auto
qed

section \<open>Events\<close>

text \<open>
  C10: Appending events. A successful append stores, for this submission, the longest suffix of the old
  log followed by the new events whose count and total encoded size are within the limits accepted with
  the submission: an event is dropped only when no log that ends like this one and still holds it fits,
  and then every older one is dropped too. The sequences are strictly increasing, at least 1 and at most
  the new row sequence (the last appended one). A terminal submission takes no events.
\<close>

theorem append_events_log:
  assumes "db_inv key d" "env_ok key e" "evs \<noteq> []" "row_at (submissions d) sid = Some r"
    and "AppendEvents e sid evs d = (Inr s, d')"
  shows "\<not> Terminal (r_status r) \<and> log_ok sid (row_limits r) (sub_Events s, sub_Sequence s)
    \<and> suffix (sub_Events s) ((case r_events_enc r of None \<Rightarrow> [] | Some b \<Rightarrow> blob_plain b) @ evs)
    \<and> (\<forall>ys. suffix ys ((case r_events_enc r of None \<Rightarrow> [] | Some b \<Rightarrow> blob_plain b) @ evs)
         \<and> int (length ys) \<le> al_MaxEvents (row_limits r) \<and> encodedEventsSize ys \<le> al_EventsBytes (row_limits r)
         \<longrightarrow> suffix ys (sub_Events s))
    \<and> sub_Sequence s = ev_Sequence (last evs) \<and> r_sequence r < sub_Sequence s
    \<and> (\<exists>r'. row_at (submissions d') sid = Some r' \<and> r_sequence r' = sub_Sequence s
         \<and> map_option blob_plain (r_events_enc r') = Some (sub_Events s))"
proof -
  let ?old = "case r_events_enc r of None \<Rightarrow> [] | Some b \<Rightarrow> blob_plain b"
  have "append_body e sid evs d = Inr (s, d')"
    using assms(3,5) by (simp add: AppendEvents_def writeTx_Inr)
  then obtain s0 s1 merged seq where b: "loadEncrypted e d sid = Inr s0" "decryptSubmission e s0 = Inr s1"
      "\<not> Terminal (sub_Status s1)" "mergeEvents s1 evs (sub_AcceptedLimits s1) = Inr (merged, seq)"
      "s = s1\<lparr>sub_Events := merged, sub_Sequence := seq, sub_UpdatedAt := UnixMilli (env_now e)\<rparr>"
    and upd: "requireUpdated (update_where sid (\<lambda>r. r_status r = sub_Status s1 \<and> r_sequence r = sub_Sequence s1)
        (\<lambda>r. r\<lparr>r_events_enc := Some (Blob (env_key e) (blobAAD sid ''events'') merged), r_sequence := seq,
           r_updated_at := UnixMilli (env_now e)\<rparr>) d) = Inr ((), d')"
    by (auto simp: append_body_def result_simps seal_blob_iff Let_def split: prod.splits)
  have s0: "sub_Status s0 = r_status r" "sub_AcceptedLimits s0 = row_limits r"
      "sub_Sequence s0 = r_sequence r" "sub_ID s0 = sid" "sub_encEvents s0 = r_events_enc r"
    using b(1) assms(4) by (auto elim: loadEncrypted_row)
  note s1 = decrypt_events [OF b(2)]
  have ok: "row_ok key sid r" using assms(1,4) by (simp add: db_inv_def)
  then have lims: "0 < al_MaxEvents (row_limits r)"
    by (simp add: row_ok_def AcceptedLimits_validate_iff)
  have nt: "\<not> Terminal (r_status r)" using b(3) s1 s0 by simp
  then have log: "log_ok sid (row_limits r) (?old, r_sequence r)"
    using ok lims by (cases "r_events_enc r") (auto simp: row_ok_def events_ok_def log_ok_def)
  have m: "rfold (merge_step sid (row_limits r)) evs (?old, r_sequence r) = Inr (merged, seq)"
    using b(4) s0 s1 by (simp add: mergeEvents_def)
  have seq: "r_sequence r < seq"
  proof -
    obtain ev rest where ev: "evs = ev # rest" using assms(3) by (cases evs) auto
    from m ev obtain st where st: "merge_step sid (row_limits r) ev (?old, r_sequence r) = Inr st"
        "rfold (merge_step sid (row_limits r)) rest st = Inr (merged, seq)" by (auto simp: result_simps)
    have "log_ok sid (row_limits r) st \<and> r_sequence r < snd st"
      using merge_step_ok [OF log _ st(1)] lims by auto
    with merge_ok [OF st(2)] lims show ?thesis by fastforce
  qed
  have "log_ok sid (row_limits r) (merged, seq) \<and> seq = ev_Sequence (last evs)"
    using merge_ok [OF m log] lims assms(3) by auto
  moreover have "suffix merged (?old @ evs)" using merge_suffix [OF m] by simp
  moreover have "\<forall>ys. suffix ys (?old @ evs) \<and> int (length ys) \<le> al_MaxEvents (row_limits r)
      \<and> encodedEventsSize ys \<le> al_EventsBytes (row_limits r) \<longrightarrow> suffix ys merged"
    using merge_maximal [OF m] by simp
  moreover have "\<exists>r'. row_at (submissions d') sid = Some r' \<and> r_sequence r' = seq
         \<and> map_option blob_plain (r_events_enc r') = Some merged"
    using upd by (auto simp: requireUpdated_iff)
  ultimately show ?thesis using nt seq b(5) by auto
qed

definition demo_event :: event where
  "demo_event = \<lparr>ev_SubmissionID = ''s1'', ev_Sequence = 1, ev_Timestamp = ''t'', ev_State = StatusRunning,
     ev_Step = None, ev_Message = ''m''\<rparr>"

theorem append_events_log_witness:
  "\<exists>s d'. AppendEvents (demo_env 5) ''s1'' [demo_event] running_db = (Inr s, d') \<and> sub_Sequence s = 1
     \<and> demo_event \<in> set (sub_Events s)"
proof -
  have "case fst (AppendEvents (demo_env 5) ''s1'' [demo_event] running_db) of Inl _ \<Rightarrow> False | Inr _ \<Rightarrow> True"
    by code_simp
  then obtain s where s: "AppendEvents (demo_env 5) ''s1'' [demo_event] running_db
      = (Inr s, snd (AppendEvents (demo_env 5) ''s1'' [demo_event] running_db))"
    by (auto simp: prod_eq_iff split: sum.splits)
  obtain r where r: "row_at (submissions running_db) ''s1'' = Some r"
    using running_status by (auto simp: demo_status_def)
  note log = append_events_log [OF running_inv demo_env_ok _ r s]
  have "int (length [demo_event]) \<le> al_MaxEvents (row_limits r) \<and> encodedEventsSize [demo_event] \<le> al_EventsBytes (row_limits r)"
  proof -
    have "case row_at (submissions running_db) ''s1'' of None \<Rightarrow> False
        | Some r \<Rightarrow> 1 \<le> al_MaxEvents (row_limits r) \<and> encodedEventsSize [demo_event] \<le> al_EventsBytes (row_limits r)"
      by code_simp
    then show ?thesis using r by simp
  qed
  then have "suffix [demo_event] (sub_Events s)" using log by (simp add: suffix_def)
  then have "demo_event \<in> set (sub_Events s)" by (auto simp: suffix_def)
  moreover have "sub_Sequence s = 1" using log by (simp add: demo_event_def)
  ultimately show ?thesis using s by blast
qed

text \<open>
  The incremental size count is exact: \<open>encodedEventsSize\<close> is the length of the JSON array the
  store encodes and seals.
\<close>

theorem events_size_exact:
  "encodedEventsSize evs = int (length (encode (JArr (map event_json evs))))"
  by (rule encodedEventsSize_encode)

text \<open>
  Trimming drops the oldest events and no more than it must: the result is the longest suffix
  of the log within both bounds.
\<close>

theorem trim_longest_suffix:
  assumes "0 \<le> al_MaxEvents lim"
  shows "suffix (trimEvents evs lim) evs
    \<and> int (length (trimEvents evs lim)) \<le> al_MaxEvents lim
    \<and> (trimEvents evs lim = [] \<or> encodedEventsSize (trimEvents evs lim) \<le> al_EventsBytes lim)
    \<and> (\<forall>ys. suffix ys evs \<and> int (length ys) \<le> al_MaxEvents lim
         \<and> encodedEventsSize ys \<le> al_EventsBytes lim \<longrightarrow> suffix ys (trimEvents evs lim))"
  using trimEvents_suffix trimEvents_bounds [OF assms] trimEvents_maximal by blast

theorem trim_longest_suffix_witness:
  "suffix (trimEvents [demo_event, demo_event\<lparr>ev_Sequence := 2\<rparr>]
      ((acceptedLimitsFrom Default)\<lparr>al_MaxEvents := 1\<rparr>)) [demo_event, demo_event\<lparr>ev_Sequence := 2\<rparr>]"
  using trim_longest_suffix [of "(acceptedLimitsFrom Default)\<lparr>al_MaxEvents := 1\<rparr>"] by simp

text \<open>An event just under the byte bound is accepted and then trimmed away again: the array around
  it no longer fits. The log is then empty while the row's sequence has advanced.\<close>

lemma event_at_bound_dropped:
  assumes "merge_step sid lim ev ([], q) = Inr (log, n)" "al_EventsBytes lim < event_size ev + 2"
  shows "log = [] \<and> n = ev_Sequence ev"
proof -
  have "encodedEventsSize [ev] > al_EventsBytes lim"
    using assms(2) by (simp add: encodedEventsSize_def)
  then have "trimEvents [ev] lim = []" by (simp add: trimEvents_def)
  then show ?thesis using assms(1) by (auto simp: merge_step_Inr)
qed

lemma append_terminal_fails:
  assumes "row_at (submissions d) sid = Some r" "Terminal (r_status r)" "evs \<noteq> []"
  shows "snd (AppendEvents e sid evs d) = d \<and> (\<exists>err. fst (AppendEvents e sid evs d) = Inl err)"
proof -
  have no: "append_body e sid evs d \<noteq> Inr x" for x
  proof
    assume "append_body e sid evs d = Inr x"
    then obtain s0 s where "loadEncrypted e d sid = Inr s0" "decryptSubmission e s0 = Inr s"
      "\<not> Terminal (sub_Status s)" by (auto simp: append_body_def result_simps)
    with assms(1,2) show False using decrypt_events(3) loadEncrypted_row by fastforce
  qed
  show ?thesis
  proof (cases rule: writeTx_cases [of e "''event append''" "append_body e sid evs" d])
    case (unchanged err)
    then show ?thesis using assms(3) by (simp add: AppendEvents_def)
  next
    case (committed a d')
    with no show ?thesis by blast
  qed
qed

section \<open>Retention\<close>

text \<open>
  C11: The sweep is complete and touches nothing else. After a sweep at time t no row has an expired
  tombstone, no row past its payload deadline has any payload left, submissions that are not terminal
  are unchanged, and a deleted submission leaves neither its idempotency entry nor any recorded
  input response.
\<close>

theorem sweep_complete:
  assumes "db_inv key d" "no_faults e" "t = UnixMilli (env_now e)"
  shows "(\<forall>sid r. row_at (submissions (snd (GC e d))) sid = Some r \<longrightarrow>
        (\<forall>x. r_tombstone_expires_at r = Some x \<longrightarrow> t < x)
        \<and> (\<forall>x. r_payload_expires_at r = Some x \<and> x \<le> t \<longrightarrow> \<not> has_payload r))
    \<and> (\<forall>sid r. row_at (submissions d) sid = Some r \<and> \<not> Terminal (r_status r) \<longrightarrow>
        row_at (submissions (snd (GC e d))) sid = Some r)
    \<and> (\<forall>sid r. row_at (submissions d) sid = Some r \<and> row_at (submissions (snd (GC e d))) sid = None \<longrightarrow>
        row_at (idempotency (snd (GC e d))) (r_client_request_id r) = None
        \<and> (\<forall>rid. row_at (input_responses (snd (GC e d))) (sid, rid) = None))"
proof -
  have gc: "snd (GC e d) = swept t d"
    using assms(2,3) by (simp add: GC_def Let_def swept_def writeTx_ok split_beta)
  have pks: "pk (submissions d)" using assms(1) by (simp add: db_inv_def)
  have rows: "row_ok key sid r" if "row_at (submissions d) sid = Some r" for sid r
    using assms(1) that by (simp add: db_inv_def)
  have one: "(\<forall>x. r_tombstone_expires_at r = Some x \<longrightarrow> t < x)
      \<and> (\<forall>x. r_payload_expires_at r = Some x \<and> x \<le> t \<longrightarrow> \<not> has_payload r)"
    if "row_at (submissions (swept t d)) sid = Some r" for sid r
  proof -
    note swept_row = that
    obtain r0 where r0: "row_at (submissions d) sid = Some r0" "\<not> tombstone_due t r0" "r = sweep_row t r0"
      using swept_row swept_submissions [OF pks, of t sid]
      by (cases "row_at (submissions d) sid") (simp_all split: if_splits)
    have "\<not> has_payload (expire_row t r0)" by (simp add: expire_row_def has_payload_def)
    then show ?thesis
      using terminal_stamped [OF rows [OF r0(1)]] r0(2)
      by (auto simp: r0(3) sweep_row_def payload_due_def tombstone_due_def split: option.splits if_splits)
  qed
  have two: "row_at (submissions (swept t d)) sid = Some r"
    if "row_at (submissions d) sid = Some r" "\<not> Terminal (r_status r)" for sid r
    using terminal_stamped [OF rows [OF that(1)]] that
    by (auto simp: swept_submissions [OF pks] sweep_row_def payload_due_def tombstone_due_def
        split: option.splits)
  have three: "row_at (idempotency (swept t d)) (r_client_request_id r) = None
      \<and> row_at (input_responses (swept t d)) (sid, rid) = None"
    if "row_at (submissions d) sid = Some r" "row_at (submissions (swept t d)) sid = None" for sid r rid
  proof -
    have "tombstone_due t r" using that by (simp add: swept_submissions [OF pks] split: if_splits)
    then have "r_client_request_id r \<in> snd ` set (lapsed_tombstones t d)"
      "sid \<in> fst ` set (lapsed_tombstones t d)"
      using that(1) lapsed_snd [OF pks] lapsed_fst [OF pks] by blast+
    then show ?thesis by (simp add: swept_idempotency swept_responses)
  qed
  show ?thesis unfolding gc using one two three by blast
qed

theorem sweep_complete_witness:
  "\<exists>r. row_at (submissions (snd (GC (demo_env 700000000) demo_db))) ''s1'' = Some r
     \<and> r_tombstone_expires_at r \<noteq> Some 700000000 \<and> \<not> has_payload r \<and> r_status r = StatusExpired"
proof -
  have "no_faults (demo_env 700000000)" "700000000 = UnixMilli (env_now (demo_env 700000000))"
    by (simp_all add: no_faults_def demo_env_def UnixMilli_def Millisecond_def)
  note swept = sweep_complete [OF demo_inv this]
  have "map_option (\<lambda>r. (r_status r, (case r_payload_expires_at r of Some x \<Rightarrow> x \<le> 700000000 | None \<Rightarrow> False)))
      (row_at (submissions (snd (GC (demo_env 700000000) demo_db))) ''s1'') = Some (StatusExpired, True)" by code_simp
  then obtain r x where "row_at (submissions (snd (GC (demo_env 700000000) demo_db))) ''s1'' = Some r"
    "r_status r = StatusExpired" "r_payload_expires_at r = Some x" "x \<le> 700000000"
    by (auto split: option.splits)
  with swept show ?thesis by blast
qed

section \<open>Input responses\<close>

text \<open>
  The first recorded response wins. Once a response is recorded, any later attempt leaves the
  database as it is and succeeds exactly when it offers the same text, and reading returns the
  recorded value.
\<close>

theorem first_response_wins:
  assumes "env_key e = key" "SetInputResponse e sid rid (Some v) d = (Inr (), d')"
    and "row_at (input_responses d) (sid, rid) = None"
    and "env_key e' = key" "no_faults e'"
  shows "GetInputResponse e' sid rid d' = Inr (Some v)
    \<and> SetInputResponse e' sid rid (Some v') d'
        = (if encode v = encode v' then Inr () else Inl (Sentinel ErrInputResponseConflict), d')"
proof -
  have ids: "ids_required sid rid = Inr ()"
    using assms(2) by (auto simp: SetInputResponse_def result_simps split: sum.splits)
  have row: "row_at (input_responses d') (sid, rid) = Some \<lparr>ir_response_enc =
      Blob key (blobAAD sid (response_kind rid)) v, ir_answered_at = UnixMilli (env_now e), ir_sent_at = None\<rparr>"
    using assms(1-3) by (auto simp: SetInputResponse_def result_simps seal_blob_iff split: sum.splits)
  have get: "GetInputResponse e' sid rid d' = Inr (Some v)"
    using ids row assms(4,5) by (simp add: GetInputResponse_def open_blob_def)
  moreover have "seal_blob e' v' sid (response_kind rid)
      = Inr (Blob (env_key e') (blobAAD sid (response_kind rid)) v')"
    using assms(5) by (simp add: seal_blob_iff)
  ultimately show ?thesis
    using ids row assms(5) by (simp add: SetInputResponse_def ensure_def)
qed

theorem first_response_wins_witness:
  "\<exists>d'. SetInputResponse (demo_env 1) ''s1'' ''q'' (Some (JStr ''a'')) empty_db = (Inr (), d')
     \<and> SetInputResponse (demo_env 2) ''s1'' ''q'' (Some (JStr ''b'')) d'
        = (Inl (Sentinel ErrInputResponseConflict), d')"
proof -
  let ?d = "snd (SetInputResponse (demo_env 1) ''s1'' ''q'' (Some (JStr ''a'')) empty_db)"
  have "fst (SetInputResponse (demo_env 1) ''s1'' ''q'' (Some (JStr ''a'')) empty_db) = Inr ()" by code_simp
  then have set: "SetInputResponse (demo_env 1) ''s1'' ''q'' (Some (JStr ''a'')) empty_db = (Inr (), ?d)"
    by (simp add: prod_eq_iff)
  have none: "row_at (input_responses empty_db) (''s1'', ''q'') = None" by (simp add: empty_db_def)
  have k: "env_key (demo_env t) = ''key''" "no_faults (demo_env t)" for t
    by (simp_all add: demo_env_def no_faults_def)
  have "encode (JStr ''a'') \<noteq> encode (JStr ''b'')" by code_simp
  then show ?thesis
    using first_response_wins [OF k(1) set none k(1) k(2), of 2 "JStr ''b''"] set by (intro exI [of _ ?d]) simp
qed

section \<open>Credential fences\<close>

lemma retired_name_differs: "retiredCredentialSlotName f s \<noteq> f"
proof
  assume "retiredCredentialSlotName f s = f"
  then have "length (retiredCredentialSlotName f s) = length f" by simp
  then show False by (simp add: retiredCredentialSlotName_def)
qed

lemma enqueue_row:
  "row_at (credential_fence (enqueue f s d)) name =
     (if name = retiredCredentialSlotName f s
      then Some (case row_at (credential_fence d) name of
          None \<Rightarrow> \<lparr>f_generation = 0, f_slot = s\<rparr> | Some x \<Rightarrow> x\<lparr>f_slot := s\<rparr>)
      else row_at (credential_fence d) name)"
  by (simp add: enqueue_def Let_def)

definition recorded :: "string \<Rightarrow> string \<Rightarrow> db \<Rightarrow> bool" where
  "recorded f s d \<longleftrightarrow> map_option f_slot (row_at (credential_fence d) (retiredCredentialSlotName f s)) = Some s"

lemma retired_name_inj: "retiredCredentialSlotName f s = retiredCredentialSlotName f s' \<longleftrightarrow> s = s'"
  by (simp add: retiredCredentialSlotName_def)

lemma recorded_enqueue: "recorded f s (enqueue f s' d) \<longleftrightarrow> s = s' \<or> recorded f s d"
  by (auto simp: recorded_def enqueue_row retired_name_inj split: option.splits)

lemma enqueue_commit_recorded:
  "recorded (cf_FenceName c) s (enqueue_commit c d) \<longleftrightarrow>
     recorded (cf_FenceName c) s d \<or> (s = cf_PreviousSlot c \<and> s \<noteq> '''')
     \<or> (s \<in> set (cf_RetiredLabels c) \<and> s \<noteq> '''' \<and> s \<noteq> cf_PreviousSlot c \<and> s \<noteq> cf_Slot c)"
proof -
  have "recorded f s (fold (\<lambda>l d. if P l then d else enqueue f l d) ls d) \<longleftrightarrow>
      recorded f s d \<or> (s \<in> set ls \<and> \<not> P s)" for P ls f d
    by (induction ls arbitrary: d) (auto simp: recorded_enqueue)
  then show ?thesis by (auto simp: enqueue_commit_def recorded_enqueue)
qed

lemma enqueue_commit_fence:
  "row_at (credential_fence (enqueue_commit c d)) (cf_FenceName c) = row_at (credential_fence d) (cf_FenceName c)"
proof -
  have ne: "f \<noteq> retiredCredentialSlotName f s" for f s using retired_name_differs [of f s] by simp
  have "row_at (credential_fence (fold (\<lambda>l d. if P l then d else enqueue f l d) ls d)) f
      = row_at (credential_fence d) f" for P ls f d
    by (induction ls arbitrary: d) (auto simp: enqueue_row ne)
  then show ?thesis by (simp add: enqueue_commit_def enqueue_row ne)
qed

text \<open>
  C12: The fence is a compare-and-swap. A commit that reports success was made in a live lease epoch
  and strictly raised the fence generation; it points the fence at the new slot and leaves a
  retirement record for the slot it replaced and for every retired label. A commit that does not
  report success changes nothing.
\<close>

theorem fence_commit:
  "(case CommitCredentialFence e c d of
      (Inr True, d') \<Rightarrow>
        epoch_held e (cf_LeaseName c) (cf_LeaseOwner c) (cf_LeaseGeneration c) d
        \<and> (\<forall>f. row_at (credential_fence d) (cf_FenceName c) = Some f \<longrightarrow> f_generation f < cf_FenceGeneration c)
        \<and> row_at (credential_fence d') (cf_FenceName c)
            = Some \<lparr>f_generation = cf_FenceGeneration c, f_slot = cf_Slot c\<rparr>
        \<and> (cf_PreviousSlot c \<noteq> '''' \<longrightarrow> recorded (cf_FenceName c) (cf_PreviousSlot c) d')
        \<and> (\<forall>l \<in> set (cf_RetiredLabels c). l \<noteq> '''' \<and> l \<noteq> cf_Slot c \<longrightarrow> recorded (cf_FenceName c) l d')
    | (_, d') \<Rightarrow> d' = d)"
proof (cases "fst (CommitCredentialFence e c d) = Inr True")
  case True
  let ?d = "d\<lparr>credential_fence := put_row (cf_FenceName c)
     \<lparr>f_generation = cf_FenceGeneration c, f_slot = cf_Slot c\<rparr> (credential_fence d)\<rparr>"
  have held: "epoch_held e (cf_LeaseName c) (cf_LeaseOwner c) (cf_LeaseGeneration c) d" "fence_advances c d"
    and eq: "CommitCredentialFence e c d = (Inr True, enqueue_commit c ?d)"
    using True by (auto simp: CommitCredentialFence_def split: sum.splits if_splits)
  have "row_at (credential_fence (enqueue_commit c ?d)) (cf_FenceName c)
      = Some \<lparr>f_generation = cf_FenceGeneration c, f_slot = cf_Slot c\<rparr>"
    by (simp add: enqueue_commit_fence)
  then show ?thesis
    using held by (auto simp: eq fence_advances_def enqueue_commit_recorded split: option.splits)
next
  case False
  have "snd (CommitCredentialFence e c d) = d"
    using False by (auto simp: CommitCredentialFence_def split: sum.splits if_splits)
  with False show ?thesis by (auto split: prod.splits sum.splits bool.splits)
qed

theorem fence_commit_witness:
  "fst (CommitCredentialFence (demo_env 2) \<lparr>cf_FenceName = RefreshFenceName, cf_FenceGeneration = 1,
     cf_Slot = ''a'', cf_PreviousSlot = ''z'', cf_RetiredLabels = [], cf_LeaseName = ''n'', cf_LeaseOwner = ''w'',
     cf_LeaseGeneration = 1\<rparr> lease_db) = Inr True
   \<and> recorded RefreshFenceName ''z'' (snd (CommitCredentialFence (demo_env 2) \<lparr>cf_FenceName = RefreshFenceName,
     cf_FenceGeneration = 1, cf_Slot = ''a'', cf_PreviousSlot = ''z'', cf_RetiredLabels = [], cf_LeaseName = ''n'',
     cf_LeaseOwner = ''w'', cf_LeaseGeneration = 1\<rparr> lease_db))"
  (is "fst ?commit = _ \<and> _")
proof -
  have ok: "fst ?commit = Inr True" by code_simp
  then have "?commit = (Inr True, snd ?commit)" by (simp add: prod_eq_iff)
  with fence_commit [where e = "demo_env 2" and d = lease_db and c = "\<lparr>cf_FenceName = RefreshFenceName, cf_FenceGeneration = 1,
     cf_Slot = ''a'', cf_PreviousSlot = ''z'', cf_RetiredLabels = [], cf_LeaseName = ''n'', cf_LeaseOwner = ''w'',
     cf_LeaseGeneration = 1\<rparr>"] ok show ?thesis by (simp split: prod.splits)
qed

lemma like_percent: "sql_like [CHR ''%''] s"
  by (induction s) (simp_all add: sql_like.simps)

lemma like_skip:
  assumes "sql_like ps s"
  shows "sql_like (c # ps) (c # s)"
proof (cases "c = CHR ''%''")
  case True
  have "sql_like (c # ps) s" using assms True sql_like.simps(2) [of c ps s] by simp
  then show ?thesis using True sql_like.simps(2) [of c ps "c # s"] by simp
next
  case False
  then show ?thesis using assms sql_like.simps(2) [of c ps "c # s"] by simp
qed

lemma like_prefix: "sql_like (p @ [CHR ''%'']) (p @ s)"
  by (induction p) (simp_all add: like_percent like_skip)

text \<open>
  Retirement records are found again: a recorded slot is in the list the retirement retry reads.
\<close>

theorem retired_slot_listed:
  assumes "recorded f s d" "f \<noteq> ''''" "no_faults e"
  shows "\<exists>slots. RetiredCredentialSlots e f d = Inr slots \<and> s \<in> set slots"
proof -
  obtain x where x: "row_at (credential_fence d) (retiredCredentialSlotName f s) = Some x" "f_slot x = s"
    using assms(1) by (auto simp: recorded_def)
  have "sql_like (f @ ''-retired:%'') (retiredCredentialSlotName f s)"
    using like_prefix [of "f @ ''-retired:''" s] by (simp add: retiredCredentialSlotName_def)
  then have "s \<in> set (map (\<lambda>p. f_slot (snd p))
      (filter (\<lambda>p. sql_like (f @ ''-retired:%'') (fst p)) (credential_fence d)))"
    using row_at_in_set [OF x(1)] x(2) by force
  then show ?thesis using assms(2,3) by (simp add: RetiredCredentialSlots_def)
qed

theorem retired_slot_listed_witness:
  "\<exists>slots. RetiredCredentialSlots (demo_env 3) RefreshFenceName (enqueue RefreshFenceName ''z'' empty_db) = Inr slots
     \<and> ''z'' \<in> set slots"
proof -
  have "recorded RefreshFenceName ''z'' (enqueue RefreshFenceName ''z'' empty_db)"
    by (simp add: recorded_enqueue)
  from retired_slot_listed [OF this, of "demo_env 3"] show ?thesis
    by (simp add: RefreshFenceName_def no_faults_def demo_env_def)
qed


text \<open>The recovery lists.\<close>

lemma listed_member:
  assumes "pk (submissions d)"
  shows "sid \<in> set (listed strategy sel d) \<longleftrightarrow>
    (\<exists>r. row_at (submissions d) sid = Some r \<and> r_strategy r = strategy \<and> sel (r_status r))"
  using assms by (force simp: listed_def row_at_def pk_def)

lemma listed_distinct: "pk (submissions d) \<Longrightarrow> distinct (listed strategy sel d)"
  by (auto simp: listed_def pk_def distinct_map intro: inj_on_subset)

lemma map_two_split:
  "map f l = xs @ a # ys @ b # zs \<Longrightarrow> \<exists>us p vs q ws. l = us @ p # vs @ q # ws \<and> f p = a \<and> f q = b"
  by (fastforce simp: map_eq_append_conv map_eq_Cons_conv append_eq_map_conv Cons_eq_map_conv)

lemma listed_ordered:
  assumes "pk (submissions d)" "row_at (submissions d) a = Some ra" "row_at (submissions d) b = Some rb"
    and "listed strategy sel d = xs @ a # ys @ b # zs"
  shows "(r_created_at ra, a) \<le> (r_created_at rb, b)"
proof -
  let ?k = "\<lambda>p. (r_created_at (snd p), fst p)"
  let ?l = "sort_key ?k (filter (\<lambda>p. r_strategy (snd p) = strategy \<and> sel (r_status (snd p))) (submissions d))"
  have l: "map fst ?l = xs @ a # ys @ b # zs" using assms(4) by (simp add: listed_def)
  have "p \<in> set (submissions d)" if "p \<in> set ?l" for p using that by simp
  moreover obtain us p vs q ws where s: "?l = us @ p # vs @ q # ws" "fst p = a" "fst q = b"
    using map_two_split [OF l] by blast
  ultimately have "p \<in> set (submissions d)" "q \<in> set (submissions d)" by auto
  then have "snd p = ra" "snd q = rb" using assms(1-3) s(2,3)
    by (metis option.inject prod.collapse row_at_eqD)+
  moreover have "sorted (map ?k ?l)" by simp
  ultimately show ?thesis using s by (auto simp: sorted_append)
qed

text \<open>
  The recovery list. \<open>ListRunnable\<close> returns, each exactly once, the submissions of the strategy
  whose status is accepted, queued or running, in the order of creation time and then ID.
\<close>

theorem recovery_list:
  assumes "db_inv key d" "strategy \<noteq> ''''" "env_fault e QueryStmt = None"
  shows "\<exists>ids. ListRunnable e strategy d = Inr ids \<and> distinct ids
    \<and> (\<forall>sid. sid \<in> set ids \<longleftrightarrow> (\<exists>r. row_at (submissions d) sid = Some r \<and> r_strategy r = strategy
          \<and> r_status r \<in> {StatusAccepted, StatusQueued, StatusRunning}))
    \<and> (\<forall>xs a ys b zs ra rb. ids = xs @ a # ys @ b # zs \<longrightarrow> row_at (submissions d) a = Some ra
          \<longrightarrow> row_at (submissions d) b = Some rb \<longrightarrow> (r_created_at ra, a) \<le> (r_created_at rb, b))"
proof -
  have pk: "pk (submissions d)" using assms(1) by (simp add: db_inv_def)
  have "ListRunnable e strategy d
      = Inr (listed strategy (\<lambda>st. st \<in> {StatusAccepted, StatusQueued, StatusRunning}) d)"
    using assms(2,3) by (simp add: ListRunnable_def)
  then show ?thesis using listed_member [OF pk] listed_distinct [OF pk] listed_ordered [OF pk] by fastforce
qed

theorem recovery_list_witness:
  "\<exists>ids. ListRunnable (demo_env 1) ''local_replayable'' demo_db = Inr ids \<and> distinct ids"
  using recovery_list [OF demo_inv, of "''local_replayable''" "demo_env 1"]
  by (auto simp: demo_env_def)

end
