(* ===== verification/Worker_Pool.thy ===== *)
theory Worker_Pool
  imports Store_Base
begin

text \<open>
  The dispatch pool (\<open>internal/worker/service.go\<close>) as a transition system: the prompt queue, the
  execution slots, the parking places, the in-flight marks, the dispatch loop and the goroutines it
  starts. Channel operations and \<open>sync.Map\<close> operations are the atomic steps, so every interleaving
  of the loop, the callers of \<open>Offer\<close> and the goroutines is a run of \<open>pool_step\<close>.
\<close>

section \<open>Definitions\<close>

definition queueDepth :: nat where
  "queueDepth = 256"

definition defaultMaxInFlight :: int where
  "defaultMaxInFlight = 8"

definition defaultSweepInterval :: int where
  "defaultSweepInterval = 5 * Second"

text \<open>The pool bound and sweep interval \<open>NewService\<close> settles on.\<close>

definition pool_size :: "int \<Rightarrow> nat" where
  "pool_size maxInFlight = nat (if maxInFlight \<le> 0 then defaultMaxInFlight else maxInFlight)"

definition sweep_interval :: "int \<Rightarrow> int" where
  "sweep_interval sweep = (if sweep < Millisecond then defaultSweepInterval else sweep)"

text \<open>
  A goroutine of \<open>execute\<close>: the ID, whether it holds a slot, whether it holds a parking place, and
  whether its body has returned so that only its deferred calls are left.
\<close>

record goroutine =
  g_id :: string
  g_slot :: bool
  g_park :: bool
  g_returned :: bool

text \<open>Where the dispatch loop is: waiting, holding an unplaced marked ID, past the slot attempt, or ended.\<close>

datatype loop_at = LoopSelect | LoopMarked string | LoopNoSlot string | LoopDone

record pool =
  p_queue :: "string list"
  p_slots :: nat
  p_parked :: nat
  p_inFlight :: "string list"
  p_loop :: loop_at
  p_running :: "goroutine list"
  p_drops :: nat
  p_cancelled :: bool

definition new_pool :: pool where
  "new_pool = \<lparr>p_queue = [], p_slots = 0, p_parked = 0, p_inFlight = [], p_loop = LoopSelect,
     p_running = [], p_drops = 0, p_cancelled = False\<rparr>"

definition Offer :: "string \<Rightarrow> pool \<Rightarrow> bool \<times> pool" where
  "Offer sid p =
     (if length (p_queue p) < queueDepth then (True, p\<lparr>p_queue := p_queue p @ [sid]\<rparr>)
      else (False, p\<lparr>p_drops := p_drops p + 1\<rparr>))"

definition Dispatch :: "string \<Rightarrow> pool \<Rightarrow> pool" where
  "Dispatch sid p = snd (Offer sid p)"

text \<open>One iteration of the loop of \<open>sweepRunnable\<close>; an ID in flight is skipped, a full queue drops it.\<close>

definition sweep_one :: "string \<Rightarrow> pool \<Rightarrow> pool" where
  "sweep_one sid p =
     (if sid \<in> set (p_inFlight p) then p
      else if length (p_queue p) < queueDepth then p\<lparr>p_queue := p_queue p @ [sid]\<rparr>
      else p)"

definition sweepRunnable :: "go_error + string list \<Rightarrow> pool \<Rightarrow> pool" where
  "sweepRunnable ids p = (case ids of Inl _ \<Rightarrow> p | Inr xs \<Rightarrow> fold sweep_one xs p)"

text \<open>The dispatch loop, one atomic operation at a time.\<close>

definition loop_receive :: "pool \<Rightarrow> pool" where
  "loop_receive p =
     (case p_queue p of
        [] \<Rightarrow> p
      | sid # rest \<Rightarrow>
          if sid = '''' \<or> sid \<in> set (p_inFlight p) then p\<lparr>p_queue := rest\<rparr>
          else p\<lparr>p_queue := rest, p_inFlight := sid # p_inFlight p, p_loop := LoopMarked sid\<rparr>)"

definition loop_slot :: "nat \<Rightarrow> string \<Rightarrow> pool \<Rightarrow> pool" where
  "loop_slot n sid p =
     (if p_slots p < n
      then p\<lparr>p_slots := p_slots p + 1, p_loop := LoopSelect,
             p_running := \<lparr>g_id = sid, g_slot = True, g_park = False, g_returned = False\<rparr> # p_running p\<rparr>
      else p\<lparr>p_loop := LoopNoSlot sid\<rparr>)"

definition loop_park :: "nat \<Rightarrow> string \<Rightarrow> pool \<Rightarrow> pool" where
  "loop_park n sid p =
     (if p_parked p < n
      then p\<lparr>p_parked := p_parked p + 1, p_loop := LoopSelect,
             p_running := \<lparr>g_id = sid, g_slot = False, g_park = True, g_returned = False\<rparr> # p_running p\<rparr>
      else p\<lparr>p_inFlight := removeAll sid (p_inFlight p), p_loop := LoopSelect\<rparr>)"

text \<open>
  The steps of the goroutine of one submission. Without a slot it waits for one, and only the cancelled
  context ends the wait; with one it runs, and \<open>finish\<close> is the return of \<open>runner.Run\<close>; then its deferred
  calls run in reverse order: give the slot back, give the parking place back, delete the mark.
\<close>

inductive execute_step :: "nat \<Rightarrow> string \<Rightarrow> pool \<Rightarrow> pool \<Rightarrow> bool" for n where
  take_slot: "p_running p = xs @ g # ys \<Longrightarrow> \<not> g_slot g \<Longrightarrow> \<not> g_returned g \<Longrightarrow> p_slots p < n \<Longrightarrow>
    execute_step n (g_id g) p (p\<lparr>p_slots := p_slots p + 1, p_running := xs @ g\<lparr>g_slot := True\<rparr> # ys\<rparr>)"
| give_up: "p_running p = xs @ g # ys \<Longrightarrow> \<not> g_slot g \<Longrightarrow> \<not> g_returned g \<Longrightarrow> p_cancelled p \<Longrightarrow>
    execute_step n (g_id g) p (p\<lparr>p_running := xs @ g\<lparr>g_returned := True\<rparr> # ys\<rparr>)"
| finish: "p_running p = xs @ g # ys \<Longrightarrow> g_slot g \<Longrightarrow> \<not> g_returned g \<Longrightarrow>
    execute_step n (g_id g) p (p\<lparr>p_running := xs @ g\<lparr>g_returned := True\<rparr> # ys\<rparr>)"
| give_slot: "p_running p = xs @ g # ys \<Longrightarrow> g_returned g \<Longrightarrow> g_slot g \<Longrightarrow>
    execute_step n (g_id g) p (p\<lparr>p_slots := p_slots p - 1, p_running := xs @ g\<lparr>g_slot := False\<rparr> # ys\<rparr>)"
| give_park: "p_running p = xs @ g # ys \<Longrightarrow> g_returned g \<Longrightarrow> \<not> g_slot g \<Longrightarrow> g_park g \<Longrightarrow>
    execute_step n (g_id g) p (p\<lparr>p_parked := p_parked p - 1, p_running := xs @ g\<lparr>g_park := False\<rparr> # ys\<rparr>)"
| unmark: "p_running p = xs @ g # ys \<Longrightarrow> g_returned g \<Longrightarrow> \<not> g_slot g \<Longrightarrow> \<not> g_park g \<Longrightarrow>
    execute_step n (g_id g) p (p\<lparr>p_inFlight := removeAll (g_id g) (p_inFlight p), p_running := xs @ ys\<rparr>)"

text \<open>
  The steps of the pool: callers of \<open>Dispatch\<close>, sweeps, the dispatch loop, the cancellation of \<open>Stop\<close>, and the
  goroutines. A cancelled loop may still receive: \<open>select\<close> chooses among what is ready.
\<close>

inductive pool_step :: "nat \<Rightarrow> pool \<Rightarrow> pool \<Rightarrow> bool" for n where
  offer: "pool_step n p (Dispatch sid p)"
| sweep: "pool_step n p (sweep_one sid p)"
| receive: "p_loop p = LoopSelect \<Longrightarrow> p_queue p \<noteq> [] \<Longrightarrow> pool_step n p (loop_receive p)"
| slot: "p_loop p = LoopMarked sid \<Longrightarrow> pool_step n p (loop_slot n sid p)"
| park: "p_loop p = LoopNoSlot sid \<Longrightarrow> pool_step n p (loop_park n sid p)"
| cancel: "pool_step n p (p\<lparr>p_cancelled := True\<rparr>)"
| exit_loop: "p_loop p = LoopSelect \<Longrightarrow> p_cancelled p \<Longrightarrow> pool_step n p (p\<lparr>p_loop := LoopDone\<rparr>)"
| execute: "execute_step n sid p q \<Longrightarrow> pool_step n p q"

text \<open>A step of some goroutine, and whether the goroutine of a submission holds a slot.\<close>

definition goroutine_step :: "nat \<Rightarrow> pool \<Rightarrow> pool \<Rightarrow> bool" where
  "goroutine_step n p q \<longleftrightarrow> (\<exists>sid. execute_step n sid p q)"

definition holds_slot :: "pool \<Rightarrow> string \<Rightarrow> bool" where
  "holds_slot p sid \<longleftrightarrow> list_ex (\<lambda>g. g_id g = sid \<and> g_slot g) (p_running p)"

section \<open>Lemmas\<close>

inductive_cases pool_stepE: "pool_step n p q"

fun loop_ids :: "loop_at \<Rightarrow> string list" where
  "loop_ids LoopSelect = []"
| "loop_ids (LoopMarked sid) = [sid]"
| "loop_ids (LoopNoSlot sid) = [sid]"
| "loop_ids LoopDone = []"

definition owned_ids :: "pool \<Rightarrow> string list" where
  "owned_ids p = loop_ids (p_loop p) @ map g_id (p_running p)"

definition count_if :: "('a \<Rightarrow> bool) \<Rightarrow> 'a list \<Rightarrow> nat" where
  "count_if P xs = length (filter P xs)"

lemma count_if_simps [simp]:
  "count_if P [] = 0"
  "count_if P (x # xs) = (if P x then 1 else 0) + count_if P xs"
  "count_if P (xs @ ys) = count_if P xs + count_if P ys"
  by (simp_all add: count_if_def)

text \<open>
  The invariant: the channel counters count the goroutines that hold them and stay within the
  bound, each goroutine holds what its place in the code says, and the in-flight marks are exactly
  the IDs of the loop and the goroutines, each once.
\<close>

definition pool_ok :: "nat \<Rightarrow> pool \<Rightarrow> bool" where
  "pool_ok n p \<longleftrightarrow>
     length (p_queue p) \<le> queueDepth
     \<and> p_slots p = count_if g_slot (p_running p) \<and> p_slots p \<le> n
     \<and> p_parked p = count_if g_park (p_running p) \<and> p_parked p \<le> n
     \<and> list_all (\<lambda>g. g_returned g \<or> g_slot g \<or> g_park g) (p_running p)
     \<and> distinct (owned_ids p) \<and> set (p_inFlight p) = set (owned_ids p)"

lemma sweep_one_frame [simp]:
  "p_slots (sweep_one sid p) = p_slots p" "p_parked (sweep_one sid p) = p_parked p"
  "p_inFlight (sweep_one sid p) = p_inFlight p" "p_loop (sweep_one sid p) = p_loop p"
  "p_running (sweep_one sid p) = p_running p"
  by (simp_all add: sweep_one_def)

lemma sweep_one_queue: "length (p_queue p) \<le> queueDepth \<Longrightarrow> length (p_queue (sweep_one sid p)) \<le> queueDepth"
  by (simp add: sweep_one_def)

lemma sweep_fold_frame [simp]:
  "p_slots (fold sweep_one xs p) = p_slots p" "p_parked (fold sweep_one xs p) = p_parked p"
  "p_inFlight (fold sweep_one xs p) = p_inFlight p" "p_loop (fold sweep_one xs p) = p_loop p"
  "p_running (fold sweep_one xs p) = p_running p"
  by (induction xs arbitrary: p) auto

lemma sweep_fold_queue:
  "length (p_queue p) \<le> queueDepth \<Longrightarrow> length (p_queue (fold sweep_one xs p)) \<le> queueDepth"
  by (induction xs arbitrary: p) (auto simp: sweep_one_queue)

lemma sweep_fold_grows: "length (p_queue p) \<le> length (p_queue (fold sweep_one xs p))"
proof (induction xs arbitrary: p)
  case (Cons x xs)
  have "length (p_queue p) \<le> length (p_queue (sweep_one x p))" by (simp add: sweep_one_def)
  then show ?case using Cons [of "sweep_one x p"] by simp
qed simp

lemma sweep_one_keeps: "sid \<in> set (p_queue p) \<Longrightarrow> sid \<in> set (p_queue (sweep_one x p))"
  by (auto simp: sweep_one_def)

lemma sweep_fold_keeps: "sid \<in> set (p_queue p) \<Longrightarrow> sid \<in> set (p_queue (fold sweep_one xs p))"
  by (induction xs arbitrary: p) (auto simp: sweep_one_keeps)

lemma sweep_finds:
  "sid \<in> set xs \<Longrightarrow> sid \<notin> set (p_inFlight p) \<Longrightarrow>
     sid \<in> set (p_queue (fold sweep_one xs p)) \<or> queueDepth \<le> length (p_queue (fold sweep_one xs p))"
proof (induction xs arbitrary: p)
  case (Cons x xs)
  show ?case
  proof (cases "sid = x")
    case True
    with Cons.prems(2) have "sid \<in> set (p_queue (sweep_one x p)) \<or> queueDepth \<le> length (p_queue (sweep_one x p))"
      by (simp add: sweep_one_def)
    then show ?thesis
      using sweep_fold_keeps [of sid "sweep_one x p" xs] sweep_fold_grows [of "sweep_one x p" xs] by auto
  next
    case False
    then show ?thesis using Cons by simp
  qed
qed simp

lemma owned_ids_frame:
  "p_loop q = p_loop p \<Longrightarrow> map g_id (p_running q) = map g_id (p_running p) \<Longrightarrow> owned_ids q = owned_ids p"
  by (simp add: owned_ids_def)

lemma pool_ok_receive: "pool_ok n p \<Longrightarrow> p_loop p = LoopSelect \<Longrightarrow> pool_ok n (loop_receive p)"
  by (auto simp: pool_ok_def loop_receive_def owned_ids_def split: list.splits)

lemma pool_ok_slot: "pool_ok n p \<Longrightarrow> p_loop p = LoopMarked sid \<Longrightarrow> pool_ok n (loop_slot n sid p)"
  by (auto simp: pool_ok_def loop_slot_def owned_ids_def)

lemma pool_ok_park: "pool_ok n p \<Longrightarrow> p_loop p = LoopNoSlot sid \<Longrightarrow> pool_ok n (loop_park n sid p)"
  by (auto simp: pool_ok_def loop_park_def owned_ids_def)

lemma execute_step_ok: "execute_step n sid p q \<Longrightarrow> pool_ok n p \<Longrightarrow> pool_ok n q"
  by (induction rule: execute_step.induct) (auto simp: pool_ok_def owned_ids_def)

lemma pool_step_ok: "pool_step n p q \<Longrightarrow> pool_ok n p \<Longrightarrow> pool_ok n q"
proof (induction rule: pool_step.induct)
  case (offer p sid)
  then show ?case by (auto simp: Dispatch_def Offer_def pool_ok_def owned_ids_def)
next
  case (sweep p sid)
  then show ?case by (auto simp: pool_ok_def owned_ids_def sweep_one_queue)
next
  case (receive p)
  then show ?case by (simp add: pool_ok_receive)
next
  case (slot p sid)
  then show ?case by (simp add: pool_ok_slot)
next
  case (park p sid)
  then show ?case by (simp add: pool_ok_park)
next
  case (cancel p)
  then show ?case by (simp add: pool_ok_def owned_ids_def)
next
  case (exit_loop p)
  then show ?case by (simp add: pool_ok_def owned_ids_def)
next
  case (execute sid p q)
  then show ?case by (simp add: execute_step_ok)
qed

lemma pool_ok_new: "pool_ok n new_pool"
  by (simp add: pool_ok_def new_pool_def owned_ids_def)

lemma pool_reachable: "(pool_step n)\<^sup>*\<^sup>* new_pool p \<Longrightarrow> pool_ok n p"
  by (induction rule: rtranclp_induct) (auto simp: pool_ok_new pool_step_ok)

lemma count_if_pos: "0 < count_if P xs \<longleftrightarrow> (\<exists>x \<in> set xs. P x)"
  by (induction xs) auto

subsection \<open>Progress\<close>

text \<open>The number of steps a goroutine has left.\<close>

definition steps_left :: "goroutine \<Rightarrow> nat" where
  "steps_left g = (if \<not> g_returned g \<and> \<not> g_slot g then 2 else 0) + (if \<not> g_returned g then 1 else 0)
     + (if g_slot g then 1 else 0) + (if g_park g then 1 else 0) + 1"

definition work_left :: "pool \<Rightarrow> nat" where
  "work_left p = sum_list (map steps_left (p_running p))"

lemma execute_step_frame:
  "execute_step n sid p q \<Longrightarrow> p_queue q = p_queue p \<and> p_loop q = p_loop p \<and> p_cancelled q = p_cancelled p"
  by (induction rule: execute_step.induct) auto

lemma execute_step_work: "execute_step n sid p q \<Longrightarrow> work_left q < work_left p"
  by (induction rule: execute_step.induct) (auto simp: work_left_def steps_left_def)

lemma work_left_bound: "work_left p \<le> 5 * length (p_running p)"
proof -
  have "sum_list (map steps_left gs) \<le> 5 * length gs" for gs
    by (induction gs) (auto simp: steps_left_def)
  then show ?thesis by (simp add: work_left_def)
qed

text \<open>Some goroutine can always move: a holder of a slot, or, when there is none, anyone.\<close>

lemma goroutine_progress:
  assumes "pool_ok n p" "0 < n" "p_running p \<noteq> []"
  shows "\<exists>q. goroutine_step n p q"
proof (cases "\<exists>g \<in> set (p_running p). g_slot g")
  case True
  then obtain xs g ys where "p_running p = xs @ g # ys" "g_slot g" by (meson split_list)
  then show ?thesis unfolding goroutine_step_def
    by (cases "g_returned g") (blast intro: execute_step.finish execute_step.give_slot)+
next
  case False
  then have "p_slots p < n" using assms(1,2) count_if_pos [of g_slot "p_running p"] by (simp add: pool_ok_def)
  moreover obtain g ys where "p_running p = [] @ g # ys" "\<not> g_slot g"
    using assms(3) False by (cases "p_running p") auto
  ultimately show ?thesis unfolding goroutine_step_def
    by (cases "g_returned g"; cases "g_park g")
       (blast intro: execute_step.take_slot execute_step.give_park execute_step.unmark)+
qed

text \<open>A goroutine that holds a slot frees it by its own steps, which leave the others alone.\<close>

lemma holder_frees:
  assumes "pool_ok n p" "p_running p = xs @ h # ys" "g_slot h"
  shows "(execute_step n (g_id h))\<^sup>*\<^sup>* p (p\<lparr>p_slots := p_slots p - 1, p_running := xs @ h\<lparr>g_returned := True, g_slot := False\<rparr> # ys\<rparr>)"
    (is "?R\<^sup>*\<^sup>* p ?q")
proof (cases "g_returned h")
  case True
  then have "h\<lparr>g_slot := False\<rparr> = h\<lparr>g_returned := True, g_slot := False\<rparr>" by simp
  then show ?thesis using execute_step.give_slot [OF assms(2) True assms(3), of n] by auto
next
  case False
  let ?h = "h\<lparr>g_returned := True\<rparr>"
  have "?R p (p\<lparr>p_running := xs @ ?h # ys\<rparr>)" by (rule execute_step.finish [OF assms(2,3) False])
  moreover have "?R (p\<lparr>p_running := xs @ ?h # ys\<rparr>) ?q"
    using execute_step.give_slot [of "p\<lparr>p_running := xs @ ?h # ys\<rparr>" xs ?h ys n] assms(3) by simp
  ultimately show ?thesis by (rule converse_rtranclp_into_rtranclp [OF _ r_into_rtranclp])
qed

lemma waiter_takes:
  assumes "g \<in> set (p_running p)" "\<not> g_slot g" "\<not> g_returned g" "p_slots p < n"
  shows "\<exists>q. execute_step n (g_id g) p q \<and> holds_slot q (g_id g)"
proof -
  obtain xs ys where "p_running p = xs @ g # ys" using assms(1) by (meson split_list)
  from execute_step.take_slot [OF this assms(2-4)] show ?thesis by (force simp: holds_slot_def)
qed

lemma slot_taken: "execute_step n sid p q \<Longrightarrow> holds_slot q sid \<Longrightarrow> \<not> holds_slot p sid \<Longrightarrow> p_slots p < n"
  by (induction rule: execute_step.induct) (auto simp: holds_slot_def)

lemma waiter_served:
  assumes "pool_ok n p" "g \<in> set (p_running p)" "\<not> g_slot g" "\<not> g_returned g" "h \<in> set (p_running p)" "g_slot h"
  shows "\<exists>p1 q. (execute_step n (g_id h))\<^sup>*\<^sup>* p p1 \<and> execute_step n (g_id g) p1 q \<and> holds_slot q (g_id g)"
proof -
  obtain xs ys where s: "p_running p = xs @ h # ys" using assms(5) by (meson split_list)
  let ?p1 = "p\<lparr>p_slots := p_slots p - 1, p_running := xs @ h\<lparr>g_returned := True, g_slot := False\<rparr> # ys\<rparr>"
  have "0 < p_slots p" "p_slots p \<le> n" using assms(1,5,6) count_if_pos [of g_slot "p_running p"] by (auto simp: pool_ok_def)
  moreover have "g \<in> set (p_running ?p1)" using assms(2,3,6) s by auto
  ultimately show ?thesis using holder_frees [OF assms(1) s assms(6)] waiter_takes [of g ?p1 n] assms(3,4) by auto
qed

lemma goroutine_run:
  "(goroutine_step n ^^ k) p q \<Longrightarrow> pool_ok n p \<Longrightarrow>
     pool_ok n q \<and> p_loop q = p_loop p \<and> k + work_left q \<le> work_left p"
proof (induction k arbitrary: q)
  case (Suc k)
  then obtain q1 where q1: "(goroutine_step n ^^ k) p q1" "goroutine_step n q1 q" by auto
  then obtain sid where "execute_step n sid q1 q" by (auto simp: goroutine_step_def)
  with q1(1) show ?case
    using Suc execute_step_ok [of n sid q1 q] execute_step_frame [of n sid q1 q] execute_step_work [of n sid q1 q] by fastforce
qed simp

section \<open>Properties\<close>

text \<open>
  C14: The pool never runs too much. In every reachable state, under every interleaving of the
  dispatch loop, the offers and the goroutines, at most \<open>MaxInFlight\<close> goroutines hold a slot, at most
  \<open>MaxInFlight\<close> hold a parking place, so at most twice as many have not returned, no submission has two
  goroutines, and the queue stays within its depth.
\<close>

theorem pool_bounded:
  assumes "(pool_step n)\<^sup>*\<^sup>* new_pool p"
  shows "count_if g_slot (p_running p) \<le> n \<and> count_if g_park (p_running p) \<le> n
    \<and> count_if (\<lambda>g. \<not> g_returned g) (p_running p) \<le> 2 * n
    \<and> distinct (map g_id (p_running p)) \<and> length (p_queue p) \<le> queueDepth"
proof -
  have ok: "pool_ok n p" using assms by (rule pool_reachable)
  have "count_if (\<lambda>g. \<not> g_returned g) xs \<le> count_if g_slot xs + count_if g_park xs"
    if "list_all (\<lambda>g. g_returned g \<or> g_slot g \<or> g_park g) xs" for xs
    using that by (induction xs) auto
  then show ?thesis using ok by (fastforce simp: pool_ok_def owned_ids_def)
qed

definition demo_pool :: pool where
  "demo_pool = loop_slot 1 ''a'' (loop_receive (Dispatch ''a'' new_pool))"

lemma demo_pool_reachable: "(pool_step 1)\<^sup>*\<^sup>* new_pool demo_pool"
proof -
  have "pool_step 1 new_pool (Dispatch ''a'' new_pool)" by (rule pool_step.offer)
  moreover have "pool_step 1 (Dispatch ''a'' new_pool) (loop_receive (Dispatch ''a'' new_pool))"
    by (rule pool_step.receive) (simp_all add: Dispatch_def Offer_def new_pool_def queueDepth_def)
  moreover have "pool_step 1 (loop_receive (Dispatch ''a'' new_pool)) demo_pool"
    unfolding demo_pool_def
    by (rule pool_step.slot)
       (simp add: loop_receive_def Dispatch_def Offer_def new_pool_def queueDepth_def)
  ultimately show ?thesis by (blast intro: converse_rtranclp_into_rtranclp)
qed

theorem pool_bounded_witness: "p_running demo_pool \<noteq> [] \<and> count_if g_slot (p_running demo_pool) \<le> 1"
  using pool_bounded [OF demo_pool_reachable]
  by (simp add: demo_pool_def loop_slot_def loop_receive_def Dispatch_def Offer_def new_pool_def queueDepth_def)

text \<open>
  C15: No lost slots and no deadlock. In every reachable state of a pool with at least one slot, a
  goroutine that waits for a slot can take one by its own next step; or every slot is held by some
  goroutine, and each of these holders alone, by nothing but its own steps (its run returns, its deferred
  call gives the slot back), brings the pool to a state where the waiter takes the slot. Moreover, when
  only the goroutines move, whatever their order, they make at most five steps each, are never all
  blocked before every one has ended, and then no slot and no parking place is taken and only an ID the
  loop still holds is marked, so that every finished submission can be dispatched again.
\<close>

theorem pool_no_deadlock:
  assumes "(pool_step n)\<^sup>*\<^sup>* new_pool p" "0 < n"
  shows "(\<forall>g \<in> set (p_running p). \<not> g_slot g \<and> \<not> g_returned g \<longrightarrow>
      (\<exists>q. execute_step n (g_id g) p q \<and> holds_slot q (g_id g))
      \<or> count_if g_slot (p_running p) = n \<and> (\<forall>h \<in> set (p_running p). g_slot h \<longrightarrow>
           (\<exists>p1 q. (execute_step n (g_id h))\<^sup>*\<^sup>* p p1 \<and> execute_step n (g_id g) p1 q \<and> holds_slot q (g_id g))))
    \<and> (\<forall>k q. (goroutine_step n ^^ k) p q \<longrightarrow> k \<le> 5 * length (p_running p)
         \<and> (p_running q \<noteq> [] \<longrightarrow> (\<exists>q'. goroutine_step n q q'))
         \<and> (p_running q = [] \<longrightarrow> p_slots q = 0 \<and> p_parked q = 0 \<and> set (p_inFlight q) = set (loop_ids (p_loop p))))"
proof -
  have ok: "pool_ok n p" using assms(1) by (rule pool_reachable)
  have "(\<exists>q. execute_step n (g_id g) p q \<and> holds_slot q (g_id g)) \<or> count_if g_slot (p_running p) = n"
    if "g \<in> set (p_running p)" "\<not> g_slot g" "\<not> g_returned g" for g
    using waiter_takes [OF that] ok by (cases "p_slots p < n") (auto simp: pool_ok_def)
  moreover have "k \<le> 5 * length (p_running p) \<and> (p_running q \<noteq> [] \<longrightarrow> (\<exists>q'. goroutine_step n q q'))
      \<and> (p_running q = [] \<longrightarrow> p_slots q = 0 \<and> p_parked q = 0 \<and> set (p_inFlight q) = set (loop_ids (p_loop p)))"
    if "(goroutine_step n ^^ k) p q" for k q
    using goroutine_run [OF that ok] work_left_bound [of p] goroutine_progress [of n q] assms(2)
    by (auto simp: pool_ok_def owned_ids_def)
  ultimately show ?thesis using waiter_served [OF ok] by blast
qed

definition demo_parked :: pool where
  "demo_parked = loop_park 1 ''b'' (loop_slot 1 ''b'' (loop_receive (Dispatch ''b'' demo_pool)))"

lemma demo_parked_reachable: "(pool_step 1)\<^sup>*\<^sup>* new_pool demo_parked"
proof -
  let ?p1 = "Dispatch ''b'' demo_pool" and ?p2 = "loop_receive (Dispatch ''b'' demo_pool)"
  note defs = demo_pool_def loop_slot_def loop_receive_def Dispatch_def Offer_def new_pool_def queueDepth_def
  have "pool_step 1 demo_pool ?p1" by (rule pool_step.offer)
  moreover have "pool_step 1 ?p1 ?p2" by (rule pool_step.receive) (simp_all add: defs)
  moreover have "pool_step 1 ?p2 (loop_slot 1 ''b'' ?p2)" by (rule pool_step.slot) (simp add: defs)
  moreover have "pool_step 1 (loop_slot 1 ''b'' ?p2) demo_parked"
    unfolding demo_parked_def by (rule pool_step.park) (simp add: defs)
  ultimately have "(pool_step 1)\<^sup>*\<^sup>* demo_pool demo_parked" by (blast intro: converse_rtranclp_into_rtranclp)
  with demo_pool_reachable show ?thesis by (rule rtranclp_trans)
qed

theorem pool_no_deadlock_witness:
  "\<exists>p1 q. (execute_step 1 ''a'')\<^sup>*\<^sup>* demo_parked p1 \<and> execute_step 1 ''b'' p1 q \<and> holds_slot q ''b''"
proof -
  let ?g = "\<lparr>g_id = ''b'', g_slot = False, g_park = True, g_returned = False\<rparr>"
  let ?h = "\<lparr>g_id = ''a'', g_slot = True, g_park = False, g_returned = False\<rparr>"
  have run: "p_running demo_parked = [?g, ?h]" "p_slots demo_parked = 1"
    by (simp_all add: demo_parked_def loop_park_def demo_pool_def loop_slot_def loop_receive_def Dispatch_def
        Offer_def new_pool_def queueDepth_def)
  have "\<not> (\<exists>q. execute_step 1 ''b'' demo_parked q \<and> holds_slot q ''b'')"
    using slot_taken [of 1 "''b''" demo_parked] run by (auto simp: holds_slot_def)
  then show ?thesis using pool_no_deadlock [OF demo_parked_reachable] run by auto
qed

text \<open>
  A sweep loses no work: every runnable ID the store lists and the pool does not already run is
  in the queue afterwards, unless the queue is full (the next sweep lists it again); what was queued
  stays queued.
\<close>

theorem sweep_offers_all:
  assumes "ids = Inr xs" "sid \<in> set xs" "sid \<notin> set (p_inFlight p)"
  shows "sid \<in> set (p_queue (sweepRunnable ids p))
    \<or> queueDepth \<le> length (p_queue (sweepRunnable ids p))"
  using sweep_finds [OF assms(2,3)] assms(1) by (simp add: sweepRunnable_def)

theorem sweep_offers_all_witness: "''c'' \<in> set (p_queue (sweepRunnable (Inr [''a'', ''c'']) demo_pool))"
  using sweep_offers_all [of "Inr [''a'', ''c'']" "[''a'', ''c'']" "''c''" demo_pool]
  by (simp add: demo_pool_def sweepRunnable_def sweep_one_def loop_slot_def loop_receive_def Dispatch_def
      Offer_def new_pool_def queueDepth_def)

end
