(* ===== verification/Go_Json.thy ===== *)
theory Go_Json
  imports Json_Canonical
begin

text \<open>
  What the packages use of Go's standard library to take documents apart: \<open>encoding/json\<close> into maps
  and structs, \<open>strconv.ParseInt\<close> and \<open>time.Parse\<close> with the RFC 3339 layout.

  A Go \<open>map[string]json.RawMessage\<close> is a table from keys to values; \<open>None\<close> is the nil map, on which a
  read finds nothing and an assignment panics. Unmarshalling into a struct visits the members in
  order; a member whose name equals a field's name, exactly or under case folding, is stored in
  that field, so the last one wins, and the first value of the wrong kind makes the call fail.
\<close>

section \<open>Definitions\<close>

subsection \<open>Maps\<close>

type_synonym gomap = "(string, json) table"

text \<open>\<open>json.Unmarshal\<close> into a map: the last of repeated members wins, \<open>null\<close> gives the nil map.\<close>

definition members_map :: "(string \<times> json) list \<Rightarrow> gomap" where
  "members_map ms = fold (\<lambda>m t. put_row (fst m) (snd m) t) ms []"

fun unmarshal_map :: "json \<Rightarrow> go_error + gomap option" where
  "unmarshal_map (JObj ms) = Inr (Some (members_map ms))"
| "unmarshal_map JNull = Inr None"
| "unmarshal_map _ = Inl (errors_New ''json: cannot unmarshal into Go value of type map'')"

text \<open>\<open>json.Marshal\<close> of a map orders the members by key; the nil map is \<open>null\<close>.\<close>

definition marshal_map :: "gomap option \<Rightarrow> json" where
  "marshal_map m = (case m of None \<Rightarrow> JNull | Some t \<Rightarrow> JObj (sort_key fst t))"

text \<open>An optional raw document that is an object, and one that is an array.\<close>

definition IsJSONObject :: "json option \<Rightarrow> bool" where
  "IsJSONObject raw = (case raw of Some (JObj _) \<Rightarrow> True | _ \<Rightarrow> False)"

definition IsJSONArray :: "json option \<Rightarrow> bool" where
  "IsJSONArray raw = (case raw of Some (JArr _) \<Rightarrow> True | _ \<Rightarrow> False)"

subsection \<open>Integers\<close>

definition all_digits :: "string \<Rightarrow> bool" where
  "all_digits s \<longleftrightarrow> s \<noteq> [] \<and> list_all is_digit s"

definition digits_value :: "string \<Rightarrow> int" where
  "digits_value s = fold (\<lambda>c v. 10 * v + (of_char c - 48)) s 0"

text \<open>\<open>strconv.ParseInt\<close> in base 10: an optional sign, digits, and a value of 64 bits.\<close>

definition parse_int64 :: "string \<Rightarrow> int option" where
  "parse_int64 s =
     (let neg = (take 1 s = ''-'');
          ds = (if take 1 s = ''-'' \<or> take 1 s = ''+'' then tl s else s);
          v = (if neg then - digits_value ds else digits_value ds)
      in if all_digits ds \<and> in_int64 v then Some v else None)"

subsection \<open>Structs\<close>

text \<open>
  The folding of member names: ASCII letters without regard to case, and the two letters outside
  ASCII that fold to one inside, the long s and the Kelvin sign.
\<close>

fun fold_name :: "string \<Rightarrow> string" where
  "fold_name [] = []"
| "fold_name (c # r) =
     (if c = CHR 0xC5 \<and> take 1 r = [CHR 0xBF] then CHR ''s'' # fold_name (drop 1 r)
      else if c = CHR 0xE2 \<and> take 2 r = [CHR 0x84, CHR 0xAA] then CHR ''k'' # fold_name (drop 2 r)
      else ascii_lower [c] @ fold_name r)"

text \<open>Visiting the members of one field: \<open>read\<close> takes the value so far, and \<open>None\<close> is a kind error.\<close>

fun field :: "string \<Rightarrow> ('a \<Rightarrow> json \<Rightarrow> 'a option) \<Rightarrow> 'a \<Rightarrow> (string \<times> json) list \<Rightarrow> 'a option" where
  "field name read x [] = Some x"
| "field name read x ((k, v) # ms) =
     (if fold_name k = fold_name name
      then (case read x v of None \<Rightarrow> None | Some y \<Rightarrow> field name read y ms)
      else field name read x ms)"

definition read_string :: "string \<Rightarrow> json \<Rightarrow> string option" where
  "read_string x v = (case v of JStr s \<Rightarrow> Some s | JNull \<Rightarrow> Some x | _ \<Rightarrow> None)"

definition read_int64 :: "int \<Rightarrow> json \<Rightarrow> int option" where
  "read_int64 x v = (case v of JNum s \<Rightarrow> parse_int64 s | JNull \<Rightarrow> Some x | _ \<Rightarrow> None)"

definition read_bool_ptr :: "bool option \<Rightarrow> json \<Rightarrow> bool option option" where
  "read_bool_ptr x v = (case v of JBool b \<Rightarrow> Some (Some b) | JNull \<Rightarrow> Some None | _ \<Rightarrow> None)"

definition read_raw :: "json option \<Rightarrow> json \<Rightarrow> json option option" where
  "read_raw x v = Some (Some v)"

definition read_raws :: "json list option \<Rightarrow> json \<Rightarrow> json list option option" where
  "read_raws x v = (case v of JArr vs \<Rightarrow> Some (Some vs) | JNull \<Rightarrow> Some None | _ \<Rightarrow> None)"

text \<open>A second occurrence of a map member adds to the map, one of a list member overwrites in place.\<close>

definition read_map :: "gomap option \<Rightarrow> json \<Rightarrow> gomap option option" where
  "read_map x v =
     (case v of
        JObj ms \<Rightarrow> Some (Some (fold (\<lambda>m t. put_row (fst m) (snd m) t) ms (case x of None \<Rightarrow> [] | Some t \<Rightarrow> t)))
      | JNull \<Rightarrow> Some None
      | _ \<Rightarrow> None)"

fun read_string_items :: "string list \<Rightarrow> json list \<Rightarrow> string list option" where
  "read_string_items old [] = Some []"
| "read_string_items old (v # vs) =
     (case read_string (case old of [] \<Rightarrow> [] | s # _ \<Rightarrow> s) v of
        None \<Rightarrow> None
      | Some s \<Rightarrow> map_option ((#) s) (read_string_items (tl old) vs))"

definition read_strings :: "string list \<Rightarrow> json \<Rightarrow> string list option" where
  "read_strings x v = (case v of JArr vs \<Rightarrow> read_string_items x vs | JNull \<Rightarrow> Some [] | _ \<Rightarrow> None)"

text \<open>The members a struct is filled from: \<open>null\<close> leaves every field alone.\<close>

definition struct_members :: "json \<Rightarrow> (string \<times> json) list option" where
  "struct_members v = (case v of JObj ms \<Rightarrow> Some ms | JNull \<Rightarrow> Some [] | _ \<Rightarrow> None)"

subsection \<open>Timestamps\<close>

definition digit_at :: "string \<Rightarrow> nat \<Rightarrow> bool" where
  "digit_at s i \<longleftrightarrow> i < length s \<and> is_digit (s ! i)"

text \<open>\<open>getnum\<close>: two digits, or one where the layout does not fix the width.\<close>

definition getnum :: "string \<Rightarrow> bool \<Rightarrow> (int \<times> string) option" where
  "getnum s fixed =
     (if \<not> digit_at s 0 then None
      else if \<not> digit_at s 1 then (if fixed then None else Some (digits_value (take 1 s), drop 1 s))
      else Some (digits_value (take 2 s), drop 2 s))"

definition skip_char :: "char \<Rightarrow> string \<Rightarrow> string option" where
  "skip_char c s = (case s of [] \<Rightarrow> None | x # r \<Rightarrow> if x = c then Some r else None)"

definition leap_year :: "int \<Rightarrow> bool" where
  "leap_year y \<longleftrightarrow> y mod 4 = 0 \<and> (y mod 100 \<noteq> 0 \<or> y mod 400 = 0)"

definition days_in :: "int \<Rightarrow> int \<Rightarrow> int" where
  "days_in y m = (if m = 2 then (if leap_year y then 29 else 28) else if m \<in> {4, 6, 9, 11} then 30 else 31)"

text \<open>Days from the first day of year 0 to a date.\<close>

definition days_before_year :: "int \<Rightarrow> int" where
  "days_before_year y = 365 * y + (y + 3) div 4 - (y + 99) div 100 + (y + 399) div 400"

definition day_number :: "int \<Rightarrow> int \<Rightarrow> int \<Rightarrow> int" where
  "day_number y m d =
     days_before_year y + sum_list (map (\<lambda>k. days_in y (int k)) [1..<nat m]) + d - 1"

text \<open>An optional fraction of a second, in nanoseconds: at most nine digits count.\<close>

definition fraction :: "string \<Rightarrow> int \<times> string" where
  "fraction s =
     (if length s \<ge> 2 \<and> (hd s = CHR ''.'' \<or> hd s = CHR '','') \<and> digit_at s 1
      then (let ds = takeWhile is_digit (tl s); used = take 9 ds
            in (digits_value used * 10 ^ (9 - length used), dropWhile is_digit (tl s)))
      else (0, s))"

text \<open>The zone: \<open>Z\<close>, or a sign with hours and minutes; the offset in seconds.\<close>

definition zone :: "string \<Rightarrow> (int \<times> string) option" where
  "zone s =
     (if take 1 s = ''Z'' then Some (0, drop 1 s)
      else if length s < 6 \<or> s ! 3 \<noteq> CHR '':'' then None
      else (case (getnum (take 2 (drop 1 s)) True, getnum (take 2 (drop 4 s)) True) of
              (Some (hr, _), Some (mm, _)) \<Rightarrow>
                if hr > 24 \<or> mm > 60 then None
                else if hd s = CHR ''+'' then Some ((hr * 60 + mm) * 60, drop 6 s)
                else if hd s = CHR ''-'' then Some (- ((hr * 60 + mm) * 60), drop 6 s)
                else None
            | _ \<Rightarrow> None))"

definition number :: "bool \<Rightarrow> int \<Rightarrow> int \<Rightarrow> string \<Rightarrow> (int \<times> string) option" where
  "number fixed lo hi s =
     (case getnum s fixed of
        None \<Rightarrow> None
      | Some (n, r) \<Rightarrow> if n < lo \<or> hi < n then None else Some (n, r))"

definition year :: "string \<Rightarrow> (int \<times> string) option" where
  "year s = (if length s \<ge> 4 \<and> all_digits (take 4 s) then Some (digits_value (take 4 s), drop 4 s) else None)"

text \<open>\<open>time.Parse(time.RFC3339, s)\<close>: the instant in nanoseconds from the first day of year 0.\<close>

definition parse_rfc3339 :: "string \<Rightarrow> int option" where
  "parse_rfc3339 s0 =
     Option.bind (year s0) (\<lambda>(y, s). Option.bind (skip_char CHR ''-'' s) (\<lambda>s.
     Option.bind (number True 1 12 s) (\<lambda>(mo, s). Option.bind (skip_char CHR ''-'' s) (\<lambda>s.
     Option.bind (number True 0 99 s) (\<lambda>(d, s). Option.bind (skip_char CHR ''T'' s) (\<lambda>s.
     Option.bind (number False 0 23 s) (\<lambda>(h, s). Option.bind (skip_char CHR '':'' s) (\<lambda>s.
     Option.bind (number True 0 59 s) (\<lambda>(mi, s). Option.bind (skip_char CHR '':'' s) (\<lambda>s.
     Option.bind (number True 0 59 s) (\<lambda>(sec, s).
     case fraction s of (nsec, s) \<Rightarrow>
     Option.bind (zone s) (\<lambda>(offset, s).
     if s \<noteq> [] \<or> d < 1 \<or> days_in y mo < d then None
     else Some ((((day_number y mo d * 24 + h) * 60 + mi) * 60 + sec - offset) * 1000000000 + nsec)))))))))))))"

section \<open>Lemmas\<close>

subsection \<open>Maps\<close>

definition pk_map :: "gomap option \<Rightarrow> bool" where
  "pk_map m = (case m of None \<Rightarrow> True | Some t \<Rightarrow> pk t)"

lemma pk_map_simps [simp]: "pk_map None" "pk_map (Some t) = pk t"
  by (simp_all add: pk_map_def)

lemma fold_put_pk: "pk t \<Longrightarrow> pk (fold (\<lambda>m t. put_row (fst m) (snd m) t) ms t)"
  by (induction ms arbitrary: t) (simp_all add: tbl.wf_put)

lemma members_map_pk [simp]: "pk (members_map ms)"
  by (simp add: members_map_def fold_put_pk)

lemma fold_put_row:
  "row_at (fold (\<lambda>m t. put_row (fst m) (snd m) t) ms t) k
     = (case map_of (rev ms) k of None \<Rightarrow> row_at t k | Some v \<Rightarrow> Some v)"
  by (induction ms arbitrary: t) (auto simp: map_add_def split: option.splits)

lemma row_at_members_map: "row_at (members_map ms) k = map_of (rev ms) k"
  by (simp add: members_map_def fold_put_row split: option.splits)

lemma row_at_sorted: "pk t \<Longrightarrow> row_at (members_map (sort_key fst t)) k = row_at t k"
proof -
  assume "pk t"
  then have "distinct (map fst t)" by (simp add: pk_def)
  moreover have "distinct (map fst (rev (sort_key fst t)))"
    using \<open>distinct (map fst t)\<close>
    by (metis distinct_map distinct_rev distinct_sort rev_map set_rev set_sort)
  ultimately have "map_of (rev (sort_key fst t)) = map_of t"
    by (subst map_of_inject_set) simp_all
  then show ?thesis unfolding row_at_members_map by (simp add: row_at_def)
qed

subsection \<open>Integers\<close>

lemma digits_value_snoc: "digits_value (s @ [c]) = 10 * digits_value s + (of_char c - 48)"
  by (simp add: digits_value_def)

lemma digit_char: "n < 10 \<Longrightarrow> (of_char (char_of (48 + n) :: char) :: nat) = 48 + n"
  by (simp add: of_char_of)

lemma digit_char_int: "n < 10 \<Longrightarrow> (of_char (char_of (48 + n :: nat) :: char) :: int) = 48 + int n"
  using digit_char [of n] by (metis int_plus of_nat_numeral of_nat_of_char)

lemma digits_value_dec: "digits_value (dec_digits n) = int n"
proof (induction n rule: dec_digits.induct)
  case (1 n)
  show ?case
  proof (cases "n < 10")
    case True
    then show ?thesis using digit_char_int [of n] by (subst dec_digits.simps) (simp add: digits_value_def)
  next
    case False
    have "10 * int (n div 10) + int (n mod 10) = int n" by (simp add: zdiv_int zmod_int)
    then show ?thesis
      using False 1 digit_char_int [of "n mod 10"] by (subst dec_digits.simps) (simp add: digits_value_snoc)
  qed
qed

lemma all_digits_dec: "all_digits (dec_digits n)"
proof (induction n rule: dec_digits.induct)
  case (1 n)
  show ?case
    using 1 digit_char [of n] digit_char [of "n mod 10"]
    by (subst dec_digits.simps) (auto simp: all_digits_def is_digit_def byte_of_def)
qed

lemma parse_int64_dec: "int n \<le> max_int64 \<Longrightarrow> parse_int64 (dec_digits n) = Some (int n)"
proof -
  assume n: "int n \<le> max_int64"
  have "take 1 (dec_digits n) \<noteq> ''-'' \<and> take 1 (dec_digits n) \<noteq> ''+''"
    using all_digits_dec [of n] by (cases "dec_digits n") (auto simp: all_digits_def is_digit_def byte_of_def)
  then show ?thesis
    using n all_digits_dec [of n]
    by (simp add: parse_int64_def Let_def digits_value_dec in_int64_def max_int64_def)
qed

end
