(* ===== verification/Catalog.thy ===== *)
theory Catalog
  imports Store_Submission
begin

text \<open>
  The pinned operation catalog (\<open>internal/catalog\<close>): descriptors with their digest, declarative
  bindings with JSON Pointer targets, the allowlist lookups and drift detection against a live tool.
  The schema dialect (\<open>validate.go\<close>, \<open>vocabulary.go\<close>, \<open>decimal.go\<close>) and the advertised projection are
  not part of this theory.

  A \<open>json.RawMessage\<close> field is \<open>None\<close> when it is absent (zero length). \<open>Annotations\<close> is kept as the JSON
  value \<open>json.Marshal\<close> renders of the Go map, with a nil map as \<open>None\<close>.
\<close>

section \<open>Definitions\<close>

subsection \<open>Strategies and bindings\<close>

definition StrategyUpstreamTask :: string where
  "StrategyUpstreamTask = ''upstream_task''"

definition StrategyLocalReplayable :: string where
  "StrategyLocalReplayable = ''local_replayable''"

definition StrategyLocalGuarded :: string where
  "StrategyLocalGuarded = ''local_guarded''"

definition StrategyUnsupported :: string where
  "StrategyUnsupported = ''unsupported''"

definition TaskSupport_Valid :: "string \<Rightarrow> bool" where
  "TaskSupport_Valid s \<longleftrightarrow> s \<in> {''forbidden'', ''optional'', ''required''}"

definition SourceClientRequestID :: string where
  "SourceClientRequestID = ''client_request_id''"

definition SourceClientContextThreadID :: string where
  "SourceClientContextThreadID = ''client_context.thread_id''"

record Binding =
  b_Source :: string
  b_Target :: string
  b_Required :: bool

text \<open>The inner loop of \<open>validPointer\<close>: every tilde is followed by 0 or 1.\<close>

fun escapes_ok :: "string \<Rightarrow> bool" where
  "escapes_ok [] = True"
| "escapes_ok (c # cs) =
     (if c = CHR ''~'' then
        (case cs of [] \<Rightarrow> False | e # r \<Rightarrow> (e = CHR ''0'' \<or> e = CHR ''1'') \<and> escapes_ok r)
      else escapes_ok cs)"

definition validPointer :: "string \<Rightarrow> bool" where
  "validPointer p =
     (case p of
        [] \<Rightarrow> False
      | c # r \<Rightarrow> c = CHR ''/'' \<and> list_all escapes_ok (split_at CHR ''/'' r))"

definition Binding_Valid :: "Binding \<Rightarrow> bool" where
  "Binding_Valid b \<longleftrightarrow>
     b_Source b \<in> {SourceClientRequestID, SourceClientContextThreadID} \<and> validPointer (b_Target b)"

subsection \<open>Descriptors\<close>

record Descriptor =
  d_Name :: string
  d_Title :: string
  d_Description :: string
  d_InputSchema :: "json option"
  d_ClientSchema :: "json option"
  d_OutputSchema :: "json option"
  d_Annotations :: "json option"
  d_TaskSupport :: string
  d_Bindings :: "Binding list"
  d_Strategy :: string
  d_Digest :: string

definition binding_json :: "Binding \<Rightarrow> json" where
  "binding_json b = JObj [(''source'', JStr (b_Source b)), (''target'', JStr (b_Target b)),
     (''required'', JBool (b_Required b))]"

text \<open>
  The digest input. A descriptor without bindings has a nil slice (the member is omitted when empty),
  which encodes as \<open>null\<close>.
\<close>

definition digestForm :: "Descriptor \<Rightarrow> json \<Rightarrow> json \<Rightarrow> json \<Rightarrow> json" where
  "digestForm d input client output = JObj
     [(''name'', JStr (d_Name d)), (''title'', JStr (d_Title d)),
      (''description'', JStr (d_Description d)), (''input_schema'', input),
      (''client_schema'', client), (''output_schema'', output),
      (''annotations'', case d_Annotations d of None \<Rightarrow> JNull | Some v \<Rightarrow> v),
      (''task_support'', JStr (d_TaskSupport d)),
      (''bindings'', if d_Bindings d = [] then JNull else JArr (map binding_json (d_Bindings d))),
      (''strategy'', JStr (d_Strategy d))]"

definition ComputeDigest :: "(string \<Rightarrow> string) \<Rightarrow> Descriptor \<Rightarrow> go_error + string" where
  "ComputeDigest sha256 d =
     rbind (map_error (\<lambda>e. Errorf ''canonicalize input_schema'' [e]) (Canonical (raw_tokens (d_InputSchema d)))) (\<lambda>input.
     rbind (map_error (\<lambda>e. Errorf ''canonicalize client_schema'' [e]) (Canonical (raw_tokens (d_ClientSchema d)))) (\<lambda>client.
     rbind (map_error (\<lambda>e. Errorf ''canonicalize output_schema'' [e]) (Canonical (raw_tokens (d_OutputSchema d)))) (\<lambda>output.
     rbind (ensure (list_all Binding_Valid (d_Bindings d))
              (errors_New ''binding has an unreviewed source or target'')) (\<lambda>_.
     Inr (''sha256:'' @ hex_encode (sha256 (encode (digestForm d input client output))))))))"

definition CheckDigest :: "(string \<Rightarrow> string) \<Rightarrow> Descriptor \<Rightarrow> go_error + unit" where
  "CheckDigest sha256 d =
     rbind (ComputeDigest sha256 d) (\<lambda>computed.
     ensure (computed = d_Digest d) (errors_New ''descriptor digest mismatch''))"

subsection \<open>The allowlist\<close>

type_synonym Catalog = "Descriptor list"

definition Find :: "Catalog \<Rightarrow> string \<Rightarrow> Descriptor option" where
  "Find c name = find (\<lambda>d. d_Name d = name) c"

definition Names :: "Catalog \<Rightarrow> string list" where
  "Names c = sort (map d_Name c)"

definition Callable :: "Catalog \<Rightarrow> Catalog" where
  "Callable c = filter (\<lambda>d. d_Strategy d \<noteq> StrategyUnsupported) c"

subsection \<open>Drift\<close>

record LiveTool =
  lt_Name :: string
  lt_InputSchema :: "json option"
  lt_OutputSchema :: "json option"
  lt_Annotations :: "json option"
  lt_TaskSupport :: string

definition canonicalEqual :: "json option \<Rightarrow> json option \<Rightarrow> bool" where
  "canonicalEqual a b =
     (case (Canonical (raw_tokens a), Canonical (raw_tokens b)) of
        (Inr ea, Inr eb) \<Rightarrow> encode ea = encode eb
      | _ \<Rightarrow> False)"

text \<open>A nil or empty map is treated as absent.\<close>

definition normalizeMap :: "json option \<Rightarrow> json" where
  "normalizeMap m = (case m of None \<Rightarrow> JNull | Some v \<Rightarrow> if v = JObj [] then JNull else v)"

definition sameValue :: "json \<Rightarrow> json \<Rightarrow> bool" where
  "sameValue a b \<longleftrightarrow> encode a = encode b"

definition Drift :: "Descriptor \<Rightarrow> LiveTool \<Rightarrow> string list" where
  "Drift d live =
     (if d_Name d \<noteq> lt_Name live then [''name''] else []) @
     (if \<not> canonicalEqual (d_InputSchema d) (lt_InputSchema live) then [''input_schema''] else []) @
     (if \<not> canonicalEqual (d_OutputSchema d) (lt_OutputSchema live) then [''output_schema''] else []) @
     (if \<not> sameValue (normalizeMap (d_Annotations d)) (normalizeMap (lt_Annotations live))
      then [''annotations''] else []) @
     (if d_TaskSupport d \<noteq> lt_TaskSupport live then [''task_support''] else [])"

section \<open>Lemmas\<close>

lemma Find_Some: "Find c name = Some d \<Longrightarrow> d \<in> set c \<and> d_Name d = name"
  by (auto simp: Find_def find_Some_iff)

lemma Find_None: "Find c name = None \<longleftrightarrow> name \<notin> set (Names c)"
  by (auto simp: Find_def Names_def find_None_iff)

end
