(* ===== verification/Upstream_Wire.thy ===== *)
theory Upstream_Wire
  imports Go_Json Catalog
begin

text \<open>
  The request side of the upstream client (\<open>internal/upstream\<close>: \<open>errors.go\<close>, \<open>headers.go\<close>, \<open>meta.go\<close>,
  \<open>param_header.go\<close>, \<open>client.go\<close>): classified errors, header values, the per-request \<open>_meta\<close> triple and
  the request that is sent.

  The client identity (\<open>mcp.Implementation\<close>) is the document it marshals to. What the outside answers to
  one request (random bytes, the token provider, the HTTP round trip) is a \<open>request_env\<close>. Header names
  are kept in lower case, which is how HTTP compares them. The two external number facts
  \<open>renderParamInteger\<close> takes from the decimal library are the field \<open>rq_decimal\<close>.
\<close>

section \<open>Definitions\<close>

subsection \<open>Errors\<close>

definition newError :: "kind \<Rightarrow> int \<Rightarrow> go_error option \<Rightarrow> go_error" where
  "newError k c cause =
     UpstreamErr k c (case cause of None \<Rightarrow> errors_New ''classified upstream failure'' | Some e \<Rightarrow> e)"

definition protocol_failure :: "string \<Rightarrow> go_error" where
  "protocol_failure m = newError KindProtocol 0 (Some (errors_New m))"

definition transport_failure :: "string \<Rightarrow> go_error" where
  "transport_failure m = newError KindTransport 0 (Some (errors_New m))"

text \<open>\<open>errors.As\<close> to \<open>*upstream.Error\<close>: the first one in the chain.\<close>

fun upstream_in :: "go_error \<Rightarrow> (kind \<times> int) option"
  and upstream_among :: "go_error list \<Rightarrow> (kind \<times> int) option" where
  "upstream_in (UpstreamErr k c _) = Some (k, c)"
| "upstream_in (Errorf _ ws) = upstream_among ws"
| "upstream_in _ = None"
| "upstream_among [] = None"
| "upstream_among (w # ws) = (case upstream_in w of Some x \<Rightarrow> Some x | None \<Rightarrow> upstream_among ws)"

definition is_kind :: "kind \<Rightarrow> go_error \<Rightarrow> bool" where
  "is_kind k err = (case upstream_in err of Some (k', _) \<Rightarrow> k' = k | None \<Rightarrow> False)"

definition IsProtocol :: "go_error \<Rightarrow> bool" where
  "IsProtocol err = is_kind KindProtocol err"

definition IsAuth :: "go_error \<Rightarrow> bool" where
  "IsAuth err = is_kind KindAuth err"

definition IsTokenContended :: "go_error \<Rightarrow> bool" where
  "IsTokenContended err = errors_Is err ErrTokenContended"

subsection \<open>Header values\<close>

definition base64_digit :: "nat \<Rightarrow> char" where
  "base64_digit n = (if n < 26 then char_of (65 + n) else if n < 52 then char_of (71 + n)
     else if n < 62 then char_of (n - 4) else if n = 62 then CHR ''+'' else CHR ''/'')"

text \<open>\<open>base64.StdEncoding.EncodeToString\<close>.\<close>

fun base64 :: "nat list \<Rightarrow> string" where
  "base64 [] = []"
| "base64 [a] = [base64_digit (a div 4), base64_digit (a mod 4 * 16), CHR ''='', CHR ''='']"
| "base64 [a, b] = [base64_digit (a div 4), base64_digit (a mod 4 * 16 + b div 16),
     base64_digit (b mod 16 * 4), CHR ''='']"
| "base64 (a # b # c # r) = [base64_digit (a div 4), base64_digit (a mod 4 * 16 + b div 16),
     base64_digit (b mod 16 * 4 + c div 64), base64_digit (c mod 64)] @ base64 r"

definition blank :: "char \<Rightarrow> bool" where
  "blank c \<longleftrightarrow> c = CHR '' '' \<or> c = CHR 0x09"

definition printable :: "char \<Rightarrow> bool" where
  "printable c \<longleftrightarrow> 0x20 \<le> byte_of c \<and> byte_of c \<le> 0x7E"

definition requiresBase64 :: "string \<Rightarrow> bool" where
  "requiresBase64 s \<longleftrightarrow> s \<noteq> [] \<and> (blank (hd s) \<or> blank (last s) \<or> \<not> list_all printable s)"

definition encodeHeaderValue :: "string \<Rightarrow> string" where
  "encodeHeaderValue v =
     (if \<not> requiresBase64 v then v else ''=?base64?'' @ base64 (map byte_of v) @ ''?='')"

type_synonym headers = "(string, string) table"

definition header_set :: "string \<Rightarrow> string \<Rightarrow> headers \<Rightarrow> headers" where
  "header_set k v h = put_row (ascii_lower k) v h"

definition wireVersion :: string where
  "wireVersion = ''2026-07-28''"

definition setStandardHeaders :: "string \<Rightarrow> string \<Rightarrow> headers \<Rightarrow> headers" where
  "setStandardHeaders method name h =
     (let h' = header_set ''Mcp-Method'' method (header_set ''MCP-Protocol-Version'' wireVersion h)
      in if name \<noteq> '''' then header_set ''Mcp-Name'' (encodeHeaderValue name) h' else h')"

subsection \<open>The \<open>_meta\<close> triple\<close>

definition tasksExtension :: string where
  "tasksExtension = ''io.modelcontextprotocol/tasks''"

definition capabilitiesKey :: string where
  "capabilitiesKey = ''io.modelcontextprotocol/clientCapabilities''"

definition buildMetaWith :: "json \<Rightarrow> json option \<Rightarrow> go_error + json" where
  "buildMetaWith clientInfo capabilities =
     (case capabilities of
        Some (JObj ms) \<Rightarrow> Inr (JObj
          [(''io.modelcontextprotocol/protocolVersion'', JStr wireVersion),
           (''io.modelcontextprotocol/clientInfo'', clientInfo),
           (capabilitiesKey, JObj ms)])
      | _ \<Rightarrow> Inl (errors_New ''client capabilities must be a JSON object''))"

definition capabilitiesFromMeta :: "json \<Rightarrow> go_error + json" where
  "capabilitiesFromMeta m =
     (case Option.bind (struct_members m) (field capabilitiesKey read_raw None) of
        Some (Some (JObj ms)) \<Rightarrow> Inr (JObj ms)
      | _ \<Rightarrow> Inl (errors_New ''client meta is missing capabilities''))"

definition declaresTasks :: "json \<Rightarrow> bool" where
  "declaresTasks m =
     (case capabilitiesFromMeta m of
        Inl _ \<Rightarrow> False
      | Inr caps \<Rightarrow>
          (case Option.bind (struct_members caps) (field ''extensions'' read_map None) of
             Some (Some exts) \<Rightarrow> IsJSONObject (row_at exts tasksExtension)
           | _ \<Rightarrow> False))"

definition withTasksCapability :: "json \<Rightarrow> go_error + json" where
  "withTasksCapability caps =
     (case unmarshal_map caps of
        Inl err \<Rightarrow> Inl (Errorf ''decode client capabilities'' [err])
      | Inr doc \<Rightarrow>
          (let doc' = (case doc of None \<Rightarrow> [] | Some t \<Rightarrow> t);
               add = (\<lambda>exts. let exts' = (if IsJSONObject (row_at exts tasksExtension) then exts
                                          else put_row tasksExtension (JObj []) exts)
                             in marshal_map (Some (put_row ''extensions'' (marshal_map (Some exts')) doc')))
           in case row_at doc' ''extensions'' of
                None \<Rightarrow> Inr (add [])
              | Some JNull \<Rightarrow> Inr (add [])
              | Some (JObj ms) \<Rightarrow> Inr (add (members_map ms))
              | Some _ \<Rightarrow> Inl (errors_New ''client capabilities extensions are not an object'')))"

definition tasksMeta :: "json \<Rightarrow> json \<Rightarrow> go_error + json" where
  "tasksMeta info m =
     (if declaresTasks m then Inr m
      else rbind (capabilitiesFromMeta m) (\<lambda>caps.
           rbind (withTasksCapability caps) (\<lambda>merged. buildMetaWith info (Some merged))))"

subsection \<open>Argument headers\<close>

record ParamHeader =
  ph_Name :: string
  ph_Path :: "string list"
  ph_Type :: string

fun lookupArg :: "json \<Rightarrow> string list \<Rightarrow> json option" where
  "lookupArg current [] = Some current"
| "lookupArg current (key # path) =
     (case unmarshal_map current of
        Inr (Some obj) \<Rightarrow> (case row_at obj key of None \<Rightarrow> None | Some next \<Rightarrow> lookupArg next path)
      | _ \<Rightarrow> None)"

definition maxTaskSafeInt :: int where
  "maxTaskSafeInt = 9007199254740991"

text \<open>
  \<open>decimal\<close> is the decimal library: the integer a number literal denotes, \<open>None\<close> when it is not finite or
  has a fractional part.
\<close>

definition renderParamInteger :: "(string \<Rightarrow> int option) \<Rightarrow> json \<Rightarrow> go_error + string" where
  "renderParamInteger decimal raw =
     (case raw of
        JNum s \<Rightarrow>
          (case decimal s of
             None \<Rightarrow> Inl (errors_New ''body value is not an integer'')
           | Some n \<Rightarrow> if \<bar>n\<bar> > maxTaskSafeInt
                then Inl (errors_New ''integer is outside the IEEE-754 safe range'')
                else Inr (format_int n))
      | _ \<Rightarrow> Inl (errors_New ''body value is not an integer''))"

definition renderParamValue :: "(string \<Rightarrow> int option) \<Rightarrow> ParamHeader \<Rightarrow> json \<Rightarrow> go_error + string" where
  "renderParamValue decimal header raw =
     (if ph_Type header = ''string'' then
        (case raw of JStr s \<Rightarrow> Inr s | JNull \<Rightarrow> Inr ''''
                   | _ \<Rightarrow> Inl (errors_New ''body value is not a string''))
      else if ph_Type header = ''boolean'' then
        (case raw of JBool b \<Rightarrow> Inr (if b then ''true'' else ''false'') | JNull \<Rightarrow> Inr ''false''
                   | _ \<Rightarrow> Inl (errors_New ''body value is not a boolean''))
      else if ph_Type header = ''integer'' then renderParamInteger decimal raw
      else Inl (errors_New ''unsupported parameter type''))"

fun render_headers ::
    "(string \<Rightarrow> int option) \<Rightarrow> json \<Rightarrow> ParamHeader list \<Rightarrow> string list \<Rightarrow> headers \<Rightarrow> go_error + headers" where
  "render_headers decimal doc [] seen out = Inr out"
| "render_headers decimal doc (header # rest) seen out =
     (let key = ascii_lower (ph_Name header) in
      if ph_Name header = '''' \<or> key \<in> set seen
      then Inl (errors_New ''duplicate or empty parameter header'')
      else case lookupArg doc (ph_Path header) of
          None \<Rightarrow> render_headers decimal doc rest (key # seen) out
        | Some JNull \<Rightarrow> render_headers decimal doc rest (key # seen) out
        | Some raw \<Rightarrow>
            rbind (map_error (\<lambda>e. Errorf ''parameter header'' [e]) (renderParamValue decimal header raw)) (\<lambda>rendered.
            render_headers decimal doc rest (key # seen)
              (header_set (''Mcp-Param-'' @ ph_Name header) (encodeHeaderValue rendered) out)))"

definition renderParamHeaders ::
    "(string \<Rightarrow> int option) \<Rightarrow> json option \<Rightarrow> ParamHeader list \<Rightarrow> go_error + headers" where
  "renderParamHeaders decimal args hs =
     (if hs = [] then Inr []
      else case unmarshal_map (case args of None \<Rightarrow> JObj [] | Some v \<Rightarrow> v) of
          Inr (Some doc) \<Rightarrow> render_headers decimal (marshal_map (Some doc)) hs [] []
        | _ \<Rightarrow> Inl (errors_New ''tool arguments must be a JSON object''))"

subsection \<open>Requests\<close>

record http_request =
  hq_id :: string
  hq_method :: string
  hq_params :: json
  hq_headers :: headers

text \<open>A response body is its bytes and the error that ends it instead of a clean close.\<close>

record http_response =
  hr_status :: int
  hr_content_type :: string
  hr_body :: string
  hr_body_err :: "go_error option"

record client =
  cl_info :: json
  cl_meta :: json
  cl_maxBytes :: int

record request_env =
  rq_nonce :: "go_error + string"
  rq_token :: "go_error + string"
  rq_send :: "http_request \<Rightarrow> go_error + http_response"
  rq_decimal :: "string \<Rightarrow> int option"

definition isMetaPresent :: "json \<Rightarrow> bool" where
  "isMetaPresent params =
     (case unmarshal_map params of Inr (Some t) \<Rightarrow> row_at t ''_meta'' \<noteq> None | _ \<Rightarrow> False)"

text \<open>\<open>withMeta\<close> splices the triple in front of the other members without re-encoding them.\<close>

definition withMeta :: "json \<Rightarrow> json \<Rightarrow> go_error + json" where
  "withMeta m params =
     (if isMetaPresent params then Inl (errors_New ''params already carry _meta'')
      else case params of
          JObj ms \<Rightarrow> Inr (JObj ((''_meta'', m) # ms))
        | _ \<Rightarrow> Inl (errors_New ''params must be a JSON object''))"

definition newRequestID :: "go_error + string \<Rightarrow> go_error + string" where
  "newRequestID nonce =
     rbind (map_error (\<lambda>e. Errorf ''generate request id'' [e]) nonce) (\<lambda>b. Inr (''link_'' @ hex_encode b))"

definition token_error :: "go_error \<Rightarrow> go_error" where
  "token_error err = (if IsTokenContended err then newError KindTransport 0 (Some err)
                      else newError KindAuth 0 (Some err))"

definition doRequest ::
    "client \<Rightarrow> request_env \<Rightarrow> string \<Rightarrow> string \<Rightarrow> json \<Rightarrow> json option \<Rightarrow> headers \<Rightarrow>
      go_error + string \<times> http_response" where
  "doRequest c rq method name params metaOverride paramHeaders =
     rbind (ensure (IsJSONObject (Some params)) (errors_New ''params must be a JSON object'')) (\<lambda>_.
     rbind (withMeta (case metaOverride of None \<Rightarrow> cl_meta c | Some m \<Rightarrow> m) params) (\<lambda>fullParams.
     rbind (newRequestID (rq_nonce rq)) (\<lambda>rid.
     rbind (map_error token_error (rq_token rq)) (\<lambda>token.
     let base = header_set ''Authorization'' (''Bearer '' @ token)
                  (header_set ''Accept'' ''application/json, text/event-stream''
                    (header_set ''Content-Type'' ''application/json'' []));
         all = fold (\<lambda>h t. put_row (fst h) (snd h) t) paramHeaders (setStandardHeaders method name base)
     in rbind (map_error (\<lambda>e. newError KindTransport 0 (Some e))
                (rq_send rq \<lparr>hq_id = rid, hq_method = method, hq_params = fullParams, hq_headers = all\<rparr>))
          (\<lambda>resp. Inr (rid, resp))))))"

end
