(* ===== verification/Catalog_Schema.thy ===== *)
theory Catalog_Schema
  imports Complex_Main Upstream_Wire
begin

text \<open>
  The schema dialect of the catalog (\<open>internal/catalog\<close>: \<open>vocabulary.go\<close>, \<open>validate.go\<close>, \<open>decimal.go\<close>,
  \<open>param_header.go\<close> and the \<open>Validate\<close> methods of \<open>descriptor.go\<close> and \<open>catalog.go\<close>): the check of a pinned
  schema at profile load, and the validation of a value against it.

  The two libraries behind it are the fields of \<open>dialect\<close>: the exact decimal of a number literal (\<open>None\<close>
  when its exponent is out of range) and compiled patterns (\<open>None\<close> when they do not compile). Go walks maps
  in no fixed order; the model takes the order of the table, which only chooses among error messages.
  Messages keep their fixed part.
\<close>

section \<open>Definitions\<close>

record dialect =
  dx_decimal :: "string \<Rightarrow> rat option"
  dx_regexp :: "string \<Rightarrow> (string \<Rightarrow> bool) option"

subsection \<open>Sizes of parts\<close>

text \<open>Every part the recursions descend to is smaller than the document it was taken from.\<close>

lemma json_size_member: "(k, v) \<in> set ms \<Longrightarrow> size v < size (JObj ms)"
  by (induction ms) auto

lemma json_size_item: "v \<in> set vs \<Longrightarrow> size v < size (JArr vs)"
  by (induction vs) auto

lemma put_row_subset: "set (put_row k v t) \<subseteq> insert (k, v) (set t)"
  by (induction t) (auto simp: put_row_def)

lemma fold_put_subset: "set (fold (\<lambda>m t. put_row (fst m) (snd m) t) ms t) \<subseteq> set ms \<union> set t"
proof (induction ms arbitrary: t)
  case (Cons m ms)
  show ?case using Cons [of "put_row (fst m) (snd m) t"] put_row_subset [of "fst m" "snd m" t] by auto
qed simp

lemma members_map_subset: "set (members_map ms) \<subseteq> set ms"
  using fold_put_subset [of ms "[]"] by (simp add: members_map_def)

lemma json_size_map: "(k, v) \<in> set (members_map ms) \<Longrightarrow> size v < size (JObj ms)"
  using members_map_subset json_size_member by blast

text \<open>What holds of the start value and is kept by each read holds of the field.\<close>

lemma field_keeps:
  assumes "field name read x ms = Some y" "P x"
    and "\<And>k v x y. (k, v) \<in> set ms \<Longrightarrow> P x \<Longrightarrow> read x v = Some y \<Longrightarrow> P y"
  shows "P y"
  using assms
proof (induction ms arbitrary: x)
  case (Cons m ms)
  obtain k v where m: "m = (k, v)" by (cases m)
  show ?case
  proof (cases "fold_name k = fold_name name")
    case True
    then obtain z where z: "read x v = Some z" "field name read z ms = Some y"
      using Cons.prems(1) by (auto simp: m split: option.splits)
    show ?thesis
      using Cons.IH [OF z(2)] Cons.prems(2,3) z(1) by (metis list.set_intros m)
  next
    case False
    then have "field name read x ms = Some y" using Cons.prems(1) by (simp add: m)
    then show ?thesis using Cons.IH Cons.prems(2,3) by (metis list.set_intros(2))
  qed
qed simp

subsection \<open>Kinds and numbers\<close>

fun valueKind :: "json \<Rightarrow> string" where
  "valueKind JNull = ''null''"
| "valueKind (JObj _) = ''object''"
| "valueKind (JArr _) = ''array''"
| "valueKind (JStr _) = ''string''"
| "valueKind (JBool _) = ''boolean''"
| "valueKind (JNum s) = (if isJSONNumber s then ''number'' else ''unknown'')"

definition isExactInteger :: "rat \<Rightarrow> bool" where
  "isExactInteger d \<longleftrightarrow> of_int \<lfloor>d\<rfloor> = d"

definition isIntegerLiteral :: "dialect \<Rightarrow> json \<Rightarrow> bool" where
  "isIntegerLiteral dx v =
     (case v of
        JNum s \<Rightarrow> isJSONNumber s \<and> (case dx_decimal dx s of None \<Rightarrow> False | Some d \<Rightarrow> isExactInteger d)
      | _ \<Rightarrow> False)"

definition maxCountBound :: int where
  "maxCountBound = 1000000"

definition parseJSONNumber :: "dialect \<Rightarrow> string \<Rightarrow> go_error + rat" where
  "parseJSONNumber dx s =
     (case dx_decimal dx s of
        None \<Rightarrow> Inl (errors_New ''number is outside the reviewed decimal exponent range'')
      | Some d \<Rightarrow> Inr d)"

definition parseCountValue :: "dialect \<Rightarrow> json \<Rightarrow> go_error + int" where
  "parseCountValue dx raw =
     (case raw of
        JNull \<Rightarrow> Inl (errors_New ''must be an integer, not null'')
      | JNum s \<Rightarrow>
          rbind (ensure (isJSONNumber s) (errors_New ''must be a JSON number'')) (\<lambda>_.
          rbind (parseJSONNumber dx s) (\<lambda>d.
          rbind (ensure (isExactInteger d \<and> \<not> d < 0) (errors_New ''must be a non-negative integer'')) (\<lambda>_.
          rbind (ensure (d \<le> of_int maxCountBound) (errors_New ''exceeds the bound'')) (\<lambda>_. Inr \<lfloor>d\<rfloor>))))
      | _ \<Rightarrow> Inl (errors_New ''must be a JSON number''))"

subsection \<open>Instance equality\<close>

fun all_equal :: "(go_error + bool) list \<Rightarrow> go_error + bool" where
  "all_equal [] = Inr True"
| "all_equal (r # rs) = rbind r (\<lambda>eq. if eq then all_equal rs else Inr False)"

lemma zip_item: "(x, y) \<in> set (zip xs ys) \<Longrightarrow> size x < size (JArr xs)"
  using json_size_item by (meson in_set_zipE)

function (sequential) jsonInstanceEqual :: "dialect \<Rightarrow> json \<Rightarrow> json \<Rightarrow> go_error + bool" where
  "jsonInstanceEqual dx (JNum a) (JNum b) =
     (if isJSONNumber a \<and> isJSONNumber b
      then rbind (parseJSONNumber dx a) (\<lambda>da. rbind (parseJSONNumber dx b) (\<lambda>db. Inr (da = db)))
      else Inr False)"
| "jsonInstanceEqual dx (JArr xs) (JArr ys) =
     (if length xs \<noteq> length ys then Inr False
      else all_equal (map (\<lambda>(x, y). jsonInstanceEqual dx x y) (zip xs ys)))"
| "jsonInstanceEqual dx (JObj xs) (JObj ys) =
     (let ma = members_map xs; mb = members_map ys in
      if length ma \<noteq> length mb then Inr False
      else all_equal (map (\<lambda>(key, va). case row_at mb key of
                                         None \<Rightarrow> Inr False
                                       | Some vb \<Rightarrow> jsonInstanceEqual dx va vb) ma))"
| "jsonInstanceEqual dx a b = Inr (a = b)"
  by pat_completeness auto
termination
  by (relation "measure (\<lambda>(_, a, _). size a)") (use zip_item json_size_map in auto)

subsection \<open>Schema views\<close>

record schemaView =
  sv_Type :: "json option"
  sv_Properties :: "gomap option"
  sv_Required :: "string list"
  sv_AdditionalProperties :: "json option"
  sv_Items :: "json option"
  sv_Enum :: "json list option"
  sv_Const :: "json option"
  sv_Minimum :: "rat option"
  sv_Maximum :: "rat option"
  sv_MinLength :: "int option"
  sv_MaxLength :: "int option"
  sv_MinItems :: "int option"
  sv_MaxItems :: "int option"
  sv_Pattern :: string
  sv_AnyOf :: "json list option"

text \<open>The decoders of \<open>*numberText\<close> and \<open>*countValue\<close>: \<open>null\<close> is the nil pointer.\<close>

definition read_number :: "dialect \<Rightarrow> rat option \<Rightarrow> json \<Rightarrow> rat option option" where
  "read_number dx x v =
     (case v of
        JNull \<Rightarrow> Some None
      | JNum s \<Rightarrow> if isJSONNumber s then map_option Some (dx_decimal dx s) else None
      | _ \<Rightarrow> None)"

definition read_count :: "dialect \<Rightarrow> int option \<Rightarrow> json \<Rightarrow> int option option" where
  "read_count dx x v =
     (case v of
        JNull \<Rightarrow> Some None
      | _ \<Rightarrow> (case parseCountValue dx v of Inl _ \<Rightarrow> None | Inr n \<Rightarrow> Some (Some n)))"

text \<open>\<open>json.Unmarshal\<close> into a \<open>schemaView\<close>; \<open>None\<close> is its error.\<close>

definition schema_view :: "dialect \<Rightarrow> json \<Rightarrow> schemaView option" where
  "schema_view dx schema =
     Option.bind (struct_members schema) (\<lambda>ms.
     Option.bind (field ''type'' read_raw None ms) (\<lambda>ty.
     Option.bind (field ''properties'' read_map None ms) (\<lambda>props.
     Option.bind (field ''required'' read_strings [] ms) (\<lambda>req.
     Option.bind (field ''additionalProperties'' read_raw None ms) (\<lambda>addl.
     Option.bind (field ''items'' read_raw None ms) (\<lambda>items.
     Option.bind (field ''enum'' read_raws None ms) (\<lambda>enum.
     Option.bind (field ''const'' read_raw None ms) (\<lambda>cst.
     Option.bind (field ''minimum'' (read_number dx) None ms) (\<lambda>minimum.
     Option.bind (field ''maximum'' (read_number dx) None ms) (\<lambda>maximum.
     Option.bind (field ''minLength'' (read_count dx) None ms) (\<lambda>minl.
     Option.bind (field ''maxLength'' (read_count dx) None ms) (\<lambda>maxl.
     Option.bind (field ''minItems'' (read_count dx) None ms) (\<lambda>mini.
     Option.bind (field ''maxItems'' (read_count dx) None ms) (\<lambda>maxi.
     Option.bind (field ''pattern'' read_string '''' ms) (\<lambda>pattern.
     Option.bind (field ''anyOf'' read_raws None ms) (\<lambda>anyOf.
     Some \<lparr>sv_Type = ty, sv_Properties = props, sv_Required = req, sv_AdditionalProperties = addl,
           sv_Items = items, sv_Enum = enum, sv_Const = cst, sv_Minimum = minimum, sv_Maximum = maximum,
           sv_MinLength = minl, sv_MaxLength = maxl, sv_MinItems = mini, sv_MaxItems = maxi,
           sv_Pattern = pattern, sv_AnyOf = anyOf\<rparr>))))))))))))))))"

definition list_of :: "'a list option \<Rightarrow> 'a list" where
  "list_of x = (case x of None \<Rightarrow> [] | Some xs \<Rightarrow> xs)"

lemma schema_view_parts:
  assumes "schema_view dx schema = Some s"
  shows "(k, p) \<in> set (list_of (sv_Properties s)) \<Longrightarrow> size p < size schema"
    and "sv_AdditionalProperties s = Some a \<Longrightarrow> size a < size schema"
    and "sv_Items s = Some i \<Longrightarrow> size i < size schema"
    and "b \<in> set (list_of (sv_AnyOf s)) \<Longrightarrow> size b < size schema"
proof -
  from assms obtain ms where ms: "struct_members schema = Some ms" by (auto simp: schema_view_def Option.bind_eq_Some_conv)
  have sz: "size v < size schema" if "(n, v) \<in> set ms" for n v
    using that ms json_size_member [of n v ms] by (cases schema) (auto simp: struct_members_def)
  have raw: "size x < size schema" if "field n read_raw None ms = Some (Some x)" for n x
    using field_keeps [OF that, of "\<lambda>y. \<forall>z. y = Some z \<longrightarrow> size z < size schema"] sz
    by (auto simp: read_raw_def)
  have raws: "size x < size schema" if f: "field n read_raws None ms = Some y" and x: "x \<in> set (list_of y)" for n x y
  proof -
    have "\<forall>z \<in> set (list_of y). size z < size schema"
    proof (rule field_keeps [OF f])
      show "\<forall>z \<in> set (list_of w). size z < size schema" if "(k, v) \<in> set ms" "read_raws u v = Some w" for k v u w
        using sz [OF that(1)] that(2) json_size_item
        by (cases v) (fastforce simp: read_raws_def list_of_def dest: less_trans)+
    qed (simp add: list_of_def)
    then show ?thesis using x by blast
  qed
  have maps: "size x < size schema" if f: "field n read_map None ms = Some y" and x: "(k, x) \<in> set (list_of y)" for n k x y
  proof -
    have "\<forall>(k, z) \<in> set (list_of y). size z < size schema"
    proof (rule field_keeps [OF f])
      show "\<forall>(k, z) \<in> set (list_of w). size z < size schema"
        if "(k, v) \<in> set ms" "\<forall>(k, z) \<in> set (list_of u). size z < size schema" "read_map u v = Some w" for k v u w
      proof (cases v)
        case (JObj es)
        have "set (list_of w) \<subseteq> set es \<union> set (list_of u)"
          using that(3) fold_put_subset [of es "list_of u"] by (auto simp: JObj read_map_def list_of_def)
        moreover have "size z < size schema" if "(j, z) \<in> set es" for j z
          using json_size_member [OF that] sz [OF \<open>(k, v) \<in> set ms\<close>] by (simp add: JObj)
        ultimately show ?thesis using that(2) by blast
      qed (use that(3) in \<open>auto simp: read_map_def list_of_def\<close>)
    qed (simp add: list_of_def)
    then show ?thesis using x by blast
  qed
  show "(k, p) \<in> set (list_of (sv_Properties s)) \<Longrightarrow> size p < size schema"
    using assms maps by (auto simp: schema_view_def ms Option.bind_eq_Some_conv)
  show "sv_AdditionalProperties s = Some a \<Longrightarrow> size a < size schema"
    and "sv_Items s = Some i \<Longrightarrow> size i < size schema"
    using assms raw by (auto simp: schema_view_def ms Option.bind_eq_Some_conv)
  show "b \<in> set (list_of (sv_AnyOf s)) \<Longrightarrow> size b < size schema"
    using assms raws by (auto simp: schema_view_def ms Option.bind_eq_Some_conv)
qed


subsection \<open>Validation\<close>

text \<open>\<open>utf8.RuneCountInString\<close>: a byte that starts no rune counts as one.\<close>

definition rune_rest :: "nat list \<Rightarrow> nat list" where
  "rune_rest bs = drop (max 1 (utf8_len bs)) bs"

lemma rune_rest_shorter: "length (rune_rest (b # bs)) < length (b # bs)"
  by (simp add: rune_rest_def del: utf8_len.simps)

function rune_count :: "nat list \<Rightarrow> nat" where
  "rune_count [] = 0"
| "rune_count (b # bs) = Suc (rune_count (rune_rest (b # bs)))"
  by pat_completeness auto
termination
  by (relation "measure length") (use rune_rest_shorter in simp_all)

definition RuneCount :: "string \<Rightarrow> int" where
  "RuneCount s = int (rune_count (map byte_of s))"

text \<open>The names of a pinned type: one string or a list of them.\<close>

fun string_items :: "json list \<Rightarrow> go_error + string list" where
  "string_items [] = Inr []"
| "string_items (v # vs) =
     (case read_string '''' v of
        None \<Rightarrow> Inl (errors_New ''pinned type list contains a non-string'')
      | Some s \<Rightarrow> rbind (string_items vs) (\<lambda>ss. Inr (s # ss)))"

definition type_names :: "json \<Rightarrow> go_error + string list" where
  "type_names ty =
     (case ty of
        JArr vs \<Rightarrow> string_items vs
      | _ \<Rightarrow> (case read_string '''' ty of
                None \<Rightarrow> Inl (errors_New ''pinned type is not a string'')
              | Some s \<Rightarrow> Inr [s]))"

definition typeMatches :: "dialect \<Rightarrow> string \<Rightarrow> json \<Rightarrow> bool" where
  "typeMatches dx expected v \<longleftrightarrow>
     (if expected \<in> {''object'', ''array'', ''string'', ''boolean'', ''null'', ''number''}
      then valueKind v = expected
      else if expected = ''integer'' then valueKind v = ''number'' \<and> isIntegerLiteral dx v
      else False)"

definition checkType :: "dialect \<Rightarrow> json \<Rightarrow> json \<Rightarrow> go_error + unit" where
  "checkType dx ty v =
     rbind (type_names ty) (\<lambda>types.
     ensure (list_ex (\<lambda>t. typeMatches dx t v) types) (errors_New ''has another type''))"

fun first_error :: "(go_error + unit) list \<Rightarrow> go_error + unit" where
  "first_error [] = Inr ()"
| "first_error (r # rs) = rbind r (\<lambda>_. first_error rs)"

text \<open>\<open>validateAnyOf\<close>: each branch with whether it is malformed, and its outcome on the value.\<close>

fun any_of :: "(bool \<times> (go_error + unit)) list \<Rightarrow> go_error + unit" where
  "any_of [] = Inl (errors_New ''does not match any allowed schema'')"
| "any_of ((malformed, r) # rs) =
     (if malformed then Inl (errors_New ''anyOf branch is not a schema object'')
      else case r of Inr _ \<Rightarrow> Inr () | Inl _ \<Rightarrow> any_of rs)"

definition check_required :: "string list \<Rightarrow> gomap \<Rightarrow> go_error + unit" where
  "check_required names members =
     ensure (list_all (\<lambda>n. row_at members n \<noteq> None) names) (errors_New ''is missing the required property'')"

definition within_int :: "int option \<Rightarrow> int \<Rightarrow> int option \<Rightarrow> bool" where
  "within_int lo n hi \<longleftrightarrow>
     (case lo of None \<Rightarrow> True | Some l \<Rightarrow> \<not> n < l) \<and> (case hi of None \<Rightarrow> True | Some h \<Rightarrow> \<not> n > h)"

definition validateString :: "dialect \<Rightarrow> schemaView \<Rightarrow> string \<Rightarrow> go_error + unit" where
  "validateString dx s text =
     rbind (ensure (within_int (sv_MinLength s) (RuneCount text) (sv_MaxLength s))
              (errors_New ''is shorter or longer than allowed'')) (\<lambda>_.
     if sv_Pattern s = '''' then Inr ()
     else case dx_regexp dx (sv_Pattern s) of
         None \<Rightarrow> Inl (errors_New ''pinned pattern does not compile'')
       | Some re \<Rightarrow> ensure (re text) (errors_New ''does not match the pinned pattern''))"

definition validateNumber :: "dialect \<Rightarrow> schemaView \<Rightarrow> string \<Rightarrow> go_error + unit" where
  "validateNumber dx s text =
     (if sv_Minimum s = None \<and> sv_Maximum s = None then Inr ()
      else rbind (parseJSONNumber dx text) (\<lambda>n.
           ensure ((case sv_Minimum s of None \<Rightarrow> True | Some l \<Rightarrow> \<not> n < l)
                 \<and> (case sv_Maximum s of None \<Rightarrow> True | Some h \<Rightarrow> \<not> n > h))
             (errors_New ''is outside the pinned bounds'')))"

definition check_const :: "dialect \<Rightarrow> schemaView \<Rightarrow> json \<Rightarrow> go_error + unit" where
  "check_const dx s v =
     (case sv_Const s of
        None \<Rightarrow> Inr ()
      | Some c \<Rightarrow> ensure (jsonInstanceEqual dx v c = Inr True) (errors_New ''does not match the pinned const''))"

definition check_enum :: "dialect \<Rightarrow> schemaView \<Rightarrow> json \<Rightarrow> go_error + unit" where
  "check_enum dx s v =
     ensure (list_of (sv_Enum s) = [] \<or> list_ex (\<lambda>c. jsonInstanceEqual dx v c = Inr True) (list_of (sv_Enum s)))
       (errors_New ''is not one of the pinned enum values'')"

definition known_property :: "schemaView \<Rightarrow> string \<Rightarrow> bool" where
  "known_property s name \<longleftrightarrow> row_at (list_of (sv_Properties s)) name \<noteq> None"

text \<open>
  \<open>schemaView.validate\<close> with the methods it calls; the schema is taken undecoded, so that a decoding
  failure of a child schema is part of the child's outcome.
\<close>

function validate :: "dialect \<Rightarrow> json \<Rightarrow> json \<Rightarrow> go_error + unit" where
  "validate dx schema v =
     (case schema_view dx schema of
        None \<Rightarrow> Inl (errors_New ''schema is not a JSON object'')
      | Some s \<Rightarrow>
          rbind (case sv_Type s of None \<Rightarrow> Inr () | Some ty \<Rightarrow> checkType dx ty v) (\<lambda>_.
          rbind (if list_of (sv_AnyOf s) = [] then Inr ()
                 else any_of (map (\<lambda>b. (schema_view dx b = None, validate dx b v)) (list_of (sv_AnyOf s)))) (\<lambda>_.
          rbind (case v of
                   JObj vs \<Rightarrow>
                     (let members = members_map vs in
                      rbind (check_required (sv_Required s) members) (\<lambda>_.
                      rbind (first_error (map (\<lambda>(name, prop). case row_at members name of
                                                 None \<Rightarrow> Inr ()
                                               | Some child \<Rightarrow> validate dx prop child)
                               (list_of (sv_Properties s)))) (\<lambda>_.
                      case sv_AdditionalProperties s of
                        None \<Rightarrow> Inr ()
                      | Some a \<Rightarrow>
                          if a = JBool False
                          then ensure (list_all (\<lambda>(name, child). known_property s name) members)
                                 (errors_New ''has an unapproved property'')
                          else if a = JBool True then Inr ()
                          else if valueKind a \<noteq> ''object''
                          then Inl (errors_New ''additionalProperties is not a boolean or a schema'')
                          else rbind (ensure (schema_view dx a \<noteq> None)
                                        (errors_New ''additionalProperties is a malformed schema'')) (\<lambda>_.
                               first_error (map (\<lambda>(name, child). if known_property s name then Inr ()
                                                                 else validate dx a child) members)))))
                 | JArr vs \<Rightarrow>
                     rbind (ensure (within_int (sv_MinItems s) (int (length vs)) (sv_MaxItems s))
                              (errors_New ''has too few or too many items'')) (\<lambda>_.
                     case sv_Items s of
                       None \<Rightarrow> Inr ()
                     | Some i \<Rightarrow>
                         rbind (ensure (schema_view dx i \<noteq> None) (errors_New ''has a malformed item schema'')) (\<lambda>_.
                         first_error (map (\<lambda>item. validate dx i item) vs)))
                 | JStr text \<Rightarrow> validateString dx s text
                 | JNum n \<Rightarrow> if isJSONNumber n then validateNumber dx s n else Inr ()
                 | _ \<Rightarrow> Inr ()) (\<lambda>_.
          rbind (check_const dx s v) (\<lambda>_. check_enum dx s v)))))"
  by pat_completeness auto
termination
  by (relation "measure (\<lambda>(_, schema, _). size schema)") (auto dest: schema_view_parts)

text \<open>For evaluation the equation is used only on a constructor, so that it is not unfolded under a binder.\<close>

declare validate.simps [simp del, code del]

lemmas validate_code [code] =
  validate.simps [of _ "JNull"]
  validate.simps [of _ "JBool b" for b]
  validate.simps [of _ "JNum n" for n]
  validate.simps [of _ "JStr t" for t]
  validate.simps [of _ "JArr vs" for vs]
  validate.simps [of _ "JObj ms" for ms]

text \<open>An absent value has no kind, like a literal that is no number.\<close>

definition ValidateAgainstSchema :: "dialect \<Rightarrow> json option \<Rightarrow> json option \<Rightarrow> go_error + unit" where
  "ValidateAgainstSchema dx schema v =
     (case schema of
        None \<Rightarrow> Inl (errors_New ''schema is not a JSON object'')
      | Some sc \<Rightarrow> validate dx sc (case v of None \<Rightarrow> JNum '''' | Some x \<Rightarrow> x))"


subsection \<open>The vocabulary check\<close>

definition enforcedKeywords :: "string list" where
  "enforcedKeywords = [''type'', ''properties'', ''required'', ''additionalProperties'', ''items'', ''anyOf'',
     ''enum'', ''const'', ''minimum'', ''maximum'', ''minLength'', ''maxLength'', ''minItems'', ''maxItems'', ''pattern'']"

definition annotationKeywords :: "string list" where
  "annotationKeywords = [''title'', ''description'', ''examples'', ''default'', ''$schema'', ''$comment'']"

definition allowedTypes :: "string list" where
  "allowedTypes = [''object'', ''array'', ''string'', ''boolean'', ''null'', ''number'', ''integer'']"

definition maxAnyOfBranches :: nat where
  "maxAnyOfBranches = 16"

definition schemaObject :: "json \<Rightarrow> go_error + gomap" where
  "schemaObject raw =
     (case raw of
        JObj ms \<Rightarrow> Inr (members_map ms)
      | JNull \<Rightarrow> Inl (errors_New ''must be a schema object, not null'')
      | _ \<Rightarrow> Inl (errors_New ''is not a schema object''))"

definition requireString :: "json \<Rightarrow> go_error + string" where
  "requireString raw = (case raw of JStr s \<Rightarrow> Inr s | _ \<Rightarrow> Inl (errors_New ''must be a string''))"

definition requireArray :: "json \<Rightarrow> go_error + json list" where
  "requireArray raw = (case raw of JArr vs \<Rightarrow> Inr vs | _ \<Rightarrow> Inl (errors_New ''must be an array''))"

fun unique_strings :: "json list \<Rightarrow> string list \<Rightarrow> go_error + string list" where
  "unique_strings [] seen = Inr []"
| "unique_strings (v # vs) seen =
     rbind (requireString v) (\<lambda>text.
     rbind (ensure (text \<noteq> '''') (errors_New ''has an empty name'')) (\<lambda>_.
     rbind (ensure (text \<notin> set seen) (errors_New ''repeats a name'')) (\<lambda>_.
     rbind (unique_strings vs (text # seen)) (\<lambda>names. Inr (text # names)))))"

definition requireUniqueStrings :: "json \<Rightarrow> go_error + string list" where
  "requireUniqueStrings raw = rbind (requireArray raw) (\<lambda>vs. unique_strings vs [])"

definition requireNumberBound :: "dialect \<Rightarrow> json \<Rightarrow> go_error + unit" where
  "requireNumberBound dx raw =
     (case raw of
        JNum s \<Rightarrow> rbind (ensure (isJSONNumber s) (errors_New ''must be a JSON number'')) (\<lambda>_.
                  rbind (parseJSONNumber dx s) (\<lambda>_. Inr ()))
      | _ \<Rightarrow> Inl (errors_New ''must be a JSON number''))"

fun check_type_names :: "string list \<Rightarrow> string list \<Rightarrow> go_error + unit" where
  "check_type_names [] seen = Inr ()"
| "check_type_names (n # ns) seen =
     rbind (ensure (n \<in> set allowedTypes) (errors_New ''uses an unsupported type'')) (\<lambda>_.
     rbind (ensure (n \<notin> set seen) (errors_New ''repeats a type'')) (\<lambda>_. check_type_names ns (n # seen)))"

fun required_strings :: "json list \<Rightarrow> go_error + string list" where
  "required_strings [] = Inr []"
| "required_strings (v # vs) = rbind (requireString v) (\<lambda>s. rbind (required_strings vs) (\<lambda>ss. Inr (s # ss)))"

definition checkTypeValue :: "json \<Rightarrow> go_error + unit" where
  "checkTypeValue raw =
     rbind (case raw of
              JArr vs \<Rightarrow> rbind (ensure (vs \<noteq> []) (errors_New ''must not be empty'')) (\<lambda>_. required_strings vs)
            | _ \<Rightarrow> rbind (requireString raw) (\<lambda>s. Inr [s])) (\<lambda>names.
     check_type_names names [])"

text \<open>The decimal of a bound, read through the whole literal.\<close>

definition bound_value :: "dialect \<Rightarrow> json \<Rightarrow> go_error + rat" where
  "bound_value dx raw = (case raw of JNum s \<Rightarrow> parseJSONNumber dx s | _ \<Rightarrow> Inl (errors_New ''not a number''))"

definition checkPair :: "dialect \<Rightarrow> gomap \<Rightarrow> string \<Rightarrow> string \<Rightarrow> go_error + unit" where
  "checkPair dx members low high =
     (case (row_at members low, row_at members high) of
        (Some l, Some h) \<Rightarrow>
          rbind (bound_value dx l) (\<lambda>lo. rbind (bound_value dx h) (\<lambda>hi.
          ensure (\<not> lo > hi) (errors_New ''exceeds the upper bound'')))
      | _ \<Rightarrow> Inr ())"

definition when_present :: "gomap \<Rightarrow> string \<Rightarrow> (json \<Rightarrow> go_error + 'a) \<Rightarrow> go_error + unit" where
  "when_present members name check =
     (case row_at members name of None \<Rightarrow> Inr () | Some raw \<Rightarrow> rbind (check raw) (\<lambda>_. Inr ()))"

definition checkRequired :: "gomap \<Rightarrow> json \<Rightarrow> go_error + unit" where
  "checkRequired members raw =
     rbind (requireUniqueStrings raw) (\<lambda>names.
     when_present members ''properties'' (\<lambda>props.
       rbind (schemaObject props) (\<lambda>declared.
       ensure (list_all (\<lambda>n. row_at declared n \<noteq> None) names)
         (errors_New ''required names an undeclared property''))))"

definition checkPattern :: "dialect \<Rightarrow> json \<Rightarrow> go_error + unit" where
  "checkPattern dx raw =
     rbind (requireString raw) (\<lambda>text.
     rbind (ensure (text \<noteq> '''') (errors_New ''must not be empty'')) (\<lambda>_.
     ensure (dx_regexp dx text \<noteq> None) (errors_New ''does not compile'')))"

definition checkKeywordValues :: "dialect \<Rightarrow> gomap \<Rightarrow> go_error + unit" where
  "checkKeywordValues dx members =
     first_error
       ([when_present members ''type'' checkTypeValue,
         when_present members ''required'' (checkRequired members),
         when_present members ''enum'' (\<lambda>raw. rbind (requireArray raw) (\<lambda>vs.
           ensure (vs \<noteq> []) (errors_New ''must not be empty'')))]
        @ map (\<lambda>n. when_present members n (parseCountValue dx)) [''minLength'', ''maxLength'', ''minItems'', ''maxItems'']
        @ map (\<lambda>n. when_present members n (requireNumberBound dx)) [''minimum'', ''maximum'']
        @ [when_present members ''pattern'' (checkPattern dx)]
        @ map (\<lambda>n. when_present members n requireString) [''title'', ''description'', ''$comment'', ''$schema'']
        @ [when_present members ''examples'' requireArray,
           checkPair dx members ''minLength'' ''maxLength'', checkPair dx members ''minItems'' ''maxItems'',
           checkPair dx members ''minimum'' ''maximum''])"

lemma row_at_in: "row_at t k = Some v \<Longrightarrow> (k, v) \<in> set t"
  by (simp add: row_at_def map_of_SomeD)

lemma row_at_size: "row_at (members_map ms) k = Some v \<Longrightarrow> size v < size (JObj ms)"
  using row_at_in json_size_map by metis

lemma row_at_size_member:
  "row_at (members_map ms) k = Some (JObj ps) \<Longrightarrow> (n, v) \<in> set (members_map ps) \<Longrightarrow> size v < size (JObj ms)"
  using row_at_size [of ms k "JObj ps"] json_size_map [of n v ps] by linarith

lemma row_at_size_item:
  "row_at (members_map ms) k = Some (JArr vs) \<Longrightarrow> v \<in> set vs \<Longrightarrow> size v < size (JObj ms)"
  using row_at_size [of ms k "JArr vs"] json_size_item [of v vs] by linarith

text \<open>\<open>checkNode\<close> on the undecoded node, with the \<open>schemaObject\<close> call before it.\<close>

function checkNode :: "dialect \<Rightarrow> json \<Rightarrow> go_error + unit" where
  "checkNode dx schema =
     (case schema of
        JObj ms \<Rightarrow>
          (let members = members_map ms in
           rbind (ensure (list_all (\<lambda>(name, _). name \<in> set enforcedKeywords \<or> name \<in> set annotationKeywords) members)
                    (errors_New ''uses an unsupported schema keyword'')) (\<lambda>_.
           rbind (checkKeywordValues dx members) (\<lambda>_.
           rbind (case row_at members ''properties'' of
                    None \<Rightarrow> Inr ()
                  | Some (JObj ps) \<Rightarrow>
                      first_error (map (\<lambda>(name, child).
                        rbind (ensure (name \<noteq> '''') (errors_New ''has an empty property name'')) (\<lambda>_.
                        checkNode dx child)) (members_map ps))
                  | Some _ \<Rightarrow> Inl (errors_New ''properties is not a schema object'')) (\<lambda>_.
           rbind (case row_at members ''items'' of None \<Rightarrow> Inr () | Some i \<Rightarrow> checkNode dx i) (\<lambda>_.
           rbind (case row_at members ''additionalProperties'' of
                    None \<Rightarrow> Inr ()
                  | Some (JBool _) \<Rightarrow> Inr ()
                  | Some (JObj os) \<Rightarrow> checkNode dx (JObj os)
                  | Some _ \<Rightarrow> Inl (errors_New ''additionalProperties must be a boolean or a schema object'')) (\<lambda>_.
           case row_at members ''anyOf'' of
             None \<Rightarrow> Inr ()
           | Some (JArr bs) \<Rightarrow>
               rbind (ensure (bs \<noteq> [] \<and> length bs \<le> maxAnyOfBranches)
                        (errors_New ''anyOf must contain 1-16 schemas'')) (\<lambda>_.
               first_error (map (\<lambda>b. checkNode dx b) bs))
           | Some _ \<Rightarrow> Inl (errors_New ''anyOf must be an array'')))))))
      | _ \<Rightarrow> Inl (errors_New ''is not a schema object''))"
  by pat_completeness auto
termination
  by (relation "measure (\<lambda>(_, schema). size schema)")
     (use row_at_size row_at_size_member row_at_size_item in \<open>fastforce+\<close>)

declare checkNode.simps [simp del, code del]

lemmas checkNode_code [code] =
  checkNode.simps [of _ "JNull"]
  checkNode.simps [of _ "JBool b" for b]
  checkNode.simps [of _ "JNum n" for n]
  checkNode.simps [of _ "JStr t" for t]
  checkNode.simps [of _ "JArr vs" for vs]
  checkNode.simps [of _ "JObj ms" for ms]

definition CheckSchemaVocabulary :: "dialect \<Rightarrow> json \<Rightarrow> go_error + unit" where
  "CheckSchemaVocabulary dx schema = checkNode dx schema"


subsection \<open>Parameter headers\<close>

text \<open>The token grammar of header names. \<open>ParamHeader\<close> is the record of \<open>Upstream_Wire\<close>.\<close>

definition headerToken :: "string \<Rightarrow> bool" where
  "headerToken s \<longleftrightarrow> s \<noteq> [] \<and> list_all (\<lambda>c. is_digit c \<or> (65 \<le> byte_of c \<and> byte_of c \<le> 90)
     \<or> (97 \<le> byte_of c \<and> byte_of c \<le> 122) \<or> c \<in> set (CHR 0x27 # CHR 0x60 # ''!#$%&*+-.^_|~'')) s"

definition headerDescriptor :: "gomap \<Rightarrow> string list \<Rightarrow> json \<Rightarrow> go_error + ParamHeader" where
  "headerDescriptor members path raw =
     (let name = (case read_string '''' raw of None \<Rightarrow> '''' | Some s \<Rightarrow> s);
          schemaType = (case row_at members ''type'' of Some (JStr t) \<Rightarrow> t | _ \<Rightarrow> '''')
      in rbind (ensure (name \<noteq> '''') (errors_New ''x-mcp-header must be a non-empty string'')) (\<lambda>_.
         rbind (ensure (headerToken name) (errors_New ''x-mcp-header must be a valid HTTP field-name token'')) (\<lambda>_.
         rbind (ensure (schemaType \<in> {''string'', ''integer'', ''boolean''})
                  (errors_New ''x-mcp-header must annotate a string, integer, or boolean property'')) (\<lambda>_.
         Inr \<lparr>ph_Name = name, ph_Path = path, ph_Type = schemaType\<rparr>))))"

fun concat_results :: "(go_error + 'a list) list \<Rightarrow> go_error + 'a list" where
  "concat_results [] = Inr []"
| "concat_results (r # rs) = rbind r (\<lambda>xs. rbind (concat_results rs) (\<lambda>ys. Inr (xs @ ys)))"

lemma row_at_size_sorted:
  "row_at (members_map ms) k = Some (JObj ps) \<Longrightarrow> (n, v) \<in> set (sort_key fst (members_map ps)) \<Longrightarrow>
     size v < size (JObj ms)"
  using row_at_size_member by simp

text \<open>
  \<open>scanHeaders\<close> with \<open>scanProperties\<close> and \<open>scanUnreachable\<close>, on the undecoded node; the result is what is
  appended to \<open>found\<close>.
\<close>

function scanHeaders :: "json \<Rightarrow> string list \<Rightarrow> bool \<Rightarrow> bool \<Rightarrow> go_error + ParamHeader list" where
  "scanHeaders node path annotationAllowed propertiesAllowed =
     (case node of
        JObj ms \<Rightarrow>
          (let members = members_map ms in
           rbind (case row_at members ''x-mcp-header'' of
                    None \<Rightarrow> Inr []
                  | Some raw \<Rightarrow>
                      if \<not> annotationAllowed then Inl (errors_New ''x-mcp-header is not statically reachable'')
                      else rbind (headerDescriptor members path raw) (\<lambda>h. Inr [h])) (\<lambda>own.
           rbind (case row_at members ''properties'' of
                    None \<Rightarrow> Inr []
                  | Some (JObj ps) \<Rightarrow>
                      concat_results (map (\<lambda>(name, child).
                          scanHeaders child (path @ [name]) propertiesAllowed propertiesAllowed)
                        (sort_key fst (members_map ps)))
                  | Some _ \<Rightarrow> Inl (errors_New ''properties: expected a JSON object'')) (\<lambda>inner.
           rbind (case row_at members ''items'' of
                    Some (JObj os) \<Rightarrow> scanHeaders (JObj os) path False False | _ \<Rightarrow> Inr []) (\<lambda>items.
           rbind (case row_at members ''additionalProperties'' of
                    Some (JObj os) \<Rightarrow> scanHeaders (JObj os) path False False | _ \<Rightarrow> Inr []) (\<lambda>addl.
           Inr (own @ inner @ items @ addl))))))
      | _ \<Rightarrow> Inl (errors_New ''expected a JSON object''))"
  by pat_completeness auto
termination
  by (relation "measure (\<lambda>(node, _). size node)")
     (use row_at_size row_at_size_sorted in \<open>fastforce+\<close>)

declare scanHeaders.simps [simp del, code del]

lemmas scanHeaders_code [code] =
  scanHeaders.simps [of "JNull"]
  scanHeaders.simps [of "JBool b" for b]
  scanHeaders.simps [of "JNum n" for n]
  scanHeaders.simps [of "JStr t" for t]
  scanHeaders.simps [of "JArr vs" for vs]
  scanHeaders.simps [of "JObj ms" for ms]

fun uniqueHeaderNames :: "ParamHeader list \<Rightarrow> string list \<Rightarrow> go_error + unit" where
  "uniqueHeaderNames [] seen = Inr ()"
| "uniqueHeaderNames (h # hs) seen =
     rbind (ensure (ascii_lower (ph_Name h) \<notin> set seen) (errors_New ''duplicate x-mcp-header name'')) (\<lambda>_.
     uniqueHeaderNames hs (ascii_lower (ph_Name h) # seen))"

definition ParamHeaders :: "json option \<Rightarrow> go_error + ParamHeader list" where
  "ParamHeaders schema =
     (case schema of
        None \<Rightarrow> Inl (errors_New ''input schema: expected a JSON object'')
      | Some sc \<Rightarrow>
          rbind (scanHeaders sc [] False True) (\<lambda>found.
          rbind (uniqueHeaderNames found []) (\<lambda>_.
          Inr (sort_key (\<lambda>h. ascii_lower (ph_Name h)) found))))"

function stripKeyword :: "string \<Rightarrow> json \<Rightarrow> json" where
  "stripKeyword key v =
     (case v of
        JObj ms \<Rightarrow> marshal_map (Some (map (\<lambda>(name, child). (name, stripKeyword key child))
                     (filter (\<lambda>m. fst m \<noteq> key) (members_map ms))))
      | JArr vs \<Rightarrow> JArr (map (stripKeyword key) vs)
      | _ \<Rightarrow> v)"
  by pat_completeness auto
termination
  by (relation "measure (\<lambda>(_, v). size v)") (use json_size_map json_size_item in \<open>fastforce+\<close>)

declare stripKeyword.simps [simp del, code del]

lemmas stripKeyword_code [code] =
  stripKeyword.simps [of _ "JNull"]
  stripKeyword.simps [of _ "JBool b" for b]
  stripKeyword.simps [of _ "JNum n" for n]
  stripKeyword.simps [of _ "JStr t" for t]
  stripKeyword.simps [of _ "JArr vs" for vs]
  stripKeyword.simps [of _ "JObj ms" for ms]

definition CheckInputSchema :: "dialect \<Rightarrow> json \<Rightarrow> go_error + unit" where
  "CheckInputSchema dx schema =
     rbind (ParamHeaders (Some schema)) (\<lambda>_. CheckSchemaVocabulary dx (stripKeyword ''x-mcp-header'' schema))"

subsection \<open>Descriptors and the catalog\<close>

definition checkSchema :: "dialect \<Rightarrow> bool \<Rightarrow> json option \<Rightarrow> bool \<Rightarrow> bool \<Rightarrow> go_error + unit" where
  "checkSchema dx isInput raw optional requireObjectType =
     (case raw of
        None \<Rightarrow> ensure optional (errors_New ''schema is required'')
      | Some v \<Rightarrow>
          rbind (ensure (int (length (encode v)) \<le> 64 * 1024) (errors_New ''schema exceeds 65536 bytes'')) (\<lambda>_.
          rbind (map_error (\<lambda>e. Errorf ''schema is not one complete JSON value'' [e]) (Canonical (tokens v))) (\<lambda>c.
          case c of
            JObj ms \<Rightarrow>
              rbind (ensure (\<not> requireObjectType \<or> row_at (members_map ms) ''type'' = Some (JStr ''object''))
                       (errors_New ''schema must declare type object'')) (\<lambda>_.
              if isInput then CheckInputSchema dx c else CheckSchemaVocabulary dx c)
          | _ \<Rightarrow> Inl (errors_New ''schema must be a JSON object''))))"

fun check_targets :: "Binding list \<Rightarrow> string list \<Rightarrow> go_error + unit" where
  "check_targets [] targets = Inr ()"
| "check_targets (b # bs) targets =
     rbind (ensure (Binding_Valid b) (errors_New ''binding has an unreviewed source or target'')) (\<lambda>_.
     rbind (ensure (b_Target b \<notin> set targets) (errors_New ''duplicate binding target'')) (\<lambda>_.
     check_targets bs (b_Target b # targets)))"

definition Descriptor_Validate :: "dialect \<Rightarrow> (string \<Rightarrow> string) \<Rightarrow> Descriptor \<Rightarrow> go_error + unit" where
  "Descriptor_Validate dx sha256 d =
     rbind (ensure (d_Name d \<noteq> '''' \<and> length (d_Name d) \<le> 128) (errors_New ''descriptor name must be 1-128 bytes'')) (\<lambda>_.
     rbind (ensure (length (d_Title d) \<le> 128) (errors_New ''descriptor title exceeds 128 bytes'')) (\<lambda>_.
     rbind (ensure (int (length (d_Description d)) \<le> 1024) (errors_New ''descriptor description exceeds 1024 bytes'')) (\<lambda>_.
     rbind (ensure (d_Strategy d \<in> {StrategyUpstreamTask, StrategyLocalReplayable, StrategyLocalGuarded, StrategyUnsupported})
              (errors_New ''descriptor has unknown strategy'')) (\<lambda>_.
     rbind (ensure (TaskSupport_Valid (d_TaskSupport d)) (errors_New ''descriptor has unknown task support'')) (\<lambda>_.
     rbind (checkSchema dx True (d_InputSchema d) False True) (\<lambda>_.
     rbind (checkSchema dx False (d_ClientSchema d) True True) (\<lambda>_.
     rbind (checkSchema dx False (d_OutputSchema d) True False) (\<lambda>_.
     rbind (check_targets (d_Bindings d) []) (\<lambda>_.
     CheckDigest sha256 d)))))))))"

fun validate_operations :: "dialect \<Rightarrow> (string \<Rightarrow> string) \<Rightarrow> Descriptor list \<Rightarrow> string list \<Rightarrow> go_error + unit" where
  "validate_operations dx sha256 [] seen = Inr ()"
| "validate_operations dx sha256 (d # ds) seen =
     rbind (ensure (d_Name d \<notin> set seen) (errors_New ''duplicate operation'')) (\<lambda>_.
     rbind (Descriptor_Validate dx sha256 d) (\<lambda>_. validate_operations dx sha256 ds (d_Name d # seen)))"

definition Catalog_Validate :: "dialect \<Rightarrow> (string \<Rightarrow> string) \<Rightarrow> Catalog \<Rightarrow> go_error + unit" where
  "Catalog_Validate dx sha256 c = validate_operations dx sha256 c []"

end
