(* ===== verification/Catalog_Validity.thy ===== *)
theory Catalog_Validity
  imports Catalog_Schema
begin

text \<open>
  The validator against a reference semantics. \<open>conforms\<close> says what it means for a value to satisfy a
  schema, keyword by keyword, with no decoding and no order; the properties show that \<open>validate\<close> decides
  exactly that on every schema the vocabulary check admits.
\<close>

section \<open>The reference semantics\<close>

text \<open>The strings among the items of a list, and a bound compared with a value.\<close>

definition texts :: "json list \<Rightarrow> string list" where
  "texts vs = concat (map (\<lambda>v. case v of JStr t \<Rightarrow> [t] | _ \<Rightarrow> []) vs)"

definition type_list :: "json \<Rightarrow> string list" where
  "type_list ty = (case ty of JArr vs \<Rightarrow> texts vs | JStr t \<Rightarrow> [t] | _ \<Rightarrow> [])"

definition at_least :: "dialect \<Rightarrow> json option \<Rightarrow> rat \<Rightarrow> bool" where
  "at_least dx b x = (case b of Some (JNum s) \<Rightarrow> (case dx_decimal dx s of Some d \<Rightarrow> d \<le> x | None \<Rightarrow> True) | _ \<Rightarrow> True)"

definition at_most :: "dialect \<Rightarrow> json option \<Rightarrow> rat \<Rightarrow> bool" where
  "at_most dx b x = (case b of Some (JNum s) \<Rightarrow> (case dx_decimal dx s of Some d \<Rightarrow> x \<le> d | None \<Rightarrow> True) | _ \<Rightarrow> True)"

definition declared :: "(string \<times> json) list \<Rightarrow> string \<Rightarrow> bool" where
  "declared ms n = (case map_of ms ''properties'' of Some (JObj ps) \<Rightarrow> map_of ps n \<noteq> None | _ \<Rightarrow> False)"

definition conforms_string :: "dialect \<Rightarrow> (string \<times> json) list \<Rightarrow> string \<Rightarrow> bool" where
  "conforms_string dx ms t \<longleftrightarrow>
     at_least dx (map_of ms ''minLength'') (of_int (RuneCount t))
     \<and> at_most dx (map_of ms ''maxLength'') (of_int (RuneCount t))
     \<and> (case map_of ms ''pattern'' of
          Some (JStr p) \<Rightarrow> (case dx_regexp dx p of Some re \<Rightarrow> re t | None \<Rightarrow> True)
        | _ \<Rightarrow> True)"

text \<open>A bounded number is one whose exact value is known and lies within the bounds.\<close>

definition conforms_number :: "dialect \<Rightarrow> (string \<times> json) list \<Rightarrow> string \<Rightarrow> bool" where
  "conforms_number dx ms n \<longleftrightarrow>
     (map_of ms ''minimum'' = None \<and> map_of ms ''maximum'' = None)
     \<or> (case dx_decimal dx n of
          None \<Rightarrow> False
        | Some d \<Rightarrow> at_least dx (map_of ms ''minimum'') d \<and> at_most dx (map_of ms ''maximum'') d)"

definition conforms_count :: "dialect \<Rightarrow> (string \<times> json) list \<Rightarrow> json list \<Rightarrow> bool" where
  "conforms_count dx ms vs \<longleftrightarrow>
     at_least dx (map_of ms ''minItems'') (of_nat (length vs))
     \<and> at_most dx (map_of ms ''maxItems'') (of_nat (length vs))"

definition conforms_value :: "dialect \<Rightarrow> (string \<times> json) list \<Rightarrow> json \<Rightarrow> bool" where
  "conforms_value dx ms v \<longleftrightarrow>
     (case map_of ms ''type'' of None \<Rightarrow> True | Some ty \<Rightarrow> \<exists>t \<in> set (type_list ty). typeMatches dx t v)
     \<and> (case map_of ms ''const'' of None \<Rightarrow> True | Some c \<Rightarrow> jsonInstanceEqual dx v c = Inr True)
     \<and> (case map_of ms ''enum'' of
          Some (JArr cs) \<Rightarrow> \<exists>c \<in> set cs. jsonInstanceEqual dx v c = Inr True
        | _ \<Rightarrow> True)
     \<and> (case v of JStr t \<Rightarrow> conforms_string dx ms t
          | JNum n \<Rightarrow> isJSONNumber n \<longrightarrow> conforms_number dx ms n
          | JArr vs \<Rightarrow> conforms_count dx ms vs
          | _ \<Rightarrow> True)"

lemma map_of_size: "map_of ms k = Some v \<Longrightarrow> size v < size (JObj ms)"
  using json_size_member map_of_SomeD by fastforce

lemma map_of_size_member: "map_of ms k = Some (JObj ps) \<Longrightarrow> (n, v) \<in> set ps \<Longrightarrow> size v < size (JObj ms)"
  using map_of_size [of ms k "JObj ps"] json_size_member [of n v ps] by linarith

lemma map_of_size_item: "map_of ms k = Some (JArr vs) \<Longrightarrow> v \<in> set vs \<Longrightarrow> size v < size (JObj ms)"
  using map_of_size [of ms k "JArr vs"] json_size_item [of v vs] by linarith

function conforms :: "dialect \<Rightarrow> json \<Rightarrow> json \<Rightarrow> bool" where
  "conforms dx schema v \<longleftrightarrow>
     (case schema of
        JObj ms \<Rightarrow>
          conforms_value dx ms v
          \<and> (case map_of ms ''anyOf'' of Some (JArr bs) \<Rightarrow> (\<exists>b \<in> set bs. conforms dx b v) | _ \<Rightarrow> True)
          \<and> (case v of
               JObj vs \<Rightarrow>
                 (case map_of ms ''required'' of
                    Some (JArr ns) \<Rightarrow> (\<forall>n \<in> set (texts ns). map_of (rev vs) n \<noteq> None)
                  | _ \<Rightarrow> True)
                 \<and> (case map_of ms ''properties'' of
                      Some (JObj ps) \<Rightarrow>
                        (\<forall>(n, p) \<in> set ps. case map_of (rev vs) n of None \<Rightarrow> True | Some c \<Rightarrow> conforms dx p c)
                    | _ \<Rightarrow> True)
                 \<and> (case map_of ms ''additionalProperties'' of
                      Some (JBool allowed) \<Rightarrow> allowed \<or> (\<forall>n \<in> fst ` set vs. declared ms n)
                    | Some (JObj os) \<Rightarrow>
                        (\<forall>(n, c) \<in> set (members_map vs). declared ms n \<or> conforms dx (JObj os) c)
                    | _ \<Rightarrow> True)
             | JArr vs \<Rightarrow>
                 (case map_of ms ''items'' of
                    Some i \<Rightarrow> (\<forall>x \<in> set vs. conforms dx i x)
                  | None \<Rightarrow> True)
             | _ \<Rightarrow> True)
      | _ \<Rightarrow> False)"
  by pat_completeness auto
termination
  by (relation "measure (\<lambda>(_, schema, _). size schema)")
     (use map_of_size map_of_size_member map_of_size_item in \<open>fastforce+\<close>)

declare conforms.simps [simp del]

section \<open>Lemmas\<close>

subsection \<open>Keywords and views\<close>

definition keyword_ok :: "string \<Rightarrow> bool" where
  "keyword_ok k \<longleftrightarrow> k \<in> set enforcedKeywords \<or> k \<in> set annotationKeywords"

text \<open>No admitted name folds to an enforced keyword other than itself.\<close>

lemma fold_keyword:
  assumes "keyword_ok k" "n \<in> set enforcedKeywords" "fold_name k = fold_name n"
  shows "k = n"
proof -
  have "distinct (map fold_name (enforcedKeywords @ annotationKeywords))"
    by (simp add: enforcedKeywords_def annotationKeywords_def ascii_lower_def)
  then show ?thesis using assms unfolding keyword_ok_def distinct_map inj_on_def by auto
qed

lemma field_keyword:
  assumes "\<forall>m \<in> set ms. keyword_ok (fst m)" "distinct (map fst ms)" "n \<in> set enforcedKeywords"
  shows "field n read x ms = (case map_of ms n of None \<Rightarrow> Some x | Some v \<Rightarrow> read x v)"
  using assms(1,2)
proof (induction ms arbitrary: x)
  case (Cons m ms)
  obtain k v where m: "m = (k, v)" by (cases m)
  have key: "fold_name k = fold_name n \<longleftrightarrow> k = n"
    using fold_keyword [OF _ assms(3)] Cons.prems(1) by (auto simp: m)
  show ?case
  proof (cases "k = n")
    case True
    then have "map_of ms n = None" using Cons.prems(2) by (simp add: m map_of_eq_None_iff)
    then have "field n read y ms = Some y" for y using Cons by auto
    then show ?thesis using True by (simp add: m split: option.split)
  next
    case False
    then show ?thesis using Cons key by (simp add: m)
  qed
qed simp

text \<open>Without repeated names a Go map holds the members as they are.\<close>

lemma put_row_fresh: "k \<notin> fst ` set t \<Longrightarrow> put_row k v t = t @ [(k, v)]"
  by (induction t) (auto simp: put_row_def)

lemma fold_put_fresh:
  "distinct (map fst (t @ ms)) \<Longrightarrow> fold (\<lambda>m t. put_row (fst m) (snd m) t) ms t = t @ ms"
proof (induction ms arbitrary: t)
  case (Cons m ms)
  have "put_row (fst m) (snd m) t = t @ [m]"
    using Cons.prems by (simp add: put_row_fresh)
  then show ?case using Cons.IH [of "t @ [m]"] Cons.prems by simp
qed simp

lemma members_map_id [simp]: "distinct (map fst ms) \<Longrightarrow> members_map ms = ms"
  using fold_put_fresh [of "[]" ms] by (simp add: members_map_def)

lemma row_at_map_of: "row_at t = map_of t"
  by (simp add: row_at_def fun_eq_iff)

lemma first_error_iff: "first_error rs = Inr () \<longleftrightarrow> (\<forall>r \<in> set rs. r = Inr ())"
  by (induction rs) (auto simp: result_simps)

lemma when_present_iff:
  "when_present ms n check = Inr () \<longleftrightarrow> (\<forall>raw. map_of ms n = Some raw \<longrightarrow> (\<exists>x. check raw = Inr x))"
  by (auto simp: when_present_def row_at_map_of result_simps split: option.split)

subsection \<open>What an admitted node looks like\<close>

lemma required_strings_texts: "required_strings vs = Inr ss \<Longrightarrow> vs = map JStr ss"
  by (induction vs arbitrary: ss) (auto simp: result_simps requireString_def split: json.splits)

lemma unique_strings_texts: "unique_strings vs seen = Inr ss \<Longrightarrow> vs = map JStr ss"
  by (induction vs arbitrary: ss seen) (auto simp: result_simps requireString_def split: json.splits)

lemma texts_JStr [simp]: "texts (map JStr ss) = ss"
  by (induction ss) (simp_all add: texts_def)

lemma read_string_items_JStr [simp]: "read_string_items [] (map JStr ss) = Some ss"
  by (induction ss) (simp_all add: read_string_def)

lemma string_items_JStr [simp]: "string_items (map JStr ss) = Inr ss"
  by (induction ss) (simp_all add: read_string_def)

text \<open>The shape of each keyword's value.\<close>

definition count_ok :: "dialect \<Rightarrow> json \<Rightarrow> bool" where
  "count_ok dx v \<longleftrightarrow> (\<exists>s n. v = JNum s \<and> isJSONNumber s \<and> dx_decimal dx s = Some (of_int n) \<and> 0 \<le> n \<and> n \<le> maxCountBound)"

definition number_ok :: "dialect \<Rightarrow> json \<Rightarrow> bool" where
  "number_ok dx v \<longleftrightarrow> (\<exists>s d. v = JNum s \<and> isJSONNumber s \<and> dx_decimal dx s = Some d)"

lemma parseCountValue_ok: "parseCountValue dx v = Inr n \<Longrightarrow> count_ok dx v"
  by (fastforce simp: parseCountValue_def count_ok_def result_simps parseJSONNumber_def isExactInteger_def
      split: json.splits option.splits)

lemma requireNumberBound_ok: "requireNumberBound dx v = Inr u \<Longrightarrow> number_ok dx v"
  by (auto simp: requireNumberBound_def number_ok_def result_simps parseJSONNumber_def
      split: json.splits option.splits)

lemma checkTypeValue_ok: "checkTypeValue ty = Inr u \<Longrightarrow> type_names ty = Inr (type_list ty)"
  by (auto simp: checkTypeValue_def type_names_def type_list_def result_simps requireString_def read_string_def
      dest!: required_strings_texts split: json.splits)

lemma requireUniqueStrings_ok: "requireUniqueStrings v = Inr ss \<Longrightarrow> v = JArr (map JStr ss)"
  by (auto simp: requireUniqueStrings_def requireArray_def result_simps dest: unique_strings_texts
      split: json.splits)

definition count_keywords :: "string list" where
  "count_keywords = [''minLength'', ''maxLength'', ''minItems'', ''maxItems'']"

definition bound_keywords :: "string list" where
  "bound_keywords = [''minimum'', ''maximum'']"

lemma keyword_groups:
  "set count_keywords \<subseteq> set enforcedKeywords" "set bound_keywords \<subseteq> set enforcedKeywords"
  by (simp_all add: count_keywords_def bound_keywords_def enforcedKeywords_def)

definition node_ok :: "dialect \<Rightarrow> (string \<times> json) list \<Rightarrow> bool" where
  "node_ok dx ms \<longleftrightarrow>
     (\<forall>ty. map_of ms ''type'' = Some ty \<longrightarrow> type_names ty = Inr (type_list ty))
     \<and> (\<forall>v. map_of ms ''required'' = Some v \<longrightarrow> (\<exists>ss. v = JArr (map JStr ss)))
     \<and> (\<forall>v. map_of ms ''enum'' = Some v \<longrightarrow> (\<exists>cs. v = JArr cs \<and> cs \<noteq> []))
     \<and> (\<forall>n \<in> set count_keywords. \<forall>v. map_of ms n = Some v \<longrightarrow> count_ok dx v)
     \<and> (\<forall>n \<in> set bound_keywords. \<forall>v. map_of ms n = Some v \<longrightarrow> number_ok dx v)
     \<and> (\<forall>v. map_of ms ''pattern'' = Some v \<longrightarrow> (\<exists>p. v = JStr p \<and> p \<noteq> [] \<and> dx_regexp dx p \<noteq> None))"

lemma checkKeywordValues_ok:
  assumes "checkKeywordValues dx ms = Inr ()"
  shows "node_ok dx ms"
proof -
  have all: "when_present ms ''type'' checkTypeValue = Inr ()"
      "when_present ms ''required'' (checkRequired ms) = Inr ()"
      "when_present ms ''enum'' (\<lambda>raw. rbind (requireArray raw) (\<lambda>vs.
           ensure (vs \<noteq> []) (errors_New ''must not be empty''))) = Inr ()"
      "\<forall>n \<in> set count_keywords. when_present ms n (parseCountValue dx) = Inr ()"
      "\<forall>n \<in> set bound_keywords. when_present ms n (requireNumberBound dx) = Inr ()"
      "when_present ms ''pattern'' (checkPattern dx) = Inr ()"
    using assms unfolding checkKeywordValues_def first_error_iff count_keywords_def bound_keywords_def by simp_all
  have "\<exists>p. v = JStr p \<and> p \<noteq> [] \<and> dx_regexp dx p \<noteq> None" if "map_of ms ''pattern'' = Some v" for v
    using all(6) that by (auto simp: when_present_iff checkPattern_def requireString_def result_simps split: json.splits)
  moreover have "\<exists>cs. v = JArr cs \<and> cs \<noteq> []" if "map_of ms ''enum'' = Some v" for v
    using all(3) that by (auto simp: when_present_iff requireArray_def result_simps split: json.splits)
  moreover have "\<exists>ss. v = JArr (map JStr ss)" if r: "map_of ms ''required'' = Some v" for v
  proof -
    obtain u where "checkRequired ms v = Inr u" using all(2) r unfolding when_present_iff by blast
    then obtain ss where "requireUniqueStrings v = Inr ss" unfolding checkRequired_def rbind_eq_Inr by blast
    then show ?thesis using requireUniqueStrings_ok by blast
  qed
  moreover have "type_names ty = Inr (type_list ty)" if "map_of ms ''type'' = Some ty" for ty
    using all(1) that checkTypeValue_ok unfolding when_present_iff by blast
  moreover have "\<forall>n \<in> set count_keywords. \<forall>v. map_of ms n = Some v \<longrightarrow> count_ok dx v"
    using all(4) parseCountValue_ok unfolding when_present_iff by blast
  moreover have "\<forall>n \<in> set bound_keywords. \<forall>v. map_of ms n = Some v \<longrightarrow> number_ok dx v"
    using all(5) requireNumberBound_ok unfolding when_present_iff by blast
  ultimately show ?thesis unfolding node_ok_def by blast
qed

definition shape_ok :: "(string \<times> json) list \<Rightarrow> bool" where
  "shape_ok ms \<longleftrightarrow> distinct (map fst ms) \<and> (\<forall>m \<in> set ms. keyword_ok (fst m))
     \<and> (\<forall>v. map_of ms ''properties'' = Some v \<longrightarrow> (\<exists>ps. v = JObj ps \<and> distinct (map fst ps)))
     \<and> (\<forall>v. map_of ms ''anyOf'' = Some v \<longrightarrow> (\<exists>bs. v = JArr bs \<and> bs \<noteq> []))"

definition list_value :: "json option \<Rightarrow> json list option" where
  "list_value v = (case v of Some (JArr vs) \<Rightarrow> Some vs | _ \<Rightarrow> None)"

definition number_value :: "dialect \<Rightarrow> json option \<Rightarrow> rat option" where
  "number_value dx v = (case v of Some (JNum s) \<Rightarrow> dx_decimal dx s | _ \<Rightarrow> None)"

definition node_view :: "dialect \<Rightarrow> (string \<times> json) list \<Rightarrow> schemaView" where
  "node_view dx ms = \<lparr>sv_Type = map_of ms ''type'',
     sv_Properties = (case map_of ms ''properties'' of Some (JObj ps) \<Rightarrow> Some ps | _ \<Rightarrow> None),
     sv_Required = texts (list_of (list_value (map_of ms ''required''))),
     sv_AdditionalProperties = map_of ms ''additionalProperties'', sv_Items = map_of ms ''items'',
     sv_Enum = list_value (map_of ms ''enum''), sv_Const = map_of ms ''const'',
     sv_Minimum = number_value dx (map_of ms ''minimum''), sv_Maximum = number_value dx (map_of ms ''maximum''),
     sv_MinLength = map_option floor (number_value dx (map_of ms ''minLength'')),
     sv_MaxLength = map_option floor (number_value dx (map_of ms ''maxLength'')),
     sv_MinItems = map_option floor (number_value dx (map_of ms ''minItems'')),
     sv_MaxItems = map_option floor (number_value dx (map_of ms ''maxItems'')),
     sv_Pattern = (case map_of ms ''pattern'' of Some (JStr p) \<Rightarrow> p | _ \<Rightarrow> ''''),
     sv_AnyOf = list_value (map_of ms ''anyOf'')\<rparr>"

lemma read_count_ok:
  "count_ok dx v \<Longrightarrow> read_count dx x v = Some (map_option floor (number_value dx (Some v)))"
  by (auto simp: count_ok_def read_count_def parseCountValue_def parseJSONNumber_def isExactInteger_def
      number_value_def)

lemma read_number_ok: "number_ok dx v \<Longrightarrow> read_number dx x v = Some (number_value dx (Some v))"
  by (auto simp: number_ok_def read_number_def number_value_def)

lemma field_kw:
  "shape_ok ms \<Longrightarrow> n \<in> set enforcedKeywords \<Longrightarrow>
     field n read x ms = (case map_of ms n of None \<Rightarrow> Some x | Some v \<Rightarrow> read x v)"
  by (intro field_keyword) (auto simp: shape_ok_def)

lemma view_fields:
  assumes shape: "shape_ok ms" and node: "node_ok dx ms"
  shows "n \<in> set enforcedKeywords \<Longrightarrow> field n read_raw None ms = Some (map_of ms n)"
    "field ''properties'' read_map None ms = Some (sv_Properties (node_view dx ms))"
    "field ''required'' read_strings [] ms = Some (sv_Required (node_view dx ms))"
    "field ''enum'' read_raws None ms = Some (list_value (map_of ms ''enum''))"
    "field ''anyOf'' read_raws None ms = Some (list_value (map_of ms ''anyOf''))"
    "n \<in> set bound_keywords \<Longrightarrow> field n (read_number dx) None ms = Some (number_value dx (map_of ms n))"
    "n \<in> set count_keywords \<Longrightarrow>
       field n (read_count dx) None ms = Some (map_option floor (number_value dx (map_of ms n)))"
    "field ''pattern'' read_string [] ms = Some (sv_Pattern (node_view dx ms))"
proof -
  note kw = field_kw [OF shape]
  have names: "''properties'' \<in> set enforcedKeywords" "''required'' \<in> set enforcedKeywords"
    "''enum'' \<in> set enforcedKeywords" "''anyOf'' \<in> set enforcedKeywords" "''pattern'' \<in> set enforcedKeywords"
    by (simp_all add: enforcedKeywords_def)
  show "n \<in> set enforcedKeywords \<Longrightarrow> field n read_raw None ms = Some (map_of ms n)"
    by (simp add: kw read_raw_def split: option.split)
  show "field ''properties'' read_map None ms = Some (sv_Properties (node_view dx ms))"
    using shape fold_put_fresh [of "[]"] unfolding kw [OF names(1)]
    by (cases "map_of ms ''properties''") (auto simp: shape_ok_def read_map_def node_view_def)
  show "field ''required'' read_strings [] ms = Some (sv_Required (node_view dx ms))"
  proof (cases "map_of ms ''required''")
    case (Some v)
    then obtain ss where "v = JArr (map JStr ss)" using node by (auto simp: node_ok_def)
    then show ?thesis
      using Some by (simp add: kw names read_strings_def node_view_def list_value_def list_of_def)
  qed (simp add: kw names node_view_def list_value_def list_of_def texts_def)
  show "field ''enum'' read_raws None ms = Some (list_value (map_of ms ''enum''))"
    using node unfolding kw [OF names(3)]
    by (cases "map_of ms ''enum''") (auto simp: node_ok_def read_raws_def list_value_def)
  show "field ''anyOf'' read_raws None ms = Some (list_value (map_of ms ''anyOf''))"
    using shape unfolding kw [OF names(4)]
    by (cases "map_of ms ''anyOf''") (auto simp: shape_ok_def read_raws_def list_value_def)
  show "field n (read_number dx) None ms = Some (number_value dx (map_of ms n))" if n: "n \<in> set bound_keywords"
  proof -
    have "n \<in> set enforcedKeywords" using n keyword_groups by blast
    moreover have "number_ok dx v" if "map_of ms n = Some v" for v
      using node n that unfolding node_ok_def by blast
    ultimately show ?thesis
      by (cases "map_of ms n") (simp_all add: kw read_number_ok number_value_def)
  qed
  show "field n (read_count dx) None ms = Some (map_option floor (number_value dx (map_of ms n)))"
    if n: "n \<in> set count_keywords"
  proof -
    have "n \<in> set enforcedKeywords" using n keyword_groups by blast
    moreover have "count_ok dx v" if "map_of ms n = Some v" for v
      using node n that unfolding node_ok_def by blast
    ultimately show ?thesis
      by (cases "map_of ms n") (simp_all add: kw read_count_ok, simp add: number_value_def)
  qed
  show "field ''pattern'' read_string [] ms = Some (sv_Pattern (node_view dx ms))"
    using node unfolding kw [OF names(5)]
    by (cases "map_of ms ''pattern''") (auto simp: node_ok_def read_string_def node_view_def)
qed

lemma schema_view_node:
  assumes "shape_ok ms" "node_ok dx ms"
  shows "schema_view dx (JObj ms) = Some (node_view dx ms)"
  using view_fields [OF assms]
  by (simp add: schema_view_def struct_members_def enforcedKeywords_def count_keywords_def bound_keywords_def)
     (simp add: node_view_def)

subsection \<open>Agreement\<close>

definition admitted :: "dialect \<Rightarrow> json \<Rightarrow> bool" where
  "admitted dx schema \<longleftrightarrow> CheckSchemaVocabulary dx schema = Inr () \<and> unambiguous schema"

lemma unambiguous_part:
  "unambiguous (JObj ms) \<Longrightarrow> map_of ms k = Some v \<Longrightarrow> unambiguous v"
  by (auto simp: list_all_iff dest!: map_of_SomeD)

lemma admitted_node:
  assumes "admitted dx schema"
  shows "\<exists>ms. schema = JObj ms \<and> shape_ok ms \<and> node_ok dx ms
    \<and> (\<forall>ps n p. map_of ms ''properties'' = Some (JObj ps) \<longrightarrow> (n, p) \<in> set ps \<longrightarrow> admitted dx p)
    \<and> (\<forall>i. map_of ms ''items'' = Some i \<longrightarrow> admitted dx i)
    \<and> (\<forall>a. map_of ms ''additionalProperties'' = Some a \<longrightarrow> (\<exists>b. a = JBool b) \<or> (\<exists>os. a = JObj os \<and> admitted dx a))
    \<and> (\<forall>bs b. map_of ms ''anyOf'' = Some (JArr bs) \<longrightarrow> b \<in> set bs \<longrightarrow> admitted dx b)"
proof -
  have check: "checkNode dx schema = Inr ()" and unamb: "unambiguous schema"
    using assms by (simp_all add: admitted_def CheckSchemaVocabulary_def)
  then obtain ms where s: "schema = JObj ms" by (subst (asm) checkNode.simps) (auto split: json.splits)
  have dist: "distinct (map fst ms)" using unamb by (simp add: s)
  have part: "unambiguous v" if "map_of ms k = Some v" for k v using unamb that unambiguous_part s by blast
  note c = check [unfolded s checkNode.simps [of dx "JObj ms"] json.case members_map_id [OF dist] Let_def
      row_at_map_of rbind_eq_Inr ensure_eq]
  have kw: "\<forall>m \<in> set ms. keyword_ok (fst m)" using c by (auto simp: list_all_iff keyword_ok_def)
  have node: "node_ok dx ms" using c by (intro checkKeywordValues_ok) auto
  have props: "\<exists>ps. v = JObj ps \<and> (\<forall>(n, p) \<in> set ps. checkNode dx p = Inr ())"
    if v: "map_of ms ''properties'' = Some v" for v
  proof -
    obtain ps where ps: "v = JObj ps" using c v by (cases v) auto
    then have "members_map ps = ps" using part [OF v] by simp
    then show ?thesis using c v ps by (fastforce simp: first_error_iff result_simps)
  qed
  have items: "checkNode dx i = Inr ()" if "map_of ms ''items'' = Some i" for i using c that by auto
  have addl: "(\<exists>b. a = JBool b) \<or> (\<exists>os. a = JObj os \<and> checkNode dx a = Inr ())"
    if "map_of ms ''additionalProperties'' = Some a" for a using c that by (cases a) auto
  have anyOf: "\<exists>bs. v = JArr bs \<and> bs \<noteq> [] \<and> (\<forall>b \<in> set bs. checkNode dx b = Inr ())"
    if "map_of ms ''anyOf'' = Some v" for v using c that by (cases v) (auto simp: first_error_iff result_simps)
  have adm: "admitted dx v" if "checkNode dx v = Inr ()" "unambiguous v" for v
    using that by (simp add: admitted_def CheckSchemaVocabulary_def)
  show ?thesis
  proof (intro exI [of _ ms] conjI allI impI)
    show "shape_ok ms" unfolding shape_ok_def using dist kw props anyOf part by fastforce
    show "admitted dx p" if "map_of ms ''properties'' = Some (JObj ps)" "(n, p) \<in> set ps" for ps n p
      using props [OF that(1)] part [OF that(1)] that(2) adm [of p] by (fastforce simp: list_all_iff)
    show "admitted dx b" if "map_of ms ''anyOf'' = Some (JArr bs)" "b \<in> set bs" for bs b
      using anyOf [OF that(1)] part [OF that(1)] that(2) adm [of b] by (auto simp: list_all_iff)
    show "admitted dx i" if "map_of ms ''items'' = Some i" for i using items [OF that] part [OF that] by (rule adm)
    show "(\<exists>b. a = JBool b) \<or> (\<exists>os. a = JObj os \<and> admitted dx a)"
      if "map_of ms ''additionalProperties'' = Some a" for a using addl [OF that] part [OF that] adm by blast
  qed (simp_all add: s node)
qed

lemma any_of_iff: "\<forall>x \<in> set xs. \<not> fst x \<Longrightarrow> any_of xs = Inr () \<longleftrightarrow> (\<exists>x \<in> set xs. snd x = Inr ())"
  by (induction xs rule: any_of.induct) (auto split: sum.splits)

lemma within_int_iff:
  assumes "\<And>v. lo = Some v \<Longrightarrow> count_ok dx v" "\<And>v. hi = Some v \<Longrightarrow> count_ok dx v"
  shows "within_int (map_option floor (number_value dx lo)) n (map_option floor (number_value dx hi))
    \<longleftrightarrow> at_least dx lo (of_int n) \<and> at_most dx hi (of_int n)"
proof -
  have "(case map_option floor (number_value dx lo) of None \<Rightarrow> True | Some l \<Rightarrow> \<not> n < l) = at_least dx lo (of_int n)"
    using assms(1) by (cases lo) (auto simp: number_value_def at_least_def count_ok_def)
  moreover have "(case map_option floor (number_value dx hi) of None \<Rightarrow> True | Some h \<Rightarrow> \<not> n > h) = at_most dx hi (of_int n)"
    using assms(2) by (cases hi) (auto simp: number_value_def at_most_def count_ok_def)
  ultimately show ?thesis by (simp add: within_int_def)
qed

lemma count_within:
  assumes "node_ok dx ms" "lo \<in> set count_keywords" "hi \<in> set count_keywords"
  shows "within_int (map_option floor (number_value dx (map_of ms lo))) n (map_option floor (number_value dx (map_of ms hi)))
    \<longleftrightarrow> at_least dx (map_of ms lo) (of_int n) \<and> at_most dx (map_of ms hi) (of_int n)"
  using assms by (intro within_int_iff) (auto simp: node_ok_def)

lemma validateString_iff:
  assumes "node_ok dx ms"
  shows "validateString dx (node_view dx ms) t = Inr () \<longleftrightarrow> conforms_string dx ms t"
proof -
  have "within_int (sv_MinLength (node_view dx ms)) (RuneCount t) (sv_MaxLength (node_view dx ms))
      \<longleftrightarrow> at_least dx (map_of ms ''minLength'') (of_int (RuneCount t)) \<and> at_most dx (map_of ms ''maxLength'') (of_int (RuneCount t))"
    using count_within [OF assms] by (simp add: node_view_def count_keywords_def)
  moreover have "(\<exists>p. v = JStr p \<and> p \<noteq> [] \<and> dx_regexp dx p \<noteq> None)" if "map_of ms ''pattern'' = Some v" for v
    using assms that by (simp add: node_ok_def)
  ultimately show ?thesis
    by (cases "map_of ms ''pattern''")
       (auto simp: validateString_def conforms_string_def result_simps node_view_def)
qed

lemma validateNumber_iff:
  assumes "node_ok dx ms"
  shows "validateNumber dx (node_view dx ms) n = Inr () \<longleftrightarrow> conforms_number dx ms n"
proof -
  have ok: "number_ok dx v" if "map_of ms k = Some v" "k \<in> set bound_keywords" for k v
    using assms that by (simp add: node_ok_def)
  have none: "sv_Minimum (node_view dx ms) = None \<longleftrightarrow> map_of ms ''minimum'' = None"
    "sv_Maximum (node_view dx ms) = None \<longleftrightarrow> map_of ms ''maximum'' = None"
    using ok [of "''minimum''"] ok [of "''maximum''"]
    by (auto simp: node_view_def number_value_def number_ok_def bound_keywords_def split: option.splits json.splits)
  have low: "(case sv_Minimum (node_view dx ms) of None \<Rightarrow> True | Some l \<Rightarrow> \<not> d < l) = at_least dx (map_of ms ''minimum'') d" for d
    by (auto simp: node_view_def number_value_def at_least_def split: option.splits json.splits)
  have high: "(case sv_Maximum (node_view dx ms) of None \<Rightarrow> True | Some h \<Rightarrow> \<not> d > h) = at_most dx (map_of ms ''maximum'') d" for d
    by (auto simp: node_view_def number_value_def at_most_def split: option.splits json.splits)
  show ?thesis
    using none by (auto simp: validateNumber_def conforms_number_def parseJSONNumber_def low high result_simps
        split: option.split)
qed
lemma admitted_view:
  assumes "admitted dx schema"
  shows "schema_view dx schema \<noteq> None"
proof -
  obtain ms where "schema = JObj ms" "shape_ok ms" "node_ok dx ms" using admitted_node [OF assms] by blast
  then show ?thesis by (simp add: schema_view_node)
qed

text \<open>The parts of \<open>validate\<close> that do not descend.\<close>

lemma flat_parts_iff:
  assumes node: "node_ok dx ms"
  shows "(case sv_Type (node_view dx ms) of None \<Rightarrow> Inr () | Some ty \<Rightarrow> checkType dx ty v) = Inr ()
      \<longleftrightarrow> (case map_of ms ''type'' of None \<Rightarrow> True | Some ty \<Rightarrow> \<exists>t \<in> set (type_list ty). typeMatches dx t v)"
    "check_const dx (node_view dx ms) v = Inr ()
      \<longleftrightarrow> (case map_of ms ''const'' of None \<Rightarrow> True | Some c \<Rightarrow> jsonInstanceEqual dx v c = Inr True)"
    "check_enum dx (node_view dx ms) v = Inr ()
      \<longleftrightarrow> (case map_of ms ''enum'' of Some (JArr cs) \<Rightarrow> \<exists>c \<in> set cs. jsonInstanceEqual dx v c = Inr True | _ \<Rightarrow> True)"
proof -
  have "type_names ty = Inr (type_list ty)" if "map_of ms ''type'' = Some ty" for ty
    using node that by (simp add: node_ok_def)
  then show "(case sv_Type (node_view dx ms) of None \<Rightarrow> Inr () | Some ty \<Rightarrow> checkType dx ty v) = Inr ()
      \<longleftrightarrow> (case map_of ms ''type'' of None \<Rightarrow> True | Some ty \<Rightarrow> \<exists>t \<in> set (type_list ty). typeMatches dx t v)"
    by (auto simp: node_view_def checkType_def list_ex_iff split: option.split)
  show "check_const dx (node_view dx ms) v = Inr ()
      \<longleftrightarrow> (case map_of ms ''const'' of None \<Rightarrow> True | Some c \<Rightarrow> jsonInstanceEqual dx v c = Inr True)"
    by (simp add: check_const_def node_view_def split: option.split)
  have "\<exists>cs. e = JArr cs \<and> cs \<noteq> []" if "map_of ms ''enum'' = Some e" for e
    using node that by (simp add: node_ok_def)
  then show "check_enum dx (node_view dx ms) v = Inr ()
      \<longleftrightarrow> (case map_of ms ''enum'' of Some (JArr cs) \<Rightarrow> \<exists>c \<in> set cs. jsonInstanceEqual dx v c = Inr True | _ \<Rightarrow> True)"
    by (cases "map_of ms ''enum''")
       (auto simp: check_enum_def node_view_def list_value_def list_of_def list_ex_iff)
qed

lemma known_declared: "shape_ok ms \<Longrightarrow> known_property (node_view dx ms) n \<longleftrightarrow> declared ms n"
  by (cases "map_of ms ''properties''")
     (auto simp: shape_ok_def known_property_def node_view_def list_of_def declared_def row_at_map_of)

lemma anyOf_iff:
  assumes shape: "shape_ok ms"
    and branches: "\<And>bs b. map_of ms ''anyOf'' = Some (JArr bs) \<Longrightarrow> b \<in> set bs \<Longrightarrow>
      schema_view dx b \<noteq> None \<and> (validate dx b v = Inr () \<longleftrightarrow> conforms dx b v)"
  shows "(if list_of (sv_AnyOf (node_view dx ms)) = [] then Inr ()
      else any_of (map (\<lambda>b. (schema_view dx b = None, validate dx b v)) (list_of (sv_AnyOf (node_view dx ms))))) = Inr ()
    \<longleftrightarrow> (case map_of ms ''anyOf'' of Some (JArr bs) \<Rightarrow> (\<exists>b \<in> set bs. conforms dx b v) | _ \<Rightarrow> True)"
proof (cases "map_of ms ''anyOf''")
  case (Some w)
  then obtain bs where bs: "w = JArr bs" "bs \<noteq> []" using shape by (auto simp: shape_ok_def)
  have "any_of (map (\<lambda>b. (schema_view dx b = None, validate dx b v)) bs) = Inr ()
      \<longleftrightarrow> (\<exists>b \<in> set bs. conforms dx b v)"
    using branches Some bs by (subst any_of_iff) auto
  then show ?thesis using Some bs by (simp add: node_view_def list_value_def list_of_def)
qed (simp add: node_view_def list_value_def list_of_def)

lemma properties_iff:
  assumes shape: "shape_ok ms"
    and children: "\<And>ps n p c. map_of ms ''properties'' = Some (JObj ps) \<Longrightarrow> (n, p) \<in> set ps \<Longrightarrow>
      (validate dx p c = Inr () \<longleftrightarrow> conforms dx p c)"
  shows "first_error (map (\<lambda>(name, prop). case row_at (members_map vs) name of
             None \<Rightarrow> Inr () | Some child \<Rightarrow> validate dx prop child) (list_of (sv_Properties (node_view dx ms)))) = Inr ()
    \<longleftrightarrow> (case map_of ms ''properties'' of
          Some (JObj ps) \<Rightarrow> (\<forall>(n, p) \<in> set ps. case map_of (rev vs) n of None \<Rightarrow> True | Some c \<Rightarrow> conforms dx p c)
        | _ \<Rightarrow> True)"
proof (cases "map_of ms ''properties''")
  case (Some w)
  then obtain ps where ps: "w = JObj ps" using shape by (auto simp: shape_ok_def)
  have "(case map_of (rev vs) n of None \<Rightarrow> Inr () | Some child \<Rightarrow> validate dx p child) = Inr ()
      \<longleftrightarrow> (case map_of (rev vs) n of None \<Rightarrow> True | Some c \<Rightarrow> conforms dx p c)" if "(n, p) \<in> set ps" for n p
    using children Some ps that by (simp split: option.split)
  then show ?thesis
    using Some ps by (auto simp: node_view_def list_of_def first_error_iff row_at_members_map)
qed (simp add: node_view_def list_of_def)

lemma members_map_keys: "fst ` set (members_map vs) = fst ` set vs"
proof -
  have "n \<in> fst ` set (members_map vs) \<longleftrightarrow> n \<in> fst ` set vs" for n
    using row_at_members_map [of vs n] map_of_eq_None_iff [of "members_map vs" n] map_of_eq_None_iff [of "rev vs" n]
    by (simp add: row_at_map_of)
  then show ?thesis by blast
qed

lemma additional_iff:
  assumes shape: "shape_ok ms"
    and addl: "\<And>a. map_of ms ''additionalProperties'' = Some a \<Longrightarrow> (\<exists>b. a = JBool b) \<or> (\<exists>os. a = JObj os
      \<and> schema_view dx a \<noteq> None \<and> (\<forall>c. validate dx a c = Inr () \<longleftrightarrow> conforms dx a c))"
  shows "(case sv_AdditionalProperties (node_view dx ms) of
       None \<Rightarrow> Inr ()
     | Some a \<Rightarrow>
         if a = JBool False
         then ensure (list_all (\<lambda>(name, child). known_property (node_view dx ms) name) (members_map vs)) e1
         else if a = JBool True then Inr ()
         else if valueKind a \<noteq> ''object'' then Inl e2
         else rbind (ensure (schema_view dx a \<noteq> None) e3) (\<lambda>_.
              first_error (map (\<lambda>(name, child). if known_property (node_view dx ms) name then Inr ()
                                                else validate dx a child) (members_map vs)))) = Inr ()
    \<longleftrightarrow> (case map_of ms ''additionalProperties'' of
          Some (JBool allowed) \<Rightarrow> allowed \<or> (\<forall>n \<in> fst ` set vs. declared ms n)
        | Some (JObj os) \<Rightarrow> (\<forall>(n, c) \<in> set (members_map vs). declared ms n \<or> conforms dx (JObj os) c)
        | _ \<Rightarrow> True)"
proof (cases "map_of ms ''additionalProperties''")
  case (Some a)
  have view: "sv_AdditionalProperties (node_view dx ms) = Some a" using Some by (simp add: node_view_def)
  consider b where "a = JBool b" | os where "a = JObj os" "schema_view dx a \<noteq> None"
      "\<forall>c. validate dx a c = Inr () \<longleftrightarrow> conforms dx a c"
    using addl [OF Some] by blast
  then show ?thesis
  proof cases
    case 1
    have "list_all (\<lambda>(name, child). declared ms name) (members_map vs) \<longleftrightarrow> (\<forall>n \<in> fst ` set vs. declared ms n)"
      unfolding members_map_keys [of vs, symmetric] by (auto simp: list_all_iff)
    then show ?thesis using 1 Some by (cases b) (simp_all add: view known_declared [OF shape])
  next
    case 2
    then show ?thesis
      using Some by (auto simp: view first_error_iff known_declared [OF shape] split: if_splits)
  qed
qed (simp add: node_view_def)

lemma validate_conforms: "admitted dx schema \<Longrightarrow> validate dx schema v = Inr () \<longleftrightarrow> conforms dx schema v"
proof (induction schema arbitrary: v rule: measure_induct_rule [of size])
  case (less schema)
  from admitted_node [OF less.prems] obtain ms where s: "schema = JObj ms" and shape: "shape_ok ms"
    and node: "node_ok dx ms"
    and adm: "\<forall>ps n p. map_of ms ''properties'' = Some (JObj ps) \<longrightarrow> (n, p) \<in> set ps \<longrightarrow> admitted dx p"
      "\<forall>i. map_of ms ''items'' = Some i \<longrightarrow> admitted dx i"
      "\<forall>a. map_of ms ''additionalProperties'' = Some a \<longrightarrow> (\<exists>b. a = JBool b) \<or> (\<exists>os. a = JObj os \<and> admitted dx a)"
      "\<forall>bs b. map_of ms ''anyOf'' = Some (JArr bs) \<longrightarrow> b \<in> set bs \<longrightarrow> admitted dx b"
    by blast
  have ih: "validate dx x w = Inr () \<longleftrightarrow> conforms dx x w" if "size x < size (JObj ms)" "admitted dx x" for x w
    using less.IH that s by blast
  have anyOf: "schema_view dx b \<noteq> None \<and> (validate dx b w = Inr () \<longleftrightarrow> conforms dx b w)"
    if "map_of ms ''anyOf'' = Some (JArr bs)" "b \<in> set bs" for bs b w
    using ih [OF map_of_size_item [OF that]] adm(4) [rule_format, OF that] admitted_view by simp
  have props: "validate dx p c = Inr () \<longleftrightarrow> conforms dx p c"
    if "map_of ms ''properties'' = Some (JObj ps)" "(n, p) \<in> set ps" for ps n p c
    using ih [OF map_of_size_member [OF that]] adm(1) [rule_format, OF that] by simp
  have addl: "(\<exists>b. a = JBool b) \<or> (\<exists>os. a = JObj os \<and> schema_view dx a \<noteq> None
      \<and> (\<forall>c. validate dx a c = Inr () \<longleftrightarrow> conforms dx a c))"
    if a: "map_of ms ''additionalProperties'' = Some a" for a
  proof (cases "\<exists>b. a = JBool b")
    case False
    then obtain os where os: "a = JObj os" "admitted dx a" using adm(3) a by blast
    show ?thesis using ih [OF map_of_size [OF a] os(2)] admitted_view [OF os(2)] os(1) by simp
  qed simp
  have items: "schema_view dx i \<noteq> None \<and> (validate dx i c = Inr () \<longleftrightarrow> conforms dx i c)"
    if "map_of ms ''items'' = Some i" for i c
    using ih [OF map_of_size [OF that]] adm(2) [rule_format, OF that] admitted_view by simp
  have required: "check_required (sv_Required (node_view dx ms)) (members_map vs) = Inr ()
      \<longleftrightarrow> (case map_of ms ''required'' of
            Some (JArr ns) \<Rightarrow> (\<forall>n \<in> set (texts ns). map_of (rev vs) n \<noteq> None) | _ \<Rightarrow> True)" for vs
    by (auto simp: check_required_def node_view_def list_value_def list_of_def row_at_members_map list_all_iff
        texts_def split: option.split json.split)
  have count: "within_int (sv_MinItems (node_view dx ms)) (int (length vs)) (sv_MaxItems (node_view dx ms))
      \<longleftrightarrow> conforms_count dx ms vs" for vs
    using count_within [OF node, of "''minItems''" "''maxItems''" "int (length vs)"]
    by (simp add: node_view_def conforms_count_def count_keywords_def)
  have item_list: "(case sv_Items (node_view dx ms) of
        None \<Rightarrow> Inr ()
      | Some i \<Rightarrow> rbind (ensure (schema_view dx i \<noteq> None) e) (\<lambda>_. first_error (map (\<lambda>item. validate dx i item) vs))) = Inr ()
      \<longleftrightarrow> (case map_of ms ''items'' of Some i \<Rightarrow> (\<forall>x \<in> set vs. conforms dx i x) | None \<Rightarrow> True)" for vs e
    using items by (cases "map_of ms ''items''") (auto simp: node_view_def first_error_iff)
  note parts = flat_parts_iff [OF node] anyOf_iff [OF shape anyOf] properties_iff [OF shape props]
    additional_iff [OF shape addl] required count item_list validateString_iff [OF node] validateNumber_iff [OF node]
  show ?case
    unfolding s validate.simps [of dx "JObj ms" v] conforms.simps [of dx "JObj ms" v] schema_view_node [OF shape node]
      option.case json.case rbind_eq_Inr conforms_value_def Let_def
    by (cases v; hypsubst_thin) (simp_all add: parts rbind_eq_Inr conj_ac)
qed

section \<open>Properties\<close>

text \<open>
  C20: The validator decides the reference semantics. On every schema without repeated members that the
  vocabulary check admits, the runtime validator accepts a value exactly when the value conforms to
  the schema: no constraint is skipped through the decoding of names, numbers or nulls, and no
  conforming value is refused.
\<close>

theorem validator_decides_conformance:
  assumes "CheckSchemaVocabulary dx schema = Inr ()" "unambiguous schema"
  shows "ValidateAgainstSchema dx (Some schema) (Some v) = Inr () \<longleftrightarrow> conforms dx schema v"
  using validate_conforms [of dx schema v] assms by (simp add: ValidateAgainstSchema_def admitted_def)

definition demo_dialect :: dialect where
  "demo_dialect = \<lparr>dx_decimal = (\<lambda>s. map_option of_int (parse_int64 s)),
     dx_regexp = (\<lambda>p. Some (\<lambda>t. contains p t))\<rparr>"

definition demo_schema :: json where
  "demo_schema = JObj [(''required'', JArr [JStr ''n'']),
     (''properties'', JObj [(''n'', JObj [(''minimum'', JNum ''2'')])])]"

definition demo_value :: "string \<Rightarrow> json" where
  "demo_value n = JObj [(''n'', JNum n)]"

text \<open>The two sides of the bound, by the reference semantics.\<close>

lemma demo_numbers: "parse_int64 ''2'' = Some 2" "parse_int64 ''5'' = Some 5" "parse_int64 ''1'' = Some 1"
  "isJSONNumber ''5''" "isJSONNumber ''1''"
  by code_simp+

lemma demo_conforms:
  "parse_int64 n = Some k \<Longrightarrow> isJSONNumber n \<Longrightarrow> conforms demo_dialect demo_schema (demo_value n) \<longleftrightarrow> 2 \<le> k"
  by (simp add: demo_schema_def demo_value_def conforms.simps [of _ "JObj _"] conforms_value_def texts_def
      conforms_number_def at_least_def at_most_def demo_dialect_def demo_numbers)

theorem validator_decides_conformance_witness:
  "ValidateAgainstSchema demo_dialect (Some demo_schema) (Some (demo_value ''5'')) = Inr ()
   \<and> ValidateAgainstSchema demo_dialect (Some demo_schema) (Some (demo_value ''1'')) \<noteq> Inr ()"
proof -
  have ok: "CheckSchemaVocabulary demo_dialect demo_schema = Inr ()" "unambiguous demo_schema" by code_simp+
  show ?thesis
    using validator_decides_conformance [OF ok, of "demo_value ''5''"]
      validator_decides_conformance [OF ok, of "demo_value ''1''"] by (simp add: demo_conforms demo_numbers)
qed

text \<open>
  The scan for parameter headers does not look into \<open>anyOf\<close>, and the keyword is removed before the
  vocabulary check, so an annotation there is admitted and ignored; and a property that is itself called
  \<open>x-mcp-header\<close> escapes the vocabulary check.
\<close>

lemma header_in_anyOf_admitted:
  "CheckInputSchema demo_dialect (JObj [(''anyOf'', JArr [JObj [(''x-mcp-header'', JStr ''R'')]])]) = Inr ()"
  by code_simp

lemma header_named_property_unchecked:
  "CheckInputSchema demo_dialect
     (JObj [(''properties'', JObj [(''x-mcp-header'', JObj [(''notAKeyword'', JBool True)])])]) = Inr ()"
  by code_simp

end
