(* ===== verification/Upstream_Tasks.thy ===== *)
theory Upstream_Tasks
  imports Upstream_Wire
begin

text \<open>
  The documents of the upstream wire contract (\<open>internal/upstream\<close>: \<open>tasks.go\<close>, \<open>calltool.go\<close>,
  \<open>methods.go\<close>): detailed task states, tools/call results, discovery and the tool listing, each decoded
  and checked. A result document is a value tree, with the compact encoding as its text.
\<close>

section \<open>Definitions\<close>

subsection \<open>Task states\<close>

definition TaskWorking :: string where "TaskWorking = ''working''"

definition TaskInputRequired :: string where "TaskInputRequired = ''input_required''"

definition TaskCompleted :: string where "TaskCompleted = ''completed''"

definition TaskFailed :: string where "TaskFailed = ''failed''"

definition TaskCancelled :: string where "TaskCancelled = ''cancelled''"

lemmas task_states = TaskWorking_def TaskInputRequired_def TaskCompleted_def TaskFailed_def TaskCancelled_def

definition ValidTaskStatus :: "string \<Rightarrow> bool" where
  "ValidTaskStatus s \<longleftrightarrow> s \<in> {TaskWorking, TaskInputRequired, TaskCompleted, TaskFailed, TaskCancelled}"

record TaskState =
  ts_Raw :: json
  ts_ResultType :: string
  ts_TaskID :: string
  ts_Status :: string
  ts_StatusMessage :: string
  ts_CreatedAt :: string
  ts_LastUpdatedAt :: string
  ts_TTLMs :: int
  ts_PollIntervalMs :: int
  ts_Result :: "json option"
  ts_Error :: "json option"
  ts_InputRequests :: "json option"

definition IsTerminal :: "TaskState \<Rightarrow> bool" where
  "IsTerminal t \<longleftrightarrow> ts_Status t = TaskCompleted \<or> ts_Status t = TaskFailed \<or> ts_Status t = TaskCancelled"

definition resultTypeComplete :: string where "resultTypeComplete = ''complete''"

definition resultTypeTask :: string where "resultTypeTask = ''task''"

text \<open>One string or integer member; the flag says that it is there and has the kind (\<open>null\<close> has every kind).\<close>

definition stringMember :: "gomap \<Rightarrow> string \<Rightarrow> string \<times> bool" where
  "stringMember members key =
     (case row_at members key of
        None \<Rightarrow> ('''', False)
      | Some raw \<Rightarrow> (case read_string '''' raw of None \<Rightarrow> ('''', False) | Some s \<Rightarrow> (s, True)))"

definition intMember :: "gomap \<Rightarrow> string \<Rightarrow> int \<times> bool" where
  "intMember members key =
     (case row_at members key of
        None \<Rightarrow> (0, False)
      | Some raw \<Rightarrow> (case read_int64 0 raw of None \<Rightarrow> (0, False) | Some n \<Rightarrow> (n, True)))"

definition hasMember :: "gomap \<Rightarrow> string \<Rightarrow> bool" where
  "hasMember members key \<longleftrightarrow> row_at members key \<noteq> None"

definition checkTaskInt :: "gomap \<Rightarrow> string \<Rightarrow> bool \<Rightarrow> go_error + unit" where
  "checkTaskInt members key required =
     (case row_at members key of
        None \<Rightarrow> ensure (\<not> required) (protocol_failure (''task state is missing '' @ key))
      | Some JNull \<Rightarrow> Inl (protocol_failure (''task state '' @ key @ '' is null''))
      | Some _ \<Rightarrow>
          (case intMember members key of
             (_, False) \<Rightarrow> Inl (protocol_failure (''task state '' @ key @ '' is not an integer''))
           | (n, True) \<Rightarrow> ensure (0 \<le> n \<and> n \<le> maxTaskSafeInt)
               (protocol_failure (''task state '' @ key @ '' is out of range''))))"

definition checkTaskTime :: "gomap \<Rightarrow> string \<Rightarrow> go_error + unit" where
  "checkTaskTime members key =
     (if row_at members key = None \<or> row_at members key = Some JNull
      then Inl (protocol_failure (''task state is missing '' @ key))
      else case stringMember members key of
          (_, False) \<Rightarrow> Inl (protocol_failure (''task state '' @ key @ '' is not a string''))
        | (v, True) \<Rightarrow> ensure (parse_rfc3339 v \<noteq> None)
            (protocol_failure (''task state '' @ key @ '' is not an RFC3339 timestamp'')))"

definition validateTaskEnvelope :: "gomap \<Rightarrow> go_error + unit" where
  "validateTaskEnvelope members =
     rbind (checkTaskTime members ''createdAt'') (\<lambda>_.
     rbind (checkTaskTime members ''lastUpdatedAt'') (\<lambda>_.
     rbind (checkTaskInt members ''ttlMs'' True) (\<lambda>_.
     checkTaskInt members ''pollIntervalMs'' False)))"

definition checkCallToolResult :: "json \<Rightarrow> go_error + unit" where
  "checkCallToolResult raw =
     (case raw of
        JObj ms \<Rightarrow>
          (case (field ''resultType'' read_string '''' ms, field ''content'' read_raw None ms,
                 field ''isError'' read_bool_ptr None ms) of
             (Some rt, Some content, Some isError) \<Rightarrow>
               rbind (ensure (rt = resultTypeComplete) (protocol_failure ''completed task result has another resultType'')) (\<lambda>_.
               rbind (ensure (IsJSONArray content) (protocol_failure ''completed task result has no content array'')) (\<lambda>_.
               ensure (isError \<noteq> None) (protocol_failure ''completed task result has no isError flag'')))
           | _ \<Rightarrow> Inl (protocol_failure ''decode completed task result''))
      | _ \<Rightarrow> Inl (protocol_failure ''completed task result is not a CallToolResult object''))"

definition checkStatePayloads :: "string \<Rightarrow> json option \<Rightarrow> json option \<Rightarrow> json option \<Rightarrow> go_error + unit" where
  "checkStatePayloads status result failure inputRequests =
     rbind
       (if status = TaskCompleted then
          (case result of
             None \<Rightarrow> Inl (protocol_failure ''completed task state has no result'')
           | Some JNull \<Rightarrow> Inl (protocol_failure ''completed task state has no result'')
           | Some v \<Rightarrow> checkCallToolResult v)
        else if status = TaskFailed then
          ensure (IsJSONObject failure) (protocol_failure ''failed task state has no error object'')
        else if status = TaskInputRequired then
          ensure (IsJSONObject inputRequests) (protocol_failure ''input_required task state has no input request object'')
        else ensure (result = None \<and> failure = None \<and> inputRequests = None)
          (protocol_failure ''non-terminal task state carries a payload''))
       (\<lambda>_. ensure (\<not> ((result \<noteq> None \<and> failure \<noteq> None) \<or> (result \<noteq> None \<and> inputRequests \<noteq> None)
              \<or> (failure \<noteq> None \<and> inputRequests \<noteq> None)))
          (protocol_failure ''task state carries conflicting payloads''))"

text \<open>
  The last step of \<open>decodeTaskState\<close>: the typed view of the same document. Its member names fold case,
  unlike the checks before it.
\<close>

definition task_view :: "json \<Rightarrow> string \<Rightarrow> string \<Rightarrow> gomap \<Rightarrow> go_error + TaskState" where
  "task_view raw taskID status members =
     (case struct_members raw of
        None \<Rightarrow> Inl (protocol_failure ''task state carries an unsafe integer literal'')
      | Some ms \<Rightarrow>
          (case (field ''ResultType'' read_string '''' ms, field ''StatusMessage'' read_string '''' ms,
                 field ''CreatedAt'' read_string '''' ms, field ''LastUpdatedAt'' read_string '''' ms,
                 field ''TTLMs'' read_int64 0 ms, field ''PollIntervalMs'' read_int64 0 ms) of
             (Some rt, Some sm, Some ca, Some lu, Some ttl, Some poll) \<Rightarrow>
               Inr \<lparr>ts_Raw = raw, ts_ResultType = rt, ts_TaskID = taskID, ts_Status = status,
                    ts_StatusMessage = sm, ts_CreatedAt = ca, ts_LastUpdatedAt = lu, ts_TTLMs = ttl,
                    ts_PollIntervalMs = poll, ts_Result = row_at members ''result'',
                    ts_Error = row_at members ''error'', ts_InputRequests = row_at members ''inputRequests''\<rparr>
           | _ \<Rightarrow> Inl (protocol_failure ''task state carries an unsafe integer literal'')))"

definition decodeTaskState :: "json \<Rightarrow> string \<Rightarrow> bool \<Rightarrow> go_error + TaskState" where
  "decodeTaskState raw expectedTaskID expectComplete =
     (case unmarshal_map raw of
        Inl _ \<Rightarrow> Inl (protocol_failure ''task state is not a JSON object'')
      | Inr doc \<Rightarrow>
          (let members = (case doc of None \<Rightarrow> [] | Some t \<Rightarrow> t);
               taskID = fst (stringMember members ''taskId'');
               status = fst (stringMember members ''status'')
           in rbind (if expectComplete
                     then ensure (stringMember members ''resultType'' = (resultTypeComplete, True))
                       (protocol_failure ''tasks/get result must carry resultType complete'')
                     else ensure (\<not> hasMember members ''resultType'')
                       (protocol_failure ''task notification carries a resultType'')) (\<lambda>_.
              rbind (ensure (\<not> (taskID = '''' \<or> (expectedTaskID \<noteq> '''' \<and> taskID \<noteq> expectedTaskID)))
                       (protocol_failure ''task state id mismatch'')) (\<lambda>_.
              rbind (ensure (ValidTaskStatus status) (protocol_failure ''unknown task status'')) (\<lambda>_.
              rbind (validateTaskEnvelope members) (\<lambda>_.
              rbind (checkStatePayloads status (row_at members ''result'') (row_at members ''error'')
                       (row_at members ''inputRequests'')) (\<lambda>_.
              task_view raw taskID status members)))))))"

definition checkTaskAck :: "json \<Rightarrow> go_error + unit" where
  "checkTaskAck raw =
     ensure (case raw of
               JObj ms \<Rightarrow> field ''resultType'' read_string '''' ms = Some resultTypeComplete
             | _ \<Rightarrow> False)
       (protocol_failure ''task acknowledgement is not a complete result'')"

subsection \<open>Task requests\<close>

text \<open>
  \<open>call\<close> stands for \<open>callTask\<close>: method, task ID, parameters and response bound, to the raw result; it is
  instantiated with the client in the theory \<open>Upstream_Stream\<close>.
\<close>

type_synonym task_call = "string \<Rightarrow> string \<Rightarrow> json \<Rightarrow> int \<Rightarrow> go_error + json"

definition TaskGetWithin :: "task_call \<Rightarrow> string \<Rightarrow> int \<Rightarrow> go_error + TaskState" where
  "TaskGetWithin call taskID maxResponseBytes =
     rbind (ensure (taskID \<noteq> '''') (errors_New ''task id is required'')) (\<lambda>_.
     rbind (call ''tasks/get'' taskID (JObj [(''taskId'', JStr taskID)]) maxResponseBytes) (\<lambda>raw.
     decodeTaskState raw taskID True))"

definition TaskUpdate :: "task_call \<Rightarrow> string \<Rightarrow> json option \<Rightarrow> go_error + json" where
  "TaskUpdate call taskID inputResponses =
     rbind (ensure (taskID \<noteq> '''') (errors_New ''task id is required'')) (\<lambda>_.
     case inputResponses of
       Some (JObj ms) \<Rightarrow>
         rbind (call ''tasks/update'' taskID
                 (JObj [(''taskId'', JStr taskID), (''inputResponses'', JObj ms)]) 0) (\<lambda>raw.
         rbind (checkTaskAck raw) (\<lambda>_. Inr raw))
     | _ \<Rightarrow> Inl (errors_New ''input responses must be a JSON object''))"

definition TaskCancel :: "task_call \<Rightarrow> string \<Rightarrow> go_error + json" where
  "TaskCancel call taskID =
     rbind (ensure (taskID \<noteq> '''') (errors_New ''task id is required'')) (\<lambda>_.
     rbind (call ''tasks/cancel'' taskID (JObj [(''taskId'', JStr taskID)]) 0) (\<lambda>raw.
     rbind (checkTaskAck raw) (\<lambda>_. Inr raw)))"

subsection \<open>Tool calls\<close>

record CallToolResponse =
  cr_Raw :: json
  cr_ResultType :: string
  cr_TaskID :: string
  cr_Status :: string
  cr_StatusMessage :: string
  cr_CreatedAt :: string
  cr_LastUpdatedAt :: string
  cr_TTLMs :: int
  cr_PollIntervalMs :: int

definition IsTask :: "CallToolResponse \<Rightarrow> bool" where
  "IsTask r \<longleftrightarrow> cr_ResultType r = resultTypeTask"

definition call_tool_view :: "json \<Rightarrow> CallToolResponse option" where
  "call_tool_view raw =
     (case struct_members raw of
        None \<Rightarrow> None
      | Some ms \<Rightarrow>
          (case (field ''resultType'' read_string '''' ms, field ''taskId'' read_string '''' ms,
                 field ''status'' read_string '''' ms, field ''statusMessage'' read_string '''' ms,
                 field ''createdAt'' read_string '''' ms, field ''lastUpdatedAt'' read_string '''' ms,
                 field ''ttlMs'' read_int64 0 ms, field ''pollIntervalMs'' read_int64 0 ms) of
             (Some rt, Some ti, Some st, Some sm, Some ca, Some lu, Some ttl, Some poll) \<Rightarrow>
               Some \<lparr>cr_Raw = raw, cr_ResultType = rt, cr_TaskID = ti, cr_Status = st, cr_StatusMessage = sm,
                 cr_CreatedAt = ca, cr_LastUpdatedAt = lu, cr_TTLMs = ttl, cr_PollIntervalMs = poll\<rparr>
           | _ \<Rightarrow> None))"

definition decodeCallTool :: "json \<Rightarrow> go_error + CallToolResponse" where
  "decodeCallTool raw =
     (case call_tool_view raw of
        None \<Rightarrow> Inl (errors_New ''decode tools/call result'')
      | Some v \<Rightarrow>
          rbind (ensure (cr_ResultType v = resultTypeComplete \<or> cr_ResultType v = resultTypeTask)
                   (protocol_failure ''unknown tools/call resultType'')) (\<lambda>_.
          if cr_ResultType v = resultTypeTask then
            rbind (ensure (cr_TaskID v \<noteq> '''') (protocol_failure ''task result has no task id'')) (\<lambda>_.
            rbind (ensure (cr_Status v = TaskWorking) (protocol_failure ''initial task state is not working'')) (\<lambda>_.
            case unmarshal_map raw of
              Inl _ \<Rightarrow> Inl (protocol_failure ''initial task result is not a JSON object'')
            | Inr doc \<Rightarrow> rbind (validateTaskEnvelope (case doc of None \<Rightarrow> [] | Some t \<Rightarrow> t)) (\<lambda>_. Inr v)))
          else Inr v))"

subsection \<open>Discovery and listing\<close>

record DiscoverResult =
  dr_SupportedVersions :: "string list"
  dr_Capabilities :: "json option"
  dr_Instructions :: string
  dr_ServerInfo :: "json option"

text \<open>Extensions declared in a capabilities document.\<close>

definition HasTaskExtension :: "DiscoverResult \<Rightarrow> bool" where
  "HasTaskExtension r =
     (case dr_Capabilities r of
        Some (JObj ms) \<Rightarrow>
          (case field ''extensions'' read_map None ms of
             Some (Some exts) \<Rightarrow> IsJSONObject (row_at exts tasksExtension)
           | _ \<Rightarrow> False)
      | _ \<Rightarrow> False)"

text \<open>\<open>info_ok\<close>: whether the SDK accepts a server identity document.\<close>

definition decodeDiscover :: "(json \<Rightarrow> bool) \<Rightarrow> json \<Rightarrow> go_error + DiscoverResult" where
  "decodeDiscover info_ok raw =
     (case struct_members raw of
        None \<Rightarrow> Inl (errors_New ''decode discover result'')
      | Some ms \<Rightarrow>
          (case (field ''supportedVersions'' read_strings [] ms, field ''capabilities'' read_raw None ms,
                 field ''instructions'' read_string '''' ms, field ''_meta'' read_map None ms) of
             (Some versions, Some caps, Some instructions, Some m) \<Rightarrow>
               rbind (ensure (versions \<noteq> []) (protocol_failure ''discover result has no supported versions'')) (\<lambda>_.
               let info = row_at (case m of None \<Rightarrow> [] | Some t \<Rightarrow> t) ''io.modelcontextprotocol/serverInfo''
               in rbind (ensure (case info of None \<Rightarrow> True | Some v \<Rightarrow> info_ok v)
                           (protocol_failure ''decode discover server info'')) (\<lambda>_.
                  Inr \<lparr>dr_SupportedVersions = versions, dr_Capabilities = caps,
                       dr_Instructions = instructions, dr_ServerInfo = info\<rparr>))
           | _ \<Rightarrow> Inl (errors_New ''decode discover result'')))"

record UpstreamTool =
  ut_Raw :: json
  ut_Name :: string
  ut_Title :: string
  ut_Description :: string
  ut_Annotations :: "json option"
  ut_InputSchema :: "json option"
  ut_OutputSchema :: "json option"

definition decodeLiveTool :: "json \<Rightarrow> go_error + UpstreamTool" where
  "decodeLiveTool raw =
     (case struct_members raw of
        None \<Rightarrow> Inl (errors_New ''decode tool document'')
      | Some ms \<Rightarrow>
          (case (field ''name'' read_string '''' ms, field ''title'' read_string '''' ms,
                 field ''description'' read_string '''' ms, field ''annotations'' read_raw None ms,
                 field ''inputSchema'' read_raw None ms, field ''outputSchema'' read_raw None ms) of
             (Some name, Some title, Some desc, Some ann, Some inp, Some outp) \<Rightarrow>
               rbind (ensure (name \<noteq> '''') (protocol_failure ''tool document has no name'')) (\<lambda>_.
               Inr \<lparr>ut_Raw = raw, ut_Name = name, ut_Title = title, ut_Description = desc,
                    ut_Annotations = ann, ut_InputSchema = inp, ut_OutputSchema = outp\<rparr>)
           | _ \<Rightarrow> Inl (errors_New ''decode tool document'')))"

fun decode_tools :: "json list \<Rightarrow> go_error + UpstreamTool list" where
  "decode_tools [] = Inr []"
| "decode_tools (v # vs) = rbind (decodeLiveTool v) (\<lambda>t. rbind (decode_tools vs) (\<lambda>ts. Inr (t # ts)))"

definition decodeListTools :: "json \<Rightarrow> go_error + UpstreamTool list \<times> string" where
  "decodeListTools raw =
     (case struct_members raw of
        None \<Rightarrow> Inl (errors_New ''decode tools/list result'')
      | Some ms \<Rightarrow>
          (case (field ''tools'' read_raws None ms, field ''nextCursor'' read_string '''' ms) of
             (Some tools, Some next) \<Rightarrow>
               rbind (decode_tools (case tools of None \<Rightarrow> [] | Some vs \<Rightarrow> vs)) (\<lambda>ts. Inr (ts, next))
           | _ \<Rightarrow> Inl (errors_New ''decode tools/list result'')))"

definition maxPages :: nat where
  "maxPages = 32"

text \<open>
  The pages of the listing: \<open>left\<close> counts the pages that may still be read, \<open>page\<close> answers the request for
  one cursor.
\<close>

fun list_pages ::
    "(string \<Rightarrow> go_error + UpstreamTool list \<times> string) \<Rightarrow> int \<Rightarrow> nat \<Rightarrow> string \<Rightarrow> int \<Rightarrow> UpstreamTool list \<Rightarrow>
      go_error + UpstreamTool list" where
  "list_pages page bound 0 cursor catalogBytes all =
     Inl (protocol_failure ''tools/list exceeds the page ceiling'')"
| "list_pages page bound (Suc left) cursor catalogBytes all =
     rbind (page cursor) (\<lambda>(tools, next).
     let bytes = catalogBytes + sum_list (map (\<lambda>t. int (length (encode (ut_Raw t)))) tools) in
     if bytes > bound
     then Inl (newError KindTooLarge 0 (Some (errors_New ''tools/list exceeds the cumulative catalog bound'')))
     else if next = '''' then Inr (all @ tools)
     else list_pages page bound left next bytes (all @ tools))"

definition ListAllTools ::
    "(string \<Rightarrow> go_error + UpstreamTool list \<times> string) \<Rightarrow> int \<Rightarrow> go_error + UpstreamTool list" where
  "ListAllTools page bound = list_pages page bound maxPages '''' 0 []"

end
