(* ===== verification/Upstream_Stream.thy ===== *)
theory Upstream_Stream
  imports Upstream_Tasks
begin

text \<open>
  The response side of the upstream client (\<open>internal/upstream\<close>: \<open>response.go\<close>, \<open>json_error.go\<close>,
  \<open>subscribe.go\<close>, the calls of \<open>client.go\<close>, \<open>methods.go\<close> and \<open>calltool.go\<close>): bounded bodies, the
  server-sent event scanner, matching a response to its request, and the subscription stream with its
  acknowledgement.

  Turning body text into a JSON-RPC message is the SDK's \<open>jsonrpc.DecodeMessage\<close>, turning it into a JSON
  value is the standard decoder; both are fields of \<open>codec\<close>. Media types and white space are ASCII.
\<close>

section \<open>Definitions\<close>

datatype rpc_error = WireError int | OtherError

datatype rpc_message =
    RpcRequest bool string json
  | RpcResponse "string option" "json option" "rpc_error option"

record codec =
  cd_message :: "string \<Rightarrow> rpc_message option"
  cd_json :: "string \<Rightarrow> json option"

subsection \<open>Bodies\<close>

definition resolveBound :: "client \<Rightarrow> int \<Rightarrow> int" where
  "resolveBound c perRequest = (if perRequest > 0 then perRequest else cl_maxBytes c)"

text \<open>\<open>io.ReadAll\<close> behind a limit of \<open>bound+1\<close> bytes: an error beyond the limit is not seen.\<close>

definition readBounded :: "string \<Rightarrow> go_error option \<Rightarrow> int \<Rightarrow> go_error + string" where
  "readBounded body err bound =
     (let limit = i64 (bound + 1); data = take (nat limit) body in
      case err of
        Some e \<Rightarrow>
          if int (length body) < limit then Inl (newError KindTransport 0 (Some (Errorf ''read upstream body'' [e])))
          else if int (length data) > bound then Inl (newError KindTooLarge 0 (Some (errors_New ''body exceeds bound'')))
          else Inr data
      | None \<Rightarrow>
          if int (length data) > bound then Inl (newError KindTooLarge 0 (Some (errors_New ''body exceeds bound'')))
          else Inr data)"

definition ascii_space :: "char \<Rightarrow> bool" where
  "ascii_space c \<longleftrightarrow> byte_of c = 32 \<or> (9 \<le> byte_of c \<and> byte_of c \<le> 13)"

definition trim_space :: "string \<Rightarrow> string" where
  "trim_space s = rev (dropWhile ascii_space (rev (dropWhile ascii_space s)))"

definition baseMediaType :: "string \<Rightarrow> string" where
  "baseMediaType header = trim_space (ascii_lower (takeWhile (\<lambda>c. c \<noteq> CHR '';'') header))"

subsection \<open>Messages\<close>

definition asWireError :: "rpc_message \<Rightarrow> int option" where
  "asWireError msg = (case msg of RpcResponse _ _ (Some (WireError c)) \<Rightarrow> Some c | _ \<Rightarrow> None)"

definition protocolError :: "int \<Rightarrow> go_error" where
  "protocolError c = newError KindProtocol c (Some (errors_New ''jsonrpc code''))"

definition idMatches :: "string option \<Rightarrow> string \<Rightarrow> bool" where
  "idMatches rid requestID \<longleftrightarrow> rid = Some requestID"

text \<open>The raw result and whether the message was the awaited response.\<close>

definition matchResult :: "rpc_message \<Rightarrow> string \<Rightarrow> go_error + json option \<times> bool" where
  "matchResult msg requestID =
     (case msg of
        RpcRequest _ _ _ \<Rightarrow> Inl (transport_failure ''unexpected server request in response stream'')
      | RpcResponse rid result err \<Rightarrow>
          if \<not> idMatches rid requestID then Inr (None, False)
          else case asWireError msg of
              Some c \<Rightarrow> Inl (protocolError c)
            | None \<Rightarrow> Inr (result, True))"

text \<open>A code in a body the SDK does not accept as a message: the fallback of \<open>jsonRPCErrorCode\<close>.\<close>

definition body_error_code :: "json \<Rightarrow> int option" where
  "body_error_code v =
     (case struct_members v of
        None \<Rightarrow> None
      | Some ms \<Rightarrow>
          (case (field ''jsonrpc'' read_string '''' ms,
                 field ''error'' (\<lambda>x v. case v of
                     JNull \<Rightarrow> Some None
                   | JObj es \<Rightarrow> map_option Some (field ''code''
                       (\<lambda>y w. case w of JNull \<Rightarrow> Some None | _ \<Rightarrow> map_option Some (read_int64 0 w))
                       (case x of None \<Rightarrow> None | Some y \<Rightarrow> y) es)
                   | _ \<Rightarrow> None) None ms) of
             (Some version, Some (Some (Some c))) \<Rightarrow> if version = ''2.0'' \<and> c \<noteq> 0 then Some c else None
           | _ \<Rightarrow> None))"

definition jsonRPCErrorCode :: "codec \<Rightarrow> string \<Rightarrow> int option" where
  "jsonRPCErrorCode cd data =
     (if trim_space data = [] then None
      else case Option.bind (cd_message cd data) asWireError of
          Some c \<Rightarrow> if c \<noteq> 0 then Some c else Option.bind (cd_json cd data) body_error_code
        | None \<Rightarrow> Option.bind (cd_json cd data) body_error_code)"

definition readHTTPError :: "codec \<Rightarrow> client \<Rightarrow> http_response \<Rightarrow> int \<Rightarrow> go_error" where
  "readHTTPError cd c resp perRequest =
     (case readBounded (hr_body resp) (hr_body_err resp) (resolveBound c perRequest) of
        Inl err \<Rightarrow> err
      | Inr data \<Rightarrow>
          (case jsonRPCErrorCode cd data of
             Some code \<Rightarrow> newError KindProtocol code (Some (errors_New ''jsonrpc code''))
           | None \<Rightarrow> newError KindHTTP (hr_status resp) None))"

definition readJSONResult :: "codec \<Rightarrow> client \<Rightarrow> string \<Rightarrow> http_response \<Rightarrow> int \<Rightarrow> go_error + json option" where
  "readJSONResult cd c requestID resp perRequest =
     rbind (readBounded (hr_body resp) (hr_body_err resp) (resolveBound c perRequest)) (\<lambda>data.
     case cd_message cd data of
       None \<Rightarrow> Inl (transport_failure ''decode response: jsonrpc'')
     | Some msg \<Rightarrow>
         (case asWireError msg of
            Some code \<Rightarrow> Inl (protocolError code)
          | None \<Rightarrow>
              rbind (matchResult msg requestID) (\<lambda>(result, matched).
              if matched then Inr result else Inl (transport_failure ''response id mismatch''))))"

subsection \<open>Server-sent events\<close>

text \<open>
  \<open>bufio.ScanLines\<close>: lines without their line feed and one carriage return before it; the rest after the
  last line feed is a line when it is not empty. The flag marks a line that does not fit the buffer.
\<close>

definition drop_cr :: "string \<Rightarrow> string" where
  "drop_cr l = (if l \<noteq> [] \<and> last l = CHR 0x0D then butlast l else l)"

definition scan_lines :: "int \<Rightarrow> string \<Rightarrow> (string \<times> bool) list" where
  "scan_lines tokenMax body =
     (let ls = split_at CHR 0x0A body;
          all = (if last ls = [] then butlast ls else ls)
      in map (\<lambda>l. (drop_cr l, int (length l) + 1 > max 65536 tokenMax)) all)"

definition stripOneSpace :: "string \<Rightarrow> string" where
  "stripOneSpace s = (if take 1 s = '' '' then tl s else s)"

definition starts_with :: "string \<Rightarrow> string \<Rightarrow> bool" where
  "starts_with p s \<longleftrightarrow> take (length p) s = p"

text \<open>
  A dispatcher consumes a message and its state: a stop flag, an error, the next state. \<open>flush\<close> joins the
  data lines of one event and dispatches it.
\<close>

type_synonym 's dispatcher = "rpc_message \<Rightarrow> 's \<Rightarrow> (bool \<times> go_error option) \<times> 's"

definition flush_event ::
    "codec \<Rightarrow> 's dispatcher \<Rightarrow> string list \<Rightarrow> 's \<Rightarrow> (bool \<times> go_error option) \<times> 's" where
  "flush_event cd dispatch data st =
     (let payload = join [CHR 0x0A] data in
      if payload = [] then ((False, None), st)
      else case cd_message cd payload of
          None \<Rightarrow> ((False, Some (transport_failure ''decode SSE payload: jsonrpc'')), st)
        | Some msg \<Rightarrow>
            (case dispatch msg st of
               ((stop, err), st') \<Rightarrow> (if stop \<or> err \<noteq> None then (True, err) else (False, None), st')))"

text \<open>The loop over lines; the result is the error returned, if any, and the final state.\<close>

fun sse_loop ::
    "codec \<Rightarrow> int \<Rightarrow> 's dispatcher \<Rightarrow> go_error option \<Rightarrow> (string \<times> bool) list \<Rightarrow> string list \<Rightarrow> int \<Rightarrow> 's \<Rightarrow>
      go_error option \<times> 's" where
  "sse_loop cd maxBytes dispatch ended [] data eventBytes st =
     ((case ended of
         None \<Rightarrow> None
       | Some err \<Rightarrow> Some (if errors_Is err ErrCanceled \<or> errors_Is err ErrDeadlineExceeded then err
           else newError KindTransport 0 (Some (Errorf ''read SSE stream'' [err])))), st)"
| "sse_loop cd maxBytes dispatch ended ((line, long) # rest) data eventBytes st =
     (if long then (Some (newError KindTooLarge 0 (Some (errors_New ''SSE frame exceeds bound''))), st)
      else if line = [] then
        (case flush_event cd dispatch data st of
           ((stopped, err), st') \<Rightarrow>
             if stopped \<or> err \<noteq> None then (err, st')
             else sse_loop cd maxBytes dispatch ended rest [] 0 st')
      else if starts_with '':'' line then sse_loop cd maxBytes dispatch ended rest data eventBytes st
      else if starts_with ''data:'' line then
        (let v = stripOneSpace (drop 5 line); bytes = eventBytes + int (length v) + 1 in
         if bytes > maxBytes then (Some (newError KindTooLarge 0 (Some (errors_New ''SSE event exceeds bound''))), st)
         else sse_loop cd maxBytes dispatch ended rest (data @ [v]) bytes st)
      else sse_loop cd maxBytes dispatch ended rest data eventBytes st)"

definition scanSSE ::
    "codec \<Rightarrow> client \<Rightarrow> http_response \<Rightarrow> int \<Rightarrow> 's dispatcher \<Rightarrow> 's \<Rightarrow> go_error option \<times> 's" where
  "scanSSE cd c resp perRequest dispatch st =
     (let maxBytes = resolveBound c perRequest
      in sse_loop cd maxBytes dispatch (hr_body_err resp) (scan_lines (maxBytes + 8) (hr_body resp)) [] 0 st)"

subsection \<open>Finite calls\<close>

text \<open>The dispatcher of \<open>readResult\<close>; its state is the response once it was seen.\<close>

definition result_dispatch :: "string \<Rightarrow> (json option) option dispatcher" where
  "result_dispatch requestID msg st =
     (case matchResult msg requestID of
        Inl err \<Rightarrow> ((True, Some err), st)
      | Inr (r, matched) \<Rightarrow> if matched then ((True, None), Some r) else ((False, None), st))"

definition readResult :: "codec \<Rightarrow> client \<Rightarrow> string \<Rightarrow> http_response \<Rightarrow> int \<Rightarrow> go_error + json option" where
  "readResult cd c requestID resp perRequest =
     (if hr_status resp = 401 \<or> hr_status resp = 403 then Inl (newError KindAuth (hr_status resp) None)
      else if hr_status resp \<noteq> 200 then Inl (readHTTPError cd c resp perRequest)
      else if baseMediaType (hr_content_type resp) = ''application/json''
        then readJSONResult cd c requestID resp perRequest
      else if baseMediaType (hr_content_type resp) = ''text/event-stream''
        then (case scanSSE cd c resp perRequest (result_dispatch requestID) None of
                (Some err, _) \<Rightarrow> Inl err
              | (None, None) \<Rightarrow> Inl (transport_failure ''stream closed without a response'')
              | (None, Some result) \<Rightarrow> Inr result)
      else Inl (transport_failure ''unsupported content type''))"

definition callWithMeta ::
    "codec \<Rightarrow> client \<Rightarrow> request_env \<Rightarrow> string \<Rightarrow> string \<Rightarrow> json \<Rightarrow> json option \<Rightarrow> headers \<Rightarrow> int \<Rightarrow>
      go_error + json option" where
  "callWithMeta cd c rq method name params metaOverride paramHeaders maxResponseBytes =
     rbind (doRequest c rq method name params metaOverride paramHeaders) (\<lambda>(rid, resp).
     readResult cd c rid resp maxResponseBytes)"

text \<open>A missing result is an empty document, which no decoder accepts.\<close>

definition some_document :: "json option \<Rightarrow> go_error + json" where
  "some_document r = (case r of None \<Rightarrow> Inl (protocol_failure ''empty result'') | Some v \<Rightarrow> Inr v)"

definition callTask :: "codec \<Rightarrow> client \<Rightarrow> request_env \<Rightarrow> task_call" where
  "callTask cd c rq method name params maxResponseBytes =
     rbind (tasksMeta (cl_info c) (cl_meta c)) (\<lambda>m.
     rbind (callWithMeta cd c rq method name params (Some m) [] maxResponseBytes) some_document)"

record CallToolParams =
  cp_Name :: string
  cp_Arguments :: "json option"
  cp_Capabilities :: "json option"
  cp_MaxResponseBytes :: int
  cp_ParamHeaders :: "ParamHeader list"

definition wireCallTool :: "string \<Rightarrow> json option \<Rightarrow> json" where
  "wireCallTool name args =
     JObj ((''name'', JStr name) # (case args of None \<Rightarrow> [] | Some v \<Rightarrow> [(''arguments'', v)]))"

definition CallTool :: "codec \<Rightarrow> client \<Rightarrow> request_env \<Rightarrow> CallToolParams \<Rightarrow> go_error + CallToolResponse" where
  "CallTool cd c rq p =
     rbind (ensure (cp_Name p \<noteq> '''') (errors_New ''tool name is required'')) (\<lambda>_.
     rbind (case cp_Capabilities p of
              None \<Rightarrow> Inr None
            | Some caps \<Rightarrow>
                rbind (ensure (IsJSONObject (Some caps)) (errors_New ''per-request capabilities must be a JSON object'')) (\<lambda>_.
                rbind (buildMetaWith (cl_info c) (Some caps)) (\<lambda>m. Inr (Some m)))) (\<lambda>m.
     rbind (renderParamHeaders (rq_decimal rq) (cp_Arguments p) (cp_ParamHeaders p)) (\<lambda>hs.
     rbind (callWithMeta cd c rq ''tools/call'' (cp_Name p) (wireCallTool (cp_Name p) (cp_Arguments p)) m hs
              (cp_MaxResponseBytes p)) (\<lambda>raw.
     rbind (case raw of None \<Rightarrow> Inl (errors_New ''decode tools/call result'') | Some v \<Rightarrow> Inr v) decodeCallTool))))"

definition Discover :: "(json \<Rightarrow> bool) \<Rightarrow> codec \<Rightarrow> client \<Rightarrow> request_env \<Rightarrow> int \<Rightarrow> go_error + DiscoverResult" where
  "Discover info_ok cd c rq maxResponseBytes =
     rbind (callWithMeta cd c rq ''server/discover'' '''' (JObj []) None [] maxResponseBytes) (\<lambda>raw.
     rbind (case raw of None \<Rightarrow> Inl (errors_New ''decode discover result'') | Some v \<Rightarrow> Inr v) (decodeDiscover info_ok))"

definition ListTools ::
    "codec \<Rightarrow> client \<Rightarrow> request_env \<Rightarrow> int \<Rightarrow> string \<Rightarrow> go_error + UpstreamTool list \<times> string" where
  "ListTools cd c rq maxResponseBytes cursor =
     rbind (callWithMeta cd c rq ''tools/list'' ''''
              (JObj (if cursor = '''' then [] else [(''cursor'', JStr cursor)])) None [] maxResponseBytes) (\<lambda>raw.
     rbind (case raw of None \<Rightarrow> Inl (errors_New ''decode tools/list result'') | Some v \<Rightarrow> Inr v) decodeListTools)"

subsection \<open>Subscriptions\<close>

definition subscriptionKey :: string where
  "subscriptionKey = ''io.modelcontextprotocol/subscriptionId''"

definition checkSubscriptionID :: "gomap option \<Rightarrow> string \<Rightarrow> go_error + unit" where
  "checkSubscriptionID m subscriptionID =
     (case row_at (case m of None \<Rightarrow> [] | Some t \<Rightarrow> t) subscriptionKey of
        None \<Rightarrow> Inl (protocol_failure ''event has no subscription id'')
      | Some raw \<Rightarrow> ensure (read_string '''' raw = Some subscriptionID)
          (protocol_failure ''event subscription id mismatch''))"

fun authorize :: "string list \<Rightarrow> string list \<Rightarrow> string list \<Rightarrow> go_error + string list" where
  "authorize requested [] authorized = Inr authorized"
| "authorize requested (i # ids) authorized =
     rbind (ensure (i \<in> set requested) (protocol_failure ''acknowledgement authorizes an unrequested task id'')) (\<lambda>_.
     rbind (ensure (i \<notin> set authorized) (protocol_failure ''acknowledgement repeats a task id'')) (\<lambda>_.
     authorize requested ids (i # authorized)))"

text \<open>The nested struct \<open>notifications\<close>: its one field keeps the list read so far.\<close>

definition read_notifications :: "string list \<Rightarrow> json \<Rightarrow> string list option" where
  "read_notifications x v =
     (case v of JObj ms \<Rightarrow> field ''taskIds'' read_strings x ms | JNull \<Rightarrow> Some x | _ \<Rightarrow> None)"

definition parseAcknowledgement :: "json \<Rightarrow> string \<Rightarrow> string list \<Rightarrow> go_error + string list" where
  "parseAcknowledgement params subscriptionID requested =
     (case struct_members params of
        None \<Rightarrow> Inl (protocol_failure ''decode subscription acknowledgement'')
      | Some ms \<Rightarrow>
          (case (field ''_meta'' read_map None ms, field ''notifications'' read_notifications [] ms) of
             (Some m, Some ids) \<Rightarrow>
               rbind (checkSubscriptionID m subscriptionID) (\<lambda>_. authorize requested ids [])
           | _ \<Rightarrow> Inl (protocol_failure ''decode subscription acknowledgement'')))"

definition stripMeta :: "json \<Rightarrow> go_error + json" where
  "stripMeta raw =
     rbind (unmarshal_map raw) (\<lambda>members.
     Inr (marshal_map (map_option (filter (\<lambda>m. fst m \<noteq> ''_meta'')) members)))"

definition parseTaskNotification :: "json \<Rightarrow> string \<Rightarrow> go_error + TaskState" where
  "parseTaskNotification params subscriptionID =
     (case Option.bind (struct_members params) (field ''_meta'' read_map None) of
        None \<Rightarrow> Inl (protocol_failure ''decode task notification'')
      | Some m \<Rightarrow>
          rbind (checkSubscriptionID m subscriptionID) (\<lambda>_.
          rbind (decodeTaskState params '''' False) (\<lambda>state.
          Inr (case stripMeta params of Inl _ \<Rightarrow> state | Inr stripped \<Rightarrow> state\<lparr>ts_Raw := stripped\<rparr>))))"

text \<open>What the stream handed to the callbacks, in order, and what the callbacks answer.\<close>

datatype delivery = Acknowledged "string list" | Task TaskState

record subscription =
  sb_acknowledged :: bool
  sb_authorized :: "string list"
  sb_delivered :: "delivery list"

definition deliver :: "(delivery \<Rightarrow> go_error option) \<Rightarrow> delivery \<Rightarrow> subscription \<Rightarrow> (bool \<times> go_error option) \<times> subscription" where
  "deliver cb x s = ((False, cb x), s\<lparr>sb_delivered := sb_delivered s @ [x]\<rparr>)"

definition subscription_dispatch ::
    "(delivery \<Rightarrow> go_error option) \<Rightarrow> string \<Rightarrow> string list \<Rightarrow> subscription dispatcher" where
  "subscription_dispatch cb subscriptionID requested msg s =
     (let fail = (\<lambda>m. ((True, Some (protocol_failure m)), s)) in
      case msg of
        RpcRequest hasID method params \<Rightarrow>
          if hasID then fail ''subscription stream carries a server request''
          else if method = ''notifications/subscriptions/acknowledged'' then
            (if sb_acknowledged s then fail ''duplicate subscription acknowledgement''
             else case parseAcknowledgement params subscriptionID requested of
                 Inl err \<Rightarrow> ((True, Some err), s)
               | Inr ids \<Rightarrow> deliver cb (Acknowledged (sort ids))
                   (s\<lparr>sb_acknowledged := True, sb_authorized := ids\<rparr>))
          else if method = ''notifications/tasks'' then
            (if \<not> sb_acknowledged s then fail ''task notification before acknowledgement''
             else case parseTaskNotification params subscriptionID of
                 Inl err \<Rightarrow> ((True, Some err), s)
               | Inr state \<Rightarrow>
                   if ts_TaskID state \<notin> set (sb_authorized s)
                   then fail ''task notification outside the acknowledged set''
                   else deliver cb (Task state) s)
          else fail ''undeclared notification type on subscription stream''
      | RpcResponse rid _ _ \<Rightarrow>
          if \<not> idMatches rid subscriptionID then fail ''unexpected message on subscription stream''
          else if \<not> sb_acknowledged s then fail ''final response before acknowledgement''
          else case asWireError msg of
              Some c \<Rightarrow> ((True, Some (protocolError c)), s)
            | None \<Rightarrow> ((True, None), s))"

definition readSubscription ::
    "codec \<Rightarrow> client \<Rightarrow> (delivery \<Rightarrow> go_error option) \<Rightarrow> string \<Rightarrow> string list \<Rightarrow> http_response \<Rightarrow>
      go_error option \<times> subscription" where
  "readSubscription cd c cb subscriptionID requested resp =
     scanSSE cd c resp 0 (subscription_dispatch cb subscriptionID requested)
       \<lparr>sb_acknowledged = False, sb_authorized = [], sb_delivered = []\<rparr>"

fun check_ids :: "string list \<Rightarrow> string list \<Rightarrow> go_error + unit" where
  "check_ids [] requested = Inr ()"
| "check_ids (i # ids) requested =
     rbind (ensure (i \<noteq> '''') (errors_New ''task ids must be non-empty'')) (\<lambda>_.
     rbind (ensure (i \<notin> set requested) (errors_New ''duplicate task id in subscription request'')) (\<lambda>_.
     check_ids ids (i # requested)))"

definition no_delivery :: subscription where
  "no_delivery = \<lparr>sb_acknowledged = False, sb_authorized = [], sb_delivered = []\<rparr>"

definition Subscribe ::
    "codec \<Rightarrow> client \<Rightarrow> request_env \<Rightarrow> (delivery \<Rightarrow> go_error option) \<Rightarrow> string list \<Rightarrow>
      go_error option \<times> subscription" where
  "Subscribe cd c rq cb taskIDs =
     (case rbind (ensure (taskIDs \<noteq> []) (errors_New ''at least one task id is required'')) (\<lambda>_.
           rbind (check_ids taskIDs []) (\<lambda>_.
           rbind (tasksMeta (cl_info c) (cl_meta c)) (\<lambda>m.
           doRequest c rq ''subscriptions/listen'' ''''
             (JObj [(''notifications'', JObj [(''taskIds'', JArr (map JStr taskIDs))])]) (Some m) []))) of
        Inl err \<Rightarrow> (Some err, no_delivery)
      | Inr (rid, resp) \<Rightarrow>
          if hr_status resp = 401 \<or> hr_status resp = 403
          then (Some (newError KindAuth (hr_status resp) None), no_delivery)
          else if hr_status resp \<noteq> 200 then (Some (readHTTPError cd c resp 0), no_delivery)
          else if baseMediaType (hr_content_type resp) \<noteq> ''text/event-stream''
          then (Some (transport_failure ''subscription stream has another content type''), no_delivery)
          else readSubscription cd c cb rid taskIDs resp)"

end
