(* ===== verification/Adapter.thy ===== *)
theory Adapter
  imports Catalog_Schema Upstream_Stream
begin

text \<open>
  The endpoint adapter (\<open>internal/adapter/tama2026\<close>): verification of the live catalog against the pinned
  one, execution of pinned operations, and the projection of upstream documents to the normalized
  contract.

  The upstream client is used through the record \<open>upstream_api\<close>; \<open>client_api\<close> instantiates it with the
  client of \<open>Upstream_Stream\<close>. \<open>strings.ToLower\<close> and the folding of member names are exact on ASCII and on
  the letters outside ASCII that become ASCII.
\<close>

section \<open>Definitions\<close>

record upstream_api =
  up_discover :: "int \<Rightarrow> go_error + DiscoverResult"
  up_list :: "int \<Rightarrow> go_error + UpstreamTool list"
  up_call :: "CallToolParams \<Rightarrow> go_error + CallToolResponse"
  up_get :: "string \<Rightarrow> int \<Rightarrow> go_error + TaskState"
  up_update :: "string \<Rightarrow> json option \<Rightarrow> go_error + json"
  up_subscribe :: "(delivery \<Rightarrow> go_error option) \<Rightarrow> string list \<Rightarrow> go_error option \<times> subscription"

definition client_api :: "(json \<Rightarrow> bool) \<Rightarrow> codec \<Rightarrow> client \<Rightarrow> request_env \<Rightarrow> upstream_api" where
  "client_api info_ok cd c rq = \<lparr>up_discover = Discover info_ok cd c rq,
     up_list = (\<lambda>bound. ListAllTools (ListTools cd c rq bound) (resolveBound c bound)),
     up_call = CallTool cd c rq, up_get = TaskGetWithin (callTask cd c rq),
     up_update = TaskUpdate (callTask cd c rq), up_subscribe = Subscribe cd c rq\<rparr>"

subsection \<open>Errors\<close>

definition adapter_classify :: "go_error \<Rightarrow> go_error" where
  "adapter_classify err =
     (if IsAuth err then Errorf ''upstream rejected the credential'' [Sentinel ErrAuthenticationRequired]
      else if IsProtocol err then Errorf '''' [Sentinel ErrProtocolMismatch, err]
      else err)"

definition protocol_mismatch :: "string \<Rightarrow> go_error" where
  "protocol_mismatch m = Errorf m [Sentinel ErrProtocolMismatch]"

definition catalog_mismatch :: "string \<Rightarrow> go_error" where
  "catalog_mismatch m = Errorf m [Sentinel ErrCatalogMismatch]"

definition classifyTaskLookup :: "go_error \<Rightarrow> go_error" where
  "classifyTaskLookup err =
     (if upstream_in err = Some (KindProtocol, - 32602) then Errorf ''task lookup'' [Sentinel ErrTaskUnavailable]
      else adapter_classify err)"

definition subscriptionUnavailable :: "go_error \<Rightarrow> bool" where
  "subscriptionUnavailable err =
     (case upstream_in err of
        Some (k, c) \<Rightarrow> k = KindProtocol \<and> (c = - 32601 \<or> c = - 32021)
      | None \<Rightarrow> False)"

subsection \<open>Discovery and the live catalog\<close>

record adapter_profile =
  ap_Endpoint :: string
  ap_ProtocolMin :: string
  ap_ProtocolMax :: string
  ap_Instructions :: string
  ap_Operations :: Catalog

definition Bounds_Contains :: "adapter_profile \<Rightarrow> string \<Rightarrow> bool" where
  "Bounds_Contains p version \<longleftrightarrow> ap_ProtocolMin p \<le> version \<and> version \<le> ap_ProtocolMax p"

definition Adapter_New ::
    "dialect \<Rightarrow> (string \<Rightarrow> string) \<Rightarrow> adapter_profile \<Rightarrow> string option \<Rightarrow> string \<Rightarrow> go_error + unit" where
  "Adapter_New dx sha256 p clientEndpoint adapterVersion =
     rbind (ensure (ap_Endpoint p \<noteq> '''') (errors_New ''profile endpoint is required'')) (\<lambda>_.
     rbind (ensure (clientEndpoint \<noteq> None) (errors_New ''upstream client is required'')) (\<lambda>_.
     rbind (ensure (clientEndpoint = Some (ap_Endpoint p)) (errors_New ''upstream client is bound to a different endpoint'')) (\<lambda>_.
     rbind (ensure (adapterVersion \<noteq> '''') (errors_New ''adapter version is required'')) (\<lambda>_.
     rbind (ensure (Bounds_Contains p wireVersion) (errors_New ''profile bounds do not cover the protocol'')) (\<lambda>_.
     map_error (\<lambda>e. Errorf ''profile catalog'' [e]) (Catalog_Validate dx sha256 (ap_Operations p)))))))"

definition decodeCapabilities :: "json option \<Rightarrow> go_error + unit" where
  "decodeCapabilities raw =
     (case raw of
        Some (JObj ms) \<Rightarrow>
          (case (field ''Tools'' read_raw None ms, field ''Extensions'' read_map None ms) of
             (Some tools, Some exts) \<Rightarrow>
               rbind (ensure (IsJSONObject tools) (errors_New ''server declares no tools capability object'')) (\<lambda>_.
               ensure (list_all (\<lambda>(_, ext). IsJSONObject (Some ext)) (list_of exts))
                 (errors_New ''capability extension value is not a JSON object''))
           | _ \<Rightarrow> Inl (errors_New ''decode server capabilities''))
      | _ \<Rightarrow> Inl (errors_New ''capabilities is not a JSON object''))"

definition verifyDiscovery :: "adapter_profile \<Rightarrow> DiscoverResult \<Rightarrow> go_error + unit" where
  "verifyDiscovery p disc =
     rbind (ensure (Bounds_Contains p wireVersion) (protocol_mismatch ''protocol is outside the profile bounds'')) (\<lambda>_.
     rbind (ensure (wireVersion \<in> set (dr_SupportedVersions disc)) (protocol_mismatch ''server does not support the protocol'')) (\<lambda>_.
     rbind (map_error (\<lambda>e. Errorf '''' [Sentinel ErrProtocolMismatch, e]) (decodeCapabilities (dr_Capabilities disc))) (\<lambda>_.
     ensure (ap_Instructions p = dr_Instructions disc)
       (catalog_mismatch ''live instructions do not match the pinned profile''))))"

text \<open>Decoding into \<open>any\<close> and encoding again: the last of repeated members, in key order, at every depth.\<close>

function any_value :: "json \<Rightarrow> json" where
  "any_value v =
     (case v of
        JObj ms \<Rightarrow> marshal_map (Some (map (\<lambda>(k, x). (k, any_value x)) (members_map ms)))
      | JArr vs \<Rightarrow> JArr (map any_value vs)
      | _ \<Rightarrow> v)"
  by pat_completeness auto
termination
  by (relation "measure size") (use json_size_map json_size_item in \<open>fastforce+\<close>)

declare any_value.simps [simp del, code del]

lemmas any_value_code [code] =
  any_value.simps [of "JNull"]
  any_value.simps [of "JBool b" for b]
  any_value.simps [of "JNum n" for n]
  any_value.simps [of "JStr t" for t]
  any_value.simps [of "JArr vs" for vs]
  any_value.simps [of "JObj ms" for ms]

definition annotationsMap :: "json option \<Rightarrow> json option" where
  "annotationsMap raw =
     (case raw of
        None \<Rightarrow> None
      | Some JNull \<Rightarrow> None
      | Some (JObj ms) \<Rightarrow> Some (any_value (JObj ms))
      | Some _ \<Rightarrow> Some (JObj [(''__unparseable__'', JBool True)]))"

definition normalizeLive :: "UpstreamTool \<Rightarrow> Descriptor \<Rightarrow> LiveTool" where
  "normalizeLive tool pinned =
     \<lparr>lt_Name = ut_Name tool, lt_InputSchema = ut_InputSchema tool, lt_OutputSchema = ut_OutputSchema tool,
      lt_Annotations = annotationsMap (ut_Annotations tool), lt_TaskSupport = d_TaskSupport pinned\<rparr>"

definition joinDrift :: "string list \<Rightarrow> string" where
  "joinDrift flds = join '', '' (sort flds)"

definition verify_operation :: "bool \<Rightarrow> UpstreamTool list \<Rightarrow> Descriptor \<Rightarrow> go_error + Descriptor" where
  "verify_operation tasks live d =
     (case find (\<lambda>t. ut_Name t = d_Name d) live of
        None \<Rightarrow> Inl (catalog_mismatch ''approved tool is not live'')
      | Some tool \<Rightarrow>
          rbind (ensure (\<not> (d_Strategy d = StrategyUpstreamTask \<and> \<not> tasks))
                   (catalog_mismatch ''tool requires the tasks extension'')) (\<lambda>_.
          rbind (ensure (Drift d (normalizeLive tool d) = [])
                   (catalog_mismatch (''tool drifted on '' @ joinDrift (Drift d (normalizeLive tool d))))) (\<lambda>_.
          Inr d)))"

fun verify_all :: "bool \<Rightarrow> UpstreamTool list \<Rightarrow> Catalog \<Rightarrow> go_error + Catalog" where
  "verify_all tasks live [] = Inr []"
| "verify_all tasks live (d # ds) =
     rbind (verify_operation tasks live d) (\<lambda>d'. rbind (verify_all tasks live ds) (\<lambda>ds'. Inr (d' # ds')))"

definition verifyCatalog :: "adapter_profile \<Rightarrow> DiscoverResult \<Rightarrow> UpstreamTool list \<Rightarrow> go_error + Catalog" where
  "verifyCatalog p disc live =
     rbind (ensure (distinct (map ut_Name live)) (protocol_mismatch ''live catalog repeats a tool'')) (\<lambda>_.
     verify_all (HasTaskExtension disc) live (ap_Operations p))"

record Connection =
  cn_catalog :: Catalog
  cn_serverCapabilities :: "json option"
  cn_taskExtension :: bool
  cn_serverInfo :: "json option"

definition bootstrapBound :: int where
  "bootstrapBound = ResponseBytes HardCeiling"

definition Connect :: "upstream_api \<Rightarrow> adapter_profile \<Rightarrow> go_error + Connection" where
  "Connect up p =
     rbind (map_error adapter_classify (up_discover up bootstrapBound)) (\<lambda>disc.
     rbind (verifyDiscovery p disc) (\<lambda>_.
     rbind (map_error adapter_classify (up_list up bootstrapBound)) (\<lambda>live.
     rbind (verifyCatalog p disc live) (\<lambda>effective.
     Inr \<lparr>cn_catalog = effective, cn_serverCapabilities = dr_Capabilities disc,
          cn_taskExtension = HasTaskExtension disc, cn_serverInfo = dr_ServerInfo disc\<rparr>))))"

subsection \<open>Results\<close>

fun requireStrings :: "gomap \<Rightarrow> string list \<Rightarrow> go_error + unit" where
  "requireStrings flds [] = Inr ()"
| "requireStrings flds (name # names) =
     (case row_at flds name of
        None \<Rightarrow> Inl (errors_New ''missing required field'')
      | Some raw \<Rightarrow>
          rbind (ensure (read_string '''' raw \<noteq> None) (errors_New ''field is not a string'')) (\<lambda>_.
          requireStrings flds names))"

definition map_members :: "json \<Rightarrow> gomap option" where
  "map_members v = (case unmarshal_map v of Inl _ \<Rightarrow> None | Inr None \<Rightarrow> Some [] | Inr (Some t) \<Rightarrow> Some t)"

definition validateEmbeddedResource :: "gomap \<Rightarrow> go_error + unit" where
  "validateEmbeddedResource flds =
     (case row_at flds ''resource'' of
        None \<Rightarrow> Inl (errors_New ''missing required field resource'')
      | Some raw \<Rightarrow>
          (case map_members raw of
             None \<Rightarrow> Inl (errors_New ''field resource is not an object'')
           | Some resource \<Rightarrow>
               rbind (map_error (\<lambda>e. Errorf ''embedded resource'' [e]) (requireStrings resource [''uri''])) (\<lambda>_.
               ensure (row_at resource ''text'' \<noteq> None \<or> row_at resource ''blob'' \<noteq> None)
                 (errors_New ''embedded resource carries neither text nor blob''))))"

text \<open>The \<open>type\<close> member of a block; here a value of the wrong kind is skipped.\<close>

definition block_type :: "json \<Rightarrow> string" where
  "block_type b =
     (case b of
        JObj ms \<Rightarrow> fold (\<lambda>(k, v) t. if fold_name k = ''type'' then (case v of JStr s \<Rightarrow> s | _ \<Rightarrow> t) else t) ms ''''
      | _ \<Rightarrow> '''')"

definition validate_block :: "json \<Rightarrow> go_error + unit" where
  "validate_block b =
     (case map_members b of
        None \<Rightarrow> Inl (errors_New ''content block is not a JSON object'')
      | Some flds \<Rightarrow>
          (let t = block_type b in
           if t = ''text'' then requireStrings flds [''text'']
           else if t = ''image'' \<or> t = ''audio'' then requireStrings flds [''data'', ''mimeType'']
           else if t = ''resource_link'' then requireStrings flds [''uri'', ''name'']
           else if t = ''resource'' then validateEmbeddedResource flds
           else Inr ()))"

definition validateContentBlocks :: "json list \<Rightarrow> go_error + unit" where
  "validateContentBlocks blocks = first_error (map validate_block blocks)"

definition NormalizeCompleteResult :: "json option \<Rightarrow> go_error + result" where
  "NormalizeCompleteResult raw =
     (case Option.bind raw struct_members of
        None \<Rightarrow> Inl (errors_New ''complete result is not a JSON object'')
      | Some ms \<Rightarrow>
          (case (field ''resultType'' read_string '''' ms, field ''isError'' read_bool_ptr None ms,
                 field ''content'' read_raws None ms, field ''structuredContent'' read_raw None ms,
                 field ''_meta'' read_raw None ms) of
             (Some rt, Some isError, Some content, Some structured, Some m) \<Rightarrow>
               rbind (ensure (rt = resultTypeComplete) (errors_New ''complete result has another resultType'')) (\<lambda>_.
               case isError of
                 None \<Rightarrow> Inl (errors_New ''complete result omits the required isError field'')
               | Some b \<Rightarrow>
                   (let res = \<lparr>res_IsError = b, res_Content = content, res_StructuredContent = structured, res_Meta = m\<rparr>
                    in rbind (Result_Validate res) (\<lambda>_.
                       rbind (validateContentBlocks (list_of content)) (\<lambda>_. Inr res))))
           | _ \<Rightarrow> Inl (errors_New ''complete result is not a JSON object'')))"

subsection \<open>Execution\<close>

definition tasksCapabilities :: json where
  "tasksCapabilities = JObj [(''extensions'', JObj [(tasksExtension, JObj [])])]"

definition capabilitiesFor :: "string \<Rightarrow> json" where
  "capabilitiesFor s = (if s = ''forbidden'' then JObj [] else tasksCapabilities)"

definition checkResultShape :: "Descriptor \<Rightarrow> CallToolResponse \<Rightarrow> go_error + unit" where
  "checkResultShape d resp =
     (if d_TaskSupport d = ''required'' then ensure (IsTask resp) (protocol_mismatch ''tool requires a task result'')
      else if d_TaskSupport d = ''forbidden''
        then ensure (\<not> IsTask resp) (Errorf ''tool returned a task result'' [Sentinel ErrUnexpectedTaskResult])
      else Inr ())"

text \<open>Resolving a pinned operation of one strategy, with its parameter headers.\<close>

definition pinned :: "Connection \<Rightarrow> string \<Rightarrow> string \<Rightarrow> go_error + Descriptor \<times> ParamHeader list" where
  "pinned cn strategy name =
     (case Find (cn_catalog cn) name of
        None \<Rightarrow> Inl (Errorf ''tool is not in the effective catalog'' [Sentinel ErrOperationNotAllowed])
      | Some d \<Rightarrow>
          rbind (ensure (d_Strategy d = strategy) (Errorf ''tool uses another strategy'' [Sentinel ErrOperationNotAllowed])) (\<lambda>_.
          rbind (map_error (\<lambda>_. protocol_mismatch ''parameter headers'') (ParamHeaders (d_InputSchema d))) (\<lambda>hs.
          Inr (d, hs))))"

definition Execute :: "upstream_api \<Rightarrow> Connection \<Rightarrow> string \<Rightarrow> json option \<Rightarrow> go_error + CallToolResponse" where
  "Execute up cn name args =
     rbind (pinned cn StrategyUpstreamTask name) (\<lambda>(d, hs).
     rbind (map_error adapter_classify (up_call up \<lparr>cp_Name = name, cp_Arguments = args,
              cp_Capabilities = Some (capabilitiesFor (d_TaskSupport d)), cp_MaxResponseBytes = 0,
              cp_ParamHeaders = hs\<rparr>)) (\<lambda>resp.
     rbind (checkResultShape d resp) (\<lambda>_. Inr resp)))"

definition ExecuteLocal ::
    "dialect \<Rightarrow> upstream_api \<Rightarrow> Connection \<Rightarrow> string \<Rightarrow> json option \<Rightarrow> int \<Rightarrow> go_error + result" where
  "ExecuteLocal dx up cn name args maxResponseBytes =
     rbind (pinned cn StrategyLocalReplayable name) (\<lambda>(d, hs).
     rbind (map_error adapter_classify (up_call up \<lparr>cp_Name = name, cp_Arguments = args,
              cp_Capabilities = Some (JObj []), cp_MaxResponseBytes = maxResponseBytes,
              cp_ParamHeaders = hs\<rparr>)) (\<lambda>resp.
     rbind (ensure (\<not> IsTask resp) (Errorf ''synchronous tool returned a task result'' [Sentinel ErrUnexpectedTaskResult])) (\<lambda>_.
     rbind (map_error (\<lambda>_. protocol_mismatch ''complete result'') (NormalizeCompleteResult (Some (cr_Raw resp)))) (\<lambda>res.
     if \<not> res_IsError res \<and> d_OutputSchema d \<noteq> None then
       rbind (ensure (res_StructuredContent res \<noteq> None)
                (protocol_mismatch ''tool declared an output schema but returned no structured content'')) (\<lambda>_.
       rbind (map_error (\<lambda>_. protocol_mismatch ''tool returned a structured result violating its pinned output schema'')
                (ValidateAgainstSchema dx (d_OutputSchema d) (res_StructuredContent res))) (\<lambda>_. Inr res))
     else Inr res))))"

subsection \<open>Tasks\<close>

record TaskSnapshot =
  sn_TaskID :: string
  sn_Status :: status
  sn_StatusMessage :: string
  sn_UpdatedAt :: string
  sn_TTLMs :: int
  sn_PollIntervalMs :: int
  sn_Result :: "result option"
  sn_Failure :: "contract_error option"
  sn_InputRequests :: "json option"
  sn_Capabilities :: "json option"
  sn_TerminalEvidence :: "json option"

text \<open>Marshalling fails only for a nil capabilities document, which encodes as \<open>null\<close>.\<close>

definition capabilitySnapshot :: "Connection \<Rightarrow> json option" where
  "capabilitySnapshot cn = Some (JObj [(''client'', tasksCapabilities),
     (''server'', case cn_serverCapabilities cn of None \<Rightarrow> JNull | Some v \<Rightarrow> v)])"

definition OpenTask :: "upstream_api \<Rightarrow> Connection \<Rightarrow> string \<Rightarrow> json option \<Rightarrow> go_error + TaskSnapshot" where
  "OpenTask up cn name args =
     rbind (Execute up cn name args) (\<lambda>resp.
     rbind (ensure (cr_TaskID resp \<noteq> '''' \<and> cr_Status resp = TaskWorking)
              (protocol_mismatch ''initial task handle is incomplete'')) (\<lambda>_.
     Inr \<lparr>sn_TaskID = cr_TaskID resp, sn_Status = StatusRunning, sn_StatusMessage = cr_StatusMessage resp,
          sn_UpdatedAt = cr_LastUpdatedAt resp, sn_TTLMs = cr_TTLMs resp,
          sn_PollIntervalMs = cr_PollIntervalMs resp, sn_Result = None, sn_Failure = None,
          sn_InputRequests = None, sn_Capabilities = capabilitySnapshot cn, sn_TerminalEvidence = None\<rparr>))"

fun go_lower :: "string \<Rightarrow> string" where
  "go_lower [] = []"
| "go_lower (c # r) =
     (if c = CHR 0xC4 \<and> take 1 r = [CHR 0xB0] then CHR ''i'' # go_lower (drop 1 r)
      else if c = CHR 0xE2 \<and> take 2 r = [CHR 0x84, CHR 0xAA] then CHR ''k'' # go_lower (drop 2 r)
      else ascii_lower [c] @ go_lower r)"

definition expirationError :: "json option \<Rightarrow> bool" where
  "expirationError raw =
     (case Option.bind raw struct_members of
        None \<Rightarrow> False
      | Some ms \<Rightarrow>
          (case (field ''code'' read_raw None ms, field ''message'' read_string '''' ms) of
             (Some c, Some message) \<Rightarrow>
               contains ''expired'' (go_lower message)
               \<or> (case c of Some (JStr s) \<Rightarrow> ascii_lower s = ''expired'' | _ \<Rightarrow> False)
           | _ \<Rightarrow> False))"

definition normalizeTaskState :: "TaskState \<Rightarrow> json option \<Rightarrow> go_error + TaskSnapshot" where
  "normalizeTaskState state capabilities =
     (let snap = \<lparr>sn_TaskID = ts_TaskID state, sn_Status = StatusUnknown '''', sn_StatusMessage = ts_StatusMessage state,
            sn_UpdatedAt = ts_LastUpdatedAt state, sn_TTLMs = ts_TTLMs state,
            sn_PollIntervalMs = ts_PollIntervalMs state, sn_Result = None, sn_Failure = None,
            sn_InputRequests = None, sn_Capabilities = capabilities, sn_TerminalEvidence = None\<rparr>;
          failure = (\<lambda>m. Some (NewError CodeUpstreamExecutionFailed m))
      in if ts_TaskID state = '''' then Inl (protocol_mismatch ''task state has no id'')
         else if ts_Status state = TaskWorking then Inr (snap\<lparr>sn_Status := StatusRunning\<rparr>)
         else if ts_Status state = TaskInputRequired
           then Inr (snap\<lparr>sn_Status := StatusInputRequired, sn_InputRequests := ts_InputRequests state\<rparr>)
         else if ts_Status state = TaskCompleted
           then rbind (map_error (\<lambda>_. protocol_mismatch ''complete result'') (NormalizeCompleteResult (ts_Result state))) (\<lambda>res.
                Inr (snap\<lparr>sn_Status := StatusCompleted, sn_Result := Some res\<rparr>))
         else if ts_Status state = TaskFailed
           then Inr (if expirationError (ts_Error state)
             then snap\<lparr>sn_TerminalEvidence := ts_Error state, sn_Status := StatusExpired,
                       sn_Failure := failure ''The upstream task expired before it completed.''\<rparr>
             else snap\<lparr>sn_TerminalEvidence := ts_Error state, sn_Status := StatusFailed,
                       sn_Failure := failure ''The upstream task failed.''\<rparr>)
         else if ts_Status state = TaskCancelled
           then Inr (snap\<lparr>sn_Status := StatusCancelled, sn_TerminalEvidence := Some (ts_Raw state),
                          sn_Failure := failure ''The upstream task was cancelled.''\<rparr>)
         else Inl (protocol_mismatch ''unknown task status''))"

definition GetTask :: "upstream_api \<Rightarrow> Connection \<Rightarrow> string \<Rightarrow> int \<Rightarrow> go_error + TaskSnapshot" where
  "GetTask up cn taskID maxResponseBytes =
     rbind (map_error classifyTaskLookup (up_get up taskID maxResponseBytes)) (\<lambda>state.
     normalizeTaskState state (capabilitySnapshot cn))"

definition UpdateTask :: "upstream_api \<Rightarrow> string \<Rightarrow> json option \<Rightarrow> go_error + unit" where
  "UpdateTask up taskID responses =
     rbind (map_error classifyTaskLookup (up_update up taskID responses)) (\<lambda>_. Inr ())"

text \<open>The callbacks \<open>WatchTask\<close> hands to the subscription, and its result.\<close>

definition watch_callbacks ::
    "Connection \<Rightarrow> string \<Rightarrow> (TaskSnapshot \<Rightarrow> go_error option) \<Rightarrow> delivery \<Rightarrow> go_error option" where
  "watch_callbacks cn taskID on x =
     (case x of
        Acknowledged authorized \<Rightarrow> if taskID \<in> set authorized then None else Some (Sentinel ErrTaskNotSubscribed)
      | Task state \<Rightarrow>
          (case normalizeTaskState state (capabilitySnapshot cn) of Inl err \<Rightarrow> Some err | Inr snap \<Rightarrow> on snap))"

definition WatchTask ::
    "upstream_api \<Rightarrow> Connection \<Rightarrow> string \<Rightarrow> (TaskSnapshot \<Rightarrow> go_error option) \<Rightarrow> go_error option \<times> subscription" where
  "WatchTask up cn taskID on =
     (case up_subscribe up (watch_callbacks cn taskID on) [taskID] of
        (None, s) \<Rightarrow> (None, s)
      | (Some err, s) \<Rightarrow>
          (if errors_Is err ErrCanceled \<or> errors_Is err ErrTaskNotSubscribed then Some err
           else if subscriptionUnavailable err then Some (Errorf ''subscription'' [Sentinel ErrSubscriptionUnavailable])
           else Some (adapter_classify err), s))"

end
