(* ===== verification/Handlers.thy ===== *)
theory Handlers
  imports Contract
begin

text \<open>
  Handlers: functions on a state that may fail. \<open>io_bind\<close> is the early return on an error,
  \<open>io_finally\<close> a deferred call. The locale \<open>stateful\<close> states what a relation between the states before
  and after a handler needs, and its rules reduce a handler to its calls; the components interpret it
  for their own states and relations.
\<close>

section \<open>Definitions\<close>

definition io_bind ::
    "('w \<Rightarrow> ('e + 'a) \<times> 'w) \<Rightarrow> ('a \<Rightarrow> 'w \<Rightarrow> ('e + 'b) \<times> 'w) \<Rightarrow> 'w \<Rightarrow> ('e + 'b) \<times> 'w" where
  "io_bind m f w = (case m w of (Inl e, w') \<Rightarrow> (Inl e, w') | (Inr x, w') \<Rightarrow> f x w')"

definition io_return :: "'a \<Rightarrow> 'w \<Rightarrow> ('e + 'a) \<times> 'w" where
  "io_return x w = (Inr x, w)"

definition io_fail :: "'e \<Rightarrow> 'w \<Rightarrow> ('e + 'a) \<times> 'w" where
  "io_fail e w = (Inl e, w)"

text \<open>Returning another error.\<close>

definition io_map_error :: "('e \<Rightarrow> 'f) \<Rightarrow> ('w \<Rightarrow> ('e + 'a) \<times> 'w) \<Rightarrow> 'w \<Rightarrow> ('f + 'a) \<times> 'w" where
  "io_map_error f m w = (case m w of (r, w') \<Rightarrow> (map_error f r, w'))"

text \<open>A deferred call: it runs on every path and its result is dropped.\<close>

definition io_finally ::
    "('w \<Rightarrow> ('e + 'a) \<times> 'w) \<Rightarrow> ('w \<Rightarrow> 'b \<times> 'w) \<Rightarrow> 'w \<Rightarrow> ('e + 'a) \<times> 'w" where
  "io_finally m g w = (case m w of (r, w') \<Rightarrow> (r, snd (g w')))"

section \<open>Lemmas\<close>

lemma io_simps [simp]:
  "io_return x w = (Inr x, w)" "io_fail e w = (Inl e, w)"
  by (simp_all add: io_return_def io_fail_def)

lemma io_bind_Inr: "io_bind m f w = (Inr y, w2) \<longleftrightarrow> (\<exists>x w1. m w = (Inr x, w1) \<and> f x w1 = (Inr y, w2))"
  by (auto simp: io_bind_def split: prod.splits sum.splits)

lemma io_map_error_Inr: "io_map_error f m w = (Inr x, w') \<longleftrightarrow> m w = (Inr x, w')"
  by (cases "m w", cases "fst (m w)") (simp_all add: io_map_error_def)

text \<open>
  Relations between the world before and after a handler, whatever it returns. The rules of the locale
  reduce a handler to its calls.
\<close>

definition keeps :: "('w \<Rightarrow> 'w \<Rightarrow> bool) \<Rightarrow> ('w \<Rightarrow> 'a \<times> 'w) \<Rightarrow> bool" where
  "keeps R m \<longleftrightarrow> (\<forall>w. R w (snd (m w)))"

lemma keepsD: "keeps R m \<Longrightarrow> m w = (r, w') \<Longrightarrow> R w w'"
  by (metis keeps_def snd_conv)

locale stateful =
  fixes R :: "'w \<Rightarrow> 'w \<Rightarrow> bool"
  assumes R_refl: "R w w"
    and R_trans: "R w w' \<Longrightarrow> R w' w'' \<Longrightarrow> R w w''"
begin

lemma keeps_bind:
  assumes "keeps R m" "\<And>x. keeps R (f x)"
  shows "keeps R (io_bind m f)"
  unfolding keeps_def
proof
  fix w
  obtain r w' where m: "m w = (r, w')" by fastforce
  then have "R w w'" by (rule keepsD [OF assms(1)])
  then show "R w (snd (io_bind m f w))"
    using assms(2) R_trans by (cases r) (simp_all add: io_bind_def m keeps_def)
qed

lemma keeps_return: "keeps R (io_return x)" "keeps R (io_fail e)" "keeps R (\<lambda>w. (y, w))"
  by (simp_all add: keeps_def R_refl)

lemma keeps_map_error: "keeps R m \<Longrightarrow> keeps R (io_map_error f m)"
  unfolding keeps_def io_map_error_def by (metis case_prod_beta snd_conv)

lemma keeps_finally:
  assumes "keeps R m" "keeps R g"
  shows "keeps R (io_finally m g)"
  unfolding keeps_def
proof
  fix w
  obtain r w' where m: "m w = (r, w')" by fastforce
  then have "R w w'" by (rule keepsD [OF assms(1)])
  then show "R w (snd (io_finally m g w))"
    using assms(2) R_trans by (simp add: io_finally_def m keeps_def)
qed

lemma keeps_if: "(P \<Longrightarrow> keeps R m) \<Longrightarrow> (\<not> P \<Longrightarrow> keeps R m') \<Longrightarrow> keeps R (if P then m else m')"
  by simp

lemma keeps_option: "(x = None \<Longrightarrow> keeps R m) \<Longrightarrow> (\<And>y. x = Some y \<Longrightarrow> keeps R (f y)) \<Longrightarrow> keeps R (case_option m f x)"
  by (cases x) auto

lemma keeps_sum: "(\<And>e. x = Inl e \<Longrightarrow> keeps R (f e)) \<Longrightarrow> (\<And>y. x = Inr y \<Longrightarrow> keeps R (g y)) \<Longrightarrow> keeps R (case_sum f g x)"
  by (cases x) auto

text \<open>The same for handlers written as a case distinction on a call.\<close>

lemma keeps_case:
  assumes "keeps R m" "\<And>e. keeps R (f e)" "\<And>x. keeps R (g x)"
  shows "keeps R (\<lambda>w. case m w of (Inl e, w') \<Rightarrow> f e w' | (Inr x, w') \<Rightarrow> g x w')"
  unfolding keeps_def
proof
  fix w
  obtain r w' where m: "m w = (r, w')" by fastforce
  then have "R w w'" by (rule keepsD [OF assms(1)])
  then show "R w (snd (case m w of (Inl e, w') \<Rightarrow> f e w' | (Inr x, w') \<Rightarrow> g x w'))"
    using assms(2,3) R_trans by (cases r) (simp_all add: m keeps_def)
qed

lemma keeps_cond: "keeps R m \<Longrightarrow> keeps R m' \<Longrightarrow> keeps R (\<lambda>w. if P then m w else m' w)"
  by (cases P) simp_all

lemmas keeps_cases = keeps_case keeps_cond

lemmas keeps_rules = keeps_bind keeps_return keeps_map_error keeps_finally keeps_if keeps_option keeps_sum

end

end
