(* ===== verification/Application_World.thy ===== *)
theory Application_World
  imports Store_Properties Adapter Handlers
begin

text \<open>
  Clients of the store. A handler of the application makes many store calls, at different times and
  with other processes acting in between. A \<open>world\<close> holds the database, and for each future call its
  environment (clock, key, limits, faults) and what the others do to the database before it. A
  handler is a function on worlds; \<open>store_call\<close> is one store call, \<open>io_bind\<close> the early return on error.

  The locale \<open>store_client\<close> states what the handlers need of the store: a relation between databases
  that every call and every interference follows. It is interpreted for the life of submissions, which
  includes the database invariant.

  A handler also talks to the upstream endpoint. \<open>w_up\<close> answers its requests, one \<open>upstream_api\<close> for each
  in turn, and \<open>w_log\<close> records them; \<open>w_conn\<close> is the connection \<open>verifiedConnection\<close>
  (\<open>internal/application/executor.go\<close>) remembers. Random bytes are \<open>w_nonce\<close>.
\<close>

section \<open>Definitions\<close>

datatype upcall =
    UpConnect
  | UpOpen string "json option"
  | UpGet string
  | UpUpdate string json

record world =
  w_db :: db
  w_calls :: nat
  w_env :: "nat \<Rightarrow> env"
  w_other :: "nat \<Rightarrow> db \<Rightarrow> db"
  w_nonce :: "nat \<Rightarrow> go_error + string"
  w_up :: "nat \<Rightarrow> upstream_api"
  w_log :: "upcall list"
  w_conn :: "Connection option"

definition store_call :: "(env \<Rightarrow> db \<Rightarrow> 'a \<times> db) \<Rightarrow> world \<Rightarrow> 'a \<times> world" where
  "store_call f w =
     (let n = w_calls w; r = f (w_env w n) (w_other w n (w_db w))
      in (fst r, w\<lparr>w_db := snd r, w_calls := Suc n\<rparr>))"

definition store_read :: "(env \<Rightarrow> db \<Rightarrow> 'a) \<Rightarrow> world \<Rightarrow> 'a \<times> world" where
  "store_read f w = store_call (\<lambda>e d. (f e d, d)) w"

definition upstream_call :: "upcall \<Rightarrow> (upstream_api \<Rightarrow> 'a) \<Rightarrow> world \<Rightarrow> 'a \<times> world" where
  "upstream_call c f w = (f (w_up w (length (w_log w))), w\<lparr>w_log := w_log w @ [c]\<rparr>)"

text \<open>\<open>verifiedConnection.get\<close>: the first connection is kept, a failure is not.\<close>

definition connection ::
    "(upstream_api \<Rightarrow> go_error + Connection) \<Rightarrow> world \<Rightarrow> (go_error + Connection) \<times> world" where
  "connection resolve w =
     (case w_conn w of
        Some cn \<Rightarrow> (Inr cn, w)
      | None \<Rightarrow>
          (case upstream_call UpConnect resolve w of
             (Inl err, w') \<Rightarrow> (Inl err, w')
           | (Inr cn, w') \<Rightarrow> (Inr cn, w'\<lparr>w_conn := Some cn\<rparr>)))"

definition taskLeaseOwner :: "string \<Rightarrow> world \<Rightarrow> (go_error + string) \<times> world" where
  "taskLeaseOwner base w =
     (rbind (w_nonce w (w_calls w)) (\<lambda>nonce. Inr (base @ ''/'' @ hex_encode nonce)), w)"

section \<open>Lemmas\<close>

lemma world_frame [simp]:
  "w_env (snd (store_call f w)) = w_env w" "w_other (snd (store_call f w)) = w_other w"
  "w_calls (snd (store_call f w)) = Suc (w_calls w)" "w_log (snd (store_call f w)) = w_log w"
  "w_conn (snd (store_call f w)) = w_conn w" "w_up (snd (store_call f w)) = w_up w"
  by (simp_all add: store_call_def Let_def)

text \<open>A world in which nobody else touches the database during the handler.\<close>

definition quiet :: "world \<Rightarrow> bool" where
  "quiet w \<longleftrightarrow> (\<forall>n d. w_other w n d = d)"

lemma store_call_quiet:
  assumes "quiet w" "store_call f w = (r, w')"
  shows "r = fst (f (w_env w (w_calls w)) (w_db w))" "w_db w' = snd (f (w_env w (w_calls w)) (w_db w))"
    "quiet w'" "w_log w' = w_log w" "w_env w' = w_env w"
proof -
  have o: "w_other w n d = d" for n d using assms(1) by (simp add: quiet_def)
  have "r = fst (store_call f w)" "w' = snd (store_call f w)" using assms(2) by simp_all
  then show "r = fst (f (w_env w (w_calls w)) (w_db w))" "w_db w' = snd (f (w_env w (w_calls w)) (w_db w))"
    "quiet w'" "w_log w' = w_log w" "w_env w' = w_env w"
    by (simp_all add: store_call_def Let_def o quiet_def)
qed

lemma store_read_quiet:
  assumes "quiet w" "store_read f w = (r, w')"
  shows "r = f (w_env w (w_calls w)) (w_db w)" "w_db w' = w_db w" "quiet w'" "w_log w' = w_log w"
    "w_env w' = w_env w"
  using store_call_quiet [OF assms(1) assms(2) [unfolded store_read_def]] by simp_all

locale handler = stateful R for R :: "world \<Rightarrow> world \<Rightarrow> bool"
begin

lemma keeps_owner: "keeps R (taskLeaseOwner base)"
  by (simp add: keeps_def taskLeaseOwner_def R_refl)

lemmas keeps_intros = keeps_rules keeps_owner

end

subsection \<open>Requests\<close>

text \<open>A handler that sends nothing.\<close>

definition silent :: "world \<Rightarrow> world \<Rightarrow> bool" where
  "silent w w' \<longleftrightarrow> w_log w' = w_log w"

interpretation quietly: handler silent
  by unfold_locales (simp_all add: silent_def)

lemma silent_calls: "keeps silent (store_call f)" "keeps silent (store_read g)"
  by (simp_all add: keeps_def silent_def store_read_def)

lemmas silent_intros = quietly.keeps_intros silent_calls

subsection \<open>Databases\<close>

text \<open>
  A handler follows a relation on databases when, in a world whose environments are good and whose
  other processes follow it, it does too.
\<close>

definition fair :: "(db \<Rightarrow> db \<Rightarrow> bool) \<Rightarrow> (env \<Rightarrow> bool) \<Rightarrow> world \<Rightarrow> bool" where
  "fair rel good w \<longleftrightarrow> (\<forall>n. good (w_env w n) \<and> (\<forall>d. rel d (w_other w n d)))"

definition follows :: "(db \<Rightarrow> db \<Rightarrow> bool) \<Rightarrow> (env \<Rightarrow> bool) \<Rightarrow> world \<Rightarrow> world \<Rightarrow> bool" where
  "follows rel good w w' \<longleftrightarrow> (fair rel good w \<longrightarrow> fair rel good w' \<and> rel (w_db w) (w_db w'))"

locale store_client =
  fixes rel :: "db \<Rightarrow> db \<Rightarrow> bool"
    and good :: "env \<Rightarrow> bool"
  assumes rel_refl: "rel d d"
    and rel_trans: "rel d d' \<Longrightarrow> rel d' d'' \<Longrightarrow> rel d d''"

sublocale store_client \<subseteq> handler "follows rel good"
  by unfold_locales (auto simp: follows_def rel_refl intro: rel_trans)

context store_client
begin

lemma follows_call:
  assumes "\<And>e d. good e \<Longrightarrow> rel d (snd (f e d))"
  shows "keeps (follows rel good) (store_call f)"
proof -
  have "rel (w_db w) (snd (f (w_env w (w_calls w)) (w_other w (w_calls w) (w_db w))))" if "fair rel good w" for w
    using that assms rel_trans unfolding fair_def by blast
  then show ?thesis by (auto simp: keeps_def follows_def store_call_def Let_def fair_def)
qed

lemma follows_read: "keeps (follows rel good) (store_read f)"
  unfolding store_read_def [abs_def] by (rule follows_call) (simp add: rel_refl)

lemma follows_upstream:
  "keeps (follows rel good) (upstream_call c f)" "keeps (follows rel good) (connection resolve)"
  by (auto simp: keeps_def follows_def upstream_call_def connection_def fair_def rel_refl
      split: option.split sum.split)

lemmas follows_intros = keeps_intros follows_call follows_read follows_upstream

end

subsection \<open>The life of submissions\<close>

text \<open>
  What every well-behaved client does to a database: the invariant is kept, and each submission is
  still there after legal steps or has reached a terminal row.
\<close>

definition life_rel :: "string \<Rightarrow> db \<Rightarrow> db \<Rightarrow> bool" where
  "life_rel key d d' \<longleftrightarrow> (db_inv key d \<longrightarrow> db_inv key d'
     \<and> (\<forall>sid r. row_at (submissions d) sid = Some r \<longrightarrow>
          (\<exists>r'. row_at (submissions d') sid = Some r' \<and> row_step\<^sup>*\<^sup>* r r')
          \<or> (\<exists>r1. row_step\<^sup>*\<^sup>* r r1 \<and> Terminal (r_status r1))))"

lemma life_rel_trans:
  assumes "life_rel key d d'" "life_rel key d' d''"
  shows "life_rel key d d''"
  unfolding life_rel_def
proof (intro impI conjI allI)
  assume inv: "db_inv key d"
  then have inv': "db_inv key d'" using assms(1) by (simp add: life_rel_def)
  then show "db_inv key d''" using assms(2) by (simp add: life_rel_def)
  fix sid r assume r: "row_at (submissions d) sid = Some r"
  consider r' where "row_at (submissions d') sid = Some r'" "row_step\<^sup>*\<^sup>* r r'"
    | "\<exists>r1. row_step\<^sup>*\<^sup>* r r1 \<and> Terminal (r_status r1)"
    using assms(1) inv r unfolding life_rel_def by blast
  then show "(\<exists>r'. row_at (submissions d'') sid = Some r' \<and> row_step\<^sup>*\<^sup>* r r')
      \<or> (\<exists>r1. row_step\<^sup>*\<^sup>* r r1 \<and> Terminal (r_status r1))"
  proof cases
    case 1
    then show ?thesis using assms(2) inv' unfolding life_rel_def by (metis rtranclp_trans)
  qed blast
qed

lemma life_perform: "env_ok key e \<Longrightarrow> life_rel key d (perform c e d)"
  unfolding life_rel_def using perform_ok [of key e d c]
  by (fastforce simp: db_step_def split: option.splits)

interpretation life: store_client "life_rel key" "env_ok key" for key
proof unfold_locales
  show "life_rel key d d" for d by (auto simp: life_rel_def)
  show "life_rel key d d' \<Longrightarrow> life_rel key d' d'' \<Longrightarrow> life_rel key d d''" for d d' d'' by (rule life_rel_trans)
qed

lemmas life_ops =
  life_perform [of _ _ _ "OpTransition sid to detail (Some (n, w))" for sid to detail n w, simplified, folded TransitionLeased_def]
  life_perform [of _ _ _ "OpComplete sid res (Some (n, w))" for sid res n w, simplified, folded CompleteLeased_def]
  life_perform [of _ _ _ "OpCapture sid n w to f ev" for sid n w to f ev, simplified]
  life_perform [of _ _ _ "OpAttach sid t" for sid t, simplified]
  life_perform [of _ _ _ "OpSaveTask sid n w r" for sid n w r, simplified]
  life_perform [of _ _ _ "OpAppend sid evs" for sid evs, simplified]
  life_perform [of _ _ _ "OpSetResponse sid rid v" for sid rid v, simplified]
  life_perform [of _ _ _ "OpMarkSent sid rids" for sid rids, simplified]
  life_perform [of _ _ _ "OpClaim n w ttl" for n w ttl, simplified]
  life_perform [of _ _ _ "OpRenew n w ttl" for n w ttl, simplified]
  life_perform [of _ _ _ "OpCommitLease n w g" for n w g, simplified]
  life_perform [of _ _ _ "OpRelease n w" for n w, simplified]

end
