(* ===== verification/Application_Bindings.thy ===== *)
theory Application_Bindings
  imports Catalog Go_Json "HOL-Library.Sublist"
begin

text \<open>
  Building the upstream arguments and the durable identity of a request: the declarative bindings
  (\<open>internal/application/bindings.go\<close>) and the request identities of \<open>internal/application/submit.go\<close>.

  A computation that can panic returns an option, \<open>None\<close>
  for the panic.
\<close>

section \<open>Definitions\<close>

subsection \<open>Pointers\<close>

text \<open>\<open>strings.ReplaceAll\<close> of a two-byte text by one byte.\<close>

fun replace_pair :: "char \<Rightarrow> char \<Rightarrow> char \<Rightarrow> string \<Rightarrow> string" where
  "replace_pair a b c (x # y # r) =
     (if x = a \<and> y = b then c # replace_pair a b c r else x # replace_pair a b c (y # r))"
| "replace_pair a b c s = s"

definition unescape_ref :: "string \<Rightarrow> string" where
  "unescape_ref rawRef = replace_pair CHR ''~'' CHR ''0'' CHR ''~''
     (replace_pair CHR ''~'' CHR ''1'' CHR ''/'' rawRef)"

definition pointer_refs :: "string \<Rightarrow> string list" where
  "pointer_refs pointer = map unescape_ref (split_at CHR ''/'' (tl pointer))"

fun setPointerAt :: "gomap option \<Rightarrow> string list \<Rightarrow> json \<Rightarrow> (go_error + gomap option) option" where
  "setPointerAt obj [] v = None"
| "setPointerAt obj [ref] v =
     (case obj of None \<Rightarrow> None | Some t \<Rightarrow> Some (Inr (Some (put_row ref v t))))"
| "setPointerAt obj (ref # next_ref # refs) v =
     (let next = (case obj of
                    None \<Rightarrow> JObj []
                  | Some t \<Rightarrow> (case row_at t ref of Some x \<Rightarrow> x | None \<Rightarrow> JObj []))
      in case unmarshal_map next of
           Inl _ \<Rightarrow> Some (Inl (errors_New (''binding path does not descend through an object at '' @ ref)))
         | Inr child \<Rightarrow>
             (case setPointerAt child (next_ref # refs) v of
                None \<Rightarrow> None
              | Some (Inl err) \<Rightarrow> Some (Inl err)
              | Some (Inr child') \<Rightarrow>
                  (case obj of
                     None \<Rightarrow> None
                   | Some t \<Rightarrow> Some (Inr (Some (put_row ref (marshal_map child') t))))))"

definition setPointer :: "gomap option \<Rightarrow> string \<Rightarrow> json \<Rightarrow> (go_error + gomap option) option" where
  "setPointer doc pointer v =
     (if take 1 pointer \<noteq> ''/'' then Some (Inl (errors_New ''binding target is not an absolute pointer''))
      else setPointerAt doc (pointer_refs pointer) v)"

subsection \<open>Bindings\<close>

record SubmitInput =
  si_Tool :: string
  si_Arguments :: "json option"
  si_ClientRequestID :: string
  si_ClientContext :: "string option"

definition client_thread :: "SubmitInput \<Rightarrow> string" where
  "client_thread i = (case si_ClientContext i of None \<Rightarrow> '''' | Some t \<Rightarrow> t)"

definition sourceLabel :: "string \<Rightarrow> string" where
  "sourceLabel source =
     (if source = SourceClientContextThreadID then ''client_context.thread_id'' else ''client_request_id'')"

definition binding_value :: "Binding \<Rightarrow> SubmitInput \<Rightarrow> go_error + string" where
  "binding_value b i =
     (if b_Source b = SourceClientRequestID then Inr (si_ClientRequestID i)
      else if b_Source b = SourceClientContextThreadID then Inr (client_thread i)
      else Inl (errors_New ''binding uses an unreviewed source''))"

definition apply_binding :: "SubmitInput \<Rightarrow> Binding \<Rightarrow> gomap option \<Rightarrow> (go_error + gomap option) option" where
  "apply_binding i b doc =
     (case binding_value b i of
        Inl err \<Rightarrow> Some (Inl err)
      | Inr value \<Rightarrow>
          if value = '''' then
            (if b_Required b
             then Some (Inl (errors_New (''the selected bindings require '' @ sourceLabel (b_Source b))))
             else Some (Inr doc))
          else setPointer doc (b_Target b) (JStr value))"

fun apply_all :: "SubmitInput \<Rightarrow> Binding list \<Rightarrow> gomap option \<Rightarrow> (go_error + gomap option) option" where
  "apply_all i [] doc = Some (Inr doc)"
| "apply_all i (b # bs) doc =
     (case apply_binding i b doc of
        Some (Inr doc') \<Rightarrow> apply_all i bs doc'
      | stop \<Rightarrow> stop)"

definition applyBindings :: "Descriptor \<Rightarrow> SubmitInput \<Rightarrow> (go_error + json) option" where
  "applyBindings d i =
     (case si_Arguments i of
        None \<Rightarrow> Some (Inl (errors_New ''arguments are not a JSON object''))
      | Some v \<Rightarrow>
          (case unmarshal_map v of
             Inl err \<Rightarrow> Some (Inl (Errorf ''arguments are not a JSON object'' [err]))
           | Inr doc \<Rightarrow>
               (case apply_all i (d_Bindings d) doc of
                  None \<Rightarrow> None
                | Some (Inl err) \<Rightarrow> Some (Inl err)
                | Some (Inr doc') \<Rightarrow> Some (Inr (marshal_map doc')))))"

subsection \<open>Request identities\<close>

text \<open>\<open>None\<close> as thread records a source the operation cannot map; an empty one is an explicit null.\<close>

definition requestIdentity :: "SubmitInput \<Rightarrow> string option \<Rightarrow> json" where
  "requestIdentity i threadID = JObj
     ((''arguments'', case si_Arguments i of None \<Rightarrow> JNull | Some v \<Rightarrow> v) #
      (case threadID of None \<Rightarrow> []
       | Some t \<Rightarrow> [(''thread_id'', if t = '''' then JNull else JStr t)]))"

definition mapsThreadID :: "Descriptor \<Rightarrow> bool" where
  "mapsThreadID d \<longleftrightarrow> list_ex (\<lambda>b. b_Source b = SourceClientContextThreadID) (d_Bindings d)"

definition identityThread :: "SubmitInput \<Rightarrow> Descriptor \<Rightarrow> string option" where
  "identityThread i d = (if \<not> mapsThreadID d then None else Some (client_thread i))"

definition retryIdentities :: "SubmitInput \<Rightarrow> json list" where
  "retryIdentities i = [requestIdentity i (Some (client_thread i)), requestIdentity i None]"

section \<open>Lemmas\<close>

subsection \<open>Pointer syntax\<close>

lemma replace_pair_skip: "x \<noteq> a \<Longrightarrow> replace_pair a b c (x # s) = x # replace_pair a b c s"
  by (cases s) simp_all

fun escape_ref :: "string \<Rightarrow> string" where
  "escape_ref [] = []"
| "escape_ref (c # cs) =
     (if c = CHR ''~'' then ''~0'' else if c = CHR ''/'' then ''~1'' else [c]) @ escape_ref cs"

lemma escape_unescape:
  "escapes_ok s \<Longrightarrow> CHR ''/'' \<notin> set s \<Longrightarrow> escape_ref (unescape_ref s) = s"
proof (induction s rule: escapes_ok.induct)
  case (2 c cs)
  show ?case
  proof (cases "c = CHR ''~''")
    case True
    with 2 obtain e r where cs: "cs = e # r" "e = CHR ''0'' \<or> e = CHR ''1''" "escapes_ok r"
      by (auto split: list.splits)
    with 2 True have ih: "escape_ref (unescape_ref r) = r" by auto
    show ?thesis using cs(2) ih True
      by (auto simp: cs(1) unescape_ref_def replace_pair_skip)
  next
    case False
    with 2 show ?thesis by (auto simp: unescape_ref_def replace_pair_skip)
  qed
qed (simp add: unescape_ref_def)

lemma join_split_at: "join [c] (split_at c s) = s"
proof (induction s)
  case (Cons x s)
  obtain w ws where w: "split_at c s = w # ws" by (cases "split_at c s") auto
  with Cons show ?case by (cases ws) auto
qed simp

lemma split_at_free: "w \<in> set (split_at c s) \<Longrightarrow> c \<notin> set w"
  by (induction s arbitrary: w) (auto split: if_splits list.splits)

text \<open>A valid pointer is printed back from its references.\<close>

lemma pointer_printed:
  assumes "validPointer r"
  shows "CHR ''/'' # join ''/'' (map escape_ref (pointer_refs r)) = r"
proof -
  from assms obtain t where r: "r = CHR ''/'' # t" "list_all escapes_ok (split_at CHR ''/'' t)"
    by (auto simp: validPointer_def split: list.splits)
  have "map (escape_ref \<circ> unescape_ref) (split_at CHR ''/'' t) = split_at CHR ''/'' t"
    using r(2) split_at_free [of _ "CHR ''/''" t]
    by (intro map_idI) (auto simp: list_all_iff escape_unescape)
  then show ?thesis by (simp add: r(1) pointer_refs_def join_split_at)
qed

subsection \<open>Reading and writing along a path\<close>

text \<open>What a Go program finds along a path: the last of repeated members.\<close>

fun lookup :: "json \<Rightarrow> string list \<Rightarrow> json option" where
  "lookup v [] = Some v"
| "lookup (JObj ms) (r # rs) =
     (case row_at (members_map ms) r of None \<Rightarrow> None | Some x \<Rightarrow> lookup x rs)"
| "lookup _ (r # rs) = None"

fun get :: "gomap option \<Rightarrow> string list \<Rightarrow> json option" where
  "get (Some t) (r # rs) = (case row_at t r of None \<Rightarrow> None | Some x \<Rightarrow> lookup x rs)"
| "get _ _ = None"

lemma lookup_marshal: "pk_map m \<Longrightarrow> q \<noteq> [] \<Longrightarrow> lookup (marshal_map m) q = get m q"
  by (cases m; cases q) (simp_all add: marshal_map_def row_at_sorted)

lemma lookup_unmarshal: "unmarshal_map v = Inr m \<Longrightarrow> q \<noteq> [] \<Longrightarrow> lookup v q = get m q"
  by (cases v; cases q) auto

lemma unmarshal_pk: "unmarshal_map v = Inr m \<Longrightarrow> pk_map m"
  by (cases v) auto

text \<open>One level of a successful write.\<close>

lemma set_step:
  assumes "setPointerAt obj (ref # r # rs) v = Some (Inr obj')"
  shows "\<exists>t child child'. obj = Some t
    \<and> (\<forall>q. q \<noteq> [] \<longrightarrow> get obj (ref # q) = get child q) \<and> pk_map child
    \<and> setPointerAt child (r # rs) v = Some (Inr child')
    \<and> obj' = Some (put_row ref (marshal_map child') t)"
proof -
  from assms obtain t child child' where s: "obj = Some t"
      "unmarshal_map (case row_at t ref of Some x \<Rightarrow> x | None \<Rightarrow> JObj []) = Inr child"
      "setPointerAt child (r # rs) v = Some (Inr child')"
      "obj' = Some (put_row ref (marshal_map child') t)"
    by (auto simp: Let_def split: option.splits sum.splits)
  have "get obj (ref # q) = get child q" if "q \<noteq> []" for q
    using s(2) that lookup_unmarshal [OF s(2) that]
    by (cases q) (auto simp: s(1) members_map_def split: option.splits)
  with s unmarshal_pk [OF s(2)] show ?thesis by blast
qed

lemma set_pk: "setPointerAt obj p v = Some (Inr obj') \<Longrightarrow> pk_map obj \<Longrightarrow> pk_map obj'"
proof (induction p arbitrary: obj obj')
  case (Cons ref p)
  show ?case
  proof (cases p)
    case Nil
    with Cons.prems show ?thesis by (auto simp: tbl.wf_put split: option.splits)
  next
    case p: (Cons r rs)
    from set_step [OF Cons.prems(1) [unfolded p]] Cons.prems(2) show ?thesis by (auto simp: tbl.wf_put)
  qed
qed simp

lemma set_get:
  "setPointerAt obj p v = Some (Inr obj') \<Longrightarrow> pk_map obj \<Longrightarrow> get obj' (p @ s) = lookup v s"
proof (induction p arbitrary: obj obj')
  case (Cons ref p)
  show ?case
  proof (cases p)
    case Nil
    with Cons.prems show ?thesis by (auto split: option.splits)
  next
    case p: (Cons r rs)
    from set_step [OF Cons.prems(1) [unfolded p]] obtain t child child' where st: "pk_map child"
        "setPointerAt child p v = Some (Inr child')" "obj' = Some (put_row ref (marshal_map child') t)"
      unfolding p by blast
    have "get obj' ((ref # p) @ s) = lookup (marshal_map child') (p @ s)" using st(3) by simp
    also have "\<dots> = get child' (p @ s)"
      using set_pk [OF st(2,1)] p by (intro lookup_marshal) simp_all
    finally show ?thesis using Cons.IH [OF st(2,1)] by simp
  qed
qed simp

lemma set_frame:
  "setPointerAt obj p v = Some (Inr obj') \<Longrightarrow> pk_map obj \<Longrightarrow> \<not> prefix p q \<Longrightarrow> \<not> prefix q p
     \<Longrightarrow> get obj' q = get obj q"
proof (induction p arbitrary: obj obj' q)
  case (Cons ref p)
  obtain x q' where q: "q = x # q'" using Cons.prems(4) by (cases q) auto
  show ?case
  proof (cases p)
    case Nil
    with Cons.prems q show ?thesis by (auto split: option.splits)
  next
    case p: (Cons r rs)
    from set_step [OF Cons.prems(1) [unfolded p]] obtain t child child' where st: "obj = Some t"
        "\<forall>q. q \<noteq> [] \<longrightarrow> get obj (ref # q) = get child q" "pk_map child"
        "setPointerAt child p v = Some (Inr child')" "obj' = Some (put_row ref (marshal_map child') t)"
      unfolding p by blast
    show ?thesis
    proof (cases "x = ref")
      case False
      then show ?thesis by (simp add: st(1,5) q)
    next
      case True
      then have ne: "q' \<noteq> []" "\<not> prefix p q'" "\<not> prefix q' p" using Cons.prems(3,4) q p by auto
      have "get obj' q = get child' q'"
        using set_pk [OF st(4,3)] ne(1) True by (simp add: st(5) q lookup_marshal)
      also have "\<dots> = get child q'" using Cons.IH [OF st(4,3) ne(2,3)] .
      also have "\<dots> = get obj q" using st(2) ne(1) q True by simp
      finally show ?thesis .
    qed
  qed
qed simp

lemma set_path:
  "setPointerAt obj p v = Some (Inr obj') \<Longrightarrow> pk_map obj \<Longrightarrow> strict_prefix q p \<Longrightarrow> q \<noteq> []
     \<Longrightarrow> \<exists>ms. get obj' q = Some (JObj ms)"
proof (induction p arbitrary: obj obj' q)
  case (Cons ref p)
  obtain q' where q: "q = ref # q'" "strict_prefix q' p" using Cons.prems(3,4) by (cases q) auto
  then obtain r rs where p: "p = r # rs" by (cases p) auto
  from set_step [OF Cons.prems(1) [unfolded p]] obtain t child child' where st: "pk_map child"
      "setPointerAt child p v = Some (Inr child')" "obj' = Some (put_row ref (marshal_map child') t)"
    unfolding p by blast
  show ?case
  proof (cases "q' = []")
    case True
    have "child' \<noteq> None" using st(2) p by (cases rs) (auto simp: Let_def split: option.splits sum.splits)
    then show ?thesis using True q(1) by (auto simp: st(3) marshal_map_def)
  next
    case False
    then show ?thesis
      using Cons.IH [OF st(2,1) q(2)] set_pk [OF st(2,1)] q(1) by (simp add: st(3) lookup_marshal)
  qed
qed simp

lemma set_no_panic:
  assumes "p \<noteq> []" "pk_map obj" "obj \<noteq> None"
    and "\<And>q. strict_prefix q p \<Longrightarrow> q \<noteq> [] \<Longrightarrow> get obj q \<noteq> Some JNull"
  shows "setPointerAt obj p v \<noteq> None"
  using assms
proof (induction p arbitrary: obj)
  case (Cons ref p)
  then obtain t where t: "obj = Some t" by auto
  show ?case
  proof (cases p)
    case Nil
    then show ?thesis by (simp add: t)
  next
    case p: (Cons r rs)
    let ?next = "case row_at t ref of Some x \<Rightarrow> x | None \<Rightarrow> JObj []"
    show ?thesis
    proof (cases "unmarshal_map ?next")
      case (Inl e)
      then show ?thesis by (simp add: t p Let_def)
    next
      case (Inr child)
      have "?next \<noteq> JNull" using Cons.prems(4) [of "[ref]"] p by (auto simp: t split: option.splits)
      then have c: "child \<noteq> None" using Inr by (cases ?next) auto
      have "get child q \<noteq> Some JNull" if "strict_prefix q p" "q \<noteq> []" for q
      proof -
        have "get obj (ref # q) = get child q"
          using lookup_unmarshal [OF Inr that(2)] that(2) Inr
          by (cases q) (auto simp: t members_map_def split: option.splits)
        then show ?thesis using Cons.prems(4) [of "ref # q"] that by simp
      qed
      then have "setPointerAt child p v \<noteq> None"
        using Cons.IH [OF _ unmarshal_pk [OF Inr] c] p by blast
      then show ?thesis using Inr by (auto simp: t p Let_def split: sum.splits)
    qed
  qed
qed simp


subsection \<open>Binding lists\<close>

definition independent :: "string list \<Rightarrow> string list \<Rightarrow> bool" where
  "independent p q \<longleftrightarrow> \<not> prefix p q \<and> \<not> prefix q p"

abbreviation refs_of :: "Binding \<Rightarrow> string list" where
  "refs_of b \<equiv> pointer_refs (b_Target b)"

lemma pointer_refs_not_Nil [simp]: "pointer_refs p \<noteq> []"
  by (simp add: pointer_refs_def)

lemma setPointer_At: "setPointer doc p v = Some (Inr doc') \<Longrightarrow> setPointerAt doc (pointer_refs p) v = Some (Inr doc')"
  by (simp add: setPointer_def split: if_splits)

text \<open>A write of a string removes nulls or leaves them, and makes none.\<close>

lemma set_null:
  assumes "setPointerAt obj p (JStr x) = Some (Inr obj')" "pk_map obj" "q \<noteq> []"
    and "get obj' q = Some JNull"
  shows "get obj q = Some JNull"
proof -
  consider s where "q = p @ s" | "strict_prefix q p" | "\<not> prefix p q" "\<not> prefix q p"
    by (metis prefixE strict_prefixI)
  then show ?thesis
  proof cases
    case 1
    then show ?thesis using set_get [OF assms(1,2), of s] assms(4) by (cases s) auto
  next
    case 2
    then show ?thesis using set_path [OF assms(1,2) 2 assms(3)] assms(4) by auto
  next
    case 3
    then show ?thesis using set_frame [OF assms(1,2) 3] assms(4) by simp
  qed
qed

lemma apply_binding_cases:
  assumes "apply_binding i b doc = Some (Inr doc')"
  obtains (skipped) "binding_value b i = Inr ''''" "\<not> b_Required b" "doc' = doc"
    | (written) y where "binding_value b i = Inr y" "y \<noteq> ''''"
        "setPointerAt doc (refs_of b) (JStr y) = Some (Inr doc')"
  using assms by (auto simp: apply_binding_def setPointer_At split: sum.splits if_splits)

lemma apply_binding_step:
  assumes "apply_binding i b doc = Some (Inr doc')" "pk_map doc"
  shows "pk_map doc'" "independent (refs_of b) q \<Longrightarrow> get doc' q = get doc q"
    "binding_value b i = Inr x \<Longrightarrow> if x = '''' then \<not> b_Required b else get doc' (refs_of b) = Some (JStr x)"
    "q \<noteq> [] \<Longrightarrow> get doc' q = Some JNull \<Longrightarrow> get doc q = Some JNull"
    "doc \<noteq> None \<Longrightarrow> doc' \<noteq> None"
proof -
  have some: "doc' \<noteq> None" if "setPointerAt doc (refs_of b) (JStr y) = Some (Inr doc')" for y
    using set_get [OF that assms(2), of "[]"] by (cases doc') auto
  show "pk_map doc'" using assms set_pk by (cases rule: apply_binding_cases [OF assms(1)]) auto
  show "independent (refs_of b) q \<Longrightarrow> get doc' q = get doc q"
    using assms set_frame by (cases rule: apply_binding_cases [OF assms(1)]) (auto simp: independent_def)
  show "binding_value b i = Inr x \<Longrightarrow> if x = '''' then \<not> b_Required b else get doc' (refs_of b) = Some (JStr x)"
    using assms(2) set_get [of doc "refs_of b" "JStr x" doc' "[]"]
    by (cases rule: apply_binding_cases [OF assms(1)]) auto
  show "q \<noteq> [] \<Longrightarrow> get doc' q = Some JNull \<Longrightarrow> get doc q = Some JNull"
    using assms set_null by (cases rule: apply_binding_cases [OF assms(1)]) auto
  show "doc \<noteq> None \<Longrightarrow> doc' \<noteq> None"
    using some by (cases rule: apply_binding_cases [OF assms(1)]) auto
qed

lemma apply_all_applied:
  assumes "apply_all i bs doc = Some (Inr doc')" "pk_map doc"
    and "sorted_wrt (\<lambda>a b. independent (refs_of a) (refs_of b)) bs"
  shows "pk_map doc' \<and> (\<forall>q. (\<forall>b \<in> set bs. independent (refs_of b) q) \<longrightarrow> get doc' q = get doc q)
    \<and> (\<forall>b \<in> set bs. \<forall>x. binding_value b i = Inr x \<longrightarrow>
         (if x = '''' then \<not> b_Required b else get doc' (refs_of b) = Some (JStr x)))"
  using assms
proof (induction bs arbitrary: doc)
  case (Cons b bs)
  from Cons.prems(1) obtain doc1 where s: "apply_binding i b doc = Some (Inr doc1)"
      "apply_all i bs doc1 = Some (Inr doc')"
    by (auto split: option.splits sum.splits)
  note b = apply_binding_step [OF s(1) Cons.prems(2)]
  have ih: "pk_map doc'" "\<And>q. (\<forall>b \<in> set bs. independent (refs_of b) q) \<Longrightarrow> get doc' q = get doc1 q"
    "\<forall>b \<in> set bs. \<forall>x. binding_value b i = Inr x \<longrightarrow>
         (if x = '''' then \<not> b_Required b else get doc' (refs_of b) = Some (JStr x))"
    using Cons.IH [OF s(2) b(1)] Cons.prems(3) by auto
  have "\<forall>c \<in> set bs. independent (refs_of c) (refs_of b)" using Cons.prems(3) by (auto simp: independent_def)
  then have keep: "get doc' (refs_of b) = get doc1 (refs_of b)" by (rule ih(2))
  then have "if x = '''' then \<not> b_Required b else get doc' (refs_of b) = Some (JStr x)"
    if "binding_value b i = Inr x" for x
    using b(3) [OF that] keep by simp
  then show ?case using ih b(2) by auto
qed simp

lemma apply_all_no_panic:
  assumes "list_all Binding_Valid bs" "pk_map doc" "doc \<noteq> None"
    and "\<And>b q. b \<in> set bs \<Longrightarrow> strict_prefix q (refs_of b) \<Longrightarrow> q \<noteq> [] \<Longrightarrow> get doc q \<noteq> Some JNull"
  shows "apply_all i bs doc \<noteq> None"
  using assms
proof (induction bs arbitrary: doc)
  case (Cons b bs)
  have "apply_binding i b doc \<noteq> None"
    using set_no_panic [of "refs_of b" doc] Cons.prems(2,3) Cons.prems(4) [of b]
    by (auto simp: apply_binding_def setPointer_def split: sum.splits)
  then consider e where "apply_binding i b doc = Some (Inl e)"
    | doc1 where "apply_binding i b doc = Some (Inr doc1)" by (metis not_Some_eq sum.exhaust)
  then show ?case
  proof cases
    case 1
    then show ?thesis by simp
  next
    case 2
    note b = apply_binding_step [OF 2 Cons.prems(2)]
    have "apply_all i bs doc1 \<noteq> None"
      using Cons.prems b(1) b(5) b(4) by (intro Cons.IH) auto
    then show ?thesis by (simp add: 2)
  qed
qed simp


section \<open>Properties\<close>

text \<open>
  C21: Bindings do what they declare. If the bindings of an operation have independent targets and
  applying them to an argument object succeeds, every binding whose source has a value puts exactly
  that string at its target, no required binding lacks a value, and everything that is not on the path
  of a target is as the client sent it.
\<close>

theorem bindings_applied:
  assumes "applyBindings d i = Some (Inr out)" "si_Arguments i = Some (JObj ms)"
    and "sorted_wrt (\<lambda>a b. independent (refs_of a) (refs_of b)) (d_Bindings d)"
  shows "(\<forall>b \<in> set (d_Bindings d). \<forall>x. binding_value b i = Inr x \<longrightarrow>
        (if x = '''' then \<not> b_Required b else lookup out (refs_of b) = Some (JStr x)))
    \<and> (\<forall>q. q \<noteq> [] \<and> (\<forall>b \<in> set (d_Bindings d). independent (refs_of b) q) \<longrightarrow>
        lookup out q = lookup (JObj ms) q)"
proof -
  let ?doc = "Some (members_map ms)"
  from assms(1,2) obtain doc' where a: "apply_all i (d_Bindings d) ?doc = Some (Inr doc')"
      and out: "out = marshal_map doc'"
    by (auto simp: applyBindings_def split: option.splits sum.splits)
  have "pk_map ?doc" by simp
  note all = apply_all_applied [OF a this assms(3)]
  have "lookup (JObj ms) q = get ?doc q" if "q \<noteq> []" for q using that by (cases q) auto
  with all show ?thesis by (simp add: out lookup_marshal)
qed

definition demo_descriptor :: Descriptor where
  "demo_descriptor = \<lparr>d_Name = ''t'', d_Title = '''', d_Description = '''', d_InputSchema = Some (JObj []),
     d_ClientSchema = None, d_OutputSchema = None, d_Annotations = None, d_TaskSupport = ''forbidden'',
     d_Bindings = [\<lparr>b_Source = SourceClientRequestID, b_Target = ''/meta/a~1b'', b_Required = True\<rparr>,
                   \<lparr>b_Source = SourceClientContextThreadID, b_Target = ''/thread'', b_Required = False\<rparr>],
     d_Strategy = StrategyLocalReplayable, d_Digest = ''d''\<rparr>"

definition demo_input :: SubmitInput where
  "demo_input = \<lparr>si_Tool = ''t'', si_Arguments = Some (JObj [(''x'', JNum ''1'')]),
     si_ClientRequestID = ''c1'', si_ClientContext = Some ''th''\<rparr>"

theorem bindings_applied_witness:
  "\<exists>out. applyBindings demo_descriptor demo_input = Some (Inr out)
     \<and> lookup out [''meta'', ''a/b''] = Some (JStr ''c1'') \<and> lookup out [''x''] = Some (JNum ''1'')"
proof -
  let ?out = "JObj [(''meta'', JObj [(''a/b'', JStr ''c1'')]), (''thread'', JStr ''th''), (''x'', JNum ''1'')]"
  have a: "applyBindings demo_descriptor demo_input = Some (Inr ?out)" by code_simp
  have refs: "map refs_of (d_Bindings demo_descriptor) = [[''meta'', ''a/b''], [''thread'']]" by code_simp
  then have ind: "sorted_wrt (\<lambda>a b. independent (refs_of a) (refs_of b)) (d_Bindings demo_descriptor)"
    by (auto simp: demo_descriptor_def independent_def)
  have args: "si_Arguments demo_input = Some (JObj [(''x'', JNum ''1'')])" by (simp add: demo_input_def)
  from bindings_applied [OF a args ind] refs a show ?thesis
    by (auto simp: demo_descriptor_def demo_input_def binding_value_def independent_def)
       (auto simp: row_at_members_map)
qed

text \<open>
  No panic without a null on the way. With reviewed bindings and an argument object none of whose
  members on the way to a target is \<open>null\<close>, applying the bindings never panics: it returns the
  arguments or an error.
\<close>

theorem bindings_no_panic:
  assumes "si_Arguments i = Some (JObj ms)" "list_all Binding_Valid (d_Bindings d)"
    and "\<forall>b \<in> set (d_Bindings d). \<forall>q. strict_prefix q (refs_of b) \<and> q \<noteq> [] \<longrightarrow>
          lookup (JObj ms) q \<noteq> Some JNull"
  shows "\<exists>r. applyBindings d i = Some r"
proof -
  have g: "get (Some (members_map ms)) q = lookup (JObj ms) q" if "q \<noteq> []" for q
    using that by (cases q) auto
  have "apply_all i (d_Bindings d) (Some (members_map ms)) \<noteq> None"
    using assms(2,3) g by (intro apply_all_no_panic) auto
  then show ?thesis
    using assms(1) by (auto simp: applyBindings_def split: sum.splits)
qed

theorem bindings_no_panic_witness: "\<exists>r. applyBindings demo_descriptor demo_input = Some r"
proof -
  have refs: "map refs_of (d_Bindings demo_descriptor) = [[''meta'', ''a/b''], [''thread'']]"
    and v: "list_all Binding_Valid (d_Bindings demo_descriptor)" by code_simp+
  have "q = [''meta'']" if "strict_prefix q p" "q \<noteq> []" "p = [''meta'', ''a/b''] \<or> p = [''thread'']" for q p
    using that by (cases q) (auto simp: strict_prefix_def prefix_Cons)
  with refs have "\<forall>b \<in> set (d_Bindings demo_descriptor). \<forall>q. strict_prefix q (refs_of b) \<and> q \<noteq> [] \<longrightarrow>
      lookup (JObj [(''x'', JNum ''1'')]) q \<noteq> Some JNull"
    by (fastforce simp: demo_descriptor_def row_at_members_map)
  from bindings_no_panic [OF _ v this] show ?thesis by (simp add: demo_input_def)
qed

text \<open>
  The null is reachable. A reviewed binding into a member the client sends as \<open>null\<close> panics instead
  of reporting that the path does not descend through an object.
\<close>

theorem binding_null_panics:
  "applyBindings demo_descriptor (demo_input\<lparr>si_Arguments := Some (JObj [(''meta'', JNull)])\<rparr>) = None
   \<and> list_all Binding_Valid (d_Bindings demo_descriptor)"
  by code_simp

text \<open>
  Targets are unambiguous: two valid pointers that name the same path are the same text, so the
  duplicate check on target texts rules out two bindings writing one member.
\<close>

theorem pointer_text_unique:
  assumes "validPointer p" "validPointer q" "pointer_refs p = pointer_refs q"
  shows "p = q"
  using pointer_printed [OF assms(1)] pointer_printed [OF assms(2)] assms(3) by metis

theorem pointer_text_unique_witness: "pointer_refs ''/a~1b'' \<noteq> pointer_refs ''/a/b''"
proof
  assume eq: "pointer_refs ''/a~1b'' = pointer_refs ''/a/b''"
  have "validPointer ''/a~1b''" "validPointer ''/a/b''" by code_simp+
  from pointer_text_unique [OF this eq] show False by simp
qed

text \<open>
  Which retries match. The identity recorded for a request accepted under a descriptor is among
  the candidates of a retry exactly when the arguments are the same JSON value and, if the descriptor
  mapped the thread ID at acceptance, the thread ID is the same too (absent counting as a value). The
  bindings in force at the time of the retry play no role.
\<close>

theorem retry_matches_exactly:
  assumes "si_Arguments i = Some v" "si_Arguments j = Some w"
  shows "sort_members (requestIdentity i (identityThread i d)) \<in> sort_members ` set (retryIdentities j)
    \<longleftrightarrow> sort_members v = sort_members w \<and> (mapsThreadID d \<longrightarrow> client_thread i = client_thread j)"
  using assms
  by (auto simp: retryIdentities_def requestIdentity_def identityThread_def sort_key_def)

theorem retry_matches_exactly_witness:
  "sort_members (requestIdentity demo_input (identityThread demo_input demo_descriptor))
     \<in> sort_members ` set (retryIdentities demo_input)"
  using retry_matches_exactly [of demo_input "JObj [(''x'', JNum ''1'')]" demo_input "JObj [(''x'', JNum ''1'')]"]
  by (simp add: demo_input_def)

end
