(* ===== verification/Application_Submit.thy ===== *)
theory Application_Submit
  imports Application_Bindings Store_Outcomes Catalog_Validity
begin

text \<open>
  The submit operation (\<open>internal/application/submit.go\<close>, \<open>service.go\<close>): reconcile a retry, resolve and
  validate a new request, accept it durably, and hand it to the worker or the task service.

  The service's configuration is a record; the schema validator is the one of \<open>Catalog_Schema\<close>, over the
  decimal and regular-expression readers of the \<open>dialect\<close> field. Each store call has its own environment, and \<open>su_other\<close> is what
  other processes do to the database before it. A rendered error keeps its code and the fixed part of
  its message. Since a \<open>json.RawMessage\<close> is a value tree, rendering an identity cannot fail.
\<close>

section \<open>Definitions\<close>

definition failed :: "code \<Rightarrow> string \<Rightarrow> contract_error" where
  "failed c message = NewError c message"

definition storeError :: "go_error \<Rightarrow> contract_error" where
  "storeError err =
     (if errors_Is err ErrStateUnavailable
      then failed CodeStateUnavailable
        ''The profile state is unavailable. The secure backend must be restored before work can continue.''
      else failed CodeInternal ''The local state could not be updated.'')"

record SubmitOutput =
  so_SubmissionID :: string
  so_Status :: status
  so_ClientRequestID :: string
  so_SubmittedAt :: int
  so_NextPollMS :: int

definition submitOutput :: "Submission \<Rightarrow> SubmitOutput" where
  "submitOutput sub = \<lparr>so_SubmissionID = sub_ID sub, so_Status = sub_Status sub,
     so_ClientRequestID = sub_ClientRequestID sub, so_SubmittedAt = sub_CreatedAt sub,
     so_NextPollMS = 1000\<rparr>"

record service =
  sv_Catalog :: Catalog
  sv_dialect :: dialect
  sv_credentialsReady :: "(go_error + bool) option"
  sv_worker :: bool
  sv_tasks :: bool
  sv_adapterVersion :: string

record submit_env =
  su_crid_nonce :: "go_error + string"
  su_id_nonce :: "go_error + string"
  su_reconcile :: env
  su_create :: env
  su_event :: env
  su_timestamp :: string
  su_other :: "nat \<Rightarrow> db \<Rightarrow> db"

datatype dispatched = ToWorker string | ToTasks string

type_synonym submit_result = "(contract_error + SubmitOutput) \<times> dispatched option \<times> db"

definition protocolVersion :: string where
  "protocolVersion = ''2026-07-28''"

definition strategyGate :: "Descriptor \<Rightarrow> contract_error option" where
  "strategyGate d =
     (if d_Strategy d = StrategyLocalGuarded
      then Some (failed CodeOperationNotAllowed
        ''The operation requires a separately reviewed reconciliation contract and is not enabled.'')
      else if d_Strategy d = StrategyUnsupported
      then Some (failed CodeOperationNotAllowed ''The operation is not supported by the selected profile.'')
      else None)"

definition newSubmissionID :: "go_error + string \<Rightarrow> go_error + string" where
  "newSubmissionID nonce = rbind nonce (\<lambda>b. Inr (''sub_'' @ hex_encode b))"

definition appendAcceptedEvent :: "submit_env \<Rightarrow> Submission \<Rightarrow> db \<Rightarrow> db" where
  "appendAcceptedEvent su sub d =
     snd (AppendEvents (su_event su) (sub_ID sub)
       [\<lparr>ev_SubmissionID = sub_ID sub, ev_Sequence = i64 (sub_Sequence sub + 1),
         ev_Timestamp = su_timestamp su, ev_State = StatusAccepted, ev_Step = None, ev_Message = ''''\<rparr>] d)"

definition conflict_or_store :: "go_error \<Rightarrow> contract_error" where
  "conflict_or_store err =
     (if errors_Is err ErrIdempotencyConflict
      then failed CodeIdempotencyConflict
        ''client_request_id was already used with different arguments for this profile.''
      else storeError err)"

definition new_submission ::
    "service \<Rightarrow> SubmitInput \<Rightarrow> Descriptor \<Rightarrow> json \<Rightarrow> string \<Rightarrow> NewSubmission" where
  "new_submission sv i d upstreamArgs sid =
     \<lparr>ns_ID = sid, ns_ClientRequestID = si_ClientRequestID i, ns_Tool = d_Name d,
      ns_Strategy = d_Strategy d, ns_DescriptorDigest = d_Digest d,
      ns_Arguments = Some upstreamArgs,
      ns_RequestArguments = Some (requestIdentity i (identityThread i d)),
      ns_IdentityCandidates = map Some (retryIdentities i),
      ns_ProtocolVersion = protocolVersion, ns_AdapterVersion = sv_adapterVersion sv\<rparr>"

text \<open>Handing a new submission to the component that executes its strategy.\<close>

definition dispatch :: "service \<Rightarrow> Descriptor \<Rightarrow> Submission \<Rightarrow> (contract_error + SubmitOutput) \<times> dispatched option" where
  "dispatch sv d sub =
     (if d_Strategy d = StrategyUpstreamTask then
        (if \<not> sv_tasks sv
         then (Inl (failed CodeOperationNotAllowed ''The operation is not owned by the selected profile.''), None)
         else (Inr (submitOutput sub), Some (ToTasks (sub_ID sub))))
      else
        (if \<not> sv_worker sv
         then (Inl (failed CodeOperationNotAllowed ''The operation is not owned by the selected profile.''), None)
         else (Inr (submitOutput sub), Some (ToWorker (sub_ID sub)))))"

text \<open>Durable acceptance and everything after it.\<close>

definition accept ::
    "service \<Rightarrow> submit_env \<Rightarrow> SubmitInput \<Rightarrow> Descriptor \<Rightarrow> json \<Rightarrow> db \<Rightarrow> submit_result" where
  "accept sv su i d upstreamArgs db0 =
     (case newSubmissionID (su_id_nonce su) of
        Inl _ \<Rightarrow> (Inl (failed CodeInternal ''generate submission id''), None, db0)
      | Inr sid \<Rightarrow>
          (case CreateSubmission (su_create su) (new_submission sv i d upstreamArgs sid) (su_other su 1 db0) of
             (Inl err, db1) \<Rightarrow> (Inl (conflict_or_store err), None, db1)
           | (Inr (sub, created), db1) \<Rightarrow>
               if created
               then (let db2 = appendAcceptedEvent su sub (su_other su 2 db1);
                         (r, handed) = dispatch sv d sub
                     in (r, handed, db2))
               else (Inr (submitOutput sub), None, db1)))"

text \<open>The checks before acceptance; a value is the upstream argument document.\<close>

definition check_new :: "service \<Rightarrow> SubmitInput \<Rightarrow> Descriptor \<Rightarrow> (contract_error + json) option" where
  "check_new sv i d =
     (let clientSchema = (if d_ClientSchema d = None then d_InputSchema d else d_ClientSchema d) in
      case ValidateAgainstSchema (sv_dialect sv) clientSchema (si_Arguments i) of
        Inl _ \<Rightarrow> Some (Inl (failed CodeInvalidRequest ''Arguments do not satisfy the pinned client schema''))
      | Inr _ \<Rightarrow>
          (case applyBindings d i of
             None \<Rightarrow> None
           | Some (Inl _) \<Rightarrow> Some (Inl (failed CodeInvalidRequest ''bindings''))
           | Some (Inr upstreamArgs) \<Rightarrow>
               (case ValidateAgainstSchema (sv_dialect sv) (d_InputSchema d) (Some upstreamArgs) of
                  Inl _ \<Rightarrow> Some (Inl (failed CodeInvalidRequest ''Arguments do not satisfy the pinned upstream schema''))
                | Inr _ \<Rightarrow>
                    (case sv_credentialsReady sv of
                       Some (Inl _) \<Rightarrow> Some (Inl (failed CodeStateUnavailable ''Cannot verify profile credentials''))
                     | Some (Inr False) \<Rightarrow> Some (Inl (failed CodeAuthenticationRequired
                         ''Tama requires authentication. Complete authorization for the selected profile, then retry.''))
                     | _ \<Rightarrow> (case strategyGate d of Some e \<Rightarrow> Some (Inl e) | None \<Rightarrow> Some (Inr upstreamArgs))))))"

definition submit_keyed :: "service \<Rightarrow> submit_env \<Rightarrow> SubmitInput \<Rightarrow> db \<Rightarrow> submit_result option" where
  "submit_keyed sv su i db0 =
     (let db1 = su_other su 0 db0 in
      case ReconcileIdempotentSubmission (su_reconcile su) (si_ClientRequestID i) (si_Tool i)
             (map Some (retryIdentities i)) db1 of
        Inl err \<Rightarrow> Some (Inl (conflict_or_store err), None, db1)
      | Inr (Some sub) \<Rightarrow> Some (Inr (submitOutput sub), None, db1)
      | Inr None \<Rightarrow>
          (case Find (sv_Catalog sv) (si_Tool i) of
             None \<Rightarrow> Some (Inl (failed CodeOperationNotAllowed
               ''The operation is not approved by the selected profile.''), None, db1)
           | Some d \<Rightarrow>
               (case check_new sv i d of
                  None \<Rightarrow> None
                | Some (Inl e) \<Rightarrow> Some (Inl e, None, db1)
                | Some (Inr upstreamArgs) \<Rightarrow> Some (accept sv su i d upstreamArgs db1))))"

definition Submit :: "service \<Rightarrow> submit_env \<Rightarrow> SubmitInput \<Rightarrow> db \<Rightarrow> submit_result option" where
  "Submit sv su i db0 =
     (if si_ClientRequestID i = '''' then
        (case su_crid_nonce su of
           Inl _ \<Rightarrow> Some (Inl (failed CodeInternal ''client request id''), None, db0)
         | Inr b \<Rightarrow> submit_keyed sv su (i\<lparr>si_ClientRequestID := ''crid_'' @ hex_encode b\<rparr>) db0)
      else submit_keyed sv su i db0)"


section \<open>Lemmas\<close>

definition idle :: "submit_env \<Rightarrow> bool" where
  "idle su \<longleftrightarrow> (\<forall>k d. su_other su k d = d)"

lemma idle_simp [simp]: "idle su \<Longrightarrow> su_other su k d = d"
  by (simp add: idle_def)

lemma submit_result_cases:
  fixes r :: "submit_result option"
  obtains (panic) "r = None" | (error) e h d where "r = Some (Inl e, h, d)"
    | (quiet) out d where "r = Some (Inr out, None, d)" | (handed) out h d where "r = Some (Inr out, Some h, d)"
  by (metis option.exhaust prod.exhaust sum.exhaust)

text \<open>The keyed input \<open>Submit\<close> works on.\<close>

definition keyed_input :: "submit_env \<Rightarrow> SubmitInput \<Rightarrow> SubmitInput" where
  "keyed_input su i =
     (if si_ClientRequestID i = '''' then
        (case su_crid_nonce su of Inl _ \<Rightarrow> i | Inr b \<Rightarrow> i\<lparr>si_ClientRequestID := ''crid_'' @ hex_encode b\<rparr>)
      else i)"

lemma keyed_input_tool [simp]: "si_Tool (keyed_input su i) = si_Tool i"
  by (simp add: keyed_input_def split: sum.splits)

lemma Submit_keyed:
  "Submit sv su i d = Some (Inr out, handed, d') \<Longrightarrow>
     submit_keyed sv su (keyed_input su i) d = Some (Inr out, handed, d')"
  by (auto simp: Submit_def keyed_input_def split: sum.splits if_splits)

text \<open>A submission handed on was created by this call.\<close>

lemma submit_handed:
  assumes "Submit sv su i d0 = Some (Inr out, Some h, d')" "idle su"
  shows "\<exists>d args sid s d1. Find (sv_Catalog sv) (si_Tool i) = Some d
    \<and> check_new sv (keyed_input su i) d = Some (Inr args)
    \<and> CreateSubmission (su_create su) (new_submission sv (keyed_input su i) d args sid) d0 = (Inr (s, True), d1)
    \<and> out = submitOutput s \<and> d' = appendAcceptedEvent su s d1
    \<and> h = (if d_Strategy d = StrategyUpstreamTask then ToTasks (sub_ID s) else ToWorker (sub_ID s))"
  using Submit_keyed [OF assms(1)] assms(2)
  by (auto simp: submit_keyed_def accept_def dispatch_def Let_def
      split: sum.splits option.splits prod.splits if_splits)

lemma keyed_input_arguments [simp]: "si_Arguments (keyed_input su i) = si_Arguments i"
  by (simp add: keyed_input_def split: sum.splits)

text \<open>What the checks before acceptance established.\<close>

lemma check_new_passed:
  assumes "check_new sv (keyed_input su i) d = Some (Inr args)"
  shows "ValidateAgainstSchema (sv_dialect sv) (if d_ClientSchema d = None then d_InputSchema d else d_ClientSchema d) (si_Arguments i) = Inr ()"
    "applyBindings d (keyed_input su i) = Some (Inr args)"
    "ValidateAgainstSchema (sv_dialect sv) (d_InputSchema d) (Some args) = Inr ()"
    "sv_credentialsReady sv \<in> {None, Some (Inr True)}"
    "d_Strategy d \<notin> {StrategyLocalGuarded, StrategyUnsupported}"
  using assms unfolding check_new_def Let_def strategyGate_def
  by (auto split: sum.splits option.splits if_splits bool.splits)

lemma CreateSubmission_rejected:
  "CreateSubmission e ns d = (Inl err, d') \<Longrightarrow> d' = d"
  using CreateSubmission_unchanged by blast

lemma accept_rejected:
  assumes "accept sv su i d args d0 = (Inl e, h, d')" "idle su"
    and "if d_Strategy d = StrategyUpstreamTask then sv_tasks sv else sv_worker sv"
  shows "d' = d0 \<and> h = None"
  using assms
  by (auto simp: accept_def dispatch_def Let_def dest: CreateSubmission_rejected
      split: sum.splits prod.splits if_splits)

lemma created_id:
  "CreateSubmission e ns d = (Inr (s, True), d') \<Longrightarrow> sub_ID s = ns_ID ns"
  by (auto elim!: CreateSubmission_created simp: created_submission_def)

text \<open>What an append changes of a row.\<close>

lemma append_frame:
  assumes "row_at (submissions d) k = Some r"
  shows "\<exists>ev q t. row_at (submissions (snd (AppendEvents e sid evs d))) k
    = Some (r\<lparr>r_events_enc := ev, r_sequence := q, r_updated_at := t\<rparr>)"
proof -
  have self: "\<exists>ev q t. Some r = Some (r\<lparr>r_events_enc := ev, r_sequence := q, r_updated_at := t\<rparr>)"
    by (intro exI [of _ "r_events_enc r"] exI [of _ "r_sequence r"] exI [of _ "r_updated_at r"]) simp
  show ?thesis
  proof (cases rule: writeTx_cases [of e "''event append''" "append_body e sid evs" d])
    case unchanged
    then show ?thesis using assms self by (simp add: AppendEvents_def)
  next
    case (committed a d')
    from committed(2) obtain u f r0 where d': "d' = d\<lparr>submissions := put_row sid (f r0) (submissions d)\<rparr>"
        "row_at (submissions d) sid = Some r0"
        "\<And>x. \<exists>ev q t. f x = x\<lparr>r_events_enc := ev, r_sequence := q, r_updated_at := t\<rparr>"
      by (fastforce simp: append_body_def result_simps Let_def requireUpdated_iff split: prod.splits)
    then show ?thesis using assms committed(1) self by (auto simp: AppendEvents_def)
  qed
qed


lemma canonicalArguments_value:
  "canonicalArguments (Some v) l = Inr c \<Longrightarrow> c = sort_members v"
  by (auto simp: canonicalArguments_def Canonical_tokens result_simps split: if_splits)

lemma candidate_hash_member:
  assumes "canonicalArguments (Some v) HardCeiling = Inr c" "v \<in> set vs"
  shows "hashInput e tool c \<in> set (candidate_hashes e tool (map Some vs))"
  using assms by (force simp: candidate_hashes_def)

lemma same_candidates:
  assumes "si_Arguments j = si_Arguments i" "client_thread j = client_thread i"
  shows "requestIdentity i (identityThread i d) \<in> set (retryIdentities j)"
  using assms by (auto simp: retryIdentities_def identityThread_def requestIdentity_def)

section \<open>Properties\<close>

text \<open>
  A rejected submit leaves no trace. If \<open>Submit\<close> returns an error, nothing was handed to an executor
  and the database is exactly as before, so the client request ID stays free for a clean retry; the
  one exception is a catalog entry whose executor the profile does not run.
\<close>

theorem submit_rejection_clean:
  assumes "Submit sv su i d0 = Some (Inl e, h, d')" "idle su"
    and "\<forall>d. Find (sv_Catalog sv) (si_Tool i) = Some d \<longrightarrow>
      (if d_Strategy d = StrategyUpstreamTask then sv_tasks sv else sv_worker sv)"
  shows "d' = d0 \<and> h = None"
proof -
  have "d' = d0 \<and> h = None" if "submit_keyed sv su j d0 = Some (Inl e, h, d')" "si_Tool j = si_Tool i" for j
  proof -
    have "d' = d0 \<and> h = None \<or> (\<exists>d args. Find (sv_Catalog sv) (si_Tool i) = Some d
        \<and> accept sv su j d args d0 = (Inl e, h, d'))"
      using that assms(2)
      by (auto simp: submit_keyed_def Let_def split: sum.splits option.splits)
    then show ?thesis using accept_rejected [OF _ assms(2)] assms(3) by blast
  qed
  then show ?thesis
    using assms(1) by (auto simp: Submit_def split: sum.splits if_splits)
qed

definition demo_service :: service where
  "demo_service = \<lparr>sv_Catalog = [demo_descriptor], sv_dialect = demo_dialect,
     sv_credentialsReady = Some (Inr True), sv_worker = True, sv_tasks = False, sv_adapterVersion = ''v1''\<rparr>"

definition demo_submit :: submit_env where
  "demo_submit = \<lparr>su_crid_nonce = Inr ''n'', su_id_nonce = Inr ''x'', su_reconcile = demo_env 1,
     su_create = demo_env 2, su_event = demo_env 3, su_timestamp = ''ts'', su_other = (\<lambda>k d. d)\<rparr>"

lemma demo_idle: "idle demo_submit"
  by (simp add: idle_def demo_submit_def)

theorem submit_rejection_clean_witness:
  "\<exists>e. Submit (demo_service\<lparr>sv_credentialsReady := Some (Inr False)\<rparr>) demo_submit demo_input empty_db
     = Some (Inl e, None, empty_db)"
proof -
  let ?sv = "demo_service\<lparr>sv_credentialsReady := Some (Inr False)\<rparr>"
  have "case Submit ?sv demo_submit demo_input empty_db of Some (Inl e, _, _) \<Rightarrow> True | _ \<Rightarrow> False" by code_simp
  then obtain e h d' where s: "Submit ?sv demo_submit demo_input empty_db = Some (Inl e, h, d')"
    by (cases rule: submit_result_cases [of "Submit ?sv demo_submit demo_input empty_db"]) auto
  have "\<forall>d. Find (sv_Catalog ?sv) (si_Tool demo_input) = Some d \<longrightarrow>
      (if d_Strategy d = StrategyUpstreamTask then sv_tasks ?sv else sv_worker ?sv)"
    by (auto simp: demo_service_def demo_input_def demo_descriptor_def Find_def
        StrategyUpstreamTask_def StrategyLocalReplayable_def)
  from submit_rejection_clean [OF s demo_idle this] s show ?thesis by blast
qed

text \<open>
  C17: What a successful new submit stored. When \<open>Submit\<close> hands a submission on, while no other process
  writes, the tool is in the catalog, the arguments of the client passed the client schema (the input
  schema where there is none), the bindings gave the upstream arguments, these passed the input schema
  (so they conform to it whenever the schema is admitted), the credentials were ready where they are
  checked, and the strategy is one of the executed ones. The ID was free, and the database holds it as
  \<open>accepted\<close> with the canonical form of exactly these upstream arguments, under the strategy and digest of
  the pinned descriptor; the executor of that strategy got its ID.
\<close>

theorem submit_stores_request:
  assumes "Submit sv su i d0 = Some (Inr out, Some h, d')" "idle su"
  shows "\<exists>d args r. Find (sv_Catalog sv) (si_Tool i) = Some d
    \<and> ValidateAgainstSchema (sv_dialect sv) (if d_ClientSchema d = None then d_InputSchema d else d_ClientSchema d) (si_Arguments i) = Inr ()
    \<and> applyBindings d (keyed_input su i) = Some (Inr args)
    \<and> ValidateAgainstSchema (sv_dialect sv) (d_InputSchema d) (Some args) = Inr ()
    \<and> (\<forall>s. d_InputSchema d = Some s \<and> admitted (sv_dialect sv) s \<longrightarrow> conforms (sv_dialect sv) s args)
    \<and> sv_credentialsReady sv \<in> {None, Some (Inr True)}
    \<and> d_Strategy d \<notin> {StrategyLocalGuarded, StrategyUnsupported}
    \<and> row_at (submissions d0) (so_SubmissionID out) = None
    \<and> row_at (submissions d') (so_SubmissionID out) = Some r \<and> r_status r = StatusAccepted
    \<and> map_option blob_plain (r_args_enc r) = Some (sort_members args)
    \<and> r_strategy r = d_Strategy d \<and> r_descriptor_digest r = d_Digest d
    \<and> h = (if d_Strategy d = StrategyUpstreamTask then ToTasks (so_SubmissionID out)
          else ToWorker (so_SubmissionID out))"
proof -
  obtain d args sid s d1 where f: "Find (sv_Catalog sv) (si_Tool i) = Some d"
      "check_new sv (keyed_input su i) d = Some (Inr args)"
    and c: "CreateSubmission (su_create su) (new_submission sv (keyed_input su i) d args sid) d0
       = (Inr (s, True), d1)"
    and o: "out = submitOutput s" "d' = appendAcceptedEvent su s d1"
      "h = (if d_Strategy d = StrategyUpstreamTask then ToTasks (sub_ID s) else ToWorker (sub_ID s))"
    using submit_handed [OF assms(1,2)] by blast
  note passed = check_new_passed [OF f(2)]
  let ?ns = "new_submission sv (keyed_input su i) d args sid"
  obtain cargs g hs b where p: "create_prepare (su_create su) ?ns = Inr (cargs, g, hs)"
      "row_at (submissions d0) (ns_ID ?ns) = None" "seal_blob (su_create su) cargs (ns_ID ?ns) ''arguments'' = Inr b"
      "row_at (submissions d1) (ns_ID ?ns)
        = Some (new_row ?ns g b (acceptedLimitsFrom (env_limits (su_create su))) (UnixMilli (env_now (su_create su))))"
    using c by (auto elim!: CreateSubmission_created)
  have sid: "so_SubmissionID out = ns_ID ?ns" "sub_ID s = ns_ID ?ns"
    using created_id [OF c] by (simp_all add: o(1) submitOutput_def)
  have "cargs = sort_members args"
    using p(1) by (auto simp: create_prepare_def new_submission_def result_simps Let_def dest: canonicalArguments_value)
  with append_frame [OF p(4), of "su_event su" "sub_ID s"] p(2,3) o sid
  have stored: "row_at (submissions d0) (so_SubmissionID out) = None
    \<and> (\<exists>r. row_at (submissions d') (so_SubmissionID out) = Some r \<and> r_status r = StatusAccepted
         \<and> map_option blob_plain (r_args_enc r) = Some (sort_members args)
         \<and> r_strategy r = d_Strategy d \<and> r_descriptor_digest r = d_Digest d)
    \<and> h = (if d_Strategy d = StrategyUpstreamTask then ToTasks (so_SubmissionID out) else ToWorker (so_SubmissionID out))"
    by (fastforce simp: appendAcceptedEvent_def new_row_def new_submission_def seal_blob_iff)
  have "conforms (sv_dialect sv) s args" if "d_InputSchema d = Some s" "admitted (sv_dialect sv) s" for s
    using passed(3) that validate_conforms [of "sv_dialect sv" s args] by (simp add: ValidateAgainstSchema_def)
  then show ?thesis using f(1) passed stored by blast
qed

theorem submit_stores_request_witness:
  "\<exists>out d' r. Submit demo_service demo_submit demo_input empty_db = Some (Inr out, Some (ToWorker (so_SubmissionID out)), d')
     \<and> row_at (submissions d') (so_SubmissionID out) = Some r \<and> r_status r = StatusAccepted
     \<and> (\<exists>args. applyBindings demo_descriptor (keyed_input demo_submit demo_input) = Some (Inr args)
          \<and> map_option blob_plain (r_args_enc r) = Some (sort_members args))"
proof -
  have "case Submit demo_service demo_submit demo_input empty_db of
      Some (Inr out, Some h, _) \<Rightarrow> h = ToWorker (so_SubmissionID out) | _ \<Rightarrow> False" by code_simp
  then obtain out d' where s: "Submit demo_service demo_submit demo_input empty_db
      = Some (Inr out, Some (ToWorker (so_SubmissionID out)), d')"
    by (cases rule: submit_result_cases [of "Submit demo_service demo_submit demo_input empty_db"]) auto
  have "Find (sv_Catalog demo_service) (si_Tool demo_input) = Some d \<Longrightarrow> d = demo_descriptor" for d
    by (auto simp: demo_service_def Find_def split: if_splits)
  with submit_stores_request [OF s demo_idle] s show ?thesis by blast
qed

text \<open>
  C18: Retries survive reconfiguration. After \<open>Submit\<close> accepted a request with a client request ID, and
  after any operations that keep the submission, the same request is answered with the same
  submission, nothing is handed on and nothing changes, whatever the catalog, the schemas, the
  bindings or the credentials have become.
\<close>

theorem submit_retry_recovers:
  assumes "db_inv key d0" "Submit sv su i d0 = Some (Inr out, Some h, d1)" "idle su"
    and "env_ok key (su_create su)" "env_ok key (su_event su)" "si_ClientRequestID i \<noteq> ''''"
    and "list_all (\<lambda>c. env_ok key (snd c)) hs"
    and "always perform (\<lambda>d. row_at (submissions d) (so_SubmissionID out) \<noteq> None) hs d1"
    and "idle su'" "env_ok key (su_reconcile su')" "no_faults (su_reconcile su')"
    and "env_sha256 (su_reconcile su') = env_sha256 (su_create su)"
    and "si_ClientRequestID j = si_ClientRequestID i" "si_Tool j = si_Tool i"
    and "si_Arguments j = si_Arguments i" "client_thread j = client_thread i"
  shows "\<exists>out'. Submit sv' su' j (history perform hs d1) = Some (Inr out', None, history perform hs d1)
    \<and> so_SubmissionID out' = so_SubmissionID out"
proof -
  have k: "keyed_input su i = i" using assms(6) by (simp add: keyed_input_def)
  obtain d args sid s c1 where f: "Find (sv_Catalog sv) (si_Tool i) = Some d"
    and c: "CreateSubmission (su_create su) (new_submission sv i d args sid) d0 = (Inr (s, True), c1)"
    and o: "out = submitOutput s" "d1 = appendAcceptedEvent su s c1"
    using submit_handed [OF assms(2,3)] unfolding k by blast
  let ?ns = "new_submission sv i d args sid" and ?d = "history perform hs d1"
  have sid: "so_SubmissionID out = ns_ID ?ns" using created_id [OF c] by (simp add: o(1) submitOutput_def)
  obtain ev where ev: "d1 = perform (OpAppend (sub_ID s) ev) (su_event su) c1"
    using o(2) by (auto simp: appendAcceptedEvent_def)
  let ?h = "(OpAppend (sub_ID s) ev, su_event su) # hs"
  have hist: "history perform ?h c1 = ?d" by (simp add: ev)
  have "row_at (submissions c1) (ns_ID ?ns) \<noteq> None" using c by (auto elim!: CreateSubmission_created)
  then have "always perform (\<lambda>d. row_at (submissions d) (ns_ID ?ns) \<noteq> None) ?h c1"
    using assms(8) ev sid by simp
  then obtain x v r where x: "row_at (idempotency ?d) (ns_ClientRequestID ?ns) = Some x"
      "id_submission_id x = ns_ID ?ns" "canonicalArguments (ns_RequestArguments ?ns) HardCeiling = Inr v"
      "id_args_hash x = hashInput (su_create su) (ns_Tool ?ns) v"
    and r: "row_at (submissions ?d) (ns_ID ?ns) = Some r" "row_ok key (ns_ID ?ns) r"
    using accepted_stays_indexed [OF assms(1,4) c, of ?h] assms(5,7) unfolding hist by auto
  have tool: "d_Name d = si_Tool i" using Find_Some [OF f] by simp
  have "id_args_hash x \<in> set (candidate_hashes (su_reconcile su') (si_Tool j) (map Some (retryIdentities j)))"
    using candidate_hash_member [OF x(3) [unfolded new_submission_def, simplified]
        same_candidates [OF assms(15,16), of d], of "su_reconcile su'" "si_Tool j"] x(4) assms(12,14) tool
    by (simp add: new_submission_def hashInput_def)
  moreover obtain s' where "GetSubmission (su_reconcile su') ?d (ns_ID ?ns) = Inr s'" "sub_ID s' = ns_ID ?ns"
    using GetSubmission_row [OF r(2), of "su_reconcile su'" ?d] r(1) assms(10,11) by (auto simp: env_ok_def)
  ultimately have "ReconcileIdempotentSubmission (su_reconcile su') (si_ClientRequestID j) (si_Tool j)
      (map Some (retryIdentities j)) ?d = Inr (Some s') \<and> sub_ID s' = ns_ID ?ns"
    using x(1,2) assms(6,11,13) by (simp add: ReconcileIdempotentSubmission_def new_submission_def)
  then show ?thesis
    using assms(6,9,13) sid by (auto simp: Submit_def submit_keyed_def submitOutput_def)
qed

theorem submit_retry_recovers_witness:
  "\<exists>out d1 out'. Submit demo_service demo_submit demo_input empty_db = Some (Inr out, Some (ToWorker (so_SubmissionID out)), d1)
     \<and> Submit (demo_service\<lparr>sv_Catalog := []\<rparr>) demo_submit demo_input d1 = Some (Inr out', None, d1)
     \<and> so_SubmissionID out' = so_SubmissionID out"
proof -
  have "case Submit demo_service demo_submit demo_input empty_db of
      Some (Inr out, Some h, d1) \<Rightarrow> h = ToWorker (so_SubmissionID out)
        \<and> row_at (submissions d1) (so_SubmissionID out) \<noteq> None | _ \<Rightarrow> False" by code_simp
  then obtain out d1 where s: "Submit demo_service demo_submit demo_input empty_db
      = Some (Inr out, Some (ToWorker (so_SubmissionID out)), d1)"
      "row_at (submissions d1) (so_SubmissionID out) \<noteq> None"
    by (cases rule: submit_result_cases [of "Submit demo_service demo_submit demo_input empty_db"]) auto
  have e: "env_ok ''key'' (su_create demo_submit)" "env_ok ''key'' (su_event demo_submit)"
    "env_ok ''key'' (su_reconcile demo_submit)" "no_faults (su_reconcile demo_submit)"
    "env_sha256 (su_reconcile demo_submit) = env_sha256 (su_create demo_submit)"
    by (simp_all add: demo_submit_def demo_env_ok) (simp_all add: no_faults_def demo_env_def)
  have "si_ClientRequestID demo_input \<noteq> ''''" by (simp add: demo_input_def)
  from submit_retry_recovers [OF db_inv_empty s(1) demo_idle e(1,2) this _ _ demo_idle e(3,4,5), of "[]" demo_input] s
  show ?thesis by auto
qed

end
