(* ===== verification/Application_Await.thy ===== *)
theory Application_Await
  imports Application_World Application_Submit
begin

text \<open>
  The await operation (\<open>internal/application/await.go\<close>, \<open>task_time.go\<close>): progress cursors, the bounded
  long poll, the final read and the rendered output. The delivery of input responses, which \<open>Await\<close>
  performs before it waits, is the theory \<open>Application_Input\<close>; there the whole handler is composed.

  The contexts and timers of a call are the fields of \<open>await_env\<close>: how many poll intervals pass before
  the deadline or the caller's cancellation, and which context had ended at which point.
\<close>

section \<open>Definitions\<close>

subsection \<open>Cursors\<close>

definition isDigits :: "string \<Rightarrow> bool" where
  "isDigits s \<longleftrightarrow> s \<noteq> [] \<and> list_all (\<lambda>c. 48 \<le> (of_char c :: nat) \<and> (of_char c :: nat) \<le> 57) s"

definition invalid_cursor :: contract_error where
  "invalid_cursor = failed CodeInvalidRequest ''cursor is not a valid progress cursor.''"

definition parseCursor :: "string \<Rightarrow> contract_error + int" where
  "parseCursor cursor =
     (if cursor = '''' then Inr 0
      else if \<not> isDigits cursor then Inl invalid_cursor
      else case parse_int64 cursor of
        None \<Rightarrow> Inl invalid_cursor
      | Some sequence \<Rightarrow> if sequence < 0 then Inl invalid_cursor else Inr sequence)"

subsection \<open>Waiting time\<close>

definition resolveWait :: "Limits \<Rightarrow> int \<Rightarrow> contract_error + int" where
  "resolveWait limit timeoutMS =
     (if timeoutMS < 0 then Inl (failed CodeInvalidRequest ''timeout_ms must be non-negative.'')
      else if timeoutMS = 0 then Inr (AwaitDefault limit)
      else if timeoutMS > go_div (AwaitMax limit) Millisecond
        then Inl (failed CodeInvalidRequest ''timeout_ms exceeds the profile maximum.'')
      else Inr (i64 (timeoutMS * Millisecond)))"

definition taskPollFloor :: int where
  "taskPollFloor = 20 * Millisecond"

definition maxTimerMs :: int where
  "maxTimerMs = go_div max_int64 Millisecond"

definition timerWait :: "int \<Rightarrow> int" where
  "timerWait ms =
     (if ms \<le> 0 then Second
      else let ms' = (if ms > maxTimerMs then maxTimerMs else ms);
               wait = i64 (ms' * Millisecond)
           in if wait < taskPollFloor then taskPollFloor else wait)"

subsection \<open>Output\<close>

record AwaitInput =
  ai_SubmissionID :: string
  ai_Cursor :: string
  ai_TimeoutMS :: int
  ai_InputResponses :: "(string, json option) table"

record AwaitOutput =
  ao_SubmissionID :: string
  ao_Tool :: string
  ao_Status :: status
  ao_Terminal :: bool
  ao_Cursor :: string
  ao_Events :: "event list"
  ao_Result :: "result option"
  ao_Error :: "contract_error option"
  ao_CompletedAt :: "int option"
  ao_NextPollMS :: int
  ao_InputRequests :: "json option"

definition pollGuidance :: "Submission \<Rightarrow> int" where
  "pollGuidance sub =
     (let ms = sub_TaskPollIntervalMs sub in if ms \<le> 0 \<or> ms > 60000 then 1000 else ms)"

definition not_retained :: contract_error where
  "not_retained = NewError CodeSubmissionExpired
     ''The terminal result is no longer retained for this submission.''"

text \<open>The stored error of a terminal submission, as the last part of \<open>buildOutput\<close> renders it.\<close>

definition stored_error :: "Submission \<Rightarrow> contract_error option" where
  "stored_error sub =
     (case sub_ErrorCode sub of
        None \<Rightarrow> None
      | Some c \<Rightarrow> Some \<lparr>ce_Code = c, ce_Message = sub_ErrorMessage sub, ce_Retryable = sub_ErrorRetryable sub\<rparr>)"

definition buildOutput :: "Submission \<Rightarrow> int \<Rightarrow> AwaitOutput" where
  "buildOutput sub after =
     (let events = filter (\<lambda>ev. after < ev_Sequence ev) (sub_Events sub);
          newest = fold (\<lambda>ev l. if l < ev_Sequence ev then ev_Sequence ev else l) (sub_Events sub) after;
          out = \<lparr>ao_SubmissionID = sub_ID sub, ao_Tool = sub_Tool sub, ao_Status = sub_Status sub,
                 ao_Terminal = Terminal (sub_Status sub), ao_Cursor = format_int newest,
                 ao_Events = events, ao_Result = None, ao_Error = None, ao_CompletedAt = None,
                 ao_NextPollMS = 0, ao_InputRequests = None\<rparr>
      in if \<not> Terminal (sub_Status sub) then
           out\<lparr>ao_NextPollMS := pollGuidance sub,
               ao_InputRequests := (if sub_Status sub = StatusInputRequired then sub_InputRequests sub else None)\<rparr>
         else
           (let out = out\<lparr>ao_CompletedAt := sub_CompletedAt sub\<rparr> in
            if sub_Status sub = StatusCompleted then
              (case sub_Result sub of
                 Some res \<Rightarrow> out\<lparr>ao_Result := Some res\<rparr>
               | None \<Rightarrow> out\<lparr>ao_Error := Some not_retained\<rparr>)
            else if sub_Status sub = StatusExpired \<and> sub_ErrorCode sub = None
              then out\<lparr>ao_Error := Some not_retained\<rparr>
            else out\<lparr>ao_Error := stored_error sub\<rparr>))"

subsection \<open>Reading and waiting\<close>

definition not_found :: contract_error where
  "not_found = failed CodeSubmissionNotFound ''No submission with that identifier exists for this profile.''"

definition read_error :: "go_error \<Rightarrow> contract_error" where
  "read_error err = (if errors_Is err ErrNotFound then not_found else storeError err)"

definition reload :: "string \<Rightarrow> world \<Rightarrow> (contract_error + Submission) \<times> world" where
  "reload sid = io_map_error read_error (store_read (\<lambda>e d. GetSubmission e d sid))"

record await_env =
  aw_limits :: Limits
  aw_load_cancelled :: bool
  aw_cancelled :: bool
  aw_ticks :: nat
  aw_final_ended :: bool
  aw_final_late :: bool

definition loadForAwait :: "await_env \<Rightarrow> string \<Rightarrow> world \<Rightarrow> (contract_error + Submission) \<times> world" where
  "loadForAwait ae sid w =
     (case store_read (\<lambda>e d. GetSubmission e d sid) w of
        (Inr sub, w') \<Rightarrow> (Inr sub, w')
      | (Inl err, w') \<Rightarrow>
          if errors_Is err ErrNotFound then (Inl not_found, w')
          else if \<not> aw_load_cancelled ae then (Inl (storeError err), w')
          else reload sid w')"

text \<open>Only the independent deadline of the final read falls back to the snapshot.\<close>

definition finalState :: "await_env \<Rightarrow> Submission \<Rightarrow> world \<Rightarrow> (contract_error + Submission) \<times> world" where
  "finalState ae sub w =
     (if aw_final_ended ae then (Inr sub, w)
      else case reload (sub_ID sub) w of
        (Inr reloaded, w') \<Rightarrow> (Inr reloaded, w')
      | (Inl cerr, w') \<Rightarrow> if aw_final_late ae then (Inr sub, w') else (Inl cerr, w'))"

fun waitForState :: "await_env \<Rightarrow> nat \<Rightarrow> Submission \<Rightarrow> world \<Rightarrow> (contract_error + Submission) \<times> world" where
  "waitForState ae ticks sub w =
     (if Terminal (sub_Status sub) then (Inr sub, w)
      else case ticks of
        0 \<Rightarrow> finalState ae sub w
      | Suc n \<Rightarrow>
          (case reload (sub_ID sub) w of
             (Inl cerr, w') \<Rightarrow> (Inl cerr, w')
           | (Inr reloaded, w') \<Rightarrow> waitForState ae n reloaded w'))"

declare waitForState.simps [simp del]

section \<open>Lemmas\<close>

lemma isDigits_dec: "isDigits (dec_digits n)"
proof (induction n rule: dec_digits.induct)
  case (1 n)
  show ?case
    using 1 digit_char [of n] digit_char [of "n mod 10"]
    by (subst dec_digits.simps) (auto simp: isDigits_def)
qed

lemma parseCursor_format:
  assumes "0 \<le> n" "n \<le> max_int64"
  shows "parseCursor (format_int n) = Inr n"
proof -
  have f: "format_int n = dec_digits (nat n)" using assms by (simp add: format_int_def)
  have "dec_digits (nat n) \<noteq> ''''" using isDigits_dec [of "nat n"] by (auto simp: isDigits_def)
  then show ?thesis
    using assms by (simp add: f parseCursor_def isDigits_dec parse_int64_dec)
qed

lemma fold_newest:
  fixes after :: int
  shows "fold (\<lambda>ev l. if l < ev_Sequence ev then ev_Sequence ev else l) evs after
    = Max (insert after (ev_Sequence ` set evs))"
proof -
  have "fold (\<lambda>ev l. if l < ev_Sequence ev then ev_Sequence ev else l) evs after
      = fold max (map ev_Sequence evs) after"
    by (induction evs arbitrary: after) (auto simp: max_def)
  also have "\<dots> = Max (insert after (ev_Sequence ` set evs))"
    by (simp add: Max.set_eq_fold [symmetric])
  finally show ?thesis .
qed

lemma buildOutput_fields:
  "ao_Events (buildOutput sub after) = filter (\<lambda>ev. after < ev_Sequence ev) (sub_Events sub)"
  "ao_Cursor (buildOutput sub after) = format_int (Max (insert after (ev_Sequence ` set (sub_Events sub))))"
  "ao_Status (buildOutput sub after) = sub_Status sub"
  "ao_Terminal (buildOutput sub after) = Terminal (sub_Status sub)"
  by (auto simp: buildOutput_def Let_def fold_newest split: option.split)

lemma GetSubmission_reads:
  assumes "GetSubmission e d sid = Inr s"
  shows "\<exists>r. row_at (submissions d) sid = Some r \<and> sub_ID s = sid \<and> sub_Sequence s = r_sequence r
    \<and> sub_Events s = row_events r \<and> sub_Status s = r_status r"
proof -
  from assms obtain r s0 where s0: "row_at (submissions d) sid = Some r" "scanSubmission sid r = Inr s0"
      "decryptSubmission e s0 = Inr s"
    by (auto simp: GetSubmission_def result_simps split: option.splits)
  then show ?thesis
    using decrypt_events [OF s0(3)] scanSubmission_fields [OF s0(2)] by (auto simp: row_events_def)
qed

section \<open>Properties\<close>

text \<open>
  C19: Resuming at a cursor. Two reads of one submission, with any store operations in between that
  leave it in place. The first output holds, in order, exactly the stored events after the cursor it was
  asked for. Its own cursor is accepted by the second call and is not below the first one, and the second
  output holds, in order, exactly the events then stored after it. So no event that is still stored is
  skipped (every one after the first cursor is in one of the outputs), none that was stored at the first
  read is repeated, and every event of the second output comes after every one of the first.
\<close>

theorem await_resumes_exactly:
  assumes "db_inv key d" "list_all (\<lambda>c. env_ok key (snd c)) h"
    and "always perform (\<lambda>d. row_at (submissions d) sid \<noteq> None) h d"
    and "GetSubmission e1 d sid = Inr s1" "GetSubmission e2 (history perform h d) sid = Inr s2"
    and "parseCursor c = Inr after" "after \<le> sub_Sequence s1" "sub_Sequence s1 \<le> max_int64"
  shows "\<exists>n r1 r2. row_at (submissions d) sid = Some r1 \<and> row_at (submissions (history perform h d)) sid = Some r2
    \<and> parseCursor (ao_Cursor (buildOutput s1 after)) = Inr n \<and> after \<le> n \<and> n \<le> r_sequence r2
    \<and> ao_Events (buildOutput s1 after) = filter (\<lambda>ev. after < ev_Sequence ev) (row_events r1)
    \<and> ao_Events (buildOutput s2 n) = filter (\<lambda>ev. n < ev_Sequence ev) (row_events r2)
    \<and> set (filter (\<lambda>ev. after < ev_Sequence ev) (row_events r2))
        \<subseteq> set (ao_Events (buildOutput s1 after)) \<union> set (ao_Events (buildOutput s2 n))
    \<and> set (row_events r1) \<inter> set (ao_Events (buildOutput s2 n)) = {}
    \<and> (\<forall>ev ev'. ev \<in> set (ao_Events (buildOutput s1 after)) \<and> ev' \<in> set (ao_Events (buildOutput s2 n))
         \<longrightarrow> ev_Sequence ev < ev_Sequence ev')"
proof -
  obtain r1 where r1: "row_at (submissions d) sid = Some r1" "sub_Sequence s1 = r_sequence r1"
    "sub_Events s1 = row_events r1" using GetSubmission_reads [OF assms(4)] by auto
  obtain r2 where r2: "row_at (submissions (history perform h d)) sid = Some r2"
    "sub_Sequence s2 = r_sequence r2" "sub_Events s2 = row_events r2"
    using GetSubmission_reads [OF assms(5)] by auto
  have steps: "row_step\<^sup>*\<^sup>* r1 r2" using store.history_rows [OF assms(1-3) r1(1)] r2(1) by simp
  let ?n = "Max (insert after (ev_Sequence ` set (sub_Events s1)))"
  have "\<forall>ev \<in> set (sub_Events s1). ev_Sequence ev \<le> sub_Sequence s1"
    using assms(1) r1 by (auto simp: db_inv_def row_ok_def events_ok_def log_ok_def row_events_def
        split: option.splits)
  then have n: "after \<le> ?n" "?n \<le> sub_Sequence s1" "\<forall>ev \<in> set (sub_Events s1). ev_Sequence ev \<le> ?n"
    using assms(7) by auto
  have pos: "0 \<le> after" using assms(6) by (auto simp: parseCursor_def split: if_splits option.splits)
  have "parseCursor (ao_Cursor (buildOutput s1 after)) = Inr ?n"
    unfolding buildOutput_fields using n pos assms(8) by (intro parseCursor_format) linarith+
  moreover have "?n \<le> sub_Sequence s2" using n(2) row_steps_sequence [OF steps] r1(2) r2(2) by linarith
  moreover have "ev \<in> set (sub_Events s1) \<or> ?n < ev_Sequence ev" if "ev \<in> set (sub_Events s2)" for ev
    using that row_steps_log [OF steps] n(2) r1 r2 unfolding log_step_def by fastforce
  ultimately show ?thesis
    using n r1 r2 by (intro exI [of _ ?n] exI [of _ r1] exI [of _ r2]) (fastforce simp: buildOutput_fields(1))
qed

definition await_event :: "int \<Rightarrow> event" where
  "await_event n = \<lparr>ev_SubmissionID = ''s1'', ev_Sequence = n, ev_Timestamp = ''t'', ev_State = StatusAccepted,
     ev_Step = None, ev_Message = ''''\<rparr>"

definition await_db :: db where
  "await_db = perform (OpAppend ''s1'' [await_event 1]) (demo_env 2) accept_db"

definition await_later :: "(store_op \<times> env) list" where
  "await_later = [(OpAppend ''s1'' [await_event 2, await_event 4], demo_env 3)]"

definition await_read :: "db \<Rightarrow> (Submission \<Rightarrow> bool) \<Rightarrow> bool" where
  "await_read d p = (case GetSubmission (demo_env 9) d ''s1'' of Inl _ \<Rightarrow> False | Inr s \<Rightarrow> p s)"

lemma await_readE: "await_read d p \<Longrightarrow> \<exists>s. GetSubmission (demo_env 9) d ''s1'' = Inr s \<and> p s"
  by (auto simp: await_read_def split: sum.splits)

theorem await_resumes_exactly_witness:
  "\<exists>s1 s2. GetSubmission (demo_env 9) await_db ''s1'' = Inr s1
     \<and> GetSubmission (demo_env 9) (history perform await_later await_db) ''s1'' = Inr s2
     \<and> map ev_Sequence (ao_Events (buildOutput s1 0)) = [1]
     \<and> (\<exists>n. parseCursor (ao_Cursor (buildOutput s1 0)) = Inr n \<and> map ev_Sequence (ao_Events (buildOutput s2 n)) = [2, 4])"
proof -
  have inv: "db_inv ''key'' await_db"
    unfolding await_db_def by (rule store.inv_op [OF demo_env_ok accept_inv])
  have ok: "list_all (\<lambda>c. env_ok ''key'' (snd c)) await_later"
    by (simp add: await_later_def demo_env_ok)
  have there: "always perform (\<lambda>d. row_at (submissions d) ''s1'' \<noteq> None) await_later await_db" by code_simp
  have "await_read await_db (\<lambda>s. sub_Sequence s = 1 \<and> map ev_Sequence (sub_Events s) = [1])" by code_simp
  from await_readE [OF this] obtain s1 where s1: "GetSubmission (demo_env 9) await_db ''s1'' = Inr s1"
      "sub_Sequence s1 = 1" "map ev_Sequence (sub_Events s1) = [1]" by (elim exE conjE)
  have "await_read (history perform await_later await_db) (\<lambda>s. map ev_Sequence (sub_Events s) = [1, 2, 4])" by code_simp
  from await_readE [OF this] obtain s2 where
      s2: "GetSubmission (demo_env 9) (history perform await_later await_db) ''s1'' = Inr s2"
      "map ev_Sequence (sub_Events s2) = [1, 2, 4]" by (elim exE conjE)
  have c: "parseCursor '''' = Inr 0" by (simp add: parseCursor_def)
  note resumed = await_resumes_exactly [OF inv ok there s1(1) s2(1) c]
  have rows: "row_at (submissions await_db) ''s1'' = Some r1 \<Longrightarrow> row_events r1 = sub_Events s1"
    "row_at (submissions (history perform await_later await_db)) ''s1'' = Some r2 \<Longrightarrow> row_events r2 = sub_Events s2" for r1 r2
    using GetSubmission_reads [OF s1(1)] GetSubmission_reads [OF s2(1)] by auto
  from resumed s1(2) obtain n where n: "parseCursor (ao_Cursor (buildOutput s1 0)) = Inr n"
      "ao_Events (buildOutput s1 0) = filter (\<lambda>ev. 0 < ev_Sequence ev) (sub_Events s1)"
      "ao_Events (buildOutput s2 n) = filter (\<lambda>ev. n < ev_Sequence ev) (sub_Events s2)"
    by (auto simp: max_int64_def rows)
  have "ev_Sequence ` set (sub_Events s1) = {1}" using s1(3) by (metis list.set(1) list.set(2) list.set_map)
  then have "n = 1" using n(1) by (simp add: buildOutput_fields parseCursor_format max_int64_def)
  then show ?thesis using n s1 s2 by (auto simp: map_eq_Cons_conv)
qed

lemma resolveWait_cases:
  assumes "Validate lims = Inr ()"
  shows "resolveWait lims ms =
    (if ms < 0 then Inl (failed CodeInvalidRequest ''timeout_ms must be non-negative.'')
     else if ms = 0 then Inr (AwaitDefault lims)
     else if AwaitMax lims < ms * Millisecond
       then Inl (failed CodeInvalidRequest ''timeout_ms exceeds the profile maximum.'')
     else Inr (ms * Millisecond))"
proof -
  have lims: "0 < AwaitMax lims" "AwaitMax lims \<le> 60 * Second"
    using assms by (auto simp: Validate_iff within_ceiling_def HardCeiling_def)
  have "AwaitMax lims div Millisecond < ms \<longleftrightarrow> AwaitMax lims < ms * Millisecond"
    using mult_div_mod_eq [of 1000000 "AwaitMax lims"] pos_mod_bound [of 1000000 "AwaitMax lims"]
      pos_mod_sign [of 1000000 "AwaitMax lims"] unfolding Millisecond_def by linarith
  moreover have "in_int64 (ms * Millisecond)" if "0 < ms" "ms * Millisecond \<le> AwaitMax lims"
    using that lims by (simp add: in_int64_def max_int64_def time_units)
  ultimately show ?thesis
    using lims by (auto simp: resolveWait_def go_div_nonneg Millisecond_def not_less)
qed

lemma timerWait_clamped:
  "0 < ms \<Longrightarrow> timerWait ms = max taskPollFloor (min ms maxTimerMs * Millisecond)"
proof -
  assume ms: "0 < ms"
  have m: "maxTimerMs = 9223372036854" by code_simp
  have "in_int64 (min ms maxTimerMs * Millisecond)"
    using ms by (auto simp: m in_int64_def max_int64_def Millisecond_def min_def)
  then show ?thesis
    using ms by (auto simp: timerWait_def Let_def max_def min_def)
qed

text \<open>
  Waiting times. With validated limits a requested timeout is either refused or becomes exactly that
  many milliseconds, never more than the profile's maximum, and zero means the default; a poll hint of
  any size becomes a wait between the floor and the largest duration, without overflow, and a longer
  hint never waits shorter.
\<close>

theorem waits_never_overflow:
  assumes "Validate lims = Inr ()" "0 < hint" "hint \<le> hint'"
  shows "(case resolveWait lims ms of
       Inr w \<Rightarrow> 0 < w \<and> w \<le> AwaitMax lims \<and> w = (if ms = 0 then AwaitDefault lims else ms * Millisecond)
     | Inl _ \<Rightarrow> ms < 0 \<or> AwaitMax lims < ms * Millisecond)
    \<and> taskPollFloor \<le> timerWait hint \<and> timerWait hint \<le> timerWait hint' \<and> timerWait hint' \<le> max_int64"
proof -
  have m: "maxTimerMs * Millisecond \<le> max_int64" "taskPollFloor \<le> max_int64" by code_simp+
  have mono: "min hint maxTimerMs * Millisecond \<le> min hint' maxTimerMs * Millisecond"
    "min hint' maxTimerMs * Millisecond \<le> maxTimerMs * Millisecond"
    using assms(3) by (simp_all add: Millisecond_def min_def)
  have "0 < AwaitDefault lims" "AwaitDefault lims \<le> AwaitMax lims"
    using assms(1) by (auto simp: Validate_iff within_ceiling_def)
  then show ?thesis
    using assms(2,3) m mono
    by (auto simp: resolveWait_cases [OF assms(1)] timerWait_clamped Millisecond_def split: if_splits)
qed

theorem waits_never_overflow_witness:
  "resolveWait Default 9999999999999999999 \<noteq> Inr 0 \<and> timerWait 5 \<le> timerWait 9999999999999999999
     \<and> timerWait 9999999999999999999 \<le> max_int64"
proof -
  have "Validate Default = Inr ()" by code_simp
  from waits_never_overflow [OF this, of 5 9999999999999999999 9999999999999999999]
  show ?thesis by (auto split: sum.splits)
qed

end
