(* ===== verification/Worker_Run.thy ===== *)
theory Worker_Run
  imports Store_Properties Catalog
begin

text \<open>
  One leased execution (\<open>internal/worker/runner.go\<close>, \<open>renew.go\<close>): claim the lease, move the
  submission to running, execute, publish the outcome under the lease, release.

  The runner's store calls happen at different times and other processes act in between. A
  \<open>run_env\<close> holds the environment of each call and, before each, what the others did to the
  database (\<open>re_other\<close>); it also holds the executor (code outside this package), whether the
  execution context was cancelled meanwhile, what the renewal goroutine reported and the caller's
  context error.
\<close>

section \<open>Definitions\<close>

record worker_config =
  wc_Owner :: string
  wc_LeaseTTL :: int

text \<open>The first two arguments say that the state and the executor are not nil.\<close>

definition New :: "bool \<Rightarrow> bool \<Rightarrow> worker_config \<Rightarrow> go_error + unit" where
  "New state executor cfg =
     rbind (ensure (state \<and> executor) (errors_New ''worker state and executor are required'')) (\<lambda>_.
     rbind (ensure (wc_Owner cfg \<noteq> '''') (errors_New ''worker owner is required'')) (\<lambda>_.
     ensure (Millisecond \<le> wc_LeaseTTL cfg) (errors_New ''worker lease TTL must be at least 1ms'')))"

definition invocationOwner :: "string \<Rightarrow> string \<Rightarrow> string" where
  "invocationOwner base nonce = base @ ''/'' @ hex_encode nonce"

definition renewalInterval :: "int \<Rightarrow> int" where
  "renewalInterval ttl = (let interval = go_div ttl 3 in if interval \<le> 0 then ttl else interval)"

text \<open>What the renewal goroutine sees: cancellation, or a tick with the renewal's result.\<close>

datatype renew_event = CtxDone | Tick "go_error + bool" bool

text \<open>
  The report sent on \<open>done\<close> and whether the loop cancelled the execution; \<open>None\<close> while it still
  waits. The flag of a tick says that the context ended during the renewal.
\<close>

fun renew :: "renew_event list \<Rightarrow> (go_error option \<times> bool) option" where
  "renew [] = None"
| "renew (CtxDone # evs) = Some (None, False)"
| "renew (Tick r ended # evs) =
     (if ended then Some (None, False)
      else case r of
          Inl err \<Rightarrow> Some (Some (Errorf '''' [Sentinel ErrLeaseLost, err]), True)
        | Inr owned \<Rightarrow> if \<not> owned then Some (Some (Sentinel ErrLeaseLost), True) else renew evs)"

record run_env =
  re_nonce :: "go_error + string"
  re_claim :: env
  re_get :: env
  re_queued :: env
  re_running :: env
  re_confirm :: env
  re_finish :: env
  re_release :: env
  re_retries :: "env list"
  re_other :: "nat \<Rightarrow> db \<Rightarrow> db"
  re_execute :: "Submission \<Rightarrow> go_error + result"
  re_stopped :: bool
  re_renewed :: "go_error option"
  re_ctx :: "go_error option"

definition preparationError :: "go_error \<Rightarrow> go_error" where
  "preparationError err = (if errors_Is err ErrLeaseNotOwned then Sentinel ErrLeaseLost else err)"

definition empty_detail :: TransitionDetail where
  "empty_detail = \<lparr>td_TaskID = '''', td_Error = None\<rparr>"

text \<open>The move to running of \<open>prepare\<close>, from \<open>queued\<close>.\<close>

definition prepare_running ::
    "run_env \<Rightarrow> string \<Rightarrow> string \<Rightarrow> string \<Rightarrow> db \<Rightarrow> (go_error + Submission) \<times> db" where
  "prepare_running re sid leaseName owner d =
     (case TransitionLeased (re_running re) sid leaseName owner StatusRunning empty_detail (re_other re 3 d) of
        (Inl err, d') \<Rightarrow> (Inl (preparationError err), d')
      | (Inr s, d') \<Rightarrow> (Inr s, d'))"

definition prepare_status ::
    "run_env \<Rightarrow> string \<Rightarrow> string \<Rightarrow> string \<Rightarrow> Submission \<Rightarrow> db \<Rightarrow> (go_error + Submission) \<times> db" where
  "prepare_status re sid leaseName owner s d =
     (case sub_Status s of
        StatusAccepted \<Rightarrow>
          (case TransitionLeased (re_queued re) sid leaseName owner StatusQueued empty_detail (re_other re 2 d) of
             (Inl err, d') \<Rightarrow> (Inl (preparationError err), d')
           | (Inr _, d') \<Rightarrow> prepare_running re sid leaseName owner d')
      | StatusQueued \<Rightarrow> prepare_running re sid leaseName owner d
      | StatusRunning \<Rightarrow> (Inr s, d)
      | _ \<Rightarrow> (Inl (Errorf sid [Sentinel ErrNotRunnable]), d))"

definition prepare ::
    "run_env \<Rightarrow> int \<Rightarrow> string \<Rightarrow> string \<Rightarrow> string \<Rightarrow> db \<Rightarrow> (go_error + Submission) \<times> db" where
  "prepare re ttl sid leaseName owner d0 =
     (let d = re_other re 1 d0 in
      case GetSubmission (re_get re) d sid of
        Inl err \<Rightarrow> (Inl err, d)
      | Inr s \<Rightarrow>
          if sub_Strategy s \<noteq> StrategyLocalReplayable
          then (Inl (errors_New ''submission uses a non-replayable strategy''), d)
          else (case prepare_status re sid leaseName owner s d of
                  (Inl err, d') \<Rightarrow> (Inl err, d')
                | (Inr s', d') \<Rightarrow>
                    (case RenewLease (re_confirm re) leaseName owner ttl (re_other re 4 d') of
                       (Inl err, d'') \<Rightarrow> (Inl (Errorf sid [Sentinel ErrLeaseLost, err]), d'')
                     | (Inr owned, d'') \<Rightarrow>
                         (if owned then Inr s' else Inl (Sentinel ErrLeaseLost), d''))))"

text \<open>\<open>errors.As\<close> to the carrier of a contract error: the first one in the chain.\<close>

fun contract_in :: "go_error \<Rightarrow> contract_error option"
  and contract_among :: "go_error list \<Rightarrow> contract_error option" where
  "contract_in (ContractErr ce) = Some ce"
| "contract_in (Errorf _ ws) = contract_among ws"
| "contract_in (UpstreamErr _ _ cause) = contract_in cause"
| "contract_in _ = None"
| "contract_among [] = None"
| "contract_among (w # ws) = (case contract_in w of Some ce \<Rightarrow> Some ce | None \<Rightarrow> contract_among ws)"

definition local_failure :: "go_error \<Rightarrow> contract_error" where
  "local_failure executeErr =
     (case contract_in executeErr of
        Some ce \<Rightarrow> ce
      | None \<Rightarrow> NewError CodeUpstreamExecutionFailed ''The local operation could not be completed.'')"

definition drop_value :: "(go_error + 'a) \<times> db \<Rightarrow> (go_error + unit) \<times> db" where
  "drop_value p = (case p of (Inl err, d) \<Rightarrow> (Inl err, d) | (Inr _, d) \<Rightarrow> (Inr (), d))"

text \<open>Publishing the outcome of the execution.\<close>

definition publish ::
    "run_env \<Rightarrow> string \<Rightarrow> string \<Rightarrow> string \<Rightarrow> go_error + result \<Rightarrow> db \<Rightarrow> (go_error + unit) \<times> db" where
  "publish re sid leaseName owner outcome d0 =
     (let d = re_other re 5 d0 in
      case outcome of
        Inr res \<Rightarrow> drop_value (CompleteLeased (re_finish re) sid leaseName owner res d)
      | Inl executeErr \<Rightarrow>
          if errors_Is executeErr ErrExecutionDeferred then (Inl executeErr, d)
          else if \<not> re_stopped re then
            (case FailLeased (re_finish re) sid leaseName owner (local_failure executeErr) d of
               (Inl err, d') \<Rightarrow> (Inl err, d')
             | (Inr _, d') \<Rightarrow> (Inl (Errorf sid [executeErr]), d'))
          else (Inl executeErr, d))"

text \<open>
  Up to three attempts, the first always made; the list of retries is shorter when the release
  context ends first.
\<close>

fun releaseLease :: "env \<Rightarrow> env list \<Rightarrow> string \<Rightarrow> string \<Rightarrow> db \<Rightarrow> (go_error + unit) \<times> db" where
  "releaseLease e es n w d =
     (case ReleaseLease e n w d of
        (Inr _, d') \<Rightarrow> (Inr (), d')
      | (Inl err, d') \<Rightarrow>
          (case es of [] \<Rightarrow> (Inl err, d') | e' # es' \<Rightarrow> releaseLease e' es' n w d'))"

declare releaseLease.simps [simp del]

definition owned_run ::
    "run_env \<Rightarrow> int \<Rightarrow> string \<Rightarrow> string \<Rightarrow> string \<Rightarrow> db \<Rightarrow> (go_error + unit) \<times> db" where
  "owned_run re ttl sid leaseName owner d =
     (case prepare re ttl sid leaseName owner d of
        (Inl err, d') \<Rightarrow> (Inl err, d')
      | (Inr s, d') \<Rightarrow> publish re sid leaseName owner (re_execute re s) d')"

definition Run :: "run_env \<Rightarrow> string \<Rightarrow> int \<Rightarrow> string \<Rightarrow> db \<Rightarrow> (go_error + unit) \<times> db" where
  "Run re base ttl sid d =
     (case re_nonce re of
        Inl err \<Rightarrow> (Inl (Errorf sid [err]), d)
      | Inr nonce \<Rightarrow>
          let leaseName = ''submission/'' @ sid; owner = invocationOwner base nonce in
          (case ClaimLease (re_claim re) leaseName owner ttl d of
             (Inl err, d1) \<Rightarrow> (Inl (Errorf sid [err]), d1)
           | (Inr owned, d1) \<Rightarrow>
               if \<not> owned then (Inl (Sentinel ErrLeaseHeld), d1)
               else (case owned_run re ttl sid leaseName owner d1 of
                       (r, d2) \<Rightarrow>
                         (case re_renewed re of
                            Some err \<Rightarrow> Inl err
                          | None \<Rightarrow> (case re_ctx re of Some err \<Rightarrow> Inl err | None \<Rightarrow> r),
                          snd (releaseLease (re_release re) (take 2 (re_retries re)) leaseName owner (re_other re 6 d2))))))"

definition Runnable :: "env \<Rightarrow> db \<Rightarrow> go_error + string list" where
  "Runnable e d = ListRunnable e StrategyLocalReplayable d"

text \<open>The errors \<open>Recover\<close> does not report.\<close>

definition skipped :: "go_error \<Rightarrow> bool" where
  "skipped err \<longleftrightarrow> errors_Is err ErrLeaseHeld \<or> errors_Is err ErrNotRunnable
     \<or> errors_Is err ErrExecutionDeferred \<or> errors_Is err ErrBusy"

fun recover_all ::
    "(string \<Rightarrow> run_env) \<Rightarrow> string \<Rightarrow> int \<Rightarrow> string list \<Rightarrow> db \<Rightarrow> go_error list \<times> db" where
  "recover_all res base ttl [] d = ([], d)"
| "recover_all res base ttl (sid # sids) d =
     (case Run (res sid) base ttl sid d of
        (r, d1) \<Rightarrow> (case recover_all res base ttl sids d1 of
           (fs, d2) \<Rightarrow>
             ((case r of Inl err \<Rightarrow> if skipped err then fs else Errorf sid [err] # fs | Inr _ \<Rightarrow> fs), d2)))"

definition Recover ::
    "env \<Rightarrow> (string \<Rightarrow> run_env) \<Rightarrow> string \<Rightarrow> int \<Rightarrow> db \<Rightarrow> (go_error + unit) \<times> db" where
  "Recover e res base ttl d =
     (case ListRunnable e StrategyLocalReplayable d of
        Inl err \<Rightarrow> (Inl err, d)
      | Inr sids \<Rightarrow> (case recover_all res base ttl sids d of
          (fs, d') \<Rightarrow> (if fs = [] then Inr () else Inl (Errorf '''' fs), d')))"

section \<open>Lemmas\<close>

lemma complete_success:
  assumes "complete e sid res lease d = (Inr s, d')"
  shows "\<exists>r. row_at (submissions d') sid = Some r \<and> r_status r = StatusCompleted
    \<and> r_result_enc r = Some (Blob (env_key e) (blobAAD sid ''result'') res)"
proof -
  have "finish e sid StatusCompleted (Some res) None lease d = (Inr s, d')"
    using assms by (auto simp: complete_def split: sum.splits prod.splits if_splits)
  then have "writeTx e ''terminal capture'' (finish_body e sid StatusCompleted (Some res) None lease) d
      = (Inr (), d')"
    by (auto simp: finish_def read_back_def split: prod.splits sum.splits)
  then show ?thesis
    by (auto simp: writeTx_Inr finish_body_def result_simps seal_blob_iff requireUpdated_iff finish_row_def)
qed

lemma releaseLease_submissions: "submissions (snd (releaseLease e es n w d)) = submissions d"
proof (induction e es n w d rule: releaseLease.induct)
  case (1 e es n w d)
  have "submissions (snd (ReleaseLease e n w d)) = submissions d" by (rule lease_calls_frame(4))
  then show ?case using 1 by (auto simp: releaseLease.simps [of e es] split: prod.splits sum.splits list.splits)
qed

lemma publish_success:
  assumes "publish re sid n w outcome d = (Inr (), d')"
  shows "\<exists>res r. outcome = Inr res \<and> row_at (submissions d') sid = Some r \<and> r_status r = StatusCompleted
    \<and> map_option blob_plain (r_result_enc r) = Some res"
proof (cases outcome)
  case (Inl err)
  with assms show ?thesis by (auto simp: publish_def Let_def split: if_splits prod.splits sum.splits)
next
  case (Inr res)
  then obtain s where "CompleteLeased (re_finish re) sid n w res (re_other re 5 d) = (Inr s, d')"
    using assms by (auto simp: publish_def Let_def drop_value_def split: prod.splits sum.splits)
  then show ?thesis using complete_success Inr by (fastforce simp: CompleteLeased_def)
qed

lemma GetSubmission_of:
  "GetSubmission e d sid = Inr s \<Longrightarrow>
     \<exists>r. row_at (submissions d) sid = Some r \<and> sub_ID s = sid \<and> sub_Status s = r_status r"
  by (auto simp: GetSubmission_def result_simps decrypt_events dest: scanSubmission_fields
      split: option.splits)

lemma transition_reads:
  assumes "TransitionLeased e sid n w to detail d = (Inr s, d')"
  shows "sub_ID s = sid \<and> sub_Status s = to"
proof -
  from assms have w: "writeTx e ''transition'' (transition_body e sid to detail (Some (n, w))) d = (Inr (), d')"
      and g: "GetSubmission e d' sid = Inr s"
    by (auto simp: TransitionLeased_def transition_def read_back_def split: prod.splits sum.splits)
  from w have "\<exists>r. row_at (submissions d') sid = Some r \<and> r_status r = to"
    by (auto simp: writeTx_Inr transition_body_def result_simps requireUpdated_iff transition_row_def
        set_error_def stamp_terminal_def Let_def split: option.splits)
  with GetSubmission_of [OF g] show ?thesis by auto
qed

lemma prepare_running_state:
  "prepare re ttl sid n w d = (Inr s, d') \<Longrightarrow> sub_ID s = sid \<and> sub_Status s = StatusRunning"
  using GetSubmission_of [of "re_get re" "re_other re 1 d" sid]
  by (auto simp: prepare_def prepare_status_def prepare_running_def Let_def
      dest: transition_reads split: sum.splits prod.splits if_splits status.splits)

text \<open>The runner keeps the store's invariant when the other processes do.\<close>

definition run_env_ok :: "string \<Rightarrow> run_env \<Rightarrow> bool" where
  "run_env_ok key re \<longleftrightarrow>
     env_ok key (re_claim re) \<and> env_ok key (re_get re) \<and> env_ok key (re_queued re)
     \<and> env_ok key (re_running re) \<and> env_ok key (re_confirm re) \<and> env_ok key (re_finish re)
     \<and> (\<forall>k d. db_inv key d \<longrightarrow> db_inv key (re_other re k d))"

lemma ops_inv:
  assumes "db_inv key d" "env_ok key e"
  shows "db_inv key (snd (TransitionLeased e sid n w to detail d))"
    "db_inv key (snd (CompleteLeased e sid n w res d))"
    "db_inv key (snd (FailLeased e sid n w f d))"
  using perform_ok [OF assms(2,1), of "OpTransition sid to detail (Some (n, w))"]
    perform_ok [OF assms(2,1), of "OpComplete sid res (Some (n, w))"]
    perform_ok [OF assms(2,1), of "OpFail sid n w f"]
  by (simp_all add: TransitionLeased_def CompleteLeased_def)

lemma prepare_running_inv:
  "run_env_ok key re \<Longrightarrow> db_inv key d \<Longrightarrow> db_inv key (snd (prepare_running re sid n w d))"
  using ops_inv(1) [of key "re_other re 3 d" "re_running re" sid n w StatusRunning empty_detail]
  by (auto simp: prepare_running_def run_env_ok_def split: prod.splits sum.splits)

lemma prepare_status_inv:
  assumes "run_env_ok key re" "db_inv key d"
  shows "db_inv key (snd (prepare_status re sid n w s d))"
proof -
  have "db_inv key (snd (TransitionLeased (re_queued re) sid n w StatusQueued empty_detail (re_other re 2 d)))"
    using assms by (intro ops_inv) (auto simp: run_env_ok_def)
  then show ?thesis
    using assms prepare_running_inv [OF assms(1)]
    by (auto simp: prepare_status_def split: status.splits prod.splits sum.splits)
qed

lemma prepare_inv:
  assumes "run_env_ok key re" "db_inv key d"
  shows "db_inv key (snd (prepare re ttl sid n w d))"
proof -
  have o: "db_inv key (re_other re k x)" if "db_inv key x" for k x
    using assms(1) that by (simp add: run_env_ok_def)
  have "db_inv key d2" if "prepare_status re sid n w s (re_other re 1 d) = (r, d2)" for s r d2
    using prepare_status_inv [OF assms(1) o [OF assms(2)], of sid n w s 1] that by simp
  then have "db_inv key (snd (RenewLease (re_confirm re) n w ttl (re_other re 4 d2)))"
    if "prepare_status re sid n w s (re_other re 1 d) = (r, d2)" for s r d2
    using that o lease_ops_inv(2) by blast
  with \<open>\<And>s r d2. prepare_status re sid n w s (re_other re 1 d) = (r, d2) \<Longrightarrow> db_inv key d2\<close>
  show ?thesis
    using o [OF assms(2), of 1] by (fastforce simp: prepare_def Let_def split: prod.splits sum.splits)
qed

lemma publish_inv:
  assumes "run_env_ok key re" "db_inv key d"
  shows "db_inv key (snd (publish re sid n w outcome d))"
proof -
  have o: "db_inv key (re_other re 5 d)" using assms by (simp add: run_env_ok_def)
  have e: "env_ok key (re_finish re)" using assms(1) by (simp add: run_env_ok_def)
  show ?thesis
  proof (cases outcome)
    case (Inl err)
    have "db_inv key (snd (FailLeased (re_finish re) sid n w (local_failure err) (re_other re 5 d)))"
      using o e by (rule ops_inv(3))
    then show ?thesis using Inl o by (auto simp: publish_def Let_def split: prod.splits sum.splits)
  next
    case (Inr res)
    have "db_inv key (snd (CompleteLeased (re_finish re) sid n w res (re_other re 5 d)))"
      using o e by (rule ops_inv(2))
    then show ?thesis using Inr by (auto simp: publish_def Let_def drop_value_def split: prod.splits sum.splits)
  qed
qed

lemma releaseLease_inv: "db_inv key d \<Longrightarrow> db_inv key (snd (releaseLease e es n w d))"
proof (induction e es n w d rule: releaseLease.induct)
  case (1 e es n w d)
  have "db_inv key (snd (ReleaseLease e n w d))" using 1(2) by (rule lease_ops_inv(4))
  then show ?case using 1(1) by (auto simp: releaseLease.simps [of e es] split: prod.splits sum.splits list.splits)
qed

lemma owned_run_inv:
  assumes "run_env_ok key re" "db_inv key d"
  shows "db_inv key (snd (owned_run re ttl sid n w d))"
  using prepare_inv [OF assms, of ttl sid n w] publish_inv [OF assms(1)]
  by (auto simp: owned_run_def split: prod.splits sum.splits)

lemma Run_inv:
  assumes "run_env_ok key re" "db_inv key d"
  shows "db_inv key (snd (Run re base ttl sid d))"
proof -
  have o: "db_inv key (re_other re k x)" if "db_inv key x" for k x
    using assms(1) that by (simp add: run_env_ok_def)
  have claim: "db_inv key d1" if "ClaimLease (re_claim re) n w ttl d = (r, d1)" for n w r d1
    using lease_ops_inv(1) [OF assms(2), of "re_claim re" n w ttl] that by simp
  have own: "db_inv key d2" if "owned_run re ttl sid n w d1 = (r, d2)" "db_inv key d1" for n w d1 r d2
    using owned_run_inv [OF assms(1) that(2), of ttl sid n w] that(1) by simp
  show ?thesis
    using assms(2) claim own o releaseLease_inv
    by (auto simp: Run_def Let_def split: sum.splits prod.splits)
qed

section \<open>Properties\<close>

definition demo_run :: run_env where
  "demo_run = \<lparr>re_nonce = Inr ''x'', re_claim = demo_env 2, re_get = demo_env 3, re_queued = demo_env 4,
     re_running = demo_env 5, re_confirm = demo_env 6, re_finish = demo_env 7, re_release = demo_env 8, re_retries = [],
     re_other = (\<lambda>k d. d), re_execute = (\<lambda>s. Inr demo_result), re_stopped = False,
     re_renewed = None, re_ctx = None\<rparr>"

definition replayable_db :: db where
  "replayable_db = snd (CreateSubmission (demo_env 1)
     (demo_new\<lparr>ns_Strategy := StrategyLocalReplayable\<rparr>) empty_db)"

lemma replayable_inv: "db_inv ''key'' replayable_db"
  using store.inv_op [OF demo_env_ok db_inv_empty, of "OpCreate (demo_new\<lparr>ns_Strategy := StrategyLocalReplayable\<rparr>)"]
  by (simp add: replayable_db_def)

lemma demo_run_ok: "run_env_ok ''key'' demo_run"
  by (simp add: run_env_ok_def demo_run_def demo_env_ok)

text \<open>
  C13: A run that reports success has published. Whatever other processes did before and during the
  execution, if \<open>Run\<close> returns no error (and nobody acts between the publication and the end) the
  executor was called on this submission in its running state and returned a result, and that result
  is what the completed submission holds.
\<close>

theorem run_success_published:
  assumes "Run re base ttl sid d = (Inr (), d')" "re_other re 6 = (\<lambda>d. d)"
  shows "\<exists>s res r. sub_ID s = sid \<and> sub_Status s = StatusRunning \<and> re_execute re s = Inr res \<and> row_at (submissions d') sid = Some r
    \<and> r_status r = StatusCompleted \<and> map_option blob_plain (r_result_enc r) = Some res"
proof -
  from assms(1) obtain nonce d1 d2 where
    own: "owned_run re ttl sid (''submission/'' @ sid) (invocationOwner base nonce) d1 = (Inr (), d2)"
    and d': "d' = snd (releaseLease (re_release re) (take 2 (re_retries re)) (''submission/'' @ sid)
      (invocationOwner base nonce) d2)"
    using assms(2)
    by (auto simp: Run_def Let_def split: sum.splits prod.splits option.splits if_splits)
  from own obtain s d3 where prep: "prepare re ttl sid (''submission/'' @ sid) (invocationOwner base nonce) d1
      = (Inr s, d3)" and "publish re sid (''submission/'' @ sid) (invocationOwner base nonce)
      (re_execute re s) d3 = (Inr (), d2)"
    by (auto simp: owned_run_def split: sum.splits prod.splits)
  from publish_success [OF this(2)] prepare_running_state [OF prep] show ?thesis
    by (auto simp: d' releaseLease_submissions)
qed

theorem run_success_published_witness:
  "\<exists>r. row_at (submissions (snd (Run demo_run ''o'' (60 * Second) ''s1'' replayable_db))) ''s1'' = Some r
     \<and> r_status r = StatusCompleted \<and> map_option blob_plain (r_result_enc r) = Some demo_result"
proof -
  have "fst (Run demo_run ''o'' (60 * Second) ''s1'' replayable_db) = Inr ()" by code_simp
  then have "Run demo_run ''o'' (60 * Second) ''s1'' replayable_db
      = (Inr (), snd (Run demo_run ''o'' (60 * Second) ''s1'' replayable_db))" by (simp add: prod_eq_iff)
  from run_success_published [OF this] show ?thesis by (auto simp: demo_run_def)
qed

text \<open>
  A stale worker publishes nothing. If the worker's lease is no longer live when it comes to
  publish, neither a result nor a failure reaches the database.
\<close>

theorem stale_worker_silent:
  assumes "\<not> holds (re_other re 5 d) n w (UnixMilli (env_now (re_finish re)))"
  shows "snd (publish re sid n w outcome d) = re_other re 5 d"
proof -
  let ?d = "re_other re 5 d"
  have no: "requireLiveLease (re_finish re) ?d (n, w) \<noteq> Inr u" for u
    using assms by (simp add: requireLiveLease_iff)
  have fin: "snd (finish (re_finish re) sid st r g (Some (n, w)) ?d) = ?d" for st r g
    using no by (cases rule: writeTx_cases [of "re_finish re" "''terminal capture''"
        "finish_body (re_finish re) sid st r g (Some (n, w))" ?d])
      (auto simp: finish_def finish_body_def require_lease_def result_simps)
  have "snd (CompleteLeased (re_finish re) sid n w res ?d) = ?d" for res
    using fin [of StatusFailed None "Some result_too_large"] fin [of StatusCompleted "Some res" None]
    by (auto simp: CompleteLeased_def complete_def split: sum.splits prod.splits)
  moreover have "snd (FailLeased (re_finish re) sid n w f ?d) = ?d" for f
    using fin by (auto simp: FailLeased_def split: sum.splits)
  ultimately show ?thesis
    by (auto simp: publish_def Let_def drop_value_def split: sum.splits prod.splits) (metis snd_conv)+
qed

theorem stale_worker_silent_witness:
  "snd (publish demo_run ''s1'' ''submission/s1'' ''gone'' (Inr demo_result) replayable_db) = replayable_db"
proof -
  have "\<not> holds (re_other demo_run 5 replayable_db) ''submission/s1'' ''gone''
      (UnixMilli (env_now (re_finish demo_run)))" by code_simp
  from stale_worker_silent [OF this] show ?thesis by (simp add: demo_run_def)
qed

text \<open>
  The runner is a good citizen of the store: with other processes that keep the invariant, a
  whole run keeps it, on every path (lost lease, deferred or failed execution, cancelled context).
\<close>

theorem run_keeps_invariant:
  assumes "run_env_ok key re" "db_inv key d"
  shows "db_inv key (snd (Run re base ttl sid d))"
  using assms by (rule Run_inv)

theorem run_keeps_invariant_witness:
  "db_inv ''key'' (snd (Run demo_run ''o'' (60 * Second) ''s1'' replayable_db))"
  by (rule run_keeps_invariant [OF demo_run_ok replayable_inv])

text \<open>
  One worker at a time. While another owner holds the submission's lease, a run returns
  \<open>ErrLeaseHeld\<close>, which recovery skips, and changes nothing; in particular it executes nothing.
\<close>

theorem held_lease_skips:
  assumes "holds d (''submission/'' @ sid) w (UnixMilli (env_now (re_claim re)))"
    and "re_nonce re = Inr nonce" "invocationOwner base nonce \<noteq> w"
    and "base \<noteq> ''''" "Millisecond \<le> ttl" "env_fault (re_claim re) ExecStmt = None"
  shows "Run re base ttl sid d = (Inl (Sentinel ErrLeaseHeld), d) \<and> skipped (Sentinel ErrLeaseHeld)"
proof -
  obtain l where l: "row_at (leases d) (''submission/'' @ sid) = Some l" "l_owner l = w"
      "UnixMilli (env_now (re_claim re)) < l_expires_at l"
    using assms(1) by (auto simp: holds_def split: option.splits)
  have "validateLease (''submission/'' @ sid) (invocationOwner base nonce) ttl = Inr ()"
    using assms(4,5) by (simp add: validateLease_iff invocationOwner_def)
  then have "ClaimLease (re_claim re) (''submission/'' @ sid) (invocationOwner base nonce) ttl d = (Inr False, d)"
    using l assms(3,6) by (auto simp: ClaimLease_def Let_def)
  then show ?thesis using assms(2) by (simp add: Run_def Let_def skipped_def)
qed

definition held_db :: db where
  "held_db = snd (ClaimLease (demo_env 1) ''submission/s1'' ''w'' (60 * Second) replayable_db)"

theorem held_lease_skips_witness:
  "Run demo_run ''o'' (60 * Second) ''s1'' held_db = (Inl (Sentinel ErrLeaseHeld), held_db)"
proof -
  have h: "holds held_db (''submission/'' @ ''s1'') ''w'' (UnixMilli (env_now (re_claim demo_run)))" by code_simp
  have n: "re_nonce demo_run = Inr ''x''" "env_fault (re_claim demo_run) ExecStmt = None"
    by (simp_all add: demo_run_def demo_env_def)
  have w: "invocationOwner ''o'' ''x'' \<noteq> ''w''" by code_simp
  show ?thesis using held_lease_skips [OF h n(1) w _ _ n(2), of "60 * Second"] by (simp add: time_units)
qed

end
