(* ===== verification/Application_Input.thy ===== *)
theory Application_Input
  imports Application_Await Worker_Run
begin

text \<open>
  Delivery of input responses (\<open>internal/application/task_input.go\<close>), the mapping of upstream failures
  to the contract (\<open>classify.go\<close>), the local executor (\<open>executor.go\<close>) and, with them, the whole await
  operation (\<open>await.go\<close>).

  \<open>resolve\<close> is the connection resolver the service was configured with. The renewal goroutine of a
  delivery acts between the calls of the delivery like any other process; a cancelled update shows as
  an upstream error.
\<close>

section \<open>Definitions\<close>

subsection \<open>Classified failures\<close>

definition responseTooLarge :: "go_error \<Rightarrow> bool" where
  "responseTooLarge err = is_kind KindTooLarge err"

definition classify :: "go_error \<Rightarrow> contract_error" where
  "classify err =
     (case contract_in err of
        Some ce \<Rightarrow> ce
      | None \<Rightarrow>
          if errors_Is err ErrAuthenticationRequired \<or> IsAuth err then NewError CodeAuthenticationRequired
            ''Tama requires authentication. Complete authorization for the selected profile, then retry.''
          else if errors_Is err ErrProtocolMismatch then NewError CodeProtocolMismatch
            ''The upstream endpoint no longer matches the protocol pinned by the selected profile.''
          else if errors_Is err ErrCatalogMismatch then NewError CodeOperationContractMismatch
            ''The upstream endpoint no longer matches the operation catalog pinned by the selected profile.''
          else if errors_Is err ErrUnexpectedTaskResult then NewError CodeOperationContractMismatch
            ''The upstream returned a task result for a pinned synchronous operation.''
          else if errors_Is err ErrTaskUnavailable then NewError CodeUpstreamExecutionFailed
            ''The upstream task is not available for this profile.''
          else if errors_Is err ErrOperationNotAllowed then NewError CodeOperationNotAllowed
            ''The selected profile does not allow this operation to execute.''
          else if errors_Is err ErrSecureStateUnavailable then NewError CodeStateUnavailable
            ''The secure credential backend is unavailable for this profile.''
          else if responseTooLarge err then NewError CodeResultTooLarge
            ''The upstream response exceeded the size limit accepted for this submission.''
          else NewError CodeUpstreamUnavailable ''The upstream endpoint is currently unavailable.'')"

definition deferredIfContended :: "go_error \<Rightarrow> go_error option" where
  "deferredIfContended err =
     (if IsTokenContended err
      then Some (Errorf ''refresh lease contended in another process'' [Sentinel ErrExecutionDeferred]) else None)"

definition checkDescriptorDigest :: "Connection \<Rightarrow> Submission \<Rightarrow> contract_error option" where
  "checkDescriptorDigest cn sub =
     (let mismatch = Some (NewError CodeOperationContractMismatch
            ''The accepted operation no longer matches its pinned contract.'')
      in case Find (cn_catalog cn) (sub_Tool sub) of
           None \<Rightarrow> mismatch
         | Some d \<Rightarrow> if d_Digest d \<noteq> sub_DescriptorDigest sub then mismatch else None)"

text \<open>\<open>Executor.Execute\<close>; a \<open>BoundaryError\<close> is the contract error it carries.\<close>

definition boundary :: "go_error \<Rightarrow> go_error" where
  "boundary err = (case deferredIfContended err of Some e \<Rightarrow> e | None \<Rightarrow> ContractErr (classify err))"

definition execute_local ::
    "dialect \<Rightarrow> (upstream_api \<Rightarrow> go_error + Connection) \<Rightarrow> Submission \<Rightarrow> world \<Rightarrow> (go_error + result) \<times> world" where
  "execute_local dx resolve sub =
     io_bind (io_map_error boundary (connection resolve)) (\<lambda>cn.
     case checkDescriptorDigest cn sub of
       Some ce \<Rightarrow> io_fail (ContractErr ce)
     | None \<Rightarrow> io_map_error boundary
         (upstream_call (UpOpen (sub_Tool sub) (sub_Arguments sub)) (\<lambda>up.
            ExecuteLocal dx up cn (sub_Tool sub) (sub_Arguments sub) (al_ResponseBytes (sub_AcceptedLimits sub)))))"

subsection \<open>Delivery leases\<close>

definition inputDeliveryTTL :: int where
  "inputDeliveryTTL = 15 * Second"

definition inputDeliveryLease :: "string \<Rightarrow> string" where
  "inputDeliveryLease sid = ''input-delivery/'' @ sid"

definition deliveryTTL :: "int \<Rightarrow> int" where
  "deliveryTTL ttl = (if ttl > 0 then ttl else inputDeliveryTTL)"

text \<open>What ends one pause of the claiming loop; the list of pauses ends with the deadline.\<close>

datatype pause = Elapsed | CallerDone | DeadlineHit

fun claim_loop :: "int \<Rightarrow> string \<Rightarrow> string \<Rightarrow> pause list \<Rightarrow> world \<Rightarrow> (contract_error + unit) \<times> world" where
  "claim_loop ttl name owner pauses w =
     (case store_call (\<lambda>e. ClaimLease e name owner (deliveryTTL ttl)) w of
        (Inl err, w') \<Rightarrow> (Inl (storeError err), w')
      | (Inr True, w') \<Rightarrow> (Inr (), w')
      | (Inr False, w') \<Rightarrow>
          (case pauses of
             Elapsed # rest \<Rightarrow> claim_loop ttl name owner rest w'
           | CallerDone # _ \<Rightarrow> (Inl (failed CodeUpstreamUnavailable
               ''Input delivery was cancelled before it acquired the lease.''), w')
           | _ \<Rightarrow> (Inl (failed CodeUpstreamUnavailable
               ''Another await is delivering input responses. Retry.''), w')))"

declare claim_loop.simps [simp del]

definition claimInputDelivery ::
    "int \<Rightarrow> string \<Rightarrow> pause list \<Rightarrow> world \<Rightarrow> (contract_error + string) \<times> world" where
  "claimInputDelivery ttl sid pauses =
     io_bind (io_map_error (\<lambda>_. failed CodeInternal ''Could not claim input delivery.'') (taskLeaseOwner ''input'')) (\<lambda>owner.
     io_bind (claim_loop ttl (inputDeliveryLease sid) owner pauses) (\<lambda>_. io_return owner))"

definition claimInputDeliveryOnce :: "string \<Rightarrow> world \<Rightarrow> (go_error + string option) \<times> world" where
  "claimInputDeliveryOnce sid =
     io_bind (taskLeaseOwner ''snapshot'') (\<lambda>owner.
     io_bind (store_call (\<lambda>e. ClaimLease e (inputDeliveryLease sid) owner inputDeliveryTTL)) (\<lambda>owned.
     io_return (if owned then Some owner else None)))"

definition release_delivery :: "string \<Rightarrow> string \<Rightarrow> world \<Rightarrow> (go_error + unit) \<times> world" where
  "release_delivery sid owner = store_call (\<lambda>e. ReleaseLease e (inputDeliveryLease sid) owner)"

text \<open>The renewal goroutine: one renewal at once, then one per tick; the result says that the lease was lost.\<close>

definition extendDelivery :: "int \<Rightarrow> string \<Rightarrow> string \<Rightarrow> world \<Rightarrow> bool \<times> world" where
  "extendDelivery ttl name owner w =
     (case store_call (\<lambda>e. RenewLease e name owner (deliveryTTL ttl)) w of (r, w') \<Rightarrow> (r = Inr True, w'))"

fun renewInputDelivery :: "int \<Rightarrow> string \<Rightarrow> string \<Rightarrow> bool list \<Rightarrow> world \<Rightarrow> bool \<times> world" where
  "renewInputDelivery ttl name owner [] w = (False, w)"
| "renewInputDelivery ttl name owner (ended # ticks) w =
     (case extendDelivery ttl name owner w of
        (True, w') \<Rightarrow> renewInputDelivery ttl name owner ticks w'
      | (False, w') \<Rightarrow> (\<not> ended, w'))"

subsection \<open>Delivery\<close>

definition sortedKeys :: "(string, 'v) table \<Rightarrow> string list" where
  "sortedKeys t = sort (map fst t)"

definition requestIDs :: "json option \<Rightarrow> go_error + string list" where
  "requestIDs raw =
     (case raw of
        None \<Rightarrow> Inr []
      | Some v \<Rightarrow> rbind (unmarshal_map v) (\<lambda>doc. Inr (case doc of None \<Rightarrow> [] | Some t \<Rightarrow> sortedKeys t)))"

fun canonicalResponses :: "(string, json option) table \<Rightarrow> contract_error + (string, json) table" where
  "canonicalResponses [] = Inr []"
| "canonicalResponses ((rid, v) # rest) =
     (case Canonical (raw_tokens v) of
        Inl _ \<Rightarrow> Inl (failed CodeInvalidRequest ''input_responses values must be JSON.'')
      | Inr c \<Rightarrow>
          if v = None then Inl (failed CodeInvalidRequest ''input_responses values must be JSON.'')
          else rbind (canonicalResponses rest) (\<lambda>out. Inr ((rid, c) # out)))"

definition response_conflict :: contract_error where
  "response_conflict = failed CodeIdempotencyConflict
     ''input_responses changed a response that was already recorded.''"

definition unreadable_requests :: contract_error where
  "unreadable_requests = failed CodeInternal ''Stored input requests are unreadable.''"

text \<open>Recording one response unless it is there; the result says whether it waits for delivery.\<close>

definition collect_one :: "string \<Rightarrow> bool \<Rightarrow> string \<Rightarrow> json \<Rightarrow> world \<Rightarrow> (contract_error + bool) \<times> world" where
  "collect_one sid live rid val =
     io_bind (io_map_error storeError (store_read (\<lambda>e d. GetInputResponse e sid rid d))) (\<lambda>stored.
     if (case stored of None \<Rightarrow> False | Some x \<Rightarrow> encode x \<noteq> encode val) then io_fail response_conflict
     else if stored = None \<and> \<not> live then io_fail (failed CodeInvalidRequest
       ''input_responses includes an identifier that is not outstanding.'')
     else io_bind (if stored = None
                   then io_map_error (\<lambda>err. if errors_Is err ErrInputResponseConflict then response_conflict else storeError err)
                     (store_call (\<lambda>e. SetInputResponse e sid rid (Some val)))
                   else io_return ()) (\<lambda>_.
     if \<not> live then io_return False
     else io_map_error storeError (store_read (\<lambda>e d. InputResponsePending e sid rid d))))"

fun collect ::
    "string \<Rightarrow> (string \<Rightarrow> bool) \<Rightarrow> (string, json) table \<Rightarrow> string list \<Rightarrow> world \<Rightarrow>
      (contract_error + string list) \<times> world" where
  "collect sid live canonical [] = io_return []"
| "collect sid live canonical (rid # rids) =
     (case row_at canonical rid of
        None \<Rightarrow> collect sid live canonical rids
      | Some val \<Rightarrow>
          io_bind (collect_one sid (live rid) rid val) (\<lambda>waiting.
          io_bind (collect sid live canonical rids) (\<lambda>pending.
          io_return (if waiting then rid # pending else pending))))"

fun still_pending :: "string \<Rightarrow> string list \<Rightarrow> string list \<Rightarrow> world \<Rightarrow> (contract_error + string list) \<times> world" where
  "still_pending sid outstanding [] = io_return []"
| "still_pending sid outstanding (rid # rids) =
     (if rid \<notin> set outstanding then still_pending sid outstanding rids
      else io_bind (io_map_error storeError (store_read (\<lambda>e d. InputResponsePending e sid rid d))) (\<lambda>waiting.
           io_bind (still_pending sid outstanding rids) (\<lambda>live.
           io_return (if waiting then rid # live else live))))"

definition pendingOutstanding ::
    "string \<Rightarrow> string list \<Rightarrow> world \<Rightarrow> (contract_error + string list) \<times> world" where
  "pendingOutstanding sid pending =
     io_bind (io_map_error storeError (store_read (\<lambda>e d. GetSubmission e d sid))) (\<lambda>sub.
     if sub_Status sub \<noteq> StatusInputRequired then io_return []
     else case requestIDs (sub_InputRequests sub) of
         Inl _ \<Rightarrow> io_fail unreadable_requests
       | Inr outstanding \<Rightarrow> still_pending sid outstanding pending)"

definition recordDeliveredInput ::
    "string \<Rightarrow> string \<Rightarrow> string \<Rightarrow> int \<Rightarrow> string list \<Rightarrow> world \<Rightarrow> (contract_error + unit) \<times> world" where
  "recordDeliveredInput sid name owner generation pending =
     io_bind (io_map_error storeError (store_call (\<lambda>e. CommitLease e name owner generation))) (\<lambda>still.
     if \<not> still then io_return ()
     else io_map_error storeError (store_call (\<lambda>e. MarkInputResponsesSent e sid pending)))"

text \<open>The last part of \<open>deliverInput\<close>: the update is sent under the delivery lease and marked.\<close>

definition send_update ::
    "(upstream_api \<Rightarrow> go_error + Connection) \<Rightarrow> string \<Rightarrow> string \<Rightarrow> string \<Rightarrow> (string, json) table \<Rightarrow> string list \<Rightarrow>
      world \<Rightarrow> (contract_error + unit) \<times> world" where
  "send_update resolve sid owner taskID canonical pending =
     (let name = inputDeliveryLease sid;
          body = marshal_map (Some (filter (\<lambda>(rid, _). rid \<in> set pending) canonical))
      in io_bind (io_map_error storeError (store_read (\<lambda>e d. LeaseGeneration e name owner d))) (\<lambda>gen.
         case gen of
           None \<Rightarrow> io_fail (failed CodeUpstreamUnavailable
             ''Input delivery lost its lease before the update was sent. Retry.'')
         | Some generation \<Rightarrow>
             io_bind (io_map_error classify (connection resolve)) (\<lambda>cn.
             io_bind (io_map_error classify
                (upstream_call (UpUpdate taskID body) (\<lambda>up. UpdateTask up taskID (Some body)))) (\<lambda>_.
             recordDeliveredInput sid name owner generation pending))))"

definition deliverInput ::
    "(upstream_api \<Rightarrow> go_error + Connection) \<Rightarrow> string \<Rightarrow> string \<Rightarrow> (string, json) table \<Rightarrow>
      world \<Rightarrow> (contract_error + unit) \<times> world" where
  "deliverInput resolve sid owner canonical =
     io_bind (io_map_error storeError (store_read (\<lambda>e d. GetSubmission e d sid))) (\<lambda>sub.
     case requestIDs (sub_InputRequests sub) of
       Inl _ \<Rightarrow> io_fail unreadable_requests
     | Inr outstanding \<Rightarrow>
         io_bind (collect sid (\<lambda>rid. sub_Status sub = StatusInputRequired \<and> rid \<in> set outstanding)
                    canonical (sortedKeys canonical)) (\<lambda>pending.
         if pending = [] then io_return ()
         else if sub_TaskID sub = '''' then io_fail (failed CodeUpstreamUnavailable
           ''The upstream task handle is not available yet.'')
         else io_bind (pendingOutstanding sid pending) (\<lambda>live.
           if live = [] then io_return ()
           else send_update resolve sid owner (sub_TaskID sub) canonical live)))"

definition applyInputResponses ::
    "(upstream_api \<Rightarrow> go_error + Connection) \<Rightarrow> int \<Rightarrow> pause list \<Rightarrow> Submission \<Rightarrow> AwaitInput \<Rightarrow>
      world \<Rightarrow> (contract_error + unit) \<times> world" where
  "applyInputResponses resolve ttl pauses sub i =
     (if ai_InputResponses i = [] then io_return ()
      else if sub_Strategy sub \<noteq> StrategyUpstreamTask then io_fail (failed CodeInvalidRequest
        ''input_responses is only accepted while the submission is input_required.'')
      else case canonicalResponses (ai_InputResponses i) of
          Inl be \<Rightarrow> io_fail be
        | Inr canonical \<Rightarrow>
            io_bind (claimInputDelivery ttl (sub_ID sub) pauses) (\<lambda>owner.
            io_finally (deliverInput resolve (sub_ID sub) owner canonical) (release_delivery (sub_ID sub) owner)))"

subsection \<open>Await\<close>

definition beyond_sequence :: contract_error where
  "beyond_sequence = failed CodeInvalidRequest ''cursor is beyond the submission's event sequence.''"

definition Await ::
    "(upstream_api \<Rightarrow> go_error + Connection) \<Rightarrow> int \<Rightarrow> pause list \<Rightarrow> await_env \<Rightarrow> AwaitInput \<Rightarrow>
      world \<Rightarrow> (contract_error + AwaitOutput) \<times> world" where
  "Await resolve ttl pauses ae i =
     io_bind (loadForAwait ae (ai_SubmissionID i)) (\<lambda>sub.
     case parseCursor (ai_Cursor i) of
       Inl be \<Rightarrow> io_fail be
     | Inr after \<Rightarrow>
         if after > sub_Sequence sub then io_fail beyond_sequence
         else if aw_cancelled ae then io_return (buildOutput sub after)
         else io_bind (applyInputResponses resolve ttl pauses sub i) (\<lambda>_.
           case resolveWait (aw_limits ae) (ai_TimeoutMS i) of
             Inl be \<Rightarrow> io_fail be
           | Inr wait \<Rightarrow>
               io_bind (if wait > 0 \<and> \<not> Terminal (sub_Status sub) then waitForState ae (aw_ticks ae) sub
                        else io_return sub) (\<lambda>sub'.
               io_return (buildOutput sub' after))))"

section \<open>Lemmas\<close>

subsection \<open>The await operation follows the life of submissions\<close>

lemmas client_intros = life.follows_intros life_ops

lemma reload_life: "keeps (follows (life_rel key) (env_ok key)) (reload sid)"
  unfolding reload_def by (intro client_intros)

lemmas client_cases = life.keeps_cases client_intros

lemma loadForAwait_life: "keeps (follows (life_rel key) (env_ok key)) (loadForAwait ae sid)"
  unfolding loadForAwait_def [abs_def] by (intro client_cases reload_life)

lemma finalState_life: "keeps (follows (life_rel key) (env_ok key)) (finalState ae sub)"
  unfolding finalState_def [abs_def] by (intro client_cases reload_life)

lemma waitForState_life: "keeps (follows (life_rel key) (env_ok key)) (waitForState ae n sub)"
proof (induction n arbitrary: sub)
  case 0
  show ?case
    unfolding waitForState.simps [of _ 0, abs_def] nat.case by (intro client_cases finalState_life)
next
  case (Suc n)
  then show ?case
    unfolding waitForState.simps [of _ "Suc n", abs_def] nat.case by (intro client_cases reload_life)
qed

lemma claim_loop_life: "keeps (follows (life_rel key) (env_ok key)) (claim_loop ttl name owner pauses)"
proof (induction pauses)
  case Nil
  show ?case
    unfolding claim_loop.simps [of _ _ _ "[]", abs_def] list.case bool.case_eq_if by (intro client_cases)
next
  case (Cons x pauses)
  then show ?case
    by (cases x; hypsubst_thin; unfold claim_loop.simps [of _ _ _ "p # pauses" for p, abs_def] list.case pause.case bool.case_eq_if;
        intro client_cases)
qed

lemma collect_one_life: "keeps (follows (life_rel key) (env_ok key)) (collect_one sid live rid val)"
  unfolding collect_one_def by (intro client_intros)

lemma collect_life: "keeps (follows (life_rel key) (env_ok key)) (collect sid live canonical rids)"
  by (induction rids) (auto intro!: client_intros collect_one_life simp del: io_simps)

lemma still_pending_life: "keeps (follows (life_rel key) (env_ok key)) (still_pending sid outstanding rids)"
  by (induction rids) (auto intro!: client_intros simp del: io_simps)

lemma send_update_life:
  "keeps (follows (life_rel key) (env_ok key)) (send_update resolve sid owner taskID canonical pending)"
  unfolding send_update_def recordDeliveredInput_def Let_def by (intro client_intros)

lemma deliverInput_life:
  "keeps (follows (life_rel key) (env_ok key)) (deliverInput resolve sid owner canonical)"
  unfolding deliverInput_def pendingOutstanding_def
  by (intro client_intros collect_life still_pending_life send_update_life)

lemma Await_life: "keeps (follows (life_rel key) (env_ok key)) (Await resolve ttl pauses ae i)"
  unfolding Await_def applyInputResponses_def claimInputDelivery_def release_delivery_def
  by (intro client_intros loadForAwait_life waitForState_life claim_loop_life deliverInput_life)

end
