(* ===== verification/Application_Task.thy ===== *)
theory Application_Task
  imports Application_Input
begin

text \<open>
  The task runner (\<open>internal/application\<close>: \<open>task_run.go\<close>, \<open>task_apply.go\<close>, \<open>task_follow.go\<close>,
  \<open>task_lease.go\<close>, \<open>task_watch.go\<close>): preparing a submission, opening its upstream task, applying
  observed snapshots, and following the task until it is terminal.

  \<open>follow\<close> runs the polling loop and the subscription watcher concurrently. They are interleaved by an
  explicit list of turns; one turn is what one of the two does between two points where the other
  may act (the mutex makes reading the submission and applying a snapshot one turn). What the watcher
  receives from its streams is the argument of its turns.
\<close>

section \<open>Definitions\<close>

record runner =
  rn_owner :: string
  rn_ttl :: int
  rn_resolve :: "upstream_api \<Rightarrow> go_error + Connection"
  rn_now :: "nat \<Rightarrow> string"

text \<open>The first two arguments say that the store and the resolver are not nil.\<close>

definition newTaskRunner :: "bool \<Rightarrow> bool \<Rightarrow> string \<Rightarrow> int \<Rightarrow> go_error + unit" where
  "newTaskRunner st resolver owner ttl =
     rbind (ensure (st \<and> resolver) (errors_New ''task store and connection resolver are required'')) (\<lambda>_.
     rbind (ensure (owner \<noteq> '''') (errors_New ''task runner owner is required'')) (\<lambda>_.
     ensure (Millisecond \<le> ttl) (errors_New ''task lease TTL must be at least 1ms'')))"

subsection \<open>Observations\<close>

definition newerObservation :: "string \<Rightarrow> string \<Rightarrow> bool" where
  "newerObservation prev next =
     (if next = '''' then prev = ''''
      else if prev = '''' then True
      else case (parse_rfc3339 prev, parse_rfc3339 next) of
          (Some pt, Some nt) \<Rightarrow> \<not> nt < pt
        | _ \<Rightarrow> prev \<le> next)"

definition task_event :: "runner \<Rightarrow> nat \<Rightarrow> Submission \<Rightarrow> status \<Rightarrow> string \<Rightarrow> event" where
  "task_event rn n sub state message =
     \<lparr>ev_SubmissionID = sub_ID sub, ev_Sequence = i64 (sub_Sequence sub + 1), ev_Timestamp = rn_now rn n,
      ev_State = state, ev_Step = None, ev_Message = take 256 message\<rparr>"

definition note_task :: "runner \<Rightarrow> Submission \<Rightarrow> status \<Rightarrow> string \<Rightarrow> world \<Rightarrow> (go_error + unit) \<times> world" where
  "note_task rn sub state message w =
     (Inr (), snd (store_call (\<lambda>e. AppendEvents e (sub_ID sub) [task_event rn (w_calls w) sub state message]) w))"

definition raw_text :: "json option \<Rightarrow> string" where
  "raw_text raw = (case raw of None \<Rightarrow> [] | Some v \<Rightarrow> encode v)"

definition task_record :: "TaskSnapshot \<Rightarrow> TaskRecord" where
  "task_record snap =
     \<lparr>tr_TTLMs = sn_TTLMs snap, tr_PollIntervalMs = sn_PollIntervalMs snap,
      tr_Capabilities = raw_text (sn_Capabilities snap),
      tr_UpdatedAt = sn_UpdatedAt snap,
      tr_InputRequests = (if sn_Status snap = StatusInputRequired then sn_InputRequests snap else None)\<rparr>"

definition observe ::
    "string \<Rightarrow> string \<Rightarrow> string \<Rightarrow> TaskSnapshot \<Rightarrow> world \<Rightarrow> (go_error + unit) \<times> world" where
  "observe sid leaseName leaseOwner snap =
     store_call (\<lambda>e. SaveTaskRecordLeased e sid leaseName leaseOwner (task_record snap))"

subsection \<open>Failing\<close>

definition transition_leased ::
    "string \<Rightarrow> string \<Rightarrow> string \<Rightarrow> status \<Rightarrow> TransitionDetail \<Rightarrow> world \<Rightarrow> (go_error + Submission) \<times> world" where
  "transition_leased sid leaseName leaseOwner to detail =
     store_call (\<lambda>e. TransitionLeased e sid leaseName leaseOwner to detail)"

definition get_submission :: "string \<Rightarrow> world \<Rightarrow> (go_error + Submission) \<times> world" where
  "get_submission sid = store_read (\<lambda>e d. GetSubmission e d sid)"

text \<open>
  Running under the input-delivery lease: deferred when it is held by somebody else or the database is
  busy, released on every path.
\<close>

definition with_delivery ::
    "string \<Rightarrow> 'a \<Rightarrow> (world \<Rightarrow> (go_error + 'a) \<times> world) \<Rightarrow> world \<Rightarrow> (go_error + 'a) \<times> world" where
  "with_delivery sid otherwise body w =
     (case claimInputDeliveryOnce sid w of
        (Inl err, w') \<Rightarrow> if errors_Is err ErrBusy then (Inr otherwise, w') else (Inl err, w')
      | (Inr None, w') \<Rightarrow> (Inr otherwise, w')
      | (Inr (Some owner), w') \<Rightarrow> io_finally body (release_delivery sid owner) w')"

definition fail_state :: "contract_error \<Rightarrow> status" where
  "fail_state failure = (if ce_Code failure = CodeOutcomeUnknown then StatusOutcomeUnknown else StatusFailed)"

definition fail_held ::
    "runner \<Rightarrow> string \<Rightarrow> string \<Rightarrow> string \<Rightarrow> contract_error \<Rightarrow> world \<Rightarrow> (go_error + unit) \<times> world" where
  "fail_held rn sid leaseName leaseOwner failure =
     io_bind (get_submission sid) (\<lambda>sub.
     if Terminal (sub_Status sub) then io_return ()
     else io_bind (if sub_Status sub = StatusAccepted \<or> sub_Status sub = StatusQueued
                   then transition_leased sid leaseName leaseOwner StatusRunning no_detail
                   else io_return sub) (\<lambda>_.
          io_bind (transition_leased sid leaseName leaseOwner (fail_state failure)
                     \<lparr>td_TaskID = '''', td_Error = Some failure\<rparr>) (\<lambda>_.
          note_task rn sub (fail_state failure) '''')))"

definition fail_task ::
    "runner \<Rightarrow> string \<Rightarrow> string \<Rightarrow> string \<Rightarrow> contract_error option \<Rightarrow> world \<Rightarrow> (go_error + unit) \<times> world" where
  "fail_task rn sid leaseName leaseOwner failure =
     with_delivery sid () (fail_held rn sid leaseName leaseOwner
       (case failure of
          None \<Rightarrow> NewError CodeUpstreamExecutionFailed ''The upstream task could not be completed.''
        | Some f \<Rightarrow> f))"

text \<open>The failures that end a submission when they hit a lookup, or the opening call.\<close>

definition lookup_fatal :: "go_error \<Rightarrow> bool" where
  "lookup_fatal err \<longleftrightarrow> responseTooLarge err \<or> errors_Is err ErrTaskUnavailable
     \<or> errors_Is err ErrAuthenticationRequired \<or> errors_Is err ErrProtocolMismatch
     \<or> IsAuth err \<or> IsProtocol err"

definition open_fatal :: "go_error \<Rightarrow> bool" where
  "open_fatal err \<longleftrightarrow> responseTooLarge err \<or> IsAuth err \<or> errors_Is err ErrAuthenticationRequired
     \<or> errors_Is err ErrOperationNotAllowed \<or> errors_Is err ErrCatalogMismatch
     \<or> errors_Is err ErrProtocolMismatch \<or> IsProtocol err"

definition failOrDefer ::
    "runner \<Rightarrow> string \<Rightarrow> string \<Rightarrow> string \<Rightarrow> go_error \<Rightarrow> world \<Rightarrow> (go_error + unit) \<times> world" where
  "failOrDefer rn sid leaseName leaseOwner err =
     (if deferredIfContended err \<noteq> None \<or> errors_Is err ErrBusy \<or> errors_Is err ErrLeaseNotOwned
      then io_return ()
      else if lookup_fatal err then fail_task rn sid leaseName leaseOwner (Some (classify err))
      else io_return ())"

subsection \<open>Opening\<close>

definition replayProven :: "Descriptor \<Rightarrow> bool" where
  "replayProven d \<longleftrightarrow> list_ex (\<lambda>b. b_Source b = SourceClientRequestID) (d_Bindings d)"

definition outcomeUnknown :: contract_error where
  "outcomeUnknown = NewError CodeOutcomeUnknown
     ''The upstream operation may have started, but its task handle was not received and the request cannot be retried safely.''"

definition openFailed ::
    "runner \<Rightarrow> string \<Rightarrow> string \<Rightarrow> string \<Rightarrow> Descriptor \<Rightarrow> go_error \<Rightarrow> world \<Rightarrow> (go_error + unit) \<times> world" where
  "openFailed rn sid leaseName leaseOwner d err =
     (if deferredIfContended err \<noteq> None \<or> errors_Is err ErrBusy then io_return ()
      else if open_fatal err then fail_task rn sid leaseName leaseOwner (Some (classify err))
      else if replayProven d then io_return ()
      else fail_task rn sid leaseName leaseOwner (Some outcomeUnknown))"

text \<open>\<open>None\<close> is a nil submission: nothing more to do.\<close>

definition and_stop :: "(world \<Rightarrow> (go_error + unit) \<times> world) \<Rightarrow> world \<Rightarrow> (go_error + 'a option) \<times> world" where
  "and_stop m = io_bind m (\<lambda>_. io_return None)"

definition prepare_task ::
    "runner \<Rightarrow> string \<Rightarrow> string \<Rightarrow> string \<Rightarrow> world \<Rightarrow> (go_error + (Submission \<times> bool) option) \<times> world" where
  "prepare_task rn sid leaseName leaseOwner =
     io_bind (get_submission sid) (\<lambda>sub.
     if sub_Strategy sub \<noteq> StrategyUpstreamTask \<or> Terminal (sub_Status sub) then io_return None
     else let first = (sub_Status sub = StatusAccepted \<or> sub_Status sub = StatusQueued) in
       io_bind (if sub_Status sub = StatusAccepted
                then transition_leased sid leaseName leaseOwner StatusQueued no_detail
                else io_return sub) (\<lambda>sub.
       if sub_Status sub = StatusQueued
       then io_bind (transition_leased sid leaseName leaseOwner StatusRunning no_detail) (\<lambda>sub.
            io_bind (note_task rn sub StatusRunning '''') (\<lambda>_. io_return (Some (sub, first))))
       else io_return (Some (sub, first))))"

definition attach :: "string \<Rightarrow> string \<Rightarrow> world \<Rightarrow> (go_error + unit) \<times> world" where
  "attach sid taskID w =
     (case store_call (\<lambda>e. AttachTaskID e sid taskID) w of
        (Inl err, w') \<Rightarrow> if errors_Is err ErrTaskIDConflict then (Inr (), w') else (Inl err, w')
      | (Inr _, w') \<Rightarrow> (Inr (), w'))"

definition open_task ::
    "runner \<Rightarrow> Connection \<Rightarrow> Submission \<Rightarrow> Descriptor \<Rightarrow> string \<Rightarrow> string \<Rightarrow>
      world \<Rightarrow> (go_error + Submission option) \<times> world" where
  "open_task rn cn sub d leaseName leaseOwner w =
     (case upstream_call (UpOpen (sub_Tool sub) (sub_Arguments sub))
             (\<lambda>up. OpenTask up cn (sub_Tool sub) (sub_Arguments sub)) w of
        (Inl err, w') \<Rightarrow> and_stop (openFailed rn (sub_ID sub) leaseName leaseOwner d err) w'
      | (Inr handle, w') \<Rightarrow>
          io_bind (attach (sub_ID sub) (sn_TaskID handle)) (\<lambda>_.
          io_bind (observe (sub_ID sub) leaseName leaseOwner handle) (\<lambda>_.
          io_bind (get_submission (sub_ID sub)) (\<lambda>sub'. io_return (Some sub')))) w')"

definition ensureTask ::
    "runner \<Rightarrow> Connection \<Rightarrow> Submission \<Rightarrow> string \<Rightarrow> string \<Rightarrow> bool \<Rightarrow>
      world \<Rightarrow> (go_error + Submission option) \<times> world" where
  "ensureTask rn cn sub leaseName leaseOwner first =
     (if sub_TaskID sub \<noteq> '''' then io_return (Some sub)
      else case Find (cn_catalog cn) (sub_Tool sub) of
          None \<Rightarrow> and_stop (fail_task rn (sub_ID sub) leaseName leaseOwner (checkDescriptorDigest cn sub))
        | Some d \<Rightarrow>
            if \<not> first \<and> \<not> replayProven d
            then and_stop (fail_task rn (sub_ID sub) leaseName leaseOwner (Some outcomeUnknown))
            else open_task rn cn sub d leaseName leaseOwner)"

subsection \<open>Applying a snapshot\<close>

definition mismatch :: "contract_error option" where
  "mismatch = Some (classify (Sentinel ErrProtocolMismatch))"

text \<open>The value returned beside the error of a failing call.\<close>

definition and_return :: "'a \<Rightarrow> (world \<Rightarrow> (go_error + unit) \<times> world) \<Rightarrow> world \<Rightarrow> (go_error + 'a) \<times> world" where
  "and_return x m = io_bind m (\<lambda>_. io_return x)"

definition complete_task ::
    "runner \<Rightarrow> Submission \<Rightarrow> string \<Rightarrow> string \<Rightarrow> TaskSnapshot \<Rightarrow> result \<Rightarrow> world \<Rightarrow> (go_error + bool) \<times> world" where
  "complete_task rn sub leaseName leaseOwner snap res w =
     (case store_call (\<lambda>e. CompleteLeased e (sub_ID sub) leaseName leaseOwner res) w of
        (Inl err, w') \<Rightarrow>
          if errors_Is err ErrResultTooLarge
          then and_return True (note_task rn sub StatusCompleted (sn_StatusMessage snap)) w'
          else (Inl err, w')
      | (Inr _, w') \<Rightarrow> and_return True (note_task rn sub StatusCompleted (sn_StatusMessage snap)) w')"

definition apply_status ::
    "runner \<Rightarrow> Submission \<Rightarrow> string \<Rightarrow> string \<Rightarrow> TaskSnapshot \<Rightarrow> world \<Rightarrow> (go_error + bool) \<times> world" where
  "apply_status rn sub leaseName leaseOwner snap =
     (let sid = sub_ID sub; st = sn_Status snap;
          broken = and_return False (fail_task rn sid leaseName leaseOwner mismatch)
      in if st = StatusCompleted then
           (case sn_Result snap of None \<Rightarrow> broken | Some res \<Rightarrow> complete_task rn sub leaseName leaseOwner snap res)
         else if st = StatusRunning \<or> st = StatusInputRequired then
           (if \<not> Allowed (sub_Status sub) st then io_return False
            else io_bind (transition_leased sid leaseName leaseOwner st no_detail) (\<lambda>next.
                 and_return False (note_task rn next st (sn_StatusMessage snap))))
         else if st = StatusFailed \<or> st = StatusCancelled \<or> st = StatusExpired then
           (case sn_Failure snap of
              None \<Rightarrow> broken
            | Some failure \<Rightarrow>
                if \<not> Allowed (sub_Status sub) st then io_return (Terminal (sub_Status sub))
                else io_bind (store_call (\<lambda>e. CaptureTerminalLeased e sid leaseName leaseOwner st failure
                                (raw_text (sn_TerminalEvidence snap)))) (\<lambda>_.
                     and_return True (note_task rn sub st (sn_StatusMessage snap))))
         else broken)"

definition apply_held ::
    "runner \<Rightarrow> Submission \<Rightarrow> string \<Rightarrow> string \<Rightarrow> TaskSnapshot \<Rightarrow> world \<Rightarrow> (go_error + bool) \<times> world" where
  "apply_held rn sub leaseName leaseOwner snap w =
     (case observe (sub_ID sub) leaseName leaseOwner snap w of
        (Inl err, w') \<Rightarrow>
          if errors_Is err ErrConcurrentUpdate \<or> errors_Is err ErrLeaseNotOwned then (Inr False, w')
          else (Inl err, w')
      | (Inr _, w') \<Rightarrow>
          if sn_Status snap = sub_Status sub then (Inr False, w')
          else apply_status rn sub leaseName leaseOwner snap w')"

definition apply_snapshot ::
    "runner \<Rightarrow> Submission \<Rightarrow> string \<Rightarrow> string \<Rightarrow> TaskSnapshot \<Rightarrow> world \<Rightarrow> (go_error + bool) \<times> world" where
  "apply_snapshot rn sub leaseName leaseOwner snap =
     (if sn_TaskID snap = '''' \<or> (sub_TaskID sub \<noteq> '''' \<and> sn_TaskID snap \<noteq> sub_TaskID sub)
      then and_return False (fail_task rn (sub_ID sub) leaseName leaseOwner mismatch)
      else if \<not> newerObservation (sub_TaskUpdatedAt sub) (sn_UpdatedAt snap) \<and> sub_TaskUpdatedAt sub \<noteq> ''''
      then io_return (Terminal (sub_Status sub))
      else with_delivery (sub_ID sub) False (apply_held rn sub leaseName leaseOwner snap))"

subsection \<open>Following\<close>

text \<open>Where the polling loop and the watcher are, the signal between them, and the world.\<close>

datatype main_at = Polling | Polled TaskSnapshot | Waiting | Sleeping | Returned "go_error + unit"

datatype watch_at = Watching | Reconciled TaskSnapshot | WatchOver

record follow =
  fo_main :: main_at
  fo_watch :: watch_at
  fo_terminal :: bool
  fo_world :: world

text \<open>
  The turns: a poll, applying what it read, the end of a wait (timer, signal or cancellation); a
  snapshot on a stream, a reconciliation and its application, the end of the watcher.
\<close>

datatype turn =
    Poll bool | ApplyPolled | TimerFires | SignalSeen | Cancelled
  | StreamSnapshot TaskSnapshot | Reconcile | ApplyReconciled | WatchStops

record task =
  tk_id :: string
  tk_lease :: string
  tk_owner :: string

text \<open>The closure \<open>apply\<close> of \<open>follow\<close>, under the mutex.\<close>

definition apply_current :: "runner \<Rightarrow> task \<Rightarrow> TaskSnapshot \<Rightarrow> world \<Rightarrow> (go_error + bool) \<times> world" where
  "apply_current rn t snap =
     io_bind (get_submission (tk_id t)) (\<lambda>current.
     if Terminal (sub_Status current) then io_return True
     else apply_snapshot rn current (tk_lease t) (tk_owner t) snap)"

definition get_task :: "Connection \<Rightarrow> Submission \<Rightarrow> world \<Rightarrow> (go_error + TaskSnapshot) \<times> world" where
  "get_task cn current =
     upstream_call (UpGet (sub_TaskID current))
       (\<lambda>up. GetTask up cn (sub_TaskID current) (al_ResponseBytes (sub_AcceptedLimits current)))"

text \<open>One poll: where the loop goes. A contended token sleeps and polls again.\<close>

definition poll :: "runner \<Rightarrow> Connection \<Rightarrow> task \<Rightarrow> world \<Rightarrow> main_at \<times> world" where
  "poll rn cn t w =
     (case get_submission (tk_id t) w of
        (Inl err, w') \<Rightarrow> (Returned (Inl err), w')
      | (Inr current, w') \<Rightarrow>
          if Terminal (sub_Status current) then (Returned (Inr ()), w')
          else (case get_task cn current w' of
                  (Inl err, w'') \<Rightarrow>
                    if deferredIfContended err \<noteq> None then (Sleeping, w'')
                    else (case failOrDefer rn (tk_id t) (tk_lease t) (tk_owner t) err w'' of
                            (r, w3) \<Rightarrow> (Returned r, w3))
                | (Inr snap, w'') \<Rightarrow> (Polled snap, w'')))"

definition reconcile :: "Connection \<Rightarrow> task \<Rightarrow> world \<Rightarrow> (watch_at \<times> bool) \<times> world" where
  "reconcile cn t w =
     (case get_submission (tk_id t) w of
        (Inl err, w') \<Rightarrow> ((WatchOver, False), w')
      | (Inr current, w') \<Rightarrow>
          if Terminal (sub_Status current) then ((WatchOver, True), w')
          else (case get_task cn current w' of
                  (Inl err, w'') \<Rightarrow> ((WatchOver, False), w'')
                | (Inr snap, w'') \<Rightarrow> ((Reconciled snap, False), w'')))"

text \<open>After the watcher applied a snapshot: done signals and ends it, so does an error after a reconciliation.\<close>

definition watch_applied :: "bool \<Rightarrow> (go_error + bool) \<times> world \<Rightarrow> follow \<Rightarrow> follow" where
  "watch_applied strict res s =
     (case res of
        (Inr True, w') \<Rightarrow> s\<lparr>fo_watch := WatchOver, fo_terminal := True, fo_world := w'\<rparr>
      | (Inr False, w') \<Rightarrow> s\<lparr>fo_watch := Watching, fo_world := w'\<rparr>
      | (Inl _, w') \<Rightarrow> s\<lparr>fo_watch := (if strict then WatchOver else Watching), fo_world := w'\<rparr>)"

definition follow_turn :: "runner \<Rightarrow> Connection \<Rightarrow> task \<Rightarrow> turn \<Rightarrow> follow \<Rightarrow> follow" where
  "follow_turn rn cn t x s =
     (case x of
        Poll ended \<Rightarrow>
          if fo_main s \<noteq> Polling then s
          else if ended then s\<lparr>fo_main := Returned (Inl (Sentinel ErrCanceled))\<rparr>
          else (case poll rn cn t (fo_world s) of (pos, w') \<Rightarrow> s\<lparr>fo_main := pos, fo_world := w'\<rparr>)
      | ApplyPolled \<Rightarrow>
          (case fo_main s of
             Polled snap \<Rightarrow>
               (case apply_current rn t snap (fo_world s) of
                  (Inl err, w') \<Rightarrow> s\<lparr>fo_main := Returned (Inl err), fo_world := w'\<rparr>
                | (Inr True, w') \<Rightarrow> s\<lparr>fo_main := Returned (Inr ()), fo_world := w'\<rparr>
                | (Inr False, w') \<Rightarrow> s\<lparr>fo_main := Waiting, fo_world := w'\<rparr>)
           | _ \<Rightarrow> s)
      | TimerFires \<Rightarrow> if fo_main s = Waiting \<or> fo_main s = Sleeping then s\<lparr>fo_main := Polling\<rparr> else s
      | SignalSeen \<Rightarrow> if fo_main s = Waiting \<and> fo_terminal s then s\<lparr>fo_main := Returned (Inr ())\<rparr> else s
      | Cancelled \<Rightarrow> if fo_main s = Waiting \<or> fo_main s = Sleeping then s\<lparr>fo_main := Returned (Inl (Sentinel ErrCanceled))\<rparr> else s
      | StreamSnapshot snap \<Rightarrow>
          if fo_watch s = Watching then watch_applied False (apply_current rn t snap (fo_world s)) s else s
      | Reconcile \<Rightarrow>
          if fo_watch s = Watching
          then (case reconcile cn t (fo_world s) of
                  ((pos, done), w') \<Rightarrow> s\<lparr>fo_watch := pos, fo_terminal := fo_terminal s \<or> done, fo_world := w'\<rparr>)
          else s
      | ApplyReconciled \<Rightarrow>
          (case fo_watch s of
             Reconciled snap \<Rightarrow> watch_applied True (apply_current rn t snap (fo_world s)) s
           | _ \<Rightarrow> s)
      | WatchStops \<Rightarrow> s\<lparr>fo_watch := WatchOver\<rparr>)"

definition follow_start :: "world \<Rightarrow> follow" where
  "follow_start w = \<lparr>fo_main = Polling, fo_watch = Watching, fo_terminal = False, fo_world = w\<rparr>"

definition follow_run :: "runner \<Rightarrow> Connection \<Rightarrow> task \<Rightarrow> turn list \<Rightarrow> world \<Rightarrow> follow" where
  "follow_run rn cn t turns w = fold (follow_turn rn cn t) turns (follow_start w)"

text \<open>A schedule that ends before the loop returned is a cancelled run.\<close>

definition follow_task :: "runner \<Rightarrow> Connection \<Rightarrow> task \<Rightarrow> turn list \<Rightarrow> world \<Rightarrow> (go_error + unit) \<times> world" where
  "follow_task rn cn t turns w =
     (let s = follow_run rn cn t turns w
      in (case fo_main s of Returned r \<Rightarrow> r | _ \<Rightarrow> Inl (Sentinel ErrCanceled), fo_world s))"

definition drive ::
    "runner \<Rightarrow> turn list \<Rightarrow> string \<Rightarrow> string \<Rightarrow> string \<Rightarrow> world \<Rightarrow> (go_error + unit) \<times> world" where
  "drive rn turns sid leaseName leaseOwner =
     io_bind (prepare_task rn sid leaseName leaseOwner) (\<lambda>prepared.
     case prepared of
       None \<Rightarrow> io_return ()
     | Some (sub, first) \<Rightarrow>
         if Terminal (sub_Status sub) then io_return ()
         else (\<lambda>w. case connection (rn_resolve rn) w of
             (Inl err, w') \<Rightarrow> failOrDefer rn sid leaseName leaseOwner err w'
           | (Inr cn, w') \<Rightarrow>
               (case checkDescriptorDigest cn sub of
                  Some failure \<Rightarrow> fail_task rn sid leaseName leaseOwner (Some failure)
                | None \<Rightarrow>
                    io_bind (ensureTask rn cn sub leaseName leaseOwner first) (\<lambda>ensured.
                    case ensured of
                      None \<Rightarrow> io_return ()
                    | Some sub' \<Rightarrow>
                        if sub_TaskID sub' = '''' \<or> Terminal (sub_Status sub') then io_return ()
                        else follow_task rn cn \<lparr>tk_id = sub_ID sub', tk_lease = leaseName, tk_owner = leaseOwner\<rparr> turns)) w'))"

subsection \<open>Running\<close>

text \<open>Three attempts; an element says that the context ended during the pause after a failed attempt.\<close>

fun release_task :: "string \<Rightarrow> string \<Rightarrow> bool list \<Rightarrow> world \<Rightarrow> (go_error + unit) \<times> world" where
  "release_task leaseName leaseOwner [] w = (Inr (), w)"
| "release_task leaseName leaseOwner (ended # rest) w =
     (case store_call (\<lambda>e. ReleaseLease e leaseName leaseOwner) w of
        (Inr _, w') \<Rightarrow> (Inr (), w')
      | (Inl _, w') \<Rightarrow> if ended then (Inr (), w') else release_task leaseName leaseOwner rest w')"

text \<open>The renewal goroutine reports \<open>renewed\<close>; its renewals act between the calls of the runner.\<close>

definition run_task ::
    "runner \<Rightarrow> turn list \<Rightarrow> go_error option \<Rightarrow> go_error option \<Rightarrow> bool list \<Rightarrow> string \<Rightarrow>
      world \<Rightarrow> (go_error + unit) \<times> world" where
  "run_task rn turns renewed ctxErr pauses sid =
     (let leaseName = ''submission/'' @ sid in
      io_bind (io_map_error (\<lambda>e. Errorf ''create task lease owner'' [e]) (taskLeaseOwner (rn_owner rn))) (\<lambda>leaseOwner.
      io_bind (store_call (\<lambda>e. ClaimLease e leaseName leaseOwner (rn_ttl rn))) (\<lambda>owned.
      if \<not> owned then io_return ()
      else io_finally (\<lambda>w. case drive rn turns sid leaseName leaseOwner w of (r, w') \<Rightarrow>
             (case renewed of Some err \<Rightarrow> Inl err | None \<Rightarrow> (case ctxErr of Some err \<Rightarrow> Inl err | None \<Rightarrow> r), w'))
           (release_task leaseName leaseOwner pauses))))"

subsection \<open>Watch delays\<close>

definition nextWatchDelay :: "int \<Rightarrow> bool \<Rightarrow> int \<Rightarrow> int" where
  "nextWatchDelay current received capDelay =
     (if received then taskPollFloor
      else let bound = (if capDelay < taskPollFloor then taskPollFloor else capDelay); next = i64 (current * 2)
           in if next < current \<or> next > bound then bound else next)"

definition subscriptionBackoffCap :: "string \<Rightarrow> world \<Rightarrow> int \<times> world" where
  "subscriptionBackoffCap sid w =
     (case get_submission sid w of
        (Inl _, w') \<Rightarrow> (taskPollFloor, w')
      | (Inr sub, w') \<Rightarrow>
          (if sub_TaskPollIntervalMs sub \<le> 0 then taskPollFloor else timerWait (sub_TaskPollIntervalMs sub), w'))"

definition credentialCurrent :: "(int option) option \<Rightarrow> int \<Rightarrow> bool" where
  "credentialCurrent credentials now =
     (case credentials of None \<Rightarrow> True | Some None \<Rightarrow> False | Some (Some expiry) \<Rightarrow> expiry > now)"

section \<open>Lemmas\<close>

subsection \<open>The runner follows the life of submissions\<close>

lemma note_life: "keeps (follows (life_rel key) (env_ok key)) (note_task rn sub st msg)"
  unfolding keeps_def
proof
  fix w
  have "keeps (follows (life_rel key) (env_ok key)) (store_call (\<lambda>e. AppendEvents e (sub_ID sub) evs))" for evs
    by (intro client_intros)
  then show "follows (life_rel key) (env_ok key) w (snd (note_task rn sub st msg w))"
    by (simp add: note_task_def keeps_def)
qed

lemma calls_life:
  "keeps (follows (life_rel key) (env_ok key)) (get_submission sid)"
  "keeps (follows (life_rel key) (env_ok key)) (observe sid n ow snap)"
  "keeps (follows (life_rel key) (env_ok key)) (transition_leased sid n ow to detail)"
  "keeps (follows (life_rel key) (env_ok key)) (release_delivery sid ow)"
  "keeps (follows (life_rel key) (env_ok key)) (claimInputDeliveryOnce sid)"
  unfolding get_submission_def observe_def transition_leased_def release_delivery_def claimInputDeliveryOnce_def
  by (auto intro!: client_intros simp del: io_simps)

lemma with_delivery_eq:
  "with_delivery sid x body = (\<lambda>w. case claimInputDeliveryOnce sid w of
      (Inl err, w') \<Rightarrow> (if errors_Is err ErrBusy then (Inr x, w') else (Inl err, w'))
    | (Inr o1, w') \<Rightarrow> (case o1 of None \<Rightarrow> io_return x | Some owner \<Rightarrow> io_finally body (release_delivery sid owner)) w')"
  by (auto simp: fun_eq_iff with_delivery_def split: prod.split sum.split option.split)

lemma with_delivery_life:
  "keeps (follows (life_rel key) (env_ok key)) body \<Longrightarrow>
   keeps (follows (life_rel key) (env_ok key)) (with_delivery sid x body)"
  unfolding with_delivery_eq by (intro client_cases calls_life)

lemma fail_task_life: "keeps (follows (life_rel key) (env_ok key)) (fail_task rn sid n ow failure)"
  unfolding fail_task_def fail_held_def
  by (intro with_delivery_life client_intros calls_life note_life)

lemma failing_life:
  "keeps (follows (life_rel key) (env_ok key)) (failOrDefer rn sid n ow err)"
  "keeps (follows (life_rel key) (env_ok key)) (openFailed rn sid n ow d err)"
  unfolding failOrDefer_def openFailed_def by (intro client_intros fail_task_life)+

lemma complete_task_life: "keeps (follows (life_rel key) (env_ok key)) (complete_task rn sub n ow snap res)"
  unfolding complete_task_def [abs_def] and_return_def by (intro client_cases note_life)

lemma apply_status_life: "keeps (follows (life_rel key) (env_ok key)) (apply_status rn sub n ow snap)"
  unfolding apply_status_def Let_def and_return_def
  by (intro client_intros note_life fail_task_life complete_task_life calls_life)

lemma apply_snapshot_life: "keeps (follows (life_rel key) (env_ok key)) (apply_snapshot rn sub n ow snap)"
  unfolding apply_snapshot_def apply_held_def [abs_def] and_return_def
  by (intro with_delivery_life client_cases calls_life fail_task_life apply_status_life)

lemma apply_current_life: "keeps (follows (life_rel key) (env_ok key)) (apply_current rn t snap)"
  unfolding apply_current_def by (intro client_intros calls_life apply_snapshot_life)

lemma get_task_life: "keeps (follows (life_rel key) (env_ok key)) (get_task cn sub)"
  unfolding get_task_def by (intro client_intros)

lemma poll_life: "keeps (follows (life_rel key) (env_ok key)) (poll rn cn t)"
proof -
  have "keeps (follows (life_rel key) (env_ok key))
      (\<lambda>w. case failOrDefer rn sid n ow err w of (r, w') \<Rightarrow> (Returned r, w'))" for sid n ow err
    using failing_life(1) [of key rn sid n ow err] by (simp add: keeps_def split_beta)
  then show ?thesis
    unfolding poll_def [abs_def] by (intro client_cases calls_life get_task_life)
qed

lemma reconcile_life: "keeps (follows (life_rel key) (env_ok key)) (reconcile cn t)"
  unfolding reconcile_def [abs_def] by (intro client_cases calls_life get_task_life)

text \<open>A relation the steps of \<open>follow\<close> keep is kept by every schedule.\<close>

context handler
begin

lemma follow_keeps:
  assumes "keeps R (poll rn cn t)" "\<And>snap. keeps R (apply_current rn t snap)" "keeps R (reconcile cn t)"
  shows "keeps R (follow_task rn cn t turns)"
proof -
  have turn: "R (fo_world s) (fo_world (follow_turn rn cn t x s))" for x s
    by (cases x)
      (auto simp: follow_turn_def watch_applied_def R_refl
        intro: keepsD [OF assms(1)] keepsD [OF assms(2)] keepsD [OF assms(3)]
        split: prod.split sum.split bool.split main_at.split watch_at.split)
  have "R (fo_world s) (fo_world (fold (follow_turn rn cn t) turns s))" for s
    by (induction turns arbitrary: s) (auto simp: R_refl intro: R_trans [OF turn])
  from this [of "follow_start w" for w] show ?thesis
    by (simp add: keeps_def follow_task_def follow_run_def follow_start_def Let_def)
qed

end

lemma follow_run_life: "keeps (follows (life_rel key) (env_ok key)) (follow_task rn cn t turns)"
  by (rule life.follow_keeps [OF poll_life apply_current_life reconcile_life])

lemma attach_life: "keeps (follows (life_rel key) (env_ok key)) (attach sid taskID)"
  unfolding attach_def [abs_def] by (intro client_cases)

lemma ensureTask_life: "keeps (follows (life_rel key) (env_ok key)) (ensureTask rn cn sub n ow first)"
  unfolding ensureTask_def open_task_def [abs_def] and_stop_def
  by (intro client_cases fail_task_life failing_life attach_life calls_life)

lemma prepare_life: "keeps (follows (life_rel key) (env_ok key)) (prepare_task rn sid n ow)"
  unfolding prepare_task_def Let_def by (intro client_intros calls_life note_life)

lemma release_task_life: "keeps (follows (life_rel key) (env_ok key)) (release_task n ow pauses)"
proof (induction pauses)
  case Nil
  show ?case unfolding release_task.simps(1) [abs_def] by (intro client_cases)
next
  case (Cons x pauses)
  then show ?case unfolding release_task.simps(2) [abs_def] by (intro client_cases)
qed

lemma drive_life: "keeps (follows (life_rel key) (env_ok key)) (drive rn turns sid n ow)"
  unfolding drive_def
  by (intro client_intros prepare_life)
    (auto intro!: client_cases failing_life fail_task_life ensureTask_life follow_run_life simp del: io_simps split: prod.split)

lemma run_task_life: "keeps (follows (life_rel key) (env_ok key)) (run_task rn turns renewed ctxErr pauses sid)"
proof -
  have "keeps (follows (life_rel key) (env_ok key)) (\<lambda>w. case drive rn turns sid n ow w of (r, w') \<Rightarrow> (f r, w'))" for n ow f
    using drive_life [of key rn turns sid n ow] by (simp add: keeps_def split_beta)
  then show ?thesis
    unfolding run_task_def Let_def by (intro client_intros release_task_life)
qed

end
