(* ===== verification/Application_Delivery.thy ===== *)
theory Application_Delivery
  imports Application_Input
begin

text \<open>
  What the delivery of input responses sends (\<open>deliverInput\<close> of \<open>internal/application/task_input.go\<close>), in
  a world where nobody else acts on the database during the call. \<open>to_send\<close> is the reference: the
  offered requests that are outstanding and not delivered, read off the database.
\<close>

section \<open>Lemmas\<close>

subsection \<open>Deliveries without interference\<close>

definition sent :: "db \<Rightarrow> string \<Rightarrow> string \<Rightarrow> bool" where
  "sent d sid rid \<longleftrightarrow>
     (case row_at (input_responses d) (sid, rid) of None \<Rightarrow> False | Some ir \<Rightarrow> ir_sent_at ir \<noteq> None)"

lemma sent_iff: "sent d sid rid \<longleftrightarrow> (\<exists>ir. row_at (input_responses d) (sid, rid) = Some ir \<and> ir_sent_at ir \<noteq> None)"
  by (auto simp: sent_def split: option.splits)

text \<open>The response on record for a request, and that what is offered is on record, compared as texts.\<close>

definition response_at :: "db \<Rightarrow> string \<times> string \<Rightarrow> json option" where
  "response_at d k = map_option (\<lambda>ir. blob_plain (ir_response_enc ir)) (row_at (input_responses d) k)"

definition on_record :: "db \<Rightarrow> string \<Rightarrow> string \<Rightarrow> json \<Rightarrow> bool" where
  "on_record d sid rid v \<longleftrightarrow> (case response_at d (sid, rid) of None \<Rightarrow> False | Some x \<Rightarrow> encode x = encode v)"

definition record_kept :: "db \<Rightarrow> db \<Rightarrow> bool" where
  "record_kept d d' \<longleftrightarrow> (\<forall>k. response_at d k \<noteq> None \<longrightarrow> response_at d' k = response_at d k)"

lemma on_record_iff: "on_record d sid rid v \<longleftrightarrow> (\<exists>x. response_at d (sid, rid) = Some x \<and> encode x = encode v)"
  by (auto simp: on_record_def split: option.split)

lemma record_kept_simps:
  "record_kept d d" "record_kept d d' \<Longrightarrow> record_kept d' d'' \<Longrightarrow> record_kept d d''"
  by (auto simp: record_kept_def)

lemma on_record_kept: "record_kept d d' \<Longrightarrow> on_record d sid rid v \<Longrightarrow> on_record d' sid rid v"
  by (auto simp: record_kept_def on_record_def split: option.splits)

definition awaited :: "db \<Rightarrow> string \<Rightarrow> string list" where
  "awaited d sid =
     (case row_at (submissions d) sid of
        None \<Rightarrow> []
      | Some r \<Rightarrow>
          if r_status r \<noteq> StatusInputRequired then []
          else case requestIDs (map_option blob_plain (r_input_requests_enc r)) of Inl _ \<Rightarrow> [] | Inr ids \<Rightarrow> ids)"

definition to_send :: "db \<Rightarrow> string \<Rightarrow> (string, json) table \<Rightarrow> string list" where
  "to_send d sid canonical =
     filter (\<lambda>rid. rid \<in> set (awaited d sid) \<and> \<not> sent d sid rid) (sortedKeys canonical)"

definition task_of :: "db \<Rightarrow> string \<Rightarrow> string" where
  "task_of d sid = (case row_at (submissions d) sid of
     None \<Rightarrow> '''' | Some r \<Rightarrow> (case r_task_id r of None \<Rightarrow> '''' | Some t \<Rightarrow> t))"

definition updates :: "world \<Rightarrow> (string \<times> json) list" where
  "updates w = List.map_filter (\<lambda>c. case c of UpUpdate t b \<Rightarrow> Some (t, b) | _ \<Rightarrow> None) (w_log w)"

text \<open>What recording responses leaves alone.\<close>

definition recording :: "world \<Rightarrow> world \<Rightarrow> bool" where
  "recording w w' \<longleftrightarrow> (quiet w \<longrightarrow> quiet w' \<and> w_log w' = w_log w \<and> w_env w' = w_env w
     \<and> submissions (w_db w') = submissions (w_db w) \<and> leases (w_db w') = leases (w_db w)
     \<and> (\<forall>sid rid. sent (w_db w') sid rid = sent (w_db w) sid rid) \<and> record_kept (w_db w) (w_db w')
     \<and> (\<forall>k. row_at (input_responses (w_db w)) k \<noteq> None \<longrightarrow> row_at (input_responses (w_db w')) k \<noteq> None))"

interpretation recording: handler recording
  by unfold_locales (auto simp: recording_def intro: record_kept_simps)

lemma recording_read: "keeps recording (store_read f)"
  unfolding keeps_def recording_def
proof (intro allI impI)
  fix w assume "quiet w"
  from store_read_quiet [OF this, of f "fst (store_read f w)" "snd (store_read f w)", OF prod.collapse [symmetric]]
  show "quiet (snd (store_read f w)) \<and> w_log (snd (store_read f w)) = w_log w
     \<and> w_env (snd (store_read f w)) = w_env w
     \<and> submissions (w_db (snd (store_read f w))) = submissions (w_db w)
     \<and> leases (w_db (snd (store_read f w))) = leases (w_db w)
     \<and> (\<forall>sid rid. sent (w_db (snd (store_read f w))) sid rid = sent (w_db w) sid rid)
     \<and> record_kept (w_db w) (w_db (snd (store_read f w)))
     \<and> (\<forall>k. row_at (input_responses (w_db w)) k \<noteq> None \<longrightarrow>
          row_at (input_responses (w_db (snd (store_read f w)))) k \<noteq> None)"
    by (simp add: record_kept_simps)
qed

lemma set_response_frame:
  "submissions (snd (SetInputResponse e sid rid v d)) = submissions d"
  "leases (snd (SetInputResponse e sid rid v d)) = leases d"
  "sent (snd (SetInputResponse e sid rid v d)) s i = sent d s i"
  "row_at (input_responses d) k \<noteq> None \<Longrightarrow> row_at (input_responses (snd (SetInputResponse e sid rid v d))) k \<noteq> None"
  "record_kept d (snd (SetInputResponse e sid rid v d))"
  by (auto simp: SetInputResponse_def sent_iff record_kept_def response_at_def split: sum.splits option.splits)

lemma recording_set: "keeps recording (store_call (\<lambda>e. SetInputResponse e sid rid v))"
  unfolding keeps_def recording_def
proof (intro allI impI)
  fix w assume "quiet w"
  let ?w' = "snd (store_call (\<lambda>e. SetInputResponse e sid rid v) w)"
  from store_call_quiet [OF \<open>quiet w\<close>, of _ "fst (store_call (\<lambda>e. SetInputResponse e sid rid v) w)" ?w', OF prod.collapse [symmetric]]
  show "quiet ?w' \<and> w_log ?w' = w_log w \<and> w_env ?w' = w_env w
     \<and> submissions (w_db ?w') = submissions (w_db w) \<and> leases (w_db ?w') = leases (w_db w)
     \<and> (\<forall>sid rid. sent (w_db ?w') sid rid = sent (w_db w) sid rid) \<and> record_kept (w_db w) (w_db ?w')
     \<and> (\<forall>k. row_at (input_responses (w_db w)) k \<noteq> None \<longrightarrow> row_at (input_responses (w_db ?w')) k \<noteq> None)"
    using set_response_frame by simp
qed

lemmas recording_intros = recording.keeps_intros recording_read recording_set

lemma recordingD: "keeps recording m \<Longrightarrow> quiet w \<Longrightarrow> m w = (r, w') \<Longrightarrow>
    quiet w' \<and> w_log w' = w_log w \<and> w_env w' = w_env w \<and> submissions (w_db w') = submissions (w_db w)
    \<and> leases (w_db w') = leases (w_db w) \<and> sent (w_db w') = sent (w_db w) \<and> record_kept (w_db w) (w_db w')
    \<and> (\<forall>k. row_at (input_responses (w_db w)) k \<noteq> None \<longrightarrow> row_at (input_responses (w_db w')) k \<noteq> None)"
  using keepsD [of recording m w r w'] by (auto simp: recording_def)

lemma collect_one_recording: "keeps recording (collect_one sid live rid val)"
  unfolding collect_one_def by (intro recording_intros)

lemma collect_recording: "keeps recording (collect sid live canonical rids)"
  by (induction rids) (auto intro!: recording_intros collect_one_recording simp del: io_simps)

lemma still_pending_recording: "keeps recording (still_pending sid outstanding rids)"
  by (induction rids) (auto intro!: recording_intros simp del: io_simps)

lemma set_response_stored:
  "fst (SetInputResponse e sid rid v d) = Inr () \<Longrightarrow>
     row_at (input_responses (snd (SetInputResponse e sid rid v d))) (sid, rid) \<noteq> None"
  by (auto simp: SetInputResponse_def split: sum.splits option.splits)

lemma set_response_on_record:
  "fst (SetInputResponse e sid rid (Some v) d) = Inr () \<Longrightarrow> on_record (snd (SetInputResponse e sid rid (Some v) d)) sid rid v"
  by (auto simp: SetInputResponse_def GetInputResponse_def on_record_def response_at_def result_simps seal_blob_def open_blob_def
      split: sum.splits option.splits if_splits)

lemma get_response_on_record:
  "GetInputResponse e sid rid d = Inr stored \<Longrightarrow> stored = response_at d (sid, rid)"
  by (auto simp: GetInputResponse_def response_at_def result_simps open_blob_def split: option.splits if_splits)

lemma pending_read:
  "InputResponsePending e sid rid d = Inr b \<Longrightarrow> b \<longleftrightarrow> row_at (input_responses d) (sid, rid) \<noteq> None \<and> \<not> sent d sid rid"
  by (auto simp: InputResponsePending_def sent_iff result_simps split: option.splits)

lemma collect_one_result:
  assumes "quiet w" "collect_one sid live rid val w = (Inr b, w')"
  shows "((b \<longleftrightarrow> live \<and> \<not> sent (w_db w) sid rid) \<and> (b \<longrightarrow> row_at (input_responses (w_db w')) (sid, rid) \<noteq> None))
    \<and> on_record (w_db w') sid rid val"
proof -
  obtain stored w1 where g: "store_read (\<lambda>e d. GetInputResponse e sid rid d) w = (Inr stored, w1)"
    and rest: "(if (case stored of None \<Rightarrow> False | Some x \<Rightarrow> encode x \<noteq> encode val) then io_fail response_conflict
     else if stored = None \<and> \<not> live then io_fail (failed CodeInvalidRequest
       ''input_responses includes an identifier that is not outstanding.'')
     else io_bind (if stored = None
                   then io_map_error (\<lambda>err. if errors_Is err ErrInputResponseConflict then response_conflict else storeError err)
                     (store_call (\<lambda>e. SetInputResponse e sid rid (Some val)))
                   else io_return ()) (\<lambda>_.
     if \<not> live then io_return False
     else io_map_error storeError (store_read (\<lambda>e d. InputResponsePending e sid rid d)))) w1 = (Inr b, w')"
    using assms(2) by (auto simp: collect_one_def io_bind_Inr io_map_error_Inr)
  note g' = store_read_quiet [OF assms(1) g]
  have stored: "stored \<noteq> None \<longleftrightarrow> row_at (input_responses (w_db w)) (sid, rid) \<noteq> None"
    using g'(1) [symmetric] by (auto simp: GetInputResponse_def result_simps split: option.splits)
  have same: "on_record (w_db w) sid rid val" if "stored \<noteq> None"
    using that rest get_response_on_record [OF g'(1) [symmetric]] by (auto simp: on_record_def split: option.splits if_splits)
  show ?thesis
  proof (cases live)
    case True
    with rest obtain w2 where
      two: "(if stored = None
         then io_map_error (\<lambda>err. if errors_Is err ErrInputResponseConflict then response_conflict else storeError err)
           (store_call (\<lambda>e. SetInputResponse e sid rid (Some val)))
         else io_return ()) w1 = (Inr (), w2)"
      and p: "store_read (\<lambda>e d. InputResponsePending e sid rid d) w2 = (Inr b, w')"
      by (auto simp: io_bind_Inr io_map_error_Inr split: if_splits option.splits)
    have w2: "quiet w2 \<and> sent (w_db w2) sid rid = sent (w_db w) sid rid
        \<and> row_at (input_responses (w_db w2)) (sid, rid) \<noteq> None \<and> on_record (w_db w2) sid rid val"
    proof (cases "stored = None")
      case True
      with two have c: "store_call (\<lambda>e. SetInputResponse e sid rid (Some val)) w1 = (Inr (), w2)"
        by (simp add: io_map_error_Inr)
      note c' = store_call_quiet [OF g'(3) c]
      from c'(1) have ok: "fst (SetInputResponse (w_env w1 (w_calls w1)) sid rid (Some val) (w_db w1)) = Inr ()"
        by simp
      show ?thesis
        using c' set_response_frame(3) set_response_stored [OF ok] set_response_on_record [OF ok] g'(2) by simp
    next
      case False
      with two stored same g' show ?thesis by auto
    qed
    then have q: "quiet w2" by simp
    with w2 True pending_read [OF store_read_quiet(1) [OF q p, symmetric]] store_read_quiet(2) [OF q p]
    show ?thesis by simp
  next
    case False
    with rest have "stored \<noteq> None" "b = False" "w' = w1" by (auto simp: io_bind_Inr split: if_splits option.splits)
    with False same g'(2) show ?thesis by simp
  qed
qed

lemma collect_result:
  assumes "quiet w" "collect sid live canonical rids w = (Inr pending, w')"
    and "\<And>rid. rid \<in> set rids \<Longrightarrow> row_at canonical rid \<noteq> None"
  shows "pending = filter (\<lambda>rid. live rid \<and> \<not> sent (w_db w) sid rid) rids
    \<and> (\<forall>rid \<in> set pending. row_at (input_responses (w_db w')) (sid, rid) \<noteq> None)
    \<and> (\<forall>rid \<in> set rids. on_record (w_db w') sid rid (the (row_at canonical rid)))"
  using assms
proof (induction rids arbitrary: w pending)
  case (Cons rid rids)
  then obtain val where val: "row_at canonical rid = Some val" by fastforce
  with Cons.prems(2) obtain waiting rest w1 where one: "collect_one sid (live rid) rid val w = (Inr waiting, w1)"
    and more: "collect sid live canonical rids w1 = (Inr rest, w')"
    and pending: "pending = (if waiting then rid # rest else rest)"
    by (auto simp: io_bind_Inr)
  note frame = recordingD [OF collect_one_recording Cons.prems(1) one]
  have "rest = filter (\<lambda>rid. live rid \<and> \<not> sent (w_db w1) sid rid) rids
      \<and> (\<forall>rid \<in> set rest. row_at (input_responses (w_db w')) (sid, rid) \<noteq> None)
      \<and> (\<forall>rid \<in> set rids. on_record (w_db w') sid rid (the (row_at canonical rid)))"
    using Cons.IH [OF _ more] frame Cons.prems(3) by simp
  moreover have "row_at (input_responses (w_db w')) k \<noteq> None" if "row_at (input_responses (w_db w1)) k \<noteq> None" for k
    using recordingD [OF collect_recording _ more] frame that by blast
  moreover have "on_record (w_db w') sid rid val"
    using recordingD [OF collect_recording _ more] frame collect_one_result [OF Cons.prems(1) one] on_record_kept by blast
  ultimately show ?case using frame collect_one_result [OF Cons.prems(1) one] val by (auto simp: pending)
qed simp

lemma still_pending_result:
  assumes "quiet w" "still_pending sid outstanding rids w = (Inr live, w')"
    and "\<And>rid. rid \<in> set rids \<Longrightarrow> row_at (input_responses (w_db w)) (sid, rid) \<noteq> None"
  shows "live = filter (\<lambda>rid. rid \<in> set outstanding \<and> \<not> sent (w_db w) sid rid) rids"
  using assms
proof (induction rids arbitrary: w live)
  case (Cons rid rids)
  show ?case
  proof (cases "rid \<in> set outstanding")
    case True
    with Cons.prems(2) obtain waiting rest w1
      where one: "store_read (\<lambda>e d. InputResponsePending e sid rid d) w = (Inr waiting, w1)"
        and more: "still_pending sid outstanding rids w1 = (Inr rest, w')"
        and live: "live = (if waiting then rid # rest else rest)"
      by (auto simp: io_bind_Inr io_map_error_Inr)
    note frame = store_read_quiet [OF Cons.prems(1) one]
    have "rest = filter (\<lambda>rid. rid \<in> set outstanding \<and> \<not> sent (w_db w1) sid rid) rids"
      using Cons.IH [OF frame(3) more] Cons.prems(3) frame(2) by simp
    then show ?thesis
      using True pending_read [OF frame(1) [symmetric]] Cons.prems(3) [of rid] frame(2) by (simp add: live)
  next
    case False
    then show ?thesis using Cons by simp
  qed
qed simp

lemma GetSubmission_requests:
  assumes "GetSubmission e d sid = Inr s"
  shows "\<exists>r. row_at (submissions d) sid = Some r \<and> sub_Status s = r_status r
    \<and> sub_InputRequests s = map_option blob_plain (r_input_requests_enc r)
    \<and> sub_TaskID s = task_of d sid"
proof -
  from assms obtain r s0 where r: "row_at (submissions d) sid = Some r" "scanSubmission sid r = Inr s0"
      "decryptSubmission e s0 = Inr s"
    by (auto simp: GetSubmission_def result_simps split: option.splits)
  from r(3) obtain args events reqs evidence result where
    q: "open_column e (sub_ID s0) ''input-requests'' (sub_encInputRequests s0) = Inr reqs"
    and s: "s = s0\<lparr>sub_Arguments := args,
      sub_Events := (case events of None \<Rightarrow> [] | Some es \<Rightarrow> es),
      sub_InputRequests := reqs, sub_TerminalEvidence := evidence, sub_Result := result\<rparr>"
    unfolding decryptSubmission_def Let_def rbind_eq_Inr sum.inject by metis
  have "reqs = map_option blob_plain (sub_encInputRequests s0)"
    using q by (auto simp: open_column_def open_blob_def result_simps split: option.splits if_splits)
  then show ?thesis using r(1,2) by (auto simp: s scanSubmission_def result_simps task_of_def)
qed

lemma awaited_read:
  assumes "GetSubmission e d sid = Inr s" "requestIDs (sub_InputRequests s) = Inr ids"
  shows "set (awaited d sid) = (if sub_Status s = StatusInputRequired then set ids else {})"
proof -
  obtain r where "row_at (submissions d) sid = Some r" "sub_Status s = r_status r"
      "sub_InputRequests s = map_option blob_plain (r_input_requests_enc r)"
    using GetSubmission_requests [OF assms(1)] by blast
  then show ?thesis using assms(2) by (simp add: awaited_def)
qed

subsection \<open>What is sent\<close>

lemma updates_log: "w_log w' = w_log w \<Longrightarrow> updates w' = updates w"
  by (simp add: updates_def)

lemma connection_updates:
  assumes "quiet w" "connection resolve w = (r, w')"
  shows "updates w' = updates w" "quiet w'" "w_db w' = w_db w" "w_env w' = w_env w"
  using assms
  by (auto simp: connection_def upstream_call_def updates_def quiet_def map_filter_simps List.map_filter_def
      split: option.splits sum.splits)

definition answers :: "string list \<Rightarrow> (string, json) table \<Rightarrow> json" where
  "answers rids canonical = marshal_map (Some (filter (\<lambda>(rid, _). rid \<in> set rids) canonical))"

lemma mark_sent_frame:
  "submissions (snd (mark_sent e now sid rids d)) = submissions d"
  "sent d s i \<Longrightarrow> sent (snd (mark_sent e now sid rids d)) s i"
  by (induction e now sid rids d rule: mark_sent.induct) (auto simp: sent_iff split: sum.splits option.splits)

lemma mark_sent_recorded: "response_at (snd (mark_sent e now sid rids d)) = response_at d"
proof (induction e now sid rids d rule: mark_sent.induct)
  case (2 e now sid rid rids d)
  have "response_at (d\<lparr>input_responses := put_row (sid, rid) (ir\<lparr>ir_sent_at := t\<rparr>) (input_responses d)\<rparr>) = response_at d"
    if "row_at (input_responses d) (sid, rid) = Some ir" for ir t
    using that by (auto simp: response_at_def fun_eq_iff)
  then show ?case using 2 by (auto split: sum.split option.split)
qed simp

lemma mark_sent_rows:
  "row_at (input_responses d) k \<noteq> None \<Longrightarrow> row_at (input_responses (snd (mark_sent e now sid rids d))) k \<noteq> None"
  by (induction e now sid rids d rule: mark_sent.induct) (auto split: sum.splits option.splits)

lemma mark_sent_marks:
  assumes "fst (mark_sent e now sid rids d) = Inr ()"
    and "\<And>rid. rid \<in> set rids \<Longrightarrow> row_at (input_responses d) (sid, rid) \<noteq> None" "rid \<in> set rids"
  shows "sent (snd (mark_sent e now sid rids d)) sid rid"
  using assms
proof (induction e now sid rids d rule: mark_sent.induct)
  case (2 e now sid i rids d)
  let ?d = "case row_at (input_responses d) (sid, i) of
      None \<Rightarrow> d
    | Some ir \<Rightarrow> if ir_sent_at ir = None
        then d\<lparr>input_responses := put_row (sid, i) (ir\<lparr>ir_sent_at := Some now\<rparr>) (input_responses d)\<rparr> else d"
  have step: "mark_sent e now sid (i # rids) d = mark_sent e now sid rids ?d" "fst (mark_sent e now sid rids ?d) = Inr ()"
    and ok: "\<exists>u. statement e ExecStmt ''mark input response sent'' = Inr u" "i \<noteq> ''''"
    using 2(2) by (auto split: if_splits sum.splits)
  have i: "sent ?d sid i" using 2(3) [of i] by (auto simp: sent_iff split: option.splits)
  have rows: "row_at (input_responses ?d) (sid, x) \<noteq> None" if "x \<in> set rids" for x
    using 2(3) [of x] that by (auto split: option.splits)
  show ?case
  proof (cases "rid = i")
    case True
    then show ?thesis using mark_sent_frame(2) [OF i] step(1) by simp
  next
    case False
    with 2(4) have "rid \<in> set rids" by simp
    then show ?thesis using 2(1) ok step rows by (metis (no_types, lifting))
  qed
qed simp

lemma record_delivered:
  assumes "quiet w" "recordDeliveredInput sid name owner g rids w = (r, w')"
  shows "quiet w' \<and> w_log w' = w_log w \<and> submissions (w_db w') = submissions (w_db w)
    \<and> response_at (w_db w') = response_at (w_db w) \<and> (\<forall>rid. sent (w_db w) sid rid \<longrightarrow> sent (w_db w') sid rid)"
    "r = Inr () \<Longrightarrow> row_at (leases (w_db w)) name = Some l \<Longrightarrow> l_owner l = owner \<Longrightarrow> l_generation l = g \<Longrightarrow>
      \<forall>n. UnixMilli (env_now (w_env w n)) < l_expires_at l \<Longrightarrow>
      \<forall>rid \<in> set rids. row_at (input_responses (w_db w)) (sid, rid) \<noteq> None \<Longrightarrow>
      \<forall>rid \<in> set rids. sent (w_db w') sid rid"
proof -
  obtain q w1 where c: "store_call (\<lambda>e. CommitLease e name owner g) w = (q, w1)" by fastforce
  note c' = store_call_quiet [OF assms(1) c]
  have db: "w_db w1 = w_db w" using c'(2) by (auto simp: CommitLease_def split: sum.splits option.splits)
  consider err where "q = Inl err" "w' = w1" | "q = Inr False" "w' = w1" "r = Inr ()"
    | m where "q = Inr True" "store_call (\<lambda>e. MarkInputResponsesSent e sid rids) w1 = (m, w')" "r = map_error storeError m"
    using assms(2) c by (cases q) (auto simp: recordDeliveredInput_def io_bind_def io_map_error_def split: if_splits prod.splits)
  note cs = this
  show "quiet w' \<and> w_log w' = w_log w \<and> submissions (w_db w') = submissions (w_db w)
    \<and> response_at (w_db w') = response_at (w_db w) \<and> (\<forall>rid. sent (w_db w) sid rid \<longrightarrow> sent (w_db w') sid rid)"
  proof (cases rule: cs)
    case 3
    note m = store_call_quiet [OF c'(3) 3(2)]
    show ?thesis
      using m c' db mark_sent_frame mark_sent_recorded
      by (auto simp: MarkInputResponsesSent_def split: if_splits)
  qed (use c' db in simp_all)
  assume ok: "r = Inr ()" and l: "row_at (leases (w_db w)) name = Some l" "l_owner l = owner" "l_generation l = g"
      "\<forall>n. UnixMilli (env_now (w_env w n)) < l_expires_at l"
    and rows: "\<forall>rid \<in> set rids. row_at (input_responses (w_db w)) (sid, rid) \<noteq> None"
  show "\<forall>rid \<in> set rids. sent (w_db w') sid rid"
  proof (cases rule: cs)
    case 1
    then show ?thesis using ok assms(2) c by (simp add: recordDeliveredInput_def io_bind_def io_map_error_def)
  next
    case 2
    then show ?thesis using c'(1) l by (auto simp: CommitLease_def split: sum.splits)
  next
    case 3
    note m = store_call_quiet [OF c'(3) 3(2)]
    have "m = Inr ()" using 3(3) ok by (cases m) simp_all
    then show ?thesis
      using m db rows mark_sent_marks by (auto simp: MarkInputResponsesSent_def split: if_splits)
  qed
qed

definition lease_held :: "world \<Rightarrow> string \<Rightarrow> string \<Rightarrow> bool" where
  "lease_held w name owner \<longleftrightarrow> (\<exists>l. row_at (leases (w_db w)) name = Some l \<and> l_owner l = owner
     \<and> (\<forall>n. UnixMilli (env_now (w_env w n)) < l_expires_at l))"

lemma update_logged:
  "upstream_call (UpUpdate t b) f w = (r, w') \<Longrightarrow>
     updates w' = updates w @ [(t, b)] \<and> w_db w' = w_db w \<and> w_env w' = w_env w \<and> quiet w' = quiet w"
  by (auto simp: upstream_call_def updates_def List.map_filter_def quiet_def)

lemma send_update_sends:
  assumes "quiet w" "send_update resolve sid owner t canonical rids w = (r, w')"
  shows "updates w' = updates w \<and> r \<noteq> Inr () \<or> updates w' = updates w @ [(t, answers rids canonical)]"
    "submissions (w_db w') = submissions (w_db w) \<and> response_at (w_db w') = response_at (w_db w)
      \<and> (\<forall>rid. sent (w_db w) sid rid \<longrightarrow> sent (w_db w') sid rid)"
    "r = Inr () \<Longrightarrow> lease_held w (inputDeliveryLease sid) owner \<Longrightarrow>
      \<forall>rid \<in> set rids. row_at (input_responses (w_db w)) (sid, rid) \<noteq> None \<Longrightarrow>
      \<forall>rid \<in> set rids. sent (w_db w') sid rid"
proof -
  let ?name = "inputDeliveryLease sid" and ?b = "answers rids canonical"
  obtain g w1 where g: "store_read (\<lambda>e d. LeaseGeneration e ?name owner d) w = (g, w1)" by fastforce
  note g' = store_read_quiet [OF assms(1) g]
  obtain cn w2 where cn: "connection resolve w1 = (cn, w2)" by fastforce
  note cn' = connection_updates [OF g'(3) cn]
  obtain u w3 where u: "upstream_call (UpUpdate t ?b) (\<lambda>up. UpdateTask up t (Some ?b)) w2 = (u, w3)" by fastforce
  note u' = update_logged [OF u]
  have q3: "quiet w3" using u' cn' by simp
  consider "w' = w1" "r \<noteq> Inr ()" | "w' = w2" "r \<noteq> Inr ()" | "w' = w3" "r \<noteq> Inr ()"
    | gen where "g = Inr (Some gen)" "recordDeliveredInput sid ?name owner gen rids w3 = (r, w')"
    using assms(2) g cn u unfolding send_update_def Let_def answers_def [symmetric]
    by (cases g; cases cn; cases u) (auto simp: io_bind_def io_map_error_def split: option.splits)
  note cs = this
  have "updates w1 = updates w" using g'(4) by (rule updates_log)
  then show "updates w' = updates w \<and> r \<noteq> Inr () \<or> updates w' = updates w @ [(t, ?b)]"
  proof (cases rule: cs)
    case (4 gen)
    then show ?thesis
      using record_delivered(1) [OF q3 4(2)] u' cn'(1) \<open>updates w1 = updates w\<close> updates_log [of w' w3] by simp
  qed (use cn'(1) u' in simp_all)
  show "submissions (w_db w') = submissions (w_db w) \<and> response_at (w_db w') = response_at (w_db w)
      \<and> (\<forall>rid. sent (w_db w) sid rid \<longrightarrow> sent (w_db w') sid rid)"
  proof (cases rule: cs)
    case (4 gen)
    then show ?thesis using record_delivered(1) [OF q3 4(2)] g'(2) cn'(3) u' by simp
  qed (use g'(2) cn'(3) u' in simp_all)
  assume ok: "r = Inr ()" and held: "lease_held w ?name owner"
    and rows: "\<forall>rid \<in> set rids. row_at (input_responses (w_db w)) (sid, rid) \<noteq> None"
  from ok cs obtain gen where gen: "g = Inr (Some gen)" "recordDeliveredInput sid ?name owner gen rids w3 = (r, w')"
    by cases auto
  from held obtain l where l: "row_at (leases (w_db w)) ?name = Some l" "l_owner l = owner"
      "\<forall>n. UnixMilli (env_now (w_env w n)) < l_expires_at l" by (auto simp: lease_held_def)
  have "l_generation l = gen"
    using gen(1) g'(1) l by (auto simp: LeaseGeneration_def result_simps dest!: sym [of "Inr _"] split: if_splits)
  then show "\<forall>rid \<in> set rids. sent (w_db w') sid rid"
    using record_delivered(2) [OF q3 gen(2) ok, of l] l rows g'(2,5) cn'(3,4) u' by simp
qed

lemma pendingOutstanding_result:
  assumes "quiet w" "pendingOutstanding sid rids w = (Inr live, w')"
    and "\<forall>rid \<in> set rids. row_at (input_responses (w_db w)) (sid, rid) \<noteq> None"
  shows "live = filter (\<lambda>rid. rid \<in> set (awaited (w_db w) sid) \<and> \<not> sent (w_db w) sid rid) rids"
proof -
  obtain sub w1 where g: "store_read (\<lambda>e d. GetSubmission e d sid) w = (Inr sub, w1)"
    and rest: "(if sub_Status sub \<noteq> StatusInputRequired then io_return []
      else case requestIDs (sub_InputRequests sub) of
         Inl _ \<Rightarrow> io_fail unreadable_requests
       | Inr outstanding \<Rightarrow> still_pending sid outstanding rids) w1 = (Inr live, w')"
    using assms(2) by (auto simp: pendingOutstanding_def io_bind_Inr io_map_error_Inr)
  note g' = store_read_quiet [OF assms(1) g]
  have sub: "GetSubmission (w_env w (w_calls w)) (w_db w) sid = Inr sub" using g'(1) by simp
  show ?thesis
  proof (cases "sub_Status sub = StatusInputRequired")
    case True
    with rest obtain outstanding where o: "requestIDs (sub_InputRequests sub) = Inr outstanding"
        "still_pending sid outstanding rids w1 = (Inr live, w')"
      by (auto split: sum.splits)
    then show ?thesis
      using still_pending_result [OF g'(3) o(2)] assms(3) g'(2) awaited_read [OF sub o(1)] True by simp
  next
    case False
    moreover have "awaited (w_db w) sid = []"
      using GetSubmission_requests [OF sub] False by (auto simp: awaited_def)
    ultimately show ?thesis using rest by simp
  qed
qed

lemma sortedKeys_present: "rid \<in> set (sortedKeys t) \<longleftrightarrow> row_at t rid \<noteq> None"
  by (auto simp: sortedKeys_def row_at_def map_of_eq_None_iff)

lemma deliverInput_cases:
  assumes "quiet w" "deliverInput resolve sid owner canonical w = (r, w')"
  obtains "w_log w' = w_log w" "r \<noteq> Inr ()" "record_kept (w_db w) (w_db w')"
  | "w_log w' = w_log w" "to_send (w_db w) sid canonical = []"
      "submissions (w_db w') = submissions (w_db w)" "sent (w_db w') = sent (w_db w)"
      "record_kept (w_db w) (w_db w')" "\<forall>rid v. row_at canonical rid = Some v \<longrightarrow> on_record (w_db w') sid rid v"
  | w1 where "quiet w1" "w_log w1 = w_log w" "w_env w1 = w_env w"
      "submissions (w_db w1) = submissions (w_db w)" "leases (w_db w1) = leases (w_db w)"
      "sent (w_db w1) = sent (w_db w)" "to_send (w_db w) sid canonical \<noteq> []"
      "\<forall>rid \<in> set (to_send (w_db w) sid canonical). row_at (input_responses (w_db w1)) (sid, rid) \<noteq> None"
      "send_update resolve sid owner (task_of (w_db w) sid) canonical (to_send (w_db w) sid canonical) w1 = (r, w')"
      "record_kept (w_db w) (w_db w1)" "\<forall>rid v. row_at canonical rid = Some v \<longrightarrow> on_record (w_db w1) sid rid v"
proof -
  obtain q w1 where g: "store_read (\<lambda>e d. GetSubmission e d sid) w = (q, w1)" by fastforce
  note g' = store_read_quiet [OF assms(1) g]
  consider "w' = w1" "r \<noteq> Inr ()"
    | sub outstanding where "q = Inr sub" "requestIDs (sub_InputRequests sub) = Inr outstanding"
    using assms(2) g by (cases q) (auto simp: deliverInput_def io_bind_def io_map_error_def split: sum.splits)
  then show thesis
  proof cases
    case 1
    with g'(2,4) that(1) show thesis by (simp add: record_kept_simps)
  next
    case (2 sub outstanding)
    let ?live = "\<lambda>rid. sub_Status sub = StatusInputRequired \<and> rid \<in> set outstanding"
    have sub: "GetSubmission (w_env w (w_calls w)) (w_db w) sid = Inr sub" using g'(1) 2(1) by simp
    have task: "sub_TaskID sub = task_of (w_db w) sid" using GetSubmission_requests [OF sub] by blast
    obtain p w2 where p: "collect sid ?live canonical (sortedKeys canonical) w1 = (p, w2)" by fastforce
    note frame = recordingD [OF collect_recording g'(3) p]
    show thesis
    proof (cases p)
      case (Inl err)
      then have "w' = w2" "r \<noteq> Inr ()"
        using assms(2) g p 2 by (auto simp: deliverInput_def io_bind_def io_map_error_def)
      with frame g'(2,4) that(1) show thesis by simp
    next
      case (Inr pending)
      have c: "pending = filter (\<lambda>rid. ?live rid \<and> \<not> sent (w_db w1) sid rid) (sortedKeys canonical)
          \<and> (\<forall>rid \<in> set pending. row_at (input_responses (w_db w2)) (sid, rid) \<noteq> None)
          \<and> (\<forall>rid \<in> set (sortedKeys canonical). on_record (w_db w2) sid rid (the (row_at canonical rid)))"
        by (rule collect_result [OF g'(3) p [unfolded Inr]]) (simp add: sortedKeys_present)
      have pending: "pending = to_send (w_db w) sid canonical"
        using c awaited_read [OF sub 2(2)] g'(2) by (auto simp: to_send_def)
      have rows: "\<forall>rid \<in> set pending. row_at (input_responses (w_db w2)) (sid, rid) \<noteq> None" using c by blast
      have all: "on_record (w_db w2) sid rid v" if "row_at canonical rid = Some v" for rid v
      proof -
        have "rid \<in> set (sortedKeys canonical)" using that by (simp add: sortedKeys_present)
        then have "on_record (w_db w2) sid rid (the (row_at canonical rid))" using c by blast
        then show ?thesis using that by simp
      qed
      show thesis
      proof (cases "pending = []")
        case True
        then have "w' = w2" using assms(2) g p 2 Inr by (auto simp: deliverInput_def io_bind_def io_map_error_def)
        with frame g'(2,4) that(2) pending True all show thesis by simp
      next
        case False
        obtain l w3 where l: "pendingOutstanding sid pending w2 = (l, w3)" by fastforce
        have lrec: "keeps recording (pendingOutstanding sid pending)"
          unfolding pendingOutstanding_def by (intro recording_intros still_pending_recording)
        note frame' = recordingD [OF lrec _ l]
        have live: "l = Inr pending \<or> (\<exists>err. l = Inl err)"
        proof (cases l)
          case (Inr live)
          have "awaited (w_db w2) sid = awaited (w_db w) sid" using frame g'(2) by (simp add: awaited_def)
          with pendingOutstanding_result [OF _ l [unfolded Inr]] frame g'(2) rows have
            "live = filter (\<lambda>rid. rid \<in> set (awaited (w_db w) sid) \<and> \<not> sent (w_db w) sid rid) pending" by simp
          then have "live = pending" by (simp add: pending to_send_def filter_id_conv)
          with Inr show ?thesis by simp
        qed simp
        consider "w' = w2" "r \<noteq> Inr ()" | "w' = w3" "r \<noteq> Inr ()"
          | "send_update resolve sid owner (sub_TaskID sub) canonical pending w3 = (r, w')"
          using assms(2) g p 2 Inr False l live
          by (auto simp: deliverInput_def io_bind_def io_map_error_def split: if_splits)
        note ends = this
        have w2: "quiet w2" "w_log w2 = w_log w" "record_kept (w_db w) (w_db w2)" using frame g'(2,4) by simp_all
        note f3 = frame' [OF w2(1)]
        have kept: "record_kept (w_db w2) (w_db w3)" using f3 by blast
        have w3: "quiet w3" "w_log w3 = w_log w" "w_env w3 = w_env w" "submissions (w_db w3) = submissions (w_db w)"
            "leases (w_db w3) = leases (w_db w)" "sent (w_db w3) = sent (w_db w)"
          using frame f3 g'(2,4,5) by simp_all
        have kept': "record_kept (w_db w) (w_db w3)" by (rule record_kept_simps(2) [OF w2(3) kept])
        have rows': "\<forall>rid \<in> set pending. row_at (input_responses (w_db w3)) (sid, rid) \<noteq> None" using rows f3 by blast
        have all': "\<forall>rid v. row_at canonical rid = Some v \<longrightarrow> on_record (w_db w3) sid rid v"
          using all on_record_kept [OF kept] by blast
        show thesis
        proof (cases rule: ends)
          case 1
          show thesis by (rule that(1)) (simp_all only: 1 w2 not_False_eq_True)
        next
          case 2
          show thesis by (rule that(1)) (simp_all only: 2 w3 kept' not_False_eq_True)
        next
          case 3
          show thesis
            by (rule that(3) [OF w3 False [unfolded pending] rows' [unfolded pending] 3 [unfolded pending task] kept' all'])
        qed
      qed
    qed
  qed
qed

section \<open>Properties\<close>

text \<open>
  C22: What a delivery sends. When nobody else acts on the database meanwhile, delivering input
  responses sends at most one update. It goes to the task of the submission and carries exactly those
  of the offered responses whose requests are outstanding and were not delivered before; a call that
  has such responses and sends nothing returns an error. If the call sends or succeeds, every offered
  response is afterwards on record with the offered text, and what was on record before is unchanged:
  an offer that differs from the record is never sent. If the delivery lease outlives a successful
  call, the exact replay has nothing left to send.
\<close>

theorem input_delivered_exactly:
  assumes "quiet w" "deliverInput resolve sid owner canonical w = (r, w')"
  shows "(updates w' = updates w \<and> (r = Inr () \<longrightarrow> to_send (w_db w) sid canonical = [])
      \<or> to_send (w_db w) sid canonical \<noteq> [] \<and> updates w' = updates w
          @ [(task_of (w_db w) sid, answers (to_send (w_db w) sid canonical) canonical)])
    \<and> (r = Inr () \<or> updates w' \<noteq> updates w \<longrightarrow>
         (\<forall>rid v. row_at canonical rid = Some v \<longrightarrow> (\<exists>x. response_at (w_db w') (sid, rid) = Some x \<and> encode x = encode v)))
    \<and> (\<forall>k x. response_at (w_db w) k = Some x \<longrightarrow> response_at (w_db w') k = Some x)
    \<and> (r = Inr () \<and> lease_held w (inputDeliveryLease sid) owner \<longrightarrow> to_send (w_db w') sid canonical = [])"
  using assms
proof (cases rule: deliverInput_cases)
  case 1
  have "updates w' = updates w" using 1(1) by (rule updates_log)
  then show ?thesis using 1(2,3) by (simp add: record_kept_def)
next
  case 2
  moreover have "to_send (w_db w') sid canonical = to_send (w_db w) sid canonical"
    using 2(3,4) by (simp add: to_send_def awaited_def)
  moreover have "updates w' = updates w" using 2(1) by (rule updates_log)
  ultimately show ?thesis using 2(5,6) by (simp add: record_kept_def on_record_iff)
next
  case (3 w1)
  note s = send_update_sends [OF 3(1,9)]
  have u: "updates w1 = updates w" using 3(2) by (rule updates_log)
  have "to_send (w_db w') sid canonical = []" if "r = Inr ()" "lease_held w (inputDeliveryLease sid) owner"
  proof -
    have "lease_held w1 (inputDeliveryLease sid) owner"
      using that(2) 3(3,5) by (simp add: lease_held_def)
    then have "\<forall>rid \<in> set (to_send (w_db w) sid canonical). sent (w_db w') sid rid"
      using s(3) [OF that(1)] 3(8) by blast
    moreover have "awaited (w_db w') sid = awaited (w_db w) sid"
      using s(2) 3(4) by (simp add: awaited_def)
    ultimately show ?thesis using s(2) 3(6) by (auto simp: to_send_def filter_empty_conv)
  qed
  moreover have "\<forall>rid v. row_at canonical rid = Some v \<longrightarrow> (\<exists>x. response_at (w_db w') (sid, rid) = Some x \<and> encode x = encode v)"
    using 3(11) s(2) by (simp add: on_record_iff)
  moreover have "\<forall>k x. response_at (w_db w) k = Some x \<longrightarrow> response_at (w_db w') k = Some x"
    using 3(10) s(2) by (simp add: record_kept_def)
  ultimately show ?thesis using s(1) 3(7) by (auto simp: u)
qed

definition input_record :: TaskRecord where
  "input_record = \<lparr>tr_TTLMs = 1000, tr_PollIntervalMs = 1000, tr_Capabilities = '''', tr_UpdatedAt = '''',
     tr_InputRequests = Some (JObj [(''q1'', JObj []), (''q2'', JObj [])])\<rparr>"

definition input_db :: db where
  "input_db = history perform
     [(OpCreate demo_new, demo_env 1), (OpClaim ''submission/s1'' ''w'' (60 * Second), demo_env 2),
      (OpClaim (inputDeliveryLease ''s1'') ''in'' (60 * Second), demo_env 2),
      (OpTransition ''s1'' StatusQueued no_detail None, demo_env 3),
      (OpTransition ''s1'' StatusRunning no_detail None, demo_env 4), (OpAttach ''s1'' ''t1'', demo_env 4),
      (OpSaveTask ''s1'' ''submission/s1'' ''w'' input_record, demo_env 5),
      (OpTransition ''s1'' StatusInputRequired no_detail None, demo_env 6),
      (OpSetResponse ''s1'' ''q2'' (Some (JStr ''old'')), demo_env 6),
      (OpMarkSent ''s1'' [''q2''], demo_env 7)] empty_db"

definition demo_api :: upstream_api where
  "demo_api = \<lparr>up_discover = (\<lambda>_. Inl (errors_New '''')), up_list = (\<lambda>_. Inl (errors_New '''')),
     up_call = (\<lambda>_. Inl (errors_New '''')), up_get = (\<lambda>_ _. Inl (errors_New '''')),
     up_update = (\<lambda>_ _. Inr (JObj [])), up_subscribe = (\<lambda>_ _. (None, no_delivery))\<rparr>"

definition demo_connection :: Connection where
  "demo_connection = \<lparr>cn_catalog = [], cn_serverCapabilities = None, cn_taskExtension = True, cn_serverInfo = None\<rparr>"

definition input_world :: world where
  "input_world = \<lparr>w_db = input_db, w_calls = 0, w_env = (\<lambda>_. demo_env 8), w_other = (\<lambda>_ d. d),
     w_nonce = (\<lambda>_. Inr ''n''), w_up = (\<lambda>_. demo_api), w_log = [], w_conn = Some demo_connection\<rparr>"

definition input_answers :: "(string, json) table" where
  "input_answers = [(''q1'', JStr ''new''), (''q2'', JStr ''old'')]"

lemma input_answer_sent:
  "to_send input_db ''s1'' input_answers = [''q1''] \<and> task_of input_db ''s1'' = ''t1''
   \<and> fst (deliverInput (\<lambda>_. Inl (errors_New '''')) ''s1'' ''in'' input_answers input_world) = Inr ()
   \<and> answers [''q1''] input_answers = JObj [(''q1'', JStr ''new'')]"
  by code_simp

lemma input_world_quiet: "quiet input_world"
  by (simp add: quiet_def input_world_def)

theorem input_delivered_exactly_witness:
  "updates (snd (deliverInput (\<lambda>_. Inl (errors_New [])) ''s1'' ''in'' input_answers input_world))
    = [(''t1'', JObj [(''q1'', JStr ''new'')])]
   \<and> (\<exists>x. response_at (w_db (snd (deliverInput (\<lambda>_. Inl (errors_New [])) ''s1'' ''in'' input_answers input_world))) (''s1'', ''q1'')
         = Some x \<and> encode x = encode (JStr ''new''))"
proof -
  have "w_db input_world = input_db" "updates input_world = []"
    by (simp_all add: input_world_def updates_def List.map_filter_def)
  moreover have "row_at input_answers ''q1'' = Some (JStr ''new'')" by (simp add: input_answers_def row_at_def)
  ultimately show ?thesis
    using input_delivered_exactly [OF input_world_quiet prod.collapse [symmetric]] input_answer_sent by fastforce
qed

end
