(* ===== verification/Application_Safety.thy ===== *)
theory Application_Safety
  imports Application_Task Application_Delivery
begin

text \<open>
  What the task runner promises: an upstream task is opened again only when that is safe; and when the
  terminal writes of the store leave a terminal row, which \<open>Application_Outcome\<close> builds on.
\<close>

section \<open>Lemmas\<close>

subsection \<open>Opening calls\<close>

definition opens :: "world \<Rightarrow> upcall list" where
  "opens w = filter (\<lambda>c. case c of UpOpen _ _ \<Rightarrow> True | _ \<Rightarrow> False) (w_log w)"

definition unopened :: "world \<Rightarrow> world \<Rightarrow> bool" where
  "unopened w w' \<longleftrightarrow> opens w' = opens w"

interpretation unopened: handler unopened
  by unfold_locales (simp_all add: unopened_def)

lemma unopened_calls:
  "keeps unopened (store_call f)" "keeps unopened (store_read g)" "keeps unopened (connection resolve)"
  "keeps unopened (get_task cn sub)"
  by (auto simp: keeps_def unopened_def opens_def store_read_def connection_def get_task_def upstream_call_def
      split: option.split sum.split)

lemmas unopened_intros = unopened.keeps_intros unopened_calls
lemmas unopened_cases = unopened.keeps_cases unopened_intros

lemma note_unopened: "keeps unopened (note_task rn sub st msg)"
  by (simp add: keeps_def note_task_def unopened_def opens_def)

lemma store_steps_unopened:
  "keeps unopened (get_submission sid)" "keeps unopened (observe sid n ow snap)"
  "keeps unopened (transition_leased sid n ow to detail)" "keeps unopened (release_delivery sid ow)"
  "keeps unopened (claimInputDeliveryOnce sid)"
  unfolding get_submission_def observe_def transition_leased_def release_delivery_def claimInputDeliveryOnce_def
  by (auto intro!: unopened_intros simp del: io_simps)

lemma with_delivery_unopened: "keeps unopened body \<Longrightarrow> keeps unopened (with_delivery sid x body)"
  unfolding with_delivery_eq by (intro unopened_cases store_steps_unopened)

lemma fail_task_unopened: "keeps unopened (fail_task rn sid n ow failure)"
  unfolding fail_task_def fail_held_def
  by (intro with_delivery_unopened unopened_intros store_steps_unopened note_unopened)

lemma failOrDefer_unopened: "keeps unopened (failOrDefer rn sid n ow err)"
  unfolding failOrDefer_def by (intro unopened_intros fail_task_unopened)

lemma apply_current_unopened: "keeps unopened (apply_current rn t snap)"
  unfolding apply_current_def apply_snapshot_def apply_held_def [abs_def] apply_status_def Let_def
    complete_task_def [abs_def] and_return_def
  by (intro with_delivery_unopened unopened_cases store_steps_unopened fail_task_unopened note_unopened)

lemma poll_unopened: "keeps unopened (poll rn cn t)"
proof -
  have "keeps unopened (\<lambda>w. case failOrDefer rn sid n ow err w of (r, w') \<Rightarrow> (Returned r, w'))" for sid n ow err
    using failOrDefer_unopened [of rn sid n ow err] by (simp add: keeps_def split_beta)
  then show ?thesis
    unfolding poll_def [abs_def] by (intro unopened_cases store_steps_unopened)
qed

lemma reconcile_unopened: "keeps unopened (reconcile cn t)"
  unfolding reconcile_def [abs_def] by (intro unopened_cases store_steps_unopened)

lemma follow_task_unopened: "keeps unopened (follow_task rn cn t turns)"
  by (rule unopened.follow_keeps [OF poll_unopened apply_current_unopened reconcile_unopened])

lemma ensureTask_unopened:
  assumes "\<And>d. Find (cn_catalog cn) (sub_Tool sub) = Some d \<Longrightarrow> \<not> replayProven d"
  shows "keeps unopened (ensureTask rn cn sub n ow False)"
  unfolding ensureTask_def and_stop_def using assms
  by (auto intro!: unopened_intros fail_task_unopened simp del: io_simps split: option.split)

lemma prepare_read:
  assumes "get_submission sid w = (Inr sub, w1)" "sub_Status sub \<noteq> StatusAccepted" "sub_Status sub \<noteq> StatusQueued"
  shows "prepare_task rn sid n ow w = (Inr None, w1) \<or> prepare_task rn sid n ow w = (Inr (Some (sub, False)), w1)"
  using assms by (simp add: prepare_task_def io_bind_def Let_def)

lemma connection_result:
  "connection resolve w = (Inr cn, w') \<Longrightarrow> w_conn w = Some cn \<or> (\<exists>up. resolve up = Inr cn)"
  by (auto simp: connection_def upstream_call_def split: option.splits sum.splits)

subsection \<open>Terminal signals\<close>

definition terminal_at :: "db \<Rightarrow> string \<Rightarrow> bool" where
  "terminal_at d sid \<longleftrightarrow> (\<exists>r. row_at (submissions d) sid = Some r \<and> Terminal (r_status r))"

text \<open>
  \<open>ErrResultTooLarge\<close> has one source: no other error of \<open>complete\<close> wraps it.
\<close>

definition never_large :: "go_error + 'a \<Rightarrow> bool" where
  "never_large r \<longleftrightarrow> (case r of Inl err \<Rightarrow> \<not> errors_Is err ErrResultTooLarge | Inr _ \<Rightarrow> True)"

lemma never_large_simps [simp]:
  "never_large (Inr x)" "never_large (Inl err) \<longleftrightarrow> \<not> errors_Is err ErrResultTooLarge"
  "\<not> errors_Is (errors_New m) st"
  by (simp_all add: never_large_def errors_New_def)

lemma never_largeD: "never_large r \<Longrightarrow> r = Inl err \<Longrightarrow> \<not> errors_Is err ErrResultTooLarge"
  by simp

lemma never_large_rbind: "never_large m \<Longrightarrow> (\<And>x. never_large (f x)) \<Longrightarrow> never_large (rbind m f)"
  by (cases m) (simp_all add: never_large_def)

lemma never_large_map: "never_large m \<Longrightarrow> (\<And>err. \<not> errors_Is err ErrResultTooLarge \<Longrightarrow> \<not> errors_Is (f err) ErrResultTooLarge) \<Longrightarrow> never_large (map_error f m)"
  by (cases m) (simp_all add: never_large_def)

lemma never_large_ensure: "\<not> errors_Is err ErrResultTooLarge \<Longrightarrow> never_large (ensure P err)"
  by (simp add: never_large_def ensure_def)

lemma never_large_if: "never_large x \<Longrightarrow> never_large y \<Longrightarrow> never_large (if P then x else y)"
  by simp

lemma never_large_option: "never_large x \<Longrightarrow> (\<And>y. never_large (f y)) \<Longrightarrow> never_large (case_option x f z)"
  by (cases z) simp_all

lemma never_large_statement: "never_large (statement e st what)"
  by (simp add: never_large_def statement_def driver_error_def wrapBusy_def errors_New_def split: option.split)

lemmas never_large_intros = never_large_rbind never_large_map never_large_ensure never_large_if
  never_large_option never_large_statement

lemma never_large_limits: "never_large (AcceptedLimits_validate lims)"
  unfolding AcceptedLimits_validate_def Validate_def Let_def checkBytes_def checkInt_def checkDuration_def
  by (intro never_large_intros) simp_all

lemma never_large_unavailable: "never_large m \<Longrightarrow> never_large (map_error (unavailable sid) m)"
  by (rule never_large_map) (auto simp: never_large_def unavailable_def)

lemma never_large_column: "never_large (open_column e sid k c)"
  unfolding open_column_def open_blob_def
  by (intro never_large_intros never_large_unavailable) simp_all

lemma never_large_scan: "never_large (scanSubmission sid r)"
  unfolding scanSubmission_def by (intro never_large_intros never_large_unavailable never_large_limits) simp_all

lemma never_large_get: "never_large (GetSubmission e d sid)"
  unfolding GetSubmission_def decryptSubmission_def Let_def
  by (intro never_large_intros never_large_scan never_large_column) simp_all

lemma never_large_decode:
  "never_large (decodeValue n ts)" "never_large (decodeArray n vs ts)" "never_large (decodeObject n ms ts)"
proof (induction n ts and n vs ts and n ms ts rule: decodeValue_decodeArray_decodeObject.induct)
  case (7 n acc ts)
  then show ?case
    by (auto intro!: never_large_rbind simp: consumeClosing_def split: list.split token.split)
qed (auto intro!: never_large_rbind simp: consumeClosing_def split: list.split token.split)

lemma never_large_canonical: "never_large (Canonical ts)"
  unfolding Canonical_def decode_all_def by (intro never_large_intros never_large_decode) simp_all

lemma never_large_result: "never_large (Result_Validate res)"
  unfolding Result_Validate_def
  by (intro never_large_intros)
    (auto dest: never_largeD [OF never_large_canonical] split: sum.split json.split)

lemma never_large_tx:
  assumes "\<And>d. never_large (body d)"
  shows "never_large (fst (writeTx e what body d))"
  unfolding writeTx_def
  by (auto dest: never_largeD [OF never_large_statement] never_largeD [OF assms] split: sum.split prod.split)

lemma never_large_finish: "never_large (fst (finish e sid to res failure lease d))"
proof -
  have "never_large (finish_body e sid to res failure lease d)" for d
    unfolding finish_body_def require_lease_def requireLiveLease_def loadEncrypted_def requireUpdated_def seal_blob_def
    by (intro never_large_intros never_large_scan) (simp_all split: option.split)
  note tx = never_large_tx [of "finish_body e sid to res failure lease", OF this, of e "''terminal capture''" d]
  obtain r d' where w: "writeTx e ''terminal capture'' (finish_body e sid to res failure lease) d = (r, d')" by fastforce
  show ?thesis using tx never_large_get [of e d' sid] by (cases r) (simp_all add: finish_def read_back_def w)
qed

lemma finish_terminal:
  assumes "finish e sid to res failure lease d = (Inr s, d')" "Terminal to"
  shows "terminal_at d' sid"
proof -
  have "writeTx e ''terminal capture'' (finish_body e sid to res failure lease) d = (Inr (), d')"
    using assms(1) by (auto simp: finish_def read_back_def split: prod.splits sum.splits)
  then show ?thesis using assms(2)
    by (auto simp: terminal_at_def writeTx_Inr finish_body_def result_simps requireUpdated_iff finish_row_def)
qed

lemma complete_terminal:
  assumes "CompleteLeased e sid n ow res d = (r, d')"
    and "case r of Inl err \<Rightarrow> errors_Is err ErrResultTooLarge | Inr _ \<Rightarrow> True"
  shows "terminal_at d' sid"
proof -
  have lims: "never_large (rbind (map_error (\<lambda>err. Errorf ''validate result'' [err]) (Result_Validate res))
             (\<lambda>_. loadAcceptedLimits e sid d))"
    unfolding loadAcceptedLimits_def
    by (intro never_large_intros never_large_result never_large_unavailable never_large_limits) simp_all
  have fin: "never_large (fst (finish e sid st x f (Some (n, ow)) d))" for st x f by (rule never_large_finish)
  have ends: "Terminal StatusFailed" "Terminal StatusCompleted" by simp_all
  show ?thesis
    using assms never_largeD [OF lims] fin [of StatusFailed None "Some result_too_large"] fin [of StatusCompleted "Some res" None]
    by (auto simp: CompleteLeased_def Store_Submission.complete_def split: sum.splits prod.splits if_splits
        intro: finish_terminal [OF _ ends(1)] finish_terminal [OF _ ends(2)])
qed

lemma capture_body_terminal:
  assumes b: "capture_body e sid lease to failure evidence d = Inr (a, d')" and "Terminal to"
  shows "terminal_at d' sid"
proof -
  from b obtain s where s: "loadEncrypted e d sid = Inr s" by (auto simp: capture_body_def result_simps)
  from s obtain r where r: "row_at (submissions d) sid = Some r" "sub_Status s = r_status r"
    by (rule loadEncrypted_row)
  show ?thesis
  proof (cases "Terminal (sub_Status s)")
    case True
    with b s r show ?thesis by (auto simp: capture_body_def result_simps terminal_at_def)
  next
    case False
    with b s obtain to' failure' sealed where
      "to' = to \<or> to' = StatusFailed"
      and upd: "requireUpdated (update_where sid (\<lambda>r. r_status r = sub_Status s)
         (capture_row (sub_AcceptedLimits s) (stamp e (Some lease)) to' failure' sealed) d) = Inr (a, d')"
      by (auto simp: capture_body_def result_simps split: if_splits)
    then have "Terminal to'" using assms(2) by auto
    then show ?thesis using upd r(1) by (auto simp: requireUpdated_iff terminal_at_def capture_row_def)
  qed
qed

lemma capture_terminal:
  assumes "CaptureTerminalLeased e sid n ow to failure evidence d = (Inr s, d')"
  shows "terminal_at d' sid"
proof -
  have to: "Terminal to" using assms by (auto simp: CaptureTerminalLeased_def split: if_splits)
  have "writeTx e ''terminal evidence'' (capture_body e sid (n, ow) to failure evidence) d = (Inr (), d')"
    using assms by (auto simp: CaptureTerminalLeased_def read_back_def split: prod.splits sum.splits if_splits)
  then show ?thesis using capture_body_terminal [OF _ to] by (auto simp: writeTx_Inr)
qed

lemma decryptSubmission_fields:
  "decryptSubmission e s = Inr s' \<Longrightarrow> sub_ID s' = sub_ID s \<and> sub_Status s' = sub_Status s"
  by (auto simp: decryptSubmission_def Let_def result_simps)

lemma get_submission_row:
  assumes "get_submission sid w = (Inr sub, w')"
  shows "sub_ID sub = sid" "Terminal (sub_Status sub) \<Longrightarrow> terminal_at (w_db w') sid"
  using assms
  by (auto simp: get_submission_def store_read_def store_call_def Let_def GetSubmission_def
      result_simps terminal_at_def scanSubmission_fields(1,2) split: option.splits dest!: decryptSubmission_fields)

section \<open>Properties\<close>

text \<open>
  C23: No unsafe replay. When the runner picks up a submission that is already running, so that its
  opening call may have reached the server, and the pinned operation does not prove that the call is
  idempotent, driving the submission sends no further opening call, whatever the server, the schedule
  and the other processes do.
\<close>

theorem no_unsafe_replay:
  assumes "fst (get_submission sid w) = Inr sub" "sub_Status sub \<noteq> StatusAccepted" "sub_Status sub \<noteq> StatusQueued"
    and "\<And>cn d. w_conn w = Some cn \<or> (\<exists>up. rn_resolve rn up = Inr cn) \<Longrightarrow>
      Find (cn_catalog cn) (sub_Tool sub) = Some d \<Longrightarrow> \<not> replayProven d"
  shows "opens (snd (drive rn turns sid leaseName leaseOwner w)) = opens w"
proof -
  obtain w1 where g: "get_submission sid w = (Inr sub, w1)" using assms(1) by (metis prod.collapse)
  have conn: "w_conn w1 = w_conn w" using g by (auto simp: get_submission_def store_read_def store_call_def Let_def)
  have w1: "opens w1 = opens w" using keepsD [OF store_steps_unopened(1) g] by (simp add: unopened_def)
  obtain c w2 where c: "connection (rn_resolve rn) w1 = (c, w2)" by fastforce
  have w2: "opens w2 = opens w1" using keepsD [OF unopened_calls(3) c] by (simp add: unopened_def)
  let ?rest = "\<lambda>cn. case checkDescriptorDigest cn sub of
      Some failure \<Rightarrow> fail_task rn sid leaseName leaseOwner (Some failure)
    | None \<Rightarrow> io_bind (ensureTask rn cn sub leaseName leaseOwner False) (\<lambda>ensured. case ensured of
        None \<Rightarrow> io_return ()
      | Some sub' \<Rightarrow> if sub_TaskID sub' = [] \<or> Terminal (sub_Status sub') then io_return ()
          else follow_task rn cn \<lparr>tk_id = sub_ID sub', tk_lease = leaseName, tk_owner = leaseOwner\<rparr> turns)"
  have rest: "keeps unopened (?rest cn)" if "c = Inr cn" for cn
    using assms(4) conn connection_result [OF c [unfolded that]]
    by (auto intro!: unopened_intros fail_task_unopened ensureTask_unopened follow_task_unopened simp del: io_simps
        split: option.split)
  show ?thesis
    using prepare_read [OF g assms(2,3), of rn leaseName leaseOwner] failOrDefer_unopened rest w1 w2 c
    by (cases c) (auto simp: drive_def io_bind_def keeps_def unopened_def split: if_splits)
qed


definition replay_descriptor :: Descriptor where
  "replay_descriptor = demo_descriptor\<lparr>d_Bindings := []\<rparr>"

definition replay_db :: db where
  "replay_db = history perform
     [(OpCreate (demo_new\<lparr>ns_Strategy := StrategyUpstreamTask\<rparr>), demo_env 1), (OpClaim ''submission/s1'' ''w'' (60 * Second), demo_env 2),
      (OpTransition ''s1'' StatusQueued no_detail None, demo_env 3),
      (OpTransition ''s1'' StatusRunning no_detail None, demo_env 4)] empty_db"

definition replay_world :: world where
  "replay_world = input_world\<lparr>w_db := replay_db,
     w_conn := Some (demo_connection\<lparr>cn_catalog := [replay_descriptor]\<rparr>)\<rparr>"

definition replay_runner :: runner where
  "replay_runner = \<lparr>rn_owner = ''o'', rn_ttl = 60 * Second, rn_resolve = (\<lambda>_. Inl (errors_New [])), rn_now = (\<lambda>_. ''t'')\<rparr>"

lemma replay_run:
  "(case fst (get_submission ''s1'' replay_world) of Inl _ \<Rightarrow> False | Inr sub \<Rightarrow>
      sub_Status sub = StatusRunning \<and> sub_Tool sub = ''t'')"
  "demo_status (w_db (snd (drive replay_runner [] ''s1'' ''submission/s1'' ''w'' replay_world))) = Some StatusOutcomeUnknown"
  by code_simp+

theorem no_unsafe_replay_witness:
  "demo_status (w_db (snd (drive replay_runner [] ''s1'' ''submission/s1'' ''w'' replay_world))) = Some StatusOutcomeUnknown
   \<and> opens (snd (drive replay_runner [] ''s1'' ''submission/s1'' ''w'' replay_world)) = []"
proof -
  obtain sub where sub: "fst (get_submission ''s1'' replay_world) = Inr sub" "sub_Status sub = StatusRunning"
    using replay_run(1) by (auto split: sum.splits)
  have "\<not> replayProven d" if "w_conn replay_world = Some cn \<or> (\<exists>up. rn_resolve replay_runner up = Inr cn)"
      "Find (cn_catalog cn) tool = Some d" for cn d tool
    using that by (auto simp: replay_world_def replay_runner_def Find_def replay_descriptor_def replayProven_def
        split: if_splits)
  then have "opens (snd (drive replay_runner [] ''s1'' ''submission/s1'' ''w'' replay_world)) = opens replay_world"
    using sub(2) by (intro no_unsafe_replay [OF sub(1)]) simp_all
  then show ?thesis using replay_run(2) by (simp add: replay_world_def input_world_def opens_def)
qed

definition signal_world :: world where
  "signal_world = replay_world\<lparr>w_db := perform (OpAttach ''s1'' ''t1'') (demo_env 5) replay_db\<rparr>"

definition failed_snapshot :: TaskSnapshot where
  "failed_snapshot = \<lparr>sn_TaskID = ''t1'', sn_Status = StatusFailed, sn_StatusMessage = [], sn_UpdatedAt = [],
     sn_TTLMs = 0, sn_PollIntervalMs = 0, sn_Result = None,
     sn_Failure = Some (NewError CodeUpstreamExecutionFailed ''no''), sn_InputRequests = None,
     sn_Capabilities = None, sn_TerminalEvidence = None\<rparr>"

definition demo_task :: task where
  "demo_task = \<lparr>tk_id = ''s1'', tk_lease = ''submission/s1'', tk_owner = ''w''\<rparr>"

end
