(* ===== verification/Application_Outcome.thy ===== *)
theory Application_Outcome
  imports Application_Safety
begin

text \<open>
  What following a task leaves behind (\<open>follow\<close> of \<open>internal/application/task_follow.go\<close>, \<open>apply\<close> of
  \<open>task_apply.go\<close>): where the outcome of a submission comes from, and that the terminal signal of the
  watcher is truthful, for every schedule of the polling loop and the watcher.
\<close>

section \<open>Lemmas\<close>

subsection \<open>Genuine outcomes\<close>

text \<open>
  A row whose outcome, if the server decides it, is that of a snapshot of its own task. A failed row may
  also record a failure of the runner itself, so it is not constrained here.
\<close>

definition genuine :: "TaskSnapshot set \<Rightarrow> string \<Rightarrow> row \<Rightarrow> bool" where
  "genuine snaps tid r \<longleftrightarrow> (r_status r \<in> {StatusCompleted, StatusCancelled, StatusExpired} \<longrightarrow>
     (\<exists>snap \<in> snaps. sn_TaskID snap = tid \<and> sn_Status snap = r_status r
        \<and> (r_status r = StatusCompleted \<longrightarrow> sn_Result snap \<noteq> None \<and> map_option blob_plain (r_result_enc r) = sn_Result snap)
        \<and> (r_status r \<noteq> StatusCompleted \<longrightarrow> (\<exists>f. sn_Failure snap = Some f \<and> r_error_code r = Some (ce_Code f)))))"

text \<open>
  A property of the row of the submission that each store call of the runner keeps, by what the call may
  write.
\<close>

definition row_with :: "(row \<Rightarrow> bool) \<Rightarrow> string \<Rightarrow> db \<Rightarrow> bool" where
  "row_with P sid d \<longleftrightarrow> (case row_at (submissions d) sid of None \<Rightarrow> False | Some r \<Rightarrow> P r)"

lemma row_with_put: "row_with P sid (d\<lparr>submissions := put_row sid r (submissions d)\<rparr>) \<longleftrightarrow> P r"
  by (simp add: row_with_def)

lemma row_withE: "row_with P sid d \<Longrightarrow> (\<And>r. row_at (submissions d) sid = Some r \<Longrightarrow> P r \<Longrightarrow> thesis) \<Longrightarrow> thesis"
  by (auto simp: row_with_def split: option.splits)

lemma row_with_updated:
  "requireUpdated (update_where sid c f d) = Inr (u, d') \<Longrightarrow> row_with P sid d \<Longrightarrow> (\<And>r. P r \<Longrightarrow> c r \<Longrightarrow> Q (f r)) \<Longrightarrow> row_with Q sid d'"
  by (auto simp: requireUpdated_iff row_with_put elim: row_withE)

lemma writeTx_row:
  "row_with P sid d \<Longrightarrow> (\<And>a d'. body d = Inr (a, d') \<Longrightarrow> row_with P sid d') \<Longrightarrow> row_with P sid (snd (writeTx e what body d))"
  by (cases rule: writeTx_cases [of e what body d]) auto

lemma lease_rows:
  "row_with P sid (snd (ClaimLease e n ow ttl d)) = row_with P sid d" "row_with P sid (snd (ReleaseLease e n ow d)) = row_with P sid d"
proof -
  have "submissions (snd (ClaimLease e n ow ttl d)) = submissions d"
    by (auto simp: ClaimLease_def Let_def split: sum.split option.split)
  moreover have "submissions (snd (ReleaseLease e n ow d)) = submissions d"
    by (auto simp: ReleaseLease_def Let_def split: sum.split option.split)
  ultimately show "row_with P sid (snd (ClaimLease e n ow ttl d)) = row_with P sid d"
      "row_with P sid (snd (ReleaseLease e n ow d)) = row_with P sid d"
    by (simp_all add: row_with_def)
qed

lemma append_row:
  assumes "row_with P sid d" "\<And>r ev q t. P r \<Longrightarrow> P (r\<lparr>r_events_enc := ev, r_sequence := q, r_updated_at := t\<rparr>)"
  shows "row_with P sid (snd (AppendEvents e s evs d))"
  using assms(1)
proof (rule row_withE)
  fix r assume "row_at (submissions d) sid = Some r" "P r"
  then show ?thesis using append_frame [of d sid r e s evs] assms(2) [of r] by (auto simp: row_with_def)
qed

lemma save_row:
  assumes "row_with P sid d" "\<And>r sealed t. P r \<Longrightarrow> P (record_row record sealed t r)"
  shows "row_with P sid (snd (SaveTaskRecordLeased e sid n ow record d))"
  using assms unfolding SaveTaskRecordLeased_def
  by (auto split: sum.split intro!: writeTx_row simp: result_simps elim!: row_with_updated)

lemma read_back_row: "snd (read_back e sid p) = snd p"
  by (auto simp: read_back_def split: prod.split sum.split)

lemma transition_row_with:
  assumes "row_with P sid d" "\<And>r lims t. P r \<Longrightarrow> Allowed (r_status r) to \<Longrightarrow> P (transition_row lims t to detail r)"
  shows "row_with P sid (snd (TransitionLeased e sid n ow to detail d))"
  using assms unfolding TransitionLeased_def transition_def
  by (auto split: sum.split intro!: writeTx_row simp: read_back_row transition_body_def result_simps elim!: row_with_updated)

lemma finish_row_with:
  assumes "row_with P sid d"
    and "\<And>r lims t b. P r \<Longrightarrow> Allowed (r_status r) to \<Longrightarrow> map_option blob_plain b = res \<Longrightarrow> P (finish_row lims t to b failure r)"
  shows "row_with P sid (snd (finish e sid to res failure lease d))"
  using assms unfolding finish_def read_back_row
  by (auto intro!: writeTx_row simp: finish_body_def result_simps seal_blob_iff split: option.splits elim!: row_with_updated)

lemma complete_row_with:
  assumes "row_with P sid d"
    and "\<And>r lims t b. P r \<Longrightarrow> map_option blob_plain b = Some res \<Longrightarrow> P (finish_row lims t StatusCompleted b None r)"
    and "\<And>r lims t b f. P r \<Longrightarrow> P (finish_row lims t StatusFailed b f r)"
  shows "row_with P sid (snd (CompleteLeased e sid n ow res d))"
proof -
  have "row_with P sid (snd (finish e sid StatusFailed None (Some result_too_large) (Some (n, ow)) d))"
    using assms(1,3) by (rule finish_row_with)
  moreover have "row_with P sid (snd (finish e sid StatusCompleted (Some res) None (Some (n, ow)) d))"
    using assms(1,2) by (rule finish_row_with)
  ultimately show ?thesis
    using assms(1) unfolding CompleteLeased_def Store_Submission.complete_def by (auto split: sum.split prod.split)
qed

lemma capture_row_with:
  assumes "row_with P sid d" "\<And>r lims t b. P r \<Longrightarrow> P (capture_row lims t to failure b r)"
    and "\<And>r lims t b f. P r \<Longrightarrow> P (capture_row lims t StatusFailed f b r)"
  shows "row_with P sid (snd (CaptureTerminalLeased e sid n ow to failure evidence d))"
  using assms unfolding CaptureTerminalLeased_def
  by (auto split: sum.split if_splits intro!: writeTx_row simp: read_back_row capture_body_def result_simps elim!: row_with_updated)

subsection \<open>Runs that keep such a row\<close>

text \<open>
  The row of a followed task: its task ID, its outcome, and, with \<open>fin\<close>, that it is terminal.
\<close>

definition followed :: "TaskSnapshot set \<Rightarrow> string \<Rightarrow> bool \<Rightarrow> row \<Rightarrow> bool" where
  "followed snaps tid fin r \<longleftrightarrow> r_task_id r = Some tid \<and> genuine snaps tid r \<and> (fin \<longrightarrow> Terminal (r_status r))"

definition keeps_row :: "(row \<Rightarrow> bool) \<Rightarrow> string \<Rightarrow> (nat \<Rightarrow> upstream_api) \<Rightarrow> world \<Rightarrow> world \<Rightarrow> bool" where
  "keeps_row P sid up w w' \<longleftrightarrow> (quiet w \<and> w_up w = up \<and> row_with P sid (w_db w) \<longrightarrow>
     quiet w' \<and> w_up w' = up \<and> row_with P sid (w_db w'))"

interpretation rowwise: handler "keeps_row P sid up" for P sid up
  by unfold_locales (simp_all add: keeps_row_def)

lemma rowwise_call:
  assumes "\<And>e d. row_with P sid d \<Longrightarrow> row_with P sid (snd (f e d))"
  shows "keeps (keeps_row P sid up) (store_call f)"
  unfolding keeps_def
proof
  fix w
  note c = store_call_quiet [of w f, OF _ prod.collapse [symmetric]]
  show "keeps_row P sid up w (snd (store_call f w))"
    unfolding keeps_row_def using c(2,3) assms by simp
qed

lemma rowwise_read: "keeps (keeps_row P sid up) (store_read f)"
  unfolding store_read_def [abs_def] by (rule rowwise_call) simp

lemma rowwise_upstream: "keeps (keeps_row P sid up) (upstream_call c f)"
  by (simp add: keeps_def keeps_row_def upstream_call_def quiet_def)

lemma followed_rows:
  "followed snaps tid fin r \<Longrightarrow> followed snaps tid fin (r\<lparr>r_events_enc := ev, r_sequence := q, r_updated_at := t\<rparr>)"
  "followed snaps tid fin r \<Longrightarrow> followed snaps tid fin (record_row record sealed t r)"
  "followed snaps tid fin r \<Longrightarrow> Allowed (r_status r) to \<Longrightarrow> to \<notin> {StatusCompleted, StatusCancelled, StatusExpired} \<Longrightarrow>
     td_TaskID detail = [] \<Longrightarrow> followed snaps tid fin (transition_row lims t to detail r)"
  "followed snaps tid fin r \<Longrightarrow> followed snaps tid fin (finish_row lims t StatusFailed b f r)"
  by (auto simp: followed_def genuine_def record_row_def transition_row_def finish_row_def stamp_terminal_def set_error_def
      Let_def dest: Allowed_terminal split: option.split)

lemma followed_complete:
  "followed snaps tid fin r \<Longrightarrow> snap \<in> snaps \<Longrightarrow> sn_TaskID snap = tid \<Longrightarrow> sn_Status snap = StatusCompleted \<Longrightarrow>
     sn_Result snap = Some res \<Longrightarrow> map_option blob_plain b = Some res \<Longrightarrow>
     followed snaps tid fin (finish_row lims t StatusCompleted b None r)"
  by (auto simp: followed_def genuine_def finish_row_def stamp_terminal_def)

lemma followed_capture:
  "followed snaps tid fin r \<Longrightarrow> followed snaps tid fin (capture_row lims t StatusFailed f b r)"
  "followed snaps tid fin r \<Longrightarrow> Terminal to \<Longrightarrow> snap \<in> snaps \<Longrightarrow> sn_TaskID snap = tid \<Longrightarrow> sn_Status snap = to \<Longrightarrow>
     to \<noteq> StatusCompleted \<Longrightarrow> sn_Failure snap = Some f \<Longrightarrow> followed snaps tid fin (capture_row lims t to f b r)"
  by (auto simp: followed_def genuine_def capture_row_def stamp_terminal_def set_error_def)

lemma followed_calls:
  "keeps (keeps_row (followed snaps tid fin) sid up) (get_submission s)"
  "keeps (keeps_row (followed snaps tid fin) sid up) (observe sid n ow snap)"
  "to \<notin> {StatusCompleted, StatusCancelled, StatusExpired} \<Longrightarrow> td_TaskID detail = [] \<Longrightarrow>
     keeps (keeps_row (followed snaps tid fin) sid up) (transition_leased sid n ow to detail)"
  "keeps (keeps_row (followed snaps tid fin) sid up) (release_delivery s ow)"
  "keeps (keeps_row (followed snaps tid fin) sid up) (claimInputDeliveryOnce s)"
  unfolding get_submission_def observe_def transition_leased_def release_delivery_def claimInputDeliveryOnce_def
  by (intro rowwise.keeps_intros rowwise_read rowwise_call; simp add: lease_rows save_row transition_row_with followed_rows)+

lemma followed_note:
  "keeps (keeps_row (followed snaps tid fin) sid up) (note_task rn sub st msg)"
  unfolding keeps_def
proof
  fix w
  have "keeps (keeps_row (followed snaps tid fin) sid up) (store_call (\<lambda>e. AppendEvents e (sub_ID sub) evs))" for evs
    by (rule rowwise_call) (rule append_row, assumption, rule followed_rows)
  then show "keeps_row (followed snaps tid fin) sid up w (snd (note_task rn sub st msg w))" by (simp add: note_task_def keeps_def)
qed

lemmas followed_intros = rowwise.keeps_intros rowwise_read rowwise_upstream followed_calls followed_note
lemmas followed_cases = rowwise.keeps_cases followed_intros

text \<open>Reading the submission gives its ID and its task ID.\<close>

lemma followed_read:
  assumes "quiet w" "row_with (followed snaps tid fin) sid (w_db w)" "get_submission sid w = (Inr sub, w')"
  shows "sub_ID sub = sid \<and> sub_TaskID sub = tid"
proof -
  have g: "GetSubmission (w_env w (w_calls w)) (w_db w) sid = Inr sub"
    using store_read_quiet(1) [OF assms(1) assms(3) [unfolded get_submission_def]] by simp
  have "sub_TaskID sub = task_of (w_db w) sid" using GetSubmission_requests [OF g] by blast
  then show ?thesis
    using assms(2) get_submission_row(1) [OF assms(3)] by (auto simp: task_of_def followed_def elim: row_withE)
qed

lemma followed_get:
  assumes "\<And>sub. sub_ID sub = sid \<Longrightarrow> sub_TaskID sub = tid \<Longrightarrow> keeps (keeps_row (followed snaps tid fin) sid up) (f sub)"
  shows "keeps (keeps_row (followed snaps tid fin) sid up) (io_bind (get_submission sid) f)"
  unfolding keeps_def
proof
  fix w
  obtain r w1 where g: "get_submission sid w = (r, w1)" by fastforce
  have k: "keeps_row (followed snaps tid fin) sid up w w1" by (rule keepsD [OF followed_calls(1) g])
  show "keeps_row (followed snaps tid fin) sid up w (snd (io_bind (get_submission sid) f w))"
  proof (cases "quiet w \<and> row_with (followed snaps tid fin) sid (w_db w)")
    case True
    then show ?thesis
      using k g followed_read [of w snaps tid fin sid _ w1] assms rowwise.R_trans [OF k] by (cases r) (auto simp: io_bind_def keeps_def)
  qed (auto simp: keeps_row_def)
qed

lemma with_delivery_followed:
  "keeps (keeps_row (followed snaps tid fin) sid up) body \<Longrightarrow> keeps (keeps_row (followed snaps tid fin) sid up) (with_delivery s x body)"
  unfolding with_delivery_eq by (intro followed_cases)

lemma fail_task_followed: "keeps (keeps_row (followed snaps tid fin) sid up) (fail_task rn sid n ow failure)"
  unfolding fail_task_def fail_held_def fail_state_def no_detail_def
  by (intro with_delivery_followed followed_get followed_intros; simp)

lemma complete_task_followed:
  assumes "snap \<in> snaps" "sn_TaskID snap = tid" "sn_Status snap = StatusCompleted" "sn_Result snap = Some res" "sub_ID sub = sid"
  shows "keeps (keeps_row (followed snaps tid fin) sid up) (complete_task rn sub n ow snap res)"
proof -
  have "keeps (keeps_row (followed snaps tid fin) sid up) (store_call (\<lambda>e. CompleteLeased e (sub_ID sub) n ow res))"
    unfolding assms(5)
    by (intro rowwise_call complete_row_with followed_rows followed_complete [OF _ assms(1-4)])
  then show ?thesis unfolding complete_task_def [abs_def] and_return_def by (intro followed_cases)
qed

lemma apply_status_followed:
  assumes "snap \<in> snaps" "sn_TaskID snap = tid" "sub_ID sub = sid"
  shows "keeps (keeps_row (followed snaps tid fin) sid up) (apply_status rn sub n ow snap)"
proof -
  have capture: "keeps (keeps_row (followed snaps tid fin) sid up)
      (store_call (\<lambda>e. CaptureTerminalLeased e sid n ow (sn_Status snap) f ev))"
    if "sn_Failure snap = Some f" "sn_Status snap = StatusFailed \<or> sn_Status snap = StatusCancelled \<or> sn_Status snap = StatusExpired" for f ev
    using that assms(1,2) by (intro rowwise_call capture_row_with followed_capture) auto
  have move: "keeps (keeps_row (followed snaps tid fin) sid up) (transition_leased sid n ow (sn_Status snap) no_detail)"
    if "sn_Status snap = StatusRunning \<or> sn_Status snap = StatusInputRequired"
    using that by (intro followed_calls) (auto simp: no_detail_def)
  show ?thesis
    unfolding apply_status_def Let_def assms(3) and_return_def
    using capture move complete_task_followed [OF assms(1,2) _ _ assms(3)]
    by (intro followed_intros fail_task_followed) (auto simp: no_detail_def)
qed

lemma apply_snapshot_followed:
  assumes "snap \<in> snaps" "tid \<noteq> []" "sub_ID sub = sid" "sub_TaskID sub = tid"
  shows "keeps (keeps_row (followed snaps tid fin) sid up) (apply_snapshot rn sub n ow snap)"
proof (cases "sn_TaskID snap = tid")
  case True
  have "keeps (keeps_row (followed snaps tid fin) sid up) (apply_held rn sub n ow snap)"
    unfolding apply_held_def [abs_def] assms(3)
    by (intro followed_cases apply_status_followed [OF assms(1) True assms(3)])
  then show ?thesis
    unfolding apply_snapshot_def assms(3) and_return_def by (intro followed_intros with_delivery_followed fail_task_followed)
next
  case False
  then show ?thesis
    using assms(2,4) unfolding apply_snapshot_def assms(3) and_return_def by (simp add: followed_intros fail_task_followed)
qed

lemma apply_current_followed:
  assumes "snap \<in> snaps" "tid \<noteq> []" "tk_id t = sid"
  shows "keeps (keeps_row (followed snaps tid fin) sid up) (apply_current rn t snap)"
  unfolding apply_current_def assms(3)
  by (intro followed_get followed_intros apply_snapshot_followed assms(1,2))

subsection \<open>Polling and reconciling\<close>

text \<open>The snapshots the server answers for a task.\<close>

definition answers_for :: "(nat \<Rightarrow> upstream_api) \<Rightarrow> Connection \<Rightarrow> string \<Rightarrow> TaskSnapshot set" where
  "answers_for up cn tid = {snap. \<exists>n lims. GetTask (up n) cn tid lims = Inr snap}"

lemma get_task_followed: "keeps (keeps_row P sid up) (get_task cn sub)"
  unfolding get_task_def by (rule rowwise_upstream)

lemma get_task_answer: "get_task cn sub w = (Inr snap, w') \<Longrightarrow> snap \<in> answers_for (w_up w) cn (sub_TaskID sub)"
  by (auto simp: get_task_def upstream_call_def answers_for_def)

lemma failOrDefer_followed: "keeps (keeps_row (followed snaps tid fin) sid up) (failOrDefer rn sid n ow err)"
  unfolding failOrDefer_def by (intro followed_intros fail_task_followed)

lemma poll_followed: "tk_id t = sid \<Longrightarrow> keeps (keeps_row (followed snaps tid fin) sid up) (poll rn cn t)"
proof -
  assume t: "tk_id t = sid"
  have "keeps (keeps_row (followed snaps tid fin) sid up) (\<lambda>w. case failOrDefer rn sid n ow err w of (r, w') \<Rightarrow> (Returned r, w'))" for n ow err
    using failOrDefer_followed [of snaps tid fin sid up rn n ow err] by (simp add: keeps_def split_beta)
  then show ?thesis unfolding poll_def [abs_def] t by (intro followed_cases get_task_followed)
qed

lemma reconcile_followed: "keeps (keeps_row (followed snaps tid fin) sid up) (reconcile cn t)"
  unfolding reconcile_def [abs_def] by (intro followed_cases get_task_followed)

lemma poll_answer:
  assumes "quiet w" "row_with (followed snaps tid fin) sid (w_db w)" "tk_id t = sid" "poll rn cn t w = (Polled snap, w')"
  shows "snap \<in> answers_for (w_up w) cn tid"
proof -
  obtain sub w1 where g: "get_submission sid w = (Inr sub, w1)" "get_task cn sub w1 = (Inr snap, w')"
    using assms(3,4) by (auto simp: poll_def split: prod.splits sum.splits if_splits)
  have "w_up w1 = w_up w" using g(1) by (auto simp: get_submission_def store_read_def store_call_def Let_def)
  then show ?thesis using get_task_answer [OF g(2)] followed_read [OF assms(1,2) g(1)] by simp
qed

lemma reconcile_answer:
  assumes "quiet w" "row_with (followed snaps tid fin) sid (w_db w)" "tk_id t = sid" "reconcile cn t w = ((pos, b), w')"
  shows "pos = Reconciled snap \<Longrightarrow> snap \<in> answers_for (w_up w) cn tid" "b \<Longrightarrow> terminal_at (w_db w') sid"
proof -
  obtain r w1 where g: "get_submission sid w = (r, w1)" by fastforce
  have up: "w_up w1 = w_up w" using g by (auto simp: get_submission_def store_read_def store_call_def Let_def)
  show "snap \<in> answers_for (w_up w) cn tid" if p: "pos = Reconciled snap"
  proof -
    obtain sub where "r = Inr sub" "get_task cn sub w1 = (Inr snap, w')"
      using p assms(3,4) g by (auto simp: reconcile_def split: prod.splits sum.splits if_splits)
    then show ?thesis using get_task_answer [of cn sub w1 snap w'] followed_read [OF assms(1,2)] g up by simp
  qed
  show "terminal_at (w_db w') sid" if b: b
  proof -
    obtain sub where "r = Inr sub" "Terminal (sub_Status sub)" "w' = w1"
      using b assms(3,4) g by (auto simp: reconcile_def split: prod.splits sum.splits if_splits)
    then show ?thesis using get_submission_row(2) g by blast
  qed
qed

subsection \<open>Terminal answers\<close>

lemma followed_terminal:
  "row_with (followed snaps tid True) sid d \<longleftrightarrow> row_with (followed snaps tid False) sid d \<and> terminal_at d sid"
  by (auto simp: row_with_def followed_def terminal_at_def split: option.splits)

text \<open>A handler whose answer \<open>True\<close> means that the submission is terminal when it returns.\<close>

definition ends_at :: "TaskSnapshot set \<Rightarrow> string \<Rightarrow> string \<Rightarrow> (world \<Rightarrow> (go_error + bool) \<times> world) \<Rightarrow> bool" where
  "ends_at snaps sid tid m \<longleftrightarrow> (\<forall>w w'. quiet w \<longrightarrow> row_with (followed snaps tid False) sid (w_db w) \<longrightarrow>
     m w = (Inr True, w') \<longrightarrow> terminal_at (w_db w') sid)"

lemma ends_return: "\<not> b \<Longrightarrow> ends_at snaps sid tid (io_return b)" "ends_at snaps sid tid (io_fail e)"
  "ends_at snaps sid tid (\<lambda>w. (Inr False, w))" "ends_at snaps sid tid (\<lambda>w. (Inl e, w))" "ends_at snaps sid tid (and_return False n)"
  by (simp_all add: ends_at_def and_return_def io_bind_Inr)

lemma ends_case:
  assumes "\<And>up. keeps (keeps_row (followed snaps tid False) sid up) m" "\<And>e. ends_at snaps sid tid (f e)" "\<And>x. ends_at snaps sid tid (g x)"
  shows "ends_at snaps sid tid (\<lambda>w. case m w of (Inl e, w') \<Rightarrow> f e w' | (Inr x, w') \<Rightarrow> g x w')"
  unfolding ends_at_def
proof (intro allI impI)
  fix w w' assume w: "quiet w" "row_with (followed snaps tid False) sid (w_db w)"
    "(case m w of (Inl e, w') \<Rightarrow> f e w' | (Inr x, w') \<Rightarrow> g x w') = (Inr True, w')"
  obtain r w1 where m: "m w = (r, w1)" by fastforce
  have "quiet w1" "row_with (followed snaps tid False) sid (w_db w1)"
    using keepsD [OF assms(1) [of "w_up w"] m] w(1,2) by (simp_all add: keeps_row_def)
  then show "terminal_at (w_db w') sid" using assms(2,3) w(3) m unfolding ends_at_def by (cases r) fastforce+
qed

lemma ends_bind:
  assumes "\<And>up. keeps (keeps_row (followed snaps tid False) sid up) m" "\<And>x. ends_at snaps sid tid (f x)"
  shows "ends_at snaps sid tid (io_bind m f)"
proof -
  have "io_bind m f = (\<lambda>w. case m w of (Inl e, w') \<Rightarrow> (Inl e, w') | (Inr x, w') \<Rightarrow> f x w')"
    by (auto simp: fun_eq_iff io_bind_def split: prod.split sum.split)
  then show ?thesis using ends_case [OF assms(1) ends_return(4) assms(2)] by simp
qed

lemma ends_if: "(P \<Longrightarrow> ends_at snaps sid tid m) \<Longrightarrow> (\<not> P \<Longrightarrow> ends_at snaps sid tid m') \<Longrightarrow> ends_at snaps sid tid (if P then m else m')"
  by simp

lemma ends_cond:
  "(P \<Longrightarrow> ends_at snaps sid tid m) \<Longrightarrow> (\<not> P \<Longrightarrow> ends_at snaps sid tid m') \<Longrightarrow> ends_at snaps sid tid (\<lambda>w. if P then m w else m' w)"
  by (cases P) simp_all

lemma ends_option:
  "(x = None \<Longrightarrow> ends_at snaps sid tid m) \<Longrightarrow> (\<And>y. x = Some y \<Longrightarrow> ends_at snaps sid tid (f y)) \<Longrightarrow> ends_at snaps sid tid (case_option m f x)"
  by (cases x) auto

lemmas ends_intros = ends_if ends_cond ends_option ends_return ends_case ends_bind

lemma ends_finally:
  assumes "ends_at snaps sid tid m" "\<And>up. keeps (keeps_row (followed snaps tid False) sid up) m"
    "\<And>up. keeps (keeps_row (followed snaps tid True) sid up) g"
  shows "ends_at snaps sid tid (io_finally m g)"
  unfolding ends_at_def
proof (intro allI impI)
  fix w w' assume w: "quiet w" "row_with (followed snaps tid False) sid (w_db w)" "io_finally m g w = (Inr True, w')"
  then obtain w1 where m: "m w = (Inr True, w1)" "w' = snd (g w1)" by (auto simp: io_finally_def split: prod.splits)
  have "quiet w1" "row_with (followed snaps tid True) sid (w_db w1)"
    using keepsD [OF assms(2) [of "w_up w"] m(1)] w assms(1) m(1) by (auto simp: keeps_row_def followed_terminal ends_at_def)
  then show "terminal_at (w_db w') sid"
    using assms(3) [of "w_up w1"] m(2) by (simp add: keeps_def keeps_row_def followed_terminal)
qed

text \<open>A store call that leaves the submission terminal, followed by steps that keep it so.\<close>

lemma ends_call:
  assumes c: "store_call f w = (r, w1)" and w: "quiet w" "row_with (followed snaps tid False) sid (w_db w)"
    and ok: "keeps (keeps_row (followed snaps tid False) sid (w_up w)) (store_call f)"
      "terminal_at (snd (f (w_env w (w_calls w)) (w_db w))) sid" "and_return True (note_task rn sub st msg) w1 = (x, w')"
  shows "terminal_at (w_db w') sid"
proof -
  have "quiet w1 \<and> w_up w1 = w_up w \<and> row_with (followed snaps tid False) sid (w_db w1)"
    using keepsD [OF ok(1) c] w by (simp add: keeps_row_def)
  moreover have "terminal_at (w_db w1) sid" using store_call_quiet(2) [OF w(1) c] ok(2) by simp
  moreover have "keeps (keeps_row (followed snaps tid True) sid (w_up w)) (and_return True (note_task rn sub st msg))"
    unfolding and_return_def by (intro followed_intros)
  ultimately show ?thesis using ok(3) keepsD [of "keeps_row (followed snaps tid True) sid (w_up w)" "and_return True (note_task rn sub st msg)" w1 x w']
    by (simp add: keeps_row_def followed_terminal)
qed

lemma complete_task_ends:
  assumes "snap \<in> snaps" "sn_TaskID snap = tid" "sn_Status snap = StatusCompleted" "sn_Result snap = Some res" "sub_ID sub = sid"
  shows "ends_at snaps sid tid (complete_task rn sub n ow snap res)"
  unfolding ends_at_def
proof (intro allI impI)
  fix w w' assume w: "quiet w" "row_with (followed snaps tid False) sid (w_db w)" "complete_task rn sub n ow snap res w = (Inr True, w')"
  let ?f = "\<lambda>e. CompleteLeased e sid n ow res"
  obtain r w1 where c: "store_call ?f w = (r, w1)" by fastforce
  have k: "keeps (keeps_row (followed snaps tid False) sid (w_up w)) (store_call ?f)"
    by (intro rowwise_call complete_row_with followed_rows followed_complete [OF _ assms(1-4)])
  have "case r of Inl err \<Rightarrow> errors_Is err ErrResultTooLarge | Inr _ \<Rightarrow> True"
      "and_return True (note_task rn sub StatusCompleted (sn_StatusMessage snap)) w1 = (Inr True, w')"
    using w(3) c assms(5) by (auto simp: complete_task_def split: sum.splits if_splits)
  moreover from this(1) have "terminal_at (snd (?f (w_env w (w_calls w)) (w_db w))) sid"
    using complete_terminal [OF prod.collapse [symmetric]] store_call_quiet(1) [OF w(1) c] by metis
  ultimately show "terminal_at (w_db w') sid" by (intro ends_call [OF c w(1,2) k])
qed

lemma apply_status_ends:
  assumes "snap \<in> snaps" "sn_TaskID snap = tid" "sub_ID sub = sid" "\<not> Terminal (sub_Status sub)"
  shows "ends_at snaps sid tid (apply_status rn sub n ow snap)"
proof -
  have capture: "ends_at snaps sid tid (io_bind (store_call (\<lambda>e. CaptureTerminalLeased e sid n ow (sn_Status snap) f ev)) (\<lambda>_.
      and_return True (note_task rn sub st msg)))"
    if s: "sn_Failure snap = Some f" "sn_Status snap = StatusFailed \<or> sn_Status snap = StatusCancelled \<or> sn_Status snap = StatusExpired" for f ev st msg
    unfolding ends_at_def io_bind_Inr
  proof (intro allI impI, elim exE conjE)
    fix w w' x w1
    let ?f = "\<lambda>e. CaptureTerminalLeased e sid n ow (sn_Status snap) f ev"
    assume w: "quiet w" "row_with (followed snaps tid False) sid (w_db w)" "store_call ?f w = (Inr x, w1)"
      "and_return True (note_task rn sub st msg) w1 = (Inr True, w')"
    have k: "keeps (keeps_row (followed snaps tid False) sid (w_up w)) (store_call ?f)"
      using s assms(1,2) by (intro rowwise_call capture_row_with followed_capture) auto
    have "terminal_at (snd (?f (w_env w (w_calls w)) (w_db w))) sid"
      using store_call_quiet(1) [OF w(1,3)] capture_terminal by (metis prod.collapse)
    then show "terminal_at (w_db w') sid" by (rule ends_call [OF w(3,1,2) k _ w(4)])
  qed
  have move: "keeps (keeps_row (followed snaps tid False) sid up) (transition_leased sid n ow (sn_Status snap) no_detail)"
    if "sn_Status snap = StatusRunning \<or> sn_Status snap = StatusInputRequired" for up
    using that by (intro followed_calls) (auto simp: no_detail_def)
  show ?thesis
    unfolding apply_status_def Let_def assms(3)
    by (intro ends_if ends_option ends_return ends_bind capture complete_task_ends [OF assms(1,2) _ _ assms(3)] move)
       (use assms(4) in \<open>simp_all add: ends_return\<close>)
qed

lemma apply_current_ends:
  assumes "snap \<in> snaps" "tid \<noteq> []" "tk_id t = sid"
  shows "ends_at snaps sid tid (apply_current rn t snap)"
proof -
  have snapshot: "ends_at snaps sid tid (apply_snapshot rn sub n ow snap)"
    if sub: "sub_ID sub = sid" "sub_TaskID sub = tid" "\<not> Terminal (sub_Status sub)" for sub n ow
  proof (cases "sn_TaskID snap = tid")
    case True
    note kept = followed_calls(2) apply_status_followed [OF assms(1) True sub(1)]
    have held: "ends_at snaps sid tid (apply_held rn sub n ow snap)"
      unfolding apply_held_def [abs_def] sub(1)
      by (intro ends_intros kept apply_status_ends [OF assms(1) True sub(1,3)])
    have "keeps (keeps_row (followed snaps tid False) sid up) (apply_held rn sub n ow snap)" for up
      unfolding apply_held_def [abs_def] sub(1) by (intro followed_cases kept)
    then have "ends_at snaps sid tid (with_delivery sid False (apply_held rn sub n ow snap))"
      unfolding with_delivery_eq by (intro ends_intros ends_finally held followed_calls) simp
    then show ?thesis
      unfolding apply_snapshot_def sub(1) by (intro ends_if ends_return) (use sub(3) in simp_all)
  next
    case False
    then show ?thesis using assms(2) sub by (simp add: apply_snapshot_def ends_return)
  qed
  show ?thesis
    unfolding ends_at_def
  proof (intro allI impI)
    fix w w' assume w: "quiet w" "row_with (followed snaps tid False) sid (w_db w)" "apply_current rn t snap w = (Inr True, w')"
    obtain r w1 where g: "get_submission sid w = (r, w1)" by fastforce
    then obtain sub where sub: "r = Inr sub" using w(3) assms(3) by (cases r) (auto simp: apply_current_def io_bind_def)
    have ids: "sub_ID sub = sid" "sub_TaskID sub = tid" using followed_read [OF w(1,2)] g sub by auto
    show "terminal_at (w_db w') sid"
    proof (cases "Terminal (sub_Status sub)")
      case True
      then show ?thesis using w(3) g sub assms(3) get_submission_row(2) [of sid w sub w1] by (auto simp: apply_current_def io_bind_def)
    next
      case False
      have "quiet w1" "row_with (followed snaps tid False) sid (w_db w1)"
        using keepsD [OF followed_calls(1) g, of snaps tid False sid "w_up w"] w(1,2) by (simp_all add: keeps_row_def)
      moreover have "apply_snapshot rn sub (tk_lease t) (tk_owner t) snap w1 = (Inr True, w')"
        using w(3) g sub assms(3) False by (simp add: apply_current_def io_bind_def)
      ultimately show ?thesis using snapshot [OF ids False] unfolding ends_at_def by blast
    qed
  qed
qed

subsection \<open>Every schedule\<close>

text \<open>
  The invariant of \<open>follow\<close>: the row is a followed one, terminal once the watcher has signalled, and the
  snapshots in hand are among those the run was given.
\<close>

definition follow_inv :: "TaskSnapshot set \<Rightarrow> (nat \<Rightarrow> upstream_api) \<Rightarrow> string \<Rightarrow> string \<Rightarrow> follow \<Rightarrow> bool" where
  "follow_inv snaps up sid tid s \<longleftrightarrow> quiet (fo_world s) \<and> w_up (fo_world s) = up
     \<and> row_with (followed snaps tid (fo_terminal s)) sid (w_db (fo_world s))
     \<and> (\<forall>snap. fo_main s = Polled snap \<or> fo_watch s = Reconciled snap \<longrightarrow> snap \<in> snaps)"

lemma follow_inv_step:
  assumes "follow_inv snaps up sid tid s" "\<And>fin. keeps (keeps_row (followed snaps tid fin) sid up) m" "m (fo_world s) = (r, w')"
    and "fo_terminal s' \<Longrightarrow> fo_terminal s \<or> terminal_at (w_db w') sid" "fo_world s' = w'"
    and "\<And>snap. fo_main s' = Polled snap \<or> fo_watch s' = Reconciled snap \<Longrightarrow> snap \<in> snaps"
  shows "follow_inv snaps up sid tid s'"
proof -
  have k: "quiet w' \<and> w_up w' = up \<and> row_with (followed snaps tid fin) sid (w_db w')"
    if "row_with (followed snaps tid fin) sid (w_db (fo_world s))" for fin
    using keepsD [OF assms(2,3)] assms(1) that by (auto simp: follow_inv_def keeps_row_def)
  have weak: "row_with (followed snaps tid False) sid d" if "row_with (followed snaps tid fin) sid d" for fin d
    using that by (auto simp: row_with_def followed_def split: option.splits)
  have "row_with (followed snaps tid (fo_terminal s')) sid (w_db w')"
    using k [of "fo_terminal s"] assms(1,4) weak followed_terminal
    by (cases "fo_terminal s'"; cases "fo_terminal s") (auto simp: follow_inv_def)
  then show ?thesis using k [of "fo_terminal s"] assms(1,5,6) by (auto simp: follow_inv_def)
qed

lemma follow_inv_turn:
  assumes inv: "follow_inv snaps up (tk_id t) tid s" and tid: "tid \<noteq> []" "answers_for up cn tid \<subseteq> snaps"
    and x: "\<And>snap. x = StreamSnapshot snap \<Longrightarrow> snap \<in> snaps"
  shows "follow_inv snaps up (tk_id t) tid (follow_turn rn cn t x s)"
proof -
  let ?row = "\<lambda>fin. row_with (followed snaps tid fin) (tk_id t) (w_db (fo_world s))"
  have w: "quiet (fo_world s)" "w_up (fo_world s) = up" "?row (fo_terminal s)"
    using inv by (simp_all add: follow_inv_def)
  then have row: "?row False" by (auto simp: row_with_def followed_def split: option.splits)
  have applied: "keeps (keeps_row (followed snaps tid fin) (tk_id t) up) (apply_current rn t snap)"
      "apply_current rn t snap (fo_world s) = (Inr True, w') \<Longrightarrow> terminal_at (w_db w') (tk_id t)"
    if "snap \<in> snaps" for snap fin w'
    using apply_current_followed [OF that tid(1)] apply_current_ends [OF that tid(1)] w(1) row unfolding ends_at_def by blast+
  have watch: "follow_inv snaps up (tk_id t) tid (watch_applied strict (apply_current rn t snap (fo_world s)) s)"
    if snap: "snap \<in> snaps" for strict snap
  proof -
    obtain r w' where a: "apply_current rn t snap (fo_world s) = (r, w')" by fastforce
    show ?thesis
      by (rule follow_inv_step [OF inv applied(1) [OF snap] a])
        (use a inv applied(2) [OF snap] in \<open>auto simp: watch_applied_def follow_inv_def split: sum.splits bool.splits if_splits\<close>)
  qed
  show ?thesis
  proof (cases x)
    case (Poll ended)
    obtain pos w' where a: "poll rn cn t (fo_world s) = (pos, w')" by fastforce
    have "follow_inv snaps up (tk_id t) tid (s\<lparr>fo_main := pos, fo_world := w'\<rparr>)"
      by (rule follow_inv_step [OF inv poll_followed [OF refl] a])
        (use a inv poll_answer [OF w(1) row refl] w(2) tid(2) in \<open>auto simp: follow_inv_def\<close>)
    moreover have "follow_inv snaps up (tk_id t) tid (s\<lparr>fo_main := Returned q\<rparr>)" for q using inv by (auto simp: follow_inv_def)
    ultimately show ?thesis using inv Poll a by (simp add: follow_turn_def)
  next
    case ApplyPolled
    have "follow_inv snaps up (tk_id t) tid (case apply_current rn t snap (fo_world s) of
        (Inl err, w') \<Rightarrow> s\<lparr>fo_main := Returned (Inl err), fo_world := w'\<rparr>
      | (Inr True, w') \<Rightarrow> s\<lparr>fo_main := Returned (Inr ()), fo_world := w'\<rparr>
      | (Inr False, w') \<Rightarrow> s\<lparr>fo_main := Waiting, fo_world := w'\<rparr>)" if m: "fo_main s = Polled snap" for snap
    proof -
      have snap: "snap \<in> snaps" using inv m by (simp add: follow_inv_def)
      obtain r w' where a: "apply_current rn t snap (fo_world s) = (r, w')" by fastforce
      show ?thesis
        by (rule follow_inv_step [OF inv applied(1) [OF snap] a]) (use a inv in \<open>auto simp: follow_inv_def split: sum.splits bool.splits\<close>)
    qed
    then show ?thesis using inv ApplyPolled by (auto simp: follow_turn_def split: main_at.split)
  next
    case Reconcile
    obtain pos b w' where a: "reconcile cn t (fo_world s) = ((pos, b), w')" by (metis prod.collapse)
    have answer: "snap \<in> snaps" if "pos = Reconciled snap" for snap
      using reconcile_answer(1) [OF w(1) row refl a that] w(2) tid(2) by blast
    have settled: "b \<Longrightarrow> terminal_at (w_db w') (tk_id t)" by (rule reconcile_answer(2) [OF w(1) row refl a])
    have "follow_inv snaps up (tk_id t) tid (s\<lparr>fo_watch := pos, fo_terminal := fo_terminal s \<or> b, fo_world := w'\<rparr>)"
      by (rule follow_inv_step [OF inv reconcile_followed a]) (use inv answer settled in \<open>auto simp: follow_inv_def\<close>)
    then show ?thesis using inv Reconcile a by (simp add: follow_turn_def)
  next
    case ApplyReconciled
    have "snap \<in> snaps" if "fo_watch s = Reconciled snap" for snap using inv that by (simp add: follow_inv_def)
    then show ?thesis using inv watch by (simp add: ApplyReconciled follow_turn_def split: watch_at.split)
  next
    case (StreamSnapshot snap)
    then show ?thesis using inv watch [OF x [OF StreamSnapshot]] by (simp add: follow_turn_def)
  qed (use inv in \<open>auto simp: follow_turn_def follow_inv_def\<close>)
qed

lemma follow_inv_run:
  assumes "quiet w" "row_with (followed snaps tid False) (tk_id t) (w_db w)" "tid \<noteq> []" "answers_for (w_up w) cn tid \<subseteq> snaps"
    and "\<And>snap. StreamSnapshot snap \<in> set turns \<Longrightarrow> snap \<in> snaps"
  shows "follow_inv snaps (w_up w) (tk_id t) tid (follow_run rn cn t turns w)"
proof -
  have "follow_inv snaps up (tk_id t) tid s \<Longrightarrow> answers_for up cn tid \<subseteq> snaps \<Longrightarrow> (\<And>snap. StreamSnapshot snap \<in> set turns \<Longrightarrow> snap \<in> snaps) \<Longrightarrow>
      follow_inv snaps up (tk_id t) tid (fold (follow_turn rn cn t) turns s)" for up s
    by (induction turns arbitrary: s) (simp_all add: follow_inv_turn assms(3))
  moreover have "follow_inv snaps (w_up w) (tk_id t) tid (follow_start w)"
    using assms(1,2) by (simp add: follow_inv_def follow_start_def)
  ultimately show ?thesis using assms(4,5) by (simp add: follow_run_def)
qed

section \<open>Properties\<close>

text \<open>
  C24: The outcome of a followed task is the server's. Let nobody else write while a submission with task ID
  \<open>tid\<close> is followed, under any schedule of the polling loop and the watcher and whatever the server answers.
  Then it keeps its task ID; if the watcher has signalled the end, the submission is terminal; and if it is
  completed, cancelled or expired, that is what a snapshot of exactly this task said, received on the stream
  or answered to a lookup of this task: a completed one holds exactly the result of the snapshot, another one
  its failure code. A snapshot of another task decides nothing.
\<close>

theorem followed_outcome_genuine:
  assumes "quiet w" "row_at (submissions (w_db w)) (tk_id t) = Some r0" "\<not> Terminal (r_status r0)"
    and "r_task_id r0 = Some tid" "tid \<noteq> []"
  shows "\<exists>r. row_at (submissions (w_db (fo_world (follow_run rn cn t turns w)))) (tk_id t) = Some r \<and> r_task_id r = Some tid
    \<and> (fo_terminal (follow_run rn cn t turns w) \<longrightarrow> Terminal (r_status r))
    \<and> (r_status r \<in> {StatusCompleted, StatusCancelled, StatusExpired} \<longrightarrow>
        (\<exists>snap. (StreamSnapshot snap \<in> set turns \<or> (\<exists>n lims. GetTask (w_up w n) cn tid lims = Inr snap))
           \<and> sn_TaskID snap = tid \<and> sn_Status snap = r_status r
           \<and> (r_status r = StatusCompleted \<longrightarrow> sn_Result snap \<noteq> None \<and> map_option blob_plain (r_result_enc r) = sn_Result snap)
           \<and> (r_status r \<noteq> StatusCompleted \<longrightarrow> (\<exists>f. sn_Failure snap = Some f \<and> r_error_code r = Some (ce_Code f)))))"
proof -
  let ?snaps = "answers_for (w_up w) cn tid \<union> {snap. StreamSnapshot snap \<in> set turns}"
  have "row_with (followed ?snaps tid False) (tk_id t) (w_db w)"
    using assms(2-4) by (auto simp: row_with_def followed_def genuine_def)
  then have "follow_inv ?snaps (w_up w) (tk_id t) tid (follow_run rn cn t turns w)"
    using assms(1,5) by (intro follow_inv_run) auto
  then obtain r where r: "row_at (submissions (w_db (fo_world (follow_run rn cn t turns w)))) (tk_id t) = Some r"
      "followed ?snaps tid (fo_terminal (follow_run rn cn t turns w)) r"
    by (auto simp: follow_inv_def elim: row_withE)
  then show ?thesis unfolding followed_def genuine_def answers_for_def by auto
qed

definition done_snapshot :: TaskSnapshot where
  "done_snapshot = failed_snapshot\<lparr>sn_Status := StatusCompleted, sn_Failure := None, sn_Result := Some demo_result\<rparr>"

lemma done_run:
  "(case row_at (submissions (w_db signal_world)) (tk_id demo_task) of None \<Rightarrow> False
      | Some r \<Rightarrow> \<not> Terminal (r_status r) \<and> r_task_id r = Some ''t1'')"
  "fo_terminal (follow_run replay_runner demo_connection demo_task [StreamSnapshot done_snapshot] signal_world)"
  "demo_status (w_db (fo_world (follow_run replay_runner demo_connection demo_task [StreamSnapshot done_snapshot] signal_world)))
     = Some StatusCompleted"
  by code_simp+

theorem followed_outcome_genuine_witness:
  "\<exists>r (snap :: TaskSnapshot). row_at (submissions (w_db (fo_world
       (follow_run replay_runner demo_connection demo_task [StreamSnapshot done_snapshot] signal_world)))) ''s1'' = Some r
     \<and> r_status r = StatusCompleted \<and> sn_TaskID snap = ''t1''
     \<and> sn_Result snap \<noteq> None \<and> map_option blob_plain (r_result_enc r) = sn_Result snap"
proof -
  let ?run = "follow_run replay_runner demo_connection demo_task [StreamSnapshot done_snapshot] signal_world"
  obtain r0 where r0: "row_at (submissions (w_db signal_world)) (tk_id demo_task) = Some r0"
      "\<not> Terminal (r_status r0)" "r_task_id r0 = Some ''t1''"
    using done_run(1) by (auto split: option.splits)
  have "quiet signal_world" by (simp add: quiet_def signal_world_def replay_world_def input_world_def)
  note outcome = followed_outcome_genuine [OF this r0 list.distinct(2), of replay_runner demo_connection "[StreamSnapshot done_snapshot]"]
  have task: "tk_id demo_task = ''s1''" by (simp add: demo_task_def)
  obtain r where r: "row_at (submissions (w_db (fo_world ?run))) ''s1'' = Some r" "r_status r = StatusCompleted"
    using done_run(3) by (auto simp: demo_status_def split: option.splits)
  have "\<exists>snap :: TaskSnapshot. sn_TaskID snap = ''t1'' \<and> sn_Result snap \<noteq> None \<and> map_option blob_plain (r_result_enc r) = sn_Result snap"
    using outcome r unfolding task by (metis insertI1 option.inject)
  then show ?thesis using r by blast
qed

end
