(* ===== verification/Task_Service.thy ===== *)
theory Task_Service
  imports Worker_Pool Store_Outcomes Catalog
begin

text \<open>
  The dispatch pool of the task runner (\<open>internal/application/task_service.go\<close>), with the deferred
  calls of each goroutine as an explicit stack, the wait group and the cancellation that \<open>Stop\<close> uses.
  It refines the worker's pool of \<open>Worker_Pool\<close>, whose bounds it inherits.
\<close>

section \<open>Definitions\<close>

definition taskQueueDepth :: nat where
  "taskQueueDepth = 256"

definition taskSweepInterval :: int where
  "taskSweepInterval = 5 * Second"

definition taskMaxInFlight :: int where
  "taskMaxInFlight = 8"

text \<open>The sweep interval and the pool bound \<open>NewTaskService\<close> settles on.\<close>

definition task_settings :: "int \<Rightarrow> int \<Rightarrow> int \<times> nat" where
  "task_settings sweepInterval maxInFlight =
     (if sweepInterval < Millisecond then taskSweepInterval else sweepInterval,
      nat (if maxInFlight \<le> 0 then taskMaxInFlight else maxInFlight))"

text \<open>
  A goroutine of \<open>execute\<close>: where it is, and its deferred calls, the next one to run first.
\<close>

datatype deferred = FreeSlot | FreeParked | DeleteMark | WgDone

datatype exec_at = AwaitSlot | Driving | Exiting

record driver =
  dr_id :: string
  dr_at :: exec_at
  dr_defers :: "deferred list"

datatype offer_at = OfferIdle | OfferMarked string | OfferNoSlot string | LoopExited

record service_state =
  sv_queue :: "string list"
  sv_slots :: nat
  sv_parked :: nat
  sv_inFlight :: "string list"
  sv_wg :: nat
  sv_loop :: offer_at
  sv_drivers :: "driver list"
  sv_drops :: nat
  sv_cancelled :: bool

definition new_service :: service_state where
  "new_service = \<lparr>sv_queue = [], sv_slots = 0, sv_parked = 0, sv_inFlight = [], sv_wg = 0, sv_loop = OfferIdle,
     sv_drivers = [], sv_drops = 0, sv_cancelled = False\<rparr>"

definition dispatch_task :: "string \<Rightarrow> service_state \<Rightarrow> service_state" where
  "dispatch_task sid s =
     (if length (sv_queue s) < taskQueueDepth then s\<lparr>sv_queue := sv_queue s @ [sid]\<rparr>
      else s\<lparr>sv_drops := sv_drops s + 1\<rparr>)"

definition runnable_tasks :: "env \<Rightarrow> db \<Rightarrow> go_error + string list" where
  "runnable_tasks e d =
     ListByStatus e StrategyUpstreamTask [StatusAccepted, StatusQueued, StatusRunning, StatusInputRequired] d"

definition sweep_task :: "string \<Rightarrow> service_state \<Rightarrow> service_state" where
  "sweep_task sid s =
     (if sid \<in> set (sv_inFlight s) then s
      else if length (sv_queue s) < taskQueueDepth then s\<lparr>sv_queue := sv_queue s @ [sid]\<rparr>
      else s)"

definition sweep_tasks :: "env \<Rightarrow> db \<Rightarrow> service_state \<Rightarrow> service_state" where
  "sweep_tasks e d s = (case runnable_tasks e d of Inl _ \<Rightarrow> s | Inr ids \<Rightarrow> fold sweep_task ids s)"

text \<open>\<open>offer\<close>: marking the ID, trying a slot, trying a parking place.\<close>

definition offer_mark :: "service_state \<Rightarrow> service_state" where
  "offer_mark s =
     (case sv_queue s of
        [] \<Rightarrow> s
      | sid # rest \<Rightarrow>
          if sid = '''' \<or> sid \<in> set (sv_inFlight s) then s\<lparr>sv_queue := rest\<rparr>
          else s\<lparr>sv_queue := rest, sv_inFlight := sid # sv_inFlight s, sv_wg := sv_wg s + 1,
                 sv_loop := OfferMarked sid\<rparr>)"

text \<open>A goroutine has pushed its first deferred calls when it first touches shared state.\<close>

definition execute_enter :: "string \<Rightarrow> bool \<Rightarrow> driver" where
  "execute_enter sid holdsSlot =
     (if holdsSlot then \<lparr>dr_id = sid, dr_at = Driving, dr_defers = [FreeSlot, DeleteMark, WgDone]\<rparr>
      else \<lparr>dr_id = sid, dr_at = AwaitSlot, dr_defers = [FreeParked, DeleteMark, WgDone]\<rparr>)"

definition offer_slot :: "nat \<Rightarrow> string \<Rightarrow> service_state \<Rightarrow> service_state" where
  "offer_slot n sid s =
     (if sv_slots s < n
      then s\<lparr>sv_slots := sv_slots s + 1, sv_loop := OfferIdle,
             sv_drivers := execute_enter sid True # sv_drivers s\<rparr>
      else s\<lparr>sv_loop := OfferNoSlot sid\<rparr>)"

definition offer_park :: "nat \<Rightarrow> string \<Rightarrow> service_state \<Rightarrow> service_state" where
  "offer_park n sid s =
     (if sv_parked s < n
      then s\<lparr>sv_parked := sv_parked s + 1, sv_loop := OfferIdle,
             sv_drivers := execute_enter sid False # sv_drivers s\<rparr>
      else s\<lparr>sv_inFlight := removeAll sid (sv_inFlight s), sv_wg := sv_wg s - 1, sv_loop := OfferIdle\<rparr>)"

definition execute_acquire :: "driver \<Rightarrow> driver" where
  "execute_acquire g = g\<lparr>dr_at := Driving, dr_defers := FreeSlot # dr_defers g\<rparr>"

definition execute_return :: "driver \<Rightarrow> driver" where
  "execute_return g = g\<lparr>dr_at := Exiting\<rparr>"

fun run_deferred :: "deferred \<Rightarrow> string \<Rightarrow> service_state \<Rightarrow> service_state" where
  "run_deferred FreeSlot sid s = s\<lparr>sv_slots := sv_slots s - 1\<rparr>"
| "run_deferred FreeParked sid s = s\<lparr>sv_parked := sv_parked s - 1\<rparr>"
| "run_deferred DeleteMark sid s = s\<lparr>sv_inFlight := removeAll sid (sv_inFlight s)\<rparr>"
| "run_deferred WgDone sid s = s\<lparr>sv_wg := sv_wg s - 1\<rparr>"

text \<open>The last deferred call ends the goroutine.\<close>

definition after_defer :: "driver \<Rightarrow> deferred list \<Rightarrow> driver list" where
  "after_defer g rest = (if rest = [] then [] else [g\<lparr>dr_defers := rest\<rparr>])"

text \<open>One atomic operation of the dispatch loop, a caller, a goroutine or \<open>Stop\<close>.\<close>

inductive task_step :: "nat \<Rightarrow> service_state \<Rightarrow> service_state \<Rightarrow> bool" for n where
  dispatch: "task_step n s (dispatch_task sid s)"
| sweep: "task_step n s (sweep_task sid s)"
| mark: "sv_loop s = OfferIdle \<Longrightarrow> sv_queue s \<noteq> [] \<Longrightarrow> task_step n s (offer_mark s)"
| slot: "sv_loop s = OfferMarked sid \<Longrightarrow> task_step n s (offer_slot n sid s)"
| park: "sv_loop s = OfferNoSlot sid \<Longrightarrow> task_step n s (offer_park n sid s)"
| cancel: "task_step n s (s\<lparr>sv_cancelled := True\<rparr>)"
| exit_loop: "sv_loop s = OfferIdle \<Longrightarrow> sv_cancelled s \<Longrightarrow> task_step n s (s\<lparr>sv_loop := LoopExited\<rparr>)"
| acquire: "sv_drivers s = xs @ g # ys \<Longrightarrow> dr_at g = AwaitSlot \<Longrightarrow> sv_slots s < n \<Longrightarrow>
    task_step n s (s\<lparr>sv_slots := sv_slots s + 1, sv_drivers := xs @ execute_acquire g # ys\<rparr>)"
| give_up: "sv_drivers s = xs @ g # ys \<Longrightarrow> dr_at g = AwaitSlot \<Longrightarrow> sv_cancelled s \<Longrightarrow>
    task_step n s (s\<lparr>sv_drivers := xs @ execute_return g # ys\<rparr>)"
| finish: "sv_drivers s = xs @ g # ys \<Longrightarrow> dr_at g = Driving \<Longrightarrow>
    task_step n s (s\<lparr>sv_drivers := xs @ execute_return g # ys\<rparr>)"
| unwind: "sv_drivers s = xs @ g # ys \<Longrightarrow> dr_at g = Exiting \<Longrightarrow> dr_defers g = x # rest \<Longrightarrow>
    task_step n s (run_deferred x (dr_id g) (s\<lparr>sv_drivers := xs @ after_defer g rest @ ys\<rparr>))"

text \<open>\<open>Stop\<close> returns when the loop has ended and the wait group is empty.\<close>

definition stopped :: "service_state \<Rightarrow> bool" where
  "stopped s \<longleftrightarrow> sv_loop s = LoopExited \<and> sv_wg s = 0"

section \<open>Lemmas\<close>

inductive_cases task_stepE: "task_step n s s'"

subsection \<open>The abstraction\<close>

fun abs_loop :: "offer_at \<Rightarrow> loop_at" where
  "abs_loop OfferIdle = LoopSelect"
| "abs_loop (OfferMarked sid) = LoopMarked sid"
| "abs_loop (OfferNoSlot sid) = LoopNoSlot sid"
| "abs_loop LoopExited = LoopDone"

definition abs_driver :: "driver \<Rightarrow> goroutine" where
  "abs_driver g = \<lparr>g_id = dr_id g, g_slot = (FreeSlot \<in> set (dr_defers g)), g_park = (FreeParked \<in> set (dr_defers g)),
     g_returned = (dr_at g = Exiting)\<rparr>"

definition marked :: "driver \<Rightarrow> bool" where
  "marked g \<longleftrightarrow> DeleteMark \<in> set (dr_defers g)"

definition abs_pool :: "service_state \<Rightarrow> pool" where
  "abs_pool s = \<lparr>p_queue = sv_queue s, p_slots = sv_slots s, p_parked = sv_parked s, p_inFlight = sv_inFlight s,
     p_loop = abs_loop (sv_loop s), p_running = map abs_driver (filter marked (sv_drivers s)), p_drops = sv_drops s,
     p_cancelled = sv_cancelled s\<rparr>"

definition driver_ok :: "driver \<Rightarrow> bool" where
  "driver_ok g \<longleftrightarrow> (case dr_at g of
     AwaitSlot \<Rightarrow> dr_defers g = [FreeParked, DeleteMark, WgDone]
   | Driving \<Rightarrow> dr_defers g = [FreeSlot, FreeParked, DeleteMark, WgDone] \<or> dr_defers g = [FreeSlot, DeleteMark, WgDone]
   | Exiting \<Rightarrow> dr_defers g \<in> {[FreeSlot, FreeParked, DeleteMark, WgDone], [FreeSlot, DeleteMark, WgDone],
       [FreeParked, DeleteMark, WgDone], [DeleteMark, WgDone], [WgDone]})"

definition service_ok :: "service_state \<Rightarrow> bool" where
  "service_ok s \<longleftrightarrow> (\<forall>g \<in> set (sv_drivers s). driver_ok g)
     \<and> sv_wg s = length (sv_drivers s) + (case sv_loop s of OfferMarked _ \<Rightarrow> 1 | OfferNoSlot _ \<Rightarrow> 1 | _ \<Rightarrow> 0)"

lemma driver_ok_steps:
  "driver_ok (execute_enter sid b)"
  "driver_ok g \<Longrightarrow> dr_at g = AwaitSlot \<Longrightarrow> driver_ok (execute_acquire g)"
  "driver_ok g \<Longrightarrow> driver_ok (execute_return g)"
  "driver_ok g \<Longrightarrow> dr_at g = Exiting \<Longrightarrow> dr_defers g = x # rest \<Longrightarrow> h \<in> set (after_defer g rest) \<Longrightarrow> driver_ok h"
  by (auto simp: driver_ok_def execute_enter_def execute_acquire_def execute_return_def after_defer_def
      split: exec_at.splits if_splits)

lemma deferred_frame [simp]:
  "sv_drivers (run_deferred x sid s) = sv_drivers s" "sv_loop (run_deferred x sid s) = sv_loop s"
  "sv_queue (run_deferred x sid s) = sv_queue s" "sv_drops (run_deferred x sid s) = sv_drops s"
  "sv_cancelled (run_deferred x sid s) = sv_cancelled s"
  by (cases x; simp)+

lemma service_ok_step:
  assumes "task_step n s s'" "service_ok s"
  shows "service_ok s'"
  using assms
proof (cases rule: task_step.cases)
  case (unwind xs g ys x rest)
  have g: "driver_ok g" using unwind assms(2) by (auto simp: service_ok_def)
  then have "x = WgDone \<longleftrightarrow> rest = []" using unwind(3,4) by (auto simp: driver_ok_def)
  moreover have "sv_wg (run_deferred x sid t) = (if x = WgDone then sv_wg t - 1 else sv_wg t)" for sid t by (cases x) simp_all
  ultimately show ?thesis
    using unwind assms(2) driver_ok_steps(4) [OF g unwind(3,4)] by (auto simp: service_ok_def after_defer_def)
qed (auto simp: service_ok_def dispatch_task_def sweep_task_def offer_mark_def offer_slot_def offer_park_def
      driver_ok_steps split: list.splits offer_at.splits)

lemma service_ok_new: "service_ok new_service"
  by (simp add: service_ok_def new_service_def)

lemma service_reachable: "(task_step n)\<^sup>*\<^sup>* new_service s \<Longrightarrow> service_ok s"
  by (induction rule: rtranclp_induct) (auto simp: service_ok_new intro: service_ok_step)

subsection \<open>The simulation\<close>

lemma driver_marked:
  "driver_ok g \<Longrightarrow> marked g \<longleftrightarrow> dr_defers g \<noteq> [WgDone]"
  "dr_at g \<noteq> Exiting \<Longrightarrow> driver_ok g \<Longrightarrow> marked g"
  by (auto simp: driver_ok_def marked_def split: exec_at.splits)

lemma abs_unwind:
  assumes s: "sv_drivers s = xs @ g # ys" "dr_at g = Exiting" "dr_defers g = x # rest" and g: "driver_ok g"
  shows "(pool_step n)\<^sup>=\<^sup>= (abs_pool s) (abs_pool (run_deferred x (dr_id g) (s\<lparr>sv_drivers := xs @ after_defer g rest @ ys\<rparr>)))"
proof -
  let ?xs = "map abs_driver (filter marked xs)" and ?ys = "map abs_driver (filter marked ys)"
  have r: "p_running (abs_pool s) = ?xs @ abs_driver g # ?ys" if "marked g" using s that by (simp add: abs_pool_def)
  consider (slot) "x = FreeSlot" | (park) "x = FreeParked" | (del) "x = DeleteMark" | (leave) "x = WgDone" by (cases x)
  then show ?thesis
  proof cases
    case slot
    then have m: "marked g" "rest \<noteq> []" "abs_driver (g\<lparr>dr_defers := rest\<rparr>) = (abs_driver g)\<lparr>g_slot := False\<rparr>"
        "marked (g\<lparr>dr_defers := rest\<rparr>)" "g_slot (abs_driver g)" "g_returned (abs_driver g)"
      using g s by (auto simp: driver_ok_def marked_def abs_driver_def)
    show ?thesis using pool_step.execute [OF execute_step.give_slot [OF r [OF m(1)] m(6,5), of n]] m slot
      by (simp add: abs_pool_def after_defer_def)
  next
    case park
    then have m: "marked g" "rest \<noteq> []" "abs_driver (g\<lparr>dr_defers := rest\<rparr>) = (abs_driver g)\<lparr>g_park := False\<rparr>"
        "marked (g\<lparr>dr_defers := rest\<rparr>)" "g_park (abs_driver g)" "g_returned (abs_driver g)" "\<not> g_slot (abs_driver g)"
      using g s by (auto simp: driver_ok_def marked_def abs_driver_def)
    show ?thesis using pool_step.execute [OF execute_step.give_park [OF r [OF m(1)] m(6,7,5), of n]] m park
      by (simp add: abs_pool_def after_defer_def)
  next
    case del
    then have m: "marked g" "rest \<noteq> []" "\<not> marked (g\<lparr>dr_defers := rest\<rparr>)" "\<not> g_park (abs_driver g)"
        "g_returned (abs_driver g)" "\<not> g_slot (abs_driver g)" "g_id (abs_driver g) = dr_id g"
      using g s by (auto simp: driver_ok_def marked_def abs_driver_def)
    show ?thesis using pool_step.execute [OF execute_step.unmark [OF r [OF m(1)] m(5,6,4), of n]] m del
      by (simp add: abs_pool_def after_defer_def)
  next
    case leave
    then have "\<not> marked g" "rest = []" using g s by (auto simp: driver_ok_def marked_def)
    then show ?thesis using s leave by (simp add: abs_pool_def after_defer_def)
  qed
qed

lemma abs_return:
  assumes "service_ok s" "sv_drivers s = xs @ g # ys" "dr_at g = Driving \<or> dr_at g = AwaitSlot \<and> sv_cancelled s"
  shows "pool_step n (abs_pool s) (abs_pool (s\<lparr>sv_drivers := xs @ execute_return g # ys\<rparr>))"
proof -
  have m: "marked g" "marked (execute_return g)" "abs_driver (execute_return g) = (abs_driver g)\<lparr>g_returned := True\<rparr>"
      "\<not> g_returned (abs_driver g)" "g_slot (abs_driver g) \<longleftrightarrow> dr_at g = Driving"
    using assms driver_marked(2) [of g]
    by (auto simp: service_ok_def marked_def abs_driver_def execute_return_def driver_ok_def)
  have r: "p_running (abs_pool s) = map abs_driver (filter marked xs) @ abs_driver g # map abs_driver (filter marked ys)"
    using assms(2) m(1) by (simp add: abs_pool_def)
  show ?thesis
  proof (cases "dr_at g = Driving")
    case True
    then show ?thesis using pool_step.execute [OF execute_step.finish [OF r _ m(4), of n]] m by (simp add: abs_pool_def)
  next
    case False
    then have "p_cancelled (abs_pool s)" using assms(3) by (auto simp: abs_pool_def)
    then show ?thesis using pool_step.execute [OF execute_step.give_up [OF r _ m(4), of n]] m False by (simp add: abs_pool_def)
  qed
qed

lemma abs_step:
  assumes "task_step n s s'" "service_ok s"
  shows "(pool_step n)\<^sup>=\<^sup>= (abs_pool s) (abs_pool s')"
  using assms(1)
proof (cases rule: task_step.cases)
  case (dispatch sid)
  have "abs_pool s' = Dispatch sid (abs_pool s)"
    by (simp add: dispatch dispatch_task_def Dispatch_def Offer_def abs_pool_def taskQueueDepth_def queueDepth_def)
  then show ?thesis by (simp add: pool_step.offer)
next
  case (sweep sid)
  have "abs_pool s' = sweep_one sid (abs_pool s)"
    by (simp add: sweep sweep_task_def sweep_one_def abs_pool_def taskQueueDepth_def queueDepth_def)
  then show ?thesis by (simp add: pool_step.sweep)
next
  case mark
  have "abs_pool s' = loop_receive (abs_pool s)"
    using mark by (simp add: offer_mark_def loop_receive_def abs_pool_def split: list.split)
  then show ?thesis using mark pool_step.receive [of "abs_pool s" n] by (simp add: abs_pool_def)
next
  case (slot sid)
  have "abs_pool s' = loop_slot n sid (abs_pool s)"
    by (simp add: slot offer_slot_def loop_slot_def abs_pool_def execute_enter_def abs_driver_def marked_def)
  then show ?thesis using slot pool_step.slot [of "abs_pool s" sid n] by (simp add: abs_pool_def)
next
  case (park sid)
  have "abs_pool s' = loop_park n sid (abs_pool s)"
    by (simp add: park offer_park_def loop_park_def abs_pool_def execute_enter_def abs_driver_def marked_def)
  then show ?thesis using park pool_step.park [of "abs_pool s" sid n] by (simp add: abs_pool_def)
next
  case cancel
  then show ?thesis using pool_step.cancel [of n "abs_pool s"] by (simp add: abs_pool_def)
next
  case exit_loop
  then show ?thesis using pool_step.exit_loop [of "abs_pool s" n] by (simp add: abs_pool_def)
next
  case (unwind xs g ys x rest)
  then have "driver_ok g" using assms(2) by (simp add: service_ok_def)
  with abs_unwind [OF unwind(2,3,4)] unwind(1) show ?thesis by simp
next
  case (acquire xs g ys)
  then have g: "driver_ok g" using assms(2) by (simp add: service_ok_def)
  have m: "marked g" "marked (execute_acquire g)" "abs_driver (execute_acquire g) = (abs_driver g)\<lparr>g_slot := True\<rparr>"
      "\<not> g_slot (abs_driver g)" "\<not> g_returned (abs_driver g)"
    using g acquire(3) by (auto simp: driver_ok_def marked_def abs_driver_def execute_acquire_def)
  have r: "p_running (abs_pool s) = map abs_driver (filter marked xs) @ abs_driver g # map abs_driver (filter marked ys)"
    using acquire(2) m(1) by (simp add: abs_pool_def)
  show ?thesis using pool_step.execute [OF execute_step.take_slot [OF r m(4,5), of n]] acquire(1,4) m by (simp add: abs_pool_def)
next
  case (give_up xs g ys)
  then show ?thesis using abs_return [OF assms(2), of xs g ys n] by simp
next
  case (finish xs g ys)
  then show ?thesis using abs_return [OF assms(2), of xs g ys n] by simp
qed

lemma abs_run: "(task_step n)\<^sup>*\<^sup>* new_service s \<Longrightarrow> (pool_step n)\<^sup>*\<^sup>* new_pool (abs_pool s)"
proof (induction rule: rtranclp_induct)
  case base
  show ?case by (simp add: abs_pool_def new_service_def new_pool_def)
next
  case (step s s')
  from abs_step [OF step(2) service_reachable [OF step(1)]] step.IH show ?case by auto
qed

lemma sweep_task_abs: "abs_pool (sweep_task sid s) = sweep_one sid (abs_pool s)"
  by (simp add: sweep_task_def sweep_one_def abs_pool_def taskQueueDepth_def queueDepth_def)

lemma sweep_tasks_abs: "abs_pool (sweep_tasks e d s) = sweepRunnable (runnable_tasks e d) (abs_pool s)"
proof -
  have "abs_pool (fold sweep_task ids s) = fold sweep_one ids (abs_pool s)" for ids
    by (induction ids arbitrary: s) (simp_all add: sweep_task_abs)
  then show ?thesis by (simp add: sweep_tasks_def sweepRunnable_def split: sum.split)
qed

section \<open>Properties\<close>

text \<open>
  C25: The task pool refines the worker's pool. Every run of the task service (its dispatch loop, the
  goroutines with their stacks of deferred calls, sweeps, offers and cancellation, interleaved in any
  way) is a run of the worker's pool, so at most \<open>MaxInFlight\<close> submissions are driven at once and none
  is driven twice.
\<close>

theorem task_pool_refines:
  assumes "(task_step n)\<^sup>*\<^sup>* new_service s"
  shows "(pool_step n)\<^sup>*\<^sup>* new_pool (abs_pool s)
    \<and> length (filter (\<lambda>g. dr_at g = Driving) (sv_drivers s)) \<le> n
    \<and> distinct (map dr_id (filter (\<lambda>g. dr_at g \<noteq> Exiting) (sv_drivers s)))"
proof -
  have ok: "list_all driver_ok (sv_drivers s)" using service_reachable [OF assms]
    by (simp add: service_ok_def list_all_iff)
  have p: "pool_ok n (abs_pool s)" using pool_reachable [OF abs_run [OF assms]] .
  have "length (filter (\<lambda>g. dr_at g = Driving) gs) \<le> count_if g_slot (map abs_driver (filter marked gs))"
      "set (filter (\<lambda>g. dr_at g \<noteq> Exiting) gs) \<subseteq> set (filter marked gs)"
      "distinct (map dr_id (filter marked gs)) \<longrightarrow> distinct (map dr_id (filter (\<lambda>g. dr_at g \<noteq> Exiting) gs))"
    if "list_all driver_ok gs" for gs
    using that by (induction gs) (auto simp: driver_ok_def marked_def abs_driver_def split: exec_at.splits)
  note drivers = this [OF ok]
  have "distinct (map dr_id (filter marked (sv_drivers s)))"
    using p by (auto simp: pool_ok_def owned_ids_def abs_pool_def abs_driver_def comp_def)
  then show ?thesis using abs_run [OF assms] drivers p by (fastforce simp: pool_ok_def abs_pool_def)
qed

definition demo_service_run :: service_state where
  "demo_service_run = offer_slot 1 ''a'' (offer_mark (dispatch_task ''a'' new_service))"

lemmas demo_service_defs = demo_service_run_def offer_slot_def offer_mark_def dispatch_task_def new_service_def
  taskQueueDepth_def execute_enter_def

lemma demo_service_reachable: "(task_step 1)\<^sup>*\<^sup>* new_service demo_service_run"
proof -
  have "task_step 1 new_service (dispatch_task ''a'' new_service)" by (rule task_step.dispatch)
  moreover have "task_step 1 (dispatch_task ''a'' new_service) (offer_mark (dispatch_task ''a'' new_service))"
    by (rule task_step.mark) (simp_all add: demo_service_defs)
  moreover have "task_step 1 (offer_mark (dispatch_task ''a'' new_service)) demo_service_run"
    unfolding demo_service_run_def by (rule task_step.slot) (simp add: demo_service_defs)
  ultimately show ?thesis by (blast intro: converse_rtranclp_into_rtranclp)
qed

theorem task_pool_refines_witness:
  "sv_drivers demo_service_run \<noteq> [] \<and> (pool_step 1)\<^sup>*\<^sup>* new_pool (abs_pool demo_service_run)"
  using task_pool_refines [OF demo_service_reachable] by (simp add: demo_service_defs)

text \<open>
  Stopping joins everything. When \<open>Stop\<close> returns, in every interleaving, no goroutine of the
  service is left, no slot or parking place is held, and no submission is marked in flight.
\<close>

theorem stop_joins_all:
  assumes "(task_step n)\<^sup>*\<^sup>* new_service s" "stopped s"
  shows "sv_drivers s = [] \<and> sv_slots s = 0 \<and> sv_parked s = 0 \<and> sv_inFlight s = []"
proof -
  have "service_ok s" "pool_ok n (abs_pool s)"
    using service_reachable [OF assms(1)] pool_reachable [OF abs_run [OF assms(1)]] by simp_all
  then show ?thesis using assms(2) by (auto simp: stopped_def service_ok_def pool_ok_def abs_pool_def owned_ids_def)
qed

theorem stop_joins_all_witness:
  "sv_drivers (new_service\<lparr>sv_cancelled := True, sv_loop := LoopExited\<rparr>) = []"
proof -
  have "task_step 1 new_service (new_service\<lparr>sv_cancelled := True\<rparr>)" by (rule task_step.cancel)
  moreover have "task_step 1 (new_service\<lparr>sv_cancelled := True\<rparr>) (new_service\<lparr>sv_cancelled := True, sv_loop := LoopExited\<rparr>)"
    using task_step.exit_loop [of "new_service\<lparr>sv_cancelled := True\<rparr>" 1] by (simp add: new_service_def)
  ultimately have "(task_step 1)\<^sup>*\<^sup>* new_service (new_service\<lparr>sv_cancelled := True, sv_loop := LoopExited\<rparr>)"
    by (blast intro: converse_rtranclp_into_rtranclp)
  from stop_joins_all [OF this] show ?thesis by (simp add: stopped_def new_service_def)
qed

text \<open>
  No task is forgotten. After a sweep that could read the store, every submission of the task
  strategy that is not terminal is in the queue or in flight, unless the queue is full.
\<close>

theorem task_sweep_recovers:
  assumes "db_inv key d" "env_fault e QueryStmt = None"
    and "row_at (submissions d) sid = Some r" "r_strategy r = StrategyUpstreamTask" "\<not> Terminal (r_status r)"
  shows "sid \<in> set (sv_queue (sweep_tasks e d s)) \<or> sid \<in> set (sv_inFlight s)
    \<or> length (sv_queue (sweep_tasks e d s)) \<ge> taskQueueDepth"
proof -
  have "Valid (r_status r)" and pk: "pk (submissions d)" using assms(1,3) by (auto simp: db_inv_def row_ok_def)
  then have "r_status r \<in> {StatusAccepted, StatusQueued, StatusRunning, StatusInputRequired}"
    using assms(5) by (cases "r_status r") auto
  then obtain ids where ids: "runnable_tasks e d = Inr ids" "sid \<in> set ids"
    using assms(2,3,4) listed_member [OF pk]
    by (auto simp: runnable_tasks_def ListByStatus_def StrategyUpstreamTask_def)
  then have "sid \<in> set (p_queue (sweepRunnable (Inr ids) (abs_pool s)))
      \<or> queueDepth \<le> length (p_queue (sweepRunnable (Inr ids) (abs_pool s))) \<or> sid \<in> set (sv_inFlight s)"
    using sweep_finds [of sid ids "abs_pool s"] by (auto simp: sweepRunnable_def abs_pool_def)
  moreover have "p_queue (abs_pool t) = sv_queue t" for t by (simp add: abs_pool_def)
  ultimately show ?thesis
    using sweep_tasks_abs [of e d s] ids(1) by (metis taskQueueDepth_def queueDepth_def)
qed

definition pending_db :: db where
  "pending_db = perform (OpCreate (demo_new\<lparr>ns_Strategy := StrategyUpstreamTask\<rparr>)) (demo_env 1) empty_db"

lemma pending_row:
  "case row_at (submissions pending_db) ''s1'' of None \<Rightarrow> False
   | Some r \<Rightarrow> r_strategy r = StrategyUpstreamTask \<and> \<not> Terminal (r_status r)"
  by code_simp

theorem task_sweep_recovers_witness:
  "''s1'' \<in> set (sv_queue (sweep_tasks (demo_env 2) pending_db new_service))
   \<or> length (sv_queue (sweep_tasks (demo_env 2) pending_db new_service)) \<ge> taskQueueDepth"
proof -
  have "db_inv ''key'' pending_db" unfolding pending_db_def by (rule store.inv_op [OF demo_env_ok db_inv_empty])
  moreover obtain r where "row_at (submissions pending_db) ''s1'' = Some r" "r_strategy r = StrategyUpstreamTask"
      "\<not> Terminal (r_status r)" using pending_row by (auto split: option.splits)
  moreover have "env_fault (demo_env 2) QueryStmt = None" by (simp add: demo_env_def)
  ultimately show ?thesis using task_sweep_recovers [of "''key''" pending_db "demo_env 2" "''s1''" r new_service]
    by (simp add: new_service_def)
qed

end
