(* ===== verification/Go_Url.thy ===== *)
theory Go_Url
  imports Go_Json
begin

text \<open>
  What the packages use of Go's \<open>net/url\<close> (Go 1.25.0): \<open>Parse\<close>, \<open>Hostname\<close> and \<open>Port\<close>. A parsed URL keeps the
  parts the callers read; \<open>url_User\<close> says whether user information was present.
\<close>

section \<open>Definitions\<close>

record url =
  url_Scheme :: string
  url_User :: bool
  url_Host :: string
  url_Path :: string
  url_RawQuery :: string
  url_Fragment :: string

definition no_url :: url where
  "no_url = \<lparr>url_Scheme = '''', url_User = False, url_Host = '''', url_Path = '''', url_RawQuery = '''', url_Fragment = ''''\<rparr>"

definition is_alpha :: "char \<Rightarrow> bool" where
  "is_alpha c \<longleftrightarrow> (97 \<le> byte_of c \<and> byte_of c \<le> 122) \<or> (65 \<le> byte_of c \<and> byte_of c \<le> 90)"

text \<open>The same on the bits of the byte, for evaluation.\<close>

lemma is_alpha_code [code]:
  "is_alpha (Char b0 b1 b2 b3 b4 b5 b6 b7) \<longleftrightarrow>
     \<not> b7 \<and> b6 \<and> (b0 \<or> b1 \<or> b2 \<or> b3 \<or> b4) \<and> \<not> (b4 \<and> b3 \<and> (b2 \<or> b1 \<and> b0))"
  by (cases b0; cases b1; cases b2; cases b3; cases b4; cases b5; cases b6; cases b7)
    (simp_all add: is_alpha_def byte_of_def)

lemma is_digit_code [code]:
  "is_digit (Char b0 b1 b2 b3 b4 b5 b6 b7) \<longleftrightarrow> \<not> b7 \<and> \<not> b6 \<and> b5 \<and> b4 \<and> \<not> (b3 \<and> (b2 \<or> b1))"
  by (cases b0; cases b1; cases b2; cases b3; cases b4; cases b5; cases b6; cases b7)
    (simp_all add: is_digit_def byte_of_def)

definition lower_byte :: "char \<Rightarrow> char" where
  "lower_byte c = (let b = (of_char c :: nat) in if 65 \<le> b \<and> b \<le> 90 then char_of (b + 32) else c)"

lemma lower_byte_code [code]:
  "lower_byte (Char b0 b1 b2 b3 b4 b5 b6 b7) =
     Char b0 b1 b2 b3 b4
       (b5 \<or> \<not> b7 \<and> b6 \<and> (b0 \<or> b1 \<or> b2 \<or> b3 \<or> b4) \<and> \<not> (b4 \<and> b3 \<and> (b2 \<or> b1 \<and> b0))) b6 b7"
  by (cases b0; cases b1; cases b2; cases b3; cases b4; cases b5; cases b6; cases b7)
    (simp_all add: lower_byte_def char_of_def bit_0)

lemma ascii_lower_code [code]: "ascii_lower s = map lower_byte s"
  by (simp add: ascii_lower_def lower_byte_def)

definition ctl_byte :: "char \<Rightarrow> bool" where
  "ctl_byte c \<longleftrightarrow> byte_of c < 32 \<or> byte_of c = 127"

lemma ctl_byte_code [code]:
  "ctl_byte (Char b0 b1 b2 b3 b4 b5 b6 b7) \<longleftrightarrow>
     \<not> b7 \<and> (\<not> b6 \<and> \<not> b5 \<or> b0 \<and> b1 \<and> b2 \<and> b3 \<and> b4 \<and> b5 \<and> b6)"
  by (cases b0; cases b1; cases b2; cases b3; cases b4; cases b5; cases b6; cases b7)
    (simp_all add: ctl_byte_def byte_of_def)

definition unhex :: "char \<Rightarrow> nat option" where
  "unhex c =
     (let b = byte_of c in
      if 48 \<le> b \<and> b \<le> 57 then Some (b - 48)
      else if 97 \<le> b \<and> b \<le> 102 then Some (b - 87)
      else if 65 \<le> b \<and> b \<le> 70 then Some (b - 55)
      else None)"

text \<open>The first and the last occurrence of a character: what is before it and what is after it.\<close>

definition cut_first :: "char \<Rightarrow> string \<Rightarrow> string \<times> string" where
  "cut_first c s = (takeWhile (\<lambda>x. x \<noteq> c) s, drop 1 (dropWhile (\<lambda>x. x \<noteq> c) s))"

definition cut_last :: "char \<Rightarrow> string \<Rightarrow> (string \<times> string) option" where
  "cut_last c s =
     (if c \<notin> set s then None
      else Some (rev (drop 1 (dropWhile (\<lambda>x. x \<noteq> c) (rev s))), rev (takeWhile (\<lambda>x. x \<noteq> c) (rev s))))"

datatype escape_mode = EncodeHost | EncodeZone | EncodePath | EncodeUserPassword | EncodeFragment

text \<open>\<open>shouldEscape\<close> in the host and zone modes.\<close>

definition host_char :: "char \<Rightarrow> bool" where
  "host_char c \<longleftrightarrow> is_alpha c \<or> is_digit c \<or> c \<in> set ''!$&()*+,;=:[]<>-_.~'' \<or> c = CHR 0x27 \<or> c = CHR 0x22"

definition escape_ok :: "escape_mode \<Rightarrow> nat \<Rightarrow> nat \<Rightarrow> bool" where
  "escape_ok mode hi lo \<longleftrightarrow>
     (case mode of
        EncodeHost \<Rightarrow> 8 \<le> hi \<or> (hi = 2 \<and> lo = 5)
      | EncodeZone \<Rightarrow> (hi = 2 \<and> lo = 5) \<or> (hi = 2 \<and> lo = 0) \<or> host_char (char_of (16 * hi + lo))
      | _ \<Rightarrow> True)"

definition literal_ok :: "escape_mode \<Rightarrow> char \<Rightarrow> bool" where
  "literal_ok mode c \<longleftrightarrow>
     (case mode of
        EncodeHost \<Rightarrow> 128 \<le> byte_of c \<or> host_char c
      | EncodeZone \<Rightarrow> 128 \<le> byte_of c \<or> host_char c
      | _ \<Rightarrow> True)"

fun unescape :: "escape_mode \<Rightarrow> string \<Rightarrow> go_error + string" where
  "unescape mode [] = Inr []"
| "unescape mode (c # r) =
     (if c = CHR ''%'' then
        (case r of
           h # l # rest \<Rightarrow>
             (case (unhex h, unhex l) of
                (Some hi, Some lo) \<Rightarrow>
                  if escape_ok mode hi lo
                  then rbind (unescape mode rest) (\<lambda>out. Inr (char_of (16 * hi + lo) # out))
                  else Inl (errors_New ''invalid URL escape'')
              | _ \<Rightarrow> Inl (errors_New ''invalid URL escape''))
         | _ \<Rightarrow> Inl (errors_New ''invalid URL escape''))
      else if literal_ok mode c then rbind (unescape mode r) (\<lambda>out. Inr (c # out))
      else Inl (errors_New ''invalid character in host name''))"

definition validOptionalPort :: "string \<Rightarrow> bool" where
  "validOptionalPort port \<longleftrightarrow> port = [] \<or> (hd port = CHR '':'' \<and> list_all is_digit (tl port))"

text \<open>The position of the zone separator \<open>%25\<close> in a bracketed host.\<close>

fun cut_zone :: "string \<Rightarrow> (string \<times> string) option" where
  "cut_zone [] = None"
| "cut_zone (c # r) =
     (if take 3 (c # r) = ''%25'' then Some ([], c # r)
      else map_option (\<lambda>(a, b). (c # a, b)) (cut_zone r))"

definition parseHost :: "string \<Rightarrow> go_error + string" where
  "parseHost host =
     (if take 1 host = ''['' then
        (case cut_last (CHR '']'') host of
           None \<Rightarrow> Inl (errors_New ''missing ] in host'')
         | Some (inside, port) \<Rightarrow>
             rbind (ensure (validOptionalPort port) (errors_New ''invalid port after host'')) (\<lambda>_.
             case cut_zone inside of
               None \<Rightarrow> unescape EncodeHost host
             | Some (addr, zid) \<Rightarrow>
                 rbind (unescape EncodeHost addr) (\<lambda>h1.
                 rbind (unescape EncodeZone zid) (\<lambda>h2.
                 rbind (unescape EncodeHost (CHR '']'' # port)) (\<lambda>h3.
                 Inr (h1 @ h2 @ h3))))))
      else
        rbind (case cut_last (CHR '':'') host of
                 None \<Rightarrow> Inr ()
               | Some (_, port) \<Rightarrow> ensure (validOptionalPort (CHR '':'' # port)) (errors_New ''invalid port after host'')) (\<lambda>_.
        unescape EncodeHost host))"

definition validUserinfo :: "string \<Rightarrow> bool" where
  "validUserinfo s \<longleftrightarrow> list_all (\<lambda>c. is_alpha c \<or> is_digit c \<or> c \<in> set ''-._:~!$&()*+,;=%@'' \<or> c = CHR 0x27) s"

text \<open>\<open>parseAuthority\<close>; the user name and the password are only checked.\<close>

definition parseAuthority :: "string \<Rightarrow> go_error + bool \<times> string" where
  "parseAuthority authority =
     (case cut_last (CHR ''@'') authority of
        None \<Rightarrow> rbind (parseHost authority) (\<lambda>host. Inr (False, host))
      | Some (userinfo, rest) \<Rightarrow>
          rbind (parseHost rest) (\<lambda>host.
          rbind (ensure (validUserinfo userinfo) (errors_New ''net/url: invalid userinfo'')) (\<lambda>_.
          rbind (unescape EncodeUserPassword (fst (cut_first (CHR '':'') userinfo))) (\<lambda>_.
          rbind (unescape EncodeUserPassword (snd (cut_first (CHR '':'') userinfo))) (\<lambda>_.
          Inr (True, host))))))"

text \<open>\<open>getScheme\<close>: the scheme in front of the first colon, when what is in front of it is one.\<close>

definition scheme_char :: "char \<Rightarrow> bool" where
  "scheme_char c \<longleftrightarrow> is_alpha c \<or> is_digit c \<or> c \<in> set ''+-.''"

definition getScheme :: "string \<Rightarrow> go_error + string \<times> string" where
  "getScheme raw =
     (let pre = takeWhile scheme_char raw; rest = dropWhile scheme_char raw in
      if raw \<noteq> [] \<and> hd raw = CHR '':'' then Inl (errors_New ''missing protocol scheme'')
      else if pre \<noteq> [] \<and> is_alpha (hd pre) \<and> take 1 rest = '':'' then Inr (pre, drop 1 rest)
      else Inr ([], raw))"

text \<open>\<open>parse\<close>, for a URL whose fragment is cut off. A lone trailing question mark leaves no query.\<close>

definition parse_url :: "string \<Rightarrow> go_error + url" where
  "parse_url raw =
     rbind (ensure (\<not> list_ex ctl_byte raw)
              (errors_New ''net/url: invalid control character in URL'')) (\<lambda>_.
     if raw = ''*'' then Inr (no_url\<lparr>url_Path := ''*''\<rparr>)
     else
       rbind (getScheme raw) (\<lambda>(scheme, rest).
       let u = no_url\<lparr>url_Scheme := ascii_lower scheme, url_RawQuery := snd (cut_first (CHR ''?'') rest)\<rparr>;
           rest = fst (cut_first (CHR ''?'') rest)
       in if take 1 rest \<noteq> ''/'' \<and> scheme \<noteq> [] then Inr u
          else if take 1 rest \<noteq> ''/'' \<and> CHR '':'' \<in> set (fst (cut_first (CHR ''/'') rest))
          then Inl (errors_New ''first path segment in URL cannot contain colon'')
          else if (scheme \<noteq> [] \<or> take 3 rest \<noteq> ''///'') \<and> take 2 rest = ''//''
          then (let authority = takeWhile (\<lambda>c. c \<noteq> CHR ''/'') (drop 2 rest);
                    path = dropWhile (\<lambda>c. c \<noteq> CHR ''/'') (drop 2 rest)
                in rbind (parseAuthority authority) (\<lambda>(user, host).
                   rbind (unescape EncodePath path) (\<lambda>p.
                   Inr (u\<lparr>url_User := user, url_Host := host, url_Path := p\<rparr>))))
          else rbind (unescape EncodePath rest) (\<lambda>p. Inr (u\<lparr>url_Path := p\<rparr>))))"

definition Parse :: "string \<Rightarrow> go_error + url" where
  "Parse raw =
     (let frag = snd (cut_first (CHR ''#'') raw) in
      rbind (parse_url (fst (cut_first (CHR ''#'') raw))) (\<lambda>u.
      if frag = [] then Inr u
      else rbind (unescape EncodeFragment frag) (\<lambda>f. Inr (u\<lparr>url_Fragment := f\<rparr>))))"

definition splitHostPort :: "string \<Rightarrow> string \<times> string" where
  "splitHostPort hostPort =
     (let (host, port) = (case cut_last (CHR '':'') hostPort of
            None \<Rightarrow> (hostPort, [])
          | Some (h, p) \<Rightarrow> if validOptionalPort (CHR '':'' # p) then (h, p) else (hostPort, []))
      in (if take 1 host = ''['' \<and> drop (length host - 1) host = '']'' then butlast (tl host) else host, port))"

definition Hostname :: "url \<Rightarrow> string" where
  "Hostname u = fst (splitHostPort (url_Host u))"

definition Port :: "url \<Rightarrow> string" where
  "Port u = snd (splitHostPort (url_Host u))"

section \<open>Lemmas\<close>

lemma parse_examples:
  "Parse ''https://Auth.example:8443/a%20b?x=1#f'' =
     Inr \<lparr>url_Scheme = ''https'', url_User = False, url_Host = ''Auth.example:8443'', url_Path = ''/a b'',
       url_RawQuery = ''x=1'', url_Fragment = ''f''\<rparr>"
  "isl (Parse ''https://a b/'')"
  "map_sum id Hostname (Parse ''http://[::1]:80/'') = Inr ''::1''"
  "map_sum id url_User (Parse ''HTTP://u:p@h'') = Inr True"
  by code_simp+

end
