(* ===== verification/Profile.thy ===== *)
theory Profile
  imports Go_Url Catalog_Validity Profile_Limits
begin

text \<open>
  Profiles (\<open>internal/profile\<close>): names and state references, addresses, scopes, the execution kind,
  validation and the profile digest. Reading and writing the profile file are not modelled.
\<close>

section \<open>Definitions\<close>

subsection \<open>Names and references\<close>

definition is_lower :: "char \<Rightarrow> bool" where
  "is_lower c \<longleftrightarrow> 97 \<le> byte_of c \<and> byte_of c \<le> 122"

definition lower_alnum :: "char \<Rightarrow> bool" where
  "lower_alnum c \<longleftrightarrow> is_lower c \<or> is_digit c"

text \<open>The two patterns differ in the first character.\<close>

definition portable_name :: "(char \<Rightarrow> bool) \<Rightarrow> string \<Rightarrow> bool" where
  "portable_name start s \<longleftrightarrow>
     s \<noteq> [] \<and> length s \<le> 64 \<and> start (hd s) \<and> lower_alnum (last s)
     \<and> list_all (\<lambda>c. lower_alnum c \<or> c = CHR ''-'') s"

definition ParseName :: "string \<Rightarrow> go_error + string" where
  "ParseName value = rbind (ensure (portable_name is_lower value) (errors_New ''invalid profile name'')) (\<lambda>_. Inr value)"

definition ProfilesDirName :: string where
  "ProfilesDirName = ''profiles''"

text \<open>The paths, under a directory that is already clean.\<close>

definition Path :: "string \<Rightarrow> string \<Rightarrow> string" where
  "Path configDir name = configDir @ ''/'' @ ProfilesDirName @ ''/'' @ name @ ''.json''"

definition windowsReservedDatabaseReference :: "string \<Rightarrow> bool" where
  "windowsReservedDatabaseReference ref \<longleftrightarrow>
     ref \<in> {''aux'', ''con'', ''nul'', ''prn''}
     \<or> (length ref = 4 \<and> (take 3 ref = ''com'' \<or> take 3 ref = ''lpt'') \<and> ref ! 3 \<in> set ''123456789'')"

definition checkReference :: "string \<Rightarrow> go_error + unit" where
  "checkReference ref =
     rbind (ensure (ref \<noteq> '''' \<and> ref \<noteq> ''.'' \<and> ref \<noteq> ''..'') (errors_New ''reference must be a non-empty name'')) (\<lambda>_.
     rbind (ensure (length ref \<le> 64) (errors_New ''reference exceeds 64 bytes'')) (\<lambda>_.
     ensure (CHR ''/'' \<notin> set ref \<and> CHR 0x5C \<notin> set ref \<and> \<not> contains ''..'' ref)
       (errors_New ''reference is not a safe name'')))"

definition checkDatabaseReference :: "string \<Rightarrow> go_error + unit" where
  "checkDatabaseReference ref =
     rbind (checkReference ref) (\<lambda>_.
     ensure (portable_name lower_alnum ref \<and> \<not> windowsReservedDatabaseReference ref)
       (errors_New ''database reference is not a portable filename''))"

subsection \<open>Addresses\<close>

definition checkHTTPS :: "string \<Rightarrow> bool \<Rightarrow> go_error + url" where
  "checkHTTPS value allowPath =
     (case Parse value of
        Inl e \<Rightarrow> Inl (errors_New ''not a URL'')
      | Inr u \<Rightarrow>
          rbind (ensure (url_Scheme u = ''https'') (errors_New ''must use https'')) (\<lambda>_.
          rbind (ensure (\<not> url_User u) (errors_New ''must not contain credentials'')) (\<lambda>_.
          rbind (ensure (Hostname u \<noteq> '''') (errors_New ''has no host'')) (\<lambda>_.
          rbind (ensure (url_RawQuery u = '''' \<and> url_Fragment u = '''') (errors_New ''must not contain a query or fragment'')) (\<lambda>_.
          rbind (ensure (allowPath \<or> url_Path u = '''') (errors_New ''must be an origin without a path'')) (\<lambda>_.
          Inr u))))))"

definition ParseOrigin :: "string \<Rightarrow> go_error + string" where
  "ParseOrigin raw =
     (case Parse raw of
        Inl e \<Rightarrow> Inl (errors_New ''address is not a URL'')
      | Inr u \<Rightarrow>
          rbind (ensure (url_Scheme u = ''https'') (errors_New ''address must use https'')) (\<lambda>_.
          rbind (ensure (\<not> url_User u) (errors_New ''address must not contain credentials'')) (\<lambda>_.
          rbind (ensure (Hostname u \<noteq> '''') (errors_New ''address has no host'')) (\<lambda>_.
          rbind (ensure (url_RawQuery u = '''' \<and> url_Fragment u = '''') (errors_New ''address must not contain a query or fragment'')) (\<lambda>_.
          rbind (ensure (url_Path u = '''' \<or> url_Path u = ''/'') (errors_New ''address must be a path-free origin'')) (\<lambda>_.
          let origin = url_Scheme u @ ''://'' @ url_Host u
          in rbind (checkHTTPS origin False) (\<lambda>_. Inr origin)))))))"

datatype profile_kind = KindApp | KindSystem

definition EndpointFor :: "string \<Rightarrow> profile_kind \<Rightarrow> go_error + string" where
  "EndpointFor origin k =
     rbind (ParseOrigin origin) (\<lambda>normalized.
     Inr (normalized @ (case k of KindApp \<Rightarrow> ''/mcp/app'' | KindSystem \<Rightarrow> ''/mcp/system'')))"

definition ParseSecureURL :: "string \<Rightarrow> go_error + url" where
  "ParseSecureURL value = checkHTTPS value True"

subsection \<open>Scopes\<close>

definition validScopeToken :: "string \<Rightarrow> bool" where
  "validScopeToken tok \<longleftrightarrow>
     tok \<noteq> [] \<and> length tok \<le> 255 \<and> list_all (\<lambda>c. is_alpha c \<or> is_digit c \<or> c \<in> set ''._:/-'') tok"

definition CanonicalScopes :: "string list \<Rightarrow> go_error + string list" where
  "CanonicalScopes scopes =
     rbind (ensure (length scopes \<le> 16) (errors_New ''too many scopes'')) (\<lambda>_.
     rbind (ensure (list_all validScopeToken scopes) (errors_New ''not a valid OAuth scope token'')) (\<lambda>_.
     rbind (ensure (distinct scopes) (errors_New ''duplicate scope'')) (\<lambda>_.
     Inr (sort scopes))))"

definition validateScopes :: "int \<Rightarrow> string list \<Rightarrow> go_error + string list" where
  "validateScopes version scopes =
     (if version = 2
      then rbind (ensure (scopes \<noteq> []) (errors_New ''version 2 profiles require a non-empty scopes array'')) (\<lambda>_.
           CanonicalScopes scopes)
      else rbind (ensure (scopes = []) (errors_New ''version 1 profiles must not declare scopes'')) (\<lambda>_. Inr []))"

subsection \<open>Profiles\<close>

record profile =
  pf_Version :: int
  pf_Name :: string
  pf_Origin :: string
  pf_Endpoint :: string
  pf_Issuer :: string
  pf_Instructions :: string
  pf_ProtocolMin :: string
  pf_ProtocolMax :: string
  pf_Database :: string
  pf_Credentials :: string
  pf_Limits :: "Limits option"
  pf_Operations :: "Descriptor list"
  pf_Scopes :: "string list"
  pf_Digest :: string

definition DatabasePath :: "string \<Rightarrow> profile \<Rightarrow> string" where
  "DatabasePath stateDir p =
     stateDir @ ''/'' @ ProfilesDirName @ ''/'' @ pf_Name p @ ''/'' @ pf_Database p @ ''.db''"

definition CredentialNamespace :: "profile \<Rightarrow> string" where
  "CredentialNamespace p = pf_Name p @ ''/'' @ pf_Credentials p"

text \<open>\<open>time.Parse("2006-01-02", value)\<close>, as a day number.\<close>

definition parseProtocolVersion :: "string \<Rightarrow> int option" where
  "parseProtocolVersion value =
     Option.bind (year value) (\<lambda>(y, s). Option.bind (skip_char CHR ''-'' s) (\<lambda>s.
     Option.bind (number True 1 12 s) (\<lambda>(mo, s). Option.bind (skip_char CHR ''-'' s) (\<lambda>s.
     Option.bind (number True 0 99 s) (\<lambda>(d, s).
     if s \<noteq> [] \<or> d < 1 \<or> days_in y mo < d then None else Some (day_number y mo d))))))"

definition Bounds_Valid :: "profile \<Rightarrow> bool" where
  "Bounds_Valid p \<longleftrightarrow>
     (case (parseProtocolVersion (pf_ProtocolMin p), parseProtocolVersion (pf_ProtocolMax p)) of
        (Some lo, Some hi) \<Rightarrow> lo \<le> hi
      | _ \<Rightarrow> False)"

definition EffectiveLimits :: "profile \<Rightarrow> Limits" where
  "EffectiveLimits p = (case pf_Limits p of None \<Rightarrow> Default | Some l \<Rightarrow> l)"

definition raisesDefaultLimits :: "Limits \<Rightarrow> bool" where
  "raisesDefaultLimits got \<longleftrightarrow>
     ArgumentsBytes got > ArgumentsBytes Default \<or> ArgumentDepth got > ArgumentDepth Default
     \<or> ResponseBytes got > ResponseBytes Default \<or> ResultBytes got > ResultBytes Default
     \<or> EventBytes got > EventBytes Default \<or> MaxEvents got > MaxEvents Default
     \<or> EventsBytes got > EventsBytes Default \<or> AwaitDefault got > AwaitDefault Default
     \<or> AwaitMax got > AwaitMax Default \<or> PayloadRetention got > PayloadRetention Default
     \<or> TombstoneRetention got > TombstoneRetention Default"

definition kindFromOperations :: "Descriptor list \<Rightarrow> go_error + profile_kind" where
  "kindFromOperations ops =
     (let app = list_ex (\<lambda>d. d_Strategy d = StrategyUpstreamTask) ops;
          system = list_ex (\<lambda>d. d_Strategy d \<in> {StrategyLocalReplayable, StrategyLocalGuarded}) ops
      in rbind (ensure (list_all (\<lambda>d. d_Strategy d \<in> {StrategyUpstreamTask, StrategyLocalReplayable, StrategyLocalGuarded,
                  StrategyUnsupported}) ops) (errors_New ''operation has unknown strategy'')) (\<lambda>_.
         if app \<and> system then Inl (errors_New ''profile mixes app and system operations'')
         else if app then Inr KindApp
         else if system then Inr KindSystem
         else Inl (errors_New ''profile has no operations'')))"

definition checkEndpointKind :: "url \<Rightarrow> profile_kind \<Rightarrow> go_error + unit" where
  "checkEndpointKind u k =
     (case k of
        KindApp \<Rightarrow> ensure (url_Path u = ''/mcp/app'') (errors_New ''app profile endpoint must use /mcp/app'')
      | KindSystem \<Rightarrow> ensure (url_Path u = ''/mcp/system'') (errors_New ''system profile endpoint must use /mcp/system''))"

definition Kind :: "profile \<Rightarrow> go_error + profile_kind" where
  "Kind p =
     rbind (kindFromOperations (pf_Operations p)) (\<lambda>k.
     rbind (map_error (\<lambda>e. Errorf ''parse endpoint'' [e]) (Parse (pf_Endpoint p))) (\<lambda>u.
     rbind (checkEndpointKind u k) (\<lambda>_. Inr k)))"

subsection \<open>The digest\<close>

definition optional_member :: "string \<Rightarrow> bool \<Rightarrow> json \<Rightarrow> (string \<times> json) list" where
  "optional_member name present v = (if present then [(name, v)] else [])"

definition limits_json :: "Limits \<Rightarrow> json" where
  "limits_json l = JObj
     [(''arguments_bytes'', JNum (format_int (ArgumentsBytes l))), (''argument_depth'', JNum (format_int (ArgumentDepth l))),
      (''response_bytes'', JNum (format_int (ResponseBytes l))), (''result_bytes'', JNum (format_int (ResultBytes l))),
      (''event_bytes'', JNum (format_int (EventBytes l))), (''max_events'', JNum (format_int (MaxEvents l))),
      (''events_bytes'', JNum (format_int (EventsBytes l))), (''await_default'', JNum (format_int (AwaitDefault l))),
      (''await_max'', JNum (format_int (AwaitMax l))), (''payload_retention'', JNum (format_int (PayloadRetention l))),
      (''tombstone_retention'', JNum (format_int (TombstoneRetention l)))]"

definition raw_or_null :: "json option \<Rightarrow> json" where
  "raw_or_null raw = (case raw of None \<Rightarrow> JNull | Some v \<Rightarrow> v)"

definition descriptor_json :: "Descriptor \<Rightarrow> json" where
  "descriptor_json d = JObj
     ([(''name'', JStr (d_Name d))]
      @ optional_member ''title'' (d_Title d \<noteq> '''') (JStr (d_Title d))
      @ optional_member ''description'' (d_Description d \<noteq> '''') (JStr (d_Description d))
      @ [(''input_schema'', raw_or_null (d_InputSchema d))]
      @ optional_member ''client_schema'' (d_ClientSchema d \<noteq> None) (raw_or_null (d_ClientSchema d))
      @ optional_member ''output_schema'' (d_OutputSchema d \<noteq> None) (raw_or_null (d_OutputSchema d))
      @ optional_member ''annotations'' (d_Annotations d \<noteq> None \<and> d_Annotations d \<noteq> Some (JObj [])) (raw_or_null (d_Annotations d))
      @ [(''task_support'', JStr (d_TaskSupport d))]
      @ optional_member ''bindings'' (d_Bindings d \<noteq> []) (JArr (map binding_json (d_Bindings d)))
      @ [(''strategy'', JStr (d_Strategy d)), (''digest'', JStr (d_Digest d))])"

definition profile_digestForm :: "profile \<Rightarrow> string list \<Rightarrow> json" where
  "profile_digestForm p scopes = JObj
     ([(''version'', JNum (format_int (pf_Version p))), (''name'', JStr (pf_Name p)), (''origin'', JStr (pf_Origin p)),
       (''endpoint'', JStr (pf_Endpoint p)), (''issuer'', JStr (pf_Issuer p)), (''instructions'', JStr (pf_Instructions p)),
       (''bounds'', JObj [(''protocol_min'', JStr (pf_ProtocolMin p)), (''protocol_max'', JStr (pf_ProtocolMax p))]),
       (''state'', JObj [(''database'', JStr (pf_Database p)), (''credentials'', JStr (pf_Credentials p))])]
      @ (case pf_Limits p of None \<Rightarrow> [] | Some l \<Rightarrow> [(''limits'', limits_json l)])
      @ [(''operations'', if pf_Operations p = [] then JNull else JArr (map descriptor_json (pf_Operations p)))]
      @ optional_member ''scopes'' (scopes \<noteq> []) (JArr (map JStr scopes)))"

definition Profile_ComputeDigest :: "(string \<Rightarrow> string) \<Rightarrow> profile \<Rightarrow> go_error + string" where
  "Profile_ComputeDigest sha256 p =
     rbind (map_error (\<lambda>e. Errorf ''digest scopes'' [e]) (CanonicalScopes (pf_Scopes p))) (\<lambda>scopes.
     rbind (map_error (\<lambda>e. Errorf ''canonicalize profile for digest'' [e])
              (Canonical (tokens (profile_digestForm p scopes)))) (\<lambda>canonical.
     Inr (''sha256:'' @ hex_encode (sha256 (encode canonical)))))"

definition Profile_CheckDigest :: "(string \<Rightarrow> string) \<Rightarrow> profile \<Rightarrow> go_error + unit" where
  "Profile_CheckDigest sha256 p =
     rbind (Profile_ComputeDigest sha256 p) (\<lambda>computed.
     ensure (computed = pf_Digest p) (errors_New ''profile digest mismatch''))"

subsection \<open>Validation\<close>

fun profile_operations :: "dialect \<Rightarrow> (string \<Rightarrow> string) \<Rightarrow> Descriptor list \<Rightarrow> string list \<Rightarrow> go_error + unit" where
  "profile_operations dx sha256 [] seen = Inr ()"
| "profile_operations dx sha256 (d # ds) seen =
     rbind (Descriptor_Validate dx sha256 d) (\<lambda>_.
     rbind (ensure (d_Name d \<notin> set seen) (errors_New ''duplicate operation'')) (\<lambda>_.
     profile_operations dx sha256 ds (d_Name d # seen)))"

text \<open>Validation leaves the canonical scopes in the profile.\<close>

definition Profile_Validate ::
    "dialect \<Rightarrow> (string \<Rightarrow> string) \<Rightarrow> profile \<Rightarrow> string \<Rightarrow> go_error + profile" where
  "Profile_Validate dx sha256 p expected =
     rbind (ensure (pf_Version p = 2 \<or> pf_Version p = 1) (errors_New ''unsupported profile version'')) (\<lambda>_.
     rbind (ensure (pf_Name p = expected) (errors_New ''profile name does not match'')) (\<lambda>_.
     rbind (checkHTTPS (pf_Origin p) False) (\<lambda>origin.
     rbind (checkHTTPS (pf_Endpoint p) True) (\<lambda>endpoint.
     rbind (ensure (url_Host endpoint = url_Host origin) (errors_New ''endpoint host does not match origin'')) (\<lambda>_.
     rbind (checkHTTPS (pf_Issuer p) True) (\<lambda>_.
     rbind (ensure (int (length (pf_Instructions p)) \<le> 16 * 1024) (errors_New ''instructions exceed 16384 bytes'')) (\<lambda>_.
     rbind (ensure (Bounds_Valid p) (errors_New ''invalid protocol bounds'')) (\<lambda>_.
     rbind (checkDatabaseReference (pf_Database p)) (\<lambda>_.
     rbind (checkReference (pf_Credentials p)) (\<lambda>_.
     rbind (Validate (EffectiveLimits p)) (\<lambda>_.
     rbind (ensure (pf_Operations p \<noteq> []) (errors_New ''profile has no operations'')) (\<lambda>_.
     rbind (profile_operations dx sha256 (pf_Operations p) []) (\<lambda>_.
     rbind (Kind p) (\<lambda>_.
     rbind (validateScopes (pf_Version p) (pf_Scopes p)) (\<lambda>canonical.
     let p = p\<lparr>pf_Scopes := canonical\<rparr>
     in rbind (if pf_Digest p \<noteq> '''' then Profile_CheckDigest sha256 p else Inr ()) (\<lambda>_.
        rbind (ensure (\<not> raisesDefaultLimits (EffectiveLimits p) \<or> pf_Digest p \<noteq> '''')
                 (errors_New ''profile digest is required when limits exceed defaults'')) (\<lambda>_.
        Inr p)))))))))))))))))"

section \<open>Lemmas\<close>

lemma profile_operations_distinct:
  "profile_operations dx sha256 ds seen = Inr () \<Longrightarrow> distinct (map d_Name ds) \<and> d_Name ` set ds \<inter> set seen = {}"
proof (induction ds arbitrary: seen)
  case (Cons d ds)
  from Cons.prems have "d_Name d \<notin> set seen" "profile_operations dx sha256 ds (d_Name d # seen) = Inr ()"
    by (auto simp: result_simps)
  with Cons.IH [of "d_Name d # seen"] show ?case by auto
qed simp

lemma CanonicalScopes_iff:
  "CanonicalScopes scopes = Inr c \<longleftrightarrow>
     length scopes \<le> 16 \<and> list_all validScopeToken scopes \<and> distinct scopes \<and> c = sort scopes"
  by (auto simp: CanonicalScopes_def result_simps)

lemma CanonicalScopes_mset: "mset xs = mset ys \<Longrightarrow> CanonicalScopes xs = CanonicalScopes ys"
proof -
  assume m: "mset xs = mset ys"
  then have "length xs = length ys" "set xs = set ys" "distinct xs = distinct ys" "sort xs = sort ys"
    using mset_eq_length mset_eq_setD mset_eq_imp_distinct_iff by (blast, blast, blast)
      (simp add: m properties_for_sort)
  then show ?thesis by (simp add: CanonicalScopes_def list_all_iff)
qed

lemma validateScopes_again: "validateScopes v xs = Inr c \<Longrightarrow> validateScopes v c = Inr c"
proof (cases "v = 2")
  case True
  assume "validateScopes v xs = Inr c"
  with True have c: "xs \<noteq> []" "CanonicalScopes xs = Inr c" by (auto simp: validateScopes_def result_simps)
  then have "CanonicalScopes c = Inr c" "c \<noteq> []"
    by (auto simp: CanonicalScopes_iff list_all_iff sorted_sort_id) (metis set_empty set_sort)
  with True show ?thesis by (simp add: validateScopes_def)
qed (auto simp: validateScopes_def result_simps)

lemma kindFromOperations_one:
  assumes "kindFromOperations ops = Inr k" "d \<in> set ops"
  shows "d_Strategy d = StrategyUnsupported \<or> (k = KindApp \<longleftrightarrow> d_Strategy d = StrategyUpstreamTask)"
  using assms by (auto simp: kindFromOperations_def Let_def list_ex_iff list_all_iff result_simps split: if_splits)

lemma checkHTTPS_iff:
  "checkHTTPS value allowPath = Inr u \<longleftrightarrow> Parse value = Inr u \<and> url_Scheme u = ''https'' \<and> \<not> url_User u \<and> Hostname u \<noteq> ''''
     \<and> url_RawQuery u = '''' \<and> url_Fragment u = '''' \<and> (allowPath \<or> url_Path u = '''')"
  by (auto simp: checkHTTPS_def result_simps split: sum.splits)

lemma append_sep_inject:
  "c \<notin> set a \<Longrightarrow> c \<notin> set b \<Longrightarrow> a @ c # x = b @ c # y \<longleftrightarrow> a = b \<and> x = y"
proof (induction a arbitrary: b)
  case Nil
  then show ?case by (cases b) auto
next
  case (Cons z a)
  then show ?case by (cases b) auto
qed

lemma portable_no_slash: "portable_name f s \<Longrightarrow> CHR ''/'' \<notin> set s"
proof -
  assume "portable_name f s"
  moreover have "\<not> lower_alnum (CHR ''/'')" by (simp add: lower_alnum_def is_lower_def is_digit_def byte_of_def)
  ultimately show ?thesis by (auto simp: portable_name_def list_all_iff)
qed

lemma Profile_Validate_iff:
  "Profile_Validate dx sha256 p n = Inr q \<longleftrightarrow>
     (\<exists>v u w c. (pf_Version p = 2 \<or> pf_Version p = 1) \<and> pf_Name p = n \<and> checkHTTPS (pf_Origin p) False = Inr v
        \<and> checkHTTPS (pf_Endpoint p) True = Inr u \<and> url_Host u = url_Host v \<and> checkHTTPS (pf_Issuer p) True = Inr w
        \<and> int (length (pf_Instructions p)) \<le> 16 * 1024 \<and> Bounds_Valid p \<and> checkDatabaseReference (pf_Database p) = Inr ()
        \<and> checkReference (pf_Credentials p) = Inr () \<and> Validate (EffectiveLimits p) = Inr () \<and> pf_Operations p \<noteq> []
        \<and> profile_operations dx sha256 (pf_Operations p) [] = Inr () \<and> (\<exists>k. Kind p = Inr k)
        \<and> validateScopes (pf_Version p) (pf_Scopes p) = Inr c \<and> q = p\<lparr>pf_Scopes := c\<rparr>
        \<and> (if pf_Digest p \<noteq> [] then Profile_CheckDigest sha256 q else Inr ()) = Inr ()
        \<and> (\<not> raisesDefaultLimits (EffectiveLimits q) \<or> pf_Digest p \<noteq> []))"
  unfolding Profile_Validate_def Let_def result_simps by fastforce

section \<open>Properties\<close>

text \<open>
  C32: A validated profile is sound. Its endpoint and origin are https URLs without credentials on
  one host, the endpoint path is that of the one execution kind all its operations have, operation
  names are unique, the limits are within the ceilings, limits above the defaults come with a matching
  digest, version 2 has a non-empty sorted duplicate-free scope set and version 1 none; and
  validating the result again changes nothing.
\<close>

theorem validated_profile_sound:
  assumes "Profile_Validate dx sha256 p n = Inr q"
  shows "pf_Name q = n
    \<and> (\<exists>u v k. Parse (pf_Endpoint q) = Inr u \<and> Parse (pf_Origin q) = Inr v \<and> url_Host u = url_Host v
         \<and> url_Scheme u = ''https'' \<and> url_Scheme v = ''https'' \<and> \<not> url_User u \<and> \<not> url_User v
         \<and> Kind q = Inr k \<and> url_Path u = (case k of KindApp \<Rightarrow> ''/mcp/app'' | KindSystem \<Rightarrow> ''/mcp/system'')
         \<and> (\<forall>d \<in> set (pf_Operations q). d_Strategy d = StrategyUnsupported
              \<or> (k = KindApp \<longleftrightarrow> d_Strategy d = StrategyUpstreamTask)))
    \<and> distinct (map d_Name (pf_Operations q))
    \<and> Validate (EffectiveLimits q) = Inr ()
    \<and> (raisesDefaultLimits (EffectiveLimits q) \<longrightarrow> Profile_CheckDigest sha256 q = Inr ())
    \<and> (if pf_Version q = 2 then pf_Scopes q \<noteq> [] \<and> sorted (pf_Scopes q) \<and> distinct (pf_Scopes q)
       else pf_Version q = 1 \<and> pf_Scopes q = [])
    \<and> Profile_Validate dx sha256 q n = Inr q"
proof -
  from assms [unfolded Profile_Validate_iff] obtain v u w c k where
    misc: "pf_Version p = 2 \<or> pf_Version p = 1" "pf_Name p = n"
    and uv: "checkHTTPS (pf_Origin p) False = Inr v" "checkHTTPS (pf_Endpoint p) True = Inr u" "url_Host u = url_Host v"
      "checkHTTPS (pf_Issuer p) True = Inr w"
    and mid: "int (length (pf_Instructions p)) \<le> 16 * 1024" "Bounds_Valid p" "checkDatabaseReference (pf_Database p) = Inr ()"
      "checkReference (pf_Credentials p) = Inr ()" "Validate (EffectiveLimits p) = Inr ()" "pf_Operations p \<noteq> []"
      "profile_operations dx sha256 (pf_Operations p) [] = Inr ()"
    and k: "Kind p = Inr k" and s: "validateScopes (pf_Version p) (pf_Scopes p) = Inr c"
    and q: "q = p\<lparr>pf_Scopes := c\<rparr>"
    and dig: "(if pf_Digest p \<noteq> [] then Profile_CheckDigest sha256 q else Inr ()) = Inr ()"
      "\<not> raisesDefaultLimits (EffectiveLimits q) \<or> pf_Digest p \<noteq> []"
    by (elim exE conjE)
  have frame: "EffectiveLimits q = EffectiveLimits p" "Kind q = Kind p" "Bounds_Valid q = Bounds_Valid p"
    by (simp_all add: q EffectiveLimits_def Kind_def Bounds_Valid_def)
  have "\<exists>u v k. Parse (pf_Endpoint q) = Inr u \<and> Parse (pf_Origin q) = Inr v \<and> url_Host u = url_Host v
         \<and> url_Scheme u = ''https'' \<and> url_Scheme v = ''https'' \<and> \<not> url_User u \<and> \<not> url_User v
         \<and> Kind q = Inr k \<and> url_Path u = (case k of KindApp \<Rightarrow> ''/mcp/app'' | KindSystem \<Rightarrow> ''/mcp/system'')
         \<and> (\<forall>d \<in> set (pf_Operations q). d_Strategy d = StrategyUnsupported
              \<or> (k = KindApp \<longleftrightarrow> d_Strategy d = StrategyUpstreamTask))"
    using uv k kindFromOperations_one [of "pf_Operations p" k] frame(2) q
    by (auto simp: Kind_def result_simps checkHTTPS_iff checkEndpointKind_def split: profile_kind.splits)
  moreover have "if pf_Version q = 2 then pf_Scopes q \<noteq> [] \<and> sorted (pf_Scopes q) \<and> distinct (pf_Scopes q)
       else pf_Version q = 1 \<and> pf_Scopes q = []"
    using s misc(1) by (auto simp: q validateScopes_def result_simps CanonicalScopes_iff) (metis set_empty set_sort)
  moreover have "Profile_Validate dx sha256 q n = Inr q"
    unfolding Profile_Validate_iff
    by (rule exI [of _ v], rule exI [of _ u], rule exI [of _ w], rule exI [of _ c], intro conjI)
      (use misc uv mid k dig validateScopes_again [OF s] frame in \<open>simp_all add: q\<close>)
  moreover have "distinct (map d_Name (pf_Operations q))" using profile_operations_distinct [OF mid(7)] by (simp add: q)
  ultimately show ?thesis using misc(2) mid(5) dig frame(1) q by (auto split: if_splits)
qed

definition demo_operation :: Descriptor where
  "demo_operation = \<lparr>d_Name = ''t'', d_Title = '''', d_Description = '''', d_InputSchema = Some (JObj [(''type'', JStr ''object'')]),
     d_ClientSchema = None, d_OutputSchema = None, d_Annotations = None, d_TaskSupport = ''required'',
     d_Bindings = [], d_Strategy = StrategyUpstreamTask, d_Digest = ''sha256:68''\<rparr>"

definition demo_profile :: profile where
  "demo_profile = \<lparr>pf_Version = 2, pf_Name = ''p'', pf_Origin = ''https://h'', pf_Endpoint = ''https://h/mcp/app'',
     pf_Issuer = ''https://i'', pf_Instructions = '''', pf_ProtocolMin = ''2025-01-01'', pf_ProtocolMax = ''2026-07-28'',
     pf_Database = ''d'', pf_Credentials = ''c'', pf_Limits = None, pf_Operations = [demo_operation],
     pf_Scopes = [''b'', ''a''], pf_Digest = ''''\<rparr>"

lemma demo_profile_valid:
  "(case Profile_Validate demo_dialect (\<lambda>_. ''h'') demo_profile ''p'' of Inl _ \<Rightarrow> False | Inr q \<Rightarrow> pf_Scopes q = [''a'', ''b''])"
  by code_simp

theorem validated_profile_sound_witness:
  "\<exists>q. Profile_Validate demo_dialect (\<lambda>_. ''h'') demo_profile ''p'' = Inr q \<and> pf_Scopes q = [''a'', ''b'']
    \<and> Profile_Validate demo_dialect (\<lambda>_. ''h'') q ''p'' = Inr q"
proof -
  obtain q where q: "Profile_Validate demo_dialect (\<lambda>_. ''h'') demo_profile ''p'' = Inr q" "pf_Scopes q = [''a'', ''b'']"
    using demo_profile_valid by (auto split: sum.splits)
  from validated_profile_sound [OF q(1)] q show ?thesis by blast
qed

text \<open>
  Profiles are isolated. Two profiles with valid names and references share their database file
  only if they have the same name and database reference, and their credential namespace only if they
  have the same name and credential reference; so profiles with different names share nothing.
\<close>

theorem profiles_isolated:
  assumes "ParseName (pf_Name p) = Inr n" "ParseName (pf_Name q) = Inr m"
    and "checkDatabaseReference (pf_Database p) = Inr ()" "checkDatabaseReference (pf_Database q) = Inr ()"
  shows "(DatabasePath dir p = DatabasePath dir q \<longleftrightarrow> pf_Name p = pf_Name q \<and> pf_Database p = pf_Database q)
    \<and> (CredentialNamespace p = CredentialNamespace q \<longleftrightarrow> pf_Name p = pf_Name q \<and> pf_Credentials p = pf_Credentials q)"
proof -
  have "CHR ''/'' \<notin> set (pf_Name p)" "CHR ''/'' \<notin> set (pf_Name q)"
    using assms(1,2) portable_no_slash by (auto simp: ParseName_def result_simps)
  then show ?thesis by (simp add: DatabasePath_def CredentialNamespace_def append_sep_inject)
qed

theorem profiles_isolated_witness:
  "CredentialNamespace demo_profile \<noteq> CredentialNamespace (demo_profile\<lparr>pf_Name := ''q''\<rparr>)
   \<and> DatabasePath ''/d'' demo_profile \<noteq> DatabasePath ''/d'' (demo_profile\<lparr>pf_Name := ''q''\<rparr>)"
proof -
  have "ParseName (pf_Name demo_profile) = Inr ''p''" "ParseName (pf_Name (demo_profile\<lparr>pf_Name := ''q''\<rparr>)) = Inr ''q''"
      "checkDatabaseReference (pf_Database demo_profile) = Inr ()" by code_simp+
  from profiles_isolated [OF this(1,2,3), of "''/d''"] this(3) show ?thesis by (simp add: demo_profile_def)
qed

text \<open>
  The digest does not depend on the order in which a profile lists its scopes.
\<close>

theorem digest_scope_order:
  assumes "mset (pf_Scopes p) = mset scopes"
  shows "Profile_ComputeDigest sha256 (p\<lparr>pf_Scopes := scopes\<rparr>) = Profile_ComputeDigest sha256 p"
  using CanonicalScopes_mset [OF assms]
  by (simp add: Profile_ComputeDigest_def profile_digestForm_def optional_member_def)

theorem digest_scope_order_witness:
  "Profile_ComputeDigest (\<lambda>_. ''h'') (demo_profile\<lparr>pf_Scopes := [''a'', ''b'']\<rparr>) = Profile_ComputeDigest (\<lambda>_. ''h'') demo_profile"
  by (rule digest_scope_order) (simp add: demo_profile_def)

end
