(* ===== verification/Oauth_Metadata.thy ===== *)
theory Oauth_Metadata
  imports Profile Upstream_Stream
begin

text \<open>
  OAuth discovery (\<open>internal/oauth\<close>: \<open>scope.go\<close>, \<open>wellknown.go\<close>, \<open>discovery.go\<close>, \<open>preprofile.go\<close> and the URL
  checks of \<open>authcode.go\<close>, \<open>refresh.go\<close> and \<open>register.go\<close>): metadata documents and their validation, scope sets, and the
  destinations the client accepts. A fetch is a function from the URL to the response or a transport
  error; turning body text into a JSON value is \<open>decode\<close>.
\<close>

section \<open>Definitions\<close>

subsection \<open>Destinations\<close>

definition isLoopback :: "string \<Rightarrow> bool" where
  "isLoopback host \<longleftrightarrow> host = ''127.0.0.1'' \<or> host = ''::1'' \<or> host = ''localhost''"

definition checkSecureURL :: "url \<Rightarrow> go_error + unit" where
  "checkSecureURL u =
     (if url_Scheme u \<noteq> ''https'' \<and> url_Scheme u \<noteq> ''http'' then Inl (errors_New ''url must be http(s)'')
      else if url_Scheme u = ''http'' \<and> \<not> isLoopback (Hostname u)
      then Inl (errors_New ''http is allowed only for loopback origins'')
      else Inr ())"

definition checkEndpoint :: "string \<Rightarrow> go_error + unit" where
  "checkEndpoint raw =
     rbind (ensure (raw \<noteq> []) (errors_New ''empty url'')) (\<lambda>_.
     rbind (map_error (\<lambda>e. Errorf ''parse url'' [e]) (Parse raw)) (\<lambda>u.
     rbind (ensure (url_Host u \<noteq> []) (errors_New ''url has no host'')) (\<lambda>_.
     checkSecureURL u)))"

definition endpointOrigin :: "string \<Rightarrow> string" where
  "endpointOrigin endpoint =
     (case Parse endpoint of Inl _ \<Rightarrow> [] | Inr u \<Rightarrow> url_Scheme u @ ''://'' @ url_Host u)"

definition checkIssuerBoundEndpoint :: "string \<Rightarrow> string \<Rightarrow> go_error + unit" where
  "checkIssuerBoundEndpoint endpoint issuer =
     (case Parse endpoint of
        Inl _ \<Rightarrow> Inl (errors_New ''token endpoint is not an absolute URL'')
      | Inr u \<Rightarrow>
          rbind (ensure (url_Host u \<noteq> []) (errors_New ''token endpoint is not an absolute URL'')) (\<lambda>_.
          rbind (checkSecureURL u) (\<lambda>_.
          ensure (endpointOrigin endpoint = endpointOrigin issuer)
            (errors_New ''token endpoint origin does not match the issuer''))))"

definition checkLoopbackRedirect :: "string \<Rightarrow> go_error + unit" where
  "checkLoopbackRedirect raw =
     (let bad = errors_New ''redirect uri must be an http 127.0.0.1 loopback uri'' in
      case Parse raw of
        Inl _ \<Rightarrow> Inl bad
      | Inr u \<Rightarrow> ensure (url_Scheme u = ''http'' \<and> Hostname u = ''127.0.0.1'') bad)"

text \<open>\<open>strconv.Atoi\<close> on a port, which has digits only.\<close>

definition checkDynamicRegistrationRedirect :: "string \<Rightarrow> go_error + unit" where
  "checkDynamicRegistrationRedirect raw =
     rbind (checkLoopbackRedirect raw) (\<lambda>_.
     let bad = errors_New ''redirect uri must include an exact non-privileged loopback port and callback path'' in
     case Parse raw of
       Inl _ \<Rightarrow> Inl bad
     | Inr u \<Rightarrow>
         (case parse_int64 (Port u) of
            None \<Rightarrow> Inl bad
          | Some port \<Rightarrow> ensure (1024 \<le> port \<and> port \<le> 65535 \<and> url_Path u \<noteq> [] \<and> url_Path u \<noteq> ''/'' \<and> \<not> url_User u
                \<and> url_RawQuery u = [] \<and> url_Fragment u = []) bad))"

definition prmURL :: "string \<Rightarrow> go_error + string" where
  "prmURL endpoint =
     rbind (map_error (\<lambda>e. Errorf ''parse endpoint'' [e]) (Parse endpoint)) (\<lambda>u.
     rbind (ensure (url_Scheme u \<noteq> [] \<and> url_Host u \<noteq> []) (errors_New ''endpoint must be absolute'')) (\<lambda>_.
     Inr (url_Scheme u @ ''://'' @ url_Host u @ ''/.well-known/oauth-protected-resource'' @ url_Path u)))"

definition trim_slash :: "string \<Rightarrow> string" where
  "trim_slash s = (if s \<noteq> [] \<and> last s = CHR ''/'' then butlast s else s)"

definition asMetadataURL :: "string \<Rightarrow> go_error + string" where
  "asMetadataURL asURL =
     rbind (map_error (\<lambda>e. Errorf ''parse authorization server'' [e]) (Parse asURL)) (\<lambda>u.
     rbind (ensure (url_Scheme u \<noteq> [] \<and> url_Host u \<noteq> []) (errors_New ''authorization server must be absolute'')) (\<lambda>_.
     Inr (url_Scheme u @ ''://'' @ url_Host u @ ''/.well-known/oauth-authorization-server'' @ trim_slash (url_Path u))))"

subsection \<open>Scopes\<close>

definition validAdvertisedScopeToken :: "string \<Rightarrow> bool" where
  "validAdvertisedScopeToken tok \<longleftrightarrow>
     tok \<noteq> [] \<and> length tok \<le> 255 \<and> list_all (\<lambda>c. 32 < byte_of c \<and> byte_of c \<le> 127) tok"

definition validateAdvertisedScopes :: "string list option \<Rightarrow> go_error + unit" where
  "validateAdvertisedScopes scopes =
     (case scopes of
        None \<Rightarrow> Inr ()
      | Some xs \<Rightarrow>
          rbind (ensure (length xs \<le> 256) (errors_New ''advertises too many scopes'')) (\<lambda>_.
          ensure (list_all validAdvertisedScopeToken xs) (errors_New ''advertises a malformed scope'')))"

text \<open>A declaration in a response: \<open>None\<close> is an omitted member, a null is the empty declaration.\<close>

type_synonym declaredScope = "string option"

definition declaredScope_UnmarshalJSON :: "declaredScope \<Rightarrow> json \<Rightarrow> declaredScope option" where
  "declaredScope_UnmarshalJSON old v =
     (case v of JNull \<Rightarrow> Some (Some []) | JStr s \<Rightarrow> Some (Some s) | _ \<Rightarrow> None)"

fun collect_scopes :: "string list \<Rightarrow> string list \<Rightarrow> go_error + string list" where
  "collect_scopes [] out = Inr out"
| "collect_scopes (t # ts) out =
     (if t = [] then Inl (errors_New ''the scope declaration has an empty token'')
      else if length t > 255 then Inl (errors_New ''the scope declaration carries an oversized token'')
      else collect_scopes ts (if t \<in> set out then out else out @ [t]))"

definition canonicalReturnedScopes :: "string \<Rightarrow> go_error + string list" where
  "canonicalReturnedScopes s = rbind (collect_scopes (split_at (CHR '' '') s) []) (\<lambda>out. Inr (sort out))"

definition credentialScopesBound :: "string list \<Rightarrow> string list \<Rightarrow> bool" where
  "credentialScopesBound bound active \<longleftrightarrow> active = [] \<or> active = bound"

definition scope_mismatch :: "string \<Rightarrow> go_error" where
  "scope_mismatch m = Errorf m [Sentinel ErrScopeMismatch]"

text \<open>\<open>checkReturnedScope\<close>; the first argument is the profile's set.\<close>

definition checkReturnedScope :: "string list \<Rightarrow> declaredScope \<Rightarrow> go_error + string list" where
  "checkReturnedScope scopes d =
     (if scopes = [] then Inr []
      else case d of
          None \<Rightarrow> Inr scopes
        | Some s \<Rightarrow>
            (case canonicalReturnedScopes s of
               Inl _ \<Rightarrow> Inl (scope_mismatch ''malformed'')
             | Inr got \<Rightarrow> if got \<noteq> scopes then Inl (scope_mismatch ''different scope set'') else Inr got))"

definition checkBoundScope :: "string list \<Rightarrow> declaredScope \<Rightarrow> go_error + unit" where
  "checkBoundScope bound d =
     (if bound = [] then Inr ()
      else case d of
          None \<Rightarrow> Inr ()
        | Some s \<Rightarrow>
            (case canonicalReturnedScopes s of
               Inl _ \<Rightarrow> Inl (scope_mismatch ''malformed'')
             | Inr got \<Rightarrow> if got \<noteq> bound then Inl (scope_mismatch ''different scope set'') else Inr ()))"

definition registrationScopeOK :: "string list \<Rightarrow> declaredScope \<Rightarrow> go_error + unit" where
  "registrationScopeOK requested d =
     (case d of
        None \<Rightarrow> Inr ()
      | Some s \<Rightarrow>
          if requested = [] then Inr ()
          else (case canonicalReturnedScopes s of
                  Inl _ \<Rightarrow> Inl (scope_mismatch ''malformed'')
                | Inr got \<Rightarrow> ensure (list_all (\<lambda>x. x \<in> set got) requested) (scope_mismatch ''unsupported scope'')))"

subsection \<open>Documents\<close>

record ProtectedResource =
  pr_Issuer :: string
  pr_AuthorizationServers :: "string list"
  pr_Resource :: string
  pr_ScopesSupported :: "string list option"

record AuthorizationServer =
  as_Issuer :: string
  as_AuthorizationEndpoint :: string
  as_TokenEndpoint :: string
  as_RegistrationEndpoint :: string
  as_CodeChallengeMethods :: "string list"
  as_GrantTypes :: "string list"
  as_ResponseTypeBindings :: "string list"
  as_TokenEndpointAuthMethods :: "string list"
  as_ScopesSupported :: "string list option"
  as_IssParameterSupported :: bool
  as_IssuersSupported :: "string list"

record Metadata =
  md_PRM :: ProtectedResource
  md_AS :: AuthorizationServer
  md_ASURL :: string

text \<open>A pointer to a list: null is nil, a list allocates; and a boolean.\<close>

definition read_strings_ptr :: "string list option \<Rightarrow> json \<Rightarrow> string list option option" where
  "read_strings_ptr x v =
     (case v of
        JNull \<Rightarrow> Some None
      | _ \<Rightarrow> map_option Some (read_strings (case x of None \<Rightarrow> [] | Some xs \<Rightarrow> xs) v))"

definition read_bool :: "bool \<Rightarrow> json \<Rightarrow> bool option" where
  "read_bool x v = (case v of JBool b \<Rightarrow> Some b | JNull \<Rightarrow> Some x | _ \<Rightarrow> None)"

definition unmarshal_PRM :: "json \<Rightarrow> ProtectedResource option" where
  "unmarshal_PRM v =
     Option.bind (struct_members v) (\<lambda>ms.
     Option.bind (field ''issuer'' read_string [] ms) (\<lambda>issuer.
     Option.bind (field ''authorization_servers'' read_strings [] ms) (\<lambda>servers.
     Option.bind (field ''resource'' read_string [] ms) (\<lambda>res.
     Option.bind (field ''scopes_supported'' read_strings_ptr None ms) (\<lambda>scopes.
     Some \<lparr>pr_Issuer = issuer, pr_AuthorizationServers = servers, pr_Resource = res, pr_ScopesSupported = scopes\<rparr>)))))"

definition unmarshal_AS :: "json \<Rightarrow> AuthorizationServer option" where
  "unmarshal_AS v =
     Option.bind (struct_members v) (\<lambda>ms.
     Option.bind (field ''issuer'' read_string [] ms) (\<lambda>issuer.
     Option.bind (field ''authorization_endpoint'' read_string [] ms) (\<lambda>authz.
     Option.bind (field ''token_endpoint'' read_string [] ms) (\<lambda>tok.
     Option.bind (field ''registration_endpoint'' read_string [] ms) (\<lambda>reg.
     Option.bind (field ''code_challenge_methods_supported'' read_strings [] ms) (\<lambda>pkce.
     Option.bind (field ''grant_types_supported'' read_strings [] ms) (\<lambda>grants.
     Option.bind (field ''response_types_supported'' read_strings [] ms) (\<lambda>types.
     Option.bind (field ''token_endpoint_auth_methods_supported'' read_strings [] ms) (\<lambda>auth.
     Option.bind (field ''scopes_supported'' read_strings_ptr None ms) (\<lambda>scopes.
     Option.bind (field ''authorization_response_iss_parameter_supported'' read_bool False ms) (\<lambda>iss.
     Option.bind (field ''authorization_server_issuers_supported'' read_strings [] ms) (\<lambda>issuers.
     Some \<lparr>as_Issuer = issuer, as_AuthorizationEndpoint = authz, as_TokenEndpoint = tok, as_RegistrationEndpoint = reg,
        as_CodeChallengeMethods = pkce, as_GrantTypes = grants, as_ResponseTypeBindings = types,
        as_TokenEndpointAuthMethods = auth, as_ScopesSupported = scopes, as_IssParameterSupported = iss,
        as_IssuersSupported = issuers\<rparr>))))))))))))"

definition CheckRequestedScopes :: "Metadata \<Rightarrow> string list \<Rightarrow> go_error + unit" where
  "CheckRequestedScopes m requested =
     ensure (list_all (\<lambda>xs. case xs of None \<Rightarrow> True | Some ys \<Rightarrow> list_all (\<lambda>s. s \<in> set ys) requested)
               [pr_ScopesSupported (md_PRM m), as_ScopesSupported (md_AS m)])
       (errors_New ''the requested scope is not supported by the authorization server'')"

definition IssuerResponseRequired :: "Metadata \<Rightarrow> bool" where
  "IssuerResponseRequired m \<longleftrightarrow>
     as_IssParameterSupported (md_AS m) \<or> as_Issuer (md_AS m) \<in> set (as_IssuersSupported (md_AS m))"

definition validatePRM :: "ProtectedResource \<Rightarrow> string \<Rightarrow> go_error + unit" where
  "validatePRM prm endpoint =
     rbind (ensure (pr_AuthorizationServers prm \<noteq> []) (errors_New ''metadata lists no authorization servers'')) (\<lambda>_.
     rbind (validateAdvertisedScopes (pr_ScopesSupported prm)) (\<lambda>_.
     rbind (ensure (pr_Resource prm = endpoint) (errors_New ''protected-resource metadata does not bind this endpoint'')) (\<lambda>_.
     ensure (pr_Issuer prm = [] \<or> pr_Issuer prm = endpoint \<or> pr_Issuer prm = endpointOrigin endpoint)
       (errors_New ''protected-resource issuer does not match the endpoint''))))"

definition supportedAuthMethods :: "string list" where
  "supportedAuthMethods = [''client_secret_basic'', ''client_secret_post'', ''none'']"

definition tokenEndpointAuthMethod :: "string list \<Rightarrow> string" where
  "tokenEndpointAuthMethod methods =
     (case find (\<lambda>m. m \<in> set supportedAuthMethods) methods of
        Some m \<Rightarrow> m
      | None \<Rightarrow> if methods = [] then ''client_secret_basic'' else hd methods)"

definition validateAS :: "AuthorizationServer \<Rightarrow> string \<Rightarrow> go_error + unit" where
  "validateAS a issuer =
     rbind (ensure (as_Issuer a = issuer) (errors_New ''authorization-server issuer does not match the expected issuer'')) (\<lambda>_.
     rbind (map_error (\<lambda>e. Errorf ''authorization endpoint'' [e]) (checkEndpoint (as_AuthorizationEndpoint a))) (\<lambda>_.
     rbind (map_error (\<lambda>e. Errorf ''token endpoint'' [e]) (checkIssuerBoundEndpoint (as_TokenEndpoint a) issuer)) (\<lambda>_.
     rbind (ensure (as_RegistrationEndpoint a \<noteq> []) (errors_New ''authorization server provides no registration endpoint'')) (\<lambda>_.
     rbind (map_error (\<lambda>e. Errorf ''registration endpoint'' [e]) (checkEndpoint (as_RegistrationEndpoint a))) (\<lambda>_.
     rbind (ensure (''S256'' \<in> set (as_CodeChallengeMethods a)) (errors_New ''authorization server does not support PKCE S256'')) (\<lambda>_.
     rbind (ensure (''authorization_code'' \<in> set (as_GrantTypes a) \<and> ''refresh_token'' \<in> set (as_GrantTypes a))
              (errors_New ''authorization server does not support the required grants'')) (\<lambda>_.
     rbind (ensure (tokenEndpointAuthMethod (as_TokenEndpointAuthMethods a) \<in> set supportedAuthMethods)
              (errors_New ''authorization server advertises no supported token endpoint auth method'')) (\<lambda>_.
     rbind (validateAdvertisedScopes (as_ScopesSupported a)) (\<lambda>_.
     ensure (as_IssuersSupported a = [] \<or> issuer \<in> set (as_IssuersSupported a))
       (errors_New ''authorization-server issuer advertisement does not include the validated issuer''))))))))))"

definition advertisedIssuerSelected :: "string \<Rightarrow> string \<Rightarrow> bool" where
  "advertisedIssuerSelected advertised issuer \<longleftrightarrow> advertised = issuer \<or> trim_slash advertised = issuer"

definition selectAuthorizationServer :: "string \<Rightarrow> ProtectedResource \<Rightarrow> go_error + string" where
  "selectAuthorizationServer issuer prm =
     (case find (\<lambda>c. (case Parse c of Inl _ \<Rightarrow> False | Inr u \<Rightarrow> checkSecureURL u = Inr ())
                     \<and> advertisedIssuerSelected c issuer) (pr_AuthorizationServers prm) of
        Some c \<Rightarrow> Inr c
      | None \<Rightarrow> Inl (errors_New ''no authorization server matches the expected issuer''))"

subsection \<open>Discovery\<close>

text \<open>\<open>readBody\<close>: at most \<open>bound\<close> bytes; a longer body fails, so does one that ends in an error.\<close>

definition readBody :: "http_response \<Rightarrow> int \<Rightarrow> go_error + string" where
  "readBody resp bound =
     (case hr_body_err resp of
        Some e \<Rightarrow>
          if int (length (hr_body resp)) > bound then Inl (errors_New ''response body exceeds the bound'')
          else Inl (Errorf ''read metadata body'' [e])
      | None \<Rightarrow>
          rbind (ensure (int (length (hr_body resp)) \<le> bound) (errors_New ''response body exceeds the bound'')) (\<lambda>_.
          Inr (hr_body resp)))"

definition metadata_error :: "go_error \<Rightarrow> go_error" where
  "metadata_error e = Errorf ''metadata'' [Sentinel ErrMetadata, e]"

type_synonym fetch = "string \<Rightarrow> go_error + http_response"

definition fetchMetadata :: "fetch \<Rightarrow> int \<Rightarrow> string \<Rightarrow> go_error + string" where
  "fetchMetadata fetch maxBytes rawURL =
     rbind (map_error metadata_error (checkEndpoint rawURL)) (\<lambda>_.
     rbind (map_error (\<lambda>e. Errorf ''fetch metadata'' [e]) (fetch rawURL)) (\<lambda>resp.
     rbind (ensure (hr_status resp = 200) (Errorf ''metadata endpoint answered'' [Sentinel ErrMetadata])) (\<lambda>_.
     readBody resp maxBytes)))"

text \<open>\<open>json.Unmarshal\<close> of a body into a document.\<close>

definition decode_document :: "(string \<Rightarrow> json option) \<Rightarrow> (json \<Rightarrow> 'a option) \<Rightarrow> string \<Rightarrow> go_error + 'a" where
  "decode_document decode unmarshal data =
     (case Option.bind (decode data) unmarshal of
        None \<Rightarrow> Inl (Errorf ''decode metadata: json'' [Sentinel ErrMetadata])
      | Some x \<Rightarrow> Inr x)"

definition Discover ::
    "(string \<Rightarrow> json option) \<Rightarrow> fetch \<Rightarrow> int \<Rightarrow> string \<Rightarrow> string \<Rightarrow> go_error + Metadata" where
  "Discover decode fetch maxBytes endpoint issuer =
     rbind (map_error metadata_error (prmURL endpoint)) (\<lambda>prm_url.
     rbind (fetchMetadata fetch maxBytes prm_url) (\<lambda>prmData.
     rbind (decode_document decode unmarshal_PRM prmData) (\<lambda>prm.
     rbind (map_error metadata_error (validatePRM prm endpoint)) (\<lambda>_.
     rbind (map_error metadata_error (selectAuthorizationServer issuer prm)) (\<lambda>asURL.
     rbind (map_error metadata_error (asMetadataURL asURL)) (\<lambda>metadataURL.
     rbind (fetchMetadata fetch maxBytes metadataURL) (\<lambda>asData.
     rbind (decode_document decode unmarshal_AS asData) (\<lambda>a.
     rbind (map_error metadata_error (validateAS a issuer)) (\<lambda>_.
     Inr \<lparr>md_PRM = prm, md_AS = a, md_ASURL = asURL\<rparr>)))))))))"

subsection \<open>Discovery before a profile exists\<close>

definition DefaultMaxMetadataBytes :: int where
  "DefaultMaxMetadataBytes = 256 * 1024"

definition fetchDiscoveredMetadata :: "fetch \<Rightarrow> string \<Rightarrow> go_error + string" where
  "fetchDiscoveredMetadata fetch rawURL =
     rbind (map_error metadata_error (checkEndpoint rawURL)) (\<lambda>_.
     rbind (map_error (\<lambda>e. Errorf ''fetch metadata'' [e]) (fetch rawURL)) (\<lambda>resp.
     rbind (ensure (\<not> (300 \<le> hr_status resp \<and> hr_status resp < 400)) (Errorf ''refusing redirect'' [Sentinel ErrMetadata])) (\<lambda>_.
     rbind (ensure (hr_status resp = 200) (Errorf ''metadata endpoint answered'' [Sentinel ErrMetadata])) (\<lambda>_.
     readBody resp DefaultMaxMetadataBytes))))"

fun valid_servers :: "string list \<Rightarrow> string list \<Rightarrow> go_error + unit" where
  "valid_servers [] seen = Inr ()"
| "valid_servers (c # cs) seen =
     rbind (ParseSecureURL c) (\<lambda>_.
     rbind (ensure (c \<notin> set seen) (errors_New ''metadata repeats an authorization server'')) (\<lambda>_.
     valid_servers cs (c # seen)))"

definition ValidAuthorizationServers :: "ProtectedResource \<Rightarrow> go_error + string list" where
  "ValidAuthorizationServers prm =
     rbind (ensure (pr_AuthorizationServers prm \<noteq> []) (errors_New ''metadata lists no authorization servers'')) (\<lambda>_.
     rbind (valid_servers (pr_AuthorizationServers prm) []) (\<lambda>_. Inr (pr_AuthorizationServers prm)))"

definition DiscoverProtectedResource ::
    "(string \<Rightarrow> json option) \<Rightarrow> fetch \<Rightarrow> string \<Rightarrow> go_error + ProtectedResource" where
  "DiscoverProtectedResource decode fetch endpoint =
     rbind (map_error metadata_error (ParseSecureURL endpoint)) (\<lambda>_.
     rbind (map_error metadata_error (prmURL endpoint)) (\<lambda>prm_url.
     rbind (fetchDiscoveredMetadata fetch prm_url) (\<lambda>data.
     rbind (decode_document decode unmarshal_PRM data) (\<lambda>prm.
     rbind (map_error metadata_error (validatePRM prm endpoint)) (\<lambda>_.
     rbind (map_error metadata_error (ValidAuthorizationServers prm)) (\<lambda>_. Inr prm))))))"

definition DiscoverAuthorizationServer ::
    "(string \<Rightarrow> json option) \<Rightarrow> fetch \<Rightarrow> string \<Rightarrow> go_error + AuthorizationServer" where
  "DiscoverAuthorizationServer decode fetch asURL =
     rbind (map_error metadata_error (ParseSecureURL asURL)) (\<lambda>_.
     rbind (map_error metadata_error (asMetadataURL asURL)) (\<lambda>metadataURL.
     rbind (fetchDiscoveredMetadata fetch metadataURL) (\<lambda>data.
     rbind (decode_document decode unmarshal_AS data) (\<lambda>a.
     rbind (ensure (as_Issuer a \<noteq> [] \<and> advertisedIssuerSelected asURL (as_Issuer a))
              (Errorf ''authorization-server issuer does not match the selected server'' [Sentinel ErrMetadata])) (\<lambda>_.
     rbind (map_error metadata_error (ParseSecureURL (as_Issuer a))) (\<lambda>_.
     rbind (map_error metadata_error (validateAS a (as_Issuer a))) (\<lambda>_. Inr a)))))))"

section \<open>Lemmas\<close>

lemma checkSecureURL_iff:
  "checkSecureURL u = Inr () \<longleftrightarrow> url_Scheme u = ''https'' \<or> url_Scheme u = ''http'' \<and> isLoopback (Hostname u)"
  by (auto simp: checkSecureURL_def)

text \<open>A URL a request may go to: https, or http to the loopback interface.\<close>

definition secure_url :: "string \<Rightarrow> bool" where
  "secure_url raw \<longleftrightarrow> (case Parse raw of Inl _ \<Rightarrow> False
     | Inr u \<Rightarrow> url_Host u \<noteq> [] \<and> (url_Scheme u = ''https'' \<or> url_Scheme u = ''http'' \<and> isLoopback (Hostname u)))"

lemma checkEndpoint_secure: "checkEndpoint raw = Inr () \<Longrightarrow> secure_url raw"
  by (auto simp: checkEndpoint_def secure_url_def result_simps checkSecureURL_iff split: sum.splits)

lemma checkIssuerBound_iff:
  "checkIssuerBoundEndpoint endpoint issuer = Inr () \<longleftrightarrow> secure_url endpoint \<and> endpointOrigin endpoint = endpointOrigin issuer"
  by (auto simp: checkIssuerBoundEndpoint_def secure_url_def result_simps checkSecureURL_iff split: sum.splits)

lemma fetchMetadata_secure: "fetchMetadata fetch n raw = Inr data \<Longrightarrow> secure_url raw \<and> (\<exists>resp. fetch raw = Inr resp \<and> hr_body resp = data)"
  by (auto simp: fetchMetadata_def result_simps readBody_def checkEndpoint_secure split: option.splits if_splits)

definition scope_token :: "string \<Rightarrow> bool" where
  "scope_token t \<longleftrightarrow> t \<noteq> [] \<and> length t \<le> 255"

lemma collect_scopes_Inr:
  "collect_scopes ts out = Inr r \<Longrightarrow> distinct out \<Longrightarrow>
     list_all scope_token ts \<and> distinct r \<and> set r = set out \<union> set ts"
proof (induction ts arbitrary: out)
  case (Cons t ts)
  then have "scope_token t" "collect_scopes ts (if t \<in> set out then out else out @ [t]) = Inr r"
    by (auto simp: scope_token_def split: if_splits)
  then show ?case using Cons.IH [of "if t \<in> set out then out else out @ [t]"] Cons.prems(2) by auto
qed simp

lemma collect_scopes_total: "list_all scope_token ts \<Longrightarrow> \<exists>r. collect_scopes ts out = Inr r"
  by (induction ts arbitrary: out) (auto simp: scope_token_def)

lemma canonicalReturnedScopes_iff:
  assumes "sorted scopes" "distinct scopes"
  shows "canonicalReturnedScopes s = Inr scopes \<longleftrightarrow>
    list_all scope_token (split_at (CHR '' '') s) \<and> set (split_at (CHR '' '') s) = set scopes"
proof -
  let ?ts = "split_at (CHR '' '') s"
  have eq: "sort r = scopes \<longleftrightarrow> set r = set scopes" if "distinct r" for r
    using that assms by (metis distinct_sort set_sort sorted_distinct_set_unique sorted_sort)
  show ?thesis
  proof (cases "collect_scopes ?ts []")
    case (Inl e)
    then have "\<not> list_all scope_token ?ts" using collect_scopes_total [of ?ts "[]"] by auto
    with Inl show ?thesis by (simp add: canonicalReturnedScopes_def)
  next
    case (Inr r)
    from collect_scopes_Inr [OF this] eq [of r] Inr show ?thesis by (simp add: canonicalReturnedScopes_def)
  qed
qed

section \<open>Properties\<close>

text \<open>
  C30: Discovery accepts only documents that bind the profile. When it succeeds, the protected-resource
  document was fetched over a secure URL and names exactly the profile's endpoint, the selected server is one
  that document advertises, its issuer is exactly the expected one, the token endpoint has the issuer's
  origin, all three endpoints are secure, and PKCE S256 with both grants is supported.
\<close>

theorem discovery_binds:
  assumes "Discover decode fetch n endpoint issuer = Inr md"
  shows "pr_Resource (md_PRM md) = endpoint \<and> as_Issuer (md_AS md) = issuer
    \<and> md_ASURL md \<in> set (pr_AuthorizationServers (md_PRM md)) \<and> advertisedIssuerSelected (md_ASURL md) issuer
    \<and> endpointOrigin (as_TokenEndpoint (md_AS md)) = endpointOrigin issuer
    \<and> secure_url (as_TokenEndpoint (md_AS md)) \<and> secure_url (as_AuthorizationEndpoint (md_AS md))
    \<and> secure_url (as_RegistrationEndpoint (md_AS md))
    \<and> ''S256'' \<in> set (as_CodeChallengeMethods (md_AS md))
    \<and> {''authorization_code'', ''refresh_token''} \<subseteq> set (as_GrantTypes (md_AS md))
    \<and> (\<exists>raw resp. prmURL endpoint = Inr raw \<and> secure_url raw \<and> fetch raw = Inr resp
         \<and> Option.bind (decode (hr_body resp)) unmarshal_PRM = Some (md_PRM md))"
proof -
  from assms obtain raw prmData prm asURL mURL asData a where
    prm: "prmURL endpoint = Inr raw" "fetchMetadata fetch n raw = Inr prmData"
      "decode_document decode unmarshal_PRM prmData = Inr prm" "validatePRM prm endpoint = Inr ()"
    and sel: "selectAuthorizationServer issuer prm = Inr asURL"
    and as: "validateAS a issuer = Inr ()"
    and md: "md = \<lparr>md_PRM = prm, md_AS = a, md_ASURL = asURL\<rparr>"
    unfolding Discover_def result_simps by (elim exE conjE) simp
  have "asURL \<in> set (pr_AuthorizationServers prm) \<and> advertisedIssuerSelected asURL issuer"
    using sel by (auto simp: selectAuthorizationServer_def find_Some_iff split: option.splits)
  moreover have "Option.bind (decode prmData) unmarshal_PRM = Some prm"
    using prm(3) by (auto simp: decode_document_def split: option.splits)
  moreover have "pr_Resource prm = endpoint" using prm(4) by (simp add: validatePRM_def result_simps)
  moreover have "as_Issuer a = issuer \<and> checkEndpoint (as_AuthorizationEndpoint a) = Inr ()
      \<and> checkIssuerBoundEndpoint (as_TokenEndpoint a) issuer = Inr () \<and> checkEndpoint (as_RegistrationEndpoint a) = Inr ()
      \<and> ''S256'' \<in> set (as_CodeChallengeMethods a)
      \<and> ''authorization_code'' \<in> set (as_GrantTypes a) \<and> ''refresh_token'' \<in> set (as_GrantTypes a)"
    using as unfolding validateAS_def result_simps by (elim exE conjE) simp
  ultimately show ?thesis
    using prm(1) fetchMetadata_secure [OF prm(2)] by (auto simp: md checkEndpoint_secure checkIssuerBound_iff)
qed

definition demo_decode :: "string \<Rightarrow> json option" where
  "demo_decode body =
     (if body = ''prm'' then Some (JObj [(''authorization_servers'', JArr [JStr ''https://i/'']), (''resource'', JStr ''https://h/mcp/app'')])
      else Some (JObj [(''issuer'', JStr ''https://i''), (''authorization_endpoint'', JStr ''https://i/a''),
        (''token_endpoint'', JStr ''https://i/t''), (''registration_endpoint'', JStr ''https://i/r''),
        (''code_challenge_methods_supported'', JArr [JStr ''S256'']),
        (''grant_types_supported'', JArr [JStr ''authorization_code'', JStr ''refresh_token''])]))"

definition demo_fetch :: fetch where
  "demo_fetch raw = Inr \<lparr>hr_status = 200, hr_content_type = '''',
     hr_body = (if raw = ''https://h/.well-known/oauth-protected-resource/mcp/app'' then ''prm'' else ''as''),
     hr_body_err = None\<rparr>"

lemma demo_discovers: "\<not> isl (Discover demo_decode demo_fetch 100 ''https://h/mcp/app'' ''https://i'')"
  by code_simp

theorem discovery_binds_witness:
  "\<exists>md. Discover demo_decode demo_fetch 100 ''https://h/mcp/app'' ''https://i'' = Inr md
     \<and> as_Issuer (md_AS md) = ''https://i'' \<and> pr_Resource (md_PRM md) = ''https://h/mcp/app''"
proof -
  obtain md where md: "Discover demo_decode demo_fetch 100 ''https://h/mcp/app'' ''https://i'' = Inr md"
    using demo_discovers by (cases "Discover demo_decode demo_fetch 100 ''https://h/mcp/app'' ''https://i''") auto
  with discovery_binds [OF md] show ?thesis by blast
qed

text \<open>
  C31: Privileges never change silently. For a profile with a canonical scope set, a token response is accepted
  exactly when it omits the declaration or declares, in any order and with repetitions, the tokens of that
  set and nothing else; what is bound to the credential is the profile's set.
\<close>

theorem scope_exact:
  assumes "scopes \<noteq> []" "sorted scopes" "distinct scopes"
  shows "checkReturnedScope scopes d = Inr granted \<longleftrightarrow> granted = scopes \<and> (case d of None \<Rightarrow> True
    | Some s \<Rightarrow> list_all scope_token (split_at (CHR '' '') s) \<and> set (split_at (CHR '' '') s) = set scopes)"
proof (cases d)
  case (Some s)
  then have "checkReturnedScope scopes d = Inr granted \<longleftrightarrow> granted = scopes \<and> canonicalReturnedScopes s = Inr scopes"
    using assms(1) by (cases "canonicalReturnedScopes s") (auto simp: checkReturnedScope_def)
  with Some show ?thesis using canonicalReturnedScopes_iff [OF assms(2,3)] by simp
qed (use assms(1) in \<open>auto simp: checkReturnedScope_def\<close>)

theorem scope_exact_witness:
  "checkReturnedScope [''a'', ''b''] (Some ''b a b'') = Inr [''a'', ''b'']
   \<and> checkReturnedScope [''a'', ''b''] (Some ''b'') \<noteq> Inr [''a'', ''b'']"
  using scope_exact [of "[''a'', ''b'']" "Some ''b a b''" "[''a'', ''b'']"]
    scope_exact [of "[''a'', ''b'']" "Some ''b''" "[''a'', ''b'']"]
  by (simp add: scope_token_def) (auto simp: insert_commute)

text \<open>
  The metadata URL carries the decoded path of the endpoint, so an escaped question mark becomes a query.
\<close>

lemma metadata_path_decoded:
  "prmURL ''https://h/a%3Fb'' = Inr ''https://h/.well-known/oauth-protected-resource/a?b''"
  by code_simp

end
