(* ===== verification/Oauth_Client.thy ===== *)
theory Oauth_Client
  imports Oauth_Metadata Store_Fence Handlers
begin

text \<open>
  The OAuth client (\<open>internal/oauth\<close>: \<open>fence.go\<close>, \<open>token.go\<close>, \<open>refresh.go\<close>, \<open>register.go\<close>, \<open>authcode.go\<close>): the fenced
  refresh credential and client registration in the secure backend, the token exchange, refresh,
  invalidation, registration, authorization and logout.

  An \<open>auth_world\<close> holds the state database and the secure backend, which other processes may change
  before each call (\<open>aw_other\<close>), and for each call the environment of the store, the answer of the
  backend, random bytes, the answer to a POST, the clock, whether the caller's context has ended and
  whether the renewal loop has lost the lease. The renewals themselves act between the calls. A
  secret is the JSON value of its bytes, \<open>None\<close> when they are none.
\<close>

section \<open>Definitions\<close>

type_synonym secrets = "(string, json option) table"

text \<open>The backend refuses a call with an error; a write or deletion may have happened all the same.\<close>

datatype backend = BackendOk | BackendFails bool go_error

record post =
  po_url :: string
  po_form :: "(string, string) table"
  po_json :: "json option"
  po_basic :: "(string \<times> string) option"

record auth_world =
  aw_db :: db
  aw_secrets :: secrets
  aw_calls :: nat
  aw_env :: "nat \<Rightarrow> env"
  aw_backend :: "nat \<Rightarrow> backend"
  aw_other :: "nat \<Rightarrow> db \<times> secrets \<Rightarrow> db \<times> secrets"
  aw_rand :: "nat \<Rightarrow> go_error + string"
  aw_http :: "nat \<Rightarrow> go_error + http_response"
  aw_clock :: "nat \<Rightarrow> int"
  aw_ctx :: "nat \<Rightarrow> go_error option"
  aw_lost :: "nat \<Rightarrow> bool"
  aw_posts :: "post list"
  aw_token :: string
  aw_expiry :: int
  aw_hasToken :: bool
  aw_skew :: int

record oauth_client =
  oc_endpoint :: string
  oc_issuer :: string
  oc_scopes :: "string list"
  oc_maxBytes :: int
  oc_owner :: string
  oc_decode :: "string \<Rightarrow> json option"

definition oc_scope :: "oauth_client \<Rightarrow> string" where
  "oc_scope c = join '' '' (oc_scopes c)"

subsection \<open>Calls\<close>

definition others :: "auth_world \<Rightarrow> auth_world" where
  "others w = (let p = aw_other w (aw_calls w) (aw_db w, aw_secrets w)
     in w\<lparr>aw_db := fst p, aw_secrets := snd p, aw_calls := Suc (aw_calls w)\<rparr>)"

definition state_call :: "(env \<Rightarrow> db \<Rightarrow> 'a \<times> db) \<Rightarrow> auth_world \<Rightarrow> 'a \<times> auth_world" where
  "state_call f w =
     (let w' = others w; r = f (aw_env w (aw_calls w)) (aw_db w') in (fst r, w'\<lparr>aw_db := snd r\<rparr>))"

definition state_read :: "(env \<Rightarrow> db \<Rightarrow> 'a) \<Rightarrow> auth_world \<Rightarrow> 'a \<times> auth_world" where
  "state_read f = state_call (\<lambda>e d. (f e d, d))"

definition GetSecret :: "string \<Rightarrow> auth_world \<Rightarrow> (go_error + json option option) \<times> auth_world" where
  "GetSecret label w =
     (let w' = others w in
      case aw_backend w (aw_calls w) of
        BackendFails _ err \<Rightarrow> (Inl err, w')
      | BackendOk \<Rightarrow> (Inr (row_at (aw_secrets w') label), w'))"

definition SetSecret :: "string \<Rightarrow> json option \<Rightarrow> auth_world \<Rightarrow> (go_error + unit) \<times> auth_world" where
  "SetSecret label data w =
     (let w' = others w; w'' = w'\<lparr>aw_secrets := put_row label data (aw_secrets w')\<rparr> in
      case aw_backend w (aw_calls w) of
        BackendFails done err \<Rightarrow> (Inl err, if done then w'' else w')
      | BackendOk \<Rightarrow> (Inr (), w''))"

definition DeleteSecret :: "string \<Rightarrow> auth_world \<Rightarrow> (go_error + unit) \<times> auth_world" where
  "DeleteSecret label w =
     (let w' = others w; w'' = w'\<lparr>aw_secrets := del_row label (aw_secrets w')\<rparr> in
      case aw_backend w (aw_calls w) of
        BackendFails done err \<Rightarrow> (Inl err, if done then w'' else w')
      | BackendOk \<Rightarrow> (Inr (), w''))"

definition backend_down :: "go_error \<Rightarrow> go_error" where
  "backend_down e = Errorf ''credential backend'' [Sentinel ErrBackendUnavailable, e]"

definition no_credentials :: "string \<Rightarrow> go_error" where
  "no_credentials m = Errorf m [Sentinel ErrNoCredentials]"

definition contention :: "string \<Rightarrow> go_error" where
  "contention m = Errorf m [Sentinel ErrLeaseContention]"

text \<open>Continuing whatever a call returned, and joining an error with that of a cleanup.\<close>

definition io_then :: "('w \<Rightarrow> 'a \<times> 'w) \<Rightarrow> ('w \<Rightarrow> 'b \<times> 'w) \<Rightarrow> 'w \<Rightarrow> 'b \<times> 'w" where
  "io_then m f w = f (snd (m w))"

definition io_or :: "('w \<Rightarrow> (go_error + 'a) \<times> 'w) \<Rightarrow> (go_error \<Rightarrow> 'w \<Rightarrow> (go_error + 'b) \<times> 'w) \<Rightarrow>
    ('a \<Rightarrow> 'w \<Rightarrow> (go_error + 'b) \<times> 'w) \<Rightarrow> 'w \<Rightarrow> (go_error + 'b) \<times> 'w" where
  "io_or m f g w = (case m w of (Inl e, w') \<Rightarrow> f e w' | (Inr x, w') \<Rightarrow> g x w')"

definition fail_after :: "('w \<Rightarrow> (go_error + unit) \<times> 'w) \<Rightarrow> (go_error option \<Rightarrow> go_error) \<Rightarrow> 'w \<Rightarrow> (go_error + 'a) \<times> 'w" where
  "fail_after cleanup f = io_or cleanup (\<lambda>e. io_fail (f (Some e))) (\<lambda>_. io_fail (f None))"

definition errors_Join :: "go_error list \<Rightarrow> go_error" where
  "errors_Join es = Errorf [] es"

subsection \<open>Stored credentials\<close>

definition labelClient :: string where
  "labelClient = ''oauth-client''"

definition labelRefresh :: string where
  "labelRefresh = ''oauth-refresh''"

definition refreshLeaseName :: string where
  "refreshLeaseName = CredentialLeaseName"

definition refreshLeaseTTL :: int where
  "refreshLeaseTTL = 30 * Second"

record refreshCredential =
  rc_RefreshToken :: string
  rc_TokenEndpoint :: string
  rc_Issuer :: string
  rc_Scopes :: "string list"
  rc_Updated :: string

definition marshal_credential :: "refreshCredential \<Rightarrow> json" where
  "marshal_credential c = JObj
     ([(''refresh_token'', JStr (rc_RefreshToken c)), (''token_endpoint'', JStr (rc_TokenEndpoint c)),
       (''issuer'', JStr (rc_Issuer c))]
      @ optional_member ''scopes'' (rc_Scopes c \<noteq> []) (JArr (map JStr (rc_Scopes c)))
      @ [(''updated'', JStr (rc_Updated c))])"

definition read_time :: "string \<Rightarrow> json \<Rightarrow> string option" where
  "read_time x v =
     (case v of
        JStr s \<Rightarrow> (case parse_rfc3339 s of None \<Rightarrow> None | Some _ \<Rightarrow> Some s)
      | JNull \<Rightarrow> Some x
      | _ \<Rightarrow> None)"

definition zero_time :: string where
  "zero_time = ''0001-01-01T00:00:00Z''"

definition unmarshal_credential :: "json \<Rightarrow> refreshCredential option" where
  "unmarshal_credential v =
     Option.bind (struct_members v) (\<lambda>ms.
     Option.bind (field ''refresh_token'' read_string [] ms) (\<lambda>tok.
     Option.bind (field ''token_endpoint'' read_string [] ms) (\<lambda>endpoint.
     Option.bind (field ''issuer'' read_string [] ms) (\<lambda>issuer.
     Option.bind (field ''scopes'' read_strings [] ms) (\<lambda>scopes.
     Option.bind (field ''updated'' read_time zero_time ms) (\<lambda>updated.
     Some \<lparr>rc_RefreshToken = tok, rc_TokenEndpoint = endpoint, rc_Issuer = issuer, rc_Scopes = scopes,
        rc_Updated = updated\<rparr>))))))"

text \<open>The checks on a loaded credential.\<close>

definition decode_credential :: "json option \<Rightarrow> go_error + refreshCredential" where
  "decode_credential data =
     (case Option.bind data unmarshal_credential of
        None \<Rightarrow> Inl (errors_New ''stored refresh credential is malformed: json'')
      | Some c \<Rightarrow>
          if rc_RefreshToken c = [] \<or> rc_TokenEndpoint c = [] \<or> rc_Issuer c = []
          then Inl (errors_New ''stored refresh credential is incomplete'') else Inr c)"

record fencedCredential =
  fc_credential :: refreshCredential
  fc_generation :: int
  fc_leaseGeneration :: int
  fc_previousSlot :: string

definition loadRefresh :: "auth_world \<Rightarrow> (go_error + refreshCredential option) \<times> auth_world" where
  "loadRefresh =
     io_bind (io_map_error backend_down (GetSecret labelRefresh)) (\<lambda>found.
     case found of
       None \<Rightarrow> io_return None
     | Some data \<Rightarrow> (\<lambda>w. (rbind (decode_credential data) (\<lambda>c. Inr (Some c)), w)))"

definition loadFenced :: "auth_world \<Rightarrow> (go_error + fencedCredential option) \<times> auth_world" where
  "loadFenced =
     io_bind (io_map_error backend_down (state_read (\<lambda>e. ReadCredentialFence e RefreshFenceName))) (\<lambda>fence.
     case fence of
       None \<Rightarrow>
         io_bind (io_map_error backend_down (state_read RefreshCredentialInvalidated)) (\<lambda>invalidated.
         if invalidated then io_return None
         else io_bind loadRefresh (\<lambda>found. io_return (map_option (\<lambda>cred.
                \<lparr>fc_credential = cred, fc_generation = 1, fc_leaseGeneration = 0, fc_previousSlot = labelRefresh\<rparr>) found)))
     | Some (generation, slot) \<Rightarrow>
         io_bind (io_map_error backend_down (GetSecret slot)) (\<lambda>found.
         case found of
           None \<Rightarrow> io_fail (Errorf ''credential slot is missing'' [Sentinel ErrBackendUnavailable])
         | Some data \<Rightarrow> (\<lambda>w. (rbind (decode_credential data) (\<lambda>cred. Inr (Some
              \<lparr>fc_credential = cred, fc_generation = i64 (generation + 1), fc_leaseGeneration = 0, fc_previousSlot = slot\<rparr>)), w))))"

subsection \<open>The fence\<close>

definition random_bytes :: "auth_world \<Rightarrow> (go_error + string) \<times> auth_world" where
  "random_bytes w = (aw_rand w (aw_calls w), w\<lparr>aw_calls := Suc (aw_calls w)\<rparr>)"

definition newRefreshSlotLabel :: "auth_world \<Rightarrow> (go_error + string) \<times> auth_world" where
  "newRefreshSlotLabel =
     io_bind (io_map_error (\<lambda>e. Errorf ''generate credential slot label'' [e]) random_bytes) (\<lambda>b.
     io_return (labelRefresh @ ''-'' @ hex_encode b))"

definition newClientSlotLabel :: "auth_world \<Rightarrow> (go_error + string) \<times> auth_world" where
  "newClientSlotLabel =
     io_bind (io_map_error (\<lambda>e. Errorf ''generate client slot label'' [e]) random_bytes) (\<lambda>b.
     io_return (ClientFenceName @ ''-'' @ hex_encode b))"

text \<open>\<open>rollbackRefreshSlot\<close> and \<open>rollbackClientSlot\<close>, which differ in the fence.\<close>

definition rollbackSlot :: "string \<Rightarrow> string \<Rightarrow> auth_world \<Rightarrow> (go_error + unit) \<times> auth_world" where
  "rollbackSlot fenceName slot =
     io_or (DeleteSecret slot) (\<lambda>err.
       io_or (state_call (\<lambda>e. RecordRetiredCredentialSlot e fenceName slot))
         (\<lambda>recordErr. io_fail (errors_Join [Errorf ''delete uncommitted slot'' [err],
             Errorf ''record uncommitted slot for retirement'' [recordErr]]))
         (\<lambda>_. io_fail (Errorf ''delete uncommitted slot'' [err])))
     (\<lambda>_. io_return ())"

definition rolled_back :: "go_error \<Rightarrow> go_error option \<Rightarrow> go_error" where
  "rolled_back err rollback = backend_down (errors_Join (err # (case rollback of None \<Rightarrow> [] | Some r \<Rightarrow> [r])))"

fun retire_slots :: "string \<Rightarrow> string list \<Rightarrow> auth_world \<Rightarrow> (go_error + unit) \<times> auth_world" where
  "retire_slots fenceName [] = io_return ()"
| "retire_slots fenceName (slot # slots) =
     io_or (DeleteSecret slot)
       (\<lambda>_. retire_slots fenceName slots)
       (\<lambda>_. io_then (state_call (\<lambda>e. ClearRetiredCredentialSlot e fenceName slot)) (retire_slots fenceName slots))"

definition retire_fence :: "string \<Rightarrow> auth_world \<Rightarrow> (go_error + unit) \<times> auth_world" where
  "retire_fence fenceName =
     io_or (state_read (\<lambda>e. RetiredCredentialSlots e fenceName)) (\<lambda>_. io_return ()) (retire_slots fenceName)"

definition retireFailedSlots :: "auth_world \<Rightarrow> (go_error + unit) \<times> auth_world" where
  "retireFailedSlots = io_then (retire_fence RefreshFenceName) (retire_fence ClientFenceName)"

definition refresh_commit :: "oauth_client \<Rightarrow> fencedCredential \<Rightarrow> string \<Rightarrow> CredentialFenceCommit" where
  "refresh_commit c fenced slot =
     \<lparr>cf_FenceName = RefreshFenceName, cf_FenceGeneration = fc_generation fenced, cf_Slot = slot,
      cf_PreviousSlot = (if fc_previousSlot fenced = labelRefresh then [] else fc_previousSlot fenced),
      cf_RetiredLabels = [], cf_LeaseName = refreshLeaseName, cf_LeaseOwner = oc_owner c,
      cf_LeaseGeneration = fc_leaseGeneration fenced\<rparr>"

text \<open>What follows a durable commit: retiring what it replaced.\<close>

definition retire_replaced :: "string \<Rightarrow> auth_world \<Rightarrow> (go_error + unit) \<times> auth_world" where
  "retire_replaced previous =
     io_then (state_call ClearRefreshCredentialInvalidation)
       (io_then (DeleteSecret labelRefresh)
         (if previous = [] then io_return ()
          else io_or (DeleteSecret previous) (\<lambda>_. io_return ())
             (\<lambda>_. io_map_error backend_down (state_call (\<lambda>e. ClearRetiredCredentialSlot e RefreshFenceName previous)))))"

definition commit_slot :: "oauth_client \<Rightarrow> fencedCredential \<Rightarrow> string \<Rightarrow> auth_world \<Rightarrow> (go_error + unit) \<times> auth_world" where
  "commit_slot c fenced slot =
     io_or (state_call (\<lambda>e. CommitCredentialFence e (refresh_commit c fenced slot)))
       (\<lambda>err. fail_after (rollbackSlot RefreshFenceName slot) (rolled_back err))
       (\<lambda>committed.
          if committed then retire_replaced (cf_PreviousSlot (refresh_commit c fenced slot))
          else fail_after (rollbackSlot RefreshFenceName slot) (\<lambda>r.
             let rejected = Errorf ''refresh credential superseded'' [Sentinel ErrBackendUnavailable]
             in case r of None \<Rightarrow> rejected | Some e \<Rightarrow> errors_Join [rejected, e]))"

definition storeFenced :: "oauth_client \<Rightarrow> fencedCredential \<Rightarrow> auth_world \<Rightarrow> (go_error + unit) \<times> auth_world" where
  "storeFenced c fenced =
     io_bind newRefreshSlotLabel (\<lambda>slot.
     io_or (SetSecret slot (Some (marshal_credential (fc_credential fenced))))
       (\<lambda>err. fail_after (rollbackSlot RefreshFenceName slot) (rolled_back err))
       (\<lambda>_. io_then retireFailedSlots (commit_slot c fenced slot)))"

subsection \<open>Client registrations\<close>

record ClientRecord =
  cr_ClientID :: string
  cr_ClientSecret :: string
  cr_AuthMethod :: string
  cr_Issuer :: string
  cr_RedirectURI :: string
  cr_RegisteredAt :: string
  cr_SecretExpiresAt :: int
  cr_Scopes :: "string list"

definition marshal_record :: "ClientRecord \<Rightarrow> json" where
  "marshal_record r = JObj
     ([(''client_id'', JStr (cr_ClientID r))]
      @ optional_member ''client_secret'' (cr_ClientSecret r \<noteq> []) (JStr (cr_ClientSecret r))
      @ [(''token_endpoint_auth_method'', JStr (cr_AuthMethod r)), (''issuer'', JStr (cr_Issuer r))]
      @ optional_member ''redirect_uri'' (cr_RedirectURI r \<noteq> []) (JStr (cr_RedirectURI r))
      @ [(''registered_at'', JStr (cr_RegisteredAt r))]
      @ optional_member ''client_secret_expires_at'' (cr_SecretExpiresAt r \<noteq> 0) (JNum (format_int (cr_SecretExpiresAt r)))
      @ optional_member ''scopes'' (cr_Scopes r \<noteq> []) (JArr (map JStr (cr_Scopes r))))"

definition unmarshal_record :: "json \<Rightarrow> ClientRecord option" where
  "unmarshal_record v =
     Option.bind (struct_members v) (\<lambda>ms.
     Option.bind (field ''client_id'' read_string [] ms) (\<lambda>cid.
     Option.bind (field ''client_secret'' read_string [] ms) (\<lambda>sec.
     Option.bind (field ''token_endpoint_auth_method'' read_string [] ms) (\<lambda>auth.
     Option.bind (field ''issuer'' read_string [] ms) (\<lambda>issuer.
     Option.bind (field ''redirect_uri'' read_string [] ms) (\<lambda>redirect.
     Option.bind (field ''registered_at'' read_time zero_time ms) (\<lambda>registered.
     Option.bind (field ''client_secret_expires_at'' read_int64 0 ms) (\<lambda>expires.
     Option.bind (field ''scopes'' read_strings [] ms) (\<lambda>scopes.
     Some \<lparr>cr_ClientID = cid, cr_ClientSecret = sec, cr_AuthMethod = auth, cr_Issuer = issuer, cr_RedirectURI = redirect,
        cr_RegisteredAt = registered, cr_SecretExpiresAt = expires, cr_Scopes = scopes\<rparr>)))))))))"

definition clock_unix :: "auth_world \<Rightarrow> int" where
  "clock_unix w = aw_clock w (aw_calls w) div Second"

definition secretExpired :: "int \<Rightarrow> ClientRecord \<Rightarrow> bool" where
  "secretExpired now r \<longleftrightarrow> cr_SecretExpiresAt r > 0 \<and> now \<ge> cr_SecretExpiresAt r"

definition recordMissingSecret :: "ClientRecord \<Rightarrow> bool" where
  "recordMissingSecret r \<longleftrightarrow>
     (cr_AuthMethod r = ''client_secret_basic'' \<or> cr_AuthMethod r = ''client_secret_post'') \<and> cr_ClientSecret r = []"

definition recordScopesBound :: "ClientRecord \<Rightarrow> string list \<Rightarrow> bool" where
  "recordScopesBound r active \<longleftrightarrow> active = [] \<or> active = cr_Scopes r"

definition loadStoredClient :: "auth_world \<Rightarrow> (go_error + json option option) \<times> auth_world" where
  "loadStoredClient =
     io_bind (io_map_error backend_down (state_read (\<lambda>e. ReadCredentialFence e ClientFenceName))) (\<lambda>fence.
     case fence of
       Some (_, slot) \<Rightarrow>
         io_bind (io_map_error backend_down (GetSecret slot)) (\<lambda>found.
         case found of
           None \<Rightarrow> io_fail (Errorf ''client record slot is missing'' [Sentinel ErrBackendUnavailable])
         | Some data \<Rightarrow> io_return (Some data))
     | None \<Rightarrow> io_map_error backend_down (GetSecret labelClient))"

definition RegisteredClient :: "oauth_client \<Rightarrow> auth_world \<Rightarrow> (go_error + ClientRecord option) \<times> auth_world" where
  "RegisteredClient c =
     io_bind loadStoredClient (\<lambda>found w.
     case found of
       None \<Rightarrow> (Inr None, w)
     | Some data \<Rightarrow>
         (case Option.bind data unmarshal_record of
            None \<Rightarrow> (Inl (errors_New ''stored client record is malformed: json''), w)
          | Some r \<Rightarrow>
              if cr_ClientID r = [] \<or> cr_Issuer r = [] \<or> cr_AuthMethod r = []
              then (Inl (errors_New ''stored client record is incomplete''), w)
              else if recordMissingSecret r \<or> secretExpired (clock_unix w) r \<or> \<not> recordScopesBound r (oc_scopes c)
              then (Inr None, w)
              else (Inr (Some r), w)))"

definition currentRecord :: "oauth_client \<Rightarrow> ClientRecord \<Rightarrow> auth_world \<Rightarrow> (go_error + unit) \<times> auth_world" where
  "currentRecord c rec =
     io_bind (RegisteredClient c) (\<lambda>found.
     case found of
       None \<Rightarrow> io_fail (no_credentials ''the stored client registration is no longer usable'')
     | Some stored \<Rightarrow>
         if cr_ClientID stored \<noteq> cr_ClientID rec \<or> cr_ClientSecret stored \<noteq> cr_ClientSecret rec
            \<or> cr_Issuer stored \<noteq> cr_Issuer rec \<or> cr_RedirectURI stored \<noteq> cr_RedirectURI rec
         then io_fail (no_credentials ''the client registration was replaced during the login'')
         else io_return ())"

subsection \<open>Token requests\<close>

record tokenResponse =
  tr_AccessToken :: string
  tr_TokenType :: string
  tr_ExpiresIn :: int
  tr_RefreshToken :: string
  tr_Scope :: declaredScope
  tr_Error :: string

definition unmarshal_token :: "json \<Rightarrow> tokenResponse option" where
  "unmarshal_token v =
     Option.bind (struct_members v) (\<lambda>ms.
     Option.bind (field ''access_token'' read_string [] ms) (\<lambda>tok.
     Option.bind (field ''token_type'' read_string [] ms) (\<lambda>kind.
     Option.bind (field ''expires_in'' read_int64 0 ms) (\<lambda>expires.
     Option.bind (field ''refresh_token'' read_string [] ms) (\<lambda>refresh.
     Option.bind (field ''scope'' declaredScope_UnmarshalJSON None ms) (\<lambda>scope.
     Option.bind (field ''error'' read_string [] ms) (\<lambda>err.
     Option.bind (field ''error_description'' read_string [] ms) (\<lambda>_.
     Some \<lparr>tr_AccessToken = tok, tr_TokenType = kind, tr_ExpiresIn = expires, tr_RefreshToken = refresh, tr_Scope = scope,
        tr_Error = err\<rparr>))))))))"

definition applyFormAuth :: "ClientRecord \<Rightarrow> (string, string) table \<Rightarrow> go_error + (string, string) table" where
  "applyFormAuth r form =
     (if cr_AuthMethod r = ''none'' then Inr (put_row ''client_id'' (cr_ClientID r) form)
      else if cr_AuthMethod r = ''client_secret_post''
      then rbind (ensure (cr_ClientSecret r \<noteq> []) (errors_New ''client secret missing for client_secret_post'')) (\<lambda>_.
           Inr (put_row ''client_secret'' (cr_ClientSecret r) (put_row ''client_id'' (cr_ClientID r) form)))
      else if cr_AuthMethod r = ''client_secret_basic'' then Inr form
      else Inl (errors_New ''unsupported token endpoint auth method''))"

definition applyHeaderAuth :: "ClientRecord \<Rightarrow> go_error + (string \<times> string) option" where
  "applyHeaderAuth r =
     (if cr_AuthMethod r \<noteq> ''client_secret_basic'' then Inr None
      else rbind (ensure (cr_ClientSecret r \<noteq> []) (errors_New ''client secret missing for client_secret_basic'')) (\<lambda>_.
           Inr (Some (cr_ClientID r, cr_ClientSecret r))))"

definition send_post :: "post \<Rightarrow> auth_world \<Rightarrow> (go_error + http_response) \<times> auth_world" where
  "send_post p w = (aw_http w (length (aw_posts w)), w\<lparr>aw_posts := aw_posts w @ [p]\<rparr>)"

definition token_answer :: "oauth_client \<Rightarrow> http_response \<Rightarrow> go_error + tokenResponse" where
  "token_answer c resp =
     rbind (readBody resp (oc_maxBytes c)) (\<lambda>data.
     case Option.bind (oc_decode c data) unmarshal_token of
       None \<Rightarrow> Inl (errors_New ''decode token response: json'')
     | Some out \<Rightarrow>
         if tr_Error out \<noteq> []
         then Inl (if tr_Error out = ''invalid_grant'' then Errorf [] [Sentinel ErrGrantInvalid]
                   else errors_New ''token endpoint rejected the request'')
         else if hr_status resp < 200 \<or> hr_status resp > 299 then Inl (errors_New ''token endpoint answered with no token'')
         else if tr_AccessToken out = [] then Inl (errors_New ''token endpoint answered with no token'')
         else if ascii_lower (tr_TokenType out) \<noteq> ''bearer'' then Inl (errors_New ''unsupported token type'')
         else Inr out)"

definition postToken ::
    "oauth_client \<Rightarrow> string \<Rightarrow> ClientRecord \<Rightarrow> (string, string) table \<Rightarrow>
      auth_world \<Rightarrow> (go_error + tokenResponse) \<times> auth_world" where
  "postToken c endpoint r form w =
     (case rbind (applyFormAuth r form) (\<lambda>f. rbind (applyHeaderAuth r) (\<lambda>basic. Inr (f, basic))) of
        Inl err \<Rightarrow> (Inl err, w)
      | Inr (f, basic) \<Rightarrow>
          (case send_post \<lparr>po_url = endpoint, po_form = f, po_json = None, po_basic = basic\<rparr> w of
             (Inl err, w') \<Rightarrow> (Inl (Errorf ''token request'' [err]), w')
           | (Inr resp, w') \<Rightarrow> (token_answer c resp, w')))"

subsection \<open>The in-memory token\<close>

definition refreshSkew :: int where
  "refreshSkew = 60 * Second"

definition maxTokenExpirySeconds :: int where
  "maxTokenExpirySeconds = max_int64 div Second"

definition token_lifetime :: "int \<Rightarrow> int" where
  "token_lifetime expiresIn =
     (let s = (if expiresIn \<le> 0 then 300 else expiresIn);
          s = (if s > maxTokenExpirySeconds then maxTokenExpirySeconds else s)
      in i64 (s * Second))"

definition install_token :: "tokenResponse \<Rightarrow> auth_world \<Rightarrow> auth_world" where
  "install_token tok w =
     (let lifetime = token_lifetime (tr_ExpiresIn tok) in
      w\<lparr>aw_token := tr_AccessToken tok, aw_expiry := aw_clock w (aw_calls w) + lifetime,
        aw_skew := (if refreshSkew > lifetime div 4 then lifetime div 4 else refreshSkew),
        aw_hasToken := True\<rparr>)"

definition clearToken :: "auth_world \<Rightarrow> auth_world" where
  "clearToken w = w\<lparr>aw_token := [], aw_expiry := 0, aw_hasToken := False\<rparr>"

text \<open>\<open>applyTokens\<close>; \<open>fmt\<close> renders the clock.\<close>

definition applyTokens ::
    "(int \<Rightarrow> string) \<Rightarrow> oauth_client \<Rightarrow> fencedCredential \<Rightarrow> tokenResponse \<Rightarrow> int \<Rightarrow>
      auth_world \<Rightarrow> (go_error + unit) \<times> auth_world" where
  "applyTokens fmt c fenced tok leaseGeneration w =
     (let cred = (fc_credential fenced)\<lparr>
            rc_RefreshToken := (if tr_RefreshToken tok \<noteq> [] then tr_RefreshToken tok else rc_RefreshToken (fc_credential fenced)),
            rc_Updated := fmt (aw_clock w (aw_calls w))\<rparr>
      in case storeFenced c (fenced\<lparr>fc_leaseGeneration := leaseGeneration, fc_credential := cred\<rparr>) w of
           (Inl err, w') \<Rightarrow> (Inl err, w')
         | (Inr _, w') \<Rightarrow> (Inr (), install_token tok w'))"

definition validToken :: "auth_world \<Rightarrow> string option" where
  "validToken w =
     (if aw_hasToken w \<and> aw_expiry w > aw_clock w (aw_calls w) + aw_skew w then Some (aw_token w) else None)"

subsection \<open>The lease\<close>

text \<open>Three attempts; \<open>aw_ctx\<close> may end the pause before each of the later ones.\<close>

definition claim_once :: "oauth_client \<Rightarrow> auth_world \<Rightarrow> (go_error + int option) \<times> auth_world" where
  "claim_once c =
     io_bind (io_map_error (\<lambda>e. Errorf ''claim refresh lease'' [e])
       (state_call (\<lambda>e. ClaimLease e refreshLeaseName (oc_owner c) refreshLeaseTTL))) (\<lambda>claimed.
     if \<not> claimed then io_return None
     else io_bind (state_read (\<lambda>e. LeaseGeneration e refreshLeaseName (oc_owner c))) (\<lambda>generation.
       case generation of
         None \<Rightarrow> io_fail (errors_New ''refresh lease lost before the credential write'')
       | Some g \<Rightarrow> io_return (Some g)))"

fun claim_again :: "nat \<Rightarrow> oauth_client \<Rightarrow> auth_world \<Rightarrow> (go_error + int option) \<times> auth_world" where
  "claim_again 0 c w = (Inr None, w)"
| "claim_again (Suc n) c w =
     (case aw_ctx w (aw_calls w) of
        Some err \<Rightarrow> (Inl err, w)
      | None \<Rightarrow> io_bind (claim_once c) (\<lambda>g. case g of None \<Rightarrow> claim_again n c | Some x \<Rightarrow> io_return (Some x)) w)"

definition claimAttempts :: nat where
  "claimAttempts = 3"

definition claimRefreshLease :: "oauth_client \<Rightarrow> auth_world \<Rightarrow> (go_error + int option) \<times> auth_world" where
  "claimRefreshLease c =
     io_bind (claim_once c) (\<lambda>g. case g of None \<Rightarrow> claim_again (claimAttempts - 1) c | Some x \<Rightarrow> io_return (Some x))"

definition with_lease ::
    "oauth_client \<Rightarrow> string \<Rightarrow> (int \<Rightarrow> auth_world \<Rightarrow> (go_error + 'a) \<times> auth_world) \<Rightarrow>
      auth_world \<Rightarrow> (go_error + 'a) \<times> auth_world" where
  "with_lease c busy body =
     io_bind (claimRefreshLease c) (\<lambda>claimed.
     case claimed of
       None \<Rightarrow> io_fail (contention busy)
     | Some generation \<Rightarrow>
         io_finally (body generation) (state_call (\<lambda>e. ReleaseLease e refreshLeaseName (oc_owner c))))"

text \<open>
  The renewal goroutine, one element per tick: whether the context has ended when the renewal returns.
  The result says that it cancelled the exchange, which \<open>aw_lost\<close> shows to the holder.
\<close>

fun renewLease :: "oauth_client \<Rightarrow> bool list \<Rightarrow> auth_world \<Rightarrow> bool \<times> auth_world" where
  "renewLease c [] w = (False, w)"
| "renewLease c (ended # ticks) w =
     (case state_call (\<lambda>e. RenewLease e refreshLeaseName (oc_owner c) refreshLeaseTTL) w of
        (r, w') \<Rightarrow> if ended then (False, w') else if r \<noteq> Inr True then (True, w') else renewLease c ticks w')"

definition lease_lost :: go_error where
  "lease_lost = errors_New ''refresh lease lost before the credential write''"

text \<open>The gate before the write: the context's own error wins over the answer of the store.\<close>

definition commit_gate :: "oauth_client \<Rightarrow> int \<Rightarrow> auth_world \<Rightarrow> (go_error + unit) \<times> auth_world" where
  "commit_gate c generation w =
     (case state_call (\<lambda>e. CommitLease e refreshLeaseName (oc_owner c) generation) w of
        (r, w') \<Rightarrow>
          (case aw_ctx w' (aw_calls w') of
             Some err \<Rightarrow> (Inl err, w')
           | None \<Rightarrow> (if r = Inr True then Inr () else Inl lease_lost, w')))"

definition leasedExchangeAndPersist ::
    "oauth_client \<Rightarrow> int \<Rightarrow> (auth_world \<Rightarrow> (go_error + tokenResponse) \<times> auth_world) \<Rightarrow>
      (tokenResponse \<Rightarrow> auth_world \<Rightarrow> (go_error + unit) \<times> auth_world) \<Rightarrow>
      auth_world \<Rightarrow> (go_error + tokenResponse) \<times> auth_world" where
  "leasedExchangeAndPersist c generation exchange persist w =
     (case exchange w of
        (Inl err, w') \<Rightarrow>
          (Inl (if aw_lost w' (aw_calls w') then Errorf ''refresh lease lost during the token exchange'' [err] else err), w')
      | (Inr tok, w') \<Rightarrow>
          if aw_lost w' (aw_calls w') then (Inl lease_lost, w')
          else io_bind (commit_gate c generation) (\<lambda>_. io_bind (persist tok) (\<lambda>_. io_return tok)) w')"

subsection \<open>Refresh\<close>

definition invalidateCredential :: "oauth_client \<Rightarrow> int \<Rightarrow> auth_world \<Rightarrow> (go_error + unit) \<times> auth_world" where
  "invalidateCredential c generation =
     io_bind loadFenced (\<lambda>fenced.
     let slot = (case fenced of None \<Rightarrow> [] | Some f \<Rightarrow> if fc_previousSlot f = labelRefresh then [] else fc_previousSlot f) in
     io_bind (io_map_error backend_down (state_call MarkRefreshCredentialInvalidated)) (\<lambda>_.
     io_bind (io_map_error backend_down (state_call (\<lambda>e.
       ClearCredentialFence e RefreshFenceName refreshLeaseName (oc_owner c) generation slot))) (\<lambda>cleared.
     if \<not> cleared then io_fail (contention ''refresh lease lost while invalidating the rejected grant; retry'')
     else
       let legacy = io_or (DeleteSecret labelRefresh) (\<lambda>_. io_return ())
             (\<lambda>_. io_map_error backend_down (state_call ClearRefreshCredentialInvalidation))
       in if slot = [] then legacy
          else io_or (DeleteSecret slot) (\<lambda>_. io_return ()) (\<lambda>_.
               io_bind (io_map_error backend_down (state_call (\<lambda>e. ClearRetiredCredentialSlot e RefreshFenceName slot))) (\<lambda>_.
               legacy)))))"

definition refresh_form :: "oauth_client \<Rightarrow> refreshCredential \<Rightarrow> (string, string) table" where
  "refresh_form c cred =
     [(''grant_type'', ''refresh_token''), (''refresh_token'', rc_RefreshToken cred), (''resource'', oc_endpoint c)]
     @ (if oc_scope c \<noteq> [] then [(''scope'', oc_scope c)] else [])"

text \<open>The bindings a stored pair must have before the grant is used.\<close>

definition check_bindings :: "oauth_client \<Rightarrow> ClientRecord \<Rightarrow> refreshCredential \<Rightarrow> go_error + unit" where
  "check_bindings c rec cred =
     rbind (ensure (cr_Issuer rec = oc_issuer c) (no_credentials ''stored client registration binds a different issuer'')) (\<lambda>_.
     rbind (ensure (rc_Issuer cred = oc_issuer c) (no_credentials ''stored refresh credential binds a different issuer'')) (\<lambda>_.
     rbind (ensure (cr_Issuer rec = rc_Issuer cred) (no_credentials ''different issuers'')) (\<lambda>_.
     rbind (map_error (\<lambda>_. no_credentials ''token endpoint'') (checkIssuerBoundEndpoint (rc_TokenEndpoint cred) (rc_Issuer cred))) (\<lambda>_.
     ensure (credentialScopesBound (rc_Scopes cred) (oc_scopes c))
       (no_credentials ''stored refresh credential does not bind the active profile scopes'')))))"

definition exchange_refresh ::
    "(int \<Rightarrow> string) \<Rightarrow> oauth_client \<Rightarrow> ClientRecord \<Rightarrow> fencedCredential \<Rightarrow> int \<Rightarrow>
      auth_world \<Rightarrow> (go_error + tokenResponse) \<times> auth_world" where
  "exchange_refresh fmt c rec fenced generation =
     (let cred = fc_credential fenced in
      leasedExchangeAndPersist c generation
        (postToken c (rc_TokenEndpoint cred) rec (refresh_form c cred))
        (\<lambda>tok w. case checkBoundScope (rc_Scopes cred) (tr_Scope tok) of
            Inl err \<Rightarrow> (Inl err, w)
          | Inr _ \<Rightarrow> applyTokens fmt c fenced tok generation w))"

text \<open>A rejected grant, or one whose scope was contradicted, is invalidated.\<close>

definition after_refusal :: "oauth_client \<Rightarrow> int \<Rightarrow> go_error \<Rightarrow> auth_world \<Rightarrow> (go_error + 'a) \<times> auth_world" where
  "after_refusal c generation err w =
     (if errors_Is err ErrGrantInvalid \<or> errors_Is err ErrScopeMismatch
      then io_or (invalidateCredential c generation) (\<lambda>e. io_fail (errors_Join [err, e])) (\<lambda>_. io_fail err) (clearToken w)
      else (Inl err, w))"

definition refresh_leased ::
    "(int \<Rightarrow> string) \<Rightarrow> oauth_client \<Rightarrow> ClientRecord \<Rightarrow> int \<Rightarrow> auth_world \<Rightarrow> (go_error + string) \<times> auth_world" where
  "refresh_leased fmt c rec generation =
     io_bind loadFenced (\<lambda>fenced.
     case fenced of
       None \<Rightarrow> io_fail (no_credentials ''no refresh credential'')
     | Some f \<Rightarrow>
         (case check_bindings c rec (fc_credential f) of
            Inl err \<Rightarrow> io_fail err
          | Inr _ \<Rightarrow> io_or (exchange_refresh fmt c rec f generation) (after_refusal c generation)
              (\<lambda>tok. io_return (tr_AccessToken tok))))"

definition refreshLocked :: "(int \<Rightarrow> string) \<Rightarrow> oauth_client \<Rightarrow> auth_world \<Rightarrow> (go_error + string) \<times> auth_world" where
  "refreshLocked fmt c =
     io_bind (RegisteredClient c) (\<lambda>found.
     case found of
       None \<Rightarrow> io_fail (no_credentials ''no client registration'')
     | Some rec \<Rightarrow>
         io_bind loadFenced (\<lambda>_.
         with_lease c ''the winning process is refreshing the credential'' (refresh_leased fmt c rec)))"

text \<open>\<open>Token\<close> and \<open>Refresh\<close> run under the refresh mutex; the recheck sees what the previous holder left.\<close>

definition Token :: "(int \<Rightarrow> string) \<Rightarrow> oauth_client \<Rightarrow> auth_world \<Rightarrow> (go_error + string) \<times> auth_world" where
  "Token fmt c w = (case validToken w of Some tok \<Rightarrow> (Inr tok, w) | None \<Rightarrow> refreshLocked fmt c w)"

definition Refresh :: "(int \<Rightarrow> string) \<Rightarrow> oauth_client \<Rightarrow> auth_world \<Rightarrow> (go_error + string) \<times> auth_world" where
  "Refresh fmt c = refreshLocked fmt c"

definition Expiry :: "auth_world \<Rightarrow> int \<times> bool" where
  "Expiry w = (aw_expiry w, aw_hasToken w)"

definition HasCredentials :: "oauth_client \<Rightarrow> auth_world \<Rightarrow> (go_error + bool) \<times> auth_world" where
  "HasCredentials c =
     io_bind (RegisteredClient c) (\<lambda>found.
     io_bind loadFenced (\<lambda>fenced.
     io_return (case (found, fenced) of
         (Some rec, Some f) \<Rightarrow>
           cr_Issuer rec = oc_issuer c \<and> rc_Issuer (fc_credential f) = oc_issuer c
           \<and> checkIssuerBoundEndpoint (rc_TokenEndpoint (fc_credential f)) (rc_Issuer (fc_credential f)) = Inr ()
           \<and> credentialScopesBound (rc_Scopes (fc_credential f)) (oc_scopes c)
       | _ \<Rightarrow> False)))"

subsection \<open>Logout\<close>

text \<open>Deleting the slot a fence points to and clearing the pointer under the epoch.\<close>

definition delete_committed :: "string \<Rightarrow> auth_world \<Rightarrow> (go_error + unit) \<times> auth_world" where
  "delete_committed fenceName =
     io_bind (io_map_error backend_down (state_read (\<lambda>e. ReadCredentialFence e fenceName))) (\<lambda>fence.
     case fence of
       Some (_, slot) \<Rightarrow> if slot \<noteq> [] then io_map_error backend_down (DeleteSecret slot) else io_return ()
     | None \<Rightarrow> io_return ())"

definition clear_pointer :: "oauth_client \<Rightarrow> int \<Rightarrow> string \<Rightarrow> auth_world \<Rightarrow> (go_error + unit) \<times> auth_world" where
  "clear_pointer c generation fenceName =
     io_bind (io_map_error backend_down (state_call (\<lambda>e.
       ClearCredentialFence e fenceName refreshLeaseName (oc_owner c) generation []))) (\<lambda>cleared.
     if cleared then io_return () else io_fail (contention ''logout lost the refresh lease mid-cleanup; retry''))"

definition logout_leased :: "oauth_client \<Rightarrow> int \<Rightarrow> auth_world \<Rightarrow> (go_error + unit) \<times> auth_world" where
  "logout_leased c generation =
     io_bind (delete_committed RefreshFenceName) (\<lambda>_.
     io_bind (io_map_error backend_down (state_call MarkRefreshCredentialInvalidated)) (\<lambda>_.
     io_bind (clear_pointer c generation RefreshFenceName) (\<lambda>_.
     io_bind (delete_committed ClientFenceName) (\<lambda>_.
     io_bind (clear_pointer c generation ClientFenceName) (\<lambda>_.
     io_bind (io_map_error backend_down (DeleteSecret labelClient)) (\<lambda>_.
     io_bind (io_map_error backend_down (DeleteSecret labelRefresh)) (\<lambda>_.
     io_then (state_call ClearRefreshCredentialInvalidation)
       (io_then retireFailedSlots (\<lambda>w. (Inr (), clearToken w))))))))))"

definition Logout :: "oauth_client \<Rightarrow> auth_world \<Rightarrow> (go_error + unit) \<times> auth_world" where
  "Logout c = with_lease c ''another process is refreshing the credential; retry logout'' (logout_leased c)"

subsection \<open>Registration\<close>

definition client_commit :: "oauth_client \<Rightarrow> int \<Rightarrow> (int \<times> string) option \<Rightarrow> string \<Rightarrow> CredentialFenceCommit" where
  "client_commit c generation fence slot =
     \<lparr>cf_FenceName = ClientFenceName,
      cf_FenceGeneration = (case fence of None \<Rightarrow> 1 | Some (g, _) \<Rightarrow> i64 (g + 1)), cf_Slot = slot,
      cf_PreviousSlot = (case fence of None \<Rightarrow> [] | Some (_, previous) \<Rightarrow> previous),
      cf_RetiredLabels = [labelClient], cf_LeaseName = refreshLeaseName, cf_LeaseOwner = oc_owner c,
      cf_LeaseGeneration = generation\<rparr>"

definition commit_client ::
    "oauth_client \<Rightarrow> int \<Rightarrow> (int \<times> string) option \<Rightarrow> string \<Rightarrow> auth_world \<Rightarrow> (go_error + unit) \<times> auth_world" where
  "commit_client c generation fence slot =
     io_or (state_call (\<lambda>e. CommitCredentialFence e (client_commit c generation fence slot)))
       (\<lambda>err. fail_after (rollbackSlot ClientFenceName slot) (rolled_back err))
       (\<lambda>committed.
          if \<not> committed
          then fail_after (rollbackSlot ClientFenceName slot) (\<lambda>r. case r of
                 None \<Rightarrow> contention ''the client record commit was rejected''
               | Some e \<Rightarrow> Errorf [] [Sentinel ErrLeaseContention, e])
          else io_or (DeleteSecret labelClient) (\<lambda>_. io_return ())
                 (\<lambda>_. io_then (state_call (\<lambda>e. ClearRetiredCredentialSlot e ClientFenceName labelClient)) (io_return ())))"

definition storeClient :: "oauth_client \<Rightarrow> ClientRecord \<Rightarrow> int \<Rightarrow> auth_world \<Rightarrow> (go_error + unit) \<times> auth_world" where
  "storeClient c rec generation =
     io_bind newClientSlotLabel (\<lambda>slot.
     io_or (SetSecret slot (Some (marshal_record rec)))
       (\<lambda>err. fail_after (rollbackSlot ClientFenceName slot) (rolled_back err))
       (\<lambda>_. io_or (state_read (\<lambda>e. ReadCredentialFence e ClientFenceName))
          (\<lambda>err. fail_after (rollbackSlot ClientFenceName slot) (rolled_back err))
          (\<lambda>fence. commit_client c generation fence slot)))"

definition checkRegistrationReuse :: "ClientRecord \<Rightarrow> Metadata \<Rightarrow> string \<Rightarrow> go_error + unit" where
  "checkRegistrationReuse rec md redirectURI =
     rbind (ensure (cr_Issuer rec = as_Issuer (md_AS md))
              (Errorf ''stored client registration binds a different issuer'' [Sentinel ErrMetadata])) (\<lambda>_.
     ensure (cr_RedirectURI rec = [] \<or> cr_RedirectURI rec = redirectURI)
       (Errorf ''stored client registration binds a different redirect uri'' [Sentinel ErrMetadata]))"

definition safeOAuthErrorCode :: "string \<Rightarrow> bool" where
  "safeOAuthErrorCode value \<longleftrightarrow>
     value \<noteq> [] \<and> length value \<le> 64 \<and> lower_alnum (hd value)
     \<and> list_all (\<lambda>c. lower_alnum c \<or> c \<in> set ''._-'') (tl value)"

text \<open>The message of a failed registration: the code of the provider only when it is an enum-like word.\<close>

definition registrationResponseError :: "oauth_client \<Rightarrow> int \<Rightarrow> string \<Rightarrow> go_error" where
  "registrationResponseError c status payload =
     (case Option.bind (oc_decode c payload) (\<lambda>v. Option.bind (struct_members v) (field ''error'' read_string [])) of
        Some code \<Rightarrow> errors_New (''registration endpoint answered '' @ format_int status
             @ (if safeOAuthErrorCode code then '': '' @ code else []))
      | None \<Rightarrow> errors_New (''registration endpoint answered '' @ format_int status))"

definition TokenEndpointAuthMethod :: "AuthorizationServer \<Rightarrow> string" where
  "TokenEndpointAuthMethod a = tokenEndpointAuthMethod (as_TokenEndpointAuthMethods a)"

definition registration_body :: "oauth_client \<Rightarrow> Metadata \<Rightarrow> string \<Rightarrow> json" where
  "registration_body c md redirectURI = marshal_map (Some
     ([(''application_type'', JStr ''native''), (''client_name'', JStr ''Tama Link''), (''redirect_uris'', JArr [JStr redirectURI]),
       (''grant_types'', JArr [JStr ''authorization_code'', JStr ''refresh_token'']), (''response_types'', JArr [JStr ''code'']),
       (''token_endpoint_auth_method'', JStr (TokenEndpointAuthMethod (md_AS md)))]
      @ optional_member ''scope'' (oc_scope c \<noteq> []) (JStr (oc_scope c))))"

definition unmarshal_created :: "json \<Rightarrow> (string \<times> string \<times> int \<times> declaredScope) option" where
  "unmarshal_created v =
     Option.bind (struct_members v) (\<lambda>ms.
     Option.bind (field ''client_id'' read_string [] ms) (\<lambda>cid.
     Option.bind (field ''client_secret'' read_string [] ms) (\<lambda>sec.
     Option.bind (field ''client_secret_expires_at'' read_int64 0 ms) (\<lambda>expires.
     Option.bind (field ''scope'' declaredScope_UnmarshalJSON None ms) (\<lambda>scope.
     Some (cid, sec, expires, scope))))))"

text \<open>From the response to the record, with the checks in the order of the code.\<close>

definition created_record ::
    "oauth_client \<Rightarrow> Metadata \<Rightarrow> string \<Rightarrow> string \<Rightarrow> http_response \<Rightarrow> go_error + ClientRecord" where
  "created_record c md redirectURI now resp =
     rbind (readBody resp (oc_maxBytes c)) (\<lambda>payload.
     if hr_status resp \<noteq> 201 \<and> hr_status resp \<noteq> 200 then Inl (registrationResponseError c (hr_status resp) payload)
     else case Option.bind (oc_decode c payload) unmarshal_created of
         None \<Rightarrow> Inl (errors_New ''decode registration: json'')
       | Some (cid, sec, expires, scope) \<Rightarrow>
           rbind (ensure (cid \<noteq> []) (errors_New ''registration returned no client id'')) (\<lambda>_.
           rbind (registrationScopeOK (oc_scopes c) scope) (\<lambda>_.
           let rec = \<lparr>cr_ClientID = cid, cr_ClientSecret = sec, cr_AuthMethod = TokenEndpointAuthMethod (md_AS md),
                 cr_Issuer = as_Issuer (md_AS md), cr_RedirectURI = redirectURI, cr_RegisteredAt = now,
                 cr_SecretExpiresAt = expires, cr_Scopes = oc_scopes c\<rparr>
           in rbind (ensure (\<not> recordMissingSecret rec) (errors_New ''registration returned no client secret'')) (\<lambda>_. Inr rec))))"

definition reuse_or ::
    "oauth_client \<Rightarrow> Metadata \<Rightarrow> string \<Rightarrow> (auth_world \<Rightarrow> (go_error + ClientRecord) \<times> auth_world) \<Rightarrow>
      auth_world \<Rightarrow> (go_error + ClientRecord) \<times> auth_world" where
  "reuse_or c md redirectURI otherwise =
     io_bind (RegisteredClient c) (\<lambda>found.
     case found of
       None \<Rightarrow> otherwise
     | Some rec \<Rightarrow> (\<lambda>w. (rbind (checkRegistrationReuse rec md redirectURI) (\<lambda>_. Inr rec), w)))"

definition register_new ::
    "(int \<Rightarrow> string) \<Rightarrow> oauth_client \<Rightarrow> Metadata \<Rightarrow> string \<Rightarrow> int \<Rightarrow>
      auth_world \<Rightarrow> (go_error + ClientRecord) \<times> auth_world" where
  "register_new fmt c md redirectURI generation =
     io_bind (io_map_error (\<lambda>e. Errorf ''register client'' [e]) (send_post
        \<lparr>po_url = as_RegistrationEndpoint (md_AS md), po_form = [], po_json = Some (registration_body c md redirectURI),
         po_basic = None\<rparr>)) (\<lambda>resp w.
     (case created_record c md redirectURI (fmt (aw_clock w (aw_calls w))) resp of
        Inl err \<Rightarrow> (Inl err, w)
      | Inr rec \<Rightarrow>
          io_bind loadFenced (\<lambda>existing.
          io_bind (case existing of None \<Rightarrow> io_return () | Some _ \<Rightarrow> invalidateCredential c generation) (\<lambda>_.
          io_bind (storeClient c rec generation) (\<lambda>_. io_return rec))) w))"

definition register ::
    "(int \<Rightarrow> string) \<Rightarrow> oauth_client \<Rightarrow> Metadata \<Rightarrow> string \<Rightarrow> auth_world \<Rightarrow> (go_error + ClientRecord) \<times> auth_world" where
  "register fmt c md redirectURI =
     reuse_or c md redirectURI
       (with_lease c ''the credential is being mutated; retry registration'' (\<lambda>generation.
          reuse_or c md redirectURI (register_new fmt c md redirectURI generation)))"

text \<open>\<open>Register\<close> uses the redirect the client was configured with.\<close>

definition Register ::
    "(int \<Rightarrow> string) \<Rightarrow> oauth_client \<Rightarrow> string \<Rightarrow> Metadata \<Rightarrow> auth_world \<Rightarrow> (go_error + ClientRecord) \<times> auth_world" where
  "Register fmt c configured md = register fmt c md configured"

definition RegisterForRedirect ::
    "(int \<Rightarrow> string) \<Rightarrow> oauth_client \<Rightarrow> Metadata \<Rightarrow> string \<Rightarrow> auth_world \<Rightarrow> (go_error + ClientRecord) \<times> auth_world" where
  "RegisterForRedirect fmt c md redirectURI w =
     (case checkDynamicRegistrationRedirect redirectURI of
        Inl err \<Rightarrow> (Inl err, w)
      | Inr _ \<Rightarrow> register fmt c md redirectURI w)"

subsection \<open>Authorization\<close>

text \<open>
  The parameters are set on the query of the authorization endpoint; the URL itself is not rendered.
  \<open>sha256\<close> and \<open>base64url\<close> are those of the standard library.
\<close>

record AuthorizationRequest =
  ar_Query :: "(string, string) table"
  ar_State :: string
  ar_Verifier :: string
  ar_RedirectURI :: string

definition NewAuthorizationRequest ::
    "(string \<Rightarrow> string) \<Rightarrow> (string \<Rightarrow> string) \<Rightarrow> oauth_client \<Rightarrow> Metadata \<Rightarrow> ClientRecord \<Rightarrow> string \<Rightarrow>
      auth_world \<Rightarrow> (go_error + AuthorizationRequest) \<times> auth_world" where
  "NewAuthorizationRequest sha256 base64url c md rec redirectURI =
     io_bind (\<lambda>w. (rbind (ensure (cr_Issuer rec = as_Issuer (md_AS md))
         (Errorf ''client registration binds a different issuer'' [Sentinel ErrMetadata])) (\<lambda>_. checkLoopbackRedirect redirectURI), w)) (\<lambda>_.
     io_bind (io_map_error (\<lambda>e. Errorf ''generate token'' [e]) random_bytes) (\<lambda>v.
     io_bind (io_map_error (\<lambda>e. Errorf ''generate token'' [e]) random_bytes) (\<lambda>s.
     io_bind (\<lambda>w. (map_error (\<lambda>e. Errorf ''parse authorization endpoint'' [e]) (Parse (as_AuthorizationEndpoint (md_AS md))), w)) (\<lambda>_.
     let verifier = base64url v; state = base64url s in
     io_return
       \<lparr>ar_Query =
          [(''response_type'', ''code''), (''client_id'', cr_ClientID rec), (''redirect_uri'', redirectURI), (''state'', state),
           (''code_challenge'', base64url (sha256 verifier)), (''code_challenge_method'', ''S256''), (''resource'', oc_endpoint c)]
          @ (if oc_scope c \<noteq> [] then [(''scope'', oc_scope c)] else []),
        ar_State = state, ar_Verifier = verifier, ar_RedirectURI = redirectURI\<rparr>))))"

definition code_form :: "oauth_client \<Rightarrow> AuthorizationRequest \<Rightarrow> string \<Rightarrow> (string, string) table" where
  "code_form c req code =
     [(''grant_type'', ''authorization_code''), (''code'', code), (''redirect_uri'', ar_RedirectURI req),
      (''code_verifier'', ar_Verifier req), (''resource'', oc_endpoint c)]
     @ (if oc_scope c \<noteq> [] then [(''scope'', oc_scope c)] else [])"

definition persist_grant ::
    "(int \<Rightarrow> string) \<Rightarrow> oauth_client \<Rightarrow> Metadata \<Rightarrow> ClientRecord \<Rightarrow> int \<Rightarrow> tokenResponse \<Rightarrow>
      auth_world \<Rightarrow> (go_error + unit) \<times> auth_world" where
  "persist_grant fmt c md rec generation tok =
     (if tr_RefreshToken tok = [] then io_fail (no_credentials ''authorization code exchange returned no refresh token'')
      else io_bind (currentRecord c rec) (\<lambda>_ w.
        case checkReturnedScope (oc_scopes c) (tr_Scope tok) of
          Inl err \<Rightarrow> (Inl err, w)
        | Inr granted \<Rightarrow>
            (let cred = \<lparr>rc_RefreshToken = tr_RefreshToken tok, rc_TokenEndpoint = as_TokenEndpoint (md_AS md),
                   rc_Issuer = as_Issuer (md_AS md), rc_Scopes = granted, rc_Updated = fmt (aw_clock w (aw_calls w))\<rparr>
             in io_bind (io_map_error backend_down loadFenced) (\<lambda>fenced.
                applyTokens fmt c (case fenced of
                    None \<Rightarrow> \<lparr>fc_credential = cred, fc_generation = 1, fc_leaseGeneration = 0, fc_previousSlot = []\<rparr>
                  | Some f \<Rightarrow> f\<lparr>fc_credential := cred\<rparr>) tok generation) w)))"

definition CompleteAuthorization ::
    "(int \<Rightarrow> string) \<Rightarrow> oauth_client \<Rightarrow> Metadata \<Rightarrow> ClientRecord \<Rightarrow> AuthorizationRequest \<Rightarrow> string \<Rightarrow> string \<Rightarrow>
      auth_world \<Rightarrow> (go_error + unit) \<times> auth_world" where
  "CompleteAuthorization fmt c md rec req code observedRedirectURI =
     io_bind (\<lambda>w. (rbind (ensure (code \<noteq> []) (errors_New ''authorization code is required'')) (\<lambda>_.
         rbind (ensure (observedRedirectURI = ar_RedirectURI req)
             (errors_New ''observed redirect uri does not match the authorization request'')) (\<lambda>_.
         checkLoopbackRedirect (ar_RedirectURI req))), w)) (\<lambda>_.
     with_lease c ''another process is refreshing the credential; retry the authorization'' (\<lambda>generation.
       io_bind (leasedExchangeAndPersist c generation
           (io_bind (currentRecord c rec) (\<lambda>_. postToken c (as_TokenEndpoint (md_AS md)) rec (code_form c req code)))
           (persist_grant fmt c md rec generation)) (\<lambda>_. io_return ())))"

end
