(* ===== verification/Oauth_Safety.thy ===== *)
theory Oauth_Safety
  imports Oauth_Client Store_Outcomes
begin

text \<open>
  What the OAuth client promises: a rotation is atomic and never loses the live grant, a rejected
  grant is never used again, a logout leaves nothing behind, the refresh token goes to the issuer's
  token endpoint only, and the in-memory token has a sane lifetime.
\<close>

section \<open>Lemmas\<close>

subsection \<open>Worlds nobody else touches\<close>

definition calm :: "auth_world \<Rightarrow> bool" where
  "calm w \<longleftrightarrow> (\<forall>n p. aw_other w n p = p)"

lemma others_calm: "calm w \<Longrightarrow> others w = w\<lparr>aw_calls := Suc (aw_calls w)\<rparr>"
  by (simp add: others_def calm_def Let_def)

lemma calm_update [simp]:
  "calm (w\<lparr>aw_calls := n\<rparr>) = calm w" "calm (w\<lparr>aw_db := d\<rparr>) = calm w" "calm (w\<lparr>aw_secrets := s\<rparr>) = calm w"
  "calm (w\<lparr>aw_posts := p\<rparr>) = calm w"
  by (simp_all add: calm_def)

lemma calm_clear [simp]: "calm (clearToken w) = calm w"
  by (simp add: calm_def clearToken_def)

lemma io_or_simps:
  "m w = (Inl e, w') \<Longrightarrow> io_or m f g w = f e w'" "m w = (Inr x, w') \<Longrightarrow> io_or m f g w = g x w'"
  by (simp_all add: io_or_def)

context stateful
begin

lemma keeps_or:
  assumes "keeps R m" "\<And>e. keeps R (f e)" "\<And>x. keeps R (g x)"
  shows "keeps R (io_or m f g)"
  using keeps_case [OF assms] by (simp add: io_or_def [abs_def])

lemma keeps_then: "keeps R m \<Longrightarrow> keeps R f \<Longrightarrow> keeps R (io_then m f)"
  unfolding keeps_def io_then_def using R_trans by blast

end

text \<open>A relation that holds of the calls of a claim holds of the whole claim, all its attempts.\<close>

locale claimant = stateful R for R :: "auth_world \<Rightarrow> auth_world \<Rightarrow> bool" +
  assumes keeps_generation: "keeps R (state_read (\<lambda>e. LeaseGeneration e n p))"
    and keeps_claim: "keeps R (state_call (\<lambda>e. ClaimLease e n p ttl))"
begin

lemma once: "keeps R (claim_once c)"
  unfolding claim_once_def by (intro keeps_rules keeps_generation keeps_claim)

lemma again: "keeps R (claim_again n c)"
proof (induction n)
  case (Suc n)
  have "keeps R (io_bind (claim_once c) (\<lambda>g. case g of None \<Rightarrow> claim_again n c | Some x \<Rightarrow> io_return (Some x)))"
    by (intro keeps_rules once Suc)
  then show ?case using R_refl by (auto simp: keeps_def split: option.split)
qed (simp add: keeps_def R_refl)

lemma claimed: "keeps R (claimRefreshLease c)"
  unfolding claimRefreshLease_def by (intro keeps_rules once again)

end

subsection \<open>What the client leaves alone\<close>

text \<open>The slots the retirement records of both streams name, and the two pointers with the marker.\<close>

definition backlog :: "db \<Rightarrow> string set" where
  "backlog d = {f_slot f | name f. (name, f) \<in> set (credential_fence d)
     \<and> (sql_like (RefreshFenceName @ ''-retired:%'') name \<or> sql_like (ClientFenceName @ ''-retired:%'') name)}"

definition pointers :: "db \<Rightarrow> fence_row option \<times> fence_row option \<times> bool" where
  "pointers d = (row_at (credential_fence d) RefreshFenceName, row_at (credential_fence d) ClientFenceName,
     row_at (credential_fence d) invalidatedCredentialName \<noteq> None)"

text \<open>
  Tidying within a set of labels: pointers and leases stay, secrets outside the set stay, those inside stay or
  are deleted, and the backlog grows at most by the set.
\<close>

definition tidy :: "string set \<Rightarrow> auth_world \<Rightarrow> auth_world \<Rightarrow> bool" where
  "tidy B w w' \<longleftrightarrow> (calm w \<longrightarrow> calm w' \<and> pointers (aw_db w') = pointers (aw_db w) \<and> leases (aw_db w') = leases (aw_db w)
     \<and> backlog (aw_db w') \<subseteq> backlog (aw_db w) \<union> B
     \<and> (\<forall>l. row_at (aw_secrets w') l = row_at (aw_secrets w) l \<or> l \<in> B \<and> row_at (aw_secrets w') l = None))"

interpretation tidy: stateful "tidy B" for B
proof unfold_locales
  show "tidy B w w" for w by (auto simp: tidy_def)
  show "tidy B w w' \<Longrightarrow> tidy B w' w'' \<Longrightarrow> tidy B w w''" for w w' w''
    unfolding tidy_def by (metis (no_types, lifting) Un_assoc Un_absorb subset_Un_eq sup.coboundedI1 sup_commute)
qed

definition stream :: "string \<Rightarrow> bool" where
  "stream f \<longleftrightarrow> f = RefreshFenceName \<or> f = ClientFenceName"

lemma stream_names [simp]: "stream RefreshFenceName" "stream ClientFenceName"
  by (simp_all add: stream_def)

lemma pointer_names:
  "stream f \<Longrightarrow> retiredCredentialSlotName f s \<noteq> RefreshFenceName"
  "stream f \<Longrightarrow> retiredCredentialSlotName f s \<noteq> ClientFenceName"
  "stream f \<Longrightarrow> retiredCredentialSlotName f s \<noteq> invalidatedCredentialName"
  "invalidatedCredentialName \<noteq> RefreshFenceName" "invalidatedCredentialName \<noteq> ClientFenceName" "RefreshFenceName \<noteq> ClientFenceName"
  by (auto simp: stream_def retiredCredentialSlotName_def invalidatedCredentialName_def RefreshFenceName_def ClientFenceName_def)

lemma set_put_row: "set (put_row k v t) \<subseteq> insert (k, v) (set t)"
  by (induction t) (auto simp: put_row_def)

lemma set_del_row: "set (del_row k t) \<subseteq> set t"
  by (auto simp: del_row_def)

lemma backlog_put: "backlog (d\<lparr>credential_fence := put_row k v (credential_fence d)\<rparr>) \<subseteq> insert (f_slot v) (backlog d)"
  using set_put_row [of k v "credential_fence d"] by (auto simp: backlog_def)

lemma backlog_del: "backlog (d\<lparr>credential_fence := del_row k (credential_fence d)\<rparr>) \<subseteq> backlog d"
  using set_del_row [of k "credential_fence d"] by (auto simp: backlog_def)

lemma backlog_enqueue: "backlog (enqueue f s d) \<subseteq> insert s (backlog d)"
  unfolding enqueue_def Let_def by (rule subset_trans [OF backlog_put]) (auto split: option.split)

lemma pointers_put:
  "stream f \<Longrightarrow> pointers (d\<lparr>credential_fence := put_row (retiredCredentialSlotName f s) v (credential_fence d)\<rparr>) = pointers d"
  "stream f \<Longrightarrow> pointers (d\<lparr>credential_fence := del_row (retiredCredentialSlotName f s) (credential_fence d)\<rparr>) = pointers d"
  by (auto simp: pointers_def pointer_names [THEN not_sym] pointer_names)

lemma leases_enqueue [simp]: "leases (enqueue f s d) = leases d"
  by (simp add: enqueue_def Let_def)

lemma pointers_enqueue [simp]: "stream f \<Longrightarrow> pointers (enqueue f s d) = pointers d"
  by (simp add: enqueue_def Let_def pointers_put)

lemma tidy_delete: "l \<in> B \<Longrightarrow> keeps (tidy B) (DeleteSecret l)"
  by (auto simp: keeps_def tidy_def DeleteSecret_def others_calm Let_def split: backend.split)

lemma tidy_read: "keeps (tidy B) (state_read f)"
  by (auto simp: keeps_def tidy_def state_read_def state_call_def others_calm Let_def)

lemma tidy_call:
  assumes "\<And>e d. pointers (snd (f e d)) = pointers d" "\<And>e d. leases (snd (f e d)) = leases d"
    "\<And>e d. backlog (snd (f e d)) \<subseteq> backlog d \<union> B"
  shows "keeps (tidy B) (state_call f)"
  using assms by (auto simp: keeps_def tidy_def state_call_def others_calm Let_def)

lemma fence_exec_snd: "snd (fence_exec e what f d) = d \<or> snd (fence_exec e what f d) = f d"
  by (auto simp: fence_exec_def split: sum.split)

lemma tidy_clear_retired: "stream f \<Longrightarrow> keeps (tidy B) (state_call (\<lambda>e. ClearRetiredCredentialSlot e f s))"
  by (rule tidy_call)
    (auto simp: ClearRetiredCredentialSlot_def fence_exec_def pointers_put split: sum.split dest!: subsetD [OF backlog_del])

lemma tidy_record: "stream f \<Longrightarrow> s \<in> B \<Longrightarrow> keeps (tidy B) (state_call (\<lambda>e. RecordRetiredCredentialSlot e f s))"
  by (rule tidy_call)
    (auto simp: RecordRetiredCredentialSlot_def fence_exec_def split: sum.split dest!: subsetD [OF backlog_enqueue])

lemmas tidy_intros = tidy.keeps_rules tidy.keeps_or tidy.keeps_then tidy_delete tidy_read tidy_clear_retired tidy_record



lemma retire_slots_tidy: "stream f \<Longrightarrow> set slots \<subseteq> B \<Longrightarrow> keeps (tidy B) (retire_slots f slots)"
proof (induction slots)
  case Nil
  then show ?case unfolding retire_slots.simps by (intro tidy_intros)
next
  case (Cons s slots)
  then show ?case unfolding retire_slots.simps by (intro tidy_intros) simp_all
qed

lemma retired_in_backlog: "stream f \<Longrightarrow> RetiredCredentialSlots e f d = Inr xs \<Longrightarrow> set xs \<subseteq> backlog d"
  by (auto simp: RetiredCredentialSlots_def result_simps backlog_def stream_def) blast+

lemma retire_fence_tidy:
  assumes "stream f" "calm w" "backlog (aw_db w) \<subseteq> B"
  shows "tidy B w (snd (retire_fence f w))"
proof -
  obtain r w1 where l: "state_read (\<lambda>e. RetiredCredentialSlots e f) w = (r, w1)" by fastforce
  have w1: "tidy B w w1" by (rule keepsD [OF tidy_read l])
  show ?thesis
  proof (cases r)
    case (Inl e)
    then show ?thesis using w1 l by (simp add: retire_fence_def io_or_def)
  next
    case (Inr xs)
    have "RetiredCredentialSlots (aw_env w (aw_calls w)) f (aw_db w) = r"
      using l assms(2) by (auto simp: state_read_def state_call_def others_calm Let_def)
    then have "set xs \<subseteq> B" using retired_in_backlog [OF assms(1)] Inr assms(3) by blast
    from retire_slots_tidy [OF assms(1) this] have "tidy B w1 (snd (retire_slots f xs w1))" by (simp add: keeps_def)
    with w1 l Inr show ?thesis using tidy.R_trans [OF w1] by (simp add: retire_fence_def io_or_def)
  qed
qed

lemma retireFailedSlots_tidy:
  assumes "calm w"
  shows "tidy (backlog (aw_db w)) w (snd (retireFailedSlots w))"
proof -
  let ?w1 = "snd (retire_fence RefreshFenceName w)"
  have a: "tidy (backlog (aw_db w)) w ?w1" using assms by (intro retire_fence_tidy) simp_all
  then have "tidy (backlog (aw_db w)) ?w1 (snd (retire_fence ClientFenceName ?w1))"
    using assms by (intro retire_fence_tidy) (simp_all add: tidy_def)
  with a show ?thesis unfolding retireFailedSlots_def io_then_def using tidy.R_trans by blast
qed

subsection \<open>The live grant\<close>

definition live_slot :: "db \<Rightarrow> string" where
  "live_slot d = (case row_at (credential_fence d) RefreshFenceName of None \<Rightarrow> labelRefresh | Some f \<Rightarrow> f_slot f)"

text \<open>The bytes a load would read: those of the slot the fence points at, or of the legacy label.\<close>

definition live :: "auth_world \<Rightarrow> json option option" where
  "live w = (if row_at (credential_fence (aw_db w)) RefreshFenceName = None
       \<and> row_at (credential_fence (aw_db w)) invalidatedCredentialName \<noteq> None then None
     else row_at (aw_secrets w) (live_slot (aw_db w)))"














subsection \<open>A rotation\<close>












definition demo_cred :: refreshCredential where
  "demo_cred = \<lparr>rc_RefreshToken = ''r2'', rc_TokenEndpoint = ''https://a/t'', rc_Issuer = ''https://a'', rc_Scopes = [],
     rc_Updated = zero_time\<rparr>"

definition demo_auth :: auth_world where
  "demo_auth = \<lparr>aw_db = empty_db\<lparr>credential_fence := [(RefreshFenceName, \<lparr>f_generation = 1, f_slot = ''oauth-refresh-00''\<rparr>)],
       leases := [(refreshLeaseName, \<lparr>l_owner = ''p'', l_expires_at = 100, l_generation = 4\<rparr>)]\<rparr>,
     aw_secrets = [(''oauth-refresh-00'', Some (marshal_credential (demo_cred\<lparr>rc_RefreshToken := ''r1''\<rparr>)))],
     aw_calls = 0, aw_env = (\<lambda>_. demo_env 2), aw_backend = (\<lambda>_. BackendOk), aw_other = (\<lambda>_ p. p), aw_rand = (\<lambda>_. Inr ''x''),
     aw_http = (\<lambda>_. Inl (errors_New ''down'')), aw_clock = (\<lambda>_. 0), aw_ctx = (\<lambda>_. None), aw_lost = (\<lambda>_. False), aw_posts = [],
     aw_token = [], aw_expiry = 0, aw_hasToken = False, aw_skew = 0\<rparr>"

definition demo_oauth :: oauth_client where
  "demo_oauth = \<lparr>oc_endpoint = ''https://a/m'', oc_issuer = ''https://a'', oc_scopes = [], oc_maxBytes = 1024, oc_owner = ''p'',
     oc_decode = (\<lambda>_. None)\<rparr>"

definition demo_fenced :: fencedCredential where
  "demo_fenced = \<lparr>fc_credential = demo_cred, fc_generation = 2, fc_leaseGeneration = 4, fc_previousSlot = ''oauth-refresh-00''\<rparr>"

lemma demo_calm: "calm demo_auth"
  by (simp add: calm_def demo_auth_def)



lemma io_run:
  "fst (m w) = Inr x \<Longrightarrow> io_or m f g w = g x (snd (m w))" "fst (m w) = Inr x \<Longrightarrow> io_bind m h w = h x (snd (m w))"
  by (cases "m w"; simp add: io_or_def io_bind_def)+



subsection \<open>Invalidation\<close>

definition reads_only :: "auth_world \<Rightarrow> auth_world \<Rightarrow> bool" where
  "reads_only w w' \<longleftrightarrow> (calm w \<longrightarrow> calm w' \<and> credential_fence (aw_db w') = credential_fence (aw_db w) \<and> aw_secrets w' = aw_secrets w)"

interpretation reads_only: stateful reads_only
  by unfold_locales (auto simp: reads_only_def)

lemma reads_only_calls:
  "keeps reads_only (state_read f)" "keeps reads_only (GetSecret l)" "keeps reads_only random_bytes"
  "keeps reads_only (state_call (\<lambda>e. ClaimLease e n p ttl))" "keeps reads_only (state_call (\<lambda>e. ReleaseLease e n p))"
  by (auto simp: keeps_def reads_only_def state_read_def state_call_def GetSecret_def random_bytes_def others_calm Let_def
      ClaimLease_def ReleaseLease_def split: backend.split sum.split option.split)

interpretation reads_only: claimant reads_only
  by unfold_locales (rule reads_only_calls)+

lemma reads_only_pairs: "(\<And>a b. keeps reads_only (f a b)) \<Longrightarrow> keeps reads_only (case_prod f p)"
  by (cases p) simp

lemma loadFenced_reads_only: "keeps reads_only loadFenced"
  unfolding loadFenced_def loadRefresh_def
  by (intro reads_only.keeps_rules reads_only_calls reads_only_pairs)

text \<open>No grant is loaded: nothing is pointed at, and the legacy label is marked or empty.\<close>

definition dead :: "auth_world \<Rightarrow> bool" where
  "dead w \<longleftrightarrow> row_at (credential_fence (aw_db w)) RefreshFenceName = None
     \<and> (row_at (credential_fence (aw_db w)) invalidatedCredentialName \<noteq> None \<or> row_at (aw_secrets w) labelRefresh = None)"

lemma dead_live: "dead w \<Longrightarrow> live w = None"
  by (auto simp: dead_def live_def live_slot_def)

lemma dead_load:
  assumes "dead w" "calm w" "loadFenced w = (Inr x, w')"
  shows "x = None"
  using assms
  by (auto simp: loadFenced_def loadRefresh_def io_bind_Inr io_map_error_Inr state_read_def state_call_def GetSecret_def others_calm Let_def
      ReadCredentialFence_def RefreshCredentialInvalidated_def result_simps dead_def split: backend.splits if_splits option.splits)

text \<open>A marked grant stays dead until its marker goes.\<close>

definition grant_marked :: "auth_world \<Rightarrow> bool" where
  "grant_marked w \<longleftrightarrow> calm w \<and> row_at (credential_fence (aw_db w)) RefreshFenceName = None
     \<and> row_at (credential_fence (aw_db w)) invalidatedCredentialName \<noteq> None"

lemma grant_marked_dead: "grant_marked w \<Longrightarrow> dead w"
  by (simp add: grant_marked_def dead_def)

lemma tidy_grant_marked: "tidy B w w' \<Longrightarrow> grant_marked w \<Longrightarrow> grant_marked w'"
  by (auto simp: tidy_def grant_marked_def pointers_def)

lemma mark_marks:
  assumes "calm w" "state_call MarkRefreshCredentialInvalidated w = (Inr (), w')"
  shows "calm w' \<and> row_at (credential_fence (aw_db w')) invalidatedCredentialName \<noteq> None
     \<and> (\<forall>f. stream f \<longrightarrow> row_at (credential_fence (aw_db w')) f = row_at (credential_fence (aw_db w)) f)"
  using assms by (auto simp: state_call_def others_calm Let_def MarkRefreshCredentialInvalidated_def fence_exec_def stream_def
      pointer_names [THEN not_sym] pointer_names split: sum.splits)

lemma clear_clears:
  assumes "stream f" "calm w" "state_call (\<lambda>e. ClearCredentialFence e f n o' g slot) w = (Inr True, w')"
  shows "calm w' \<and> row_at (credential_fence (aw_db w')) f = None
     \<and> row_at (credential_fence (aw_db w')) invalidatedCredentialName = row_at (credential_fence (aw_db w)) invalidatedCredentialName
     \<and> aw_secrets w' = aw_secrets w
     \<and> (\<forall>f'. stream f' \<and> f' \<noteq> f \<longrightarrow> row_at (credential_fence (aw_db w')) f' = row_at (credential_fence (aw_db w)) f')"
proof -
  let ?d = "(aw_db w)\<lparr>credential_fence := del_row f (credential_fence (aw_db w))\<rparr>"
  have w': "calm w'" "aw_secrets w' = aw_secrets w" and db: "aw_db w' = (if slot = [] then ?d else enqueue f slot ?d)"
    using assms(2,3) by (auto simp: state_call_def others_calm Let_def ClearCredentialFence_def split: sum.splits if_splits)
  have inval: "invalidatedCredentialName \<noteq> f" using assms(1) by (auto simp: stream_def pointer_names)
  have rows: "row_at (credential_fence (aw_db w')) m = (if m = f then None else row_at (credential_fence (aw_db w)) m)"
    if "stream m \<or> m = invalidatedCredentialName" for m
  proof -
    have "retiredCredentialSlotName f slot \<noteq> m" using that pointer_names(1-3) [OF assms(1)] unfolding stream_def by blast
    then show ?thesis by (auto simp: db enqueue_def Let_def)
  qed
  show ?thesis using w' rows inval assms(1) by simp
qed

lemma drop_legacy_dead:
  assumes "grant_marked w" "io_or (DeleteSecret labelRefresh) (\<lambda>_. io_return ())
      (\<lambda>_. io_map_error backend_down (state_call ClearRefreshCredentialInvalidation)) w = (r, w')"
  shows "calm w' \<and> dead w'"
  using assms
  by (auto simp: io_or_def io_map_error_def DeleteSecret_def state_call_def others_calm Let_def grant_marked_def dead_def
      ClearRefreshCredentialInvalidation_def fence_exec_def pointer_names split: backend.splits if_splits sum.splits)

lemma retire_slot_dead:
  assumes "grant_marked w" "io_or (DeleteSecret slot) (\<lambda>_. io_return ()) (\<lambda>_.
      io_bind (io_map_error backend_down (state_call (\<lambda>e. ClearRetiredCredentialSlot e RefreshFenceName slot))) (\<lambda>_.
      io_or (DeleteSecret labelRefresh) (\<lambda>_. io_return ())
        (\<lambda>_. io_map_error backend_down (state_call ClearRefreshCredentialInvalidation)))) w = (r, w')"
  shows "calm w' \<and> dead w'"
proof -
  obtain q w1 where d: "DeleteSecret slot w = (q, w1)" by fastforce
  have w1: "grant_marked w1" by (rule tidy_grant_marked [OF keepsD [OF tidy_delete [of slot "{slot}"] d] assms(1)]) simp
  let ?clear = "io_map_error backend_down (state_call (\<lambda>e. ClearRetiredCredentialSlot e RefreshFenceName slot))"
  obtain q2 w2 where c: "?clear w1 = (q2, w2)" by fastforce
  have w2: "grant_marked w2"
    by (rule tidy_grant_marked [OF keepsD [OF tidy.keeps_map_error [OF tidy_clear_retired [of _ "{slot}"]] c] w1]) simp
  show ?thesis
  proof (cases q)
    case (Inl e)
    with assms(2) d w1 show ?thesis by (simp add: io_or_def grant_marked_dead grant_marked_def)
  next
    case (Inr u)
    show ?thesis
    proof (cases q2)
      case (Inl e)
      with assms(2) d c Inr w2 show ?thesis by (simp add: io_or_simps(2) io_bind_def grant_marked_dead grant_marked_def)
    next
      case (Inr u')
      with assms(2) d c \<open>q = Inr u\<close> have "io_or (DeleteSecret labelRefresh) (\<lambda>_. io_return ())
          (\<lambda>_. io_map_error backend_down (state_call ClearRefreshCredentialInvalidation)) w2 = (r, w')"
        by (simp add: io_or_simps(2) [of "DeleteSecret slot"] io_bind_def)
      then show ?thesis by (rule drop_legacy_dead [OF w2])
    qed
  qed
qed

lemma invalidated_dead:
  assumes "calm w" "invalidateCredential c generation w = (Inr (), w')"
  shows "calm w' \<and> dead w'"
proof -
  obtain f w1 where l: "loadFenced w = (Inr f, w1)" using assms(2) unfolding invalidateCredential_def Let_def io_bind_Inr by blast
  define slot where "slot = (case f of None \<Rightarrow> [] | Some x \<Rightarrow> if fc_previousSlot x = labelRefresh then [] else fc_previousSlot x)"
  let ?clear = "state_call (\<lambda>e. ClearCredentialFence e RefreshFenceName refreshLeaseName (oc_owner c) generation slot)"
  let ?legacy = "io_or (DeleteSecret labelRefresh) (\<lambda>_. io_return ())
      (\<lambda>_. io_map_error backend_down (state_call ClearRefreshCredentialInvalidation))"
  obtain w2 cleared w3 where m: "state_call MarkRefreshCredentialInvalidated w1 = (Inr (), w2)" and c: "?clear w2 = (Inr cleared, w3)"
    and rest: "(if \<not> cleared then io_fail (contention ''refresh lease lost while invalidating the rejected grant; retry'')
      else if slot = [] then ?legacy
      else io_or (DeleteSecret slot) (\<lambda>_. io_return ()) (\<lambda>_.
               io_bind (io_map_error backend_down (state_call (\<lambda>e. ClearRetiredCredentialSlot e RefreshFenceName slot))) (\<lambda>_. ?legacy))) w3
      = (Inr (), w')"
    using assms(2) l unfolding invalidateCredential_def Let_def io_bind_Inr io_map_error_Inr slot_def by auto
  have "calm w1" using keepsD [OF loadFenced_reads_only l] assms(1) by (simp add: reads_only_def)
  from mark_marks [OF this m] have w2: "calm w2" "row_at (credential_fence (aw_db w2)) invalidatedCredentialName \<noteq> None" by auto
  have cl: cleared using rest by (rule contrapos_pp) simp
  then have "?clear w2 = (Inr True, w3)" using c by simp
  from clear_clears [OF stream_names(1) w2(1) this] w2(2) have w3: "grant_marked w3" by (simp add: grant_marked_def)
  show ?thesis
  proof (cases "slot = []")
    case True
    with rest cl have "?legacy w3 = (Inr (), w')" by simp
    then show ?thesis by (rule drop_legacy_dead [OF w3])
  next
    case False
    show ?thesis by (rule retire_slot_dead [OF w3, where slot = slot and r = "Inr ()"]) (use rest cl False in \<open>simp only: if_False not_False_eq_True simp_thms\<close>)
  qed
qed

text \<open>
  C27: An invalidated grant is dead. When \<open>invalidateCredential\<close> reports success, whatever the backend
  refused to delete, no later load returns a refresh credential: the fence points nowhere, and the
  legacy label is empty or marked.
\<close>

theorem rejected_grant_dead:
  assumes "calm w" "invalidateCredential c generation w = (Inr (), w')" "loadFenced w' = (Inr found, w'')"
  shows "live w' = None \<and> found = None"
  using invalidated_dead [OF assms(1,2)] dead_live dead_load assms(3) by blast

lemma demo_invalidation:
  "fst (invalidateCredential demo_oauth 4 demo_auth) = Inr ()"
  "fst (loadFenced (snd (invalidateCredential demo_oauth 4 demo_auth))) = Inr None"
proof -
  let ?w1 = "snd (loadFenced demo_auth)"
  have l: "fst (loadFenced demo_auth) = Inr (Some (demo_fenced\<lparr>fc_credential := demo_cred\<lparr>rc_RefreshToken := ''r1''\<rparr>, fc_leaseGeneration := 0\<rparr>))"
    by code_simp
  have m: "fst (io_map_error backend_down (state_call MarkRefreshCredentialInvalidated) ?w1) = Inr ()" by code_simp
  note steps = io_run(2) [where m = loadFenced, OF l] io_run(2) [where m = "io_map_error backend_down (state_call MarkRefreshCredentialInvalidated)", OF m]
  show "fst (invalidateCredential demo_oauth 4 demo_auth) = Inr ()"
    "fst (loadFenced (snd (invalidateCredential demo_oauth 4 demo_auth))) = Inr None"
    unfolding invalidateCredential_def Let_def steps by code_simp+
qed

theorem rejected_grant_dead_witness:
  "fst (invalidateCredential demo_oauth 4 demo_auth) = Inr () \<and> live demo_auth \<noteq> None
   \<and> live (snd (invalidateCredential demo_oauth 4 demo_auth)) = None"
proof -
  let ?i = "invalidateCredential demo_oauth 4 demo_auth"
  have "?i = (Inr (), snd ?i)" "loadFenced (snd ?i) = (Inr None, snd (loadFenced (snd ?i)))"
    using demo_invalidation by (simp_all add: prod_eq_iff)
  moreover have "live demo_auth \<noteq> None" by code_simp
  ultimately show ?thesis using rejected_grant_dead [OF demo_calm] demo_invalidation(1) by blast
qed

subsection \<open>What is sent\<close>

definition unsent :: "auth_world \<Rightarrow> auth_world \<Rightarrow> bool" where
  "unsent w w' \<longleftrightarrow> aw_posts w' = aw_posts w"

interpretation unsent: stateful unsent
  by unfold_locales (simp_all add: unsent_def)

lemma unsent_pairs: "(\<And>a b. keeps unsent (f a b)) \<Longrightarrow> keeps unsent (case_prod f p)"
  by (cases p) simp

lemma unsent_calls:
  "keeps unsent (state_call f)" "keeps unsent (state_read g)" "keeps unsent (GetSecret l)" "keeps unsent (SetSecret l v)"
  "keeps unsent (DeleteSecret l)" "keeps unsent random_bytes"
  by (auto simp: keeps_def unsent_def state_read_def state_call_def GetSecret_def SetSecret_def DeleteSecret_def random_bytes_def
      others_def Let_def split: backend.split)

interpretation unsent: claimant unsent
  by unfold_locales (rule unsent_calls)+

lemmas unsent_intros = unsent.keeps_rules unsent.keeps_or unsent.keeps_then unsent_pairs unsent_calls

lemma retire_slots_unsent: "keeps unsent (retire_slots f slots)"
  by (induction slots) (auto intro!: unsent_intros simp del: io_simps)

lemma storeFenced_unsent: "keeps unsent (storeFenced c fenced)"
  unfolding storeFenced_def newRefreshSlotLabel_def fail_after_def rollbackSlot_def retireFailedSlots_def retire_fence_def commit_slot_def
    retire_replaced_def
  by (intro unsent_intros retire_slots_unsent)

lemma applyTokens_unsent: "keeps unsent (applyTokens fmt c fenced tok g)"
proof -
  have "aw_posts (snd (case m of (Inl err, w') \<Rightarrow> (Inl err, w') | (Inr _, w') \<Rightarrow> (Inr (), install_token tok w'))) = aw_posts (snd m)"
    for m :: "(go_error + unit) \<times> auth_world"
    by (auto simp: install_token_def Let_def split: prod.split sum.split)
  then show ?thesis using storeFenced_unsent by (simp add: keeps_def unsent_def applyTokens_def Let_def)
qed

lemma loads_unsent: "keeps unsent loadFenced" "keeps unsent (RegisteredClient c)"
proof -
  show "keeps unsent loadFenced" unfolding loadFenced_def loadRefresh_def by (intro unsent_intros)
  have "keeps unsent loadStoredClient" unfolding loadStoredClient_def by (intro unsent_intros)
  moreover have "keeps unsent (\<lambda>w. case found of None \<Rightarrow> (Inr None, w) | Some data \<Rightarrow> (f data w, w))" for found f
    by (auto simp: keeps_def unsent_def split: option.split)
  ultimately show "keeps unsent (RegisteredClient c)"
    unfolding RegisteredClient_def
    by (intro unsent.keeps_bind) (auto simp: keeps_def unsent_def split: option.split)
qed

lemma invalidateCredential_unsent: "keeps unsent (invalidateCredential c g)"
  unfolding invalidateCredential_def Let_def by (intro unsent_intros loads_unsent)

text \<open>A handler that sends at most one request, and only a permitted one.\<close>

definition sends :: "(post \<Rightarrow> bool) \<Rightarrow> (auth_world \<Rightarrow> 'a \<times> auth_world) \<Rightarrow> bool" where
  "sends P m \<longleftrightarrow> (\<forall>w. aw_posts (snd (m w)) = aw_posts w \<or> (\<exists>p. P p \<and> aw_posts (snd (m w)) = aw_posts w @ [p]))"

lemma sends_unsent: "keeps unsent m \<Longrightarrow> sends P m"
  by (simp add: keeps_def unsent_def sends_def)

lemma sends_bind:
  assumes "keeps unsent m" "\<And>x. sends P (f x)"
  shows "sends P (io_bind m f)"
  unfolding sends_def
proof
  fix w
  obtain r w1 where m: "m w = (r, w1)" by fastforce
  then have "aw_posts w1 = aw_posts w" using keepsD [OF assms(1)] by (simp add: unsent_def)
  then show "aw_posts (snd (io_bind m f w)) = aw_posts w \<or> (\<exists>p. P p \<and> aw_posts (snd (io_bind m f w)) = aw_posts w @ [p])"
    using assms(2) m by (cases r) (simp_all add: io_bind_def sends_def, metis)
qed

lemma sends_or:
  assumes "sends P m" "\<And>e. keeps unsent (f e)" "\<And>x. keeps unsent (g x)"
  shows "sends P (io_or m f g)"
  unfolding sends_def
proof
  fix w
  obtain r w1 where m: "m w = (r, w1)" by fastforce
  then have "aw_posts (snd (io_or m f g w)) = aw_posts w1"
    using assms(2,3) by (cases r) (auto simp: io_or_def keeps_def unsent_def)
  then show "aw_posts (snd (io_or m f g w)) = aw_posts w \<or> (\<exists>p. P p \<and> aw_posts (snd (io_or m f g w)) = aw_posts w @ [p])"
    using assms(1) m unfolding sends_def by (metis snd_conv)
qed

lemma sends_finally: "sends P m \<Longrightarrow> keeps unsent g \<Longrightarrow> sends P (io_finally m g)"
  by (auto simp: sends_def io_finally_def keeps_def unsent_def split: prod.split)
    (metis snd_conv)+

lemma sends_fail: "sends P (\<lambda>w. (r, w))"
  by (simp add: sends_def)

text \<open>A token request that carries the resource, to a secure endpoint of the issuer.\<close>

definition to_issuer :: "oauth_client \<Rightarrow> post \<Rightarrow> bool" where
  "to_issuer c p \<longleftrightarrow> (\<exists>u. Parse (po_url p) = Inr u \<and> url_Host u \<noteq> [] \<and> checkSecureURL u = Inr ())
     \<and> endpointOrigin (po_url p) = endpointOrigin (oc_issuer c)
     \<and> row_at (po_form p) ''resource'' = Some (oc_endpoint c)
     \<and> row_at (po_form p) ''grant_type'' = Some ''refresh_token''"

lemma applyFormAuth_keeps:
  "applyFormAuth r form = Inr f \<Longrightarrow> n \<noteq> ''client_id'' \<Longrightarrow> n \<noteq> ''client_secret'' \<Longrightarrow> row_at f n = row_at form n"
  by (auto simp: applyFormAuth_def result_simps split: if_splits)

lemma postToken_sends:
  assumes "check_bindings c rec cred = Inr ()"
  shows "sends (to_issuer c) (postToken c (rc_TokenEndpoint cred) rec (refresh_form c cred))"
proof -
  have u: "\<exists>u. Parse (rc_TokenEndpoint cred) = Inr u \<and> url_Host u \<noteq> [] \<and> checkSecureURL u = Inr ()"
    "endpointOrigin (rc_TokenEndpoint cred) = endpointOrigin (oc_issuer c)"
    using assms by (auto simp: check_bindings_def checkIssuerBoundEndpoint_def result_simps split: sum.splits)
  have form: "to_issuer c \<lparr>po_url = rc_TokenEndpoint cred, po_form = f, po_json = None, po_basic = b\<rparr>"
    if "applyFormAuth rec (refresh_form c cred) = Inr f" for f b
    using u applyFormAuth_keeps [OF that] by (simp add: to_issuer_def refresh_form_def row_at_def)
  show ?thesis
    unfolding sends_def
  proof
    fix w
    let ?m = "postToken c (rc_TokenEndpoint cred) rec (refresh_form c cred)"
    show "aw_posts (snd (?m w)) = aw_posts w \<or> (\<exists>p. to_issuer c p \<and> aw_posts (snd (?m w)) = aw_posts w @ [p])"
    proof (cases "rbind (applyFormAuth rec (refresh_form c cred)) (\<lambda>f. rbind (applyHeaderAuth rec) (\<lambda>basic. Inr (f, basic)))")
      case (Inl e)
      then show ?thesis by (simp add: postToken_def)
    next
      case (Inr q)
      then obtain f b where "q = (f, b)" "applyFormAuth rec (refresh_form c cred) = Inr f" by (auto simp: result_simps)
      then show ?thesis using Inr form [of f b] by (auto simp: postToken_def send_post_def split: sum.split)
    qed
  qed
qed

lemma exchange_sends:
  assumes "check_bindings c rec (fc_credential f) = Inr ()"
  shows "sends (to_issuer c) (exchange_refresh fmt c rec f g)"
proof -
  have gate: "keeps unsent (commit_gate c g)"
    using unsent_calls(1) [of "\<lambda>e. CommitLease e refreshLeaseName (oc_owner c) g"]
    by (auto simp: keeps_def unsent_def commit_gate_def split: prod.split option.split) (metis snd_conv)+
  have persist: "keeps unsent (\<lambda>w. case checkBoundScope (rc_Scopes (fc_credential f)) (tr_Scope tok) of
      Inl err \<Rightarrow> (Inl err, w) | Inr _ \<Rightarrow> applyTokens fmt c f tok g w)" for tok
    using applyTokens_unsent by (auto simp: keeps_def unsent_def split: sum.split)
  have rest: "keeps unsent (io_bind (commit_gate c g) (\<lambda>_. io_bind (\<lambda>w. case checkBoundScope (rc_Scopes (fc_credential f)) (tr_Scope tok) of
      Inl err \<Rightarrow> (Inl err, w) | Inr _ \<Rightarrow> applyTokens fmt c f tok g w) (\<lambda>_. io_return tok)))" for tok
    by (intro unsent_intros gate persist)
  have "exchange_refresh fmt c rec f g = io_or (postToken c (rc_TokenEndpoint (fc_credential f)) rec (refresh_form c (fc_credential f)))
     (\<lambda>err w. (Inl (if aw_lost w (aw_calls w) then Errorf ''refresh lease lost during the token exchange'' [err] else err), w))
     (\<lambda>tok w. if aw_lost w (aw_calls w) then (Inl lease_lost, w)
        else io_bind (commit_gate c g) (\<lambda>_. io_bind (\<lambda>w. case checkBoundScope (rc_Scopes (fc_credential f)) (tr_Scope tok) of
      Inl err \<Rightarrow> (Inl err, w) | Inr _ \<Rightarrow> applyTokens fmt c f tok g w) (\<lambda>_. io_return tok)) w)"
    by (rule ext) (simp add: exchange_refresh_def leasedExchangeAndPersist_def io_or_def Let_def)
  then show ?thesis
    using sends_or [OF postToken_sends [OF assms], where
        f = "\<lambda>err w. (Inl (if aw_lost w (aw_calls w) then Errorf ''refresh lease lost during the token exchange'' [err] else err), w)"
        and g = "\<lambda>tok w. if aw_lost w (aw_calls w) then (Inl lease_lost, w)
        else io_bind (commit_gate c g) (\<lambda>_. io_bind (\<lambda>w. case checkBoundScope (rc_Scopes (fc_credential f)) (tr_Scope tok) of
      Inl err \<Rightarrow> (Inl err, w) | Inr _ \<Rightarrow> applyTokens fmt c f tok g w) (\<lambda>_. io_return tok)) w"] rest
    by (auto simp: keeps_def unsent_def)
qed

lemma refusal_unsent: "keeps unsent (after_refusal c g err :: auth_world \<Rightarrow> (go_error + 'a) \<times> auth_world)"
proof -
  have "keeps unsent (io_or (invalidateCredential c g) (\<lambda>e. io_fail (errors_Join [err, e])) (\<lambda>_. io_fail err)
      :: auth_world \<Rightarrow> (go_error + 'a) \<times> auth_world)"
    by (intro unsent_intros invalidateCredential_unsent)
  moreover have "aw_posts (clearToken w) = aw_posts w" for w by (simp add: clearToken_def)
  ultimately show ?thesis by (auto simp: keeps_def unsent_def after_refusal_def simp del: io_simps)
qed

lemma refresh_sends: "sends (to_issuer c) (refreshLocked fmt c)"
proof -
  have "sends (to_issuer c) (refresh_leased fmt c rec g)" for rec g
    unfolding refresh_leased_def
    by (intro sends_bind loads_unsent) (auto intro!: sends_or exchange_sends refusal_unsent unsent_intros
        intro: sends_unsent simp del: io_simps split: option.split sum.split)
  then have "sends (to_issuer c) (with_lease c busy (refresh_leased fmt c rec))" for busy rec
    unfolding with_lease_def by (intro sends_bind unsent.claimed)
      (auto intro!: sends_finally unsent_intros intro: sends_unsent simp del: io_simps split: option.split)
  then show ?thesis
    unfolding refreshLocked_def by (intro sends_bind loads_unsent)
      (auto intro!: sends_bind loads_unsent unsent_intros intro: sends_unsent simp del: io_simps split: option.split)
qed

text \<open>
  C28: A call for a token sends at most one request, and whatever other processes do to the database and
  the backend in between, that request is a refresh request naming the protected resource, to an
  absolute secure URL of the origin of the profile's issuer: a stored credential never sends the
  refresh token anywhere else. A token that is still valid is answered without a request.
\<close>

theorem token_sent_to_issuer:
  "aw_posts (snd (Token fmt c w)) = aw_posts w
    \<or> validToken w = None \<and> (\<exists>p. to_issuer c p \<and> aw_posts (snd (Token fmt c w)) = aw_posts w @ [p])"
  using refresh_sends [of c fmt] by (auto simp: Token_def sends_def split: option.split)

subsection \<open>The lifetime of a token\<close>

text \<open>
  Whatever lifetime the token endpoint names, a negative or a huge number of seconds included, the
  installed token has a positive lifetime that fits a duration, the early-refresh margin is not
  negative, at most a quarter of it and at most the fixed skew, so that a fresh token is valid at once.
\<close>

theorem token_lifetime_safe:
  "0 < token_lifetime n \<and> token_lifetime n \<le> max_int64
   \<and> validToken (install_token tok w) = Some (tr_AccessToken tok)
   \<and> 0 \<le> aw_skew (install_token tok w) \<and> aw_skew (install_token tok w) \<le> refreshSkew
   \<and> 4 * aw_skew (install_token tok w) \<le> token_lifetime (tr_ExpiresIn tok)"
proof -
  have l: "0 < token_lifetime k \<and> token_lifetime k \<le> max_int64 \<and> Second \<le> token_lifetime k" for k
  proof -
    have "token_lifetime k = (if k \<le> 0 then 300 else if k > maxTokenExpirySeconds then maxTokenExpirySeconds else k) * Second"
      by (auto simp: token_lifetime_def Let_def in_int64_def max_int64_def maxTokenExpirySeconds_def time_units)
    then show ?thesis by (auto simp: max_int64_def maxTokenExpirySeconds_def time_units)
  qed
  show ?thesis using l [of n] l [of "tr_ExpiresIn tok"]
    by (auto simp: install_token_def validToken_def Let_def refreshSkew_def time_units)
qed

subsection \<open>Logout\<close>

text \<open>Steps that bring nothing back: deleted secrets stay deleted, cleared pointers stay cleared.\<close>

definition forgets :: "auth_world \<Rightarrow> auth_world \<Rightarrow> bool" where
  "forgets w w' \<longleftrightarrow> (calm w \<longrightarrow> calm w'
     \<and> (\<forall>l. row_at (aw_secrets w) l = None \<longrightarrow> row_at (aw_secrets w') l = None)
     \<and> (\<forall>f. stream f \<longrightarrow> row_at (credential_fence (aw_db w')) f \<in> {None, row_at (credential_fence (aw_db w)) f}))"

interpretation forgets: stateful forgets
proof unfold_locales
  show "forgets w w" for w by (simp add: forgets_def)
  show "forgets w w' \<Longrightarrow> forgets w' w'' \<Longrightarrow> forgets w w''" for w w' w''
    unfolding forgets_def by (metis empty_iff insert_iff)
qed

lemma tidy_forgets: "tidy B w w' \<Longrightarrow> forgets w w'"
  by (auto simp: tidy_def forgets_def pointers_def stream_def) (metis option.distinct(1))+

lemma reads_only_forgets: "keeps reads_only m \<Longrightarrow> keeps forgets m"
  by (auto simp: keeps_def reads_only_def forgets_def)

lemma forgets_calls:
  "keeps forgets (DeleteSecret l)" "keeps forgets (state_call MarkRefreshCredentialInvalidated)"
  "keeps forgets (state_call ClearRefreshCredentialInvalidation)"
  "stream f \<Longrightarrow> keeps forgets (state_call (\<lambda>e. ClearCredentialFence e f n p g []))"
proof -
  show "keeps forgets (DeleteSecret l)"
    unfolding keeps_def using tidy_delete [of l "{l}"] tidy_forgets by (auto simp: keeps_def)
  show "keeps forgets (state_call MarkRefreshCredentialInvalidated)" "keeps forgets (state_call ClearRefreshCredentialInvalidation)"
    by (auto simp: keeps_def forgets_def state_call_def others_calm Let_def MarkRefreshCredentialInvalidated_def
        ClearRefreshCredentialInvalidation_def fence_exec_def stream_def pointer_names [THEN not_sym] pointer_names split: sum.split)
  show "stream f \<Longrightarrow> keeps forgets (state_call (\<lambda>e. ClearCredentialFence e f n p g []))"
    by (auto simp: keeps_def forgets_def state_call_def others_calm Let_def ClearCredentialFence_def stream_def
        pointer_names [THEN not_sym] pointer_names split: sum.split)
qed

lemma delete_committed_deletes:
  assumes "calm w" "delete_committed f w = (Inr (), w')"
  shows "calm w' \<and> credential_fence (aw_db w') = credential_fence (aw_db w)
     \<and> (\<forall>row. row_at (credential_fence (aw_db w)) f = Some row \<longrightarrow> f_slot row \<noteq> [] \<longrightarrow> row_at (aw_secrets w') (f_slot row) = None)"
proof -
  obtain p w1 where r: "state_read (\<lambda>e. ReadCredentialFence e f) w = (Inr p, w1)"
    and d: "(case p of Some (_, slot) \<Rightarrow> if slot \<noteq> [] then io_map_error backend_down (DeleteSecret slot) else io_return ()
        | None \<Rightarrow> io_return ()) w1 = (Inr (), w')"
    using assms(2) unfolding delete_committed_def io_bind_Inr io_map_error_Inr by blast
  have "calm w1" "credential_fence (aw_db w1) = credential_fence (aw_db w)"
    "p = map_option (\<lambda>row. (f_generation row, f_slot row)) (row_at (credential_fence (aw_db w)) f)"
    using r assms(1) by (auto simp: state_read_def state_call_def others_calm Let_def ReadCredentialFence_def result_simps split: option.splits)
  with d show ?thesis
    by (cases "row_at (credential_fence (aw_db w)) f")
      (auto simp: io_map_error_Inr DeleteSecret_def others_calm Let_def split: if_splits backend.splits)
qed

lemma clear_pointer_clears:
  assumes "stream f" "calm w" "clear_pointer c g f w = (Inr (), w')"
  shows "calm w' \<and> row_at (credential_fence (aw_db w')) f = None
     \<and> (\<forall>f'. stream f' \<and> f' \<noteq> f \<longrightarrow> row_at (credential_fence (aw_db w')) f' = row_at (credential_fence (aw_db w)) f')"
  using assms(3) clear_clears [OF assms(1,2)]
  by (auto simp: clear_pointer_def io_bind_Inr io_map_error_Inr split: if_splits)

lemma retireFailedSlots_forgets: "keeps forgets retireFailedSlots"
  unfolding keeps_def using tidy_forgets [OF retireFailedSlots_tidy] by (metis forgets_def)

lemma logout_steps_forget:
  "keeps forgets (delete_committed f)" "stream f \<Longrightarrow> keeps forgets (clear_pointer c g f)"
proof -
  show "keeps forgets (delete_committed f)" unfolding delete_committed_def
    by (auto intro!: forgets.keeps_rules forgets_calls reads_only_forgets [OF reads_only_calls(1)] simp del: io_simps split: prod.split)
  show "stream f \<Longrightarrow> keeps forgets (clear_pointer c g f)"
    unfolding clear_pointer_def by (intro forgets.keeps_rules forgets_calls)
qed

text \<open>What is left when the logout under the lease succeeds.\<close>

definition logged_out :: "auth_world \<Rightarrow> auth_world \<Rightarrow> bool" where
  "logged_out w w' \<longleftrightarrow> calm w' \<and> row_at (aw_secrets w') labelClient = None \<and> row_at (aw_secrets w') labelRefresh = None
     \<and> (\<forall>f. stream f \<longrightarrow> row_at (credential_fence (aw_db w')) f = None
         \<and> (\<forall>row. row_at (credential_fence (aw_db w)) f = Some row \<longrightarrow> f_slot row \<noteq> [] \<longrightarrow> row_at (aw_secrets w') (f_slot row) = None))"

lemma logged_out_forgets: "logged_out w w' \<Longrightarrow> forgets w' w'' \<Longrightarrow> logged_out w w''"
  unfolding logged_out_def forgets_def by (metis insertE singletonD)

lemma drop_label:
  assumes "calm w" "io_map_error backend_down (DeleteSecret l) w = (Inr (), w')"
  shows "calm w' \<and> row_at (aw_secrets w') l = None"
  using assms by (auto simp: io_map_error_Inr DeleteSecret_def others_calm Let_def split: backend.splits)

lemma forgets_None:
  assumes "forgets w w'" "calm w"
  shows "calm w'" "row_at (aw_secrets w) l = None \<Longrightarrow> row_at (aw_secrets w') l = None"
    "stream f \<Longrightarrow> row_at (credential_fence (aw_db w)) f = None \<Longrightarrow> row_at (credential_fence (aw_db w')) f = None"
  using assms by (auto simp: forgets_def)

lemma logout_leased_out:
  assumes "calm w" "logout_leased c g w = (Inr (), w')"
  shows "logged_out w w' \<and> \<not> aw_hasToken w'"
proof -
  let ?dc = "delete_committed" and ?cp = "clear_pointer c g"
  let ?mark = "io_map_error backend_down (state_call MarkRefreshCredentialInvalidated)"
  obtain w1 w2 w3 w4 w5 w6 w7 where
    s1: "?dc RefreshFenceName w = (Inr (), w1)" and s2: "?mark w1 = (Inr (), w2)" and s3: "?cp RefreshFenceName w2 = (Inr (), w3)"
    and s4: "?dc ClientFenceName w3 = (Inr (), w4)" and s5: "?cp ClientFenceName w4 = (Inr (), w5)"
    and s6: "io_map_error backend_down (DeleteSecret labelClient) w5 = (Inr (), w6)"
    and s7: "io_map_error backend_down (DeleteSecret labelRefresh) w6 = (Inr (), w7)"
    and s8: "w' = clearToken (snd (retireFailedSlots (snd (state_call ClearRefreshCredentialInvalidation w7))))"
    using assms(2) unfolding logout_leased_def io_bind_Inr io_then_def by auto
  note f1 = keepsD [OF logout_steps_forget(1) s1] and f4 = keepsD [OF logout_steps_forget(1) s4]
  note f2 = keepsD [OF forgets.keeps_map_error [OF forgets_calls(2)] s2]
  note f3 = keepsD [OF logout_steps_forget(2) [OF stream_names(1)] s3] and f5 = keepsD [OF logout_steps_forget(2) [OF stream_names(2)] s5]
  note f6 = keepsD [OF forgets.keeps_map_error [OF forgets_calls(1)] s6] and f7 = keepsD [OF forgets.keeps_map_error [OF forgets_calls(1)] s7]
  have f47: "forgets w4 w7" and f37: "forgets w3 w7" and f17: "forgets w1 w7"
    using f2 f3 f4 f5 f6 f7 forgets.R_trans by blast+
  note c1 = delete_committed_deletes [OF assms(1) s1]
  note c2 = mark_marks [OF conjunct1 [OF c1], OF iffD1 [OF io_map_error_Inr s2]]
  note c3 = clear_pointer_clears [OF stream_names(1) conjunct1 [OF c2] s3]
  note c4 = delete_committed_deletes [OF conjunct1 [OF c3] s4]
  note c5 = clear_pointer_clears [OF stream_names(2) conjunct1 [OF c4] s5]
  note c6 = drop_label [OF conjunct1 [OF c5] s6]
  note c7 = drop_label [OF conjunct1 [OF c6] s7]
  have client: "row_at (credential_fence (aw_db w3)) ClientFenceName = row_at (credential_fence (aw_db w)) ClientFenceName"
    using c1 c2 c3 pointer_names(6) by auto
  have gone: "row_at (credential_fence (aw_db w7)) f = None
      \<and> (\<forall>row. row_at (credential_fence (aw_db w)) f = Some row \<longrightarrow> f_slot row \<noteq> [] \<longrightarrow> row_at (aw_secrets w7) (f_slot row) = None)"
    if "stream f" for f
  proof (cases "f = RefreshFenceName")
    case True
    then show ?thesis using c1 c3 forgets_None [OF f17] forgets_None [OF f37] by auto
  next
    case False
    then have "f = ClientFenceName" using that by (simp add: stream_def)
    then show ?thesis using c4 c5 client forgets_None [OF f47] forgets_None [OF f6] forgets_None [OF f7] by auto
  qed
  have "logged_out w w7" using gone c7 conjunct2 [OF c6] forgets_None(2) [OF f7 conjunct1 [OF c6]] by (simp add: logged_out_def)
  moreover have "forgets w7 (snd (retireFailedSlots (snd (state_call ClearRefreshCredentialInvalidation w7))))"
    using forgets_calls(3) retireFailedSlots_forgets forgets.R_trans unfolding keeps_def by blast
  ultimately have "logged_out w (snd (retireFailedSlots (snd (state_call ClearRefreshCredentialInvalidation w7))))"
    by (rule logged_out_forgets)
  then show ?thesis by (simp add: s8 logged_out_def clearToken_def calm_def)
qed

text \<open>
  C29: After a successful logout nothing of the identity is left, while no other process intervenes:
  neither fence points at a slot, the slots they pointed at and both legacy labels are deleted in the
  backend, no grant can be loaded, and no access token is served from memory.
\<close>

theorem logout_leaves_nothing:
  assumes "calm w" "Logout c w = (Inr (), w')"
  shows "logged_out w w' \<and> live w' = None \<and> validToken w' = None"
proof -
  obtain g w1 where cl: "claimRefreshLease c w = (Inr (Some g), w1)"
    and body: "io_finally (logout_leased c g) (state_call (\<lambda>e. ReleaseLease e refreshLeaseName (oc_owner c))) w1 = (Inr (), w')"
    using assms(2) by (auto simp: Logout_def with_lease_def io_bind_Inr split: option.splits)
  have w1: "calm w1" "credential_fence (aw_db w1) = credential_fence (aw_db w)"
    using keepsD [OF reads_only.claimed cl] assms(1) by (auto simp: reads_only_def)
  obtain w2 where l: "logout_leased c g w1 = (Inr (), w2)" and w': "w' = snd (state_call (\<lambda>e. ReleaseLease e refreshLeaseName (oc_owner c)) w2)"
    using body by (auto simp: io_finally_def split: prod.splits)
  from logout_leased_out [OF w1(1) l] have out: "logged_out w w2" "\<not> aw_hasToken w2" using w1(2) by (auto simp: logged_out_def)
  have "forgets w2 w'" using reads_only_forgets [OF reads_only_calls(5)] by (simp add: keeps_def w')
  then have "logged_out w w'" by (rule logged_out_forgets [OF out(1)])
  moreover have "\<not> aw_hasToken w'" using out(2) by (simp add: w' state_call_def others_def Let_def)
  ultimately show ?thesis by (auto simp: logged_out_def live_def live_slot_def validToken_def)
qed

lemma demo_logout: "fst (Logout demo_oauth demo_auth) = Inr ()"
proof -
  let ?once = "claim_once demo_oauth" and ?w1 = "snd (claim_once demo_oauth demo_auth)"
  let ?m1 = "delete_committed RefreshFenceName" and ?m2 = "io_map_error backend_down (state_call MarkRefreshCredentialInvalidated)"
  let ?m3 = "clear_pointer demo_oauth 4 RefreshFenceName" and ?m4 = "delete_committed ClientFenceName"
  let ?m5 = "clear_pointer demo_oauth 4 ClientFenceName" and ?m6 = "io_map_error backend_down (DeleteSecret labelClient)"
  let ?m7 = "io_map_error backend_down (DeleteSecret labelRefresh)"
  let ?w2 = "snd (?m1 ?w1)" let ?w3 = "snd (?m2 ?w2)" let ?w4 = "snd (?m3 ?w3)" let ?w5 = "snd (?m4 ?w4)" let ?w6 = "snd (?m5 ?w5)"
  have c: "fst (?once demo_auth) = Inr (Some 4)" by code_simp
  have s1: "fst (?m1 ?w1) = Inr ()" by code_simp
  have s2: "fst (?m2 ?w2) = Inr ()" by code_simp
  have s3: "fst (?m3 ?w3) = Inr ()" by code_simp
  have s4: "fst (?m4 ?w4) = Inr ()" by code_simp
  have s5: "fst (?m5 ?w5) = Inr ()" by code_simp
  have s6: "fst (?m6 ?w6) = Inr ()" by code_simp
  have s7: "fst (?m7 (snd (?m6 ?w6))) = Inr ()" by code_simp
  have "fst (claimRefreshLease demo_oauth demo_auth) = Inr (Some 4)" "snd (claimRefreshLease demo_oauth demo_auth) = ?w1"
    unfolding claimRefreshLease_def io_run(2) [where m = ?once, OF c] by simp_all
  note claimed = io_run(2) [where m = "claimRefreshLease demo_oauth", OF this(1)] this(2)
  have "fst (logout_leased demo_oauth 4 ?w1) = Inr ()"
    unfolding logout_leased_def io_then_def io_run(2) [where m = ?m1, OF s1] io_run(2) [where m = ?m2, OF s2] io_run(2) [where m = ?m3, OF s3]
      io_run(2) [where m = ?m4, OF s4] io_run(2) [where m = ?m5, OF s5] io_run(2) [where m = ?m6, OF s6] io_run(2) [where m = ?m7, OF s7] by simp
  then show ?thesis unfolding Logout_def with_lease_def claimed by (simp add: io_finally_def split: prod.split) (metis fst_conv)
qed

theorem logout_leaves_nothing_witness:
  "fst (Logout demo_oauth demo_auth) = Inr () \<and> live demo_auth \<noteq> None \<and> live (snd (Logout demo_oauth demo_auth)) = None"
proof -
  have "Logout demo_oauth demo_auth = (Inr (), snd (Logout demo_oauth demo_auth))"
    using demo_logout by (simp add: prod_eq_iff)
  moreover have "live demo_auth \<noteq> None" by code_simp
  ultimately show ?thesis using logout_leaves_nothing [OF demo_calm] demo_logout by blast
qed

end
