(* ===== verification/Templates.thy ===== *)
theory Templates
  imports Adapter Profile
begin

text \<open>
  The reviewed profile templates (\<open>internal/adapter/tama2026\<close>: \<open>template.go\<close>, \<open>template_app.go\<close>,
  \<open>template_schema.go\<close>, \<open>template_system.go\<close>): their schema documents, \<open>Lookup\<close> and \<open>Materialize\<close>. A Go
  map that is encoded is a table put in key order by \<open>raw\<close>.
\<close>

section \<open>Definitions\<close>

subsection \<open>Schema documents\<close>

definition raw :: "(string, json) table \<Rightarrow> json" where
  "raw m = marshal_map (Some m)"

definition objectSchema :: "bool \<Rightarrow> string list \<Rightarrow> (string, json) table \<Rightarrow> (string, json) table" where
  "objectSchema additional required properties =
     [(''type'', JStr ''object''), (''additionalProperties'', JBool additional), (''properties'', raw properties)]
     @ (if required \<noteq> [] then [(''required'', JArr (map JStr required))] else [])"

definition stringField :: "string \<Rightarrow> int \<Rightarrow> int \<Rightarrow> json" where
  "stringField description minLength maxLength = raw
     ([(''type'', JStr ''string'')]
      @ (if description \<noteq> [] then [(''description'', JStr description)] else [])
      @ (if minLength > 0 then [(''minLength'', JNum (format_int minLength))] else [])
      @ (if maxLength > 0 then [(''maxLength'', JNum (format_int maxLength))] else []))"

definition integerField :: "string \<Rightarrow> json" where
  "integerField description = raw [(''type'', JStr ''integer''), (''description'', JStr description)]"

definition type_prop :: "string \<Rightarrow> json" where
  "type_prop t = raw [(''type'', JStr t)]"

definition stringProp :: json where
  "stringProp = type_prop ''string''"

definition objectProp :: json where
  "objectProp = type_prop ''object''"

definition boolProp :: json where
  "boolProp = type_prop ''boolean''"

definition objectArrayProp :: json where
  "objectArrayProp = raw [(''type'', JStr ''array''), (''items'', objectProp)]"

definition stringArrayProp :: json where
  "stringArrayProp = raw [(''type'', JStr ''array''), (''items'', stringProp)]"

definition nullableObject :: json where
  "nullableObject = raw [(''anyOf'', JArr [objectProp, type_prop ''null''])]"

definition variantOutput :: "string list \<Rightarrow> (string, json) table \<Rightarrow> json" where
  "variantOutput successRequired successProps =
     (let success = raw (objectSchema True successRequired successProps);
          failure = raw (objectSchema False [''schema_version'', ''error'']
            [(''schema_version'', stringProp), (''error'', objectProp)])
      in raw [(''anyOf'', JArr [success, failure])])"

definition readOnlyAnnotations :: json where
  "readOnlyAnnotations = raw [(''readOnlyHint'', JBool True), (''destructiveHint'', JBool False),
     (''idempotentHint'', JBool True), (''openWorldHint'', JBool False)]"

definition messageAnnotations :: json where
  "messageAnnotations = raw [(''readOnlyHint'', JBool False), (''destructiveHint'', JBool False),
     (''idempotentHint'', JBool False), (''openWorldHint'', JBool True)]"

subsection \<open>Templates\<close>

record Template =
  tm_ID :: string
  tm_Kind :: profile_kind
  tm_Label :: string
  tm_Instructions :: string
  tm_ProtocolMin :: string
  tm_ProtocolMax :: string
  tm_Scopes :: "string list"
  tm_Operations :: "Descriptor list"
  tm_RequiresTasks :: bool

definition TaskSupportRequired :: string where
  "TaskSupportRequired = ''required''"

definition TaskSupportForbidden :: string where
  "TaskSupportForbidden = ''forbidden''"

definition DefaultName :: "profile_kind \<Rightarrow> string" where
  "DefaultName k = (case k of KindSystem \<Rightarrow> ''tama-system'' | KindApp \<Rightarrow> ''tama-app'')"

definition appInstructions :: string where
  "appInstructions = ''Tama MCP app server for submitting messages to configured reasoning recipients. The caller selects the recipient and supplies the public thread identifier; Tama derives the actor from the validated OAuth subject.''"

definition app_recipient :: json where
  "app_recipient = stringField ''Configured reasoning recipient selected by the caller'' 1 128"

definition app_content :: json where
  "app_content = stringField ''Message content to submit; maximum 32768 UTF-8 bytes'' 1 0"

definition app_thread :: json where
  "app_thread = raw (put_row ''description'' (JStr ''Caller-owned conversation identity'')
     (objectSchema False [''identifier'']
        [(''identifier'', stringField ''Stable public thread identifier from the caller; maximum 256 UTF-8 bytes'' 1 256)]))"

definition app_input :: json where
  "app_input = raw (objectSchema False [''recipient'', ''identifier'', ''content'', ''thread'']
     [(''recipient'', app_recipient),
      (''identifier'', stringField ''Stable message identifier from the caller; maximum 256 UTF-8 bytes'' 1 256),
      (''content'', app_content), (''thread'', app_thread)])"

definition app_client :: json where
  "app_client = raw (objectSchema False [''recipient'', ''content'']
     [(''recipient'', app_recipient), (''content'', app_content)])"

definition app_output :: json where
  "app_output = variantOutput [''schema_version'', ''id'', ''identifier'', ''status'', ''result'', ''text'', ''error'']
     [(''schema_version'', stringProp), (''id'', stringProp), (''identifier'', stringProp),
      (''status'', raw [(''type'', JStr ''string''), (''enum'', JArr [JStr ''completed'', JStr ''failed''])]),
      (''result'', nullableObject), (''text'', stringProp), (''error'', nullableObject)]"

definition appTemplate :: Template where
  "appTemplate =
     \<lparr>tm_ID = ''app'', tm_Kind = KindApp, tm_Label = ''App messaging (mcp.message)'', tm_Instructions = appInstructions,
      tm_ProtocolMin = wireVersion, tm_ProtocolMax = wireVersion, tm_Scopes = [''mcp.message''],
      tm_Operations =
        [\<lparr>d_Name = ''message'', d_Title = ''Message'',
          d_Description = ''Submits a message to one configured Tama reasoning recipient.'',
          d_InputSchema = Some app_input, d_ClientSchema = Some app_client, d_OutputSchema = Some app_output,
          d_Annotations = Some messageAnnotations, d_TaskSupport = TaskSupportRequired,
          d_Bindings =
            [\<lparr>b_Source = SourceClientRequestID, b_Target = ''/identifier'', b_Required = True\<rparr>,
             \<lparr>b_Source = SourceClientContextThreadID, b_Target = ''/thread/identifier'', b_Required = True\<rparr>],
          d_Strategy = StrategyUpstreamTask, d_Digest = []\<rparr>],
      tm_RequiresTasks = True\<rparr>"

definition systemInstructions :: string where
  "systemInstructions = ''Tama MCP server for bounded inspection of thread-backed execution history and Reflection review workflow. Inspection tools never modify execution history. reflection.comments.review only moves an authorized Reflection comment from open to pending review; it does not alter Steps, Concepts, ContextSnapshots, Flows, or thread history.''"

definition inspection :: "string \<Rightarrow> string \<Rightarrow> string \<Rightarrow> json \<Rightarrow> json \<Rightarrow> string \<Rightarrow> json \<Rightarrow> Descriptor" where
  "inspection name title description input output strategy annotations =
     \<lparr>d_Name = name, d_Title = title, d_Description = description, d_InputSchema = Some input, d_ClientSchema = None,
      d_OutputSchema = Some output, d_Annotations = Some annotations, d_TaskSupport = TaskSupportForbidden,
      d_Bindings = [], d_Strategy = strategy, d_Digest = []\<rparr>"

definition openInput :: "string list \<Rightarrow> (string, json) table \<Rightarrow> json" where
  "openInput required properties = raw (objectSchema True required properties)"

definition aboutOutput :: json where
  "aboutOutput = variantOutput
     [''schema_version'', ''server_name'', ''app_revision'', ''supported_mcp_versions'', ''read_only'',
      ''execution_history_read_only'', ''reflection_review_enabled'']
     [(''schema_version'', stringProp), (''server_name'', stringProp), (''app_revision'', stringProp),
      (''supported_mcp_versions'', stringArrayProp), (''read_only'', boolProp),
      (''execution_history_read_only'', boolProp), (''reflection_review_enabled'', boolProp)]"

definition server_about :: Descriptor where
  "server_about = inspection ''server.about'' ''About''
     ''Returns non-sensitive Tama server identity and protocol metadata without inspecting graph, runtime, configuration, content, or tenant data.''
     (raw (objectSchema False [] [])) aboutOutput StrategyLocalReplayable readOnlyAnnotations"

definition thread_get :: Descriptor where
  "thread_get = inspection ''thread.get'' ''Get Thread''
     ''Returns a bounded page of messages and flow pointers for one Tama thread.''
     (openInput [''thread_id'']
        [(''thread_id'', stringField ''Thread UUID'' 0 0),
         (''after'', stringField ''Message UUID cursor from a previous response'' 0 0),
         (''limit'', integerField ''Page size from 1 to 100'')])
     (variantOutput [''schema_version'', ''thread'', ''messages'', ''page'']
        [(''schema_version'', stringProp), (''thread'', objectProp), (''messages'', objectArrayProp), (''page'', objectProp)])
     StrategyLocalReplayable readOnlyAnnotations"

definition thread_steps_list :: Descriptor where
  "thread_steps_list = inspection ''thread.steps.list'' ''List Thread Steps''
     ''Lists bounded step pointers in a thread, optionally filtered by exact thought relation.''
     (openInput [''thread_id'']
        [(''thread_id'', stringField ''Thread UUID'' 0 0),
         (''relation'', stringField ''Exact thought relation such as search-tooling'' 0 0),
         (''message_entity_id'', stringField ''Optional message entity UUID'' 0 0),
         (''flow_id'', stringField ''Optional flow UUID'' 0 0),
         (''after'', stringField ''Step UUID cursor from a previous response'' 0 0),
         (''limit'', integerField ''Page size from 1 to 100'')])
     (variantOutput [''schema_version'', ''thread_id'', ''steps'', ''page'']
        [(''schema_version'', stringProp), (''thread_id'', stringProp), (''steps'', objectArrayProp), (''page'', objectProp)])
     StrategyLocalReplayable readOnlyAnnotations"

definition flow_get :: Descriptor where
  "flow_get = inspection ''flow.get'' ''Get Flow''
     ''Returns a thread-backed flow and a bounded page of its step pointers.''
     (openInput [''flow_id'']
        [(''flow_id'', stringField ''Flow UUID'' 0 0),
         (''after'', stringField ''Step UUID cursor from a previous response'' 0 0),
         (''limit'', integerField ''Page size from 1 to 100'')])
     (variantOutput [''schema_version'', ''flow'', ''thread'', ''origin_message'', ''branches_in_page'', ''steps'', ''page'']
        [(''schema_version'', stringProp), (''flow'', objectProp), (''thread'', objectProp), (''origin_message'', objectProp),
         (''branches_in_page'', objectArrayProp), (''steps'', objectArrayProp), (''page'', objectProp)])
     StrategyLocalReplayable readOnlyAnnotations"

definition step_get :: Descriptor where
  "step_get = inspection ''step.get'' ''Get Step''
     ''Returns persisted diagnostic content for one exact thread-backed step.''
     (openInput [''step_id'']
        [(''step_id'', stringField ''Step UUID'' 0 0),
         (''concept_after'', stringField ''Concept UUID cursor from a previous response'' 0 0),
         (''context_after'', stringField ''Context UUID cursor from a previous response'' 0 0),
         (''event_after'', stringField ''Step event UUID cursor from a previous response'' 0 0),
         (''limit'', integerField ''Per-collection page size from 1 to 100'')])
     (variantOutput
        [''schema_version'', ''step'', ''ancestry'', ''generation'', ''toolset'',
         ''concepts'', ''contexts'', ''events'', ''concepts_page'', ''contexts_page'', ''events_page'']
        [(''schema_version'', stringProp), (''step'', objectProp), (''ancestry'', objectProp), (''generation'', objectProp),
         (''toolset'', objectProp), (''concepts'', objectArrayProp), (''contexts'', objectArrayProp), (''events'', objectArrayProp),
         (''concepts_page'', objectProp), (''contexts_page'', objectProp), (''events_page'', objectProp)])
     StrategyLocalReplayable readOnlyAnnotations"

definition artifact_get :: Descriptor where
  "artifact_get = inspection ''artifact.get'' ''Get Artifact''
     ''Returns a bounded UTF-8 chunk of a large artifact referenced by another inspection tool.''
     (openInput [''ref'']
        [(''ref'', stringField ''Opaque artifact reference'' 0 0),
         (''after'', stringField ''Opaque chunk cursor from a previous response'' 0 0),
         (''max_bytes'', integerField ''Chunk size from 1 to 131072 bytes'')])
     (variantOutput [''schema_version'', ''artifact'', ''page'']
        [(''schema_version'', stringProp), (''artifact'', objectProp), (''page'', objectProp)])
     StrategyLocalReplayable readOnlyAnnotations"

definition reflection_comments_list :: Descriptor where
  "reflection_comments_list = inspection ''reflection.comments.list'' ''List Reflection Comments''
     ''Lists bounded Reflection comments with complete thread-backed trace pointers.''
     (openInput []
        [(''state'', stringField ''Comment state: open, pending_review, or resolved'' 0 0),
         (''thread_id'', stringField ''Optional thread UUID filter'' 0 0),
         (''step_id'', stringField ''Optional Step UUID filter'' 0 0),
         (''reference_type'', stringField ''Optional reference filter: step, context, output, or combined'' 0 0),
         (''after'', stringField ''Comment UUID cursor from a previous response'' 0 0),
         (''limit'', integerField ''Page size from 1 to 100'')])
     (variantOutput [''schema_version'', ''comments'', ''page'']
        [(''schema_version'', stringProp), (''comments'', objectArrayProp), (''page'', objectProp)])
     StrategyLocalReplayable readOnlyAnnotations"

definition systemTemplate :: Template where
  "systemTemplate =
     \<lparr>tm_ID = ''system-read'', tm_Kind = KindSystem,
      tm_Label = ''System inspection (mcp.server.read, mcp.thread.read, mcp.reflection.read)'',
      tm_Instructions = systemInstructions, tm_ProtocolMin = wireVersion, tm_ProtocolMax = wireVersion,
      tm_Scopes = [''mcp.server.read'', ''mcp.thread.read'', ''mcp.reflection.read''],
      tm_Operations = [server_about, thread_get, thread_steps_list, flow_get, step_get, artifact_get, reflection_comments_list],
      tm_RequiresTasks = False\<rparr>"

subsection \<open>Lookup\<close>

definition lookup_operation :: "dialect \<Rightarrow> (string \<Rightarrow> string) \<Rightarrow> Descriptor \<Rightarrow> go_error + Descriptor" where
  "lookup_operation dx sha256 d =
     map_error (\<lambda>e. Errorf (''template descriptor '' @ d_Name d) [e])
       (rbind (ComputeDigest sha256 d) (\<lambda>digest.
        rbind (Descriptor_Validate dx sha256 (d\<lparr>d_Digest := digest\<rparr>)) (\<lambda>_. Inr (d\<lparr>d_Digest := digest\<rparr>))))"

fun lookup_operations :: "dialect \<Rightarrow> (string \<Rightarrow> string) \<Rightarrow> Descriptor list \<Rightarrow> go_error + Descriptor list" where
  "lookup_operations dx sha256 [] = Inr []"
| "lookup_operations dx sha256 (d # ds) =
     rbind (lookup_operation dx sha256 d) (\<lambda>d'. rbind (lookup_operations dx sha256 ds) (\<lambda>ds'. Inr (d' # ds')))"

definition Lookup :: "dialect \<Rightarrow> (string \<Rightarrow> string) \<Rightarrow> profile_kind \<Rightarrow> go_error + Template" where
  "Lookup dx sha256 k =
     (let tmpl = (case k of KindApp \<Rightarrow> appTemplate | KindSystem \<Rightarrow> systemTemplate) in
      rbind (map_error (\<lambda>e. Errorf (''template '' @ tm_ID tmpl @ '' scopes'') [e]) (CanonicalScopes (tm_Scopes tmpl))) (\<lambda>scopes.
      rbind (lookup_operations dx sha256 (tm_Operations tmpl)) (\<lambda>ops.
      rbind (ensure (tm_ProtocolMin tmpl \<le> wireVersion \<and> wireVersion \<le> tm_ProtocolMax tmpl)
               (errors_New ''template does not cover the protocol'')) (\<lambda>_.
      Inr (tmpl\<lparr>tm_Scopes := scopes, tm_Operations := ops\<rparr>)))))"

subsection \<open>Materialize\<close>

text \<open>A \<open>nil\<close> entry of the live list is \<open>None\<close>.\<close>

fun live_by_name :: "UpstreamTool option list \<Rightarrow> string list \<Rightarrow> go_error + UpstreamTool list" where
  "live_by_name [] seen = Inr []"
| "live_by_name (t # ts) seen =
     (case t of
        None \<Rightarrow> Inl (protocol_mismatch ''live catalog contains an unnamed tool'')
      | Some tool \<Rightarrow>
          if ut_Name tool = [] then Inl (protocol_mismatch ''live catalog contains an unnamed tool'')
          else if ut_Name tool \<in> set seen then Inl (protocol_mismatch ''live catalog repeats a tool'')
          else rbind (live_by_name ts (ut_Name tool # seen)) (\<lambda>rest. Inr (tool # rest)))"

fun materialize_operations :: "UpstreamTool list \<Rightarrow> Descriptor list \<Rightarrow> go_error + Descriptor list" where
  "materialize_operations live [] = Inr []"
| "materialize_operations live (d # ds) =
     (case find (\<lambda>t. ut_Name t = d_Name d) live of
        None \<Rightarrow> Inl (catalog_mismatch ''approved tool is not live'')
      | Some tool \<Rightarrow>
          rbind (ensure (Drift d (normalizeLive tool d) = [])
                   (catalog_mismatch (''tool drifted on '' @ joinDrift (Drift d (normalizeLive tool d))))) (\<lambda>_.
          rbind (materialize_operations live ds) (\<lambda>ds'. Inr (d # ds'))))"

definition Materialize ::
    "Template \<Rightarrow> DiscoverResult option \<Rightarrow> UpstreamTool option list \<Rightarrow> go_error + Descriptor list" where
  "Materialize t disc live =
     (case disc of
        None \<Rightarrow> Inl (errors_New ''discover result is required'')
      | Some dr \<Rightarrow>
          rbind (ensure (wireVersion \<in> set (dr_SupportedVersions dr)) (protocol_mismatch ''server does not support the protocol'')) (\<lambda>_.
          rbind (map_error (\<lambda>e. Errorf [] [Sentinel ErrProtocolMismatch, e]) (decodeCapabilities (dr_Capabilities dr))) (\<lambda>_.
          rbind (ensure (tm_RequiresTasks t \<longrightarrow> HasTaskExtension dr) (catalog_mismatch ''template requires the tasks extension'')) (\<lambda>_.
          rbind (ensure (tm_Instructions t = dr_Instructions dr)
                   (catalog_mismatch ''live instructions do not match the reviewed template'')) (\<lambda>_.
          rbind (live_by_name live []) (\<lambda>byName.
          materialize_operations byName (tm_Operations t)))))))"

section \<open>Lemmas\<close>

subsection \<open>The length of an encoding\<close>

lemma escape_length: "length (escape s) \<le> 6 * length s"
proof (induction s rule: length_induct)
  case (1 s)
  show ?case
  proof (cases s)
    case (Cons c cs)
    let ?n = "utf8_len (map byte_of (c # cs))"
    have ascii: "length (escape_ascii c) \<le> 6" by (simp add: escape_ascii_def Let_def)
    have tail: "length (escape cs) \<le> 6 * length cs" using 1 Cons by simp
    have split: "length (take ?n (c # cs)) + length (drop ?n (c # cs)) = Suc (length cs)"
      by (simp del: utf8_len.simps)
    have less: "length (drop ?n (c # cs)) \<le> length cs" if "?n \<noteq> 0" using that by (simp del: drop_Cons' utf8_len.simps)
    then have drop: "length (escape (drop ?n (c # cs))) \<le> 6 * length (drop ?n (c # cs))" if "?n \<noteq> 0"
      using 1 Cons that by (metis le_imp_less_Suc length_Cons)
    consider "byte_of c < 0x80" | "\<not> byte_of c < 0x80" "?n = 0" | "\<not> byte_of c < 0x80" "?n \<noteq> 0" by blast
    then show ?thesis
    proof cases
      case 3
      then have "length (escape (c # cs)) = 6 + length (escape (drop ?n (c # cs)))
          \<or> length (escape (c # cs)) = length (take ?n (c # cs)) + length (escape (drop ?n (c # cs)))"
        by (simp add: escape.simps(2) Let_def del: drop_Cons' take_Cons' utf8_len.simps length_take length_drop)
      moreover have "x \<le> 6 * Suc n" if "x = 6 + e \<or> x = t + e" "e \<le> 6 * d" "t + d = Suc n" "d \<le> n" for x e t d n :: nat
        using that by (elim disjE) simp_all
      ultimately show ?thesis unfolding Cons length_Cons using drop [OF 3(2)] split less [OF 3(2)] by blast
    qed (use ascii tail Cons in \<open>simp_all add: escape.simps(2) Let_def del: utf8_len.simps\<close>)
  qed (simp add: escape.simps)
qed

text \<open>A bound that is cheap to compute.\<close>

fun enc_bound :: "json \<Rightarrow> int" where
  "enc_bound JNull = 4"
| "enc_bound (JBool b) = 5"
| "enc_bound (JNum s) = int (length s)"
| "enc_bound (JStr s) = 6 * int (length s) + 2"
| "enc_bound (JArr vs) = 2 + sum_list (map (\<lambda>v. enc_bound v + 1) vs)"
| "enc_bound (JObj ms) = 2 + sum_list (map (\<lambda>m. 6 * int (length (fst m)) + enc_bound (snd m) + 4) ms)"

lemma quote_length: "int (length (quote s)) \<le> 6 * int (length s) + 2"
  using escape_length [of s] by (simp add: quote_def)

lemma join_length: "int (length (join '','' xs)) \<le> sum_list (map (\<lambda>x. int (length x) + 1) xs)"
  by (induction "'',''" xs rule: join.induct) simp_all

lemma encode_length: "int (length (encode v)) \<le> enc_bound v"
proof (induction v rule: encode.induct)
  case (5 vs)
  have "sum_list (map (\<lambda>x. int (length x) + 1) (map encode vs)) \<le> sum_list (map (\<lambda>v. enc_bound v + 1) vs)"
    using 5 by (induction vs) force+
  with join_length [of "map encode vs"] show ?case by simp
next
  case (6 ms)
  let ?f = "\<lambda>m. quote (fst m) @ CHR '':'' # encode (snd m)"
  have "int (length (?f m)) + 1 \<le> 6 * int (length (fst m)) + enc_bound (snd m) + 4" if "m \<in> set ms" for m
    using 6 [OF that] quote_length [of "fst m"] by simp
  then have "sum_list (map (\<lambda>x. int (length x) + 1) (map ?f ms)) \<le> sum_list (map (\<lambda>m. 6 * int (length (fst m)) + enc_bound (snd m) + 4) ms)"
    unfolding map_map comp_def by (intro sum_list_mono) auto
  with join_length [of "map ?f ms"] show ?case by simp
qed (use quote_length in auto)

subsection \<open>Reviewed descriptors\<close>

text \<open>What \<open>Lookup\<close> needs of a template's schemas and descriptors, apart from the digest.\<close>

definition schema_fine :: "dialect \<Rightarrow> bool \<Rightarrow> bool \<Rightarrow> json option \<Rightarrow> bool" where
  "schema_fine dx isInput requireObjectType doc =
     (case doc of
        None \<Rightarrow> \<not> isInput
      | Some v \<Rightarrow> unambiguous v \<and> enc_bound v \<le> 64 * 1024 \<and>
          (case sort_members v of
             JObj ms \<Rightarrow> (requireObjectType \<longrightarrow> row_at (members_map ms) ''type'' = Some (JStr ''object''))
                \<and> \<not> isl (if isInput then CheckInputSchema dx (JObj ms) else CheckSchemaVocabulary dx (JObj ms))
           | _ \<Rightarrow> False))"

lemma schema_fine_check:
  assumes "schema_fine dx isInput req doc"
  shows "checkSchema dx isInput doc (\<not> isInput) req = Inr ()" "\<exists>c. Canonical (raw_tokens doc) = Inr c"
proof -
  have unit: "\<not> isl r \<longleftrightarrow> r = Inr ()" for r :: "go_error + unit" by (cases r) simp_all
  have fits: "int (length (encode v)) \<le> 64 * 1024" if "enc_bound v \<le> 64 * 1024" for v using encode_length [of v] that by simp
  show "checkSchema dx isInput doc (\<not> isInput) req = Inr ()"
    using assms fits by (auto simp: schema_fine_def checkSchema_def Canonical_tokens unit result_simps split: option.splits json.splits if_splits)
  show "\<exists>c. Canonical (raw_tokens doc) = Inr c"
    using assms by (cases doc) (auto simp: schema_fine_def raw_tokens_def Canonical_tokens, simp add: Canonical_def)
qed

definition reviewed :: "dialect \<Rightarrow> Descriptor \<Rightarrow> bool" where
  "reviewed dx d \<longleftrightarrow>
     d_Name d \<noteq> [] \<and> length (d_Name d) \<le> 128 \<and> length (d_Title d) \<le> 128 \<and> int (length (d_Description d)) \<le> 1024
     \<and> d_Strategy d \<in> {StrategyUpstreamTask, StrategyLocalReplayable, StrategyLocalGuarded, StrategyUnsupported}
     \<and> TaskSupport_Valid (d_TaskSupport d)
     \<and> schema_fine dx True True (d_InputSchema d) \<and> schema_fine dx False True (d_ClientSchema d)
     \<and> schema_fine dx False False (d_OutputSchema d)
     \<and> list_all Binding_Valid (d_Bindings d) \<and> \<not> isl (check_targets (d_Bindings d) [])"

lemma digest_ignored: "ComputeDigest sha256 (d\<lparr>d_Digest := h\<rparr>) = ComputeDigest sha256 d"
  by (simp add: ComputeDigest_def digestForm_def)

lemma reviewed_lookup:
  assumes "reviewed dx d"
  obtains h where "lookup_operation dx sha256 d = Inr (d\<lparr>d_Digest := h\<rparr>)" "Descriptor_Validate dx sha256 (d\<lparr>d_Digest := h\<rparr>) = Inr ()"
proof -
  have r: "d_Name d \<noteq> [] \<and> length (d_Name d) \<le> 128 \<and> length (d_Title d) \<le> 128 \<and> int (length (d_Description d)) \<le> 1024"
    "d_Strategy d \<in> {StrategyUpstreamTask, StrategyLocalReplayable, StrategyLocalGuarded, StrategyUnsupported}"
    "TaskSupport_Valid (d_TaskSupport d)" "list_all Binding_Valid (d_Bindings d)"
    and schemas: "schema_fine dx True True (d_InputSchema d)" "schema_fine dx False True (d_ClientSchema d)"
      "schema_fine dx False False (d_OutputSchema d)"
    and "\<not> isl (check_targets (d_Bindings d) [])"
    using assms by (auto simp: reviewed_def)
  then have targets: "check_targets (d_Bindings d) [] = Inr ()" by (cases "check_targets (d_Bindings d) []") simp_all
  note checks = schemas [THEN schema_fine_check(1), simplified]
  obtain i1 c1 o1 where c: "Canonical (raw_tokens (d_InputSchema d)) = Inr i1"
    "Canonical (raw_tokens (d_ClientSchema d)) = Inr c1" "Canonical (raw_tokens (d_OutputSchema d)) = Inr o1"
    using schemas [THEN schema_fine_check(2)] by blast
  then obtain h where h: "ComputeDigest sha256 d = Inr h" using r(4) by (simp add: ComputeDigest_def)
  have "Descriptor_Validate dx sha256 (d\<lparr>d_Digest := h\<rparr>) = Inr ()"
    using r checks targets h by (simp add: Descriptor_Validate_def CheckDigest_def digest_ignored)
  with h show ?thesis by (intro that) (simp_all add: lookup_operation_def)
qed

subsection \<open>The templates\<close>

lemma reviewed_about: "reviewed dx server_about" by code_simp
lemma reviewed_thread: "reviewed dx thread_get" by code_simp
lemma reviewed_steps: "reviewed dx thread_steps_list" by code_simp
lemma reviewed_flow: "reviewed dx flow_get" by code_simp
lemma reviewed_step: "reviewed dx step_get" by code_simp
lemma reviewed_artifact: "reviewed dx artifact_get" by code_simp
lemma reviewed_comments: "reviewed dx reflection_comments_list" by code_simp

lemma reviewed_message:
  assumes "dx_decimal dx ''1'' = Some 1" "dx_decimal dx ''128'' = Some 128" "dx_decimal dx ''256'' = Some 256"
  shows "reviewed dx (hd (tm_Operations appTemplate))"
proof -
  let ?dx = "\<lparr>dx_decimal = (dx_decimal dx)(''1'' := Some 1, ''128'' := Some 128, ''256'' := Some 256), dx_regexp = dx_regexp dx\<rparr>"
  have "?dx = dx" using assms by (cases dx) (auto simp: fun_eq_iff)
  moreover have "reviewed ?dx (hd (tm_Operations appTemplate))" by code_simp
  ultimately show ?thesis by simp
qed

section \<open>Properties\<close>

text \<open>The decimal library reads the three length bounds of the message schemas.\<close>

definition reads_bounds :: "dialect \<Rightarrow> bool" where
  "reads_bounds dx \<longleftrightarrow> dx_decimal dx ''1'' = Some 1 \<and> dx_decimal dx ''128'' = Some 128 \<and> dx_decimal dx ''256'' = Some 256"

definition template_of :: "profile_kind \<Rightarrow> Template" where
  "template_of k = (case k of KindApp \<Rightarrow> appTemplate | KindSystem \<Rightarrow> systemTemplate)"

lemma template_reviewed:
  assumes "reads_bounds dx"
  shows "list_all (reviewed dx) (tm_Operations (template_of k))"
proof (cases k)
  case KindApp
  have "tm_Operations appTemplate = [hd (tm_Operations appTemplate)]" by (simp add: appTemplate_def)
  moreover have "reviewed dx (hd (tm_Operations appTemplate))"
    using reviewed_message assms by (simp add: reads_bounds_def)
  ultimately show ?thesis using KindApp by (metis list_all_iff template_of_def profile_kind.case(1) list.set(1,2) insertE emptyE)
next
  case KindSystem
  then show ?thesis
    by (simp add: template_of_def systemTemplate_def reviewed_about reviewed_thread reviewed_steps reviewed_flow reviewed_step
        reviewed_artifact reviewed_comments)
qed

lemma lookup_all:
  assumes "list_all (reviewed dx) ds"
  obtains ds' where "lookup_operations dx sha256 ds = Inr ds'" "map (\<lambda>d. d\<lparr>d_Digest := []\<rparr>) ds' = map (\<lambda>d. d\<lparr>d_Digest := []\<rparr>) ds"
    "list_all (\<lambda>d. Descriptor_Validate dx sha256 d = Inr ()) ds'"
  using assms
proof (induction ds arbitrary: thesis)
  case (Cons d ds)
  from Cons.prems(2) have "reviewed dx d" "list_all (reviewed dx) ds" by simp_all
  obtain h where h: "lookup_operation dx sha256 d = Inr (d\<lparr>d_Digest := h\<rparr>)"
    "Descriptor_Validate dx sha256 (d\<lparr>d_Digest := h\<rparr>) = Inr ()"
    by (rule reviewed_lookup [OF \<open>reviewed dx d\<close>])
  obtain ds' where ds': "lookup_operations dx sha256 ds = Inr ds'"
    "map (\<lambda>d. d\<lparr>d_Digest := []\<rparr>) ds' = map (\<lambda>d. d\<lparr>d_Digest := []\<rparr>) ds"
    "list_all (\<lambda>d. Descriptor_Validate dx sha256 d = Inr ()) ds'"
    by (rule Cons.IH [OF _ \<open>list_all (reviewed dx) ds\<close>])
  show ?case by (rule Cons.prems(1) [of "d\<lparr>d_Digest := h\<rparr> # ds'"]) (simp_all add: h ds')
qed simp

text \<open>
  C37: The reviewed templates are well formed. Given a decimal library that reads the bounds 1, 128 and
  256, \<open>Lookup\<close> succeeds for both kinds, whatever the hash: every schema is in the accepted dialect, the
  descriptors are those of the release with a valid digest, their strategies make the profile of the
  requested kind, and the scopes are canonical.
\<close>

theorem templates_reviewed:
  assumes "reads_bounds dx"
  shows "\<exists>t. Lookup dx sha256 k = Inr t \<and> tm_Kind t = k \<and> kindFromOperations (tm_Operations t) = Inr k
    \<and> map (\<lambda>d. d\<lparr>d_Digest := []\<rparr>) (tm_Operations t) = tm_Operations (template_of k)
    \<and> list_all (\<lambda>d. Descriptor_Validate dx sha256 d = Inr ()) (tm_Operations t)
    \<and> distinct (map d_Name (tm_Operations t)) \<and> sorted (tm_Scopes t) \<and> set (tm_Scopes t) = set (tm_Scopes (template_of k))"
proof -
  let ?strip = "\<lambda>d. d\<lparr>d_Digest := []\<rparr>"
  obtain ops where ops: "lookup_operations dx sha256 (tm_Operations (template_of k)) = Inr ops"
    "map ?strip ops = map ?strip (tm_Operations (template_of k))" "list_all (\<lambda>d. Descriptor_Validate dx sha256 d = Inr ()) ops"
    by (rule lookup_all [OF template_reviewed [OF assms]])
  note unfold = template_of_def appTemplate_def systemTemplate_def server_about_def thread_get_def thread_steps_list_def
    flow_get_def step_get_def artifact_get_def reflection_comments_list_def inspection_def
  have plain: "map ?strip (tm_Operations (template_of k)) = tm_Operations (template_of k)"
    by (cases k) (simp_all add: unfold)
  have strip: "d_Strategy (?strip d) = d_Strategy d" "d_Name (?strip d) = d_Name d" for d by simp_all
  have strategies: "map d_Strategy ops = map d_Strategy (tm_Operations (template_of k))"
    and names: "map d_Name ops = map d_Name (tm_Operations (template_of k))"
    using arg_cong [OF ops(2), of "map d_Strategy"] arg_cong [OF ops(2), of "map d_Name"] by (simp_all add: comp_def)
  have kinds: "kindFromOperations ds = kindFromOperations ds'" if "map d_Strategy ds = map d_Strategy ds'" for ds ds'
  proof -
    from that have "d_Strategy ` set ds = d_Strategy ` set ds'" by (metis list.set_map)
    then have "list_ex (\<lambda>d. P (d_Strategy d)) ds = list_ex (\<lambda>d. P (d_Strategy d)) ds'"
      "list_all (\<lambda>d. P (d_Strategy d)) ds = list_all (\<lambda>d. P (d_Strategy d)) ds'" for P
      unfolding list_ex_iff list_all_iff by (metis (no_types, lifting) imageE imageI)+
    note eqs = this(1) [of "\<lambda>s. s = StrategyUpstreamTask"] this(1) [of "\<lambda>s. s \<in> {StrategyLocalReplayable, StrategyLocalGuarded}"]
      this(2) [of "\<lambda>s. s \<in> {StrategyUpstreamTask, StrategyLocalReplayable, StrategyLocalGuarded, StrategyUnsupported}"]
    show ?thesis unfolding kindFromOperations_def eqs ..
  qed
  have strategy_list: "map d_Strategy (tm_Operations (template_of k))
      = (case k of KindApp \<Rightarrow> [StrategyUpstreamTask] | KindSystem \<Rightarrow> replicate 7 StrategyLocalReplayable)"
    and name_list: "map d_Name (tm_Operations (template_of k))
      = (case k of KindApp \<Rightarrow> [''message''] | KindSystem \<Rightarrow> [''server.about'', ''thread.get'', ''thread.steps.list'', ''flow.get'', ''step.get'', ''artifact.get'', ''reflection.comments.list''])"
    by (cases k; simp add: unfold numeral_eq_Suc)+
  have "kindFromOperations (map (\<lambda>s. (SOME d. True)\<lparr>d_Strategy := s\<rparr>) (map d_Strategy (tm_Operations (template_of k)))) = Inr k"
    unfolding strategy_list by (cases k) (simp_all add: kindFromOperations_def numeral_eq_Suc StrategyUpstreamTask_def StrategyLocalReplayable_def StrategyLocalGuarded_def StrategyUnsupported_def)
  then have "kindFromOperations (tm_Operations (template_of k)) = Inr k"
    by (subst kinds) (simp_all add: comp_def)
  moreover have "distinct (map d_Name (tm_Operations (template_of k)))"
    unfolding name_list by (cases k) simp_all
  moreover have "\<exists>scopes. CanonicalScopes (tm_Scopes (template_of k)) = Inr scopes \<and> sorted scopes \<and> set scopes = set (tm_Scopes (template_of k))"
  proof -
    have "\<not> isl (CanonicalScopes (tm_Scopes (template_of KindApp)))" "\<not> isl (CanonicalScopes (tm_Scopes (template_of KindSystem)))"
      by code_simp+
    then have "\<not> isl (CanonicalScopes (tm_Scopes (template_of k)))" by (cases k) simp_all
    then obtain scopes where "CanonicalScopes (tm_Scopes (template_of k)) = Inr scopes"
      by (cases "CanonicalScopes (tm_Scopes (template_of k))") simp_all
    then show ?thesis by (auto simp: CanonicalScopes_def result_simps)
  qed
  moreover have "tm_ProtocolMin (template_of k) \<le> wireVersion \<and> wireVersion \<le> tm_ProtocolMax (template_of k)" "tm_Kind (template_of k) = k"
    by (cases k; simp add: template_of_def appTemplate_def systemTemplate_def)+
  ultimately show ?thesis
    using ops plain kinds [OF strategies] names unfolding Lookup_def template_of_def [symmetric] by (auto simp: Let_def)
qed

definition demo_decimal :: dialect where
  "demo_decimal = \<lparr>dx_decimal = Map.empty(''1'' := Some 1, ''128'' := Some 128, ''256'' := Some 256), dx_regexp = (\<lambda>_. None)\<rparr>"

theorem templates_reviewed_witness:
  "\<exists>t. Lookup demo_decimal (\<lambda>_. ''h'') KindSystem = Inr t \<and> length (tm_Operations t) = 7"
proof -
  have "reads_bounds demo_decimal" by (simp add: reads_bounds_def demo_decimal_def)
  from templates_reviewed [OF this, of "\<lambda>_. ''h''" KindSystem] obtain t where "Lookup demo_decimal (\<lambda>_. ''h'') KindSystem = Inr t"
    "map (\<lambda>d. d\<lparr>d_Digest := []\<rparr>) (tm_Operations t) = tm_Operations (template_of KindSystem)" by blast
  then show ?thesis using arg_cong [of "map (\<lambda>d. d\<lparr>d_Digest := []\<rparr>) (tm_Operations t)" _ length]
    by (auto simp: template_of_def systemTemplate_def)
qed

text \<open>
  Materialization is a check, never a copy. When it succeeds, the result is exactly the descriptors of
  the template, each of them is live under its name without drift in its schemas and annotations, the
  live instructions are the reviewed ones, and the live catalog names every tool once.
\<close>

theorem materialize_exact:
  assumes "Materialize t disc live = Inr ops"
  shows "ops = tm_Operations t
    \<and> (\<forall>d \<in> set ops. \<exists>tool. Some tool \<in> set live \<and> ut_Name tool = d_Name d \<and> Drift d (normalizeLive tool d) = [])
    \<and> (\<exists>dr. disc = Some dr \<and> dr_Instructions dr = tm_Instructions t \<and> wireVersion \<in> set (dr_SupportedVersions dr)
         \<and> (tm_RequiresTasks t \<longrightarrow> HasTaskExtension dr))
    \<and> None \<notin> set live \<and> distinct (map (ut_Name \<circ> the) live)"
proof -
  have names: "live = map Some tools \<and> distinct (map ut_Name tools) \<and> set (map ut_Name tools) \<inter> set seen = {}"
    if "live_by_name live seen = Inr tools" for tools seen
    using that
  proof (induction live arbitrary: seen tools)
    case (Cons t ts)
    then obtain tool rest where c: "t = Some tool" "ut_Name tool \<notin> set seen" "live_by_name ts (ut_Name tool # seen) = Inr rest" "tools = tool # rest"
      by (auto simp: result_simps split: option.splits if_splits)
    then show ?case using Cons.IH [OF c(3)] by auto
  qed simp
  have ops: "ops = ds \<and> (\<forall>d \<in> set ds. \<exists>tool \<in> set tools. ut_Name tool = d_Name d \<and> Drift d (normalizeLive tool d) = [])"
    if "materialize_operations tools ds = Inr ops" for tools ds ops
    using that by (induction ds arbitrary: ops) (auto simp: result_simps find_Some_iff split: option.splits dest: nth_mem)
  from assms obtain dr tools where d: "disc = Some dr" "wireVersion \<in> set (dr_SupportedVersions dr)" "tm_RequiresTasks t \<longrightarrow> HasTaskExtension dr"
    "tm_Instructions t = dr_Instructions dr" and l: "live_by_name live [] = Inr tools" and m: "materialize_operations tools (tm_Operations t) = Inr ops"
    by (auto simp: Materialize_def result_simps split: option.splits)
  from names [OF l] ops [OF m] d show ?thesis by (fastforce simp: comp_def)
qed

definition demo_about :: "DiscoverResult \<times> UpstreamTool" where
  "demo_about =
     (\<lparr>dr_SupportedVersions = [wireVersion], dr_Capabilities = Some (JObj [(''tools'', JObj [])]),
       dr_Instructions = systemInstructions, dr_ServerInfo = None\<rparr>,
      \<lparr>ut_Raw = JNull, ut_Name = ''server.about'', ut_Title = [], ut_Description = [],
       ut_Annotations = d_Annotations server_about, ut_InputSchema = d_InputSchema server_about,
       ut_OutputSchema = d_OutputSchema server_about\<rparr>)"

theorem materialize_exact_witness:
  "Materialize (systemTemplate\<lparr>tm_Operations := [server_about]\<rparr>) (Some (fst demo_about)) [Some (snd demo_about)] = Inr [server_about]"
  (is "?m = _")
proof -
  have "find (\<lambda>t. ut_Name t = d_Name server_about) [snd demo_about] = Some (snd demo_about)"
    "live_by_name [Some (snd demo_about)] [] = Inr [snd demo_about]"
    by (simp_all add: demo_about_def server_about_def inspection_def)
  moreover have "Drift server_about (normalizeLive (snd demo_about) server_about) = []"
  proof -
    have "schema_fine dx True True (d_InputSchema server_about)" "schema_fine dx False False (d_OutputSchema server_about)" for dx
      using reviewed_about by (auto simp: reviewed_def)
    from this [THEN schema_fine_check(2)] have "canonicalEqual (d_InputSchema server_about) (d_InputSchema server_about)"
      "canonicalEqual (d_OutputSchema server_about) (d_OutputSchema server_about)"
      by (auto simp: canonicalEqual_def)
    moreover have "sameValue (normalizeMap (d_Annotations server_about)) (normalizeMap (annotationsMap (d_Annotations server_about)))"
      by code_simp
    moreover have "d_Name server_about = ''server.about''" by (simp add: server_about_def inspection_def)
    ultimately show ?thesis by (simp add: Drift_def normalizeLive_def demo_about_def)
  qed
  moreover have "decodeCapabilities (dr_Capabilities (fst demo_about)) = Inr ()" by code_simp
  ultimately have "\<not> isl ?m"
    by (simp add: Materialize_def) (simp add: demo_about_def systemTemplate_def)
  then obtain ops where "?m = Inr ops" by (cases ?m) simp_all
  with materialize_exact [OF this] show ?thesis by simp
qed

end
