(* ===== verification/Private_Files.thy ===== *)
theory Private_Files
  imports Templates Oauth_Safety
begin

unbundle bit_operations_syntax

text \<open>
  The private files of the configuration directory on a POSIX system (\<open>internal/profile/private_unix.go\<close>,
  \<open>secure_file.go\<close>, \<open>secure_file_unix.go\<close>, \<open>publish.go\<close>).

  A file system is a table from clean absolute paths to inodes. Every system call is one step: other
  processes may act before it, and it may fail with any error. The directory handles of the code are pinned
  to an inode; in the model a handle is the inode as it was opened, with its path. \<open>fw_locked\<close> is
  whether this process holds the publication lock.
\<close>

section \<open>Definitions\<close>

subsection \<open>The file system\<close>

datatype node_kind = Directory | Regular string | Symlink string | Special

record node =
  nd_kind :: node_kind
  nd_uid :: int
  nd_perm :: int

type_synonym file_system = "(string, node) table"

record file_world =
  fw_fs :: file_system
  fw_calls :: nat
  fw_fault :: "nat \<Rightarrow> go_error option"
  fw_other :: "nat \<Rightarrow> bool \<Rightarrow> file_system \<Rightarrow> file_system"
  fw_rand :: "nat \<Rightarrow> go_error + string"
  fw_euid :: int
  fw_locked :: bool

definition interfere :: "'m file_world_scheme \<Rightarrow> 'm file_world_scheme" where
  "interfere w = w\<lparr>fw_fs := fw_other w (fw_calls w) (fw_locked w) (fw_fs w), fw_calls := Suc (fw_calls w)\<rparr>"

definition syscall ::
    "(file_system \<Rightarrow> (go_error + 'a) \<times> file_system) \<Rightarrow> 'm file_world_scheme \<Rightarrow> (go_error + 'a) \<times> 'm file_world_scheme" where
  "syscall f w =
     (let w' = interfere w in
      case fw_fault w (fw_calls w) of
        Some e \<Rightarrow> (Inl e, w')
      | None \<Rightarrow> let r = f (fw_fs w') in (fst r, w'\<lparr>fw_fs := snd r\<rparr>))"

text \<open>A call that changes no file.\<close>

definition inspect :: "(file_system \<Rightarrow> go_error + 'a) \<Rightarrow> 'm file_world_scheme \<Rightarrow> (go_error + 'a) \<times> 'm file_world_scheme" where
  "inspect f = syscall (\<lambda>fs. (f fs, fs))"

definition io_of :: "'r \<Rightarrow> 'w \<Rightarrow> 'r \<times> 'w" where
  "io_of r w = (r, w)"

definition Geteuid :: "'m file_world_scheme \<Rightarrow> (go_error + int) \<times> 'm file_world_scheme" where
  "Geteuid w = (Inr (fw_euid w), w)"

definition wrap :: "string \<Rightarrow> go_error \<Rightarrow> go_error" where
  "wrap m e = Errorf m [e]"

definition child :: "string \<Rightarrow> string \<Rightarrow> string" where
  "child dir name = dir @ ''/'' @ name"

definition open_directory :: "string \<Rightarrow> file_system \<Rightarrow> go_error + node" where
  "open_directory path fs =
     (case row_at fs path of
        None \<Rightarrow> Inl (Sentinel ENOENT)
      | Some n \<Rightarrow> if nd_kind n = Directory then Inr n else Inl (Sentinel ENOTDIR))"

definition open_file :: "string \<Rightarrow> file_system \<Rightarrow> go_error + node" where
  "open_file path fs =
     (case row_at fs path of
        None \<Rightarrow> Inl (Sentinel ENOENT)
      | Some n \<Rightarrow> (case nd_kind n of Symlink _ \<Rightarrow> Inl (Sentinel ELOOP) | _ \<Rightarrow> Inr n))"

definition make_directory :: "int \<Rightarrow> string \<Rightarrow> file_system \<Rightarrow> (go_error + unit) \<times> file_system" where
  "make_directory uid path fs =
     (if row_at fs path \<noteq> None then (Inl (Sentinel EEXIST), fs)
      else (Inr (), put_row path \<lparr>nd_kind = Directory, nd_uid = uid, nd_perm = 0x1C0\<rparr> fs))"

text \<open>Exclusive creation with mode \<open>0o600\<close>, and writing to the created file.\<close>

definition create_file :: "int \<Rightarrow> string \<Rightarrow> file_system \<Rightarrow> (go_error + unit) \<times> file_system" where
  "create_file uid path fs =
     (if row_at fs path \<noteq> None then (Inl (Sentinel EEXIST), fs)
      else (Inr (), put_row path \<lparr>nd_kind = Regular [], nd_uid = uid, nd_perm = 0x180\<rparr> fs))"

definition write_file :: "string \<Rightarrow> string \<Rightarrow> file_system \<Rightarrow> (go_error + unit) \<times> file_system" where
  "write_file path data fs =
     (case row_at fs path of
        Some n \<Rightarrow> (Inr (), (case nd_kind n of Regular _ \<Rightarrow> put_row path (n\<lparr>nd_kind := Regular data\<rparr>) fs | _ \<Rightarrow> fs))
      | None \<Rightarrow> (Inr (), fs))"

definition rename_file :: "string \<Rightarrow> string \<Rightarrow> file_system \<Rightarrow> (go_error + unit) \<times> file_system" where
  "rename_file a b fs =
     (case row_at fs a of
        None \<Rightarrow> (Inl (Sentinel ENOENT), fs)
      | Some n \<Rightarrow>
          if map_option nd_kind (row_at fs b) = Some Directory then (Inl (errors_New ''is a directory''), fs)
          else (Inr (), put_row b n (del_row a fs)))"

definition link_file :: "string \<Rightarrow> string \<Rightarrow> file_system \<Rightarrow> (go_error + unit) \<times> file_system" where
  "link_file a b fs =
     (case row_at fs a of
        None \<Rightarrow> (Inl (Sentinel ENOENT), fs)
      | Some n \<Rightarrow> if row_at fs b \<noteq> None then (Inl (Sentinel EEXIST), fs) else (Inr (), put_row b n fs))"

definition unlink_file :: "string \<Rightarrow> file_system \<Rightarrow> (go_error + unit) \<times> file_system" where
  "unlink_file a fs =
     (case row_at fs a of
        None \<Rightarrow> (Inl (Sentinel ENOENT), fs)
      | Some n \<Rightarrow> if nd_kind n = Directory then (Inl (errors_New ''is a directory''), fs) else (Inr (), del_row a fs))"

text \<open>The entries of a directory.\<close>

definition entries_of :: "string \<Rightarrow> file_system \<Rightarrow> string list" where
  "entries_of dir fs =
     (let prefix = dir @ ''/''; n = length prefix in
      map (\<lambda>e. drop n (fst e))
        (filter (\<lambda>e. take n (fst e) = prefix \<and> drop n (fst e) \<noteq> [] \<and> CHR ''/'' \<notin> set (drop n (fst e))) fs))"

subsection \<open>Names and permissions\<close>

definition validateStagingName :: "string \<Rightarrow> go_error + unit" where
  "validateStagingName name =
     ensure (\<not> (name = [] \<or> name = ''.'' \<or> name = ''..'' \<or> list_ex (\<lambda>c. c \<in> {CHR ''/'', CHR 0x5C}) name))
       (errors_New ''invalid file name'')"

definition randomStagingName :: "string \<Rightarrow> 'm file_world_scheme \<Rightarrow> (go_error + string) \<times> 'm file_world_scheme" where
  "randomStagingName name w =
     (map_error (wrap ''staging name'') (rbind (fw_rand w (fw_calls w)) (\<lambda>buf.
        Inr (''.'' @ name @ ''.'' @ hex_encode buf @ ''.tmp''))), interfere w)"

definition validateOwnedDirectory :: "node \<Rightarrow> bool \<Rightarrow> 'm file_world_scheme \<Rightarrow> (go_error + unit) \<times> 'm file_world_scheme" where
  "validateOwnedDirectory file strict =
     io_bind (io_map_error (wrap ''inspect directory'') (inspect (\<lambda>_. Inr file))) (\<lambda>info.
     io_bind Geteuid (\<lambda>euid. io_of
     (rbind (ensure (nd_kind info = Directory) (errors_New ''not a directory'')) (\<lambda>_.
      rbind (ensure (nd_uid info = euid) (errors_New ''not owned by the current user'')) (\<lambda>_.
      rbind (ensure (\<not> (strict \<and> nd_perm info AND 0x3F \<noteq> 0)) (errors_New ''permissions are not private'')) (\<lambda>_.
      ensure (\<not> (\<not> strict \<and> nd_perm info AND 0x12 \<noteq> 0)) (errors_New ''writable by other users'')))))))"

definition validatePrivateFile :: "node \<Rightarrow> 'm file_world_scheme \<Rightarrow> (go_error + unit) \<times> 'm file_world_scheme" where
  "validatePrivateFile info =
     io_bind Geteuid (\<lambda>euid. io_of
     (rbind (ensure (case nd_kind info of Regular _ \<Rightarrow> True | _ \<Rightarrow> False) (errors_New ''not a regular file'')) (\<lambda>_.
      rbind (ensure (nd_uid info = euid) (errors_New ''not owned by the current user'')) (\<lambda>_.
      ensure (nd_perm info AND 0x3F = 0) (errors_New ''permissions are not private'')))))"

definition file_data :: "node \<Rightarrow> string" where
  "file_data n = (case nd_kind n of Regular s \<Rightarrow> s | _ \<Rightarrow> [])"

subsection \<open>Directories\<close>

definition openDirNoFollow :: "string \<Rightarrow> 'm file_world_scheme \<Rightarrow> (go_error + node) \<times> 'm file_world_scheme" where
  "openDirNoFollow path = inspect (open_directory path)"

definition ensurePrivateChild :: "string \<Rightarrow> string \<Rightarrow> 'm file_world_scheme \<Rightarrow> (go_error + unit) \<times> 'm file_world_scheme" where
  "ensurePrivateChild parentPath name =
     io_bind (io_map_error (wrap ''open'') (openDirNoFollow parentPath)) (\<lambda>parent.
     io_bind (validateOwnedDirectory parent False) (\<lambda>_.
     io_bind Geteuid (\<lambda>euid.
     io_bind (io_or (syscall (make_directory euid (child parentPath name)))
                (\<lambda>e. if errors_Is e EEXIST then io_return () else io_fail (wrap ''create'' e)) io_return) (\<lambda>_.
     io_bind (io_map_error (wrap ''open'') (openDirNoFollow (child parentPath name))) (\<lambda>dir.
     validateOwnedDirectory dir True)))))"

definition EnsurePrivateDir :: "string \<Rightarrow> 'm file_world_scheme \<Rightarrow> (go_error + unit) \<times> 'm file_world_scheme" where
  "EnsurePrivateDir path =
     (case cut_last CHR ''/'' path of
        None \<Rightarrow> io_fail (errors_New ''invalid private directory'')
      | Some (parent, name) \<Rightarrow>
          if parent = [] \<or> name = [] \<or> name = ''.'' \<or> name = ''..''
          then io_fail (errors_New ''invalid private directory'')
          else ensurePrivateChild parent name)"

subsection \<open>Files\<close>

text \<open>The target is replaced only with \<open>replace\<close>; otherwise a link publishes it, and an existing target wins.\<close>

definition publish_staged :: "string \<Rightarrow> string \<Rightarrow> bool \<Rightarrow> 'm file_world_scheme \<Rightarrow> (go_error + unit) \<times> 'm file_world_scheme" where
  "publish_staged tmp target replace =
     (if replace then io_map_error (wrap ''publish staging file'') (syscall (rename_file tmp target))
      else io_map_error (\<lambda>e. if errors_Is e EEXIST then Errorf target [Sentinel ErrProfileExists] else wrap ''publish'' e)
             (syscall (link_file tmp target)))"

definition WritePrivateFile ::
    "string \<Rightarrow> string \<Rightarrow> string \<Rightarrow> bool \<Rightarrow> 'm file_world_scheme \<Rightarrow> (go_error + unit) \<times> 'm file_world_scheme" where
  "WritePrivateFile dir name data replace =
     io_bind (io_of (validateStagingName name)) (\<lambda>_.
     io_bind (io_map_error (wrap ''open'') (openDirNoFollow dir)) (\<lambda>parent.
     io_bind (validateOwnedDirectory parent True) (\<lambda>_.
     io_bind (randomStagingName name) (\<lambda>tmp.
     io_bind Geteuid (\<lambda>euid.
     io_bind (io_map_error (wrap ''create staging file'') (syscall (create_file euid (child dir tmp)))) (\<lambda>_.
     io_finally
       (io_bind (io_map_error (wrap ''write staging file'') (syscall (write_file (child dir tmp) data))) (\<lambda>_.
        io_bind (io_map_error (wrap ''flush staging file'') (inspect (\<lambda>_. Inr ()))) (\<lambda>_.
        io_bind (publish_staged (child dir tmp) (child dir name) replace) (\<lambda>_.
        io_then (inspect (\<lambda>_. Inr ())) (io_return ())))))
       (syscall (unlink_file (child dir tmp)))))))))"

definition RemovePrivateFile :: "string \<Rightarrow> string \<Rightarrow> 'm file_world_scheme \<Rightarrow> (go_error + unit) \<times> 'm file_world_scheme" where
  "RemovePrivateFile dir name =
     io_bind (io_of (validateStagingName name)) (\<lambda>_.
     io_or (openDirNoFollow dir)
       (\<lambda>e. if errors_Is e ENOENT then io_return () else io_fail (wrap ''open'' e)) (\<lambda>parent.
     io_bind (validateOwnedDirectory parent True) (\<lambda>_.
     io_or (inspect (open_file (child dir name)))
       (\<lambda>e. if errors_Is e ENOENT then io_return () else io_fail (wrap ''open'' e)) (\<lambda>file.
     io_bind (io_map_error (wrap ''inspect'') (inspect (\<lambda>_. Inr file))) (\<lambda>info.
     io_bind (inspect (\<lambda>_. Inr ())) (\<lambda>_.
     io_bind (validatePrivateFile info) (\<lambda>_.
     io_or (syscall (unlink_file (child dir name)))
       (\<lambda>e. if errors_Is e ENOENT then io_return () else io_fail (wrap ''remove'' e)) io_return)))))))"

definition ReadPrivateFile :: "string \<Rightarrow> string \<Rightarrow> int \<Rightarrow> 'm file_world_scheme \<Rightarrow> (go_error + string) \<times> 'm file_world_scheme" where
  "ReadPrivateFile dir name limit =
     io_bind (io_of (validateStagingName name)) (\<lambda>_.
     io_bind (io_of (ensure (limit > 0) (errors_New ''read limit must be positive''))) (\<lambda>_.
     io_bind (openDirNoFollow dir) (\<lambda>parent.
     io_bind (validateOwnedDirectory parent True) (\<lambda>_.
     io_bind (inspect (open_file (child dir name))) (\<lambda>file.
     io_bind (inspect (\<lambda>_. Inr file)) (\<lambda>info.
     io_bind (validatePrivateFile info) (\<lambda>_.
     io_bind (inspect (\<lambda>_. Inr (file_data file))) (\<lambda>data.
     io_of (rbind (ensure (int (length data) \<le> limit) (errors_New ''exceeds the limit'')) (\<lambda>_. Inr data))))))))))"

definition listProfileNames :: "string \<Rightarrow> 'm file_world_scheme \<Rightarrow> (go_error + string list) \<times> 'm file_world_scheme" where
  "listProfileNames dir =
     io_or (openDirNoFollow dir)
       (\<lambda>e. if errors_Is e ENOENT then io_return [] else io_fail (wrap ''open profile directory'' e)) (\<lambda>parent.
     io_bind (validateOwnedDirectory parent True) (\<lambda>_.
     io_map_error (wrap ''read profile directory'') (inspect (\<lambda>fs. Inr (entries_of dir fs)))))"

subsection \<open>Profile files\<close>

definition maxProfileFileBytes :: int where
  "maxProfileFileBytes = 1024 * 1024"

definition openProfileHandles :: "string \<Rightarrow> string \<Rightarrow> 'm file_world_scheme \<Rightarrow> (go_error + node \<times> node) \<times> 'm file_world_scheme" where
  "openProfileHandles parentPath base =
     io_bind (inspect (open_directory parentPath)) (\<lambda>parent.
     io_bind (inspect (open_file (child parentPath base))) (\<lambda>file.
     io_return (parent, file)))"

definition validateProfileHandle :: "node \<Rightarrow> bool \<Rightarrow> 'm file_world_scheme \<Rightarrow> (go_error + unit) \<times> 'm file_world_scheme" where
  "validateProfileHandle file directory =
     io_bind (io_map_error (wrap ''inspect'') (inspect (\<lambda>_. Inr file))) (\<lambda>info.
     io_bind Geteuid (\<lambda>euid. io_of
     (rbind (ensure (\<not> (directory \<and> nd_kind info \<noteq> Directory)) (errors_New ''profile directory is not a directory'')) (\<lambda>_.
      rbind (ensure (\<not> (\<not> directory \<and> nd_kind info = Directory)) (errors_New ''profile path is a directory'')) (\<lambda>_.
      rbind (ensure (directory \<or> (case nd_kind info of Regular _ \<Rightarrow> True | _ \<Rightarrow> False))
               (errors_New ''profile path is not a regular file'')) (\<lambda>_.
      rbind (ensure (nd_uid info = euid) (errors_New ''not owned by the current user'')) (\<lambda>_.
      ensure (nd_perm info AND 0x3F = 0) (errors_New ''permissions are not private''))))))))"

text \<open>What lies at the path decides the message of a failed open.\<close>

definition classifyProfileOpenError :: "string \<Rightarrow> go_error \<Rightarrow> 'm file_world_scheme \<Rightarrow> (go_error + 'a) \<times> 'm file_world_scheme" where
  "classifyProfileOpenError path err =
     io_or (inspect (\<lambda>fs. case row_at fs path of None \<Rightarrow> Inl (Sentinel ENOENT) | Some n \<Rightarrow> Inr n))
       (\<lambda>_. io_fail err)
       (\<lambda>info. io_fail (case nd_kind info of
            Directory \<Rightarrow> errors_New ''profile path is a directory''
          | Regular _ \<Rightarrow> err
          | _ \<Rightarrow> errors_New ''profile path is not a regular file''))"

definition readProfileFile :: "string \<Rightarrow> string \<Rightarrow> 'm file_world_scheme \<Rightarrow> (go_error + string) \<times> 'm file_world_scheme" where
  "readProfileFile dir base =
     io_or (openProfileHandles dir base) (classifyProfileOpenError (child dir base)) (\<lambda>(parent, file).
     io_bind (validateProfileHandle parent True) (\<lambda>_.
     io_bind (validateProfileHandle file False) (\<lambda>_.
     io_bind (io_map_error (wrap ''inspect profile file'') (inspect (\<lambda>_. Inr file))) (\<lambda>info.
     io_bind (io_of (ensure (int (length (file_data info)) \<le> maxProfileFileBytes) (errors_New ''profile exceeds the limit''))) (\<lambda>_.
     io_bind (inspect (\<lambda>_. Inr (file_data file))) (\<lambda>data.
     io_of (rbind (ensure (int (length data) \<le> maxProfileFileBytes) (errors_New ''profile exceeds the limit'')) (\<lambda>_. Inr data))))))))"

section \<open>Lemmas\<close>

context stateful
begin

lemma keeps_bind_result:
  assumes "keeps R m" "\<And>x w w'. m w = (Inr x, w') \<Longrightarrow> keeps R (f x)"
  shows "keeps R (io_bind m f)"
  unfolding keeps_def
proof
  fix w
  obtain r w' where m: "m w = (r, w')" by fastforce
  then have "R w w'" by (rule keepsD [OF assms(1)])
  then show "R w (snd (io_bind m f w))"
    using assms(2) m R_trans by (cases r) (auto simp: io_bind_def keeps_def)
qed

end

text \<open>
  Relations between the files before and after a handler. \<open>ok\<close> says in which states of the lock the others
  are known to respect the relation. The locale \<open>file_reader\<close> states what a relation needs for the operations that change
  nothing, \<open>file_client\<close> what it needs for the others: it allows a new file anywhere, and any change of a free path.
\<close>

definition fair_files :: "(bool \<Rightarrow> bool) \<Rightarrow> (file_system \<Rightarrow> file_system \<Rightarrow> bool) \<Rightarrow> 'm file_world_scheme \<Rightarrow> bool" where
  "fair_files ok rel w \<longleftrightarrow> ok (fw_locked w) \<and> (\<forall>n l fs. ok l \<longrightarrow> rel fs (fw_other w n l fs))"

definition files_follow ::
    "(bool \<Rightarrow> bool) \<Rightarrow> (file_system \<Rightarrow> file_system \<Rightarrow> bool) \<Rightarrow> 'm file_world_scheme \<Rightarrow> 'm file_world_scheme \<Rightarrow> bool" where
  "files_follow ok rel w w' \<longleftrightarrow>
     fw_other w' = fw_other w \<and> (fair_files ok rel w \<longrightarrow> fair_files ok rel w' \<and> rel (fw_fs w) (fw_fs w'))"

locale file_reader =
  fixes ok :: "bool \<Rightarrow> bool"
    and rel :: "file_system \<Rightarrow> file_system \<Rightarrow> bool"
  assumes rel_refl: "rel fs fs"
    and rel_trans: "rel fs fs' \<Longrightarrow> rel fs' fs'' \<Longrightarrow> rel fs fs''"

sublocale file_reader \<subseteq> stateful "files_follow ok rel"
  by unfold_locales (auto simp: files_follow_def rel_refl intro: rel_trans)

context file_reader
begin

lemma keeps_of: "keeps (files_follow ok rel) (io_of r)"
  by (simp add: keeps_def io_of_def R_refl)

lemma follow_interfere: "files_follow ok rel w (interfere w)"
  by (auto simp: files_follow_def fair_files_def interfere_def)

lemma keeps_syscall:
  assumes "\<And>fs. rel fs (snd (f fs))"
  shows "keeps (files_follow ok rel) (syscall f)"
  unfolding keeps_def
proof
  fix w
  have "files_follow ok rel (interfere w) (interfere w\<lparr>fw_fs := snd (f (fw_fs (interfere w)))\<rparr>)"
    using assms by (simp add: files_follow_def fair_files_def)
  then show "files_follow ok rel w (snd (syscall f w))"
    using follow_interfere [of w] R_trans by (auto simp: syscall_def Let_def split: option.split)
qed

lemma keeps_inspect: "keeps (files_follow ok rel) (inspect f)"
  unfolding inspect_def by (rule keeps_syscall) (simp add: rel_refl)

lemma keeps_random: "keeps (files_follow ok rel) (randomStagingName name)"
  by (simp add: keeps_def randomStagingName_def follow_interfere)

lemma keeps_euid: "keeps (files_follow ok rel) Geteuid"
  by (simp add: keeps_def Geteuid_def R_refl)

lemmas file_rules = keeps_rules keeps_or keeps_then keeps_of keeps_inspect keeps_euid

lemma keeps_validate:
  "keeps (files_follow ok rel) (validateOwnedDirectory file strict)"
  "keeps (files_follow ok rel) (validatePrivateFile file)"
  "keeps (files_follow ok rel) (validateProfileHandle file directory)"
  unfolding validateOwnedDirectory_def validatePrivateFile_def validateProfileHandle_def by (intro file_rules)+

lemma keeps_open: "keeps (files_follow ok rel) (openDirNoFollow path)"
  unfolding openDirNoFollow_def by (rule keeps_inspect)

lemma keeps_read:
  "keeps (files_follow ok rel) (ReadPrivateFile dir name limit)" "keeps (files_follow ok rel) (listProfileNames dir)"
  "keeps (files_follow ok rel) (readProfileFile dir name)"
proof -
  show "keeps (files_follow ok rel) (ReadPrivateFile dir name limit)"
    unfolding ReadPrivateFile_def by (intro file_rules keeps_open keeps_validate)
  show "keeps (files_follow ok rel) (listProfileNames dir)"
    unfolding listProfileNames_def by (intro file_rules keeps_open keeps_validate)
  have "keeps (files_follow ok rel) (classifyProfileOpenError path err :: _ \<Rightarrow> (go_error + string) \<times> _)" for path err
    unfolding classifyProfileOpenError_def by (intro file_rules)
  then show "keeps (files_follow ok rel) (readProfileFile dir name)"
    unfolding readProfileFile_def openProfileHandles_def split_def by (intro file_rules keeps_validate)
qed

end

locale file_client = file_reader +
  fixes free :: "string \<Rightarrow> bool"
  assumes rel_new: "row_at fs p = None \<Longrightarrow> rel fs (put_row p n fs)"
    and rel_put: "free p \<Longrightarrow> rel fs (put_row p n fs)"
    and rel_del: "free p \<Longrightarrow> rel fs (del_row p fs)"

context file_client
begin

lemma keeps_make: "keeps (files_follow ok rel) (syscall (make_directory uid path))"
  "keeps (files_follow ok rel) (syscall (create_file uid path))"
  by (rule keeps_syscall; simp add: make_directory_def create_file_def rel_refl rel_new)+

lemma keeps_link:
  "keeps (files_follow ok rel) (syscall (link_file a b))"
  by (rule keeps_syscall) (auto simp: link_file_def rel_refl rel_new split: option.split)

lemma keeps_write:
  "free path \<Longrightarrow> keeps (files_follow ok rel) (syscall (write_file path data))"
  "free path \<Longrightarrow> keeps (files_follow ok rel) (syscall (unlink_file path))"
  by (rule keeps_syscall; auto simp: write_file_def unlink_file_def rel_refl rel_put rel_del split: option.split node_kind.split)+

lemma keeps_rename:
  assumes "free a" "free b"
  shows "keeps (files_follow ok rel) (syscall (rename_file a b))"
proof (rule keeps_syscall)
  fix fs
  have "rel fs (put_row b n (del_row a fs))" for n using assms by (meson rel_put rel_del rel_trans)
  then show "rel fs (snd (rename_file a b fs))" by (auto simp: rename_file_def rel_refl split: option.split)
qed

lemma keeps_dir:
  "keeps (files_follow ok rel) (ensurePrivateChild parent name)" "keeps (files_follow ok rel) (EnsurePrivateDir path)"
proof -
  show child: "keeps (files_follow ok rel) (ensurePrivateChild parent name)" for parent name
    unfolding ensurePrivateChild_def by (intro file_rules keeps_open keeps_make keeps_validate)
  show "keeps (files_follow ok rel) (EnsurePrivateDir path)"
    unfolding EnsurePrivateDir_def by (auto intro!: file_rules child split: option.split)
qed

lemma keeps_remove: "free (child dir name) \<Longrightarrow> keeps (files_follow ok rel) (RemovePrivateFile dir name)"
  unfolding RemovePrivateFile_def by (intro file_rules keeps_open keeps_validate keeps_write)

lemma keeps_write_private:
  assumes "\<And>buf. free (child dir (''.'' @ name @ ''.'' @ buf @ ''.tmp''))" "replace \<Longrightarrow> free (child dir name)"
  shows "keeps (files_follow ok rel) (WritePrivateFile dir name data replace)"
proof -
  let ?k = "keeps (files_follow ok rel)"
  have staged: "?k (publish_staged tmp (child dir name) replace)" if "free tmp" for tmp
    using that assms(2) by (simp add: publish_staged_def keeps_map_error keeps_rename keeps_link)
  have tmp: "free (child dir tmp)" if "randomStagingName name w = (Inr tmp, w')" for tmp w w'
    using that assms(1) by (auto simp: randomStagingName_def result_simps)
  show ?thesis unfolding WritePrivateFile_def
    by (rule keeps_bind, rule keeps_of, rule keeps_bind, rule keeps_map_error, rule keeps_open,
        rule keeps_bind, rule keeps_validate, rule keeps_bind_result, rule keeps_random)
      (intro file_rules keeps_make keeps_write staged, (erule tmp)+)
qed

end

text \<open>A file that exists stays as it is.\<close>

definition stays :: "string \<Rightarrow> file_system \<Rightarrow> file_system \<Rightarrow> bool" where
  "stays p fs fs' \<longleftrightarrow> (\<forall>n. row_at fs p = Some n \<longrightarrow> row_at fs' p = Some n)"

interpretation kept: file_client ok "stays p" "\<lambda>q. q \<noteq> p" for ok p
  by unfold_locales (auto simp: stays_def)

text \<open>A path at which there is nothing stays empty.\<close>

definition stays_absent :: "string \<Rightarrow> file_system \<Rightarrow> file_system \<Rightarrow> bool" where
  "stays_absent p fs fs' \<longleftrightarrow> (row_at fs p = None \<longrightarrow> row_at fs' p = None)"

interpretation absent: file_reader ok "stays_absent p" for ok p
  by unfold_locales (auto simp: stays_absent_def)

end
