(* ===== verification/Profile_Files.thy ===== *)
theory Profile_Files
  imports Private_Files
begin

text \<open>
  Profile documents on disk: decoding with unknown members refused, loading, publication and listing
  (\<open>internal/profile/loader.go\<close>, \<open>publish.go\<close>, \<open>list.go\<close>, \<open>profile.go\<close>). \<open>cf_decode\<close> is the JSON decoder on
  the bytes of a file: \<open>None\<close> when they are not one document followed by the end of the file. The directories
  of the platform are parameters.
\<close>

section \<open>Definitions\<close>

record config =
  cf_override :: string
  cf_base :: "go_error + string"
  cf_state :: "go_error + string"
  cf_decode :: "string \<Rightarrow> json option"
  cf_dialect :: dialect
  cf_sha256 :: "string \<Rightarrow> string"

definition ConfigDirName :: string where
  "ConfigDirName = ''tama-link''"

definition ConfigDir :: "'c config_scheme \<Rightarrow> go_error + string" where
  "ConfigDir cf =
     (if cf_override cf \<noteq> [] then Inr (cf_override cf)
      else rbind (map_error (wrap ''resolve user configuration directory'') (cf_base cf)) (\<lambda>base. Inr (child base ConfigDirName)))"

definition StateDir :: "'c config_scheme \<Rightarrow> go_error + string" where
  "StateDir cf =
     (if cf_override cf \<noteq> [] then Inr (cf_override cf)
      else rbind (map_error (wrap ''resolve user state directory'') (cf_state cf)) (\<lambda>base. Inr (child base ConfigDirName)))"

subsection \<open>Documents\<close>

text \<open>A struct with unknown members refused, and a slice of structs.\<close>

definition read_struct ::
    "string list \<Rightarrow> ('a \<Rightarrow> (string \<times> json) list \<Rightarrow> 'a option) \<Rightarrow> 'a \<Rightarrow> json \<Rightarrow> 'a option" where
  "read_struct names f x v =
     (case struct_members v of
        None \<Rightarrow> None
      | Some ms \<Rightarrow> if list_all (\<lambda>m. fold_name (fst m) \<in> set (map fold_name names)) ms then f x ms else None)"

fun read_items :: "('a \<Rightarrow> json \<Rightarrow> 'a option) \<Rightarrow> 'a \<Rightarrow> 'a list \<Rightarrow> json list \<Rightarrow> 'a list option" where
  "read_items read zero old [] = Some []"
| "read_items read zero old (v # vs) =
     (case read (case old of [] \<Rightarrow> zero | y # _ \<Rightarrow> y) v of
        None \<Rightarrow> None
      | Some y \<Rightarrow> map_option ((#) y) (read_items read zero (tl old) vs))"

definition read_slice :: "('a \<Rightarrow> json \<Rightarrow> 'a option) \<Rightarrow> 'a \<Rightarrow> 'a list \<Rightarrow> json \<Rightarrow> 'a list option" where
  "read_slice read zero x v = (case v of JArr vs \<Rightarrow> read_items read zero x vs | JNull \<Rightarrow> Some [] | _ \<Rightarrow> None)"

definition read_binding :: "Binding \<Rightarrow> json \<Rightarrow> Binding option" where
  "read_binding = read_struct [''source'', ''target'', ''required''] (\<lambda>b ms.
     case (field ''source'' read_string (b_Source b) ms, field ''target'' read_string (b_Target b) ms,
           field ''required'' read_bool (b_Required b) ms) of
       (Some source, Some target, Some required) \<Rightarrow> Some \<lparr>b_Source = source, b_Target = target, b_Required = required\<rparr>
     | _ \<Rightarrow> None)"

definition read_annotations :: "json option \<Rightarrow> json \<Rightarrow> json option option" where
  "read_annotations x v =
     (case v of
        JNull \<Rightarrow> Some None
      | JObj ms \<Rightarrow> Some (Some (any_value (JObj ((case x of Some (JObj old) \<Rightarrow> old | _ \<Rightarrow> []) @ ms))))
      | _ \<Rightarrow> None)"

definition no_descriptor :: Descriptor where
  "no_descriptor = \<lparr>d_Name = [], d_Title = [], d_Description = [], d_InputSchema = None, d_ClientSchema = None,
     d_OutputSchema = None, d_Annotations = None, d_TaskSupport = [], d_Bindings = [], d_Strategy = [], d_Digest = []\<rparr>"

definition descriptor_names :: "string list" where
  "descriptor_names = [''name'', ''title'', ''description'', ''input_schema'', ''client_schema'', ''output_schema'',
     ''annotations'', ''task_support'', ''bindings'', ''strategy'', ''digest'']"

definition read_descriptor :: "Descriptor \<Rightarrow> json \<Rightarrow> Descriptor option" where
  "read_descriptor = read_struct descriptor_names (\<lambda>d ms.
     case (field ''name'' read_string (d_Name d) ms, field ''title'' read_string (d_Title d) ms,
           field ''description'' read_string (d_Description d) ms, field ''input_schema'' read_raw (d_InputSchema d) ms,
           field ''client_schema'' read_raw (d_ClientSchema d) ms, field ''output_schema'' read_raw (d_OutputSchema d) ms,
           field ''annotations'' read_annotations (d_Annotations d) ms) of
       (Some name, Some title, Some description, Some input, Some client, Some output, Some annotations) \<Rightarrow>
         (case (field ''task_support'' read_string (d_TaskSupport d) ms,
                field ''bindings'' (read_slice read_binding \<lparr>b_Source = [], b_Target = [], b_Required = False\<rparr>) (d_Bindings d) ms,
                field ''strategy'' read_string (d_Strategy d) ms, field ''digest'' read_string (d_Digest d) ms) of
            (Some support, Some bindings, Some strategy, Some digest) \<Rightarrow>
              Some \<lparr>d_Name = name, d_Title = title, d_Description = description, d_InputSchema = input,
                d_ClientSchema = client, d_OutputSchema = output, d_Annotations = annotations, d_TaskSupport = support,
                d_Bindings = bindings, d_Strategy = strategy, d_Digest = digest\<rparr>
          | _ \<Rightarrow> None)
     | _ \<Rightarrow> None)"

definition limit_names :: "string list" where
  "limit_names = [''arguments_bytes'', ''argument_depth'', ''response_bytes'', ''result_bytes'', ''event_bytes'', ''max_events'',
     ''events_bytes'', ''await_default'', ''await_max'', ''payload_retention'', ''tombstone_retention'']"

text \<open>A pointer: \<open>null\<close> clears it, an object fills the limits it points to.\<close>

definition read_limits :: "Limits option \<Rightarrow> json \<Rightarrow> Limits option option" where
  "read_limits x v =
     (if v = JNull then Some None
      else map_option Some (read_struct limit_names (\<lambda>l ms.
        case (field ''arguments_bytes'' read_int64 (ArgumentsBytes l) ms, field ''argument_depth'' read_int64 (ArgumentDepth l) ms,
              field ''response_bytes'' read_int64 (ResponseBytes l) ms, field ''result_bytes'' read_int64 (ResultBytes l) ms,
              field ''event_bytes'' read_int64 (EventBytes l) ms, field ''max_events'' read_int64 (MaxEvents l) ms,
              field ''events_bytes'' read_int64 (EventsBytes l) ms) of
          (Some ab, Some ad, Some pb, Some rb, Some eb, Some me, Some sb) \<Rightarrow>
            (case (field ''await_default'' read_int64 (AwaitDefault l) ms, field ''await_max'' read_int64 (AwaitMax l) ms,
                   field ''payload_retention'' read_int64 (PayloadRetention l) ms,
                   field ''tombstone_retention'' read_int64 (TombstoneRetention l) ms) of
               (Some wd, Some wm, Some pr, Some tr) \<Rightarrow>
                 Some \<lparr>ArgumentsBytes = ab, ArgumentDepth = ad, ResponseBytes = pb, ResultBytes = rb, EventBytes = eb,
                   MaxEvents = me, EventsBytes = sb, AwaitDefault = wd, AwaitMax = wm, PayloadRetention = pr,
                   TombstoneRetention = tr\<rparr>
             | _ \<Rightarrow> None)
        | _ \<Rightarrow> None)
        (case x of Some l \<Rightarrow> l | None \<Rightarrow> \<lparr>ArgumentsBytes = 0, ArgumentDepth = 0, ResponseBytes = 0, ResultBytes = 0,
           EventBytes = 0, MaxEvents = 0, EventsBytes = 0, AwaitDefault = 0, AwaitMax = 0, PayloadRetention = 0,
           TombstoneRetention = 0\<rparr>) v))"

text \<open>The two members of \<open>Bounds\<close> and of \<open>StateRefs\<close>.\<close>

definition read_pair :: "string \<Rightarrow> string \<Rightarrow> string \<times> string \<Rightarrow> json \<Rightarrow> (string \<times> string) option" where
  "read_pair a b = read_struct [a, b] (\<lambda>x ms.
     case (field a read_string (fst x) ms, field b read_string (snd x) ms) of
       (Some u, Some v) \<Rightarrow> Some (u, v)
     | _ \<Rightarrow> None)"

definition profile_names :: "string list" where
  "profile_names = [''version'', ''name'', ''origin'', ''endpoint'', ''issuer'', ''instructions'', ''bounds'', ''state'',
     ''limits'', ''operations'', ''scopes'', ''digest'']"

definition unmarshal_profile :: "json \<Rightarrow> profile option" where
  "unmarshal_profile v = (case read_struct profile_names (\<lambda>_ ms.
     case (field ''version'' read_int64 0 ms, field ''name'' read_string [] ms, field ''origin'' read_string [] ms,
           field ''endpoint'' read_string [] ms, field ''issuer'' read_string [] ms, field ''instructions'' read_string [] ms) of
       (Some version, Some name, Some origin, Some endpoint, Some issuer, Some instructions) \<Rightarrow>
         (case (field ''bounds'' (read_pair ''protocol_min'' ''protocol_max'') ([], []) ms,
                field ''state'' (read_pair ''database'' ''credentials'') ([], []) ms,
                field ''limits'' read_limits None ms, field ''operations'' (read_slice read_descriptor no_descriptor) [] ms,
                field ''scopes'' read_strings [] ms, field ''digest'' read_string [] ms) of
            (Some bounds, Some refs, Some lims, Some ops, Some scopes, Some digest) \<Rightarrow>
              Some (Some \<lparr>pf_Version = version, pf_Name = name, pf_Origin = origin, pf_Endpoint = endpoint, pf_Issuer = issuer,
                pf_Instructions = instructions, pf_ProtocolMin = fst bounds, pf_ProtocolMax = snd bounds,
                pf_Database = fst refs, pf_Credentials = snd refs, pf_Limits = lims, pf_Operations = ops,
                pf_Scopes = scopes, pf_Digest = digest\<rparr>)
          | _ \<Rightarrow> None)
     | _ \<Rightarrow> None) None v of Some p \<Rightarrow> p | None \<Rightarrow> None)"

definition marshal_profile :: "profile \<Rightarrow> json" where
  "marshal_profile p =
     (case profile_digestForm p (pf_Scopes p) of
        JObj ms \<Rightarrow> JObj (ms @ optional_member ''digest'' (pf_Digest p \<noteq> []) (JStr (pf_Digest p)))
      | v \<Rightarrow> v)"

text \<open>\<open>walk\<close>: no object of the document repeats a member.\<close>

fun rejectDuplicateKeys :: "json \<Rightarrow> go_error + unit" where
  "rejectDuplicateKeys (JArr vs) = ensure (list_all (\<lambda>v. rejectDuplicateKeys v = Inr ()) vs) (errors_New ''duplicate object key'')"
| "rejectDuplicateKeys (JObj ms) =
     ensure (distinct (map fst ms) \<and> list_all (\<lambda>m. rejectDuplicateKeys (snd m) = Inr ()) ms) (errors_New ''duplicate object key'')"
| "rejectDuplicateKeys _ = Inr ()"

definition decode_profile :: "'c config_scheme \<Rightarrow> string \<Rightarrow> string \<Rightarrow> go_error + profile" where
  "decode_profile cf name data =
     (case cf_decode cf data of
        None \<Rightarrow> Inl (errors_New ''decode profile'')
      | Some v \<Rightarrow>
          rbind (map_error (wrap ''decode profile'') (rejectDuplicateKeys v)) (\<lambda>_.
          case unmarshal_profile v of
            None \<Rightarrow> Inl (errors_New ''decode profile'')
          | Some p \<Rightarrow> map_error (wrap ''profile'') (Profile_Validate (cf_dialect cf) (cf_sha256 cf) p name)))"

subsection \<open>Loading, publication and listing\<close>

definition ProfileFileSuffix :: string where
  "ProfileFileSuffix = ''.json''"

definition profiles_dir :: "string \<Rightarrow> string" where
  "profiles_dir dir = child dir ProfilesDirName"

definition Load :: "'c config_scheme \<Rightarrow> string \<Rightarrow> 'm file_world_scheme \<Rightarrow> (go_error + profile) \<times> 'm file_world_scheme" where
  "Load cf name =
     io_bind (io_of (ConfigDir cf)) (\<lambda>dir.
     io_bind (io_map_error (\<lambda>e. if errors_Is e ENOENT then Errorf name [Sentinel ErrProfileNotFound] else wrap ''read profile'' e)
                (readProfileFile (profiles_dir dir) (name @ ProfileFileSuffix))) (\<lambda>data.
     io_of (decode_profile cf name data)))"

definition Publish :: "'c config_scheme \<Rightarrow> profile \<Rightarrow> 'm file_world_scheme \<Rightarrow> (go_error + unit) \<times> 'm file_world_scheme" where
  "Publish cf p =
     io_bind (io_of (map_error (wrap ''publish profile'') (Profile_Validate (cf_dialect cf) (cf_sha256 cf) p (pf_Name p)))) (\<lambda>p.
     io_bind (io_of (ConfigDir cf)) (\<lambda>root.
     io_bind (io_map_error (wrap ''prepare configuration directory'') (EnsurePrivateDir root)) (\<lambda>_.
     io_bind (io_map_error (wrap ''prepare profile directory'') (EnsurePrivateDir (profiles_dir root))) (\<lambda>_.
     io_bind (WritePrivateFile (profiles_dir root) (pf_Name p @ ProfileFileSuffix) (encode (marshal_profile p) @ [CHR 0x0A]) False) (\<lambda>_.
     io_bind (io_map_error (wrap ''reload published profile'') (Load cf (pf_Name p))) (\<lambda>_.
     io_return ()))))))"

datatype entry = Entry (en_Name: string) (en_Profile: "profile option") (en_Problem: string)

definition Entry_Valid :: "entry \<Rightarrow> bool" where
  "Entry_Valid e \<longleftrightarrow> en_Profile e \<noteq> None \<and> en_Problem e = []"

definition has_suffix :: "string \<Rightarrow> string \<Rightarrow> bool" where
  "has_suffix suf s \<longleftrightarrow> length suf \<le> length s \<and> drop (length s - length suf) s = suf"

definition trim_suffix :: "string \<Rightarrow> string \<Rightarrow> string" where
  "trim_suffix suf s = (if has_suffix suf s then take (length s - length suf) s else s)"

fun list_entries :: "'c config_scheme \<Rightarrow> string list \<Rightarrow> 'm file_world_scheme \<Rightarrow> (go_error + entry list) \<times> 'm file_world_scheme" where
  "list_entries cf [] = io_return []"
| "list_entries cf (f # fs) =
     (if \<not> has_suffix ProfileFileSuffix f then list_entries cf fs
      else case ParseName (trim_suffix ProfileFileSuffix f) of
        Inl _ \<Rightarrow> io_bind (list_entries cf fs) (\<lambda>es. io_return (Entry [] None ''invalid profile name'' # es))
      | Inr name \<Rightarrow>
          io_or (Load cf name)
            (\<lambda>_. io_bind (list_entries cf fs) (\<lambda>es. io_return (Entry name None ''unreadable'' # es)))
            (\<lambda>loaded. io_bind (list_entries cf fs) (\<lambda>es. io_return (Entry name (Some loaded) [] # es))))"

definition List_profiles :: "'c config_scheme \<Rightarrow> 'm file_world_scheme \<Rightarrow> (go_error + entry list) \<times> 'm file_world_scheme" where
  "List_profiles cf =
     io_bind (io_of (ConfigDir cf)) (\<lambda>root.
     io_bind (listProfileNames (profiles_dir root)) (\<lambda>names.
     io_bind (list_entries cf names) (\<lambda>es. io_return (sort_key en_Name es))))"

section \<open>Lemmas\<close>

lemma duplicate_free: "rejectDuplicateKeys v = Inr () \<longleftrightarrow> unambiguous v"
  by (induction v rule: rejectDuplicateKeys.induct) (auto simp: list_all_iff)

lemma Validate_result:
  "Profile_Validate dx sha256 p name = Inr p' \<Longrightarrow> p' = p\<lparr>pf_Scopes := pf_Scopes p'\<rparr> \<and> pf_Name p = name \<and> sorted (pf_Scopes p')"
  by (auto simp: Profile_Validate_iff validateScopes_def CanonicalScopes_def result_simps split: if_splits)

context file_reader
begin

lemma keeps_load: "keeps (files_follow ok rel) (Load cf name)"
  unfolding Load_def by (intro file_rules keeps_read)

lemma keeps_entries: "keeps (files_follow ok rel) (list_entries cf fs)"
  by (induction fs) (auto intro!: file_rules keeps_load split: sum.split)

lemma keeps_list: "keeps (files_follow ok rel) (List_profiles cf)"
  unfolding List_profiles_def by (intro file_rules keeps_read keeps_entries)

end

context file_client
begin

lemma keeps_publish:
  assumes "\<And>buf dir. ConfigDir cf = Inr dir \<Longrightarrow> free (child (profiles_dir dir) (''.'' @ (pf_Name p @ ProfileFileSuffix) @ ''.'' @ buf @ ''.tmp''))"
  shows "keeps (files_follow ok rel) (Publish cf p)"
proof -
  let ?k = "keeps (files_follow ok rel)"
  have rest: "?k (io_bind (io_of (ConfigDir cf)) (\<lambda>root.
     io_bind (io_map_error (wrap ''prepare configuration directory'') (EnsurePrivateDir root)) (\<lambda>_.
     io_bind (io_map_error (wrap ''prepare profile directory'') (EnsurePrivateDir (profiles_dir root))) (\<lambda>_.
     io_bind (WritePrivateFile (profiles_dir root) (pf_Name p' @ ProfileFileSuffix) data False) (\<lambda>_.
     io_bind (io_map_error (wrap ''reload published profile'') (Load cf (pf_Name p'))) (\<lambda>_. io_return ()))))))"
    if "pf_Name p' = pf_Name p" for p' data
  proof (cases "ConfigDir cf")
    case (Inr root)
    then have stored: "?k (WritePrivateFile (profiles_dir root) (pf_Name p' @ ProfileFileSuffix) data False)"
      using assms that by (intro keeps_write_private) simp_all
    have "?k (io_bind (io_map_error (wrap ''prepare configuration directory'') (EnsurePrivateDir root)) (\<lambda>_.
     io_bind (io_map_error (wrap ''prepare profile directory'') (EnsurePrivateDir (profiles_dir root))) (\<lambda>_.
     io_bind (WritePrivateFile (profiles_dir root) (pf_Name p' @ ProfileFileSuffix) data False) (\<lambda>_.
     io_bind (io_map_error (wrap ''reload published profile'') (Load cf (pf_Name p'))) (\<lambda>_. io_return ())))))"
      by (intro file_rules keeps_dir stored keeps_load)
    with Inr show ?thesis by (simp add: io_bind_def [of "io_of (Inr root)"] io_of_def keeps_def)
  qed (simp add: io_bind_def io_of_def keeps_def R_refl)
  show ?thesis
  proof (cases "Profile_Validate (cf_dialect cf) (cf_sha256 cf) p (pf_Name p)")
    case (Inr p')
    then have "pf_Name p' = pf_Name p" using Validate_result by (metis profile.select_convs(2) profile.surjective profile.update_convs(13))
    from rest [OF this] Inr show ?thesis
      unfolding Publish_def by (simp add: io_bind_def [of "io_of (Inr p')"] io_of_def keeps_def)
  qed (simp add: Publish_def io_bind_def io_of_def keeps_def R_refl)
qed

end

end
