(* ===== verification/Bootstrap.thy ===== *)
theory Bootstrap
  imports Profile_Files
begin

text \<open>
  Creation of a profile by an interactive or fully specified login (\<open>internal/bootstrap\<close>): the prompts, the
  choice of address, kind, name and issuer, the journal of an unfinished bootstrap, authorization and
  publication under the lease and the publication lock, recovery and discard.

  A \<open>boot_world\<close> extends the file system with what the code is given as interfaces: the profile session
  (its credentials and its lease), the catalog reader, the login of an existing profile, HTTP, the terminal
  and the context. Each call asks them at its own index, and other processes may act on the files before it.
  \<open>bw_renew\<close> are the answers of the lease renewals up to a call. The test hook \<open>beforePublish\<close> is nil.
\<close>

section \<open>Definitions\<close>

datatype terminal_read = Line string | FinalLine string | ReadError go_error

record boot_world = file_world +
  bw_OpenSession :: "nat \<Rightarrow> profile \<Rightarrow> go_error + unit"
  bw_Close :: "nat \<Rightarrow> go_error + unit"
  bw_Authorize :: "nat \<Rightarrow> bool \<Rightarrow> go_error + unit"
  bw_Token :: "nat \<Rightarrow> go_error + string"
  bw_Ready :: "nat \<Rightarrow> go_error + bool"
  bw_Logout :: "nat \<Rightarrow> go_error + unit"
  bw_ClaimLease :: "nat \<Rightarrow> string \<Rightarrow> string \<Rightarrow> int \<Rightarrow> go_error + bool"
  bw_ReleaseLease :: "nat \<Rightarrow> string \<Rightarrow> string \<Rightarrow> go_error + unit"
  bw_LeaseGeneration :: "nat \<Rightarrow> string \<Rightarrow> string \<Rightarrow> go_error + int \<times> bool"
  bw_CommitLease :: "nat \<Rightarrow> string \<Rightarrow> string \<Rightarrow> int \<Rightarrow> go_error + bool"
  bw_renew :: "nat \<Rightarrow> (go_error + bool) list"
  bw_ReadCatalog :: "nat \<Rightarrow> string \<Rightarrow> string \<Rightarrow> go_error + DiscoverResult option \<times> UpstreamTool option list"
  bw_LoginExisting :: "nat \<Rightarrow> profile \<Rightarrow> go_error + unit"
  bw_fetch :: "nat \<Rightarrow> fetch"
  bw_ctx :: "nat \<Rightarrow> bool"
  bw_input :: "terminal_read list"
  bw_out :: "string list"

record options = config +
  op_ConfigDirSet :: bool
  op_Interactive :: bool
  op_windows :: bool
  op_pid :: int

record Request =
  rq_Address :: string
  rq_AddressSet :: bool
  rq_Type :: string
  rq_TypeSet :: bool
  rq_Profile :: string
  rq_ProfileSet :: bool
  rq_Issuer :: string
  rq_IssuerSet :: bool
  rq_Yes :: bool
  rq_NoBrowser :: bool

record Result =
  re_Name :: string
  re_Created :: bool
  re_ServeCommand :: string

record candidate =
  ca_Name :: string
  ca_Origin :: string
  ca_Endpoint :: string
  ca_Issuer :: string
  ca_Template :: Template

type_synonym 'a boot = "boot_world \<Rightarrow> (go_error + 'a) \<times> boot_world"

definition LeaseName :: string where
  "LeaseName = ''bootstrap/create''"

definition leaseTTL :: int where
  "leaseTTL = 30 * Second"

subsection \<open>Errors\<close>

definition StatusFailed :: int where
  "StatusFailed = 1"

definition StatusUsage :: int where
  "StatusUsage = 2"

definition usageErr :: "go_error \<Rightarrow> go_error" where
  "usageErr e = ExitErr StatusUsage e"

definition failErr :: "go_error \<Rightarrow> go_error" where
  "failErr e = ExitErr StatusFailed e"

definition cancelled :: go_error where
  "cancelled = failErr (Sentinel ErrCancelled)"

text \<open>The cause is part of the message only.\<close>

definition incomplete :: "go_error \<Rightarrow> go_error" where
  "incomplete e = failErr (Errorf ''bootstrap is incomplete and can be resumed'' [Sentinel ErrIncomplete])"

definition busy :: "string \<Rightarrow> go_error" where
  "busy m = Errorf m [Sentinel ErrBootstrapBusy]"

definition preserved :: go_error where
  "preserved = failErr (Errorf ''existing profile was preserved'' [Sentinel ErrProfileExists])"

subsection \<open>Calls\<close>

definition ask_world :: "(boot_world \<Rightarrow> nat \<Rightarrow> 'r) \<Rightarrow> boot_world \<Rightarrow> 'r \<times> boot_world" where
  "ask_world f w = (f w (fw_calls w), interfere w)"

definition context_done :: "bool boot" where
  "context_done = ask_world (\<lambda>w n. Inr (bw_ctx w n))"

subsection \<open>Prompts\<close>

definition prompt_note :: "string \<Rightarrow> unit boot" where
  "prompt_note m w = (Inr (), w\<lparr>bw_out := bw_out w @ [''tama-link: '' @ m @ [CHR 0x0A]]\<rparr>)"

definition prompt_print :: "string \<Rightarrow> unit boot" where
  "prompt_print m w = (Inr (), w\<lparr>bw_out := bw_out w @ [m]\<rparr>)"

definition read_line :: "string \<Rightarrow> string boot" where
  "read_line label w =
     (case bw_input w of
        [] \<Rightarrow> (Inl cancelled, w)
      | Line text # rest \<Rightarrow> (Inr (trim_space text), w\<lparr>bw_input := rest\<rparr>)
      | FinalLine text # rest \<Rightarrow>
          ((if trim_space text = [] then Inl cancelled else Inr (trim_space text)), w\<lparr>bw_input := []\<rparr>)
      | ReadError e # rest \<Rightarrow> (Inl (failErr (wrap (''read '' @ label) e)), w\<lparr>bw_input := rest\<rparr>))"

definition prompt_line :: "options \<Rightarrow> string \<Rightarrow> string boot" where
  "prompt_line op label =
     (if \<not> op_Interactive op then io_fail (usageErr (errors_New ''login requires a flag when input is not a terminal''))
      else io_bind context_done (\<lambda>stop.
        if stop then io_fail cancelled
        else io_then (prompt_print label) (read_line label)))"

definition prompt_ask :: "options \<Rightarrow> string \<Rightarrow> string \<Rightarrow> string boot" where
  "prompt_ask op label fallback =
     (let prompt = (if fallback \<noteq> [] then label @ '' ['' @ fallback @ '']: ''
                    else if \<not> has_suffix '' '' label \<and> \<not> has_suffix '': '' label then label @ '': '' else label)
      in io_bind (prompt_line op prompt) (\<lambda>got. io_return (if got = [] then fallback else got)))"

definition prompt_confirm :: "options \<Rightarrow> string \<Rightarrow> bool \<Rightarrow> bool boot" where
  "prompt_confirm op label defYes =
     io_bind (prompt_line op (label @ (if defYes then '' [Y/n]'' else '' [y/N]'') @ '' '')) (\<lambda>got.
     if ascii_lower got = [] then io_return defYes
     else if ascii_lower got \<in> {''y'', ''yes''} then io_return True
     else if ascii_lower got \<in> {''n'', ''no''} then io_return False
     else io_fail (usageErr (errors_New ''answer yes or no'')))"

text \<open>
  \<open>fmt.Sscan\<close> of an integer: a sign, a base prefix, then as many digits and underscores as there are; what
  follows is not read. \<open>strconv.ParseInt\<close> with base 0 wants the underscores between digits.
\<close>

definition digit_value :: "char \<Rightarrow> int option" where
  "digit_value c = map_option int (unhex c)"

definition in_base :: "int \<Rightarrow> char \<Rightarrow> bool" where
  "in_base b c = (case digit_value c of Some d \<Rightarrow> d < b | None \<Rightarrow> False)"

fun underscores_ok :: "bool \<Rightarrow> string \<Rightarrow> bool" where
  "underscores_ok after_digit [] = after_digit"
| "underscores_ok after_digit (c # cs) =
     (if c = CHR ''_'' then after_digit \<and> cs \<noteq> [] \<and> hd cs \<noteq> CHR ''_'' \<and> underscores_ok False cs
      else underscores_ok True cs)"

definition scan_number :: "bool \<Rightarrow> int \<Rightarrow> bool \<Rightarrow> string \<Rightarrow> int option" where
  "scan_number negative base prefixed s =
     (let ds = takeWhile (\<lambda>c. in_base base c \<or> c = CHR ''_'') s;
          value = foldl (\<lambda>acc c. base * acc + the (digit_value c)) 0 (filter (\<lambda>c. c \<noteq> CHR ''_'') ds);
          n = (if negative then - value else value)
      in if filter (\<lambda>c. c \<noteq> CHR ''_'') ds \<noteq> [] \<and> underscores_ok prefixed ds \<and> in_int64 n then Some n else None)"

definition sscan_int :: "string \<Rightarrow> int option" where
  "sscan_int text =
     (let s = dropWhile ascii_space text; negative = take 1 s = ''-'';
          s = (if take 1 s \<in> {''+'', ''-''} then drop 1 s else s)
      in if take 1 s \<noteq> ''0'' then scan_number negative 10 False s
         else if take 1 (drop 1 s) \<in> {''b'', ''B''} then scan_number negative 2 True (drop 2 s)
         else if take 1 (drop 1 s) \<in> {''o'', ''O''} then scan_number negative 8 True (drop 2 s)
         else if take 1 (drop 1 s) \<in> {''x'', ''X''} then scan_number negative 16 True (drop 2 s)
         else scan_number negative 8 False s)"

definition prompt_choose :: "options \<Rightarrow> string \<Rightarrow> string list \<Rightarrow> nat boot" where
  "prompt_choose op label choices =
     (if \<not> op_Interactive op then io_fail (usageErr (errors_New ''login requires an explicit choice when input is not a terminal''))
      else io_then (prompt_print (label @ [CHR 0x0A])) (
        io_then (prompt_print (concat (map (\<lambda>(i, choice). ''  '' @ format_int (int i) @ ''. '' @ choice @ [CHR 0x0A]) (enumerate 1 choices)))) (
        io_bind (prompt_line op ''Choice: '') (\<lambda>got.
        case sscan_int got of
          None \<Rightarrow> io_fail (usageErr (errors_New ''choose a listed option''))
        | Some index \<Rightarrow>
            if index < 1 \<or> index > int (length choices) then io_fail (usageErr (errors_New ''choose a listed option''))
            else io_return (nat (index - 1))))))"

subsection \<open>The command to run next\<close>

definition sameIssuer :: "string \<Rightarrow> string \<Rightarrow> bool" where
  "sameIssuer left right \<longleftrightarrow> trim_suffix ''/'' left = trim_suffix ''/'' right"

fun replace_quotes :: "string \<Rightarrow> string" where
  "replace_quotes [] = []"
| "replace_quotes (c # cs) = (if c = CHR 0x27 then [CHR 0x27, CHR 0x5C, CHR 0x27, CHR 0x27] else [c]) @ replace_quotes cs"

text \<open>The loop of \<open>quoteWindowsArg\<close>: \<open>n\<close> backslashes are pending.\<close>

fun quote_windows :: "nat \<Rightarrow> string \<Rightarrow> string" where
  "quote_windows n [] = replicate (2 * n) (CHR 0x5C)"
| "quote_windows n (c # cs) =
     (if c = CHR 0x5C then quote_windows (Suc n) cs
      else if c = CHR 0x22 then replicate (2 * n + 1) (CHR 0x5C) @ [CHR 0x22] @ quote_windows 0 cs
      else replicate n (CHR 0x5C) @ [c] @ quote_windows 0 cs)"

definition quoteWindowsArg :: "string \<Rightarrow> string" where
  "quoteWindowsArg value =
     (if value = [] then [CHR 0x22, CHR 0x22]
      else if \<not> list_ex (\<lambda>c. c \<in> {CHR '' '', CHR 0x09, CHR 0x22}) value then value
      else [CHR 0x22] @ quote_windows 0 value @ [CHR 0x22])"

definition quoteCommandArg :: "bool \<Rightarrow> string \<Rightarrow> string" where
  "quoteCommandArg windows value =
     (if windows then quoteWindowsArg value else [CHR 0x27] @ replace_quotes value @ [CHR 0x27])"

definition serveCommand :: "bool \<Rightarrow> string \<Rightarrow> string \<Rightarrow> bool \<Rightarrow> string" where
  "serveCommand windows name configDir chosen =
     ''tama-link serve --profile '' @ name
     @ (if chosen \<and> configDir \<noteq> [] then '' --config-dir '' @ quoteCommandArg windows configDir else [])"

subsection \<open>The journal\<close>

record journal =
  jr_Version :: int
  jr_ID :: string
  jr_Name :: string
  jr_Origin :: string
  jr_Endpoint :: string
  jr_Issuer :: string
  jr_Template :: string
  jr_Scopes :: "string list"
  jr_Database :: string
  jr_Credentials :: string
  jr_Stage :: string

definition journalVersion :: int where
  "journalVersion = 1"

definition maxJournalBytes :: int where
  "maxJournalBytes = 16 * 1024"

definition stageReserved :: string where
  "stageReserved = ''reserved''"

definition stageAuthorized :: string where
  "stageAuthorized = ''authorized''"

definition stateDatabase :: string where
  "stateDatabase = ''default''"

definition stateCredentials :: string where
  "stateCredentials = ''default''"

definition journal_validate :: "journal \<Rightarrow> go_error + unit" where
  "journal_validate j =
     rbind (ensure (jr_Version j = journalVersion) (errors_New ''unsupported bootstrap journal version'')) (\<lambda>_.
     rbind (ensure (\<not> (jr_ID j = [] \<or> length (jr_ID j) > 64)) (errors_New ''bootstrap journal has an invalid id'')) (\<lambda>_.
     rbind (ParseName (jr_Name j)) (\<lambda>name.
     rbind (ParseOrigin (jr_Origin j)) (\<lambda>_.
     rbind (ParseSecureURL (jr_Endpoint j)) (\<lambda>_.
     rbind (ParseSecureURL (jr_Issuer j)) (\<lambda>_.
     rbind (ensure (jr_Template j = ''app'' \<or> jr_Template j = ''system-read'') (errors_New ''bootstrap journal has an unknown template'')) (\<lambda>_.
     rbind (case CanonicalScopes (jr_Scopes j) of
              Inl _ \<Rightarrow> Inl (errors_New ''bootstrap journal has invalid scopes'')
            | Inr _ \<Rightarrow> ensure (jr_Scopes j \<noteq> []) (errors_New ''bootstrap journal has invalid scopes'')) (\<lambda>_.
     rbind (ensure (jr_Database j = stateDatabase \<and> jr_Credentials j = stateCredentials)
              (errors_New ''bootstrap journal has unexpected state references'')) (\<lambda>_.
     rbind (ensure (jr_Stage j = stageReserved \<or> jr_Stage j = stageAuthorized) (errors_New ''bootstrap journal has an unknown stage'')) (\<lambda>_.
     ensure (name = jr_Name j) (errors_New ''bootstrap journal name does not match'')))))))))))"

definition marshal_journal :: "journal \<Rightarrow> json" where
  "marshal_journal j = JObj
     [(''version'', JNum (format_int (jr_Version j))), (''id'', JStr (jr_ID j)), (''name'', JStr (jr_Name j)),
      (''origin'', JStr (jr_Origin j)), (''endpoint'', JStr (jr_Endpoint j)), (''issuer'', JStr (jr_Issuer j)),
      (''template'', JStr (jr_Template j)), (''scopes'', if jr_Scopes j = [] then JNull else JArr (map JStr (jr_Scopes j))),
      (''database'', JStr (jr_Database j)), (''credentials'', JStr (jr_Credentials j)), (''stage'', JStr (jr_Stage j))]"

definition encodeJournal :: "journal \<Rightarrow> string" where
  "encodeJournal j = encode (marshal_journal j) @ [CHR 0x0A]"

definition unmarshal_journal :: "json \<Rightarrow> journal option" where
  "unmarshal_journal v = (case read_struct [''version'', ''id'', ''name'', ''origin'', ''endpoint'', ''issuer'', ''template'',
       ''scopes'', ''database'', ''credentials'', ''stage''] (\<lambda>_ ms.
     case (field ''version'' read_int64 0 ms, field ''id'' read_string [] ms, field ''name'' read_string [] ms,
           field ''origin'' read_string [] ms, field ''endpoint'' read_string [] ms, field ''issuer'' read_string [] ms) of
       (Some version, Some ident, Some name, Some origin, Some endpoint, Some issuer) \<Rightarrow>
         (case (field ''template'' read_string [] ms, field ''scopes'' read_strings [] ms, field ''database'' read_string [] ms,
                field ''credentials'' read_string [] ms, field ''stage'' read_string [] ms) of
            (Some template, Some scopes, Some database, Some credentials, Some reached) \<Rightarrow>
              Some (Some \<lparr>jr_Version = version, jr_ID = ident, jr_Name = name, jr_Origin = origin, jr_Endpoint = endpoint,
                jr_Issuer = issuer, jr_Template = template, jr_Scopes = scopes, jr_Database = database,
                jr_Credentials = credentials, jr_Stage = reached\<rparr>)
          | _ \<Rightarrow> None)
     | _ \<Rightarrow> None) None v of Some j \<Rightarrow> j | None \<Rightarrow> None)"

definition decodeJournal :: "('m config_scheme) \<Rightarrow> string \<Rightarrow> go_error + journal" where
  "decodeJournal cf data =
     (case cf_decode cf data of
        None \<Rightarrow> Inl (errors_New ''decode bootstrap journal'')
      | Some v \<Rightarrow>
          (case unmarshal_journal v of
             None \<Rightarrow> Inl (errors_New ''decode bootstrap journal'')
           | Some j \<Rightarrow> rbind (journal_validate j) (\<lambda>_. Inr j)))"

subsection \<open>Journal files\<close>

definition StagingDirName :: string where
  "StagingDirName = ''bootstrap''"

definition stagingPath :: "'c config_scheme \<Rightarrow> go_error + string" where
  "stagingPath cf = rbind (ConfigDir cf) (\<lambda>dir. Inr (child dir StagingDirName))"

definition journalFile :: "string \<Rightarrow> string" where
  "journalFile name = name @ ''.json''"

definition prepareStaging :: "'c config_scheme \<Rightarrow> string boot" where
  "prepareStaging cf =
     io_bind (io_of (ConfigDir cf)) (\<lambda>dir.
     io_bind (io_map_error (\<lambda>e. failErr (wrap ''prepare configuration directory'' e)) (EnsurePrivateDir dir)) (\<lambda>_.
     io_bind (io_map_error (\<lambda>e. failErr (wrap ''prepare bootstrap staging directory'' e)) (EnsurePrivateDir (child dir StagingDirName))) (\<lambda>_.
     io_return (child dir StagingDirName))))"

definition journal_create :: "'c config_scheme \<Rightarrow> journal \<Rightarrow> unit boot" where
  "journal_create cf j =
     io_bind (io_of (journal_validate j)) (\<lambda>_.
     io_bind (prepareStaging cf) (\<lambda>dir.
     io_map_error (\<lambda>e. if errors_Is e ErrProfileExists then failErr (busy (jr_Name j)) else failErr (wrap ''create bootstrap journal'' e))
       (WritePrivateFile dir (journalFile (jr_Name j)) (encodeJournal j) False)))"

definition journal_save :: "'c config_scheme \<Rightarrow> journal \<Rightarrow> unit boot" where
  "journal_save cf j =
     io_bind (io_of (journal_validate j)) (\<lambda>_.
     io_bind (prepareStaging cf) (\<lambda>dir.
     io_map_error (\<lambda>e. failErr (wrap ''update bootstrap journal'' e))
       (WritePrivateFile dir (journalFile (jr_Name j)) (encodeJournal j) True)))"

definition removeJournal :: "'c config_scheme \<Rightarrow> string \<Rightarrow> unit boot" where
  "removeJournal cf name =
     io_bind (io_of (stagingPath cf)) (\<lambda>dir.
     io_map_error (\<lambda>e. failErr (wrap ''remove bootstrap journal'' e)) (RemovePrivateFile dir (journalFile name)))"

definition loadJournal :: "'c config_scheme \<Rightarrow> string \<Rightarrow> journal boot" where
  "loadJournal cf name =
     io_bind (io_of (stagingPath cf)) (\<lambda>dir.
     io_bind (ReadPrivateFile dir (journalFile name) maxJournalBytes) (\<lambda>data.
     io_of (decodeJournal cf data)))"

definition listJournals :: "'c config_scheme \<Rightarrow> string list boot" where
  "listJournals cf =
     io_bind (io_of (stagingPath cf)) (\<lambda>dir.
     io_bind (listProfileNames dir) (\<lambda>entries.
     io_return (sort (concat (map (\<lambda>e. if \<not> has_suffix ''.json'' e then []
        else case ParseName (trim_suffix ''.json'' e) of Inl _ \<Rightarrow> [] | Inr name \<Rightarrow> [name]) entries)))))"

definition newJournalID :: "string boot" where
  "newJournalID = ask_world (\<lambda>w n. map_error (wrap ''bootstrap id'') (rbind (fw_rand w n) (\<lambda>buf. Inr (hex_encode buf))))"

text \<open>\<open>os.IsNotExist\<close> does not unwrap.\<close>

definition IsNotExist :: "go_error \<Rightarrow> bool" where
  "IsNotExist e \<longleftrightarrow> e = Sentinel ENOENT"

definition journalFor :: "'c config_scheme \<Rightarrow> string \<Rightarrow> journal option boot" where
  "journalFor cf name =
     io_or (loadJournal cf name)
       (\<lambda>e. if IsNotExist e then io_return None else io_fail (failErr (wrap ''read bootstrap journal'' e)))
       (\<lambda>j. io_return (if jr_Name j \<noteq> [] then Some j else None))"

subsection \<open>The publication lock\<close>

definition open_lock :: "int \<Rightarrow> string \<Rightarrow> file_system \<Rightarrow> (go_error + unit) \<times> file_system" where
  "open_lock uid path fs =
     (case row_at fs path of
        None \<Rightarrow> create_file uid path fs
      | Some n \<Rightarrow> ((case nd_kind n of Symlink _ \<Rightarrow> Inl (Sentinel ELOOP) | Directory \<Rightarrow> Inl (errors_New ''is a directory'') | _ \<Rightarrow> Inr ()), fs))"

definition take_lock :: "unit boot" where
  "take_lock w = (case fw_fault w (fw_calls w) of
     Some e \<Rightarrow> (Inl e, interfere w)
   | None \<Rightarrow> (Inr (), (interfere w)\<lparr>fw_locked := True\<rparr>))"

definition drop_lock :: "unit boot" where
  "drop_lock w = (Inr (), w\<lparr>fw_locked := False\<rparr>)"

definition withPublicationLock :: "'c config_scheme \<Rightarrow> 'a boot \<Rightarrow> 'a boot" where
  "withPublicationLock cf fn =
     io_bind (prepareStaging cf) (\<lambda>dir.
     io_bind (io_map_error (wrap ''open publication directory'') (openDirNoFollow dir)) (\<lambda>_.
     io_bind Geteuid (\<lambda>euid.
     io_bind (io_map_error (wrap ''open publication lock'') (syscall (open_lock euid (child dir ''.publication.lock'')))) (\<lambda>_.
     io_bind (io_map_error (wrap ''lock publication'') take_lock) (\<lambda>_.
     io_finally fn drop_lock)))))"

subsection \<open>Collecting a candidate\<close>

definition address :: "options \<Rightarrow> Request \<Rightarrow> string boot" where
  "address op req = (if rq_AddressSet req then io_return (rq_Address req) else prompt_ask op ''Tama address'' [])"

definition ParseKind :: "string \<Rightarrow> go_error + profile_kind" where
  "ParseKind value =
     (if trim_space value = ''app'' then Inr KindApp
      else if trim_space value = ''system'' then Inr KindSystem
      else Inl (errors_New ''unsupported profile type''))"

definition request_kind :: "options \<Rightarrow> Request \<Rightarrow> profile_kind boot" where
  "request_kind op req =
     io_bind (if rq_TypeSet req then io_return (rq_Type req)
              else if \<not> op_Interactive op then io_return ''app''
              else prompt_ask op ''Type'' ''app'') (\<lambda>value.
     io_of (map_error usageErr (ParseKind value)))"

definition rejectExisting :: "options \<Rightarrow> string \<Rightarrow> unit boot" where
  "rejectExisting op name =
     io_or (Load op name)
       (\<lambda>e. if errors_Is e ErrProfileNotFound then io_return () else io_fail (usageErr e))
       (\<lambda>_. io_fail (usageErr (Errorf name [Sentinel ErrProfileExists])))"

definition profileName :: "options \<Rightarrow> Request \<Rightarrow> profile_kind \<Rightarrow> string boot" where
  "profileName op req k =
     (if \<not> rq_ProfileSet req \<and> \<not> op_Interactive op
      then io_bind (io_of (map_error usageErr (ParseName (DefaultName k)))) (\<lambda>name.
           io_bind (rejectExisting op name) (\<lambda>_. io_return name))
      else
        io_bind (if rq_ProfileSet req then io_return (rq_Profile req)
                 else prompt_ask op ''Profile name'' (DefaultName k)) (\<lambda>value.
        io_bind (io_of (map_error usageErr (ParseName value))) (\<lambda>name.
        io_or (rejectExisting op name)
          (\<lambda>e. if \<not> op_Interactive op \<or> rq_ProfileSet req then io_fail e
               else io_then (prompt_note (''profile '' @ quote name @ '' already exists'')) (
                 io_bind (prompt_ask op ''Profile name'' []) (\<lambda>got.
                 io_bind (io_of (map_error usageErr (ParseName got))) (\<lambda>name.
                 io_bind (rejectExisting op name) (\<lambda>_. io_return name)))))
          (\<lambda>_. io_return name))))"

definition selectIssuer :: "options \<Rightarrow> string option \<Rightarrow> string list \<Rightarrow> string boot" where
  "selectIssuer op wanted candidates =
     (case wanted of
        Some issuer \<Rightarrow>
          (case find (\<lambda>c. sameIssuer c issuer) candidates of
             Some c \<Rightarrow> io_return c
           | None \<Rightarrow> io_fail (usageErr (errors_New ''issuer is not advertised by the protected resource'')))
      | None \<Rightarrow>
          if length candidates = 1 then io_return (candidates ! 0)
          else if \<not> op_Interactive op
            then io_fail (usageErr (errors_New ''authorization server selection is ambiguous; pass --issuer''))
          else io_bind (prompt_choose op ''Authorization server:'' candidates) (\<lambda>index. io_return (candidates ! index)))"

definition find_issuer :: "options \<Rightarrow> string option \<Rightarrow> string \<Rightarrow> string list \<Rightarrow> string boot" where
  "find_issuer op wanted endpoint scopes =
     io_bind (io_map_error (\<lambda>_. failErr (errors_New ''discover protected-resource metadata''))
                (ask_world (\<lambda>w n. DiscoverProtectedResource (cf_decode op) (bw_fetch w n) endpoint))) (\<lambda>prm.
     io_bind (io_of (map_error failErr (ValidAuthorizationServers prm))) (\<lambda>candidates.
     io_bind (selectIssuer op wanted candidates) (\<lambda>selected.
     io_bind (io_map_error (\<lambda>_. failErr (errors_New ''discover authorization-server metadata''))
                (ask_world (\<lambda>w n. DiscoverAuthorizationServer (cf_decode op) (bw_fetch w n) selected))) (\<lambda>a.
     io_bind (io_of (map_error (\<lambda>_. failErr (errors_New ''template scopes are not advertised''))
                (CheckRequestedScopes \<lparr>md_PRM = prm, md_AS = a, md_ASURL = selected\<rparr> scopes))) (\<lambda>_.
     io_return (as_Issuer a))))))"

definition wanted_issuer :: "Request \<Rightarrow> string option" where
  "wanted_issuer req = (if rq_IssuerSet req then Some (rq_Issuer req) else None)"

definition collect :: "options \<Rightarrow> Request \<Rightarrow> candidate boot" where
  "collect op req =
     io_bind (address op req) (\<lambda>addr.
     io_bind (request_kind op req) (\<lambda>k.
     io_bind (io_of (map_error usageErr (ParseOrigin addr))) (\<lambda>origin.
     io_bind (io_of (map_error usageErr (EndpointFor origin k))) (\<lambda>endpoint.
     io_bind (profileName op req k) (\<lambda>name.
     io_bind (io_of (map_error failErr (Lookup (cf_dialect op) (cf_sha256 op) k))) (\<lambda>tmpl.
     io_bind (find_issuer op (wanted_issuer req) endpoint (tm_Scopes tmpl)) (\<lambda>issuer.
     io_return \<lparr>ca_Name = name, ca_Origin = origin, ca_Endpoint = endpoint, ca_Issuer = issuer, ca_Template = tmpl\<rparr>)))))))"

definition confirm :: "options \<Rightarrow> Request \<Rightarrow> candidate \<Rightarrow> unit boot" where
  "confirm op req cand =
     (if \<not> op_Interactive op \<or> rq_Yes req then io_return ()
      else io_then (prompt_note (''endpoint '' @ ca_Endpoint cand)) (
        io_then (prompt_note (''authorization server '' @ ca_Issuer cand)) (
        io_then (prompt_note (''profile '' @ ca_Name cand)) (
        io_then (prompt_note (''access '' @ tm_Label (ca_Template cand))) (
        io_bind (prompt_confirm op (if rq_NoBrowser req then ''Continue with manual authorization?'' else ''Continue in your browser?'') True) (\<lambda>go.
        if go then io_return () else io_fail cancelled))))))"

definition reserve :: "options \<Rightarrow> candidate \<Rightarrow> journal boot" where
  "reserve op cand =
     io_bind (io_map_error failErr newJournalID) (\<lambda>ident.
     let entry = \<lparr>jr_Version = journalVersion, jr_ID = ident, jr_Name = ca_Name cand, jr_Origin = ca_Origin cand,
           jr_Endpoint = ca_Endpoint cand, jr_Issuer = ca_Issuer cand, jr_Template = tm_ID (ca_Template cand),
           jr_Scopes = tm_Scopes (ca_Template cand), jr_Database = stateDatabase, jr_Credentials = stateCredentials,
           jr_Stage = stageReserved\<rparr>
     in io_bind (journal_create op entry) (\<lambda>_. io_return entry))"

subsection \<open>Profiles of a candidate\<close>

definition shellProfile :: "candidate \<Rightarrow> profile" where
  "shellProfile cand =
     \<lparr>pf_Version = 2, pf_Name = ca_Name cand, pf_Origin = ca_Origin cand, pf_Endpoint = ca_Endpoint cand,
      pf_Issuer = ca_Issuer cand, pf_Instructions = tm_Instructions (ca_Template cand),
      pf_ProtocolMin = tm_ProtocolMin (ca_Template cand), pf_ProtocolMax = tm_ProtocolMax (ca_Template cand),
      pf_Database = stateDatabase, pf_Credentials = stateCredentials, pf_Limits = None, pf_Operations = [],
      pf_Scopes = tm_Scopes (ca_Template cand), pf_Digest = []\<rparr>"

definition completeProfile :: "'c config_scheme \<Rightarrow> profile \<Rightarrow> Descriptor list \<Rightarrow> go_error + profile" where
  "completeProfile cf shell ops =
     (let full = shell\<lparr>pf_Operations := ops\<rparr> in
      rbind (Profile_ComputeDigest (cf_sha256 cf) full) (\<lambda>digest.
      Profile_Validate (cf_dialect cf) (cf_sha256 cf) (full\<lparr>pf_Digest := digest\<rparr>) (pf_Name full)))"

definition samePublished :: "'c config_scheme \<Rightarrow> profile \<Rightarrow> profile \<Rightarrow> bool" where
  "samePublished cf loaded expected \<longleftrightarrow>
     pf_Digest loaded \<noteq> [] \<and> pf_Digest expected \<noteq> [] \<and> pf_Digest loaded = pf_Digest expected
     \<and> Profile_ComputeDigest (cf_sha256 cf) loaded = Inr (pf_Digest loaded)"

definition createdResult :: "options \<Rightarrow> string \<Rightarrow> Result" where
  "createdResult op name =
     \<lparr>re_Name = name, re_Created = True, re_ServeCommand = serveCommand (op_windows op) name (cf_override op) (op_ConfigDirSet op)\<rparr>"

end
