(* ===== verification/Bootstrap_Run.thy ===== *)
theory Bootstrap_Run
  imports Bootstrap
begin

text \<open>
  The sequence of a bootstrap (\<open>internal/bootstrap/finish.go\<close>, \<open>recover.go\<close>, \<open>service.go\<close>): the claim of the
  session, authorization, publication, recovery, discard, and the whole login invocation. A session is
  represented by the profile it was opened for; its database lies at the path of that profile
  (\<open>cmd/tama-link/login_session.go\<close>).
\<close>

section \<open>Definitions\<close>

subsection \<open>Sessions\<close>

definition session_DatabasePath :: "options \<Rightarrow> profile \<Rightarrow> string" where
  "session_DatabasePath op shell = (case StateDir op of Inl _ \<Rightarrow> [] | Inr dir \<Rightarrow> DatabasePath dir shell)"

definition OpenSession :: "options \<Rightarrow> profile \<Rightarrow> unit boot" where
  "OpenSession op shell =
     io_bind (ask_world (\<lambda>w n. bw_OpenSession w n shell)) (\<lambda>_.
     io_or (io_of (StateDir op)) (\<lambda>e. io_then (ask_world bw_Close) (io_fail e)) (\<lambda>_. io_return ()))"

definition session_Close :: "unit boot" where
  "session_Close = ask_world bw_Close"

definition session_Ready :: "bool boot" where
  "session_Ready = ask_world bw_Ready"

definition session_Token :: "string boot" where
  "session_Token = ask_world bw_Token"

definition session_Logout :: "unit boot" where
  "session_Logout = ask_world bw_Logout"

definition session_Release :: "string \<Rightarrow> unit boot" where
  "session_Release owner = ask_world (\<lambda>w n. bw_ReleaseLease w n LeaseName owner)"

definition session_Commit :: "string \<Rightarrow> int \<Rightarrow> bool boot" where
  "session_Commit owner generation = ask_world (\<lambda>w n. bw_CommitLease w n LeaseName owner generation)"

definition newOwner :: "options \<Rightarrow> string boot" where
  "newOwner op = ask_world (\<lambda>w n. rbind (fw_rand w n) (\<lambda>buf. Inr (''bootstrap-'' @ format_int (op_pid op) @ ''-'' @ hex_encode buf)))"

definition claimBootstrapLease :: "string \<Rightarrow> int boot" where
  "claimBootstrapLease owner =
     io_bind (io_map_error (\<lambda>e. failErr (wrap ''claim bootstrap lease'' e))
                (ask_world (\<lambda>w n. bw_ClaimLease w n LeaseName owner leaseTTL))) (\<lambda>claimed.
     if \<not> claimed then io_fail (failErr (busy ''wait for it to finish and retry''))
     else io_or (ask_world (\<lambda>w n. bw_LeaseGeneration w n LeaseName owner))
       (\<lambda>e. io_then (session_Release owner) (io_fail (failErr (wrap ''read bootstrap lease'' e))))
       (\<lambda>(generation, held).
          if held then io_return generation
          else io_then (session_Release owner) (io_fail (failErr (busy ''bootstrap lease was lost'')))))"

text \<open>The body under the lock: the journal must still be the one of this bootstrap.\<close>

definition claim_session :: "options \<Rightarrow> profile \<Rightarrow> journal \<Rightarrow> string \<Rightarrow> (journal \<times> int) boot" where
  "claim_session op shell entry owner =
     io_bind (io_map_error (\<lambda>e. if IsNotExist e then failErr (busy ''bootstrap journal was removed before lease claim'')
                                 else incomplete (wrap ''read bootstrap journal before lease claim'' e))
                (loadJournal op (pf_Name shell))) (\<lambda>loaded.
     if jr_ID loaded \<noteq> jr_ID entry \<or> jr_Name loaded \<noteq> jr_Name entry
     then io_fail (failErr (busy ''bootstrap journal changed before lease claim''))
     else io_bind (io_map_error incomplete (OpenSession op shell)) (\<lambda>_.
       io_or (claimBootstrapLease owner)
         (\<lambda>e. io_then session_Close (io_fail e))
         (\<lambda>generation. io_return (loaded, generation))))"

definition openClaimedSession :: "options \<Rightarrow> profile \<Rightarrow> journal \<Rightarrow> string \<Rightarrow> (journal \<times> int) boot" where
  "openClaimedSession op shell entry owner = withPublicationLock op (claim_session op shell entry owner)"

text \<open>The renewal goroutine: it ends at the first renewal that fails or is refused.\<close>

fun renew_lost :: "(go_error + bool) list \<Rightarrow> bool" where
  "renew_lost [] = False"
| "renew_lost (r # rs) = (case r of Inr True \<Rightarrow> renew_lost rs | _ \<Rightarrow> True)"

definition work_lost :: "unit boot" where
  "work_lost =
     io_bind (ask_world (\<lambda>w n. Inr (bw_ctx w n \<or> renew_lost (bw_renew w n)))) (\<lambda>lost.
     if lost then io_fail (incomplete (busy ''bootstrap lease was lost'')) else io_return ())"

subsection \<open>Removing state\<close>

fun remove_files :: "string \<Rightarrow> string list \<Rightarrow> unit boot" where
  "remove_files dir [] = io_return ()"
| "remove_files dir (name # names) = io_bind (RemovePrivateFile dir name) (\<lambda>_. remove_files dir names)"

definition removeDatabasePath :: "string \<Rightarrow> unit boot" where
  "removeDatabasePath path =
     (if path = [] then io_return ()
      else case cut_last CHR ''/'' path of
        None \<Rightarrow> remove_files ''.'' (map (\<lambda>suf. path @ suf) [[], ''-wal'', ''-shm''])
      | Some (dir, name) \<Rightarrow> remove_files dir (map (\<lambda>suf. name @ suf) [[], ''-wal'', ''-shm'']))"

definition removeDatabase :: "options \<Rightarrow> profile \<Rightarrow> unit boot" where
  "removeDatabase op shell =
     io_bind (io_of (StateDir op)) (\<lambda>dir. removeDatabasePath (DatabasePath dir shell))"

text \<open>Cleanup after a failed authorization: the error is the cause, or the incomplete cleanup.\<close>

definition cleanup_failed :: "options \<Rightarrow> profile \<Rightarrow> string \<Rightarrow> string \<Rightarrow> go_error \<Rightarrow> unit boot" where
  "cleanup_failed op session owner name cause =
     io_or session_Ready (\<lambda>_. io_fail cause) (\<lambda>ready.
     if ready then io_fail cause
     else io_bind session_Logout (\<lambda>_.
       io_bind (session_Release owner) (\<lambda>_.
       io_bind session_Close (\<lambda>_.
       io_bind (removeDatabasePath (session_DatabasePath op session)) (\<lambda>_.
       removeJournal op name)))))"

definition afterAuthorizeFailure :: "options \<Rightarrow> profile \<Rightarrow> string \<Rightarrow> string \<Rightarrow> go_error \<Rightarrow> 'a boot" where
  "afterAuthorizeFailure op session owner name cause =
     io_or (withPublicationLock op (cleanup_failed op session owner name cause))
       (\<lambda>e. io_fail (incomplete e)) (\<lambda>_. io_fail (failErr cause))"

subsection \<open>Publication\<close>

definition reconcileWinner :: "options \<Rightarrow> candidate \<Rightarrow> profile \<Rightarrow> Result boot" where
  "reconcileWinner op cand expected =
     io_bind (io_map_error incomplete (Load op (ca_Name cand))) (\<lambda>loaded.
     if \<not> samePublished op loaded expected then io_fail preserved
     else io_bind (io_map_error incomplete (OpenSession op loaded)) (\<lambda>_.
       io_finally
         (io_bind (io_or session_Ready (\<lambda>_. io_return False) io_return) (\<lambda>ready.
          if \<not> ready then io_fail (incomplete (errors_New ''published profile has no matching credential''))
          else io_bind (removeJournal op (ca_Name cand)) (\<lambda>_. io_return (createdResult op (ca_Name cand)))))
         session_Close))"

text \<open>What the catalog says about a candidate: the profile to be published.\<close>

definition reviewed_profile :: "options \<Rightarrow> candidate \<Rightarrow> profile boot" where
  "reviewed_profile op cand =
     io_bind (io_map_error incomplete session_Token) (\<lambda>token.
     io_bind (io_map_error incomplete (ask_world (\<lambda>w n. bw_ReadCatalog w n (ca_Endpoint cand) token))) (\<lambda>(disc, live).
     io_bind (io_of (map_error incomplete (Materialize (ca_Template cand) disc live))) (\<lambda>ops.
     io_of (map_error incomplete (completeProfile op (shellProfile cand) ops)))))"

definition completePublished :: "options \<Rightarrow> candidate \<Rightarrow> profile \<Rightarrow> Result boot" where
  "completePublished op cand loaded =
     (if pf_Name loaded \<noteq> ca_Name cand \<or> pf_Origin loaded \<noteq> ca_Origin cand \<or> pf_Endpoint loaded \<noteq> ca_Endpoint cand
         \<or> pf_Issuer loaded \<noteq> ca_Issuer cand
      then io_fail preserved
      else io_bind (io_map_error incomplete (OpenSession op loaded)) (\<lambda>_.
        io_finally
          (io_bind (io_or session_Ready (\<lambda>_. io_return False) io_return) (\<lambda>ready.
           if \<not> ready then io_fail (incomplete (errors_New ''published profile has no matching credential''))
           else io_bind (reviewed_profile op cand) (\<lambda>expected. reconcileWinner op cand expected)))
          session_Close))"

text \<open>The gate of the lease, and the body of the publication under the lock.\<close>

definition lease_gate :: "string \<Rightarrow> int \<Rightarrow> unit boot" where
  "lease_gate owner generation =
     io_bind (io_map_error (\<lambda>e. incomplete (wrap ''confirm bootstrap lease'' e)) (session_Commit owner generation)) (\<lambda>held.
     if held then io_return () else io_fail (incomplete (busy ''bootstrap lease was lost before publication'')))"

definition publish_locked :: "options \<Rightarrow> candidate \<Rightarrow> journal \<Rightarrow> string \<Rightarrow> int \<Rightarrow> profile \<Rightarrow> unit boot" where
  "publish_locked op cand entry owner generation full =
     io_bind (io_or (loadJournal op (ca_Name cand)) (\<lambda>_. io_return False) (\<lambda>current. io_return (jr_ID current = jr_ID entry))) (\<lambda>same.
     if \<not> same then io_fail (incomplete (busy ''bootstrap was discarded before publication''))
     else io_bind (lease_gate owner generation) (\<lambda>_.
       io_bind (Publish op full) (\<lambda>_.
       io_bind (io_or session_Ready (\<lambda>_. io_return False) io_return) (\<lambda>ready.
       if \<not> ready then io_fail (incomplete (errors_New ''published profile has no matching credential''))
       else removeJournal op (ca_Name cand)))))"

definition authorize :: "options \<Rightarrow> Request \<Rightarrow> candidate \<Rightarrow> journal \<Rightarrow> profile \<Rightarrow> string \<Rightarrow> journal boot" where
  "authorize op req cand entry session owner =
     (if jr_Stage entry = stageAuthorized then io_return entry
      else io_or (ask_world (\<lambda>w n. bw_Authorize w n (rq_NoBrowser req)))
        (\<lambda>e. afterAuthorizeFailure op session owner (ca_Name cand) e)
        (\<lambda>_. io_bind (journal_save op (entry\<lparr>jr_Stage := stageAuthorized\<rparr>)) (\<lambda>_.
              io_return (entry\<lparr>jr_Stage := stageAuthorized\<rparr>))))"

definition publish_candidate ::
    "options \<Rightarrow> Request \<Rightarrow> candidate \<Rightarrow> journal \<Rightarrow> profile \<Rightarrow> string \<Rightarrow> int \<Rightarrow> Result boot" where
  "publish_candidate op req cand entry session owner generation =
     io_bind (authorize op req cand entry session owner) (\<lambda>entry.
     io_bind work_lost (\<lambda>_.
     io_bind (io_or session_Ready (\<lambda>_. io_return False) io_return) (\<lambda>ready.
     if \<not> ready then io_fail (incomplete (errors_New ''durable credential is not ready''))
     else io_bind (reviewed_profile op cand) (\<lambda>full.
       io_bind work_lost (\<lambda>_.
       io_bind (lease_gate owner generation) (\<lambda>_.
       io_or (withPublicationLock op (publish_locked op cand entry owner generation full))
         (\<lambda>e. if errors_Is e ErrProfileExists then reconcileWinner op cand full else io_fail e)
         (\<lambda>_. io_return (createdResult op (ca_Name cand)))))))))"

text \<open>
  \<open>os.Stat\<close> of \<open>profile.Path (s.opts.ConfigDir, name)\<close>: with no override the path is relative to the working
  directory. The call follows a link.
\<close>

definition stat_profile :: "options \<Rightarrow> string \<Rightarrow> file_system \<Rightarrow> go_error + unit" where
  "stat_profile op name fs =
     (let path = (if cf_override op = [] then ProfilesDirName @ ''/'' @ name @ ''.json'' else Path (cf_override op) name) in
      case row_at fs path of
        None \<Rightarrow> Inl (Sentinel ENOENT)
      | Some n \<Rightarrow> (case nd_kind n of Symlink t \<Rightarrow> if row_at fs t = None then Inl (Sentinel ENOENT) else Inr () | _ \<Rightarrow> Inr ()))"

definition finish :: "options \<Rightarrow> Request \<Rightarrow> candidate \<Rightarrow> journal \<Rightarrow> Result boot" where
  "finish op req cand entry =
     io_or (Load op (ca_Name cand))
       (\<lambda>e. if \<not> errors_Is e ErrProfileNotFound
            then io_or (inspect (stat_profile op (ca_Name cand))) (\<lambda>_. io_fail (incomplete e)) (\<lambda>_. io_fail preserved)
            else io_bind (io_map_error failErr (newOwner op)) (\<lambda>owner.
              io_bind (openClaimedSession op (shellProfile cand) entry owner) (\<lambda>(entry, generation).
              io_finally (io_finally (publish_candidate op req cand entry (shellProfile cand) owner generation) (session_Release owner)) session_Close)))
       (\<lambda>loaded. completePublished op cand loaded)"

subsection \<open>Discard\<close>

definition discard_profile :: "journal \<Rightarrow> profile" where
  "discard_profile entry =
     \<lparr>pf_Version = 2, pf_Name = jr_Name entry, pf_Origin = jr_Origin entry, pf_Endpoint = jr_Endpoint entry,
      pf_Issuer = jr_Issuer entry, pf_Instructions = ''discard'', pf_ProtocolMin = ''2026-07-28'', pf_ProtocolMax = ''2026-07-28'',
      pf_Database = stateDatabase, pf_Credentials = stateCredentials, pf_Limits = None, pf_Operations = [],
      pf_Scopes = jr_Scopes entry, pf_Digest = []\<rparr>"

definition discard_state :: "options \<Rightarrow> journal \<Rightarrow> unit boot" where
  "discard_state op entry =
     io_bind (io_map_error incomplete (OpenSession op (discard_profile entry))) (\<lambda>_.
     io_or (newOwner op) (\<lambda>e. io_then session_Close (io_fail (failErr e))) (\<lambda>owner.
     io_or (ask_world (\<lambda>w n. bw_ClaimLease w n LeaseName owner leaseTTL)) (\<lambda>e. io_then session_Close (io_fail (failErr e))) (\<lambda>claimed.
     if \<not> claimed then io_then session_Close (io_fail (failErr (busy ''wait for it to finish and retry'')))
     else io_or session_Logout (\<lambda>e. io_then (session_Release owner) (io_then session_Close (io_fail (incomplete e)))) (\<lambda>_.
       io_or (session_Release owner) (\<lambda>e. io_then (session_Release owner) (io_then session_Close (io_fail (incomplete e)))) (\<lambda>_.
       io_or session_Close (\<lambda>e. io_then session_Close (io_fail (incomplete e))) (\<lambda>_.
       io_bind (io_map_error incomplete (removeDatabase op (discard_profile entry))) (\<lambda>_.
       removeJournal op (jr_Name entry))))))))"

definition discardLocked :: "options \<Rightarrow> journal \<Rightarrow> unit boot" where
  "discardLocked op entry =
     io_or (Load op (jr_Name entry))
       (\<lambda>e. if \<not> errors_Is e ErrProfileNotFound then io_fail (failErr e) else discard_state op entry)
       (\<lambda>_. io_bind (removeJournal op (jr_Name entry)) (\<lambda>_.
             prompt_note (''preserved existing profile '' @ quote (jr_Name entry) @ '' and removed the bootstrap journal'')))"

definition discard :: "options \<Rightarrow> journal \<Rightarrow> unit boot" where
  "discard op entry = withPublicationLock op (discardLocked op entry)"

subsection \<open>Recovery\<close>

definition contradict :: "Request \<Rightarrow> journal \<Rightarrow> go_error + unit" where
  "contradict req entry =
     rbind (ensure (rq_AddressSet req \<longrightarrow> ParseOrigin (rq_Address req) = Inr (jr_Origin entry))
              (errors_New ''address does not match the unfinished bootstrap'')) (\<lambda>_.
     rbind (ensure (\<not> (rq_IssuerSet req \<and> \<not> sameIssuer (rq_Issuer req) (jr_Issuer entry)))
              (errors_New ''issuer does not match the unfinished bootstrap'')) (\<lambda>_.
     rbind (ensure (\<not> (rq_ProfileSet req \<and> rq_Profile req \<noteq> jr_Name entry))
              (errors_New ''profile name does not match the unfinished bootstrap'')) (\<lambda>_.
     ensure (rq_TypeSet req \<longrightarrow>
         ParseKind (rq_Type req) = Inr (if jr_Template entry = ''system-read'' then KindSystem else KindApp))
       (errors_New ''type does not match the unfinished bootstrap''))))"

definition resume :: "options \<Rightarrow> Request \<Rightarrow> journal \<Rightarrow> Result boot" where
  "resume op req entry =
     io_bind (io_of (map_error usageErr (contradict req entry))) (\<lambda>_.
     io_bind (io_of (map_error failErr (Lookup (cf_dialect op) (cf_sha256 op)
                (if jr_Template entry = ''system-read'' then KindSystem else KindApp)))) (\<lambda>tmpl.
     io_bind (find_issuer op (Some (jr_Issuer entry)) (jr_Endpoint entry) (tm_Scopes tmpl)) (\<lambda>issuer.
     if issuer \<noteq> jr_Issuer entry then io_fail (failErr (errors_New ''advertised issuer no longer matches the bootstrap journal''))
     else let cand = \<lparr>ca_Name = jr_Name entry, ca_Origin = jr_Origin entry, ca_Endpoint = jr_Endpoint entry,
            ca_Issuer = issuer, ca_Template = tmpl\<rparr>
       in io_or (Load op (ca_Name cand)) (\<lambda>_. finish op req cand entry) (\<lambda>loaded. completePublished op cand loaded))))"

text \<open>\<open>Some\<close> ends the invocation with a result, \<open>None\<close> goes on.\<close>

definition recoverOutstanding :: "options \<Rightarrow> Request \<Rightarrow> Result option boot" where
  "recoverOutstanding op req =
     io_bind (io_map_error failErr (listJournals op)) (\<lambda>names.
     if names = [] then io_return None
     else if \<not> op_Interactive op
       then if rq_ProfileSet req \<and> rq_Profile req \<in> set names
         then io_fail (incomplete (errors_New ''profile has an unfinished bootstrap'')) else io_return None
     else
       let choices = concat (map (\<lambda>name. [''resume '' @ name, ''discard '' @ name]) names) @ [''continue'']
       in io_bind (prompt_choose op ''Incomplete bootstrap:'' choices) (\<lambda>index.
          if index = length choices - 1 then io_return None
          else io_bind (io_map_error failErr (loadJournal op (names ! (index div 2)))) (\<lambda>entry.
            if index mod 2 = 1 then io_bind (discard op entry) (\<lambda>_. io_return None)
            else io_bind (resume op req entry) (\<lambda>r. io_return (Some r)))))"

subsection \<open>The login invocation\<close>

definition create :: "options \<Rightarrow> Request \<Rightarrow> Result boot" where
  "create op req =
     io_bind (collect op req) (\<lambda>cand.
     io_bind (journalFor op (ca_Name cand)) (\<lambda>existing.
     case existing of
       Some entry \<Rightarrow> resume op req entry
     | None \<Rightarrow>
         io_bind (confirm op req cand) (\<lambda>_.
         io_bind (reserve op cand) (\<lambda>entry.
         finish op req cand entry))))"

definition login_existing :: "profile \<Rightarrow> string \<Rightarrow> Result boot" where
  "login_existing p name =
     io_bind (ask_world (\<lambda>w n. bw_LoginExisting w n p)) (\<lambda>_.
     io_return \<lparr>re_Name = name, re_Created = False, re_ServeCommand = []\<rparr>)"

definition runNamed :: "options \<Rightarrow> Request \<Rightarrow> Result boot" where
  "runNamed op req =
     io_bind (io_of (map_error usageErr (ParseName (rq_Profile req)))) (\<lambda>name.
     io_or (Load op name)
       (\<lambda>e. if \<not> errors_Is e ErrProfileNotFound then io_fail (usageErr e)
            else if \<not> op_Interactive op \<and> \<not> rq_AddressSet req then io_fail (usageErr e)
            else io_bind (if op_Interactive op \<and> \<not> rq_AddressSet req
                          then io_bind (prompt_confirm op (''Profile '' @ quote name @ '' does not exist. Create it?'') False) (\<lambda>go.
                               if go then io_return () else io_fail cancelled)
                          else io_return ()) (\<lambda>_.
              create op (req\<lparr>rq_Profile := name, rq_ProfileSet := True\<rparr>)))
       (\<lambda>loaded.
          if rq_AddressSet req \<or> rq_TypeSet req \<or> rq_IssuerSet req \<or> rq_Yes req
          then io_fail (usageErr (errors_New ''existing profile already owns its address, type, and issuer''))
          else login_existing loaded name))"

fun note_unreadable :: "entry list \<Rightarrow> entry list boot" where
  "note_unreadable [] = io_return []"
| "note_unreadable (e # es) =
     (if \<not> Entry_Valid e
      then io_then (prompt_note (''skipping unreadable profile '' @ (if en_Name e \<noteq> [] then quote (en_Name e) else ''file'')))
             (note_unreadable es)
      else io_bind (note_unreadable es) (\<lambda>vs. io_return (e # vs)))"

definition runMenu :: "options \<Rightarrow> Request \<Rightarrow> Result boot" where
  "runMenu op req =
     io_bind (io_map_error failErr (List_profiles op)) (\<lambda>entries.
     io_bind (note_unreadable entries) (\<lambda>valid.
     if valid = [] \<or> rq_AddressSet req then create op req
     else io_bind (prompt_choose op ''Profiles:'' (map (\<lambda>e. ''log in '' @ en_Name e) valid @ [''add another Tama instance''])) (\<lambda>index.
       if index = length valid then create op req
       else login_existing (the (en_Profile (valid ! index))) (en_Name (valid ! index)))))"

definition Run :: "options \<Rightarrow> Request \<Rightarrow> Result boot" where
  "Run op req =
     io_bind context_done (\<lambda>stop.
     if stop then io_fail cancelled
     else io_bind (recoverOutstanding op req) (\<lambda>r.
       case r of
         Some result \<Rightarrow> io_return result
       | None \<Rightarrow>
           if rq_ProfileSet req then runNamed op req
           else if \<not> op_Interactive op
             then if \<not> rq_AddressSet req then io_fail (usageErr (errors_New ''login requires --profile or --address''))
                  else create op req
           else runMenu op req))"

end
