(* ===== verification/Bootstrap_Safety.thy ===== *)
theory Bootstrap_Safety
  imports Bootstrap_Run
begin

text \<open>
  What a bootstrap does to the files, for every answer of the session and the servers, every failing system
  call and whatever other processes do in between: the locale \<open>boot_client\<close> reduces a relation between the
  files before and after a whole invocation to the paths that it leaves free.
\<close>

section \<open>Lemmas\<close>

subsection \<open>Paths\<close>

lemma cut_last_child:
  assumes "c \<notin> set b"
  shows "cut_last c (a @ c # b) = Some (a, b)"
proof -
  have "dropWhile (\<lambda>x. x \<noteq> c) (rev b @ c # rev a) = c # rev a" "takeWhile (\<lambda>x. x \<noteq> c) (rev b @ c # rev a) = rev b"
    using assms by (auto simp: dropWhile_append3 takeWhile_append2 takeWhile_tail)
  then show ?thesis by (simp add: cut_last_def)
qed

lemma database_files:
  assumes "pf_Database p = stateDatabase"
  shows "removeDatabasePath (DatabasePath dir p)
    = remove_files (dir @ ''/'' @ ProfilesDirName @ ''/'' @ pf_Name p) [''default.db'', ''default.db-wal'', ''default.db-shm'']"
proof -
  have "DatabasePath dir p = (dir @ ''/'' @ ProfilesDirName @ ''/'' @ pf_Name p) @ CHR ''/'' # ''default.db''"
    using assms by (simp add: DatabasePath_def stateDatabase_def)
  moreover have "cut_last CHR ''/'' \<dots> = Some (dir @ ''/'' @ ProfilesDirName @ ''/'' @ pf_Name p, ''default.db'')"
    by (rule cut_last_child) simp
  ultimately show ?thesis by (simp add: removeDatabasePath_def)
qed

context file_reader
begin

lemma keeps_ask: "keeps (files_follow ok rel) (ask_world f)"
  by (simp add: keeps_def ask_world_def follow_interfere)

lemma keeps_terminal:
  "keeps (files_follow ok rel) (prompt_note m)" "keeps (files_follow ok rel) (prompt_print m)"
  "keeps (files_follow ok rel) (read_line label)"
  by (auto simp: keeps_def files_follow_def fair_files_def prompt_note_def prompt_print_def read_line_def rel_refl
      split: list.split terminal_read.split)

lemma keeps_prompts:
  "keeps (files_follow ok rel) context_done"
  "keeps (files_follow ok rel) (prompt_line op label)" "keeps (files_follow ok rel) (prompt_ask op label fallback)"
  "keeps (files_follow ok rel) (prompt_confirm op label defYes)" "keeps (files_follow ok rel) (prompt_choose op label choices)"
proof -
  show ctx: "keeps (files_follow ok rel) context_done" unfolding context_done_def by (rule keeps_ask)
  show line: "keeps (files_follow ok rel) (prompt_line op label)" for label
    unfolding prompt_line_def by (intro file_rules ctx keeps_terminal)
  show "keeps (files_follow ok rel) (prompt_ask op label fallback)" unfolding prompt_ask_def Let_def by (intro file_rules line)
  show "keeps (files_follow ok rel) (prompt_confirm op label defYes)" unfolding prompt_confirm_def by (intro file_rules line)
  show "keeps (files_follow ok rel) (prompt_choose op label choices)"
    unfolding prompt_choose_def by (intro file_rules line keeps_terminal)
qed

lemma keeps_journal_read:
  "keeps (files_follow ok rel) (loadJournal cf name)"
  "keeps (files_follow ok rel) (listJournals cf)" "keeps (files_follow ok rel) (journalFor cf name)"
proof -
  show load: "keeps (files_follow ok rel) (loadJournal cf name)" unfolding loadJournal_def by (intro file_rules keeps_read)
  show "keeps (files_follow ok rel) (listJournals cf)" unfolding listJournals_def by (intro file_rules keeps_read)
  show "keeps (files_follow ok rel) (journalFor cf name)" unfolding journalFor_def by (intro file_rules load)
qed

lemma keeps_session:
  "keeps (files_follow ok rel) (OpenSession op p)" "keeps (files_follow ok rel) session_Close"
  "keeps (files_follow ok rel) session_Ready" "keeps (files_follow ok rel) session_Token"
  "keeps (files_follow ok rel) session_Logout" "keeps (files_follow ok rel) (session_Release owner)"
  "keeps (files_follow ok rel) (session_Commit owner generation)" "keeps (files_follow ok rel) (newOwner op)"
  "keeps (files_follow ok rel) newJournalID" "keeps (files_follow ok rel) work_lost"
  unfolding OpenSession_def session_Close_def session_Ready_def session_Token_def session_Logout_def session_Release_def
    session_Commit_def newOwner_def newJournalID_def work_lost_def
  by (intro file_rules keeps_ask)+

lemma keeps_claim: "keeps (files_follow ok rel) (claimBootstrapLease owner)" "keeps (files_follow ok rel) (claim_session op p entry owner)"
proof -
  show claim: "keeps (files_follow ok rel) (claimBootstrapLease owner)"
    unfolding claimBootstrapLease_def split_def by (intro file_rules keeps_ask keeps_session)
  show "keeps (files_follow ok rel) (claim_session op p entry owner)"
    unfolding claim_session_def by (intro file_rules claim keeps_journal_read keeps_session)
qed

lemma keeps_gate: "keeps (files_follow ok rel) (lease_gate owner generation)" "keeps (files_follow ok rel) (reviewed_profile op cand)"
  unfolding lease_gate_def reviewed_profile_def split_def by (intro file_rules keeps_session keeps_ask)+

end

context file_client
begin

lemma keeps_staging: "keeps (files_follow ok rel) (prepareStaging cf)"
  unfolding prepareStaging_def by (intro file_rules keeps_dir)

lemma keeps_remove_files:
  "\<forall>n \<in> set names. free (child dir n) \<Longrightarrow> keeps (files_follow ok rel) (remove_files dir names)"
  by (induction names) (auto intro!: file_rules keeps_remove)

end

text \<open>A relation that leaves free what a bootstrap may change: staging names, the staging directory and the state files.\<close>

locale boot_client = file_client ok rel free for ok rel free +
  fixes op :: options
  assumes ok_any: "ok l"
    and free_tmp: "free (child d (''.'' @ n @ ''.'' @ buf @ ''.tmp''))"
    and free_staging: "ConfigDir op = Inr dir \<Longrightarrow> free (child (child dir StagingDirName) f)"
    and free_state: "suf \<in> {[], ''-wal'', ''-shm''} \<Longrightarrow> free (child d (''default.db'' @ suf))"
begin

abbreviation K :: "(boot_world \<Rightarrow> 'r \<times> boot_world) \<Rightarrow> bool" where
  "K \<equiv> keeps (files_follow ok rel)"

lemma keeps_lock_calls: "K take_lock" "K drop_lock" "K (syscall (open_lock uid path))"
proof -
  show "K take_lock" "K drop_lock"
    using follow_interfere ok_any
    by (auto simp: keeps_def take_lock_def drop_lock_def files_follow_def fair_files_def rel_refl split: option.split)
  show "K (syscall (open_lock uid path))"
    by (rule keeps_syscall) (auto simp: open_lock_def create_file_def rel_refl rel_new split: option.split)
qed

lemma keeps_lock: "K fn \<Longrightarrow> K (withPublicationLock op fn)"
  unfolding withPublicationLock_def by (intro file_rules keeps_staging keeps_open keeps_lock_calls)

lemma keeps_remove_journal: "K (removeJournal op name)"
  unfolding removeJournal_def
  by (rule keeps_bind_result, rule keeps_of)
    (auto simp: io_of_def stagingPath_def result_simps intro!: keeps_map_error keeps_remove free_staging)

lemma staging_result: "prepareStaging cf w = (Inr x, w') \<Longrightarrow> \<exists>dir. ConfigDir cf = Inr dir \<and> x = child dir StagingDirName"
  by (auto simp: prepareStaging_def io_bind_Inr io_of_def)

lemma keeps_journal_write: "K (journal_create op j)" "K (journal_save op j)"
proof -
  have stored: "K (WritePrivateFile dir f data replace)" if "prepareStaging op w = (Inr dir, w')" for dir f data replace w w'
    using staging_result [OF that] by (intro keeps_write_private) (auto intro: free_staging free_tmp)
  show "K (journal_create op j)" "K (journal_save op j)"
    unfolding journal_create_def journal_save_def
    by (rule keeps_bind, rule keeps_of, rule keeps_bind_result, rule keeps_staging, rule keeps_map_error, erule stored)+
qed

lemma keeps_publish_profile: "K (Publish op p)"
  by (rule keeps_publish) (rule free_tmp)

lemma keeps_database: "pf_Database p = stateDatabase \<Longrightarrow> K (removeDatabasePath (session_DatabasePath op p))"
  "pf_Database p = stateDatabase \<Longrightarrow> K (removeDatabase op p)"
proof -
  assume p: "pf_Database p = stateDatabase"
  have files: "K (removeDatabasePath (DatabasePath dir p))" for dir
    unfolding database_files [OF p]
    by (rule keeps_remove_files) (use free_state [of "[]"] free_state [of "''-wal''"] free_state [of "''-shm''"] in simp)
  then show "K (removeDatabasePath (session_DatabasePath op p))"
    by (auto simp: session_DatabasePath_def removeDatabasePath_def [of "[]"] keeps_return split: sum.split)
  show "K (removeDatabase op p)" unfolding removeDatabase_def by (intro file_rules files)
qed

lemma shell_database [simp]: "pf_Database (shellProfile cand) = stateDatabase" "pf_Database (discard_profile j) = stateDatabase"
  by (simp_all add: shellProfile_def discard_profile_def)

subsection \<open>The whole invocation\<close>

lemma keeps_collect: "K (collect op req)" "K (find_issuer op wanted endpoint scopes)" "K (rejectExisting op name)"
proof -
  show reject: "K (rejectExisting op name)" for name unfolding rejectExisting_def by (intro file_rules keeps_load)
  have name: "K (profileName op req k)" for k
    unfolding profileName_def by (intro file_rules keeps_prompts keeps_terminal reject)
  have "K (selectIssuer op wanted candidates)" for wanted candidates
    unfolding selectIssuer_def by (intro file_rules keeps_prompts)
  then show issuer: "K (find_issuer op wanted endpoint scopes)" for wanted endpoint scopes
    unfolding find_issuer_def by (intro file_rules keeps_ask)
  have "K (address op req)" "K (request_kind op req)"
    unfolding address_def request_kind_def by (intro file_rules keeps_prompts)+
  then show "K (collect op req)" unfolding collect_def by (intro file_rules name issuer)
qed

lemma keeps_reconcile: "K (reconcileWinner op cand expected)" "K (completePublished op cand loaded)"
proof -
  show r: "K (reconcileWinner op cand expected)" for expected
    unfolding reconcileWinner_def by (intro file_rules keeps_load keeps_session keeps_remove_journal)
  show "K (completePublished op cand loaded)"
    unfolding completePublished_def by (intro file_rules keeps_session keeps_gate r)
qed

lemma keeps_publish_locked: "K (publish_locked op cand entry owner generation full)"
  unfolding publish_locked_def by (intro file_rules keeps_journal_read keeps_gate keeps_publish_profile keeps_session keeps_remove_journal)

lemma keeps_authorize: "K (authorize op req cand entry (shellProfile cand) owner)"
proof -
  have "K (cleanup_failed op (shellProfile cand) owner name cause)" for name cause
    unfolding cleanup_failed_def by (intro file_rules keeps_session keeps_remove_journal keeps_database shell_database)
  then have "K (afterAuthorizeFailure op (shellProfile cand) owner name cause :: journal boot)" for name cause
    unfolding afterAuthorizeFailure_def by (intro file_rules keeps_lock)
  then show ?thesis unfolding authorize_def by (intro file_rules keeps_ask keeps_journal_write)
qed

lemma keeps_publish_candidate:
  "K (publish_candidate op req cand entry (shellProfile cand) owner generation)" "K (openClaimedSession op p entry owner)"
proof -
  show "K (publish_candidate op req cand entry (shellProfile cand) owner generation)"
    unfolding publish_candidate_def
    by (intro file_rules keeps_authorize keeps_session keeps_gate keeps_lock keeps_publish_locked keeps_reconcile)
  show "K (openClaimedSession op p entry owner)" unfolding openClaimedSession_def by (intro keeps_lock keeps_claim)
qed

lemma keeps_finish: "K (finish op req cand entry)"
  unfolding finish_def split_def
  by (intro file_rules keeps_load keeps_session keeps_reconcile keeps_publish_candidate)

lemma keeps_discard: "K (discardLocked op entry)" "K (discard op entry)"
proof -
  have "K (discard_state op entry)"
    unfolding discard_state_def by (intro file_rules keeps_session keeps_ask keeps_database shell_database keeps_remove_journal)
  then show d: "K (discardLocked op entry)"
    unfolding discardLocked_def by (intro file_rules keeps_load keeps_remove_journal keeps_terminal)
  show "K (discard op entry)" unfolding discard_def by (intro keeps_lock d)
qed

lemma keeps_resume: "K (resume op req entry)"
  unfolding resume_def Let_def by (intro file_rules keeps_collect keeps_load keeps_finish keeps_reconcile)

lemma keeps_reserve: "K (confirm op req cand)" "K (reserve op cand)"
proof -
  show "K (confirm op req cand)" unfolding confirm_def by (intro file_rules keeps_terminal keeps_prompts)
  show "K (reserve op cand)" unfolding reserve_def Let_def by (intro file_rules keeps_session keeps_journal_write)
qed

lemma keeps_create: "K (create op req)"
  unfolding create_def by (intro file_rules keeps_collect keeps_journal_read keeps_resume keeps_finish keeps_reserve)

lemma keeps_menus:
  "K (login_existing p name)" "K (note_unreadable es)" "K (runNamed op req)" "K (runMenu op req)" "K (recoverOutstanding op req)"
proof -
  show existing: "K (login_existing p name)" for p name unfolding login_existing_def by (intro file_rules keeps_ask)
  show "K (runNamed op req)"
    unfolding runNamed_def by (intro file_rules keeps_load keeps_prompts keeps_create existing)
  show skip: "K (note_unreadable es)" for es
    by (induction es) (auto intro!: file_rules keeps_terminal)
  show "K (runMenu op req)"
    unfolding runMenu_def by (intro file_rules keeps_list skip keeps_prompts keeps_create existing)
  show "K (recoverOutstanding op req)"
    unfolding recoverOutstanding_def Let_def by (intro file_rules keeps_journal_read keeps_prompts keeps_discard keeps_resume)
qed

lemma keeps_run: "K (Run op req)"
  unfolding Run_def by (intro file_rules keeps_prompts keeps_menus keeps_create)

end

text \<open>The file of a profile is such a path.\<close>

definition profile_file :: "'c config_scheme \<Rightarrow> string \<Rightarrow> string" where
  "profile_file cf name = (case ConfigDir cf of Inl _ \<Rightarrow> [] | Inr dir \<Rightarrow> child (profiles_dir dir) (name @ ProfileFileSuffix))"

lemma path_last: "last (child d (f @ [c])) = c" "child d (f @ [c]) \<noteq> []"
  by (simp_all add: child_def)

lemma profile_file_other:
  "ConfigDir cf = Inr dir \<Longrightarrow> child (child dir StagingDirName) f \<noteq> profile_file cf name"
  "c \<noteq> CHR ''n'' \<Longrightarrow> child d (f @ [c]) \<noteq> profile_file cf name"
proof -
  show "ConfigDir cf = Inr dir \<Longrightarrow> child (child dir StagingDirName) f \<noteq> profile_file cf name"
    by (simp add: profile_file_def child_def profiles_dir_def StagingDirName_def ProfilesDirName_def)
  have "profile_file cf name = [] \<or> last (profile_file cf name) = CHR ''n''"
    by (simp add: profile_file_def child_def ProfileFileSuffix_def split: sum.split)
  then show "c \<noteq> CHR ''n'' \<Longrightarrow> child d (f @ [c]) \<noteq> profile_file cf name" using path_last [of d f c] by metis
qed

interpretation prof: boot_client "\<lambda>_. True" "stays (profile_file op name)" "\<lambda>q. q \<noteq> profile_file op name" op for op name
proof unfold_locales
  show "child d (''.'' @ n @ ''.'' @ buf @ ''.tmp'') \<noteq> profile_file op name" for d n buf
    using profile_file_other(2) [of "CHR ''p''" d "''.'' @ n @ ''.'' @ buf @ ''.tm''"] by simp
  show "ConfigDir op = Inr dir \<Longrightarrow> child (child dir StagingDirName) f \<noteq> profile_file op name" for dir f
    by (rule profile_file_other)
  show "child d (''default.db'' @ suf) \<noteq> profile_file op name" if "suf \<in> {[], ''-wal'', ''-shm''}" for d suf
    using that profile_file_other(2) [of "CHR ''b''" d "''default.d''" op name]
      profile_file_other(2) [of "CHR ''l''" d "''default.db-wa''" op name]
      profile_file_other(2) [of "CHR ''m''" d "''default.db-sh''" op name] by auto
qed simp

end
