(* ===== verification/Bootstrap_Review.thy ===== *)
theory Bootstrap_Review
  imports Bootstrap_Safety
begin

text \<open>
  The catalog a bootstrap reviews. The servers answer by the number of the call; \<open>asked\<close> relates two worlds of
  one run, and \<open>reviews\<close> says of a handler that when it succeeds, one of its calls read the catalog of the
  candidate's endpoint with the token of the session, and the answer passed the review against the template.
\<close>

section \<open>Definitions\<close>

definition asked :: "boot_world \<Rightarrow> boot_world \<Rightarrow> bool" where
  "asked w w' \<longleftrightarrow> bw_Token w' = bw_Token w \<and> bw_ReadCatalog w' = bw_ReadCatalog w \<and> fw_calls w \<le> fw_calls w'"

text \<open>The calls \<open>n\<close> and \<open>Suc n\<close> of the run ask for the token and, with it, for the catalog.\<close>

definition reviewed_between :: "candidate \<Rightarrow> boot_world \<Rightarrow> boot_world \<Rightarrow> bool" where
  "reviewed_between cand w w' \<longleftrightarrow>
     (\<exists>n token disc tools. fw_calls w \<le> n \<and> Suc n < fw_calls w' \<and> bw_Token w n = Inr token
        \<and> bw_ReadCatalog w (Suc n) (ca_Endpoint cand) token = Inr (disc, tools)
        \<and> Materialize (ca_Template cand) disc tools = Inr (tm_Operations (ca_Template cand)))"

definition reviews :: "candidate \<Rightarrow> 'a boot \<Rightarrow> bool" where
  "reviews cand m \<longleftrightarrow> (\<forall>w x w'. m w = (Inr x, w') \<longrightarrow> reviewed_between cand w w')"

section \<open>Lemmas\<close>

subsection \<open>What a run keeps of the servers\<close>

interpretation asks: stateful asked
  by unfold_locales (auto simp: asked_def)

lemma asked_calls:
  "keeps asked (io_of r)" "keeps asked (syscall f)" "keeps asked (inspect g)" "keeps asked (randomStagingName name)"
  "keeps asked Geteuid" "keeps asked (ask_world h)" "keeps asked take_lock" "keeps asked drop_lock"
  by (auto simp: keeps_def asked_def io_of_def syscall_def inspect_def interfere_def Let_def randomStagingName_def Geteuid_def
      ask_world_def take_lock_def drop_lock_def split: option.split)

lemmas asked_rules = asks.keeps_rules asks.keeps_or asks.keeps_then asked_calls

lemma asked_validate:
  "keeps asked (validateOwnedDirectory file strict)" "keeps asked (validatePrivateFile file)"
  "keeps asked (validateProfileHandle file directory)" "keeps asked (openDirNoFollow path)"
  unfolding validateOwnedDirectory_def validatePrivateFile_def validateProfileHandle_def openDirNoFollow_def by (intro asked_rules)+

lemma asked_files:
  "keeps asked (EnsurePrivateDir path)" "keeps asked (WritePrivateFile dir name data replace)"
  "keeps asked (RemovePrivateFile dir name)" "keeps asked (ReadPrivateFile dir name limit)" "keeps asked (readProfileFile dir base)"
proof -
  have "keeps asked (ensurePrivateChild parent name)" for parent name
    unfolding ensurePrivateChild_def by (intro asked_rules asked_validate)
  then show "keeps asked (EnsurePrivateDir path)"
    unfolding EnsurePrivateDir_def split_def by (intro asked_rules)
  show "keeps asked (WritePrivateFile dir name data replace)"
    unfolding WritePrivateFile_def publish_staged_def by (intro asked_rules asked_validate)
  show "keeps asked (RemovePrivateFile dir name)" "keeps asked (ReadPrivateFile dir name limit)" 
    unfolding RemovePrivateFile_def ReadPrivateFile_def by (intro asked_rules asked_validate)+
  have "keeps asked (classifyProfileOpenError path e :: boot_world \<Rightarrow> (go_error + string) \<times> boot_world)" for path e
    unfolding classifyProfileOpenError_def by (intro asked_rules)
  then show "keeps asked (readProfileFile dir base)"
    unfolding readProfileFile_def openProfileHandles_def split_def by (intro asked_rules asked_validate)
qed

lemma asked_profiles:
  "keeps asked (Load op name)" "keeps asked (Publish op p)" "keeps asked (prepareStaging op)"
  "keeps asked (loadJournal op name)" "keeps asked (journal_save op j)" "keeps asked (removeJournal op name)"
proof -
  show load: "keeps asked (Load op name)" for name unfolding Load_def by (intro asked_rules asked_files)
  show "keeps asked (Publish op p)" unfolding Publish_def by (intro asked_rules asked_files load)
  show staging: "keeps asked (prepareStaging op)" unfolding prepareStaging_def by (intro asked_rules asked_files)
  show "keeps asked (loadJournal op name)" "keeps asked (journal_save op j)" "keeps asked (removeJournal op name)"
    unfolding loadJournal_def journal_save_def removeJournal_def by (intro asked_rules asked_files staging)+
qed

lemma asked_lock: "keeps asked fn \<Longrightarrow> keeps asked (withPublicationLock op fn)"
  unfolding withPublicationLock_def by (intro asked_rules asked_validate asked_profiles)

lemma asked_session:
  "keeps asked (OpenSession op p)" "keeps asked session_Close" "keeps asked session_Ready" "keeps asked session_Token"
  "keeps asked session_Logout" "keeps asked (session_Release owner)" "keeps asked (session_Commit owner generation)"
  "keeps asked (newOwner op)" "keeps asked work_lost"
  unfolding OpenSession_def session_Close_def session_Ready_def session_Token_def session_Logout_def session_Release_def
    session_Commit_def newOwner_def work_lost_def
  by (intro asked_rules)+

lemma asked_gates:
  "keeps asked (openClaimedSession op p entry owner)" "keeps asked (lease_gate owner generation)"
  "keeps asked (reviewed_profile op cand)"
  unfolding openClaimedSession_def claim_session_def claimBootstrapLease_def lease_gate_def reviewed_profile_def split_def
  by (intro asked_rules asked_lock asked_session asked_profiles)+

lemma asked_authorize: "keeps asked (authorize op req cand entry p owner)"
proof -
  have "keeps asked (remove_files dir names)" for dir names
    by (induction names) (auto intro!: asked_rules asked_files)
  then have "keeps asked (removeDatabasePath path)" for path
    unfolding removeDatabasePath_def split_def by (intro asked_rules)
  then have "keeps asked (afterAuthorizeFailure op p owner name cause :: journal boot)" for name cause
    unfolding afterAuthorizeFailure_def cleanup_failed_def by (intro asked_rules asked_lock asked_session asked_profiles)
  then show ?thesis unfolding authorize_def by (intro asked_rules asked_profiles)
qed

lemma asked_publish: "keeps asked (publish_locked op cand entry owner generation full)" "keeps asked (reconcileWinner op cand full)"
  unfolding publish_locked_def reconcileWinner_def by (intro asked_rules asked_profiles asked_session asked_gates)+

lemmas asked_handlers = asked_rules asked_lock asked_profiles asked_session asked_gates asked_authorize asked_publish

subsection \<open>The review of a run\<close>

lemma reviewed_wider:
  assumes "asked w w1" "reviewed_between cand w1 w2" "asked w2 w'"
  shows "reviewed_between cand w w'"
proof -
  from assms(2) obtain n token disc tools where "fw_calls w1 \<le> n" "Suc n < fw_calls w2" "bw_Token w1 n = Inr token"
    "bw_ReadCatalog w1 (Suc n) (ca_Endpoint cand) token = Inr (disc, tools)"
    "Materialize (ca_Template cand) disc tools = Inr (tm_Operations (ca_Template cand))"
    unfolding reviewed_between_def by blast
  with assms(1,3) show ?thesis
    unfolding reviewed_between_def asked_def by (intro exI [of _ n] exI [of _ token] exI [of _ disc] exI [of _ tools]) simp
qed

lemma reviews_later: "keeps asked m \<Longrightarrow> (\<And>x. reviews cand (f x)) \<Longrightarrow> reviews cand (io_bind m f)"
  unfolding reviews_def io_bind_Inr by (metis keepsD reviewed_wider asks.R_refl)

lemma reviews_now: "reviews cand m \<Longrightarrow> (\<And>x. keeps asked (f x)) \<Longrightarrow> reviews cand (io_bind m f)"
  unfolding reviews_def io_bind_Inr by (metis keepsD reviewed_wider asks.R_refl)

lemma reviews_or:
  assumes "keeps asked m" "\<And>e. reviews cand (f e)" "\<And>x. reviews cand (g x)"
  shows "reviews cand (io_or m f g)"
  unfolding reviews_def
proof (intro allI impI)
  fix w x w' assume r: "io_or m f g w = (Inr x, w')"
  obtain y w1 where m: "m w = (y, w1)" by fastforce
  have "reviewed_between cand w1 w'" using r assms(2,3) unfolding reviews_def by (cases y) (auto simp: io_or_def m)
  then show "reviewed_between cand w w'" using keepsD [OF assms(1) m] reviewed_wider asks.R_refl by blast
qed

lemma reviews_finally:
  assumes "reviews cand m" "keeps asked g"
  shows "reviews cand (io_finally m g)"
  unfolding reviews_def
proof (intro allI impI)
  fix w x w' assume "io_finally m g w = (Inr x, w')"
  then obtain w1 where "m w = (Inr x, w1)" "w' = snd (g w1)" by (auto simp: io_finally_def split: prod.splits)
  moreover from this have "reviewed_between cand w w1" using assms(1) by (auto simp: reviews_def)
  moreover have "asked w1 (snd (g w1))" using assms(2) by (simp add: keeps_def)
  ultimately show "reviewed_between cand w w'" using reviewed_wider asks.R_refl by blast
qed

lemma reviews_fail: "reviews cand (io_fail e)"
  by (simp add: reviews_def)

lemma reviews_if: "(b \<Longrightarrow> reviews cand m) \<Longrightarrow> (\<not> b \<Longrightarrow> reviews cand m') \<Longrightarrow> reviews cand (if b then m else m')"
  by simp

lemma reviewed_reviews: "reviews cand (reviewed_profile op cand)"
  unfolding reviews_def
proof (intro allI impI)
  fix w e w' assume "reviewed_profile op cand w = (Inr e, w')"
  then obtain token disc tools ops where
    t: "bw_Token w (fw_calls w) = Inr token" and
    c: "bw_ReadCatalog (interfere w) (fw_calls (interfere w)) (ca_Endpoint cand) token = Inr (disc, tools)" and
    m: "Materialize (ca_Template cand) disc tools = Inr ops" and w': "w' = interfere (interfere w)"
    by (auto simp: reviewed_profile_def io_bind_Inr io_map_error_Inr session_Token_def ask_world_def io_of_def)
  have "ops = tm_Operations (ca_Template cand)" using materialize_exact [OF m] by blast
  then show "reviewed_between cand w w'"
    using t c m unfolding reviewed_between_def w' by (auto simp: interfere_def)
qed

lemma finish_reviews: "reviews cand (Bootstrap_Run.finish op req cand entry)"
proof -
  have body: "reviews cand (publish_candidate op req cand entry (shellProfile cand) owner generation)" for entry owner generation
    unfolding publish_candidate_def
    by (rule reviews_later, rule asked_authorize, rule reviews_later, rule asked_session, rule reviews_later,
        intro asked_handlers, rule reviews_if, rule reviews_fail, rule reviews_now, rule reviewed_reviews, intro asked_handlers)
  have loaded: "reviews cand (completePublished op cand p)" for p
    unfolding completePublished_def
    by (rule reviews_if, rule reviews_fail, rule reviews_later, intro asked_handlers, rule reviews_finally, rule reviews_later,
        intro asked_handlers, rule reviews_if, rule reviews_fail, rule reviews_now, rule reviewed_reviews, intro asked_handlers)
      (rule asked_session)
  show ?thesis unfolding Bootstrap_Run.finish_def split_def
    by (intro reviews_or reviews_if reviews_fail reviews_later reviews_finally body loaded asked_handlers)
qed

end
