(* ===== verification/Bootstrap_Roundtrip.thy ===== *)
theory Bootstrap_Roundtrip
  imports Bootstrap
begin

text \<open>
  Round trips of the bootstrap: the journal through its file, and the printed command through the reader that
  splits a command line into arguments.
\<close>

section \<open>Definitions\<close>

subsection \<open>Argument readers\<close>

text \<open>
  On Windows a process is started with one command line, and the Go runtime splits it (\<open>readNextArg\<close> and
  \<open>commandLineToArgv\<close> of package \<open>os\<close>). Outside quotes a blank ends the argument. Backslashes count only before a
  quote: half of them are kept, and an odd one makes the quote literal. Two quotes inside quotes are a literal
  quote and end the quotes. \<open>n\<close> backslashes are pending; the result is the argument and the rest of the line.
\<close>

definition arg_blank :: "char \<Rightarrow> bool" where
  "arg_blank c \<longleftrightarrow> c = CHR '' '' \<or> c = CHR 0x09"

fun readNextArg :: "bool \<Rightarrow> nat \<Rightarrow> string \<Rightarrow> string \<times> string" where
  "readNextArg inquote n [] = (replicate n (CHR 0x5C), [])"
| "readNextArg inquote n (c # cs) =
     (if c = CHR 0x5C then readNextArg inquote (Suc n) cs
      else if c = CHR 0x22 then
        (if odd n then apfst ((@) (replicate (n div 2) (CHR 0x5C) @ [CHR 0x22])) (readNextArg inquote 0 cs)
         else if inquote \<and> take 1 cs = [CHR 0x22]
         then apfst ((@) (replicate (n div 2) (CHR 0x5C) @ [CHR 0x22])) (readNextArg False 0 (drop 1 cs))
         else apfst ((@) (replicate (n div 2) (CHR 0x5C))) (readNextArg (\<not> inquote) 0 cs))
      else if \<not> inquote \<and> arg_blank c then (replicate n (CHR 0x5C), cs)
      else apfst ((@) (replicate n (CHR 0x5C) @ [c])) (readNextArg inquote 0 cs))"

lemma readNextArg_shorter: "length (snd (readNextArg inquote n cs)) \<le> length cs"
proof (induction inquote n cs rule: readNextArg.induct)
  case (2 inquote n c cs)
  then show ?case by (cases cs) (auto simp: le_SucI)
qed simp

lemma readNextArg_consumes: "length (snd (readNextArg inquote n (c # cs))) < Suc (length cs)"
  using readNextArg_shorter [of _ _ cs] readNextArg_shorter [of False 0 "drop 1 cs"]
  by (auto simp: less_Suc_eq_le intro: order_trans)

function commandLineToArgv :: "string \<Rightarrow> string list" where
  "commandLineToArgv [] = []"
| "commandLineToArgv (c # cs) =
     (if arg_blank c then commandLineToArgv cs
      else fst (readNextArg False 0 (c # cs)) # commandLineToArgv (snd (readNextArg False 0 (c # cs))))"
  by pat_completeness auto
termination
  by (relation "measure length") (simp_all add: readNextArg_consumes del: readNextArg.simps)

text \<open>
  The words of a POSIX shell, for the part of its language that has no expansions and no operators: lower-case
  letters, digits and hyphens stand for themselves, single quotes for what is between them, and a backslash for
  the next character. \<open>None\<close> is any other text, such as an open quote.
\<close>

definition plain_char :: "char \<Rightarrow> bool" where
  "plain_char c \<longleftrightarrow> lower_alnum c \<or> c = CHR ''-''"

fun posix_word :: "bool \<Rightarrow> string \<Rightarrow> (string \<times> string) option" where
  "posix_word quoted [] = (if quoted then None else Some ([], []))"
| "posix_word True (c # cs) = (if c = CHR 0x27 then posix_word False cs else map_option (apfst ((#) c)) (posix_word True cs))"
| "posix_word False (c # cs) =
     (if c = CHR 0x27 then posix_word True cs
      else if c = CHR 0x5C \<and> cs \<noteq> [] \<and> hd cs \<noteq> CHR 0x0A then map_option (apfst ((#) (hd cs))) (posix_word False (tl cs))
      else if arg_blank c then Some ([], cs)
      else if plain_char c then map_option (apfst ((#) c)) (posix_word False cs)
      else None)"

lemma posix_word_shorter: "posix_word quoted cs = Some (word, rest) \<Longrightarrow> length rest \<le> length cs - 1"
  by (induction quoted cs arbitrary: word rule: posix_word.induct) (fastforce split: if_splits)+

function posix_words :: "string \<Rightarrow> string list option" where
  "posix_words [] = Some []"
| "posix_words (c # cs) =
     (if arg_blank c then posix_words cs
      else case posix_word False (c # cs) of
        None \<Rightarrow> None
      | Some (word, rest) \<Rightarrow> map_option ((#) word) (posix_words rest))"
  by pat_completeness auto
termination
  by (relation "measure length") (auto simp del: posix_word.simps dest!: posix_word_shorter)

definition command_args :: "bool \<Rightarrow> string \<Rightarrow> string list option" where
  "command_args windows line = (if windows then Some (commandLineToArgv line) else posix_words line)"

section \<open>Lemmas\<close>

subsection \<open>Command lines\<close>

definition plain_word :: "string \<Rightarrow> bool" where
  "plain_word s \<longleftrightarrow> s \<noteq> [] \<and> list_all plain_char s"

lemma plain_words: "plain_word ''tama-link''" "plain_word ''serve''" "plain_word ''--profile''" "plain_word ''--config-dir''"
  by code_simp+

lemma name_plain: "ParseName name = Inr n \<Longrightarrow> plain_word name"
  by (auto simp: ParseName_def portable_name_def result_simps plain_word_def plain_char_def list_all_iff)

text \<open>
  A reader of command lines with the quotation that belongs to it: a plain word before a blank is an argument,
  and quoted text at the end of the line is one argument, whatever it holds.
\<close>

locale argument_reader =
  fixes read :: "string \<Rightarrow> string list option" and quotation :: "string \<Rightarrow> string"
  assumes read_word: "plain_word word \<Longrightarrow> read (word @ CHR '' '' # rest) = map_option ((#) word) (read rest)"
    and read_last: "plain_word word \<Longrightarrow> read word = Some [word]"
    and read_quoted: "read (quotation arg) = Some [arg]"
begin

lemma read_command:
  assumes "plain_word name"
  shows "read (''tama-link serve --profile '' @ name) = Some [''tama-link'', ''serve'', ''--profile'', name]"
    "read (''tama-link serve --profile '' @ name @ '' --config-dir '' @ quotation dir)
       = Some [''tama-link'', ''serve'', ''--profile'', name, ''--config-dir'', dir]"
  using read_word [OF plain_words(1)] read_word [OF plain_words(2)] read_word [OF plain_words(3)] read_word [OF plain_words(4)]
    read_word [OF assms] read_last [OF assms] read_quoted [of dir]
  by simp_all

end

lemma plain_not: "\<not> plain_char (CHR 0x5C)" "\<not> plain_char (CHR 0x22)" "\<not> plain_char (CHR 0x27)" "plain_char c \<Longrightarrow> \<not> arg_blank c"
proof -
  have "\<not> plain_char (CHR '' '')" "\<not> plain_char (CHR 0x09)" by code_simp+
  then show "plain_char c \<Longrightarrow> \<not> arg_blank c" by (auto simp: arg_blank_def)
qed code_simp+

subsubsection \<open>Windows\<close>

lemma bare_arg:
  assumes "\<forall>c \<in> set s. c \<noteq> CHR 0x22 \<and> \<not> arg_blank c"
  shows "readNextArg False n s = (replicate n (CHR 0x5C) @ s, [])"
    "readNextArg False n (s @ CHR '' '' # rest) = (replicate n (CHR 0x5C) @ s, rest)"
  using assms by (induction s arbitrary: n) (auto simp: replicate_append_same [symmetric] arg_blank_def)

lemma pending: "readNextArg q n (replicate k (CHR 0x5C) @ s) = readNextArg q (n + k) s"
  by (induction k arbitrary: n) simp_all

lemma quoted_arg: "readNextArg True 0 (quote_windows n s @ [CHR 0x22]) = (replicate n (CHR 0x5C) @ s, [])"
proof (induction s arbitrary: n)
  case Nil
  show ?case using pending [of True 0 "2 * n" "[CHR 0x22]"] by simp
next
  case (Cons c cs)
  consider "c = CHR 0x5C" | "c = CHR 0x22" | "c \<noteq> CHR 0x5C" "c \<noteq> CHR 0x22" by blast
  then show ?case
  proof cases
    case 1
    then show ?thesis using Cons [of "Suc n"] by (simp add: replicate_app_Cons_same)
  next
    case 2
    then show ?thesis using Cons [of 0] pending [of True 0 "2 * n + 1" "CHR 0x22 # quote_windows 0 cs @ [CHR 0x22]"] by simp
  next
    case 3
    then show ?thesis using Cons [of 0] pending [of True 0 n "c # quote_windows 0 cs @ [CHR 0x22]"] by simp
  qed
qed

lemma argv_start: "s \<noteq> [] \<Longrightarrow> \<not> arg_blank (hd s) \<Longrightarrow> readNextArg False 0 s = (arg, rest) \<Longrightarrow> commandLineToArgv s = arg # commandLineToArgv rest"
  by (cases s) (simp_all del: readNextArg.simps)

interpretation windows: argument_reader "\<lambda>line. Some (commandLineToArgv line)" quoteWindowsArg
proof unfold_locales
  fix word rest assume "plain_word word"
  then have ok: "\<forall>c \<in> set word. c \<noteq> CHR 0x22 \<and> \<not> arg_blank c" "word \<noteq> []"
    using plain_not by (auto simp: plain_word_def list_all_iff)
  then have "\<not> arg_blank (hd word)" by simp
  with ok bare_arg [OF ok(1), of 0] show "Some (commandLineToArgv (word @ CHR '' '' # rest)) = map_option ((#) word) (Some (commandLineToArgv rest))"
    "Some (commandLineToArgv word) = Some [word]"
    using argv_start [of "word @ CHR '' '' # rest" word rest] argv_start [of word word "[]"] by simp_all
next
  fix arg
  show "Some (commandLineToArgv (quoteWindowsArg arg)) = Some [arg]"
  proof (cases "arg \<noteq> [] \<and> \<not> list_ex (\<lambda>c. c \<in> {CHR '' '', CHR 0x09, CHR 0x22}) arg")
    case True
    then have bare: "\<forall>c \<in> set arg. c \<noteq> CHR 0x22 \<and> \<not> arg_blank c" "\<not> arg_blank (hd arg)" by (auto simp: list_ex_iff arg_blank_def)
    then show ?thesis using True bare_arg(1) [OF bare(1), of 0] argv_start [of arg arg "[]"] by (simp add: quoteWindowsArg_def)
  next
    case False
    then have "quoteWindowsArg arg = CHR 0x22 # quote_windows 0 arg @ [CHR 0x22]" by (auto simp: quoteWindowsArg_def)
    then show ?thesis using quoted_arg [of 0 arg] argv_start [of "quoteWindowsArg arg" arg "[]"] by (simp add: arg_blank_def)
  qed
qed

subsubsection \<open>POSIX\<close>

lemma plain_posix:
  assumes "list_all plain_char s"
  shows "posix_word False s = Some (s, [])" "posix_word False (s @ CHR '' '' # rest) = Some (s, rest)"
  using assms plain_not by (induction s) (auto simp: arg_blank_def)

lemma quoted_posix: "posix_word True (replace_quotes s @ [CHR 0x27]) = Some (s, [])"
  by (induction s) auto

lemma words_start: "s \<noteq> [] \<Longrightarrow> \<not> arg_blank (hd s) \<Longrightarrow> posix_word False s = Some (word, rest) \<Longrightarrow> posix_words s = map_option ((#) word) (posix_words rest)"
  by (cases s) (simp_all del: posix_word.simps)

interpretation posix: argument_reader posix_words "\<lambda>s. [CHR 0x27] @ replace_quotes s @ [CHR 0x27]"
proof unfold_locales
  fix word rest assume w: "plain_word word"
  then have "word \<noteq> []" "list_all plain_char word" "\<not> arg_blank (hd word)"
    using plain_not(4) [of "hd word"] by (auto simp: plain_word_def list_all_iff)
  with plain_posix show "posix_words (word @ CHR '' '' # rest) = map_option ((#) word) (posix_words rest)" "posix_words word = Some [word]"
    using words_start [of "word @ CHR '' '' # rest" word rest] words_start [of word word "[]"] by simp_all
next
  fix arg
  have "posix_word False (CHR 0x27 # replace_quotes arg @ [CHR 0x27]) = Some (arg, [])" using quoted_posix [of arg] by simp
  then show "posix_words ([CHR 0x27] @ replace_quotes arg @ [CHR 0x27]) = Some [arg]"
    using words_start [of "CHR 0x27 # replace_quotes arg @ [CHR 0x27]" arg "[]"] by (simp add: arg_blank_def del: posix_word.simps)
qed

section \<open>Properties\<close>

text \<open>
  C38: The command a login prints is read as it was meant. For every valid profile name and every configuration
  directory, the printed line splits into the program, \<open>serve\<close>, \<open>--profile\<close> with exactly the name and, when a
  directory was chosen, \<open>--config-dir\<close> with exactly its bytes, and nothing else; and the quoted form of any text,
  the empty one included, is exactly one argument with these bytes. The reader is a POSIX shell on other systems
  and, on Windows, the runtime's own splitting of the command line a process is given.
\<close>

theorem command_argument_roundtrip:
  assumes "ParseName name = Inr n"
  shows "command_args windows (quoteCommandArg windows arg) = Some [arg]
    \<and> command_args windows (serveCommand windows name configDir chosen)
        = Some ([''tama-link'', ''serve'', ''--profile'', name] @ (if chosen \<and> configDir \<noteq> [] then [''--config-dir'', configDir] else []))"
proof (cases windows)
  case True
  then show ?thesis
    using windows.read_quoted [of arg] windows.read_command [OF name_plain [OF assms]]
    by (simp add: command_args_def quoteCommandArg_def serveCommand_def del: commandLineToArgv.simps)
next
  case False
  then show ?thesis
    using posix.read_quoted [of arg] posix.read_command [OF name_plain [OF assms]]
    by (simp add: command_args_def quoteCommandArg_def serveCommand_def del: posix_words.simps)
qed

theorem command_argument_roundtrip_witness:
  "command_args True (serveCommand True ''p'' (''C:'' @ [CHR 0x5C] @ ''a b'' @ [CHR 0x5C]) True)
     = Some [''tama-link'', ''serve'', ''--profile'', ''p'', ''--config-dir'', ''C:'' @ [CHR 0x5C] @ ''a b'' @ [CHR 0x5C]]
   \<and> command_args False (serveCommand False ''p'' (''/it'' @ [CHR 0x27] @ ''s $HOME'') True)
     = Some [''tama-link'', ''serve'', ''--profile'', ''p'', ''--config-dir'', ''/it'' @ [CHR 0x27] @ ''s $HOME'']
   \<and> command_args True (quoteCommandArg True []) = Some [[]]"
proof -
  have name: "ParseName ''p'' = Inr ''p''"
    by (simp add: ParseName_def portable_name_def lower_alnum_def is_lower_def byte_of_def ensure_def)
  show ?thesis
    using command_argument_roundtrip [OF name, of True "[]" "''C:'' @ [CHR 0x5C] @ ''a b'' @ [CHR 0x5C]" True]
      command_argument_roundtrip [OF name, of False "[]" "''/it'' @ [CHR 0x27] @ ''s $HOME''" True] by simp
qed

text \<open>
  The runtime's reader is not the interactive shell. A character that \<open>cmd.exe\<close> or PowerShell interprets before
  the process is started, such as an ampersand, stays bare when the directory has no blank and no quote.
\<close>

lemma windows_metacharacters_bare:
  "serveCommand True ''p'' (''C:'' @ [CHR 0x5C] @ ''R&D'') True = ''tama-link serve --profile p --config-dir C:'' @ [CHR 0x5C] @ ''R&D''"
  by (simp add: serveCommand_def quoteCommandArg_def quoteWindowsArg_def)

subsection \<open>The journal\<close>

lemma journal_folds:
  "fold_name ''version'' = ''version''" "fold_name ''id'' = ''id''" "fold_name ''name'' = ''name''" "fold_name ''origin'' = ''origin''"
  "fold_name ''endpoint'' = ''endpoint''" "fold_name ''issuer'' = ''issuer''" "fold_name ''template'' = ''template''"
  "fold_name ''scopes'' = ''scopes''" "fold_name ''database'' = ''database''" "fold_name ''credentials'' = ''credentials''"
  "fold_name ''stage'' = ''stage''"
  by code_simp+

lemma read_string_list: "read_string_items [] (map JStr xs) = Some xs"
  by (induction xs) (simp_all add: read_string_def)

lemma unmarshal_marshal_journal:
  assumes "jr_Version j = 1"
  shows "unmarshal_journal (marshal_journal j) = Some j"
proof -
  have "format_int 1 = [char_of (49 :: nat)]" by (simp add: format_int_def dec_digits.simps [of "Suc 0"])
  moreover have "char_of (49 :: nat) = CHR ''1''" "parse_int64 ''1'' = Some 1" by code_simp+
  ultimately have "read_int64 0 (JNum (format_int 1)) = Some 1" by (simp add: read_int64_def)
  moreover have "read_strings [] (if jr_Scopes j = [] then JNull else JArr (map JStr (jr_Scopes j))) = Some (jr_Scopes j)"
    by (simp add: read_strings_def read_string_list)
  moreover have "read_string x (JStr s) = Some s" for x s by (simp add: read_string_def)
  ultimately show ?thesis
    using assms by (simp add: unmarshal_journal_def marshal_journal_def read_struct_def struct_members_def journal_folds del: fold_name.simps)
qed

text \<open>
  C39: A journal survives its file. A valid journal, written and read back with a JSON decoder that reads
  what the encoder wrote, is the same journal in every field.
\<close>

theorem journal_roundtrip:
  assumes "journal_validate j = Inr ()" "cf_decode cf (encodeJournal j) = Some (marshal_journal j)"
  shows "decodeJournal cf (encodeJournal j) = Inr j"
proof -
  have "jr_Version j = 1" using assms(1) by (auto simp: journal_validate_def result_simps journalVersion_def)
  then show ?thesis using assms unmarshal_marshal_journal by (simp add: decodeJournal_def)
qed

definition demo_journal :: journal where
  "demo_journal = \<lparr>jr_Version = 1, jr_ID = ''x'', jr_Name = ''p'', jr_Origin = ''https://h'', jr_Endpoint = ''https://h/mcp/app'',
     jr_Issuer = ''https://i'', jr_Template = ''app'', jr_Scopes = [''a''], jr_Database = ''default'', jr_Credentials = ''default'',
     jr_Stage = ''authorized''\<rparr>"

definition demo_config :: config where
  "demo_config = \<lparr>cf_override = ''/r/c'', cf_base = Inl (errors_New ''none''), cf_state = Inl (errors_New ''none''),
     cf_decode = (\<lambda>data. if data = encodeJournal demo_journal then Some (marshal_journal demo_journal) else None),
     cf_dialect = demo_dialect, cf_sha256 = (\<lambda>_. ''h'')\<rparr>"

lemma demo_journal_valid: "journal_validate demo_journal = Inr ()"
proof -
  have "(case journal_validate demo_journal of Inl _ \<Rightarrow> False | Inr _ \<Rightarrow> True)" by code_simp
  then show ?thesis by (auto split: sum.splits)
qed

theorem journal_roundtrip_witness: "decodeJournal demo_config (encodeJournal demo_journal) = Inr demo_journal"
  by (rule journal_roundtrip [OF demo_journal_valid]) (simp add: demo_config_def)

end
