(* ===== verification/Bootstrap_Demo.thy ===== *)
theory Bootstrap_Demo
  imports Bootstrap_Run Bootstrap_Roundtrip
begin

text \<open>
  A concrete bootstrap, for the witnesses: an authorized journal, a template with one operation, a catalog that
  offers it, and a session that holds its lease. The equations \<open>runs\<close> unfold a handler only where it is applied
  to a world, so that a run is evaluated step by step.
\<close>

section \<open>Definitions\<close>

definition demo_template :: Template where
  "demo_template = \<lparr>tm_ID = ''app'', tm_Kind = KindApp, tm_Label = [], tm_Instructions = [], tm_ProtocolMin = wireVersion,
     tm_ProtocolMax = wireVersion, tm_Scopes = [''a''], tm_Operations = [demo_operation], tm_RequiresTasks = False\<rparr>"

definition demo_candidate :: candidate where
  "demo_candidate = \<lparr>ca_Name = ''p'', ca_Origin = ''https://h'', ca_Endpoint = ''https://h/mcp/app'', ca_Issuer = ''https://i'',
     ca_Template = demo_template\<rparr>"

definition demo_published :: profile where
  "demo_published = (shellProfile demo_candidate)\<lparr>pf_Operations := [demo_operation], pf_Digest := ''sha256:68''\<rparr>"

definition demo_options :: options where
  "demo_options = \<lparr>cf_override = ''/r/c'', cf_base = Inl (errors_New ''none''), cf_state = Inl (errors_New ''none''),
     cf_decode = (\<lambda>data. if data = encodeJournal demo_journal then Some (marshal_journal demo_journal)
                         else if data = encode (marshal_profile demo_published) @ [CHR 0x0A] then Some (marshal_profile demo_published)
                         else None),
     cf_dialect = demo_dialect, cf_sha256 = (\<lambda>_. ''h''), op_ConfigDirSet = True, op_Interactive = False, op_windows = False, op_pid = 1\<rparr>"

definition demo_dir :: node where
  "demo_dir = \<lparr>nd_kind = Directory, nd_uid = 7, nd_perm = 0x1C0\<rparr>"

definition demo_files :: file_system where
  "demo_files = [(''/r'', demo_dir), (''/r/c'', demo_dir), (''/r/c/bootstrap'', demo_dir), (''/r/c/profiles'', demo_dir),
     (''/r/c/bootstrap/p.json'', \<lparr>nd_kind = Regular (encodeJournal demo_journal), nd_uid = 7, nd_perm = 0x180\<rparr>)]"

definition demo_catalog :: "DiscoverResult option \<times> UpstreamTool option list" where
  "demo_catalog =
     (Some \<lparr>dr_SupportedVersions = [wireVersion], dr_Capabilities = Some (JObj [(''tools'', JObj [])]), dr_Instructions = [], dr_ServerInfo = None\<rparr>,
      [Some \<lparr>ut_Raw = JNull, ut_Name = ''t'', ut_Title = [], ut_Description = [], ut_Annotations = None,
        ut_InputSchema = Some (JObj [(''type'', JStr ''object'')]), ut_OutputSchema = None\<rparr>])"

definition demo_boot :: boot_world where
  "demo_boot = \<lparr>fw_fs = demo_files, fw_calls = 0, fw_fault = (\<lambda>_. None), fw_other = (\<lambda>_ _ fs. fs), fw_rand = (\<lambda>_. Inr ''r''),
     fw_euid = 7, fw_locked = False, bw_OpenSession = (\<lambda>_ _. Inr ()), bw_Close = (\<lambda>_. Inr ()), bw_Authorize = (\<lambda>_ _. Inr ()),
     bw_Token = (\<lambda>_. Inr ''k''), bw_Ready = (\<lambda>_. Inr True), bw_Logout = (\<lambda>_. Inr ()), bw_ClaimLease = (\<lambda>_ _ _ _. Inr True),
     bw_ReleaseLease = (\<lambda>_ _ _. Inr ()), bw_LeaseGeneration = (\<lambda>_ _ _. Inr (1, True)), bw_CommitLease = (\<lambda>_ _ _ _. Inr True),
     bw_renew = (\<lambda>_. []), bw_ReadCatalog = (\<lambda>_ _ _. Inr demo_catalog), bw_LoginExisting = (\<lambda>_ _. Inr ()),
     bw_fetch = (\<lambda>_ _. Inl (errors_New ''offline'')), bw_ctx = (\<lambda>_. False), bw_input = [], bw_out = []\<rparr>"

definition demo_request :: Request where
  "demo_request = \<lparr>rq_Address = [], rq_AddressSet = False, rq_Type = [], rq_TypeSet = False, rq_Profile = [], rq_ProfileSet = False,
     rq_Issuer = [], rq_IssuerSet = False, rq_Yes = False, rq_NoBrowser = False\<rparr>"

section \<open>Lemmas\<close>

subsection \<open>Values\<close>

lemma demo_valid: "Profile_Validate demo_dialect (\<lambda>_. ''h'') demo_published ''p'' = Inr demo_published"
proof -
  have "(case Profile_Validate demo_dialect (\<lambda>_. ''h'') demo_published ''p'' of Inl _ \<Rightarrow> False | Inr q \<Rightarrow> pf_Scopes q = [''a''])"
    by code_simp
  then obtain q where "Profile_Validate demo_dialect (\<lambda>_. ''h'') demo_published ''p'' = Inr q" "pf_Scopes q = [''a'']"
    by (auto split: sum.splits)
  moreover from this have "q = demo_published\<lparr>pf_Scopes := [''a'']\<rparr>" using Validate_result by metis
  moreover have "demo_published\<lparr>pf_Scopes := [''a'']\<rparr> = demo_published"
    by (simp add: demo_published_def shellProfile_def demo_candidate_def demo_template_def)
  ultimately show ?thesis by simp
qed

lemma demo_complete: "completeProfile demo_options (shellProfile demo_candidate) [demo_operation] = Inr demo_published"
proof -
  have "(case Profile_ComputeDigest (\<lambda>_. ''h'') ((shellProfile demo_candidate)\<lparr>pf_Operations := [demo_operation]\<rparr>) of
      Inl _ \<Rightarrow> False | Inr s \<Rightarrow> s = ''sha256:68'')" by code_simp
  then have "Profile_ComputeDigest (\<lambda>_. ''h'') ((shellProfile demo_candidate)\<lparr>pf_Operations := [demo_operation]\<rparr>) = Inr ''sha256:68''"
    by (auto split: sum.splits)
  moreover have "pf_Name (shellProfile demo_candidate) = ''p''" by (simp add: shellProfile_def demo_candidate_def)
  ultimately show ?thesis
    using demo_valid by (simp add: completeProfile_def demo_options_def Let_def demo_published_def)
qed

lemma demo_materialize: "Materialize demo_template (fst demo_catalog) (snd demo_catalog) = Inr [demo_operation]"
proof -
  have "(case Materialize demo_template (fst demo_catalog) (snd demo_catalog) of Inl _ \<Rightarrow> False | Inr ops \<Rightarrow> ops = [demo_operation])"
    by code_simp
  then show ?thesis by (auto split: sum.splits)
qed

lemma demo_journal_decodes: "decodeJournal demo_options (encodeJournal demo_journal) = Inr demo_journal"
proof -
  have "unmarshal_journal (marshal_journal demo_journal) = Some demo_journal"
    by (rule unmarshal_marshal_journal) (simp add: demo_journal_def)
  then show ?thesis using demo_journal_valid by (simp add: decodeJournal_def demo_options_def)
qed

lemma demo_sizes:
  "int (length (encodeJournal demo_journal)) \<le> maxJournalBytes"
  "int (length (encode (marshal_profile demo_published))) + 1 \<le> maxProfileFileBytes"
  "encode (marshal_profile demo_published) @ [CHR 0x0A] \<noteq> encodeJournal demo_journal"
  by code_simp+

lemma demo_profile_decodes:
  "decode_profile demo_options ''p'' (encode (marshal_profile demo_published) @ [CHR 0x0A]) = Inr demo_published"
proof -
  have "(case rejectDuplicateKeys (marshal_profile demo_published) of Inl _ \<Rightarrow> False | Inr _ \<Rightarrow> True)" by code_simp
  then have "rejectDuplicateKeys (marshal_profile demo_published) = Inr ()" by (auto split: sum.splits)
  moreover have "unmarshal_profile (marshal_profile demo_published) = Some demo_published" by code_simp
  ultimately show ?thesis
    using demo_valid demo_sizes(3) by (simp add: decode_profile_def demo_options_def)
qed

subsection \<open>Runs\<close>

lemmas runs =
  io_bind_def io_or_def io_then_def [abs_def] io_finally_def io_map_error_def io_of_def
  syscall_def interfere_def Geteuid_def ask_world_def take_lock_def drop_lock_def randomStagingName_def
  inspect_def [THEN fun_cong] validateOwnedDirectory_def [THEN fun_cong] validatePrivateFile_def [THEN fun_cong]
  openDirNoFollow_def [THEN fun_cong] ensurePrivateChild_def [THEN fun_cong] EnsurePrivateDir_def [THEN fun_cong]
  publish_staged_def [THEN fun_cong] WritePrivateFile_def [THEN fun_cong] RemovePrivateFile_def [THEN fun_cong]
  ReadPrivateFile_def [THEN fun_cong] openProfileHandles_def [THEN fun_cong] validateProfileHandle_def [THEN fun_cong]
  classifyProfileOpenError_def [THEN fun_cong] readProfileFile_def [THEN fun_cong] Load_def [THEN fun_cong]
  Publish_def [THEN fun_cong] prepareStaging_def [THEN fun_cong] removeJournal_def [THEN fun_cong] loadJournal_def [THEN fun_cong]
  withPublicationLock_def [THEN fun_cong] OpenSession_def [THEN fun_cong] session_Close_def [THEN fun_cong]
  session_Ready_def [THEN fun_cong] session_Token_def [THEN fun_cong] session_Release_def [THEN fun_cong]
  session_Commit_def [THEN fun_cong] newOwner_def [THEN fun_cong] claimBootstrapLease_def [THEN fun_cong]
  claim_session_def [THEN fun_cong] openClaimedSession_def [THEN fun_cong] work_lost_def [THEN fun_cong]
  reviewed_profile_def [THEN fun_cong] lease_gate_def [THEN fun_cong] publish_locked_def [THEN fun_cong]
  authorize_def [THEN fun_cong] publish_candidate_def [THEN fun_cong] Bootstrap_Run.finish_def [THEN fun_cong]

lemmas files = open_directory_def open_file_def create_file_def write_file_def link_file_def unlink_file_def make_directory_def
  open_lock_def row_at_def put_row_def del_row_def child_def profiles_dir_def ProfilesDirName_def StagingDirName_def ProfileFileSuffix_def
  journalFile_def validateStagingName_def file_data_def stagingPath_def

lemma demo_fields:
  "ConfigDir demo_options = Inr ''/r/c''" "StateDir demo_options = Inr ''/r/c''" 
  "cf_dialect demo_options = demo_dialect" "cf_sha256 demo_options = (\<lambda>_. ''h'')"
  "ca_Name demo_candidate = ''p''" "ca_Template demo_candidate = demo_template" "pf_Name (shellProfile demo_candidate) = ''p''"
  "pf_Name demo_published = ''p''" "jr_Name demo_journal = ''p''" "jr_Stage demo_journal = stageAuthorized" "hex_encode ''r'' = ''72''"
  "tm_Operations demo_template = [demo_operation]"
  by (simp_all add: ConfigDir_def StateDir_def demo_options_def demo_candidate_def shellProfile_def demo_published_def demo_journal_def
      stageAuthorized_def demo_template_def) code_simp

lemma demo_limit: "0 < maxJournalBytes" by (simp add: maxJournalBytes_def)

lemma demo_split: "(case demo_catalog of (disc, tools) \<Rightarrow> f disc tools) = f (fst demo_catalog) (snd demo_catalog)"
  by (rule case_prod_beta)

lemma demo_cuts: "cut_last CHR ''/'' ''/r/c'' = Some (''/r'', ''c'')" "cut_last CHR ''/'' ''/r/c/bootstrap'' = Some (''/r/c'', ''bootstrap'')"
  "cut_last CHR ''/'' ''/r/c/profiles'' = Some (''/r/c'', ''profiles'')"
  by code_simp+

lemmas demo_runs = runs files demo_fields demo_boot_def demo_files_def demo_dir_def demo_cuts demo_journal_decodes demo_profile_decodes
  demo_complete demo_materialize demo_valid Let_def demo_limit demo_split

lemma demo_finish:
  "fst (Bootstrap_Run.finish demo_options demo_request demo_candidate demo_journal demo_boot) = Inr (createdResult demo_options ''p'')"
  using demo_sizes by (simp add: demo_runs)

lemma demo_publish:
  "fst (publish_locked demo_options demo_candidate demo_journal ''o'' 1 demo_published (demo_boot\<lparr>fw_locked := True\<rparr>)) = Inr ()"
  "row_at (fw_fs (snd (publish_locked demo_options demo_candidate demo_journal ''o'' 1 demo_published (demo_boot\<lparr>fw_locked := True\<rparr>))))
     ''/r/c/profiles/p.json'' \<noteq> None"
  using demo_sizes by (simp_all add: demo_runs)

end
