(* ===== verification/Bootstrap_Outcome.thy ===== *)
theory Bootstrap_Outcome
  imports Bootstrap_Review Bootstrap_Demo
begin

text \<open>
  What a bootstrap leaves behind: existing profiles are kept, the content of a profile file that was written or
  loaded, and what holds when a login reports a created profile.
\<close>

section \<open>Lemmas\<close>

subsection \<open>What is in a profile file\<close>

lemma syscall_Inr:
  assumes "syscall f w = (Inr x, w')"
  shows "fw_other w' = fw_other w" "\<exists>n l. f (fw_other w n l (fw_fs w)) = (Inr x, fw_fs w')"
  using assms by (auto simp: syscall_def interfere_def Let_def prod_eq_iff split: option.splits intro!: exI [of _ "fw_calls w"])

lemma inspect_Inr: "inspect f w = (Inr x, w') \<Longrightarrow> f (fw_fs w') = Inr x"
  unfolding inspect_def using syscall_Inr(2) by fastforce

text \<open>Other processes leave the files of a directory alone.\<close>

definition tidy_in :: "string \<Rightarrow> 'm file_world_scheme \<Rightarrow> bool" where
  "tidy_in dir w \<longleftrightarrow> (\<forall>n l fs f. stays (child dir f) fs (fw_other w n l fs))"

lemma tidy_fair: "tidy_in dir w \<Longrightarrow> fair_files (\<lambda>_. True) (stays (child dir f)) w"
  by (simp add: tidy_in_def fair_files_def)

lemma kept_step:
  assumes "keeps (files_follow (\<lambda>_. True) (stays (child dir f))) m" "m w = (r, w')" "tidy_in dir w"
  shows "tidy_in dir w'" "row_at (fw_fs w) (child dir f) = Some n \<Longrightarrow> row_at (fw_fs w') (child dir f) = Some n"
  using keepsD [OF assms(1,2)] tidy_fair [OF assms(3), of f] assms(3)
  by (auto simp: files_follow_def tidy_in_def stays_def)

lemma handle_regular: "validateProfileHandle n False w = (Inr u, w') \<Longrightarrow> \<exists>s. nd_kind n = Regular s"
  by (cases "nd_kind n") (auto simp: validateProfileHandle_def io_bind_Inr io_of_def io_map_error_Inr Geteuid_def result_simps
      dest!: inspect_Inr)

lemma private_regular: "validatePrivateFile n w = (Inr u, w') \<Longrightarrow> \<exists>s. nd_kind n = Regular s"
  by (cases "nd_kind n") (auto simp: validatePrivateFile_def io_bind_Inr io_of_def Geteuid_def result_simps)

lemma finally_Inr: "io_finally m g w = (Inr x, w') \<longleftrightarrow> (\<exists>w1. m w = (Inr x, w1) \<and> w' = snd (g w1))"
  by (auto simp: io_finally_def split: prod.splits)

lemma read_profile_result:
  assumes "readProfileFile dir base w = (Inr data, w')" "tidy_in dir w"
  shows "\<exists>n. row_at (fw_fs w') (child dir base) = Some n \<and> nd_kind n = Regular data"
proof -
  let ?k = "keeps (files_follow (\<lambda>_. True) (stays (child dir base)))"
  let ?rest = "\<lambda>(parent, node).
     io_bind (validateProfileHandle parent True) (\<lambda>_.
     io_bind (validateProfileHandle node False) (\<lambda>_.
     io_bind (io_map_error (wrap ''inspect profile file'') (inspect (\<lambda>_. Inr node))) (\<lambda>info.
     io_bind (io_of (ensure (int (length (file_data info)) \<le> maxProfileFileBytes) (errors_New ''profile exceeds the limit''))) (\<lambda>_.
     io_bind (inspect (\<lambda>_. Inr (file_data node))) (\<lambda>data.
     io_of (rbind (ensure (int (length data) \<le> maxProfileFileBytes) (errors_New ''profile exceeds the limit'')) (\<lambda>_. Inr data)))))))"
  have refused: "fst (classifyProfileOpenError path e w1 :: (go_error + string) \<times> 'a file_world_scheme) \<noteq> Inr data" for path e w1
    by (auto simp: classifyProfileOpenError_def io_or_def split: prod.splits sum.splits)
  have "io_or (openProfileHandles dir base) (classifyProfileOpenError (child dir base)) ?rest w = (Inr data, w')"
    using assms(1) by (simp add: readProfileFile_def)
  then obtain parent node w1 where o1: "openProfileHandles dir base w = (Inr (parent, node), w1)" and rest: "?rest (parent, node) w1 = (Inr data, w')"
    using refused by (auto simp: io_or_def split: prod.splits sum.splits) (metis fst_conv)+
  have "?k (openProfileHandles dir base)" unfolding openProfileHandles_def by (intro kept.file_rules)
  then have tidy: "tidy_in dir w1" using o1 assms(2) by (rule kept_step)
  from o1 have found: "row_at (fw_fs w1) (child dir base) = Some node"
    by (auto simp: openProfileHandles_def io_bind_Inr open_file_def dest!: inspect_Inr split: option.splits node_kind.splits)
  from rest have "data = file_data node" "\<exists>s. nd_kind node = Regular s"
    by (auto simp: io_bind_Inr io_of_def io_map_error_Inr result_simps dest: handle_regular dest!: inspect_Inr)
  moreover have k: "?k (?rest (parent, node))" unfolding split_def by (intro kept.file_rules kept.keeps_validate)
  ultimately show ?thesis using kept_step(2) [OF k rest tidy found] by (auto simp: file_data_def)
qed

lemma load_result:
  assumes "Load cf name w = (Inr p, w')" "ConfigDir cf = Inr dir" "tidy_in (profiles_dir dir) w"
  shows "\<exists>n data. row_at (fw_fs w') (profile_file cf name) = Some n \<and> nd_kind n = Regular data \<and> decode_profile cf name data = Inr p"
proof -
  from assms(1,2) obtain data where "readProfileFile (profiles_dir dir) (name @ ProfileFileSuffix) w = (Inr data, w')"
    "decode_profile cf name data = Inr p"
    by (auto simp: Load_def io_bind_Inr io_of_def io_map_error_Inr)
  with read_profile_result assms(3) show ?thesis by (fastforce simp: profile_file_def assms(2))
qed

lemma write_new_result:
  assumes "WritePrivateFile dir name data False w = (Inr u, w')" "tidy_in dir w"
  shows "\<exists>n. row_at (fw_fs w') (child dir name) = Some n \<and> nd_kind n = Regular data"
proof -
  obtain parent buf tmp euid w1 w2 w3 w4 w5 w6 w7 w8 w9 where
    steps: "openDirNoFollow dir w = (Inr parent, w1)" "validateOwnedDirectory parent True w1 = (Inr (), w2)"
      "randomStagingName name w2 = (Inr tmp, w3)" "tmp = ''.'' @ name @ ''.'' @ hex_encode buf @ ''.tmp''"
      "syscall (create_file euid (child dir tmp)) w3 = (Inr (), w4)" "syscall (write_file (child dir tmp) data) w4 = (Inr (), w5)"
      "inspect (\<lambda>_. Inr () :: go_error + unit) w5 = (Inr (), w6)" "syscall (link_file (child dir tmp) (child dir name)) w6 = (Inr (), w7)"
      "w8 = snd (inspect (\<lambda>_. Inr () :: go_error + unit) w7)" "w' = snd (syscall (unlink_file (child dir tmp)) w8)"
    using assms(1) that
    by (fastforce simp: WritePrivateFile_def io_bind_Inr io_of_def io_map_error_Inr Geteuid_def finally_Inr publish_staged_def io_then_def
        randomStagingName_def result_simps)
  let ?T = "child dir tmp"
  have other: "?T \<noteq> child dir name" using arg_cong [of tmp name length] by (auto simp: child_def steps(4))
  have "tidy_in dir w1" by (rule kept_step [OF kept.keeps_open steps(1) assms(2)])
  then have "tidy_in dir w2" by (rule kept_step [OF kept.keeps_validate(1) steps(2)])
  then have t3: "tidy_in dir w3" by (rule kept_step [OF kept.keeps_random steps(3)])
  then have t4: "tidy_in dir w4" by (rule kept_step [OF kept.keeps_make(2) steps(5)])
  have t5: "tidy_in dir w5" by (rule kept_step [OF kept.keeps_write(1) steps(6) t4]) (rule other)
  have t6: "tidy_in dir w6" by (rule kept_step [OF kept.keeps_inspect steps(7) t5])
  have t7: "tidy_in dir w7" by (rule kept_step [OF kept.keeps_link steps(8) t6])
  from syscall_Inr(2) [OF steps(5)] obtain n4 where r4: "row_at (fw_fs w4) ?T = Some n4" "nd_kind n4 = Regular []"
    by (auto simp: create_file_def split: if_splits) (metis fst_conv row_at_put node.select_convs(1))
  from syscall_Inr(2) [OF steps(6)] obtain i l where "write_file ?T data (fw_other w4 i l (fw_fs w4)) = (Inr (), fw_fs w5)" by blast
  moreover have "row_at (fw_other w4 i l (fw_fs w4)) ?T = Some n4" using t4 r4(1) by (simp add: tidy_in_def stays_def)
  ultimately have "row_at (fw_fs w5) ?T = Some (n4\<lparr>nd_kind := Regular data\<rparr>)"
    using r4(2) by (auto simp: write_file_def) (metis row_at_put)
  then have "row_at (fw_fs w6) ?T = Some (n4\<lparr>nd_kind := Regular data\<rparr>)"
    by (rule kept_step(2) [OF kept.keeps_inspect steps(7) t5])
  moreover from syscall_Inr(2) [OF steps(8)] obtain i l where
    "link_file ?T (child dir name) (fw_other w6 i l (fw_fs w6)) = (Inr (), fw_fs w7)" by blast
  ultimately have "row_at (fw_fs w7) (child dir name) = Some (n4\<lparr>nd_kind := Regular data\<rparr>)"
    using t6 by (auto simp: link_file_def tidy_in_def stays_def split: option.splits if_splits) (metis option.inject option.simps(3) row_at_put)+
  note r7 = this
  obtain r8 where s8: "inspect (\<lambda>_. Inr () :: go_error + unit) w7 = (r8, w8)" using steps(9) by (metis prod.collapse)
  obtain r9 where s9: "syscall (unlink_file ?T) w8 = (r9, w')" using steps(10) by (metis prod.collapse)
  have "row_at (fw_fs w8) (child dir name) = Some (n4\<lparr>nd_kind := Regular data\<rparr>)"
    by (rule kept_step(2) [OF kept.keeps_inspect s8 t7 r7])
  moreover have "tidy_in dir w8" by (rule kept_step(1) [OF kept.keeps_inspect s8 t7])
  ultimately have "row_at (fw_fs w') (child dir name) = Some (n4\<lparr>nd_kind := Regular data\<rparr>)"
    using kept_step(2) [OF kept.keeps_write(2) [of ?T] s9] other by blast
  then show ?thesis by simp
qed

subsection \<open>Results\<close>

text \<open>
  \<open>frame\<close>: a handler that keeps every profile file. \<open>delivers\<close>: what holds of the files when a handler
  returns a value, while other processes leave the profile directory alone.
\<close>

definition tidy_others :: "options \<Rightarrow> boot_world \<Rightarrow> bool" where
  "tidy_others op w \<longleftrightarrow> (\<exists>dir. ConfigDir op = Inr dir \<and> tidy_in (profiles_dir dir) w)"

definition frame :: "options \<Rightarrow> (boot_world \<Rightarrow> 'r \<times> boot_world) \<Rightarrow> bool" where
  "frame op m \<longleftrightarrow> (\<forall>name. keeps (files_follow (\<lambda>_. True) (stays (profile_file op name))) m)"

definition delivers :: "options \<Rightarrow> ('a \<Rightarrow> file_system \<Rightarrow> bool) \<Rightarrow> 'a boot \<Rightarrow> bool" where
  "delivers op Q m \<longleftrightarrow> (\<forall>w x w'. tidy_others op w \<longrightarrow> m w = (Inr x, w') \<longrightarrow> Q x (fw_fs w'))"

lemma frame_step:
  assumes "frame op m" "m w = (r, w')" "tidy_others op w"
  shows "tidy_others op w'" "stays (profile_file op name) (fw_fs w) (fw_fs w')"
proof -
  have f: "files_follow (\<lambda>_. True) (stays (profile_file op name)) w w'" for name
    using assms(1,2) unfolding frame_def by (metis keepsD)
  then show "tidy_others op w'" using assms(3) by (simp add: files_follow_def tidy_others_def tidy_in_def)
  show "stays (profile_file op name) (fw_fs w) (fw_fs w')"
    using f [of name] assms(3) tidy_fair by (fastforce simp: files_follow_def tidy_others_def profile_file_def)
qed

lemma delivers_bind:
  assumes "frame op m" "\<And>x w w'. m w = (Inr x, w') \<Longrightarrow> delivers op Q (f x)"
  shows "delivers op Q (io_bind m f)"
  using assms frame_step(1) unfolding delivers_def io_bind_Inr by metis

lemma delivers_or:
  assumes "frame op m" "\<And>e. delivers op Q (f e)" "\<And>x w w'. m w = (Inr x, w') \<Longrightarrow> delivers op Q (g x)"
  shows "delivers op Q (io_or m f g)"
  unfolding delivers_def
proof (intro allI impI)
  fix w x w' assume t: "tidy_others op w" and r: "io_or m f g w = (Inr x, w')"
  obtain y w1 where m: "m w = (y, w1)" by fastforce
  from frame_step(1) [OF assms(1) m t] r m assms(2,3) show "Q x (fw_fs w')"
    unfolding delivers_def io_or_def by (cases y) (fastforce+)
qed

lemma delivers_finally:
  assumes "delivers op Q m" "frame op m" "frame op g"
    and "\<And>x fs fs'. Q x fs \<Longrightarrow> \<forall>name. stays (profile_file op name) fs fs' \<Longrightarrow> Q x fs'"
  shows "delivers op Q (io_finally m g)"
  unfolding delivers_def finally_Inr
proof (intro allI impI, elim exE conjE)
  fix w x w' w1 assume t: "tidy_others op w" and m: "m w = (Inr x, w1)" and w': "w' = snd (g w1)"
  have "Q x (fw_fs w1)" using assms(1) t m by (auto simp: delivers_def)
  moreover have "stays (profile_file op name) (fw_fs w1) (fw_fs w')" for name
    using frame_step(2) [OF assms(3) _ frame_step(1) [OF assms(2) m t]] w' by (metis prod.collapse)
  ultimately show "Q x (fw_fs w')" using assms(4) by blast
qed

lemma delivers_fail: "delivers op Q (io_fail e)"
  by (simp add: delivers_def)

lemma delivers_return: "(\<And>fs. Q x fs) \<Longrightarrow> delivers op Q (io_return x)"
  by (simp add: delivers_def)

lemma delivers_if: "(b \<Longrightarrow> delivers op Q m) \<Longrightarrow> (\<not> b \<Longrightarrow> delivers op Q m') \<Longrightarrow> delivers op Q (if b then m else m')"
  by simp

lemmas frames = kept.keeps_load kept.keeps_session kept.keeps_gate prof.keeps_remove_journal kept.keeps_journal_read
  prof.keeps_authorize prof.keeps_publish_locked prof.keeps_collect prof.keeps_discard prof.keeps_finish prof.keeps_resume
  prof.keeps_reconcile kept.keeps_list kept.keeps_prompts kept.keeps_ask prof.keeps_publish_profile kept.keeps_of kept.keeps_return

lemma frameI: "(\<And>name. keeps (files_follow (\<lambda>_. True) (stays (profile_file op name))) m) \<Longrightarrow> frame op m"
  by (simp add: frame_def)

subsection \<open>Created profiles\<close>

text \<open>The profile a reviewed candidate stands for.\<close>

definition expected_profile :: "options \<Rightarrow> candidate \<Rightarrow> profile \<Rightarrow> bool" where
  "expected_profile op cand e \<longleftrightarrow>
     (\<exists>disc tools. Materialize (ca_Template cand) disc tools = Inr (tm_Operations (ca_Template cand)))
     \<and> completeProfile op (shellProfile cand) (tm_Operations (ca_Template cand)) = Inr e"

text \<open>The file holds a valid profile: the bytes of the expected one, or one with its digest.\<close>

definition holds_profile :: "options \<Rightarrow> string \<Rightarrow> profile \<Rightarrow> file_system \<Rightarrow> bool" where
  "holds_profile op name e fs \<longleftrightarrow>
     (\<exists>n data p. row_at fs (profile_file op name) = Some n \<and> nd_kind n = Regular data \<and> decode_profile op name data = Inr p
        \<and> (data = encode (marshal_profile e) @ [CHR 0x0A] \<or> samePublished op p e))"

text \<open>What a successful bootstrap of a candidate returns and leaves, and the same for a whole login.\<close>

definition finished :: "options \<Rightarrow> candidate \<Rightarrow> Result \<Rightarrow> file_system \<Rightarrow> bool" where
  "finished op cand r fs \<longleftrightarrow>
     r = createdResult op (ca_Name cand) \<and> (\<exists>e. expected_profile op cand e \<and> holds_profile op (ca_Name cand) e fs)"

definition created_ok :: "options \<Rightarrow> Result \<Rightarrow> file_system \<Rightarrow> bool" where
  "created_ok op r fs \<longleftrightarrow> (re_Created r \<longrightarrow>
     (\<exists>cand k e. ca_Name cand = re_Name r \<and> Lookup (cf_dialect op) (cf_sha256 op) k = Inr (ca_Template cand)
        \<and> expected_profile op cand e \<and> holds_profile op (re_Name r) e fs))"

lemma holds_stays: "holds_profile op name e fs \<Longrightarrow> stays (profile_file op name) fs fs' \<Longrightarrow> holds_profile op name e fs'"
  unfolding holds_profile_def stays_def by blast

lemma finished_stays: "finished op cand r fs \<Longrightarrow> \<forall>name. stays (profile_file op name) fs fs' \<Longrightarrow> finished op cand r fs'"
  unfolding finished_def using holds_stays by blast

lemma created_stays: "created_ok op r fs \<Longrightarrow> \<forall>name. stays (profile_file op name) fs fs' \<Longrightarrow> created_ok op r fs'"
  unfolding created_ok_def using holds_stays by blast

lemma materialize_same: "Materialize t disc tools = Inr ops \<Longrightarrow> ops = tm_Operations t"
proof -
  have "ops = ds" if "materialize_operations byName ds = Inr ops" for byName ds ops
    using that by (induction ds arbitrary: ops) (auto simp: result_simps split: option.splits)
  then show "Materialize t disc tools = Inr ops \<Longrightarrow> ops = tm_Operations t"
    by (auto simp: Materialize_def result_simps split: option.splits)
qed

lemma reviewed_result: "reviewed_profile op cand w = (Inr e, w') \<Longrightarrow> expected_profile op cand e"
  using materialize_same
  by (fastforce simp: reviewed_profile_def expected_profile_def io_bind_Inr io_of_def io_map_error_Inr)

lemma validate_again:
  assumes "completeProfile op p ops = Inr e"
  shows "Profile_Validate (cf_dialect op) (cf_sha256 op) e (pf_Name e) = Inr q \<Longrightarrow> q = e"
proof -
  from assms obtain d where "Profile_Validate (cf_dialect op) (cf_sha256 op) d (pf_Name p) = Inr e"
    by (auto simp: completeProfile_def Let_def result_simps)
  then have "validateScopes (pf_Version e) (pf_Scopes e) = Inr (pf_Scopes e)"
    by (auto simp: Profile_Validate_iff dest: validateScopes_again)
  then show "Profile_Validate (cf_dialect op) (cf_sha256 op) e (pf_Name e) = Inr q \<Longrightarrow> q = e"
    by (auto simp: Profile_Validate_iff)
qed

lemma publish_result:
  assumes "Publish op e w = (Inr u, w')" "expected_profile op cand e" "tidy_others op w"
  shows "holds_profile op (pf_Name e) e (fw_fs w')"
proof -
  obtain dir where dir: "ConfigDir op = Inr dir" "tidy_in (profiles_dir dir) w" using assms(3) by (auto simp: tidy_others_def)
  let ?name = "pf_Name e" and ?d = "profiles_dir dir"
  have same: "Profile_Validate (cf_dialect op) (cf_sha256 op) e (pf_Name e) = Inr q \<Longrightarrow> q = e" for q
    using assms(2) validate_again by (auto simp: expected_profile_def)
  from assms(1) dir(1) same obtain w1 w2 w3 p where
    steps: "EnsurePrivateDir dir w = (Inr (), w1)" "EnsurePrivateDir ?d w1 = (Inr (), w2)"
      "WritePrivateFile ?d (?name @ ProfileFileSuffix) (encode (marshal_profile e) @ [CHR 0x0A]) False w2 = (Inr (), w3)"
      "Load op ?name w3 = (Inr p, w')"
    by (auto simp: Publish_def io_bind_Inr io_of_def io_map_error_Inr)
  have t2: "tidy_in ?d w2" by (meson kept_step(1) kept.keeps_dir(2) steps(1,2) dir(2))
  from write_new_result [OF steps(3) t2] obtain n where
    n: "row_at (fw_fs w3) (profile_file op ?name) = Some n" "nd_kind n = Regular (encode (marshal_profile e) @ [CHR 0x0A])"
    by (auto simp: profile_file_def dir(1))
  have "keeps (files_follow (\<lambda>_. True) (stays (profile_file op ?name)))
      (WritePrivateFile ?d (?name @ ProfileFileSuffix) (encode (marshal_profile e) @ [CHR 0x0A]) False)"
    by (rule kept.keeps_write_private) (rule prof.free_tmp, simp)
  then have t3: "tidy_in ?d w3" using t2 steps(3) by (auto simp: tidy_in_def files_follow_def dest!: keepsD)
  have "row_at (fw_fs w') (profile_file op ?name) = Some n"
    using kept_step(2) [OF kept.keeps_load steps(4) t3] n(1) by (simp add: profile_file_def dir(1))
  moreover from load_result [OF steps(4) dir(1) t3] obtain m data where
    "row_at (fw_fs w') (profile_file op ?name) = Some m" "nd_kind m = Regular data" "decode_profile op ?name data = Inr p" by blast
  ultimately show ?thesis using n(2) by (auto simp: holds_profile_def)
qed

lemma Validate_name: "Profile_Validate dx sha256 p n = Inr q \<Longrightarrow> pf_Name q = n"
  by (auto simp: Profile_Validate_iff)

lemma expected_name: "expected_profile op cand e \<Longrightarrow> pf_Name e = ca_Name cand"
  by (auto simp: expected_profile_def completeProfile_def Let_def result_simps shellProfile_def dest!: Validate_name)

lemma delivers_first:
  assumes "delivers op (\<lambda>_. P) m" "frame op m" "\<And>x. frame op (f x)"
    and "\<And>fs fs'. P fs \<Longrightarrow> \<forall>name. stays (profile_file op name) fs fs' \<Longrightarrow> P fs'"
  shows "delivers op (\<lambda>_. P) (io_bind m f)"
  unfolding delivers_def io_bind_Inr
proof (intro allI impI, elim exE conjE)
  fix w y w' x w1 assume t: "tidy_others op w" and m: "m w = (Inr x, w1)" and f: "f x w1 = (Inr y, w')"
  then have "P (fw_fs w1)" using assms(1) by (auto simp: delivers_def)
  then show "P (fw_fs w')" using assms(4) frame_step(2) [OF assms(3) f frame_step(1) [OF assms(2) m t]] by blast
qed

lemma delivers_lock:
  assumes "delivers op Q fn" "frame op fn"
    and "\<And>x fs fs'. Q x fs \<Longrightarrow> \<forall>name. stays (profile_file op name) fs fs' \<Longrightarrow> Q x fs'"
  shows "delivers op Q (withPublicationLock op fn)"
  unfolding withPublicationLock_def
  by (rule delivers_bind [OF frameI], rule kept.keeps_staging, rule delivers_bind [OF frameI], rule kept.keeps_map_error,
      rule kept.keeps_open, rule delivers_bind [OF frameI], rule kept.keeps_euid, rule delivers_bind [OF frameI],
      rule kept.keeps_map_error, rule prof.keeps_lock_calls, rule delivers_bind [OF frameI], rule kept.keeps_map_error,
      rule prof.keeps_lock_calls, rule delivers_finally, rule assms(1), rule assms(2), rule frameI, rule prof.keeps_lock_calls,
      erule (1) assms(3))

lemma publish_locked_delivers:
  assumes "expected_profile op cand e"
  shows "delivers op (\<lambda>_. holds_profile op (ca_Name cand) e) (publish_locked op cand entry owner generation e)"
proof -
  have "delivers op (\<lambda>_. holds_profile op (ca_Name cand) e) (Publish op e)"
    using publish_result assms expected_name by (fastforce simp: delivers_def)
  then show ?thesis
    unfolding publish_locked_def
    by (intro delivers_bind delivers_if delivers_fail delivers_first frameI kept.keeps_or frames kept.keeps_bind kept.keeps_if)
      (auto intro: holds_stays)
qed

lemma delivers_mono: "delivers op Q m \<Longrightarrow> (\<And>x fs. Q x fs \<Longrightarrow> Q' x fs) \<Longrightarrow> delivers op Q' m"
  by (auto simp: delivers_def)

lemma created_finished:
  "Lookup (cf_dialect op) (cf_sha256 op) k = Inr (ca_Template cand) \<Longrightarrow> finished op cand r fs \<Longrightarrow> created_ok op r fs"
  by (auto simp: finished_def created_ok_def createdResult_def)

lemma reconcile_delivers:
  assumes "expected_profile op cand e"
  shows "delivers op (finished op cand) (reconcileWinner op cand e)"
proof -
  let ?rest = "\<lambda>loaded. if \<not> samePublished op loaded e then io_fail preserved
     else io_bind (io_map_error incomplete (OpenSession op loaded)) (\<lambda>_.
       io_finally
         (io_bind (io_or session_Ready (\<lambda>_. io_return False) io_return) (\<lambda>ready.
          if \<not> ready then io_fail (incomplete (errors_New ''published profile has no matching credential''))
          else io_bind (removeJournal op (ca_Name cand)) (\<lambda>_. io_return (createdResult op (ca_Name cand)))))
         session_Close)"
  have frame: "frame op (?rest loaded)" for loaded
    by (intro frameI kept.file_rules frames)
  have "finished op cand r (fw_fs w')" if t: "tidy_others op w" and r: "reconcileWinner op cand e w = (Inr r, w')" for w r w'
  proof -
    from r obtain loaded w1 where l: "Load op (ca_Name cand) w = (Inr loaded, w1)" and rest: "?rest loaded w1 = (Inr r, w')"
      by (auto simp: reconcileWinner_def io_bind_Inr io_map_error_Inr)
    from rest have same: "samePublished op loaded e" and r': "r = createdResult op (ca_Name cand)"
      by (auto simp: io_bind_Inr finally_Inr split: if_splits)
    have "holds_profile op (ca_Name cand) e (fw_fs w1)"
      using t l load_result same by (fastforce simp: tidy_others_def holds_profile_def)
    moreover have load: "frame op (Load op (ca_Name cand))" by (intro frameI frames)
    have "tidy_others op w1" by (rule frame_step(1) [OF load l t])
    ultimately have "holds_profile op (ca_Name cand) e (fw_fs w')"
      using holds_stays frame_step(2) [OF frame rest] by blast
    then show ?thesis using assms by (auto simp: finished_def r')
  qed
  then show ?thesis by (simp add: delivers_def)
qed

lemma delivers_or_return:
  assumes "delivers op (\<lambda>_. P) m" "frame op m" "\<And>e. delivers op Q (f e)" "\<And>fs. P fs \<Longrightarrow> Q y fs"
  shows "delivers op Q (io_or m f (\<lambda>_. io_return y))"
  unfolding delivers_def
proof (intro allI impI)
  fix w x w' assume t: "tidy_others op w" and r: "io_or m f (\<lambda>_. io_return y) w = (Inr x, w')"
  obtain z w1 where m: "m w = (z, w1)" by fastforce
  from frame_step(1) [OF assms(2) m t] r m t assms(1,3,4) show "Q x (fw_fs w')"
    unfolding delivers_def io_or_def by (cases z) (fastforce+)
qed

lemma publish_candidate_delivers: "delivers op (finished op cand) (publish_candidate op req cand entry (shellProfile cand) owner generation)"
proof -
  have last: "delivers op (finished op cand) (io_or (withPublicationLock op (publish_locked op cand entry owner generation full))
       (\<lambda>e. if errors_Is e ErrProfileExists then reconcileWinner op cand full else io_fail e)
       (\<lambda>_. io_return (createdResult op (ca_Name cand))))" if "expected_profile op cand full" for entry full
  proof (rule delivers_or_return)
    show "delivers op (\<lambda>_. holds_profile op (ca_Name cand) full) (withPublicationLock op (publish_locked op cand entry owner generation full))"
      by (rule delivers_lock [OF publish_locked_delivers [OF that] frameI], rule frames) (blast intro: holds_stays)
    show "frame op (withPublicationLock op (publish_locked op cand entry owner generation full))"
      by (intro frameI prof.keeps_lock frames)
    show "delivers op (finished op cand) (if errors_Is e ErrProfileExists then reconcileWinner op cand full else io_fail e)" for e
      by (intro delivers_if delivers_fail reconcile_delivers [OF that])
  qed (use that in \<open>auto simp: finished_def\<close>)
  show ?thesis unfolding publish_candidate_def
    by (rule delivers_bind [OF frameI], rule frames, rule delivers_bind [OF frameI], rule frames,
        rule delivers_bind [OF frameI], intro kept.keeps_or frames, rule delivers_if, rule delivers_fail,
        rule delivers_bind [OF frameI], rule frames, rule delivers_bind [OF frameI], rule frames,
        rule delivers_bind [OF frameI], rule frames, rule last, erule reviewed_result)
qed

lemma completePublished_delivers: "delivers op (finished op cand) (completePublished op cand loaded)"
  unfolding completePublished_def
  by (intro delivers_if delivers_fail delivers_bind delivers_finally frameI kept.file_rules frames)
    (auto intro: finished_stays reconcile_delivers dest: reviewed_result)

lemma finish_delivers: "delivers op (finished op cand) (finish op req cand entry)"
  unfolding finish_def split_def
  by (intro delivers_or delivers_if delivers_fail delivers_bind delivers_finally frameI kept.file_rules frames prof.keeps_publish_candidate
      publish_candidate_delivers completePublished_delivers)
    (auto intro: finished_stays)

lemma resume_delivers: "delivers op (created_ok op) (resume op req entry)"
proof -
  have rest: "delivers op (created_ok op)
      (io_bind (find_issuer op (Some (jr_Issuer entry)) (jr_Endpoint entry) (tm_Scopes tmpl)) (\<lambda>issuer.
       if issuer \<noteq> jr_Issuer entry then io_fail (failErr (errors_New ''advertised issuer no longer matches the bootstrap journal''))
       else let cand = \<lparr>ca_Name = jr_Name entry, ca_Origin = jr_Origin entry, ca_Endpoint = jr_Endpoint entry,
              ca_Issuer = issuer, ca_Template = tmpl\<rparr>
         in io_or (Load op (ca_Name cand)) (\<lambda>_. finish op req cand entry) (\<lambda>loaded. completePublished op cand loaded)))"
    if "Lookup (cf_dialect op) (cf_sha256 op) k = Inr tmpl" for k tmpl
    unfolding Let_def
    by (intro delivers_or delivers_if delivers_fail delivers_bind frameI frames delivers_mono [OF finish_delivers]
        delivers_mono [OF completePublished_delivers] created_finished [where k = k]) (simp_all add: that)
  show ?thesis unfolding resume_def
    by (rule delivers_bind [OF frameI], rule kept.keeps_of, rule delivers_bind [OF frameI], rule kept.keeps_of, rule rest)
      (auto simp: io_of_def)
qed

lemma candidate_reviewed: "collect op req w = (Inr cand, w') \<Longrightarrow> \<exists>k. Lookup (cf_dialect op) (cf_sha256 op) k = Inr (ca_Template cand)"
  by (auto simp: collect_def io_bind_Inr io_of_def)

lemma create_delivers: "delivers op (created_ok op) (create op req)"
proof -
  have rest: "delivers op (created_ok op) (io_bind (journalFor op (ca_Name cand)) (\<lambda>existing.
     case existing of
       Some entry \<Rightarrow> resume op req entry
     | None \<Rightarrow> io_bind (confirm op req cand) (\<lambda>_. io_bind (reserve op cand) (\<lambda>entry. finish op req cand entry))))"
    if "Lookup (cf_dialect op) (cf_sha256 op) k = Inr (ca_Template cand)" for k cand
  proof (rule delivers_bind [OF frameI], rule frames)
    fix existing
    have "delivers op (created_ok op) (io_bind (confirm op req cand) (\<lambda>_. io_bind (reserve op cand) (\<lambda>entry. finish op req cand entry)))"
      by (intro delivers_bind frameI prof.keeps_reserve delivers_mono [OF finish_delivers] created_finished [OF that])
    then show "delivers op (created_ok op) (case existing of
       Some entry \<Rightarrow> resume op req entry
     | None \<Rightarrow> io_bind (confirm op req cand) (\<lambda>_. io_bind (reserve op cand) (\<lambda>entry. finish op req cand entry)))"
      by (cases existing) (simp_all add: resume_delivers)
  qed
  show ?thesis unfolding create_def
    by (rule delivers_bind [OF frameI], rule frames, drule candidate_reviewed, elim exE, rule rest)
qed

lemma delivers_not_created: "delivers op (created_ok op) (login_existing p name)"
  by (auto simp: delivers_def login_existing_def io_bind_Inr created_ok_def)

lemma delivers_bind_value:
  assumes "delivers op Q1 m" "frame op m"
    and "\<And>x. delivers op Q (f x) \<or> (\<exists>y. f x = io_return y \<and> (\<forall>fs. Q1 x fs \<longrightarrow> Q y fs))"
  shows "delivers op Q (io_bind m f)"
  unfolding delivers_def io_bind_Inr
proof (intro allI impI, elim exE conjE)
  fix w y w' x w1 assume t: "tidy_others op w" and m: "m w = (Inr x, w1)" and f: "f x w1 = (Inr y, w')"
  have "Q1 x (fw_fs w1)" using assms(1) t m by (auto simp: delivers_def)
  moreover have "tidy_others op w1" by (rule frame_step(1) [OF assms(2) m t])
  ultimately show "Q y (fw_fs w')" using assms(3) [of x] f by (auto simp: delivers_def)
qed

lemma recover_delivers: "delivers op (\<lambda>r fs. case r of Some res \<Rightarrow> created_ok op res fs | None \<Rightarrow> True) (recoverOutstanding op req)"
proof -
  have resumed: "delivers op (\<lambda>r fs. case r of Some res \<Rightarrow> created_ok op res fs | None \<Rightarrow> True)
      (io_bind (resume op req entry) (\<lambda>r. io_return (Some r)))" for entry
    by (rule delivers_bind_value [OF resume_delivers frameI], rule frames) auto
  have chosen: "delivers op (\<lambda>r fs. case r of Some res \<Rightarrow> created_ok op res fs | None \<Rightarrow> True)
      (io_bind (io_map_error failErr (loadJournal op name)) (\<lambda>entry.
       if b then io_bind (discard op entry) (\<lambda>_. io_return None) else io_bind (resume op req entry) (\<lambda>r. io_return (Some r))))" for name b
  proof (rule delivers_bind [OF frameI])
    show "keeps (files_follow (\<lambda>_. True) (stays (profile_file op f))) (io_map_error failErr (loadJournal op name))" for f
      by (intro kept.keeps_map_error frames)
    have "delivers op (\<lambda>r fs. case r of Some res \<Rightarrow> created_ok op res fs | None \<Rightarrow> True) (io_bind (discard op entry) (\<lambda>_. io_return None))" for entry
      by (rule delivers_bind [OF frameI], rule prof.keeps_discard, simp add: delivers_return)
    then show "delivers op (\<lambda>r fs. case r of Some res \<Rightarrow> created_ok op res fs | None \<Rightarrow> True)
       (if b then io_bind (discard op entry) (\<lambda>_. io_return None) else io_bind (resume op req entry) (\<lambda>r. io_return (Some r)))" for entry
      using resumed by simp
  qed
  have asked: "delivers op (\<lambda>r fs. case r of Some res \<Rightarrow> created_ok op res fs | None \<Rightarrow> True)
      (io_bind (prompt_choose op label choices) (\<lambda>index. if P index then io_return None else f index))"
    if "\<And>index. delivers op (\<lambda>r fs. case r of Some res \<Rightarrow> created_ok op res fs | None \<Rightarrow> True) (f index)" for label choices P f
    by (rule delivers_bind [OF frameI], rule frames, rule delivers_if, simp add: delivers_return, rule that)
  have "frame op (io_map_error failErr (listJournals op))" by (intro frameI kept.keeps_map_error frames)
  then show ?thesis unfolding recoverOutstanding_def Let_def
    by (rule delivers_bind) (auto intro!: delivers_return delivers_fail asked chosen)
qed

lemma run_delivers: "delivers op (created_ok op) (Run op req)"
proof -
  have named: "delivers op (created_ok op) (runNamed op req)"
    unfolding runNamed_def
    by (intro delivers_bind delivers_or delivers_if delivers_fail frameI kept.file_rules frames create_delivers delivers_not_created)
  have menu: "delivers op (created_ok op) (runMenu op req)"
    unfolding runMenu_def
    by (intro delivers_bind delivers_if frameI kept.keeps_map_error frames prof.keeps_menus create_delivers delivers_not_created)
  have "delivers op (created_ok op) (io_bind (recoverOutstanding op req) (\<lambda>r.
       case r of
         Some result \<Rightarrow> io_return result
       | None \<Rightarrow>
           if rq_ProfileSet req then runNamed op req
           else if \<not> op_Interactive op
             then if \<not> rq_AddressSet req then io_fail (usageErr (errors_New ''login requires --profile or --address''))
                  else create op req
           else runMenu op req))" (is "delivers _ _ (io_bind _ ?f)")
  proof (rule delivers_bind_value [OF recover_delivers frameI], rule prof.keeps_menus)
    show "delivers op (created_ok op) (?f r) \<or> (\<exists>y. ?f r = io_return y
        \<and> (\<forall>fs. (case r of Some res \<Rightarrow> created_ok op res fs | None \<Rightarrow> True) \<longrightarrow> created_ok op y fs))" for r
    proof (cases r)
      case None
      have "delivers op (created_ok op) (?f None)" by (auto intro: delivers_fail named menu create_delivers)
      with None show ?thesis by blast
    qed auto
  qed
  then show ?thesis unfolding Run_def
    by (intro delivers_bind [of op context_done] delivers_if delivers_fail frameI frames)
qed

section \<open>Properties\<close>

text \<open>
  C33: A login never changes a profile that exists. Whatever the user asks for and whatever the session,
  the servers and the system calls answer, the file of every existing profile is byte for byte the same
  after \<open>Run\<close>, with its owner and permissions, as long as other processes leave it alone.
\<close>

theorem profiles_preserved:
  assumes "\<forall>n l fs. stays (profile_file op name) fs (fw_other w n l fs)"
    and "row_at (fw_fs w) (profile_file op name) = Some file"
  shows "row_at (fw_fs (snd (Run op req w))) (profile_file op name) = Some file"
proof -
  have "fair_files (\<lambda>_. True) (stays (profile_file op name)) w" using assms(1) by (simp add: fair_files_def)
  then have "stays (profile_file op name) (fw_fs w) (fw_fs (snd (Run op req w)))"
    using prof.keeps_run unfolding keeps_def files_follow_def by blast
  with assms(2) show ?thesis by (simp add: stays_def)
qed

theorem profiles_preserved_witness:
  "row_at (fw_fs (snd (Run demo_options demo_request
     (demo_boot\<lparr>fw_fs := (''/r/c/profiles/p.json'', \<lparr>nd_kind = Regular ''x'', nd_uid = 7, nd_perm = 0x180\<rparr>) # demo_files\<rparr>))))
     ''/r/c/profiles/p.json'' = Some \<lparr>nd_kind = Regular ''x'', nd_uid = 7, nd_perm = 0x180\<rparr>"
proof -
  let ?n = "\<lparr>nd_kind = Regular ''x'', nd_uid = 7, nd_perm = 0x180\<rparr>"
  let ?w = "demo_boot\<lparr>fw_fs := (''/r/c/profiles/p.json'', ?n) # demo_files\<rparr>"
  have path: "profile_file demo_options ''p'' = ''/r/c/profiles/p.json''"
    by (simp add: profile_file_def demo_fields files)
  have "\<forall>n l fs. stays (profile_file demo_options ''p'') fs (fw_other ?w n l fs)"
    "row_at (fw_fs ?w) (profile_file demo_options ''p'') = Some ?n"
    by (simp_all add: stays_def demo_boot_def path row_at_def)
  from profiles_preserved [OF this, of demo_request] show ?thesis by (simp only: path)
qed

text \<open>
  C34: When a bootstrap succeeds, the file of the profile holds what was reviewed against the live server. In
  this run, with the token the session gave, the catalog of the candidate's endpoint was read; its answer
  supports the protocol, has the reviewed instructions and the tasks extension where the template needs it, and
  offers every operation of the template under its name without drift in schemas and annotations. The profile
  completed from these operations validates, and the file decodes to a valid profile and is the encoding of
  exactly that profile, or carries its digest. Other processes may do anything but change existing files of the
  profile directory.
\<close>

theorem created_profile_reviewed:
  assumes "ConfigDir op = Inr dir" "\<forall>n l fs f. stays (child (profiles_dir dir) f) fs (fw_other w n l fs)"
    and "Bootstrap_Run.finish op req cand entry w = (Inr r, w')"
  shows "re_Created r \<and> re_Name r = ca_Name cand
    \<and> (\<exists>n token disc tools e. fw_calls w \<le> n \<and> Suc n < fw_calls w' \<and> bw_Token w n = Inr token
         \<and> bw_ReadCatalog w (Suc n) (ca_Endpoint cand) token = Inr (Some disc, tools)
         \<and> wireVersion \<in> set (dr_SupportedVersions disc) \<and> dr_Instructions disc = tm_Instructions (ca_Template cand)
         \<and> (tm_RequiresTasks (ca_Template cand) \<longrightarrow> HasTaskExtension disc)
         \<and> (\<forall>d \<in> set (tm_Operations (ca_Template cand)).
              \<exists>tool. Some tool \<in> set tools \<and> ut_Name tool = d_Name d \<and> Drift d (normalizeLive tool d) = [])
         \<and> Materialize (ca_Template cand) (Some disc) tools = Inr (tm_Operations (ca_Template cand))
         \<and> completeProfile op (shellProfile cand) (tm_Operations (ca_Template cand)) = Inr e
         \<and> holds_profile op (ca_Name cand) e (fw_fs w'))"
proof -
  have "tidy_others op w" using assms(1,2) by (simp add: tidy_others_def tidy_in_def)
  then have "finished op cand r (fw_fs w')" using finish_delivers assms(3) by (auto simp: delivers_def)
  then obtain e where created: "re_Created r" "re_Name r = ca_Name cand" and
    e: "completeProfile op (shellProfile cand) (tm_Operations (ca_Template cand)) = Inr e" "holds_profile op (ca_Name cand) e (fw_fs w')"
    by (auto simp: finished_def expected_profile_def createdResult_def)
  from finish_reviews [of cand op req entry] assms(3) obtain n token disc' tools where
    read: "fw_calls w \<le> n" "Suc n < fw_calls w'" "bw_Token w n = Inr token"
      "bw_ReadCatalog w (Suc n) (ca_Endpoint cand) token = Inr (disc', tools)" and
    m: "Materialize (ca_Template cand) disc' tools = Inr (tm_Operations (ca_Template cand))"
    unfolding reviews_def reviewed_between_def by blast
  from materialize_exact [OF m] obtain disc where disc: "disc' = Some disc" by blast
  from materialize_exact [OF m] read m e created show ?thesis unfolding disc by auto
qed

theorem created_profile_reviewed_witness:
  "\<exists>r w' n. Bootstrap_Run.finish demo_options demo_request demo_candidate demo_journal demo_boot = (Inr r, w')
     \<and> re_Created r \<and> holds_profile demo_options ''p'' demo_published (fw_fs w') \<and> Suc n < fw_calls w'
     \<and> bw_ReadCatalog demo_boot (Suc n) ''https://h/mcp/app'' ''k'' = Inr demo_catalog
     \<and> (\<exists>tool. Some tool \<in> set (snd demo_catalog) \<and> ut_Name tool = d_Name demo_operation \<and> Drift demo_operation (normalizeLive tool demo_operation) = [])"
proof -
  obtain r w' where run: "Bootstrap_Run.finish demo_options demo_request demo_candidate demo_journal demo_boot = (Inr r, w')"
    using demo_finish by (metis prod.collapse)
  have tidy: "\<forall>n l fs f. stays (child (profiles_dir ''/r/c'') f) fs (fw_other demo_boot n l fs)"
    by (simp add: stays_def demo_boot_def)
  have answers: "bw_Token demo_boot = (\<lambda>_. Inr ''k'')" "bw_ReadCatalog demo_boot = (\<lambda>_ _ _. Inr demo_catalog)"
    by (simp_all add: demo_boot_def)
  from created_profile_reviewed [OF demo_fields(1) tidy run] obtain n disc tools where
    "re_Created r" "holds_profile demo_options ''p'' demo_published (fw_fs w')" "Suc n < fw_calls w'" and
    tools: "demo_catalog = (Some disc, tools)"
    "\<exists>tool. Some tool \<in> set tools \<and> ut_Name tool = d_Name demo_operation \<and> Drift demo_operation (normalizeLive tool demo_operation) = []"
    using demo_complete by (auto simp: demo_fields answers)
  moreover have "snd demo_catalog = tools" unfolding tools(1) by simp
  ultimately show ?thesis using run tools(2) by (intro exI [of _ r] exI [of _ w'] exI [of _ n]) (simp add: answers)
qed

text \<open>Whatever a login does before, a profile it reports as created belongs to a template of the release.\<close>

theorem login_created_reviewed:
  assumes "ConfigDir op = Inr dir" "\<forall>n l fs f. stays (child (profiles_dir dir) f) fs (fw_other w n l fs)"
    and "Run op req w = (Inr r, w')"
  shows "created_ok op r (fw_fs w')"
proof -
  have "tidy_others op w" using assms(1,2) by (simp add: tidy_others_def tidy_in_def)
  then show ?thesis using run_delivers assms(3) by (auto simp: delivers_def)
qed

end
