(* ===== verification/Bootstrap_Fence.thy ===== *)
theory Bootstrap_Fence
  imports Bootstrap_Outcome
begin

text \<open>
  The journal of an unfinished bootstrap: under the publication lock it guards the publication of the
  profile, and a discard that fails leaves it in place.
\<close>

section \<open>Properties\<close>

subsection \<open>The journal under the lock\<close>

definition journal_file :: "string \<Rightarrow> string \<Rightarrow> string" where
  "journal_file dir name = child (child dir StagingDirName) (journalFile name)"

lemma journal_result:
  assumes "loadJournal op name w = (Inr j, w')" "ConfigDir op = Inr dir" "fair_files ok (stays (journal_file dir name)) w"
  shows "\<exists>n data. row_at (fw_fs w') (journal_file dir name) = Some n \<and> nd_kind n = Regular data \<and> decodeJournal op data = Inr j"
proof -
  let ?J = "journal_file dir name" and ?R = "files_follow ok (stays (journal_file dir name))"
  let ?rest = "\<lambda>node. io_bind (inspect (\<lambda>_. Inr node)) (\<lambda>info.
     io_bind (validatePrivateFile info) (\<lambda>_.
     io_bind (inspect (\<lambda>_. Inr (file_data node))) (\<lambda>data.
     io_of (rbind (ensure (int (length data) \<le> maxJournalBytes) (errors_New ''exceeds the limit'')) (\<lambda>_. Inr data)))))"
  from assms(1,2) obtain parent node data w1 w2 w3 where
    steps: "openDirNoFollow (child dir StagingDirName) w = (Inr parent, w1)" "validateOwnedDirectory parent True w1 = (Inr (), w2)"
      "inspect (open_file ?J) w2 = (Inr node, w3)" and rest: "?rest node w3 = (Inr data, w')" and dec: "decodeJournal op data = Inr j"
    by (auto simp: loadJournal_def stagingPath_def ReadPrivateFile_def io_bind_Inr io_of_def journal_file_def)
  have fair: "fair_files ok (stays ?J) w3"
    using keepsD [OF kept.keeps_open steps(1), of ok ?J] keepsD [OF kept.keeps_validate(1) steps(2), of ok ?J]
      keepsD [OF kept.keeps_inspect steps(3), of ok ?J] assms(3) by (auto simp: files_follow_def)
  have found: "row_at (fw_fs w3) ?J = Some node"
    using inspect_Inr [OF steps(3)] by (auto simp: open_file_def split: option.splits node_kind.splits)
  have "keeps ?R (?rest node)" by (intro kept.file_rules kept.keeps_validate)
  then have "?R w3 w'" using rest by (rule keepsD)
  then have "row_at (fw_fs w') ?J = Some node" using fair found by (auto simp: files_follow_def stays_def)
  moreover have "data = file_data node" "\<exists>s. nd_kind node = Regular s"
    using rest by (auto simp: io_bind_Inr io_of_def result_simps dest: private_regular dest!: inspect_Inr)
  ultimately show ?thesis using dec by (auto simp: file_data_def)
qed

text \<open>
  C35: Publication is fenced. While this process holds the publication lock and the others respect it (they
  neither create the profile nor remove or change the journal), the profile appears only if the journal was
  read with the ID of this bootstrap, the session then confirmed the lease at the claimed generation, and
  the journal was still there when \<open>Publish\<close> started: a bootstrap that was discarded is never published.
\<close>

theorem publish_fenced:
  assumes "ConfigDir op = Inr dir" "fw_locked w"
    and "\<forall>n fs. stays (journal_file dir (ca_Name cand)) fs (fw_other w n True fs)"
    and "\<forall>n fs. stays_absent (profile_file op (ca_Name cand)) fs (fw_other w n True fs)"
    and "row_at (fw_fs w) (profile_file op (ca_Name cand)) = None"
    and "publish_locked op cand entry owner generation full w = (r, w')"
    and "row_at (fw_fs w') (profile_file op (ca_Name cand)) \<noteq> None"
  shows "\<exists>j w0 w1. loadJournal op (ca_Name cand) w = (Inr j, w0) \<and> jr_ID j = jr_ID entry
    \<and> lease_gate owner generation w0 = (Inr (), w1) \<and> bw_CommitLease w0 (fw_calls w0) LeaseName owner generation = Inr True
    \<and> fw_locked w1 \<and> row_at (fw_fs w1) (profile_file op (ca_Name cand)) = None
    \<and> (\<exists>n data. row_at (fw_fs w1) (journal_file dir (ca_Name cand)) = Some n \<and> nd_kind n = Regular data \<and> decodeJournal op data = Inr j)"
proof -
  let ?P = "profile_file op (ca_Name cand)" and ?J = "journal_file dir (ca_Name cand)"
  let ?A = "files_follow (\<lambda>l. l) (stays_absent ?P)" and ?K = "files_follow (\<lambda>l. l) (stays ?J)"
  have fair: "fair_files (\<lambda>l. l) (stays_absent ?P) w" "fair_files (\<lambda>l. l) (stays ?J) w"
    using assms(2-4) by (auto simp: fair_files_def)
  obtain x w0 where load: "loadJournal op (ca_Name cand) w = (x, w0)" by fastforce
  have a0: "fair_files (\<lambda>l. l) (stays_absent ?P) w0" "row_at (fw_fs w0) ?P = None"
    using keepsD [OF absent.keeps_journal_read(1) load, of "\<lambda>l. l" ?P] fair(1) assms(5) by (auto simp: files_follow_def stays_absent_def)
  have k0: "fair_files (\<lambda>l. l) (stays ?J) w0"
    using keepsD [OF kept.keeps_journal_read(1) load, of "\<lambda>l. l" ?J] fair(2) by (auto simp: files_follow_def)
  obtain j where j: "x = Inr j" "jr_ID j = jr_ID entry"
  proof (cases x)
    case (Inl e)
    then have "w' = w0" using load assms(6) by (simp add: publish_locked_def io_bind_def io_or_def)
    with a0 assms(7) show ?thesis by simp
  next
    case (Inr j)
    have "jr_ID j = jr_ID entry"
    proof (rule ccontr)
      assume "jr_ID j \<noteq> jr_ID entry"
      then have "w' = w0" using load Inr assms(6) by (simp add: publish_locked_def io_bind_def io_or_def)
      with a0 assms(7) show False by simp
    qed
    with Inr show ?thesis by (rule that)
  qed
  obtain y w1 where gate: "lease_gate owner generation w0 = (y, w1)" by fastforce
  have a1: "fair_files (\<lambda>l. l) (stays_absent ?P) w1" "row_at (fw_fs w1) ?P = None"
    using keepsD [OF absent.keeps_gate(1) gate, of "\<lambda>l. l" ?P] a0 by (auto simp: files_follow_def stays_absent_def)
  have y: "y = Inr ()"
  proof (cases y)
    case (Inl e)
    then have "w' = w1" using load j gate assms(6) by (simp add: publish_locked_def io_bind_def io_or_def)
    with a1 assms(7) show ?thesis by simp
  qed simp
  then have "bw_CommitLease w0 (fw_calls w0) LeaseName owner generation = Inr True"
    using gate by (auto simp: lease_gate_def io_bind_Inr io_map_error_Inr session_Commit_def ask_world_def split: if_splits)
  moreover have "\<exists>n data. row_at (fw_fs w1) ?J = Some n \<and> nd_kind n = Regular data \<and> decodeJournal op data = Inr j"
    using journal_result [OF load [unfolded j(1)] assms(1) fair(2)] keepsD [OF kept.keeps_gate(1) gate, of "\<lambda>l. l" ?J] k0
    by (auto simp: files_follow_def stays_def)
  ultimately show ?thesis using load j gate y a1 by (auto simp: fair_files_def)
qed

theorem publish_fenced_witness:
  "\<exists>j w0. loadJournal demo_options ''p'' (demo_boot\<lparr>fw_locked := True\<rparr>) = (Inr j, w0) \<and> jr_ID j = ''x''"
proof -
  let ?w = "demo_boot\<lparr>fw_locked := True\<rparr>"
  have files: "profile_file demo_options ''p'' = ''/r/c/profiles/p.json''"
    by (simp add: profile_file_def demo_fields files)
  obtain r w' where run: "publish_locked demo_options demo_candidate demo_journal ''o'' 1 demo_published ?w = (r, w')" by fastforce
  have "row_at (fw_fs w') (profile_file demo_options (ca_Name demo_candidate)) \<noteq> None"
    using demo_publish(2) run by (simp add: files demo_fields)
  moreover have "row_at (fw_fs ?w) (profile_file demo_options (ca_Name demo_candidate)) = None"
    by (simp add: files demo_fields demo_boot_def demo_files_def row_at_def)
  moreover have "fw_locked ?w" "\<forall>n fs. stays (journal_file ''/r/c'' (ca_Name demo_candidate)) fs (fw_other ?w n True fs)"
    "\<forall>n fs. stays_absent (profile_file demo_options (ca_Name demo_candidate)) fs (fw_other ?w n True fs)"
    by (simp_all add: stays_def stays_absent_def demo_boot_def)
  ultimately show ?thesis
    using publish_fenced [OF demo_fields(1), of ?w demo_candidate demo_journal "''o''" 1 demo_published r w'] run
    by (auto simp: demo_fields demo_journal_def)
qed

subsection \<open>Discarding\<close>

text \<open>A handler that keeps a relation whenever it returns an error.\<close>

definition fails_safely :: "('w \<Rightarrow> 'w \<Rightarrow> bool) \<Rightarrow> ('w \<Rightarrow> ('e + 'a) \<times> 'w) \<Rightarrow> bool" where
  "fails_safely R m \<longleftrightarrow> (\<forall>w e w'. m w = (Inl e, w') \<longrightarrow> R w w')"

context stateful
begin

lemma safe_keeps: "keeps R m \<Longrightarrow> fails_safely R m"
  unfolding fails_safely_def by (metis keepsD)

lemma safe_bind: "keeps R m \<Longrightarrow> (\<And>x. fails_safely R (f x)) \<Longrightarrow> fails_safely R (io_bind m f)"
  unfolding fails_safely_def io_bind_def using R_trans by (fastforce dest: keepsD split: prod.splits sum.splits)

lemma safe_or:
  assumes "keeps R m" "\<And>e. fails_safely R (f e)" "\<And>x. fails_safely R (g x)"
  shows "fails_safely R (io_or m f g)"
  unfolding fails_safely_def
proof (intro allI impI)
  fix w e w' assume r: "io_or m f g w = (Inl e, w')"
  obtain y w1 where m: "m w = (y, w1)" by fastforce
  with r assms(2,3) have "R w1 w'" by (cases y) (auto simp: io_or_def fails_safely_def)
  with keepsD [OF assms(1) m] show "R w w'" by (rule R_trans)
qed

lemma safe_total:
  assumes "fails_safely R m" "\<And>e. fails_safely R (f e)" "\<And>x w. \<exists>y w'. g x w = (Inr y, w')"
  shows "fails_safely R (io_or m f g)"
  unfolding fails_safely_def
proof (intro allI impI)
  fix w e w' assume r: "io_or m f g w = (Inl e, w')"
  obtain y w1 where m: "m w = (y, w1)" by fastforce
  show "R w w'"
  proof (cases y)
    case (Inl d)
    then have "R w w1" "R w1 w'" using r m assms(1,2) by (auto simp: io_or_def fails_safely_def)
    then show ?thesis by (rule R_trans)
  next
    case (Inr x)
    with r m assms(3) [of x w1] show ?thesis by (auto simp: io_or_def)
  qed
qed

lemma safe_bind_total:
  fixes m :: "'w \<Rightarrow> (go_error + 'a) \<times> 'w"
  assumes "fails_safely R m" "\<And>x w. \<exists>y w'. g x w = (Inr y, w')"
  shows "fails_safely R (io_bind m g)"
proof -
  have "io_bind m g = io_or m io_fail g" by (auto simp: io_bind_def io_or_def fun_eq_iff split: prod.splits sum.splits)
  then show ?thesis using safe_total [of m io_fail g] assms safe_keeps keeps_return(2) by metis
qed

lemma safe_map_error: "fails_safely R m \<Longrightarrow> fails_safely R (io_map_error h m)"
  unfolding fails_safely_def io_map_error_def by (fastforce split: prod.splits)

lemma safe_if: "(b \<Longrightarrow> fails_safely R m) \<Longrightarrow> (\<not> b \<Longrightarrow> fails_safely R m') \<Longrightarrow> fails_safely R (if b then m else m')"
  by simp

end

context file_client
begin

lemma safe_remove: "fails_safely (files_follow ok rel) (RemovePrivateFile dir name)"
proof -
  let ?R = "files_follow ok rel"
  have "snd (unlink_file p fs) = fs" if "fst (unlink_file p fs) = Inl e" for p fs e
    using that by (auto simp: unlink_file_def split: option.splits if_splits)
  then have "fails_safely ?R (syscall (unlink_file p))" for p
    unfolding fails_safely_def using follow_interfere by (auto simp: syscall_def Let_def prod_eq_iff split: option.splits)
  then have gone: "fails_safely ?R (io_or (syscall (unlink_file p))
       (\<lambda>e. if errors_Is e ENOENT then io_return () else io_fail (wrap ''remove'' e)) io_return)" for p
    by (rule safe_total) (auto intro!: safe_keeps keeps_return)
  have missing: "fails_safely ?R (if b then io_return () else io_fail e)" for b e
    by (intro safe_if safe_keeps keeps_return)
  show ?thesis unfolding RemovePrivateFile_def
    by (rule safe_bind, rule keeps_of, rule safe_or, rule keeps_open, rule missing, rule safe_bind, rule keeps_validate,
        rule safe_or, rule keeps_inspect, rule missing, rule safe_bind, rule keeps_map_error, rule keeps_inspect,
        rule safe_bind, rule keeps_inspect, rule safe_bind, rule keeps_validate, rule gone)
qed

end

text \<open>
  C36: A discard that fails can be repeated. Whichever step of a discard fails, reading the profile, opening the
  session, its lease, the logout, closing it, or deleting the state files, and also when the journal itself
  cannot be removed, the journal is unchanged, so the bootstrap is still listed and can be discarded again.
\<close>

theorem discard_failure_recoverable:
  assumes "ConfigDir op = Inr dir" "\<forall>n l fs. stays (journal_file dir (jr_Name entry)) fs (fw_other w n l fs)"
    and "row_at (fw_fs w) (journal_file dir (jr_Name entry)) = Some node"
    and "discardLocked op entry w = (Inl e, w')"
  shows "row_at (fw_fs w') (journal_file dir (jr_Name entry)) = Some node"
proof -
  let ?J = "journal_file dir (jr_Name entry)"
  let ?R = "files_follow (\<lambda>_. True) (stays ?J)"
  have J: "child d (f @ [c]) \<noteq> ?J" if "c \<noteq> CHR ''n''" for d f c
    using that arg_cong [of "child d (f @ [c])" ?J last] by (auto simp: journal_file_def child_def journalFile_def)
  have db: "keeps ?R (removeDatabase op (discard_profile entry))"
    unfolding removeDatabase_def database_files [OF prof.shell_database(2)]
    by (intro kept.keeps_bind kept.keeps_of kept.keeps_remove_files)
      (use J [of "CHR ''b''" _ "''default.d''"] J [of "CHR ''l''" _ "''default.db-wa''"] J [of "CHR ''m''" _ "''default.db-sh''"] in auto)
  have journal: "fails_safely ?R (removeJournal op (jr_Name entry))"
    unfolding removeJournal_def
    by (intro kept.safe_bind kept.keeps_of kept.safe_map_error kept.safe_remove)
  have state: "fails_safely ?R (discard_state op entry)"
    unfolding discard_state_def
    by (intro kept.safe_bind kept.safe_or kept.safe_if journal kept.keeps_map_error kept.keeps_session kept.keeps_ask db
        kept.safe_keeps [OF kept.keeps_then] kept.keeps_then kept.keeps_return)
  have "fails_safely ?R (discardLocked op entry)"
    unfolding discardLocked_def
    by (rule kept.safe_or, rule kept.keeps_load, intro kept.safe_if state kept.safe_keeps kept.keeps_return,
        rule kept.safe_bind_total, rule journal) (simp add: prompt_note_def)
  then have "?R w w'" using assms(4) by (auto simp: fails_safely_def)
  moreover have "fair_files (\<lambda>_. True) (stays ?J) w" using assms(2) by (simp add: fair_files_def)
  ultimately show ?thesis using assms(3) by (auto simp: files_follow_def stays_def)
qed

theorem discard_failure_recoverable_witness:
  "\<exists>e w'. discardLocked demo_options demo_journal (demo_boot\<lparr>bw_Logout := \<lambda>_. Inl (errors_New ''offline'')\<rparr>) = (Inl e, w')
     \<and> row_at (fw_fs w') ''/r/c/bootstrap/p.json'' \<noteq> None"
proof -
  let ?w = "demo_boot\<lparr>bw_Logout := \<lambda>_. Inl (errors_New ''offline'')\<rparr>"
  have "isl (fst (discardLocked demo_options demo_journal ?w))"
    by (simp add: demo_runs discardLocked_def [THEN fun_cong] discard_state_def [THEN fun_cong] session_Logout_def [THEN fun_cong])
  then obtain e w' where run: "discardLocked demo_options demo_journal ?w = (Inl e, w')"
    by (metis isl_def prod.collapse)
  have J: "journal_file ''/r/c'' (jr_Name demo_journal) = ''/r/c/bootstrap/p.json''"
    by (simp add: journal_file_def files demo_fields)
  have "\<forall>n l fs. stays (journal_file ''/r/c'' (jr_Name demo_journal)) fs (fw_other ?w n l fs)"
    by (simp add: stays_def demo_boot_def)
  moreover obtain node where "row_at (fw_fs ?w) (journal_file ''/r/c'' (jr_Name demo_journal)) = Some node"
    unfolding J by (simp add: demo_boot_def demo_files_def row_at_def)
  ultimately show ?thesis
    using discard_failure_recoverable [OF demo_fields(1) _ _ run] run unfolding J by fastforce
qed

end
