(* ===== verification/Spec2Isabelle.thy ===== *)
theory Spec2Isabelle
  imports Json_Canonical Store_Outcomes Worker_Pool Catalog_Validity Application_Outcome Task_Service Oauth_Safety Bootstrap_Fence
begin

text \<open>
  A verification development for Tama Link (\<open>github.com/kritama/tama-link\<close>), a bridge that accepts
  tool calls from an MCP client, keeps every accepted call durably in an encrypted SQLite state
  store, executes it under a lease, and lets the client wait for the outcome.

  \<^bold>\<open>The program.\<close> A client submits a call with a client request ID. The application resolves the tool,
  validates and canonicalises the arguments and asks the store to create the submission; the
  idempotency index makes a retry return the accepted submission. Execution is driven by the worker
  (\<open>local_replayable\<close> calls) or by the task runner (\<open>upstream_task\<close> calls); both move the submission
  through its state machine and publish the outcome under a lease, so that of several processes on
  the same database only the lease owner writes. A retention sweep clears payloads and later deletes
  tombstones. The endpoint, its pinned operation catalog and the limits come from a profile; the
  OAuth client discovers the authorization server, registers, and keeps a refresh credential whose
  rotation is fenced in the same database. A profile is created by an interactive login: a bootstrap
  reserves a journal, authorizes, compares the live catalog with a built-in template and publishes the
  profile file under a lease and a cross-process lock.

  \<^bold>\<open>Theories, in dependency order.\<close>

  \<^item> \<open>Prelude\<close>: Go's integer arithmetic (64-bit wrap-around, truncated division), results as a sum
    type with \<open>rbind\<close> and \<open>ensure\<close>, tables as association lists with the map laws as the locale
    \<open>keyed_table\<close>, and the collections \<open>result_simps\<close>, \<open>table_simps\<close>.
  \<^item> \<open>Contract\<close>: statuses, error codes, Go errors with wrapping and \<open>errors.Is\<close>
    (\<open>internal/contract\<close>).
  \<^item> \<open>Submission\<close>: the state machine (\<open>internal/submission\<close>): \<open>Allowed\<close> as code and \<open>moves\<close> as a
    relation.
  \<^item> \<open>Profile_Limits\<close>: profile limits, hard ceilings, the limits frozen with a submission
    (\<open>internal/limits\<close>, \<open>internal/store/accepted_limits.go\<close>).
  \<^item> \<open>Json\<close>, \<open>Json_Canonical\<close>: the duplicate-rejecting decoder, the canonical form, \<open>json.Marshal\<close>
    and the depth scan (\<open>internal/jsonvalue\<close>, \<open>internal/store/validation.go\<close>).
  \<^item> \<open>Store_Base\<close>: the five tables, sealed columns, transactions with faults, reading
    (\<open>schema.go\<close>, \<open>crypto.go\<close>, \<open>tx.go\<close>, \<open>submission_read.go\<close>).
  \<^item> \<open>Store_Lease\<close>, \<open>Store_Submission\<close>, \<open>Store_Events\<close>, \<open>Store_Retention\<close>, \<open>Store_Input\<close>,
    \<open>Store_Fence\<close>: the operations of \<open>internal/store\<close>, one definition each, split where the source
    has an inner step.
  \<^item> \<open>Store_Invariant\<close>, \<open>Store_Contract\<close>, \<open>Store_Runs\<close>: the database invariant \<open>db_inv\<close>, the relation
    \<open>row_step\<close> between two versions of a row, that every operation keeps the first and follows the
    second, and the locale \<open>durable_store\<close> that lifts both to operation histories, interpreted on the
    store's own operations.
  \<^item> \<open>Store_Properties\<close>, \<open>Store_Outcomes\<close>: what the store promises its clients.
  \<^item> \<open>Worker_Pool\<close>: the dispatch pool as a transition system (\<open>internal/worker/service.go\<close>): the loop, the
    callers, cancellation and the steps of each goroutine; at most \<open>MaxInFlight\<close> slots are held, and a waiting
    goroutine is served by its own steps or by those of any slot holder.
  \<^item> \<open>Worker_Run\<close>: one leased run and recovery (\<open>internal/worker/runner.go\<close>, \<open>renew.go\<close>).
  \<^item> \<open>Go_Json\<close>, \<open>Go_Url\<close>: what the program uses of \<open>encoding/json\<close> (decoding into structs), \<open>time\<close>
    (RFC 3339) and \<open>net/url\<close> (\<open>Parse\<close>, hosts and ports).
  \<^item> \<open>Catalog\<close>, \<open>Catalog_Schema\<close>, \<open>Catalog_Validity\<close>: descriptors, drift, the accepted schema dialect,
    the instance validator and its reference semantics (\<open>internal/catalog\<close>).
  \<^item> \<open>Upstream_Wire\<close>, \<open>Upstream_Tasks\<close>, \<open>Upstream_Stream\<close>: requests, decoders, event streams and
    subscriptions (\<open>internal/upstream\<close>); \<open>Adapter\<close>: verification of the live server and execution of
    pinned operations (\<open>internal/adapter/tama2026\<close>).
  \<^item> \<open>Handlers\<close>: functions on a state that may fail, and the locale \<open>stateful\<close> whose rules reduce a
    handler to its calls; \<open>Application_World\<close> interprets it for clients of the store.
  \<^item> \<open>Application_Bindings\<close>, \<open>Application_Submit\<close>, \<open>Application_Await\<close>, \<open>Application_Input\<close>,
    \<open>Application_Task\<close>: the submit and await handlers, input delivery and the task runner
    (\<open>internal/application\<close>), with the properties in \<open>Application_Delivery\<close> (what
    an input delivery sends and records), \<open>Application_Safety\<close> (no unsafe replay) and \<open>Application_Outcome\<close> (the
    outcome of a followed task is what the server said of it); \<open>Task_Service\<close>: the pool that runs the task runner, a refinement of
    \<open>Worker_Pool\<close>.
  \<^item> \<open>Profile\<close>: names, references, URLs, scopes, digests and validation (\<open>internal/profile\<close>).
  \<^item> \<open>Oauth_Metadata\<close>: discovery and scopes; \<open>Oauth_Client\<close>: credentials, tokens, refresh,
    registration, authorization and logout; \<open>Oauth_Safety\<close>: what they promise (\<open>internal/oauth\<close>).
  \<^item> \<open>Templates\<close>: the two reviewed catalogs and their comparison with the live server
    (\<open>internal/adapter/tama2026/template*.go\<close>).
  \<^item> \<open>Private_Files\<close>, \<open>Profile_Files\<close>: the file system with faults and other processes at every call, the
    private directories and files, and reading, publishing and listing profiles (\<open>private_unix.go\<close>,
    \<open>secure_file*.go\<close>, \<open>loader.go\<close>, \<open>publish.go\<close>, \<open>list.go\<close> of \<open>internal/profile\<close>); the locales \<open>file_reader\<close> and
    \<open>file_client\<close> state what a relation between two file systems needs to survive these operations.
  \<^item> \<open>Bootstrap\<close>, \<open>Bootstrap_Run\<close>: the whole login invocation (\<open>internal/bootstrap\<close>); \<open>Bootstrap_Roundtrip\<close>: the
    journal through its file and the printed command through the locale \<open>argument_reader\<close>, interpreted for a POSIX
    shell and for the Windows command line; \<open>Bootstrap_Safety\<close>: the locale \<open>boot_client\<close>, interpreted for the file of a
    profile; \<open>Bootstrap_Review\<close>: a bootstrap succeeds only after the live catalog it read passed the review; \<open>Bootstrap_Demo\<close>: a concrete run; \<open>Bootstrap_Outcome\<close>, \<open>Bootstrap_Fence\<close>: existing profiles are
    preserved, created ones are the reviewed ones, publication is fenced against discard, and a failed
    discard can be repeated.

  \<^bold>\<open>Modelling choices.\<close> Strings are byte strings. Go's \<open>int64\<close> and \<open>time.Duration\<close> are \<open>int\<close> with
  \<open>i64\<close> written out where the source can overflow. An operation takes an environment \<open>env\<close> (its
  clock reading, the state key, the profile limits, SHA-256, and a fault for each stage of a
  transaction) and the database and returns a result and the database; an error is a value, with its
  wrapped errors, and a rolled-back transaction returns the database it started from. SHA-256 is a
  parameter, its collisions are an explicit alternative. AES-GCM is a record of key, additional data
  and plaintext that opens exactly under the same key and additional data, which is what
  authenticated encryption promises. SQL statements are written out on the tables. The runner's store
  calls are interleaved with arbitrary actions of other processes.

  A handler is a function on a world: the database with, for each future call, its environment and what
  other processes do before it; upstream answers, random bytes and clock readings are indexed the same
  way. Goroutines of one handler are explicit interleavings (\<open>turn\<close>, \<open>task_step\<close>) or, where they only
  renew a lease, further actions of other processes. Code outside the repository is a parameter: the
  decimal library and the regular expressions of the schema dialect, the message decoder of the MCP
  library, HTTP round trips, the secure backend and SHA-256.

  In the bootstrap theories every system call and every call of the session is a step before which other
  processes may change the files, and each may fail; a file handle is the inode as it was opened.

  The only fuel is that of the JSON decoder: twice the number of tokens plus one, proved sufficient on
  every token stream. Loops that end by a timer or a context take the list of what ends each pause;
  the page ceiling of \<open>tools/list\<close> and the three attempts of a claim or release are the source's own.

  \<^bold>\<open>Not modelled.\<close> Opening the database file and its permission checks, the SQL text of schema
  creation, the Windows variants of the private files and of the publication lock, the HTTP transport,
  the credential backends, the browser hand-off and its loopback callback, the repair of old keyrings and
  the command line are calls of the operating system, a driver or a network service. The MCP server and
  the client view of the catalog only wrap the application for the MCP library. The acceptance package
  checks release evidence and is no part of the running program.
\<close>

end
